(* ===== verification/Prelude.thy ===== *)
theory Prelude
  imports Main "HOL-Library.Char_ord" "HOL-Library.List_Lexorder" "HOL-Library.Sublist"
begin

text \<open>
  Shared vocabulary of the development: what the operator uses of the Go language and of its
  standard library (strings, maps, slices, errors, durations), with the lemmas the components
  share. Nothing here is specific to one component.

  \<^item> A Go \<^verbatim>\<open>string\<close> is a byte string and is modelled by \<open>string\<close>.
  \<^item> A Go map is an association list that is strictly sorted by key (\<open>is_map\<close>). The
    representation is canonical (\<open>is_map_ext\<close>), so HOL equality of two maps is Go's
    \<^verbatim>\<open>DeepEqual\<close>, and a \<^verbatim>\<open>range\<close> loop is a recursion over the
    entries. Where the code tells a nil map or slice from an empty one the type is an
    \<open>option\<close>.
  \<^item> An error is a value of \<open>goerr\<close>; \<^verbatim>\<open>fmt.Errorf\<close> with
    \<^verbatim>\<open>%w\<close> is \<open>EWrap\<close>, and \<^verbatim>\<open>errors.Is\<close> looks through the
    wrapping.
\<close>

named_theorems gomap \<open>lookup and well-formedness laws of the map operations\<close>
named_theorems gostr \<open>laws of the string operations\<close>
named_theorems goerrs \<open>how wrapping interacts with the error predicates\<close>


section \<open>Strings\<close>

definition TrimPrefix :: "string \<Rightarrow> string \<Rightarrow> string" where
  "TrimPrefix s p = (if prefix p s then drop (length p) s else s)"

text \<open>\<^verbatim>\<open>strings.CutSuffix\<close>: \<open>None\<close> stands for \<^verbatim>\<open>ok = false\<close>.\<close>

definition CutSuffix :: "string \<Rightarrow> string \<Rightarrow> string option" where
  "CutSuffix s x = (if suffix x s then Some (take (length s - length x) s) else None)"

text \<open>\<^verbatim>\<open>_, after, _ := strings.Cut(s, sep)\<close> for a separator of one byte: what follows
  the first separator, and the empty string when there is none.\<close>

fun CutAfter :: "char \<Rightarrow> string \<Rightarrow> string" where
  "CutAfter c [] = []"
| "CutAfter c (x # xs) = (if x = c then xs else CutAfter c xs)"

text \<open>What follows the last separator; \<open>None\<close> when \<^verbatim>\<open>strings.LastIndex\<close> is
  negative.\<close>

fun AfterLast :: "char \<Rightarrow> string \<Rightarrow> string option" where
  "AfterLast c [] = None"
| "AfterLast c (x # xs) =
     (case AfterLast c xs of
        Some t \<Rightarrow> Some t
      | None \<Rightarrow> if x = c then Some xs else None)"

text \<open>ASCII case mapping, which is what \<^verbatim>\<open>strings.ToLower\<close> and
  \<^verbatim>\<open>strings.ToUpper\<close> do on the ASCII enum values they are used on.\<close>

definition char_lower :: "char \<Rightarrow> char" where
  "char_lower c = (let n = of_char c :: nat in if 65 \<le> n \<and> n \<le> 90 then char_of (n + 32) else c)"

definition char_upper :: "char \<Rightarrow> char" where
  "char_upper c = (let n = of_char c :: nat in if 97 \<le> n \<and> n \<le> 122 then char_of (n - 32) else c)"

definition ToLower :: "string \<Rightarrow> string" where
  "ToLower = map char_lower"

definition ToUpper :: "string \<Rightarrow> string" where
  "ToUpper = map char_upper"

fun Join :: "string list \<Rightarrow> string \<Rightarrow> string" where
  "Join [] sep = []"
| "Join [s] sep = s"
| "Join (s # t # ss) sep = s @ sep @ Join (t # ss) sep"

text \<open>Decimal rendering, as \<^verbatim>\<open>%d\<close> and \<^verbatim>\<open>strconv.Itoa\<close>.\<close>

definition digit_char :: "nat \<Rightarrow> char" where
  "digit_char d = char_of (48 + d)"

definition is_digit :: "char \<Rightarrow> bool" where
  "is_digit c \<longleftrightarrow> 48 \<le> (of_char c :: nat) \<and> (of_char c :: nat) \<le> 57"

definition digit_value :: "char \<Rightarrow> nat" where
  "digit_value c = of_char c - 48"

fun nat_dec :: "nat \<Rightarrow> string" where
  "nat_dec n = (if n < 10 then [digit_char n] else nat_dec (n div 10) @ [digit_char (n mod 10)])"

declare nat_dec.simps [simp del]

definition Itoa :: "int \<Rightarrow> string" where
  "Itoa i = (if i < 0 then CHR ''-'' # nat_dec (nat (- i)) else nat_dec (nat i))"

lemma of_char_digit: "d < 10 \<Longrightarrow> (of_char (digit_char d) :: nat) = 48 + d"
  by (simp add: digit_char_def)

lemma digit_char_simps [simp]: "d < 10 \<Longrightarrow> is_digit (digit_char d)" "d < 10 \<Longrightarrow> digit_value (digit_char d) = d"
  by (simp_all add: is_digit_def digit_value_def of_char_digit)

lemma digit_char_eq: "d < 10 \<Longrightarrow> e < 10 \<Longrightarrow> digit_char d = digit_char e \<longleftrightarrow> d = e"
  by (metis digit_char_simps(2))

lemma nat_dec_nonempty [simp]: "nat_dec n \<noteq> []"
  by (subst nat_dec.simps) simp

lemma nat_dec_digits: "list_all is_digit (nat_dec n)"
proof (induction n rule: nat_dec.induct)
  case (1 n)
  then show ?case by (subst nat_dec.simps) simp
qed

lemma Itoa_nonempty [simp]: "Itoa i \<noteq> []"
  by (simp add: Itoa_def)

lemma TrimPrefix_append [gostr, simp]: "TrimPrefix (p @ s) p = s"
  by (simp add: TrimPrefix_def)

lemma TrimPrefix_no_prefix [gostr]: "\<not> prefix p s \<Longrightarrow> TrimPrefix s p = s"
  by (simp add: TrimPrefix_def)

lemma CutSuffix_append [gostr, simp]: "CutSuffix (s @ x) x = Some s"
  by (simp add: CutSuffix_def suffix_def)

lemma CutSuffix_eq_Some: "CutSuffix s x = Some t \<longleftrightarrow> s = t @ x"
  by (auto simp: CutSuffix_def suffix_def)

lemma CutAfter_append [gostr]: "c \<notin> set s \<Longrightarrow> CutAfter c (s @ c # t) = t"
  by (induction s) auto

lemma AfterLast_eq_None [gostr]: "AfterLast c s = None \<longleftrightarrow> c \<notin> set s"
  by (induction s) (auto split: option.splits)

lemma AfterLast_eq_Some:
  "AfterLast c s = Some t \<longleftrightarrow> (\<exists>p. s = p @ c # t) \<and> c \<notin> set t"
proof (induction s)
  case Nil
  show ?case by simp
next
  case (Cons x s)
  have split: "(\<exists>p. x # s = p @ c # t) \<longleftrightarrow> (x = c \<and> s = t) \<or> (\<exists>p. s = p @ c # t)"
    by (auto simp: Cons_eq_append_conv)
  show ?case
  proof (cases "AfterLast c s")
    case None
    then have "c \<notin> set s" by (simp add: AfterLast_eq_None)
    with None show ?thesis by (auto simp: split)
  next
    case (Some u)
    with Cons.IH show ?thesis
      using AfterLast_eq_None [of c s] by (auto simp: split)
  qed
qed


section \<open>Errors\<close>

text \<open>The reasons of API status errors that the code tells apart, and the others.\<close>

datatype api_reason = NotFound | NoMatch | AlreadyExists | Conflict | OtherReason

text \<open>
  \<open>EApi\<close> is an error of the API machinery, \<open>ESentinel\<close> a package-level error value
  compared with \<^verbatim>\<open>errors.Is\<close>, \<open>EText\<close> any other error, and
  \<open>EWrap before e after\<close> is \<^verbatim>\<open>fmt.Errorf("before%wafter", e)\<close>.
\<close>

datatype goerr =
    EApi api_reason string
  | ESentinel string
  | EText string
  | EWrap string goerr string

fun error_root :: "goerr \<Rightarrow> goerr" where
  "error_root (EWrap _ e _) = error_root e"
| "error_root e = e"

fun Error :: "goerr \<Rightarrow> string" where
  "Error (EApi _ m) = m"
| "Error (ESentinel m) = m"
| "Error (EText m) = m"
| "Error (EWrap b e a) = b @ Error e @ a"

definition errors_Is :: "goerr \<Rightarrow> goerr \<Rightarrow> bool" where
  "errors_Is e target \<longleftrightarrow> error_root e = target"

definition IsNotFound :: "goerr \<Rightarrow> bool" where
  "IsNotFound e \<longleftrightarrow> (case error_root e of EApi NotFound _ \<Rightarrow> True | _ \<Rightarrow> False)"

definition IsNoMatchError :: "goerr \<Rightarrow> bool" where
  "IsNoMatchError e \<longleftrightarrow> (case error_root e of EApi NoMatch _ \<Rightarrow> True | _ \<Rightarrow> False)"

lemma errors_Is_simps [simp, goerrs]:
  "errors_Is (EWrap b e a) t = errors_Is e t"
  "errors_Is (EApi r m) t = (t = EApi r m)"
  "errors_Is (ESentinel m) t = (t = ESentinel m)"
  "errors_Is (EText m) t = (t = EText m)"
  by (auto simp: errors_Is_def)

lemma IsNotFound_simps [simp, goerrs]:
  "IsNotFound (EWrap b e a) = IsNotFound e"
  "IsNotFound (EApi r m) = (r = NotFound)"
  "\<not> IsNotFound (ESentinel m)"
  "\<not> IsNotFound (EText m)"
  by (auto simp: IsNotFound_def split: api_reason.splits)

lemma IsNoMatchError_simps [simp, goerrs]:
  "IsNoMatchError (EWrap b e a) = IsNoMatchError e"
  "IsNoMatchError (EApi r m) = (r = NoMatch)"
  "\<not> IsNoMatchError (ESentinel m)"
  "\<not> IsNoMatchError (EText m)"
  by (auto simp: IsNoMatchError_def split: api_reason.splits)

text \<open>\<^verbatim>\<open>x, err := f(); if err != nil { return err }\<close> without effects.\<close>

definition tryE :: "goerr + 'a \<Rightarrow> ('a \<Rightarrow> goerr + 'b) \<Rightarrow> goerr + 'b" where
  "tryE x f = (case x of Inl e \<Rightarrow> Inl e | Inr a \<Rightarrow> f a)"

lemma tryE_simps [simp, goerrs]: "tryE (Inl e) f = Inl e" "tryE (Inr a) f = f a"
  by (simp_all add: tryE_def)

lemma tryE_Inr [goerrs]: "tryE x f = Inr b \<longleftrightarrow> (\<exists>a. x = Inr a \<and> f a = Inr b)"
  by (simp add: tryE_def split: sum.split)


section \<open>Maps\<close>

type_synonym 'v gomap = "(string \<times> 'v) list"

definition is_map :: "('k::linorder \<times> 'v) list \<Rightarrow> bool" where
  "is_map m \<longleftrightarrow> sorted_wrt (<) (map fst m)"

text \<open>\<^verbatim>\<open>m[k] = v\<close>\<close>

fun map_put :: "'k::linorder \<Rightarrow> 'v \<Rightarrow> ('k \<times> 'v) list \<Rightarrow> ('k \<times> 'v) list" where
  "map_put k v [] = [(k, v)]"
| "map_put k v ((k', v') # m) =
     (if k < k' then (k, v) # (k', v') # m
      else if k = k' then (k, v) # m
      else (k', v') # map_put k v m)"

text \<open>\<^verbatim>\<open>delete(m, k)\<close>\<close>

definition map_del :: "'k \<Rightarrow> ('k \<times> 'v) list \<Rightarrow> ('k \<times> 'v) list" where
  "map_del k m = filter (\<lambda>kv. fst kv \<noteq> k) m"

text \<open>\<^verbatim>\<open>m[k]\<close> of a map of strings: the zero value when the key is missing.\<close>

definition map_get :: "string gomap \<Rightarrow> string \<Rightarrow> string" where
  "map_get m k = (case map_of m k of None \<Rightarrow> [] | Some v \<Rightarrow> v)"

text \<open>\<^verbatim>\<open>_, ok := m[k]\<close>\<close>

definition map_has :: "('k \<times> 'v) list \<Rightarrow> 'k \<Rightarrow> bool" where
  "map_has m k \<longleftrightarrow> map_of m k \<noteq> None"

definition map_of_entries :: "('k::linorder \<times> 'v) list \<Rightarrow> ('k \<times> 'v) list" where
  "map_of_entries kvs = fold (\<lambda>(k, v). map_put k v) kvs []"

lemma is_map_Nil [simp, gomap]: "is_map []"
  by (simp add: is_map_def)

lemma is_map_Cons: "is_map ((k, v) # m) \<longleftrightarrow> (\<forall>k'\<in>fst ` set m. k < k') \<and> is_map m"
  by (simp add: is_map_def)

lemma is_map_singleton [simp, gomap]: "is_map [(k, v)]"
  by (simp add: is_map_def)

lemma fst_map_put [gomap]: "fst ` set (map_put k v m) = insert k (fst ` set m)"
  by (induction k v m rule: map_put.induct) auto

lemma is_map_put [simp, gomap]: "is_map m \<Longrightarrow> is_map (map_put k v m)"
proof (induction k v m rule: map_put.induct)
  case (1 k v)
  then show ?case by simp
next
  case (2 k v k' v' m)
  then show ?case by (auto simp: is_map_Cons fst_map_put)
qed

lemma map_of_put [simp, gomap]: "map_of (map_put k v m) = (map_of m)(k \<mapsto> v)"
  by (induction k v m rule: map_put.induct) (auto simp: fun_eq_iff)

lemma map_put_neq_Nil [simp]: "map_put k v m \<noteq> []"
  by (cases m) (auto split: if_splits)

lemma map_of_filter_key: "map_of (filter (\<lambda>kv. P (fst kv)) m) = (\<lambda>k. if P k then map_of m k else None)"
  by (induction m) (auto simp: fun_eq_iff)

lemma is_map_filter [simp, gomap]: "is_map m \<Longrightarrow> is_map (filter P m)"
  unfolding is_map_def by (induction m) auto

lemma map_of_del [simp, gomap]: "map_of (map_del k m) = (map_of m)(k := None)"
  by (auto simp: map_del_def map_of_filter_key [of "\<lambda>x. x \<noteq> k"] fun_eq_iff)

lemma is_map_del [simp, gomap]: "is_map m \<Longrightarrow> is_map (map_del k m)"
  by (simp add: map_del_def)

lemma map_put_same: "is_map m \<Longrightarrow> map_of m k = Some v \<Longrightarrow> map_put k v m = m"
proof (induction k v m rule: map_put.induct)
  case (1 k v)
  then show ?case by simp
next
  case (2 k v k' v' m)
  then show ?case
    by (auto simp: is_map_Cons split: if_splits dest!: map_of_SomeD)
qed

lemma map_put_twice [simp]: "map_put k v (map_put k v m) = map_put k v m"
  by (induction k v m rule: map_put.induct) auto

lemma map_put_absorb [simp]:
  "k \<noteq> k' \<Longrightarrow> map_put k v (map_put k' v' (map_put k v m)) = map_put k' v' (map_put k v m)"
  by (induction k v m rule: map_put.induct) auto

lemma is_map_distinct: "is_map m \<Longrightarrow> distinct (map fst m)"
  by (simp add: is_map_def strict_sorted_iff)

lemma is_map_ext:
  assumes "is_map m" and "is_map m'" and "map_of m = map_of m'"
  shows "m = m'"
proof -
  have d: "distinct (map fst m)" "distinct (map fst m')"
    using assms(1,2) by (simp_all add: is_map_distinct)
  have s: "sorted (map fst m)" "sorted (map fst m')"
    using assms(1,2) by (simp_all add: is_map_def strict_sorted_iff)
  have e: "set m = set m'"
    using assms(3) map_of_eq_Some_iff [OF d(1)] map_of_eq_Some_iff [OF d(2)]
    by (metis subrelI subset_antisym)
  have "inj_on fst (set m)"
    using d(1) by (simp add: distinct_map)
  then show ?thesis
    using map_sorted_distinct_set_unique [of fst m m'] s d e by simp
qed

text \<open>Storing the entries of a list one after the other: the last one for a key wins.\<close>

lemma map_of_fold_put [gomap]:
  "map_of (fold (\<lambda>(k, v). map_put k v) kvs m) = map_of m ++ map_of (rev kvs)"
  by (induction kvs arbitrary: m) (auto simp: fun_eq_iff map_add_def split: option.splits)

lemma is_map_fold_put [simp, gomap]: "is_map m \<Longrightarrow> is_map (fold (\<lambda>(k, v). map_put k v) kvs m)"
  by (induction kvs arbitrary: m) auto

lemma is_map_of_entries [simp, gomap]: "is_map (map_of_entries kvs)"
  by (simp add: map_of_entries_def)

lemma map_of_rev_distinct:
  assumes "distinct (map fst kvs)"
  shows "map_of (rev kvs) = map_of kvs"
proof
  fix k
  have "distinct (map fst (rev kvs))"
    using assms by (simp add: rev_map [symmetric])
  then have "map_of (rev kvs) k = Some v \<longleftrightarrow> map_of kvs k = Some v" for v
    using assms by (simp add: map_of_eq_Some_iff)
  then show "map_of (rev kvs) k = map_of kvs k"
    by (metis option.exhaust)
qed

lemma map_of_entries_id: "is_map m \<Longrightarrow> map_of_entries m = m"
  by (rule is_map_ext)
    (simp_all add: map_of_entries_def map_of_fold_put map_of_rev_distinct is_map_distinct)

lemma map_of_map_of_entries: "distinct (map fst kvs) \<Longrightarrow> map_of (map_of_entries kvs) = map_of kvs"
  by (simp add: map_of_entries_def map_of_fold_put map_of_rev_distinct)

lemma map_of_fold_del [gomap]: "map_of (fold map_del ks m) = (\<lambda>k. if k \<in> set ks then None else map_of m k)"
  by (induction ks arbitrary: m) (auto simp: fun_eq_iff)

lemma is_map_fold_del [simp, gomap]: "is_map m \<Longrightarrow> is_map (fold map_del ks m)"
  by (induction ks arbitrary: m) auto

text \<open>The entries of a map whose key is \<open>f\<close>.\<close>

lemma filter_key_map:
  assumes "distinct (map fst m)"
  shows "map snd (filter (\<lambda>kv. fst kv = f) m) = (case map_of m f of None \<Rightarrow> [] | Some v \<Rightarrow> [v])"
  using assms
proof (induction m)
  case Nil
  then show ?case by simp
next
  case (Cons kv m)
  then show ?case
    by (cases kv) (auto simp: filter_empty_conv split: option.splits)
qed

end
