(* ===== verification/Programs.thy ===== *)
theory Programs
  imports Prelude
begin

text \<open>
  Effectful code. A controller talks to API servers (and to a cloud API) whose code is not part
  of the repository. A handler is therefore modelled by the calls it makes and by what it does
  with every possible answer: \<open>Call q k\<close> issues the request \<open>q\<close> and continues with
  \<open>k r\<close> on the response \<open>r\<close>. The servers stay a parameter: \<open>runs p tr a\<close>
  says that some server answers the calls of \<open>p\<close> as recorded in \<open>tr\<close>, so a statement
  about all \<open>runs\<close> holds for every server, every failure and every interleaving of other
  writers. \<open>exec\<close> runs a program against one given server.

  \<open>safe G p h Q\<close> is the program logic of the development: after the calls \<open>h\<close>, every
  call that \<open>p\<close> issues is allowed by the guard \<open>G\<close> (a predicate on the history so far),
  and \<open>Q\<close> holds for the final history and result.
\<close>

named_theorems prog_simps \<open>evaluation of programs\<close>
named_theorems safe_simps \<open>rules that step the program logic through a program\<close>


section \<open>Programs\<close>

datatype ('q, 'r, 'a) prog =
    Ret 'a
  | Call 'q "'r \<Rightarrow> ('q, 'r, 'a) prog"

primrec bind :: "('q, 'r, 'a) prog \<Rightarrow> ('a \<Rightarrow> ('q, 'r, 'b) prog) \<Rightarrow> ('q, 'r, 'b) prog" where
  "bind (Ret a) f = f a"
| "bind (Call q k) f = Call q (\<lambda>r. bind (k r) f)"

lemma bind_Ret [simp, prog_simps]: "bind p Ret = p"
  by (induction p) auto

lemma bind_assoc [prog_simps]: "bind (bind p f) g = bind p (\<lambda>a. bind (f a) g)"
  by (induction p) auto

text \<open>
  The error-returning calls of Go: \<^verbatim>\<open>x, err := p; if err != nil { return err }\<close> is
  \<open>bindE\<close>, and \<open>wrapE\<close> adds the \<^verbatim>\<open>fmt.Errorf("context: %w", err)\<close> of the
  early return.
\<close>

definition bindE ::
  "('q, 'r, goerr + 'a) prog \<Rightarrow> ('a \<Rightarrow> ('q, 'r, goerr + 'b) prog) \<Rightarrow> ('q, 'r, goerr + 'b) prog"
where
  "bindE p f = bind p (\<lambda>x. case x of Inl e \<Rightarrow> Ret (Inl e) | Inr a \<Rightarrow> f a)"

definition wrapE :: "string \<Rightarrow> ('q, 'r, goerr + 'a) prog \<Rightarrow> ('q, 'r, goerr + 'a) prog" where
  "wrapE ctx p = bind p (\<lambda>x. Ret (case x of Inl e \<Rightarrow> Inl (EWrap ctx e []) | Inr a \<Rightarrow> Inr a))"

text \<open>\<^verbatim>\<open>for _, x := range xs\<close> with an early return on the first error.\<close>

primrec forE :: "'x list \<Rightarrow> ('x \<Rightarrow> ('q, 'r, goerr + unit) prog) \<Rightarrow> ('q, 'r, goerr + unit) prog" where
  "forE [] f = Ret (Inr ())"
| "forE (x # xs) f = bindE (f x) (\<lambda>_. forE xs f)"

lemma bindE_Ret [simp, prog_simps]:
  "bindE (Ret (Inl e)) f = Ret (Inl e)"
  "bindE (Ret (Inr a)) f = f a"
  by (simp_all add: bindE_def)

lemma bindE_Call [simp, prog_simps]: "bindE (Call q k) f = Call q (\<lambda>r. bindE (k r) f)"
  by (simp add: bindE_def)

lemma wrapE_simps [simp, prog_simps]:
  "wrapE ctx (Ret (Inl e)) = Ret (Inl (EWrap ctx e []))"
  "wrapE ctx (Ret (Inr a)) = Ret (Inr a)"
  "wrapE ctx (Call q k) = Call q (\<lambda>r. wrapE ctx (k r))"
  by (simp_all add: wrapE_def)


section \<open>Runs\<close>

text \<open>All runs: the nondeterministic server.\<close>

inductive runs :: "('q, 'r, 'a) prog \<Rightarrow> ('q \<times> 'r) list \<Rightarrow> 'a \<Rightarrow> bool" where
  runs_Ret: "runs (Ret a) [] a"
| runs_Call: "runs (k r) tr a \<Longrightarrow> runs (Call q k) ((q, r) # tr) a"

inductive_simps runs_Ret_iff [simp, prog_simps]: "runs (Ret a) tr b"
inductive_simps runs_Call_iff: "runs (Call q k) tr a"
inductive_simps runs_Call_Cons [simp, prog_simps]: "runs (Call q k) (x # tr) a"
inductive_simps runs_Call_Nil [simp, prog_simps]: "runs (Call q k) [] a"

lemma runs_bind: "runs (bind p f) tr b \<longleftrightarrow> (\<exists>t u a. tr = t @ u \<and> runs p t a \<and> runs (f a) u b)"
proof (induction p arbitrary: tr)
  case (Ret a)
  then show ?case by auto
next
  case (Call q k)
  show ?case
  proof
    assume "runs (bind (Call q k) f) tr b"
    then obtain r tr' where tr: "tr = (q, r) # tr'" and "runs (bind (k r) f) tr' b"
      by (auto simp: runs_Call_iff)
    then obtain t u a where "tr' = t @ u" "runs (k r) t a" "runs (f a) u b"
      using Call.IH by blast
    with tr have "tr = ((q, r) # t) @ u \<and> runs (Call q k) ((q, r) # t) a \<and> runs (f a) u b"
      by simp
    then show "\<exists>t u a. tr = t @ u \<and> runs (Call q k) t a \<and> runs (f a) u b" by blast
  next
    assume "\<exists>t u a. tr = t @ u \<and> runs (Call q k) t a \<and> runs (f a) u b"
    then obtain r t u a where "tr = (q, r) # t @ u" "runs (k r) t a" "runs (f a) u b"
      by (auto simp: runs_Call_iff)
    then show "runs (bind (Call q k) f) tr b"
      using Call.IH by auto
  qed
qed

lemma runs_bindE:
  "runs (bindE p f) tr x \<longleftrightarrow>
     (\<exists>e. runs p tr (Inl e) \<and> x = Inl e) \<or>
     (\<exists>t u a. tr = t @ u \<and> runs p t (Inr a) \<and> runs (f a) u x)"
  by (auto simp: bindE_def runs_bind split_sum_ex)

lemma runs_wrapE:
  "runs (wrapE ctx p) tr x \<longleftrightarrow>
     (\<exists>e. runs p tr (Inl e) \<and> x = Inl (EWrap ctx e [])) \<or> (\<exists>a. runs p tr (Inr a) \<and> x = Inr a)"
  by (auto simp: wrapE_def runs_bind split_sum_ex)

text \<open>A loop that ends without an error has run its body to the end on every element.\<close>

lemma runs_forE:
  assumes "runs (forE xs f) tr (Inr ())" and "x \<in> set xs"
  shows "\<exists>h t u. tr = h @ t @ u \<and> runs (f x) t (Inr ())"
  using assms
proof (induction xs arbitrary: tr)
  case Nil
  then show ?case by simp
next
  case (Cons y ys)
  from Cons.prems(1) obtain t u where tr: "tr = t @ u" and t: "runs (f y) t (Inr ())"
    and u: "runs (forE ys f) u (Inr ())"
    by (auto simp: runs_bindE)
  show ?case
  proof (cases "x = y")
    case True
    with tr t have "tr = [] @ t @ u \<and> runs (f x) t (Inr ())" by simp
    then show ?thesis by blast
  next
    case False
    with Cons.prems(2) Cons.IH [OF u] obtain h v w where "u = h @ v @ w" "runs (f x) v (Inr ())" by auto
    with tr have "tr = (t @ h) @ v @ w \<and> runs (f x) v (Inr ())" by simp
    then show ?thesis by blast
  qed
qed

text \<open>One server: a function from requests and its own state to responses.\<close>

type_synonym ('q, 'r, 'w) server = "'q \<Rightarrow> 'w \<Rightarrow> 'r \<times> 'w"

primrec exec :: "('q, 'r, 'w) server \<Rightarrow> ('q, 'r, 'a) prog \<Rightarrow> 'w \<Rightarrow> 'a \<times> 'w" where
  "exec srv (Ret a) w = (a, w)"
| "exec srv (Call q k) w = (case srv q w of (r, w') \<Rightarrow> exec srv (k r) w')"

primrec calls :: "('q, 'r, 'w) server \<Rightarrow> ('q, 'r, 'a) prog \<Rightarrow> 'w \<Rightarrow> ('q \<times> 'r) list" where
  "calls srv (Ret a) w = []"
| "calls srv (Call q k) w = (case srv q w of (r, w') \<Rightarrow> (q, r) # calls srv (k r) w')"

lemma exec_runs: "runs p (calls srv p w) (fst (exec srv p w))"
proof (induction p arbitrary: w)
  case (Ret a)
  then show ?case by simp
next
  case (Call q k)
  obtain r w' where "srv q w = (r, w')" by fastforce
  with Call.IH [OF rangeI, of r w'] show ?case by simp
qed

lemma exec_bind [prog_simps]:
  "exec srv (bind p f) w = (case exec srv p w of (a, w') \<Rightarrow> exec srv (f a) w')"
  by (induction p arbitrary: w) (auto split: prod.splits)

lemma exec_bindE [prog_simps]:
  "exec srv (bindE p f) w =
     (case exec srv p w of (Inl e, w') \<Rightarrow> (Inl e, w') | (Inr a, w') \<Rightarrow> exec srv (f a) w')"
  by (simp add: bindE_def exec_bind split: prod.splits sum.splits)

lemma exec_wrapE [prog_simps]:
  "exec srv (wrapE ctx p) w =
     (case exec srv p w of
        (Inl e, w') \<Rightarrow> (Inl (EWrap ctx e []), w')
      | (Inr a, w') \<Rightarrow> (Inr a, w'))"
  by (simp add: wrapE_def exec_bind split: prod.splits sum.splits)

lemma calls_bind [prog_simps]:
  "calls srv (bind p f) w =
     calls srv p w @ (case exec srv p w of (a, w') \<Rightarrow> calls srv (f a) w')"
  by (induction p arbitrary: w) (auto split: prod.splits)

lemma calls_bindE [prog_simps]:
  "calls srv (bindE p f) w =
     calls srv p w @ (case exec srv p w of (Inl e, w') \<Rightarrow> [] | (Inr a, w') \<Rightarrow> calls srv (f a) w')"
  by (simp add: bindE_def calls_bind split: prod.splits sum.splits)

lemma calls_wrapE [prog_simps]: "calls srv (wrapE ctx p) w = calls srv p w"
  by (simp add: wrapE_def calls_bind split: prod.splits)


section \<open>The program logic\<close>

primrec safe ::
  "(('q \<times> 'r) list \<Rightarrow> 'q \<Rightarrow> bool) \<Rightarrow> ('q, 'r, 'a) prog \<Rightarrow> ('q \<times> 'r) list \<Rightarrow>
   (('q \<times> 'r) list \<Rightarrow> 'a \<Rightarrow> bool) \<Rightarrow> bool"
where
  "safe G (Ret a) h Q = Q h a"
| "safe G (Call q k) h Q = (G h q \<and> (\<forall>r. safe G (k r) (h @ [(q, r)]) Q))"

lemma safe_mono:
  assumes "safe G p h Q" and "\<And>h' a. Q h' a \<Longrightarrow> Q' h' a"
  shows "safe G p h Q'"
  using assms(1) by (induction p arbitrary: h) (auto intro: assms(2))

lemma safe_weaken_guard:
  assumes "safe G p h Q" and "\<And>h' q. G h' q \<Longrightarrow> G' h' q"
  shows "safe G' p h Q"
  using assms(1) by (induction p arbitrary: h) (auto intro: assms(2))

text \<open>The consequence rule may also use that the history only grows.\<close>

lemma safe_conseq:
  assumes "safe G p h Q"
    and "\<And>t a. runs p t a \<Longrightarrow> Q (h @ t) a \<Longrightarrow> Q' (h @ t) a"
  shows "safe G p h Q'"
  using assms
proof (induction p arbitrary: h)
  case (Ret a)
  then show ?case by (metis append_Nil2 runs_Ret safe.simps(1))
next
  case (Call q k)
  have "safe G (k r) (h @ [(q, r)]) Q'" for r
  proof (rule Call.IH [OF rangeI])
    show "safe G (k r) (h @ [(q, r)]) Q" using Call.prems(1) by simp
  next
    fix t a
    assume "runs (k r) t a" and "Q ((h @ [(q, r)]) @ t) a"
    then show "Q' ((h @ [(q, r)]) @ t) a"
      using Call.prems(2) [of "(q, r) # t" a] by simp
  qed
  with Call.prems(1) show ?case by simp
qed

lemma safe_extends: "safe G p h (\<lambda>_ _. True) \<Longrightarrow> safe G p h (\<lambda>h' _. \<exists>u. h' = h @ u)"
  by (erule safe_conseq) auto

lemma safe_any:
  assumes "safe G p h (\<lambda>_ _. True)" and "\<And>t a. runs p t a \<Longrightarrow> Q (h @ t) a"
  shows "safe G p h Q"
  using assms(1) by (rule safe_conseq) (auto intro: assms(2))

lemma safe_bind [safe_simps]:
  "safe G (bind p f) h Q = safe G p h (\<lambda>h' a. safe G (f a) h' Q)"
  by (induction p arbitrary: h) auto

lemma safe_bindE [safe_simps]:
  "safe G (bindE p f) h Q =
     safe G p h (\<lambda>h' x. case x of Inl e \<Rightarrow> Q h' (Inl e) | Inr a \<Rightarrow> safe G (f a) h' Q)"
  unfolding bindE_def safe_bind
  by (rule arg_cong [where f = "safe G p h"]) (auto simp: fun_eq_iff split: sum.splits)

lemma safe_wrapE [safe_simps]:
  "safe G (wrapE ctx p) h Q =
     safe G p h (\<lambda>h' x. Q h' (case x of Inl e \<Rightarrow> Inl (EWrap ctx e []) | Inr a \<Rightarrow> Inr a))"
  by (simp add: wrapE_def safe_bind)

text \<open>Soundness: what \<open>safe\<close> says holds in every run.\<close>

lemma safe_post:
  assumes "safe G p h Q" and "runs p tr a"
  shows "Q (h @ tr) a"
  using assms(2,1) by (induction arbitrary: h rule: runs.induct) fastforce+

lemma safe_guard:
  assumes "safe G p h Q" and "runs p tr a" and "tr = t @ (q, r) # u"
  shows "G (h @ t) q"
  using assms(2,1,3)
proof (induction arbitrary: h t rule: runs.induct)
  case (runs_Ret a)
  then show ?case by simp
next
  case (runs_Call k r' tr a q')
  show ?case
  proof (cases t)
    case Nil
    with runs_Call.prems show ?thesis by simp
  next
    case (Cons x t')
    then have x: "x = (q', r')" and tr: "tr = t' @ (q, r) # u"
      using runs_Call.prems(2) by auto
    have "G ((h @ [(q', r')]) @ t') q"
      using runs_Call.prems(1) tr by (intro runs_Call.IH) auto
    with Cons x show ?thesis by simp
  qed
qed

text \<open>A guard that does not look at the history may be checked run by run.\<close>

lemma runs_exists: "\<exists>tr a. runs p tr a"
  by (induction p) (use runs_Ret runs_Call rangeI in \<open>metis\<close>)+

lemma safe_of_runs:
  assumes "\<And>tr a q r. runs p tr a \<Longrightarrow> (q, r) \<in> set tr \<Longrightarrow> P q"
  shows "safe (\<lambda>_ q. P q) p h (\<lambda>_ _. True)"
  using assms
proof (induction p arbitrary: h)
  case (Ret a)
  show ?case by simp
next
  case (Call q k)
  have run: "runs (Call q k) ((q, r) # tr) a" if "runs (k r) tr a" for r tr a
    using that by (rule runs_Call)
  have "P q"
    using runs_exists [of "k undefined"] Call.prems [OF run] by fastforce
  moreover have "safe (\<lambda>_ q. P q) (k r) (h @ [(q, r)]) (\<lambda>_ _. True)" for r
    using Call.IH [of "k r"] Call.prems [OF run] by fastforce
  ultimately show ?case by simp
qed

text \<open>The one call of a kind, when it comes last.\<close>

lemma last_of_kind:
  assumes "xs @ [(q', r')] = t @ (q, r) # u" and "\<And>p s. (p, s) \<in> set xs \<Longrightarrow> \<not> W p" and "W q"
  shows "t = xs \<and> q = q' \<and> r = r' \<and> u = []"
proof (cases u rule: rev_cases)
  case Nil
  with assms(1) show ?thesis by auto
next
  case (snoc v y)
  with assms(1) have "xs = t @ (q, r) # v" by auto
  with assms(2,3) show ?thesis by auto
qed

text \<open>A loop keeps an invariant of the history that every iteration keeps.\<close>

lemma safe_forE:
  assumes "I h"
    and step: "\<And>x h. x \<in> set xs \<Longrightarrow> I h \<Longrightarrow> safe G (f x) h (\<lambda>h' y. I h')"
    and post: "\<And>h' y. I h' \<Longrightarrow> Q h' y"
  shows "safe G (forE xs f) h Q"
  using assms(1) step
proof (induction xs arbitrary: h)
  case Nil
  then show ?case by (simp add: post)
next
  case (Cons x xs)
  have "safe G (f x) h (\<lambda>h' y. I h')" by (simp add: Cons.prems)
  then show ?case
    unfolding forE.simps safe_bindE
  proof (rule safe_mono)
    fix h' and y :: "goerr + unit"
    assume "I h'"
    then show "case y of Inl e \<Rightarrow> Q h' (Inl e) | Inr a \<Rightarrow> safe G (forE xs f) h' Q"
      using Cons.IH [of h'] Cons.prems(2) post by (auto split: sum.splits)
  qed
qed

text \<open>A guard that holds of every call, whatever the history.\<close>

lemma safe_calls:
  assumes "safe (\<lambda>_ q. P q) p h Q" and "runs p tr a" and "(q, r) \<in> set tr"
  shows "P q"
proof -
  from assms(3) obtain t u where "tr = t @ (q, r) # u" by (meson split_list)
  from safe_guard [OF assms(1,2) this] show ?thesis .
qed


section \<open>Confined programs\<close>

text \<open>All calls of a program satisfy \<open>P\<close>, whatever the answers: the guards that do not look at the
  history, with the rules to go through a program.\<close>

definition confined :: "('q \<Rightarrow> bool) \<Rightarrow> ('q, 'r, 'a) prog \<Rightarrow> bool" where
  "confined P p \<longleftrightarrow> (\<forall>h. safe (\<lambda>_ q. P q) p h (\<lambda>_ _. True))"

named_theorems confined_rules \<open>programs all of whose calls satisfy a predicate\<close>

lemma confined_calls: "confined P p \<Longrightarrow> runs p tr a \<Longrightarrow> (q, r) \<in> set tr \<Longrightarrow> P q"
  using safe_calls [of P p "[]" "\<lambda>_ _. True" tr a q r] by (simp add: confined_def)

lemma confined_Ret [confined_rules]: "confined P (Ret a)"
  by (simp add: confined_def)

lemma confined_Call [confined_rules]: "P q \<Longrightarrow> (\<And>r. confined P (k r)) \<Longrightarrow> confined P (Call q k)"
  by (simp add: confined_def)

lemma confined_bind [confined_rules]: "confined P p \<Longrightarrow> (\<And>a. confined P (f a)) \<Longrightarrow> confined P (bind p f)"
  by (auto simp: confined_def safe_bind elim: safe_mono)

lemma confined_bindE [confined_rules]: "confined P p \<Longrightarrow> (\<And>a. confined P (f a)) \<Longrightarrow> confined P (bindE p f)"
  unfolding bindE_def by (intro confined_bind) (auto split: sum.split intro: confined_Ret)

lemma confined_wrapE [confined_rules]: "confined P p \<Longrightarrow> confined P (wrapE ctx p)"
  unfolding wrapE_def by (intro confined_bind confined_Ret)

lemma confined_forE: "(\<And>x. x \<in> set xs \<Longrightarrow> confined P (f x)) \<Longrightarrow> confined P (forE xs f)"
  by (induction xs) (auto intro!: confined_rules)

lemma confined_weaken: "confined P p \<Longrightarrow> (\<And>q. P q \<Longrightarrow> P' q) \<Longrightarrow> confined P' p"
  unfolding confined_def by (metis safe_weaken_guard [of "\<lambda>_. P" p _ "\<lambda>_ _. True" "\<lambda>_. P'"])

end
