(* ===== verification/Kubelet_Config.thy ===== *)
theory Kubelet_Config
  imports Prelude
begin

text \<open>
  \<^verbatim>\<open>api/karpenter/v1/kubelet_config.go\<close>: the kubelet configuration of a NodeClass with
  its typed fields, the overflow of fields the operator does not know, and the custom JSON coding
  that keeps the overflow. JSON texts are modelled by their syntax trees; the lexing and printing
  of texts is the standard library's.
\<close>


section \<open>JSON\<close>

text \<open>Numbers are kept apart by what an integer field accepts: \<open>JInt\<close> is an integer
  literal, \<open>JNum\<close> any other number.\<close>

datatype json =
    JNull
  | JBool bool
  | JInt int
  | JNum string
  | JStr string
  | JArr "json list"
  | JObj "(string \<times> json) list"

definition is_int32 :: "int \<Rightarrow> bool" where
  "is_int32 i \<longleftrightarrow> - (2 ^ 31) \<le> i \<and> i < 2 ^ 31"

text \<open>
  How \<^verbatim>\<open>encoding/json\<close> matches an object key with a struct field: the exact name, else
  the first field whose name is equal under case folding. Two runes outside ASCII fold to an ASCII
  letter: U+017F (\<open>C5 BF\<close>) to \<open>s\<close> and U+212A (\<open>E2 84 AA\<close>) to \<open>k\<close>.
\<close>

fun fold_name :: "string \<Rightarrow> string" where
  "fold_name [] = []"
| "fold_name (c # cs) =
     (if c = CHR 0xC5 \<and> take 1 cs = [CHR 0xBF] then CHR ''s'' # fold_name (drop 1 cs)
      else if c = CHR 0xE2 \<and> take 2 cs = [CHR 0x84, CHR 0xAA] then CHR ''k'' # fold_name (drop 2 cs)
      else char_lower c # fold_name cs)"

definition field_for :: "string list \<Rightarrow> string \<Rightarrow> string option" where
  "field_for fs key =
     (if key \<in> set fs then Some key else find (\<lambda>f. fold_name f = fold_name key) fs)"

text \<open>
  The decoder visits the entries in order and stores each value into the field its key matches, on
  top of what the field holds. The fields do not affect each other, so the model decodes field by
  field: \<open>field_vals\<close> are the values stored into one field, in order.
\<close>

definition field_vals :: "string list \<Rightarrow> string \<Rightarrow> (string \<times> json) list \<Rightarrow> json list" where
  "field_vals fs f es = map snd (filter (\<lambda>kv. field_for fs (fst kv) = Some f) es)"

fun dec_all :: "('a \<Rightarrow> json \<Rightarrow> 'a option) \<Rightarrow> 'a \<Rightarrow> json list \<Rightarrow> 'a option" where
  "dec_all d x [] = Some x"
| "dec_all d x (j # js) = (case d x j of None \<Rightarrow> None | Some y \<Rightarrow> dec_all d y js)"

text \<open>Storing one value: \<open>null\<close> leaves an integer alone and clears a pointer or a map; a
  value of another type, or an integer that does not fit, is an error.\<close>

fun dec_int32 :: "int \<Rightarrow> json \<Rightarrow> int option" where
  "dec_int32 x (JInt i) = (if is_int32 i then Some i else None)"
| "dec_int32 x JNull = Some x"
| "dec_int32 x _ = None"

fun dec_int32_ptr :: "int option \<Rightarrow> json \<Rightarrow> int option option" where
  "dec_int32_ptr x (JInt i) = (if is_int32 i then Some (Some i) else None)"
| "dec_int32_ptr x JNull = Some None"
| "dec_int32_ptr x _ = None"

fun dec_bool_ptr :: "bool option \<Rightarrow> json \<Rightarrow> bool option option" where
  "dec_bool_ptr x (JBool b) = Some (Some b)"
| "dec_bool_ptr x JNull = Some None"
| "dec_bool_ptr x _ = None"

fun dec_entries :: "string gomap \<Rightarrow> (string \<times> json) list \<Rightarrow> string gomap option" where
  "dec_entries m [] = Some m"
| "dec_entries m ((k, JStr s) # es) = dec_entries (map_put k s m) es"
| "dec_entries m ((k, JNull) # es) = dec_entries (map_put k [] m) es"
| "dec_entries m ((k, _) # es) = None"

fun dec_map :: "string gomap option \<Rightarrow> json \<Rightarrow> string gomap option option" where
  "dec_map x (JObj es) =
     (case dec_entries (case x of None \<Rightarrow> [] | Some m \<Rightarrow> m) es of None \<Rightarrow> None | Some m \<Rightarrow> Some (Some m))"
| "dec_map x JNull = Some None"
| "dec_map x _ = None"


section \<open>The configuration\<close>

record kubelet_configuration =
  kc_MaxPods :: int
  kc_PodsPerCore :: int
  kc_SystemReserved :: "string gomap option"
  kc_KubeReserved :: "string gomap option"
  kc_EvictionHard :: "string gomap option"
  kc_EvictionSoft :: "string gomap option"
  kc_EvictionSoftGracePeriod :: "string gomap option"
  kc_EvictionMaxPodGracePeriod :: "int option"
  kc_ImageGCHighThresholdPercent :: "int option"
  kc_ImageGCLowThresholdPercent :: "int option"
  kc_CPUCFSQuota :: "bool option"
  kc_Overflow :: "json option"   \<comment> \<open>\<^verbatim>\<open>Overflow.Raw\<close>; \<open>None\<close> when it has no bytes\<close>

definition zero_kubelet :: kubelet_configuration where
  "zero_kubelet =
     \<lparr>kc_MaxPods = 0, kc_PodsPerCore = 0, kc_SystemReserved = None, kc_KubeReserved = None,
      kc_EvictionHard = None, kc_EvictionSoft = None, kc_EvictionSoftGracePeriod = None,
      kc_EvictionMaxPodGracePeriod = None, kc_ImageGCHighThresholdPercent = None,
      kc_ImageGCLowThresholdPercent = None, kc_CPUCFSQuota = None, kc_Overflow = None\<rparr>"

text \<open>The names the package initialiser reads off the struct's json tags.\<close>

definition kubeletConfigKnownFields :: "string list" where
  "kubeletConfigKnownFields =
     [''maxPods'', ''podsPerCore'', ''systemReserved'', ''kubeReserved'', ''evictionHard'',
      ''evictionSoft'', ''evictionSoftGracePeriod'', ''evictionMaxPodGracePeriod'',
      ''imageGCHighThresholdPercent'', ''imageGCLowThresholdPercent'', ''cpuCFSQuota'']"

abbreviation vals_of :: "string \<Rightarrow> (string \<times> json) list \<Rightarrow> json list" where
  "vals_of \<equiv> field_vals kubeletConfigKnownFields"

definition decode_error :: goerr where
  "decode_error = EText ''json: cannot unmarshal''"

text \<open>\<^verbatim>\<open>json.Unmarshal(data, aux)\<close> into a zeroed receiver.\<close>

definition decode_typed :: "(string \<times> json) list \<Rightarrow> kubelet_configuration option" where
  "decode_typed es =
     Option.bind (dec_all dec_int32 0 (vals_of ''maxPods'' es)) (\<lambda>maxPods.
     Option.bind (dec_all dec_int32 0 (vals_of ''podsPerCore'' es)) (\<lambda>podsPerCore.
     Option.bind (dec_all dec_map None (vals_of ''systemReserved'' es)) (\<lambda>systemReserved.
     Option.bind (dec_all dec_map None (vals_of ''kubeReserved'' es)) (\<lambda>kubeReserved.
     Option.bind (dec_all dec_map None (vals_of ''evictionHard'' es)) (\<lambda>evictionHard.
     Option.bind (dec_all dec_map None (vals_of ''evictionSoft'' es)) (\<lambda>evictionSoft.
     Option.bind (dec_all dec_map None (vals_of ''evictionSoftGracePeriod'' es)) (\<lambda>grace.
     Option.bind (dec_all dec_int32_ptr None (vals_of ''evictionMaxPodGracePeriod'' es)) (\<lambda>maxGrace.
     Option.bind (dec_all dec_int32_ptr None (vals_of ''imageGCHighThresholdPercent'' es)) (\<lambda>high.
     Option.bind (dec_all dec_int32_ptr None (vals_of ''imageGCLowThresholdPercent'' es)) (\<lambda>low.
     Option.bind (dec_all dec_bool_ptr None (vals_of ''cpuCFSQuota'' es)) (\<lambda>quota.
     Some
       \<lparr>kc_MaxPods = maxPods, kc_PodsPerCore = podsPerCore, kc_SystemReserved = systemReserved,
        kc_KubeReserved = kubeReserved, kc_EvictionHard = evictionHard,
        kc_EvictionSoft = evictionSoft, kc_EvictionSoftGracePeriod = grace,
        kc_EvictionMaxPodGracePeriod = maxGrace, kc_ImageGCHighThresholdPercent = high,
        kc_ImageGCLowThresholdPercent = low, kc_CPUCFSQuota = quota, kc_Overflow = None\<rparr>)))))))))))"

text \<open>The entries left after the known names are deleted from the raw map.\<close>

definition overflow_entries :: "(string \<times> json) list \<Rightarrow> (string \<times> json) list" where
  "overflow_entries es = fold map_del kubeletConfigKnownFields (map_of_entries es)"

definition UnmarshalJSON :: "json \<Rightarrow> goerr + kubelet_configuration" where
  "UnmarshalJSON data =
     (case data of
        JObj es \<Rightarrow>
          (case decode_typed es of
             None \<Rightarrow> Inl decode_error
           | Some k \<Rightarrow>
               (let raw = overflow_entries es in
                if raw \<noteq> [] then Inr (k\<lparr>kc_Overflow := Some (JObj raw)\<rparr>) else Inr k))
      | JNull \<Rightarrow> Inr zero_kubelet
      | _ \<Rightarrow> Inl decode_error)"

text \<open>\<^verbatim>\<open>omitempty\<close>: a zero number, a nil pointer and a nil or empty map are left
  out.\<close>

definition enc_int :: "string \<Rightarrow> int \<Rightarrow> (string \<times> json) list" where
  "enc_int f i = (if i = 0 then [] else [(f, JInt i)])"

definition enc_int_ptr :: "string \<Rightarrow> int option \<Rightarrow> (string \<times> json) list" where
  "enc_int_ptr f p = (case p of None \<Rightarrow> [] | Some i \<Rightarrow> [(f, JInt i)])"

definition enc_bool_ptr :: "string \<Rightarrow> bool option \<Rightarrow> (string \<times> json) list" where
  "enc_bool_ptr f p = (case p of None \<Rightarrow> [] | Some b \<Rightarrow> [(f, JBool b)])"

definition enc_map :: "string \<Rightarrow> string gomap option \<Rightarrow> (string \<times> json) list" where
  "enc_map f p =
     (case p of
        None \<Rightarrow> []
      | Some m \<Rightarrow> if m = [] then [] else [(f, JObj (map (\<lambda>(k, v). (k, JStr v)) m))])"

definition encode_typed :: "kubelet_configuration \<Rightarrow> (string \<times> json) list" where
  "encode_typed k =
     enc_int ''maxPods'' (kc_MaxPods k) @
     enc_int ''podsPerCore'' (kc_PodsPerCore k) @
     enc_map ''systemReserved'' (kc_SystemReserved k) @
     enc_map ''kubeReserved'' (kc_KubeReserved k) @
     enc_map ''evictionHard'' (kc_EvictionHard k) @
     enc_map ''evictionSoft'' (kc_EvictionSoft k) @
     enc_map ''evictionSoftGracePeriod'' (kc_EvictionSoftGracePeriod k) @
     enc_int_ptr ''evictionMaxPodGracePeriod'' (kc_EvictionMaxPodGracePeriod k) @
     enc_int_ptr ''imageGCHighThresholdPercent'' (kc_ImageGCHighThresholdPercent k) @
     enc_int_ptr ''imageGCLowThresholdPercent'' (kc_ImageGCLowThresholdPercent k) @
     enc_bool_ptr ''cpuCFSQuota'' (kc_CPUCFSQuota k)"

text \<open>The last clause is a run-time panic: a raw overflow of \<open>null\<close> leaves the overflow map
  nil, and the loop stores into it.\<close>

definition nil_map_panic :: goerr where
  "nil_map_panic = EText ''panic: assignment to entry in nil map''"

definition MarshalJSON :: "kubelet_configuration \<Rightarrow> goerr + json" where
  "MarshalJSON k =
     (let structured = encode_typed k in
      case kc_Overflow k of
        None \<Rightarrow> Inr (JObj structured)
      | Some (JObj es) \<Rightarrow> Inr (JObj (fold (\<lambda>(f, v). map_put f v) structured (map_of_entries es)))
      | Some JNull \<Rightarrow> if structured = [] then Inr JNull else Inl nil_map_panic
      | Some _ \<Rightarrow> Inl decode_error)"

definition HasTypedFields :: "kubelet_configuration \<Rightarrow> bool" where
  "HasTypedFields k \<longleftrightarrow>
     kc_MaxPods k \<noteq> 0 \<or> kc_PodsPerCore k \<noteq> 0 \<or>
     kc_SystemReserved k \<noteq> None \<or> kc_KubeReserved k \<noteq> None \<or>
     kc_EvictionHard k \<noteq> None \<or> kc_EvictionSoft k \<noteq> None \<or>
     kc_EvictionSoftGracePeriod k \<noteq> None \<or> kc_EvictionMaxPodGracePeriod k \<noteq> None \<or>
     kc_ImageGCHighThresholdPercent k \<noteq> None \<or> kc_ImageGCLowThresholdPercent k \<noteq> None \<or>
     kc_CPUCFSQuota k \<noteq> None"

definition IsZero :: "kubelet_configuration \<Rightarrow> bool" where
  "IsZero k \<longleftrightarrow> \<not> HasTypedFields k \<and> kc_Overflow k = None"


section \<open>Decoding what was encoded\<close>

lemma field_vals_simps [simp]:
  "field_vals fs f [] = []"
  "field_vals fs f (es @ es') = field_vals fs f es @ field_vals fs f es'"
  by (simp_all add: field_vals_def)

lemma field_for_known [simp]: "f \<in> set fs \<Longrightarrow> field_for fs f = Some f"
  by (simp add: field_for_def)

lemma field_for_in: "field_for fs key = Some f \<Longrightarrow> f \<in> set fs"
  by (auto simp: field_for_def find_Some_iff split: if_splits)

text \<open>Where every key is a field name or matches none, the values of a field are the entry of
  that name.\<close>

lemma field_vals_lookup:
  assumes "distinct (map fst es)" and "f \<in> set fs"
    and "\<And>k. k \<in> fst ` set es \<Longrightarrow> k \<in> set fs \<or> field_for fs k = None"
  shows "field_vals fs f es = (case map_of es f of None \<Rightarrow> [] | Some v \<Rightarrow> [v])"
proof -
  have "filter (\<lambda>kv. field_for fs (fst kv) = Some f) es = filter (\<lambda>kv. fst kv = f) es"
    using assms(2,3) by (intro filter_cong) force+
  then show ?thesis
    using filter_key_map [OF assms(1)] by (simp add: field_vals_def)
qed

lemma decode_typed_cong:
  assumes "\<And>f. f \<in> set kubeletConfigKnownFields \<Longrightarrow> vals_of f es = vals_of f es'"
  shows "decode_typed es = decode_typed es'"
  using assms by (simp add: decode_typed_def kubeletConfigKnownFields_def)

lemma dec_entries_strings:
  "dec_entries m (map (\<lambda>(k, v). (k, JStr v)) kvs) = Some (fold (\<lambda>(k, v). map_put k v) kvs m)"
  by (induction kvs arbitrary: m) auto

lemma dec_entries_id: "is_map m \<Longrightarrow> dec_entries [] (map (\<lambda>(k, v). (k, JStr v)) m) = Some m"
  using map_of_entries_id [of m] by (simp add: dec_entries_strings map_of_entries_def)

lemma field_vals_enc [simp]:
  assumes "g \<in> set fs"
  shows "field_vals fs f (enc_int g i) = (if f = g \<and> i \<noteq> 0 then [JInt i] else [])"
    and "field_vals fs f (enc_int_ptr g ip) = (if f = g then map JInt (case ip of None \<Rightarrow> [] | Some x \<Rightarrow> [x]) else [])"
    and "field_vals fs f (enc_bool_ptr g bp) = (if f = g then map JBool (case bp of None \<Rightarrow> [] | Some x \<Rightarrow> [x]) else [])"
    and "field_vals fs f (enc_map g mp) = (if f = g then map snd (enc_map g mp) else [])"
  using assms
  by (auto simp: field_vals_def enc_int_def enc_int_ptr_def enc_bool_ptr_def enc_map_def
      split: option.splits)

text \<open>The values a typed configuration can hold: 32-bit integers, and maps that are nil or not
  empty (an empty map is written as nothing, so it comes back nil).\<close>

definition wf_map_field :: "string gomap option \<Rightarrow> bool" where
  "wf_map_field p \<longleftrightarrow> (case p of None \<Rightarrow> True | Some m \<Rightarrow> is_map m \<and> m \<noteq> [])"

definition wf_int32_field :: "int option \<Rightarrow> bool" where
  "wf_int32_field p \<longleftrightarrow> (case p of None \<Rightarrow> True | Some i \<Rightarrow> is_int32 i)"

text \<open>Overflow as the decoder leaves it, with no key that a typed field would also match.\<close>

definition wf_overflow :: "json option \<Rightarrow> bool" where
  "wf_overflow p \<longleftrightarrow>
     (case p of
        None \<Rightarrow> True
      | Some (JObj es) \<Rightarrow> is_map es \<and> es \<noteq> [] \<and>
          list_all (\<lambda>kv. field_for kubeletConfigKnownFields (fst kv) = None) es
      | Some _ \<Rightarrow> False)"

definition wf_kubelet :: "kubelet_configuration \<Rightarrow> bool" where
  "wf_kubelet k \<longleftrightarrow>
     is_int32 (kc_MaxPods k) \<and> is_int32 (kc_PodsPerCore k) \<and>
     wf_map_field (kc_SystemReserved k) \<and> wf_map_field (kc_KubeReserved k) \<and>
     wf_map_field (kc_EvictionHard k) \<and> wf_map_field (kc_EvictionSoft k) \<and>
     wf_map_field (kc_EvictionSoftGracePeriod k) \<and>
     wf_int32_field (kc_EvictionMaxPodGracePeriod k) \<and>
     wf_int32_field (kc_ImageGCHighThresholdPercent k) \<and>
     wf_int32_field (kc_ImageGCLowThresholdPercent k) \<and> wf_overflow (kc_Overflow k)"

lemma dec_all_map_field:
  "wf_map_field p \<Longrightarrow> dec_all dec_map None (map snd (enc_map f p)) = Some p"
  by (auto simp: wf_map_field_def enc_map_def dec_entries_id split: option.splits)

lemma dec_all_int32_ptr:
  "wf_int32_field p \<Longrightarrow>
    dec_all dec_int32_ptr None (map JInt (case p of None \<Rightarrow> [] | Some x \<Rightarrow> [x])) = Some p"
  by (auto simp: wf_int32_field_def split: option.splits)

lemma dec_all_int32:
  "is_int32 i \<Longrightarrow> dec_all dec_int32 0 (if i \<noteq> 0 then [JInt i] else []) = Some i"
  by auto

lemma dec_all_bool_ptr:
  "dec_all dec_bool_ptr None (map JBool (case p of None \<Rightarrow> [] | Some x \<Rightarrow> [x])) = Some p"
  by (auto split: option.splits)

lemmas dec_all_enc = dec_all_map_field dec_all_int32_ptr dec_all_int32 dec_all_bool_ptr

lemma vals_of_encode:
  "vals_of ''maxPods'' (encode_typed k) = (if kc_MaxPods k \<noteq> 0 then [JInt (kc_MaxPods k)] else [])"
  "vals_of ''podsPerCore'' (encode_typed k) = (if kc_PodsPerCore k \<noteq> 0 then [JInt (kc_PodsPerCore k)] else [])"
  "vals_of ''systemReserved'' (encode_typed k) = map snd (enc_map ''systemReserved'' (kc_SystemReserved k))"
  "vals_of ''kubeReserved'' (encode_typed k) = map snd (enc_map ''kubeReserved'' (kc_KubeReserved k))"
  "vals_of ''evictionHard'' (encode_typed k) = map snd (enc_map ''evictionHard'' (kc_EvictionHard k))"
  "vals_of ''evictionSoft'' (encode_typed k) = map snd (enc_map ''evictionSoft'' (kc_EvictionSoft k))"
  "vals_of ''evictionSoftGracePeriod'' (encode_typed k) =
     map snd (enc_map ''evictionSoftGracePeriod'' (kc_EvictionSoftGracePeriod k))"
  "vals_of ''evictionMaxPodGracePeriod'' (encode_typed k) =
     map JInt (case kc_EvictionMaxPodGracePeriod k of None \<Rightarrow> [] | Some x \<Rightarrow> [x])"
  "vals_of ''imageGCHighThresholdPercent'' (encode_typed k) =
     map JInt (case kc_ImageGCHighThresholdPercent k of None \<Rightarrow> [] | Some x \<Rightarrow> [x])"
  "vals_of ''imageGCLowThresholdPercent'' (encode_typed k) =
     map JInt (case kc_ImageGCLowThresholdPercent k of None \<Rightarrow> [] | Some x \<Rightarrow> [x])"
  "vals_of ''cpuCFSQuota'' (encode_typed k) =
     map JBool (case kc_CPUCFSQuota k of None \<Rightarrow> [] | Some x \<Rightarrow> [x])"
  by (simp_all add: encode_typed_def kubeletConfigKnownFields_def)

lemma decode_encode_typed:
  assumes "wf_kubelet k"
  shows "decode_typed (encode_typed k) = Some (k\<lparr>kc_Overflow := None\<rparr>)"
  using assms by (simp add: decode_typed_def vals_of_encode wf_kubelet_def dec_all_enc)

lemma subseq_enc:
  "subseq (map fst (enc_int f i)) [f]" "subseq (map fst (enc_int_ptr f ip)) [f]"
  "subseq (map fst (enc_bool_ptr f bp)) [f]" "subseq (map fst (enc_map f mp)) [f]"
  by (simp_all add: enc_int_def enc_int_ptr_def enc_bool_ptr_def enc_map_def split: option.splits)

lemma subseq_encode_typed: "subseq (map fst (encode_typed k)) kubeletConfigKnownFields"
proof -
  have split: "kubeletConfigKnownFields =
      [''maxPods''] @ [''podsPerCore''] @ [''systemReserved''] @ [''kubeReserved''] @
      [''evictionHard''] @ [''evictionSoft''] @ [''evictionSoftGracePeriod''] @
      [''evictionMaxPodGracePeriod''] @ [''imageGCHighThresholdPercent''] @
      [''imageGCLowThresholdPercent''] @ [''cpuCFSQuota'']"
    by (simp add: kubeletConfigKnownFields_def)
  show ?thesis
    unfolding encode_typed_def split map_append
    by (intro list_emb_append_mono subseq_enc)
qed

lemma encode_typed_keys: "fst ` set (encode_typed k) \<subseteq> set kubeletConfigKnownFields"
proof -
  have "set xs \<subseteq> set ys" if "subseq xs ys" for xs ys :: "string list"
    using that by (induction rule: list_emb.induct) auto
  from this [OF subseq_encode_typed] show ?thesis by simp
qed

lemma enc_Nil [simp]:
  "enc_int f i = [] \<longleftrightarrow> i = 0" "enc_int_ptr f ip = [] \<longleftrightarrow> ip = None"
  "enc_bool_ptr f bp = [] \<longleftrightarrow> bp = None" "wf_map_field mp \<Longrightarrow> enc_map f mp = [] \<longleftrightarrow> mp = None"
  by (auto simp: enc_int_def enc_int_ptr_def enc_bool_ptr_def enc_map_def wf_map_field_def
      split: option.splits)


lemma distinct_subseq: "subseq xs ys \<Longrightarrow> distinct ys \<Longrightarrow> distinct xs"
  by (induction rule: list_emb.induct) (auto dest: list_emb_set)

lemma distinct_encode_typed: "distinct (map fst (encode_typed k))"
proof -
  have "distinct kubeletConfigKnownFields" by code_simp
  with subseq_encode_typed show ?thesis by (rule distinct_subseq)
qed

text \<open>The object that \<open>MarshalJSON\<close> writes when there is an overflow.\<close>

definition merged :: "kubelet_configuration \<Rightarrow> (string \<times> json) list \<Rightarrow> (string \<times> json) list" where
  "merged k es = fold (\<lambda>(f, v). map_put f v) (encode_typed k) (map_of_entries es)"

lemma map_of_merged: "map_of (merged k es) = map_of (map_of_entries es) ++ map_of (encode_typed k)"
  by (simp add: merged_def map_of_fold_put map_of_rev_distinct distinct_encode_typed)

lemma is_map_merged [simp]: "is_map (merged k es)"
  by (simp add: merged_def)

lemma decode_merged:
  assumes "wf_overflow (Some (JObj es))"
  shows "decode_typed (merged k es) = decode_typed (encode_typed k)"
proof (rule decode_typed_cong)
  fix f
  assume f: "f \<in> set kubeletConfigKnownFields"
  have es: "is_map es" "map_of_entries es = es"
    and none: "\<And>x. x \<in> fst ` set es \<Longrightarrow> field_for kubeletConfigKnownFields x = None"
    using assms by (auto simp: wf_overflow_def list_all_iff map_of_entries_id)
  have keys: "x \<in> set kubeletConfigKnownFields \<or> field_for kubeletConfigKnownFields x = None"
    if "x \<in> fst ` set (merged k es)" for x
  proof -
    have "map_of (merged k es) x \<noteq> None"
      using that by (simp add: map_of_eq_None_iff)
    then have "map_of es x \<noteq> None \<or> map_of (encode_typed k) x \<noteq> None"
      by (auto simp: map_of_merged es map_add_def split: option.splits)
    then have "x \<in> fst ` set es \<or> x \<in> set kubeletConfigKnownFields"
      using encode_typed_keys [of k] by (auto simp: map_of_eq_None_iff)
    then show ?thesis
      by (elim disjE) (simp_all add: none)
  qed
  have "map_of es f = None"
    using none f by (metis field_for_known map_of_eq_None_iff option.distinct(1))
  then have "map_of (merged k es) f = map_of (encode_typed k) f"
    by (auto simp: map_of_merged es map_add_def split: option.splits)
  moreover have "vals_of f (merged k es) = (case map_of (merged k es) f of None \<Rightarrow> [] | Some v \<Rightarrow> [v])"
    by (rule field_vals_lookup [OF is_map_distinct [OF is_map_merged] f keys])
  moreover have "vals_of f (encode_typed k) = (case map_of (encode_typed k) f of None \<Rightarrow> [] | Some v \<Rightarrow> [v])"
    using encode_typed_keys [of k] by (intro field_vals_lookup [OF distinct_encode_typed f]) auto
  ultimately show "vals_of f (merged k es) = vals_of f (encode_typed k)" by simp
qed

lemma map_of_overflow:
  "map_of (overflow_entries es) =
     (\<lambda>x. if x \<in> set kubeletConfigKnownFields then None else map_of (map_of_entries es) x)"
  by (simp add: overflow_entries_def map_of_fold_del)

lemma is_map_overflow [simp]: "is_map (overflow_entries es)"
  by (simp add: overflow_entries_def)

lemma overflow_encode_typed: "overflow_entries (encode_typed k) = []"
proof (rule is_map_ext)
  show "map_of (overflow_entries (encode_typed k)) = map_of []"
    using encode_typed_keys [of k]
    by (auto simp: map_of_overflow map_of_map_of_entries distinct_encode_typed fun_eq_iff
        map_of_eq_None_iff)
qed simp_all

lemma overflow_merged:
  assumes "wf_overflow (Some (JObj es))"
  shows "overflow_entries (merged k es) = es"
proof (rule is_map_ext)
  show "is_map es"
    using assms by (simp add: wf_overflow_def)
  have "map_of es x = None" if "x \<in> set kubeletConfigKnownFields" for x
    using assms that by (force simp: wf_overflow_def list_all_iff map_of_eq_None_iff)
  moreover have "map_of (encode_typed k) x = None" if "x \<notin> set kubeletConfigKnownFields" for x
    using encode_typed_keys [of k] that by (auto simp: map_of_eq_None_iff)
  ultimately show "map_of (overflow_entries (merged k es)) = map_of es"
    using \<open>is_map es\<close>
    by (auto simp: map_of_overflow map_of_map_of_entries map_of_merged is_map_distinct
        map_of_entries_id map_add_def fun_eq_iff)
qed simp


section \<open>Properties\<close>

text \<open>A field of the kubelet that the operator does not know, for the witnesses.\<close>

lemma field_for_overflow_example: "field_for kubeletConfigKnownFields ''registryPullQPS'' = None"
  by code_simp

lemma example_vals:
  "vals_of f [(''registryPullQPS'', JInt 10), (''maxPods'', JInt 100)] =
     (if f = ''maxPods'' then [JInt 100] else [])"
proof -
  have "''maxPods'' \<in> set kubeletConfigKnownFields"
    by (simp add: kubeletConfigKnownFields_def)
  then show ?thesis
    by (auto simp: field_vals_def field_for_overflow_example)
qed

lemma example_decode:
  "decode_typed [(''registryPullQPS'', JInt 10), (''maxPods'', JInt 100)] =
     Some (zero_kubelet\<lparr>kc_MaxPods := 100\<rparr>)"
  by (simp add: decode_typed_def example_vals zero_kubelet_def is_int32_def)

lemma example_overflow:
  "overflow_entries [(''registryPullQPS'', JInt 10), (''maxPods'', JInt 100)] =
     [(''registryPullQPS'', JInt 10)]"
  by (simp add: overflow_entries_def map_of_entries_def map_del_def kubeletConfigKnownFields_def)

text \<open>C30: round trip. A well-formed configuration is written, and reading it back gives the same
  configuration, typed fields and overflow alike.\<close>

theorem kubelet_roundtrip:
  assumes "wf_kubelet k"
  shows "\<exists>j. MarshalJSON k = Inr j \<and> UnmarshalJSON j = Inr k"
proof (cases "kc_Overflow k")
  case None
  then have "k\<lparr>kc_Overflow := None\<rparr> = k" by (cases k) simp
  with None assms show ?thesis
    by (simp add: MarshalJSON_def UnmarshalJSON_def decode_encode_typed overflow_encode_typed)
next
  case (Some ov)
  with assms obtain es where ov: "ov = JObj es" and wf: "wf_overflow (Some (JObj es))" and ne: "es \<noteq> []"
    by (auto simp: wf_kubelet_def wf_overflow_def split: json.splits)
  have "MarshalJSON k = Inr (JObj (merged k es))"
    using Some ov by (simp add: MarshalJSON_def merged_def)
  moreover have "k\<lparr>kc_Overflow := Some (JObj es)\<rparr> = k"
    using Some ov by (cases k) simp
  ultimately show ?thesis
    using assms ne
    by (simp add: UnmarshalJSON_def decode_merged [OF wf] decode_encode_typed overflow_merged [OF wf])
qed

theorem kubelet_roundtrip_witness:
  "let k = zero_kubelet\<lparr>kc_MaxPods := 250, kc_EvictionHard := Some [(''memory.available'', ''100Mi'')],
        kc_Overflow := Some (JObj [(''registryPullQPS'', JInt 10)])\<rparr>
   in wf_kubelet k \<and> (\<exists>j. MarshalJSON k = Inr j \<and> UnmarshalJSON j = Inr k)"
proof -
  let ?k = "zero_kubelet\<lparr>kc_MaxPods := 250, kc_EvictionHard := Some [(''memory.available'', ''100Mi'')],
        kc_Overflow := Some (JObj [(''registryPullQPS'', JInt 10)])\<rparr>"
  have "wf_kubelet ?k"
    by (simp add: wf_kubelet_def wf_overflow_def wf_map_field_def wf_int32_field_def
        field_for_overflow_example zero_kubelet_def is_int32_def)
  with kubelet_roundtrip [of ?k] show ?thesis by (simp only: Let_def)
qed

text \<open>Pass-through. What the decoder accepts and the encoder writes again keeps every field
  the operator does not know, with its value, whatever the typed fields are.\<close>

theorem kubelet_passthrough:
  assumes "UnmarshalJSON (JObj es) = Inr k" and "MarshalJSON k = Inr (JObj out)"
    and "f \<notin> set kubeletConfigKnownFields"
  shows "map_of out f = map_of (map_of_entries es) f"
proof -
  have enc: "map_of (encode_typed k) f = None"
    using encode_typed_keys [of k] assms(3) by (auto simp: map_of_eq_None_iff)
  obtain k0 where k0: "decode_typed es = Some k0"
    and k: "k = (if overflow_entries es \<noteq> [] then k0\<lparr>kc_Overflow := Some (JObj (overflow_entries es))\<rparr> else k0)"
    using assms(1) by (auto simp: UnmarshalJSON_def Let_def split: option.splits if_splits)
  have k0_none: "kc_Overflow k0 = None"
    using k0 by (auto simp: decode_typed_def bind_eq_Some_conv)
  have ov: "map_of (overflow_entries es) f = map_of (map_of_entries es) f"
    using assms(3) by (simp add: map_of_overflow)
  show ?thesis
  proof (cases "overflow_entries es = []")
    case True
    with k k0_none assms(2) enc ov show ?thesis by (simp add: MarshalJSON_def)
  next
    case False
    with k assms(2) have "out = merged k (overflow_entries es)"
      by (simp add: MarshalJSON_def merged_def)
    with enc ov show ?thesis
      by (simp add: map_of_merged map_of_entries_id map_add_def)
  qed
qed

theorem kubelet_passthrough_witness:
  "map_of [(''maxPods'', JInt 100), (''registryPullQPS'', JInt 10)] ''registryPullQPS'' =
     map_of (map_of_entries [(''registryPullQPS'', JInt 10), (''maxPods'', JInt 100)]) ''registryPullQPS''"
proof (rule kubelet_passthrough)
  show "UnmarshalJSON (JObj [(''registryPullQPS'', JInt 10), (''maxPods'', JInt 100)]) =
      Inr (zero_kubelet\<lparr>kc_MaxPods := 100, kc_Overflow := Some (JObj [(''registryPullQPS'', JInt 10)])\<rparr>)"
    by (simp add: UnmarshalJSON_def example_decode example_overflow)
  show "MarshalJSON (zero_kubelet\<lparr>kc_MaxPods := 100,
      kc_Overflow := Some (JObj [(''registryPullQPS'', JInt 10)])\<rparr>) =
      Inr (JObj [(''maxPods'', JInt 100), (''registryPullQPS'', JInt 10)])"
    by (simp add: MarshalJSON_def encode_typed_def map_of_entries_def zero_kubelet_def
        enc_int_def enc_int_ptr_def enc_bool_ptr_def enc_map_def)
  show "''registryPullQPS'' \<notin> set kubeletConfigKnownFields"
    by code_simp
qed

text \<open>A zero configuration is one that is written as the empty object, for configurations
  whose maps are nil or not empty.\<close>

theorem kubelet_IsZero_iff:
  assumes "wf_kubelet k"
  shows "IsZero k \<longleftrightarrow> MarshalJSON k = Inr (JObj [])"
proof -
  have "encode_typed k = [] \<longleftrightarrow> \<not> HasTypedFields k"
    using assms by (simp add: encode_typed_def HasTypedFields_def wf_kubelet_def conj_ac)
  moreover have "merged k es \<noteq> []" if "wf_overflow (Some (JObj es))" for es
    using overflow_merged [OF that, of k] that
    by (auto simp: wf_overflow_def overflow_entries_def map_of_entries_def map_del_def
        kubeletConfigKnownFields_def)
  ultimately show ?thesis
    using assms
    by (auto simp: IsZero_def MarshalJSON_def Let_def wf_kubelet_def wf_overflow_def merged_def
        split: option.splits json.splits)
qed

theorem kubelet_IsZero_iff_witness:
  "IsZero zero_kubelet \<and> MarshalJSON zero_kubelet = Inr (JObj [])"
proof -
  have "wf_kubelet zero_kubelet" by code_simp
  moreover have "IsZero zero_kubelet" by code_simp
  ultimately show ?thesis using kubelet_IsZero_iff [of zero_kubelet] by blast
qed

text \<open>
  C38: a key that differs from a typed field only in case is decoded into the typed field and is
  kept in the overflow as well, so it is written twice: the overflow is not disjoint from the typed
  fields.
\<close>

theorem kubelet_case_variant_duplicated:
  "UnmarshalJSON (JObj [(''MaxPods'', JInt 100)]) =
     Inr (zero_kubelet\<lparr>kc_MaxPods := 100, kc_Overflow := Some (JObj [(''MaxPods'', JInt 100)])\<rparr>)
   \<and> MarshalJSON (zero_kubelet\<lparr>kc_MaxPods := 100, kc_Overflow := Some (JObj [(''MaxPods'', JInt 100)])\<rparr>) =
     Inr (JObj [(''MaxPods'', JInt 100), (''maxPods'', JInt 100)])"
proof -
  have m: "field_for kubeletConfigKnownFields ''MaxPods'' = Some ''maxPods''"
    by code_simp
  have "vals_of f [(''MaxPods'', JInt 100)] = (if f = ''maxPods'' then [JInt 100] else [])" for f
    by (auto simp: field_vals_def m)
  then have "decode_typed [(''MaxPods'', JInt 100)] = Some (zero_kubelet\<lparr>kc_MaxPods := 100\<rparr>)"
    by (simp add: decode_typed_def zero_kubelet_def is_int32_def)
  moreover have "overflow_entries [(''MaxPods'', JInt 100)] = [(''MaxPods'', JInt 100)]"
    by (simp add: overflow_entries_def map_of_entries_def map_del_def kubeletConfigKnownFields_def)
  ultimately have "UnmarshalJSON (JObj [(''MaxPods'', JInt 100)]) =
     Inr (zero_kubelet\<lparr>kc_MaxPods := 100, kc_Overflow := Some (JObj [(''MaxPods'', JInt 100)])\<rparr>)"
    by (simp add: UnmarshalJSON_def)
  moreover have "MarshalJSON (zero_kubelet\<lparr>kc_MaxPods := 100,
      kc_Overflow := Some (JObj [(''MaxPods'', JInt 100)])\<rparr>) =
     Inr (JObj [(''MaxPods'', JInt 100), (''maxPods'', JInt 100)])"
    by (simp add: MarshalJSON_def encode_typed_def map_of_entries_def zero_kubelet_def
        enc_int_def enc_int_ptr_def enc_bool_ptr_def enc_map_def)
  ultimately show ?thesis ..
qed

end
