(* ===== verification/Meta.thy ===== *)
theory Meta
  imports Prelude
begin

text \<open>
  Object metadata and status conditions, with the helpers of \<^verbatim>\<open>controllerutil\<close> and
  \<^verbatim>\<open>apimachinery/pkg/api/meta\<close> (both vendored in the repository) that every
  controller uses: finalizers, controller references and condition lists. A point in time is its
  Unix time in seconds, the precision of \<^verbatim>\<open>metav1.Time\<close> on the wire; the zero
  \<^verbatim>\<open>metav1.Time\<close> and a nil \<^verbatim>\<open>*metav1.Time\<close> are \<open>None\<close>.
\<close>

type_synonym time = int


section \<open>Metadata\<close>

record owner_reference =
  or_APIVersion :: string
  or_Kind :: string
  or_Name :: string
  or_UID :: string
  or_Controller :: "bool option"
  or_BlockOwnerDeletion :: "bool option"

record object_meta =
  md_Name :: string
  md_Namespace :: string
  md_UID :: string
  md_ResourceVersion :: string
  md_Generation :: int
  md_Labels :: "string gomap"
  md_Annotations :: "string gomap"
  md_Finalizers :: "string list"
  md_OwnerReferences :: "owner_reference list"
  md_DeletionTimestamp :: "time option"

text \<open>The metadata of \<^verbatim>\<open>metav1.ObjectMeta{Name: n, Namespace: ns}\<close>.\<close>

definition new_meta :: "string \<Rightarrow> string \<Rightarrow> object_meta" where
  "new_meta ns n =
     \<lparr>md_Name = n, md_Namespace = ns, md_UID = [], md_ResourceVersion = [], md_Generation = 0,
      md_Labels = [], md_Annotations = [], md_Finalizers = [], md_OwnerReferences = [],
      md_DeletionTimestamp = None\<rparr>"

definition being_deleted :: "object_meta \<Rightarrow> bool" where
  "being_deleted m \<longleftrightarrow> md_DeletionTimestamp m \<noteq> None"

lemma new_meta_simps [simp]:
  "md_Name (new_meta ns n) = n" "md_Namespace (new_meta ns n) = ns"
  "md_Labels (new_meta ns n) = []" "md_Annotations (new_meta ns n) = []"
  "md_Finalizers (new_meta ns n) = []" "md_OwnerReferences (new_meta ns n) = []"
  "md_DeletionTimestamp (new_meta ns n) = None" "md_UID (new_meta ns n) = []"
  by (simp_all add: new_meta_def)


section \<open>Finalizers\<close>

definition ContainsFinalizer :: "object_meta \<Rightarrow> string \<Rightarrow> bool" where
  "ContainsFinalizer m f \<longleftrightarrow> f \<in> set (md_Finalizers m)"

definition AddFinalizer :: "object_meta \<Rightarrow> string \<Rightarrow> object_meta" where
  "AddFinalizer m f =
     (if f \<in> set (md_Finalizers m) then m else m\<lparr>md_Finalizers := md_Finalizers m @ [f]\<rparr>)"

definition RemoveFinalizer :: "object_meta \<Rightarrow> string \<Rightarrow> object_meta" where
  "RemoveFinalizer m f = m\<lparr>md_Finalizers := filter (\<lambda>g. g \<noteq> f) (md_Finalizers m)\<rparr>"

lemma ContainsFinalizer_Add [simp]: "ContainsFinalizer (AddFinalizer m f) g \<longleftrightarrow> g = f \<or> ContainsFinalizer m g"
  by (auto simp: ContainsFinalizer_def AddFinalizer_def)

lemma ContainsFinalizer_Remove [simp]:
  "ContainsFinalizer (RemoveFinalizer m f) g \<longleftrightarrow> g \<noteq> f \<and> ContainsFinalizer m g"
  by (auto simp: ContainsFinalizer_def RemoveFinalizer_def)

lemma filter_absent: "f \<notin> set fs \<Longrightarrow> filter (\<lambda>g. g \<noteq> f) fs = fs"
  by (induction fs) auto

lemma RemoveFinalizer_Add:
  "\<not> ContainsFinalizer m f \<Longrightarrow> RemoveFinalizer (AddFinalizer m f) f = m"
  by (simp add: ContainsFinalizer_def AddFinalizer_def RemoveFinalizer_def filter_absent)

lemma AddFinalizer_frame [simp]:
  "md_Name (AddFinalizer m f) = md_Name m" "md_Namespace (AddFinalizer m f) = md_Namespace m"
  "md_DeletionTimestamp (AddFinalizer m f) = md_DeletionTimestamp m"
  by (simp_all add: AddFinalizer_def)

lemma RemoveFinalizer_frame [simp]:
  "md_Name (RemoveFinalizer m f) = md_Name m" "md_Namespace (RemoveFinalizer m f) = md_Namespace m"
  "md_DeletionTimestamp (RemoveFinalizer m f) = md_DeletionTimestamp m"
  by (simp_all add: RemoveFinalizer_def)


section \<open>Controller references\<close>

text \<open>\<^verbatim>\<open>schema.ParseGroupVersion\<close>: the group, or \<open>None\<close> when the string has
  more than one slash.\<close>

definition group_of :: "string \<Rightarrow> string option" where
  "group_of av =
     (if av = [] \<or> av = ''/'' then Some []
      else if count_list av CHR ''/'' = 0 then Some []
      else if count_list av CHR ''/'' = 1 then Some (takeWhile (\<lambda>c. c \<noteq> CHR ''/'') av)
      else None)"

definition referSameObject :: "owner_reference \<Rightarrow> owner_reference \<Rightarrow> bool" where
  "referSameObject a b =
     (case group_of (or_APIVersion a) of
        None \<Rightarrow> False
      | Some ga \<Rightarrow>
          (case group_of (or_APIVersion b) of
             None \<Rightarrow> False
           | Some gb \<Rightarrow> ga = gb \<and> or_Kind a = or_Kind b \<and> or_Name a = or_Name b))"

definition validateOwner :: "object_meta \<Rightarrow> object_meta \<Rightarrow> goerr option" where
  "validateOwner owner object =
     (let ownerNs = md_Namespace owner in
      if ownerNs \<noteq> [] then
        (let objNs = md_Namespace object in
         if objNs = [] then
           Some (EText (''cluster-scoped resource must not have a namespace-scoped owner, owner's namespace '' @ ownerNs))
         else if ownerNs \<noteq> objNs then
           Some (EText (''cross-namespace owner references are disallowed, owner's namespace '' @ ownerNs
             @ '', obj's namespace '' @ objNs))
         else None)
      else None)"

definition GetControllerOf :: "object_meta \<Rightarrow> owner_reference option" where
  "GetControllerOf m = find (\<lambda>r. or_Controller r = Some True) (md_OwnerReferences m)"

fun upsertOwnerRef :: "owner_reference \<Rightarrow> owner_reference list \<Rightarrow> owner_reference list" where
  "upsertOwnerRef ref [] = [ref]"
| "upsertOwnerRef ref (r # rs) =
     (if referSameObject r ref then ref # rs else r # upsertOwnerRef ref rs)"

text \<open>The owner's group, version and kind come from the scheme, a table the operator fills with
  the registered types; they are the first two arguments.\<close>

definition controller_ref :: "string \<Rightarrow> string \<Rightarrow> object_meta \<Rightarrow> owner_reference" where
  "controller_ref apiVersion kind owner =
     \<lparr>or_APIVersion = apiVersion, or_Kind = kind, or_Name = md_Name owner, or_UID = md_UID owner,
      or_Controller = Some True, or_BlockOwnerDeletion = Some True\<rparr>"

definition SetControllerReference ::
  "string \<Rightarrow> string \<Rightarrow> object_meta \<Rightarrow> object_meta \<Rightarrow> goerr + object_meta"
where
  "SetControllerReference apiVersion kind owner controlled =
     (case validateOwner owner controlled of
        Some e \<Rightarrow> Inl e
      | None \<Rightarrow>
          (let ref = controller_ref apiVersion kind owner in
           case GetControllerOf controlled of
             Some existing \<Rightarrow>
               if \<not> referSameObject existing ref
               then Inl (EText (''Object '' @ md_Namespace controlled @ ''/'' @ md_Name controlled
                 @ '' is already owned by another '' @ or_Kind existing @ '' controller '' @ or_Name existing))
               else Inr (controlled\<lparr>md_OwnerReferences := upsertOwnerRef ref (md_OwnerReferences controlled)\<rparr>)
           | None \<Rightarrow>
               Inr (controlled\<lparr>md_OwnerReferences := upsertOwnerRef ref (md_OwnerReferences controlled)\<rparr>)))"

lemma SetControllerReference_frame:
  assumes "SetControllerReference av k owner m = Inr m'"
  shows "m' = m\<lparr>md_OwnerReferences := md_OwnerReferences m'\<rparr>"
  using assms by (auto simp: SetControllerReference_def Let_def split: option.splits if_splits)

lemma SetControllerReference_key:
  assumes "SetControllerReference av k owner m = Inr m'"
  shows "md_Name m' = md_Name m" and "md_Namespace m' = md_Namespace m" and "md_Labels m' = md_Labels m"
  using assms by (auto simp: SetControllerReference_def Let_def split: option.splits if_splits)

lemma SetControllerReference_labels:
  "SetControllerReference av k owner (m\<lparr>md_Labels := l\<rparr>) =
     (case SetControllerReference av k owner m of Inl e \<Rightarrow> Inl e | Inr m' \<Rightarrow> Inr (m'\<lparr>md_Labels := l\<rparr>))"
  by (simp add: SetControllerReference_def GetControllerOf_def validateOwner_def Let_def split: option.split)

lemma referSameObject_self:
  assumes "group_of (or_APIVersion r) \<noteq> None"
  shows "referSameObject r r"
  using assms by (auto simp: referSameObject_def)

lemma upsertOwnerRef_mem: "ref \<in> set (upsertOwnerRef ref rs)"
  by (induction ref rs rule: upsertOwnerRef.induct) auto

lemma upsertOwnerRef_twice:
  assumes "referSameObject ref ref"
  shows "upsertOwnerRef ref (upsertOwnerRef ref rs) = upsertOwnerRef ref rs"
  using assms by (induction ref rs rule: upsertOwnerRef.induct) auto

text \<open>
  A controller reference can be set again: the object stays controlled by the same owner, so a
  second reconcile of the same pair neither fails nor changes the object.
\<close>

lemma GetControllerOf_upsert:
  assumes "or_Controller ref = Some True"
    and "referSameObject ref ref"
    and "\<And>r. find (\<lambda>r. or_Controller r = Some True) rs = Some r \<Longrightarrow> referSameObject r ref"
  shows "\<exists>r. find (\<lambda>r. or_Controller r = Some True) (upsertOwnerRef ref rs) = Some r \<and> referSameObject r ref"
  using assms by (induction rs) auto

lemma SetControllerReference_idem:
  assumes ok: "SetControllerReference av k owner m = Inr m'"
    and gv: "group_of av \<noteq> None"
  shows "SetControllerReference av k owner m' = Inr m'"
proof -
  let ?ref = "controller_ref av k owner"
  have self: "referSameObject ?ref ?ref"
    using gv by (intro referSameObject_self) (simp add: controller_ref_def)
  have m': "m' = m\<lparr>md_OwnerReferences := upsertOwnerRef ?ref (md_OwnerReferences m)\<rparr>"
    and val: "validateOwner owner m = None"
    and ctl: "\<And>r. GetControllerOf m = Some r \<Longrightarrow> referSameObject r ?ref"
    using ok by (auto simp: SetControllerReference_def Let_def split: option.splits if_splits)
  have "validateOwner owner m' = None"
    using val by (simp add: validateOwner_def m' Let_def split: if_splits)
  moreover obtain r where "GetControllerOf m' = Some r" "referSameObject r ?ref"
    using GetControllerOf_upsert [of ?ref "md_OwnerReferences m"] self ctl
    by (auto simp: GetControllerOf_def m' controller_ref_def)
  moreover have "m'\<lparr>md_OwnerReferences := upsertOwnerRef ?ref (md_OwnerReferences m')\<rparr> = m'"
    by (simp add: m' upsertOwnerRef_twice self)
  ultimately show ?thesis
    by (simp add: SetControllerReference_def Let_def)
qed


section \<open>Conditions\<close>

record condition =
  cond_Type :: string
  cond_Status :: string
  cond_ObservedGeneration :: int
  cond_LastTransitionTime :: "time option"
  cond_Reason :: string
  cond_Message :: string

abbreviation ConditionTrue :: string where "ConditionTrue \<equiv> ''True''"
abbreviation ConditionFalse :: string where "ConditionFalse \<equiv> ''False''"

fun FindStatusCondition :: "condition list \<Rightarrow> string \<Rightarrow> condition option" where
  "FindStatusCondition [] t = None"
| "FindStatusCondition (c # cs) t = (if cond_Type c = t then Some c else FindStatusCondition cs t)"

text \<open>The update of an existing condition. The transition time moves only with the status.\<close>

definition update_condition :: "time \<Rightarrow> condition \<Rightarrow> condition \<Rightarrow> condition" where
  "update_condition now existing new =
     (let c = (if cond_Status existing \<noteq> cond_Status new
               then existing\<lparr>cond_Status := cond_Status new,
                 cond_LastTransitionTime :=
                   (case cond_LastTransitionTime new of None \<Rightarrow> Some now | Some t \<Rightarrow> Some t)\<rparr>
               else existing)
      in c\<lparr>cond_Reason := cond_Reason new, cond_Message := cond_Message new,
           cond_ObservedGeneration := cond_ObservedGeneration new\<rparr>)"

definition fresh_condition :: "time \<Rightarrow> condition \<Rightarrow> condition" where
  "fresh_condition now new =
     (if cond_LastTransitionTime new = None then new\<lparr>cond_LastTransitionTime := Some now\<rparr> else new)"

text \<open>\<^verbatim>\<open>time.Now()\<close> is the argument \<open>now\<close>.\<close>

fun SetStatusCondition :: "time \<Rightarrow> condition list \<Rightarrow> condition \<Rightarrow> condition list" where
  "SetStatusCondition now [] new = [fresh_condition now new]"
| "SetStatusCondition now (c # cs) new =
     (if cond_Type c = cond_Type new then update_condition now c new # cs
      else c # SetStatusCondition now cs new)"

definition RemoveStatusCondition :: "condition list \<Rightarrow> string \<Rightarrow> condition list" where
  "RemoveStatusCondition cs t = filter (\<lambda>c. cond_Type c \<noteq> t) cs"

definition set_one :: "time \<Rightarrow> condition option \<Rightarrow> condition \<Rightarrow> condition" where
  "set_one now old new = (case old of None \<Rightarrow> fresh_condition now new | Some c \<Rightarrow> update_condition now c new)"

lemma update_condition_simps [simp]:
  "cond_Type (update_condition now c new) = cond_Type c"
  "cond_Status (update_condition now c new) = cond_Status new"
  "cond_Reason (update_condition now c new) = cond_Reason new"
  "cond_Message (update_condition now c new) = cond_Message new"
  "cond_ObservedGeneration (update_condition now c new) = cond_ObservedGeneration new"
  by (simp_all add: update_condition_def Let_def)

lemma update_condition_time:
  "cond_Status c = cond_Status new \<Longrightarrow>
    cond_LastTransitionTime (update_condition now c new) = cond_LastTransitionTime c"
  by (simp add: update_condition_def)

lemma fresh_condition_simps [simp]:
  "cond_Type (fresh_condition now new) = cond_Type new"
  "cond_Status (fresh_condition now new) = cond_Status new"
  "cond_Reason (fresh_condition now new) = cond_Reason new"
  "cond_Message (fresh_condition now new) = cond_Message new"
  "cond_ObservedGeneration (fresh_condition now new) = cond_ObservedGeneration new"
  by (simp_all add: fresh_condition_def)

lemma set_one_simps [simp]:
  "cond_Status (set_one now old new) = cond_Status new"
  "cond_Reason (set_one now old new) = cond_Reason new"
  "cond_Message (set_one now old new) = cond_Message new"
  "cond_ObservedGeneration (set_one now old new) = cond_ObservedGeneration new"
  by (simp_all add: set_one_def split: option.splits)

lemma Find_type: "FindStatusCondition cs t = Some c \<Longrightarrow> cond_Type c = t"
  by (induction cs) (auto split: if_splits)

lemma set_one_type:
  "FindStatusCondition cs (cond_Type new) = old \<Longrightarrow> cond_Type (set_one now old new) = cond_Type new"
  by (auto simp: set_one_def dest: Find_type split: option.splits)

lemma Find_Set: "FindStatusCondition (SetStatusCondition now cs new) t =
   (if t = cond_Type new then Some (set_one now (FindStatusCondition cs t) new)
    else FindStatusCondition cs t)"
  by (induction cs) (auto simp: set_one_def)

lemma Find_Remove: "FindStatusCondition (RemoveStatusCondition cs t) u =
   (if u = t then None else FindStatusCondition cs u)"
  by (induction cs) (auto simp: RemoveStatusCondition_def)

lemma Set_types: "map cond_Type (SetStatusCondition now cs new) =
   (if cond_Type new \<in> cond_Type ` set cs then map cond_Type cs
    else map cond_Type cs @ [cond_Type new])"
  by (induction cs) auto

text \<open>Setting a condition again, at any later time, changes nothing.\<close>

lemma update_condition_twice:
  "update_condition now' (update_condition now c new) new = update_condition now c new"
  by (simp add: update_condition_def Let_def)

lemma update_fresh: "update_condition now' (fresh_condition now new) new = fresh_condition now new"
  by (simp add: update_condition_def fresh_condition_def Let_def)

lemma Set_twice: "SetStatusCondition now' (SetStatusCondition now cs new) new = SetStatusCondition now cs new"
  by (induction cs) (auto simp: update_condition_twice update_fresh)

lemma update_condition_id:
  "cond_Status c = cond_Status new \<Longrightarrow> cond_Reason c = cond_Reason new \<Longrightarrow>
   cond_Message c = cond_Message new \<Longrightarrow>
   cond_ObservedGeneration c = cond_ObservedGeneration new \<Longrightarrow> update_condition now c new = c"
  by (simp add: update_condition_def Let_def)

text \<open>Setting a condition is a no-op exactly when it is stored with the same content.\<close>

lemma Set_id:
  "FindStatusCondition cs (cond_Type new) = Some c \<Longrightarrow> cond_Status c = cond_Status new \<Longrightarrow>
   cond_Reason c = cond_Reason new \<Longrightarrow> cond_Message c = cond_Message new \<Longrightarrow>
   cond_ObservedGeneration c = cond_ObservedGeneration new \<Longrightarrow> SetStatusCondition now cs new = cs"
  by (induction cs) (auto simp: update_condition_id split: if_splits)

end
