(* ===== verification/Types.thy ===== *)
theory Types
  imports Meta
begin

text \<open>
  The Kubernetes objects the operator reads and writes besides the NodeClasses, as records of the
  fields the operator uses (of the spec of an admission policy: all fields). The Go types are
  vendored with the repository.
\<close>

text \<open>A quantity is a whole number of nanos, the finest scale a Kubernetes quantity has.\<close>

type_synonym quantity = int

text \<open>\<^verbatim>\<open>resource.MustParse\<close> of a whole number of Gi; a magnitude beyond 64 bits is capped.\<close>

definition quantity_of_GiB :: "int \<Rightarrow> quantity" where
  "quantity_of_GiB n = sgn n * min (\<bar>n\<bar> * 2 ^ 30) (2 ^ 63 - 1) * 10 ^ 9"

text \<open>\<^verbatim>\<open>Quantity.Value()\<close> rounds to the next whole unit away from zero. This holds of quantities that are
  kept as a 64-bit amount, as those of up to 18 digits are; longer ones are kept as decimals, which round otherwise.\<close>

definition quantity_value :: "quantity \<Rightarrow> int" where
  "quantity_value q = sgn q * ((\<bar>q\<bar> + (10 ^ 9 - 1)) div 10 ^ 9)"


section \<open>HostedControlPlane\<close>

record release =
  rel_Architecture :: string
  rel_Version :: string
  rel_Image :: string
  rel_URL :: string
  rel_Channels :: "string list"

record control_plane_update =
  cpu_State :: string
  cpu_StartedTime :: "time option"
  cpu_CompletionTime :: "time option"
  cpu_Version :: string
  cpu_Image :: string

record control_plane_version =
  cpv_Desired :: release
  cpv_History :: "control_plane_update list"
  cpv_ObservedGeneration :: int

abbreviation CompletedUpdate :: string where "CompletedUpdate \<equiv> ''Completed''"

text \<open>\<^verbatim>\<open>AWSClusterResourceTag\<close>\<close>

record resource_tag =
  rt_Key :: string
  rt_Value :: string
  rt_OverridePolicy :: string

abbreviation AWSResourceTagOverridePolicyAllow :: string where
  "AWSResourceTagOverridePolicyAllow \<equiv> ''Allow''"

record auto_node =
  auto_ProvisionerName :: string
  auto_Platform :: string
  auto_AWSRoleARN :: string
  auto_Azure :: "string gomap"

abbreviation ProvisionerKarpenter :: string where "ProvisionerKarpenter \<equiv> ''Karpenter''"

record auto_node_status =
  ans_NodeCount :: "int option"
  ans_NodeClaimCount :: "int option"
  ans_VCPUs :: "int option"

record hosted_control_plane =
  hcp_Meta :: object_meta
  hcp_InfraID :: string
  hcp_AutoNode :: auto_node
  hcp_AWS :: "resource_tag list option"   \<comment> \<open>\<^verbatim>\<open>Spec.Platform.AWS\<close>, its \<^verbatim>\<open>ResourceTags\<close>\<close>
  hcp_ControlPlaneVersion :: control_plane_version
  hcp_AutoNodeStatus :: auto_node_status

definition empty_control_plane_version :: control_plane_version where
  "empty_control_plane_version =
     \<lparr>cpv_Desired = \<lparr>rel_Architecture = [], rel_Version = [], rel_Image = [], rel_URL = [],
        rel_Channels = []\<rparr>,
      cpv_History = [], cpv_ObservedGeneration = 0\<rparr>"

definition new_hcp :: "string \<Rightarrow> string \<Rightarrow> hosted_control_plane" where
  "new_hcp ns n =
     \<lparr>hcp_Meta = new_meta ns n, hcp_InfraID = [],
      hcp_AutoNode = \<lparr>auto_ProvisionerName = [], auto_Platform = [], auto_AWSRoleARN = [],
        auto_Azure = []\<rparr>,
      hcp_AWS = None, hcp_ControlPlaneVersion = empty_control_plane_version,
      hcp_AutoNodeStatus = \<lparr>ans_NodeCount = None, ans_NodeClaimCount = None, ans_VCPUs = None\<rparr>\<rparr>"


section \<open>Core objects\<close>

record secret =
  sec_Meta :: object_meta
  sec_Data :: "string gomap"

record config_map =
  cm_Meta :: object_meta
  cm_Data :: "string gomap"

record node =
  node_Meta :: object_meta

record node_pool =
  np_Meta :: object_meta

record node_claim =
  nc_Meta :: object_meta
  nc_NodeName :: string
  nc_ProviderID :: string
  nc_CPU :: "quantity option"   \<comment> \<open>the \<^verbatim>\<open>cpu\<close> entry of \<^verbatim>\<open>Status.Capacity\<close>\<close>

record csr_condition =
  csrc_Type :: string
  csrc_Status :: string
  csrc_Reason :: string
  csrc_Message :: string

record cert_request =
  csr_Meta :: object_meta
  csr_Request :: string
  csr_SignerName :: string
  csr_Username :: string
  csr_Groups :: "string list"
  csr_Conditions :: "csr_condition list"

text \<open>A CustomResourceDefinition; the content of the spec is opaque to the operator.\<close>

record crd =
  crd_Meta :: object_meta
  crd_Spec :: string


section \<open>Objects of the standalone operator\<close>

text \<open>The ClusterOperator of the operator: its status conditions.\<close>

record co_condition =
  coc_Type :: string
  coc_Status :: string
  coc_Reason :: string
  coc_Message :: "string option"
  coc_LastTransitionTime :: "time option"

record cluster_operator =
  co_Meta :: object_meta
  co_Conditions :: "co_condition list"

text \<open>The replica counts of a Deployment's status, in 32 bits in the API.\<close>

record deployment =
  dep_Meta :: object_meta
  dep_Replicas :: int
  dep_UpdatedReplicas :: int
  dep_AvailableReplicas :: int

text \<open>The Karpenter resource; the one in use has the name \<open>SingletonName\<close>.\<close>

abbreviation SingletonName :: string where "SingletonName \<equiv> ''default''"

record karpenter_cr =
  kcr_Meta :: object_meta
  kcr_LogLevel :: string

record object_reference =
  oref_Group :: string
  oref_Resource :: string
  oref_Namespace :: "string option"
  oref_Name :: string

text \<open>A Pod: name and image of its container statuses.\<close>

record container_status =
  cs_Name :: string
  cs_Image :: string

record pod =
  pod_Meta :: object_meta
  pod_ContainerStatuses :: "container_status list"

text \<open>The Infrastructure of a standalone cluster.\<close>

record platform_status =
  plat_Type :: string
  plat_AWSRegion :: "string option"   \<comment> \<open>\<^verbatim>\<open>AWS.Region\<close>, unset when \<^verbatim>\<open>AWS\<close> is nil\<close>

record infrastructure =
  inf_Meta :: object_meta
  inf_InfrastructureName :: string
  inf_APIServerInternalURL :: string
  inf_PlatformStatus :: "platform_status option"


section \<open>Admission policies\<close>

text \<open>Label selectors, parameter kinds and references are opaque to the operator, which leaves
  them unset; they are kept as strings.\<close>

record rule_with_operations =
  rule_ResourceNames :: "string list"
  rule_Operations :: "string list"
  rule_APIGroups :: "string list"
  rule_APIVersions :: "string list"
  rule_Resources :: "string list"
  rule_Scope :: "string option"

record match_resources =
  mr_NamespaceSelector :: "string option"
  mr_ObjectSelector :: "string option"
  mr_ResourceRules :: "rule_with_operations list"
  mr_ExcludeResourceRules :: "rule_with_operations list"
  mr_MatchPolicy :: "string option"

record match_condition =
  mc_Name :: string
  mc_Expression :: string

record validation =
  val_Expression :: string
  val_Message :: string
  val_Reason :: "string option"
  val_MessageExpression :: string

record vap_spec =
  vap_ParamKind :: "string option"
  vap_MatchConstraints :: "match_resources option"
  vap_Validations :: "validation list"
  vap_FailurePolicy :: "string option"
  vap_AuditAnnotations :: "string list"
  vap_MatchConditions :: "match_condition list"
  vap_Variables :: "string list"

record validating_admission_policy =
  vap_Meta :: object_meta
  vap_Spec :: vap_spec

record vap_binding_spec =
  vapb_PolicyName :: string
  vapb_ParamRef :: "string option"
  vapb_MatchResources :: "match_resources option"
  vapb_ValidationActions :: "string list"

record vap_binding =
  vapb_Meta :: object_meta
  vapb_Spec :: vap_binding_spec

definition empty_vap_spec :: vap_spec where
  "empty_vap_spec =
     \<lparr>vap_ParamKind = None, vap_MatchConstraints = None, vap_Validations = [],
      vap_FailurePolicy = None, vap_AuditAnnotations = [], vap_MatchConditions = [],
      vap_Variables = []\<rparr>"

definition empty_vap_binding_spec :: vap_binding_spec where
  "empty_vap_binding_spec =
     \<lparr>vapb_PolicyName = [], vapb_ParamRef = None, vapb_MatchResources = None,
      vapb_ValidationActions = []\<rparr>"

end
