(* ===== verification/Ec2_Types.thy ===== *)
theory Ec2_Types
  imports Meta Kubelet_Config Types
begin

text \<open>
  The AWS NodeClasses: the OpenshiftEC2NodeClass users write
  (\<^verbatim>\<open>api/karpenter/v1/karpenter_types.go\<close>) and the EC2NodeClass of the Karpenter AWS
  provider it is reconciled into (vendored). Go's string enums stay strings, because the code has a
  branch for the empty and for unknown values; the constants carry the names of the source. A slice
  or map is an \<open>option\<close> where the code tells nil from empty.
\<close>


section \<open>OpenshiftEC2NodeClass\<close>

abbreviation IPAddressAssociationPublic :: string where "IPAddressAssociationPublic \<equiv> ''Public''"
abbreviation IPAddressAssociationSubnetDefault :: string where "IPAddressAssociationSubnetDefault \<equiv> ''SubnetDefault''"
abbreviation MonitoringStateDetailed :: string where "MonitoringStateDetailed \<equiv> ''Detailed''"
abbreviation MonitoringStateBasic :: string where "MonitoringStateBasic \<equiv> ''Basic''"
abbreviation RootVolumeDesignationRootVolume :: string where "RootVolumeDesignationRootVolume \<equiv> ''RootVolume''"
abbreviation DeleteOnTerminationPolicyDelete :: string where "DeleteOnTerminationPolicyDelete \<equiv> ''Delete''"
abbreviation DeleteOnTerminationPolicyRetain :: string where "DeleteOnTerminationPolicyRetain \<equiv> ''Retain''"
abbreviation EncryptionStateEncrypted :: string where "EncryptionStateEncrypted \<equiv> ''Encrypted''"
abbreviation EncryptionStateUnencrypted :: string where "EncryptionStateUnencrypted \<equiv> ''Unencrypted''"
abbreviation MetadataAccessHTTPEndpoint :: string where "MetadataAccessHTTPEndpoint \<equiv> ''HTTPEndpoint''"
abbreviation MetadataAccessNone :: string where "MetadataAccessNone \<equiv> ''None''"
abbreviation MetadataHTTPProtocolIPv4 :: string where "MetadataHTTPProtocolIPv4 \<equiv> ''IPv4''"
abbreviation MetadataHTTPProtocolIPv6 :: string where "MetadataHTTPProtocolIPv6 \<equiv> ''IPv6''"
abbreviation MetadataHTTPTokensStateRequired :: string where "MetadataHTTPTokensStateRequired \<equiv> ''Required''"
abbreviation MetadataHTTPTokensStateOptional :: string where "MetadataHTTPTokensStateOptional \<equiv> ''Optional''"
abbreviation CapacityReservationTypeDefault :: string where "CapacityReservationTypeDefault \<equiv> ''Default''"
abbreviation CapacityReservationTypeCapacityBlock :: string where "CapacityReservationTypeCapacityBlock \<equiv> ''CapacityBlock''"
abbreviation CapacityReservationStateActive :: string where "CapacityReservationStateActive \<equiv> ''Active''"
abbreviation CapacityReservationStateExpiring :: string where "CapacityReservationStateExpiring \<equiv> ''Expiring''"

record subnet_selector_term =
  sst_Tags :: "string gomap"
  sst_ID :: string

record security_group_selector_term =
  sgst_Tags :: "string gomap"
  sgst_ID :: string
  sgst_Name :: string

record capacity_reservation_selector_term =
  crst_Tags :: "string gomap"
  crst_ID :: string
  crst_OwnerID :: string
  crst_InstanceMatchCriteria :: string

record block_device =
  bd_DeleteOnTermination :: string
  bd_Encrypted :: string
  bd_IOPS :: "int option"
  bd_KMSKeyID :: string
  bd_SnapshotID :: string
  bd_Throughput :: "int option"
  bd_VolumeSizeGiB :: int
  bd_VolumeType :: string

record block_device_mapping =
  bdm_DeviceName :: string
  bdm_EBS :: block_device
  bdm_RootVolume :: string

record metadata_options =
  mo_Access :: string
  mo_HTTPIPProtocol :: string
  mo_HTTPPutResponseHopLimit :: int
  mo_HTTPTokens :: string

record openshift_ec2_spec =
  os_SubnetSelectorTerms :: "subnet_selector_term list option"
  os_SecurityGroupSelectorTerms :: "security_group_selector_term list option"
  os_CapacityReservationSelectorTerms :: "capacity_reservation_selector_term list option"
  os_IPAddressAssociation :: string
  os_Tags :: "string gomap option"
  os_BlockDeviceMappings :: "block_device_mapping list option"
  os_InstanceStorePolicy :: string
  os_Monitoring :: string
  os_MetadataOptions :: metadata_options
  os_Version :: string
  os_Kubelet :: kubelet_configuration

record subnet =
  sn_ID :: string
  sn_Zone :: string
  sn_ZoneID :: string

record security_group =
  sg_ID :: string
  sg_Name :: string

record capacity_reservation =
  cr_AvailabilityZone :: string
  cr_EndTime :: "time option"
  cr_ID :: string
  cr_InstanceMatchCriteria :: string
  cr_InstanceType :: string
  cr_OwnerID :: string
  cr_ReservationType :: string
  cr_State :: string

record openshift_ec2_status =
  ost_Conditions :: "condition list"
  ost_Subnets :: "subnet list option"
  ost_SecurityGroups :: "security_group list option"
  ost_ReleaseImage :: string
  ost_Version :: string
  ost_CapacityReservations :: "capacity_reservation list option"

record openshift_ec2_nodeclass =
  onc_Meta :: object_meta
  onc_Spec :: openshift_ec2_spec
  onc_Status :: openshift_ec2_status


section \<open>EC2NodeClass\<close>

record ami_selector_term =
  ami_Alias :: string
  ami_Tags :: "string gomap"
  ami_ID :: string
  ami_Name :: string
  ami_Owner :: string
  ami_SSMParameter :: string

record k_kubelet =
  kk_ClusterDNS :: "string list"
  kk_MaxPods :: "int option"
  kk_PodsPerCore :: "int option"
  kk_SystemReserved :: "string gomap option"
  kk_KubeReserved :: "string gomap option"
  kk_EvictionHard :: "string gomap option"
  kk_EvictionSoft :: "string gomap option"
  kk_EvictionSoftGracePeriod :: "int gomap option"   \<comment> \<open>durations in nanoseconds\<close>
  kk_EvictionMaxPodGracePeriod :: "int option"
  kk_ImageGCHighThresholdPercent :: "int option"
  kk_ImageGCLowThresholdPercent :: "int option"
  kk_CPUCFSQuota :: "bool option"

record k_metadata_options =
  kmo_HTTPEndpoint :: "string option"
  kmo_HTTPProtocolIPv6 :: "string option"
  kmo_HTTPPutResponseHopLimit :: "int option"
  kmo_HTTPTokens :: "string option"

record k_block_device =
  kbd_DeleteOnTermination :: "bool option"
  kbd_Encrypted :: "bool option"
  kbd_IOPS :: "int option"
  kbd_KMSKeyID :: "string option"
  kbd_SnapshotID :: "string option"
  kbd_Throughput :: "int option"
  kbd_VolumeInitializationRate :: "int option"
  kbd_VolumeSize :: "quantity option"
  kbd_VolumeType :: "string option"

record k_block_device_mapping =
  kbdm_DeviceName :: "string option"
  kbdm_EBS :: "k_block_device option"
  kbdm_RootVolume :: bool

text \<open>The fields the operator leaves unset are kept as opaque strings (\<open>ec_PlacementGroupSelector\<close>,
  \<open>ec_NetworkInterfaces\<close>, \<open>ec_ConnectionTracking\<close>, \<open>ec_CPUOptions\<close>).\<close>

record ec2_spec =
  ec_SubnetSelectorTerms :: "subnet_selector_term list"
  ec_SecurityGroupSelectorTerms :: "security_group_selector_term list"
  ec_CapacityReservationSelectorTerms :: "capacity_reservation_selector_term list"
  ec_PlacementGroupSelector :: "string option"
  ec_AssociatePublicIPAddress :: "bool option"
  ec_IPPrefixCount :: "int option"
  ec_AMISelectorTerms :: "ami_selector_term list"
  ec_AMIFamily :: "string option"
  ec_UserData :: "string option"
  ec_Role :: string
  ec_InstanceProfile :: "string option"
  ec_Tags :: "string gomap option"
  ec_Kubelet :: "k_kubelet option"
  ec_BlockDeviceMappings :: "k_block_device_mapping list"
  ec_InstanceStorePolicy :: "string option"
  ec_NetworkInterfaces :: "string list"
  ec_DetailedMonitoring :: "bool option"
  ec_MetadataOptions :: "k_metadata_options option"
  ec_ConnectionTracking :: "string option"
  ec_Context :: "string option"
  ec_CPUOptions :: "string option"

text \<open>The reservations of the status use the lower-case values of the provider.\<close>

record ec2_status =
  es_Subnets :: "subnet list"
  es_SecurityGroups :: "security_group list"
  es_CapacityReservations :: "capacity_reservation list"
  es_Conditions :: "condition list"

record ec2_nodeclass =
  ec2_Meta :: object_meta
  ec2_Spec :: ec2_spec
  ec2_Status :: ec2_status

definition zero_ec2_spec :: ec2_spec where
  "zero_ec2_spec =
     \<lparr>ec_SubnetSelectorTerms = [], ec_SecurityGroupSelectorTerms = [],
      ec_CapacityReservationSelectorTerms = [], ec_PlacementGroupSelector = None,
      ec_AssociatePublicIPAddress = None, ec_IPPrefixCount = None, ec_AMISelectorTerms = [],
      ec_AMIFamily = None, ec_UserData = None, ec_Role = [], ec_InstanceProfile = None,
      ec_Tags = None, ec_Kubelet = None, ec_BlockDeviceMappings = [],
      ec_InstanceStorePolicy = None, ec_NetworkInterfaces = [], ec_DetailedMonitoring = None,
      ec_MetadataOptions = None, ec_ConnectionTracking = None, ec_Context = None,
      ec_CPUOptions = None\<rparr>"

definition new_ec2_nodeclass :: "string \<Rightarrow> string \<Rightarrow> ec2_nodeclass" where
  "new_ec2_nodeclass ns n =
     \<lparr>ec2_Meta = new_meta ns n, ec2_Spec = zero_ec2_spec,
      ec2_Status = \<lparr>es_Subnets = [], es_SecurityGroups = [], es_CapacityReservations = [],
        es_Conditions = []\<rparr>\<rparr>"

definition zero_openshift_ec2_spec :: openshift_ec2_spec where
  "zero_openshift_ec2_spec =
     \<lparr>os_SubnetSelectorTerms = None, os_SecurityGroupSelectorTerms = None,
      os_CapacityReservationSelectorTerms = None, os_IPAddressAssociation = [], os_Tags = None,
      os_BlockDeviceMappings = None, os_InstanceStorePolicy = [], os_Monitoring = [],
      os_MetadataOptions = \<lparr>mo_Access = [], mo_HTTPIPProtocol = [],
        mo_HTTPPutResponseHopLimit = 0, mo_HTTPTokens = []\<rparr>,
      os_Version = [], os_Kubelet = zero_kubelet\<rparr>"

definition zero_openshift_ec2_status :: openshift_ec2_status where
  "zero_openshift_ec2_status =
     \<lparr>ost_Conditions = [], ost_Subnets = None, ost_SecurityGroups = None, ost_ReleaseImage = [],
      ost_Version = [], ost_CapacityReservations = None\<rparr>"

definition new_openshift_ec2_nodeclass :: "string \<Rightarrow> openshift_ec2_nodeclass" where
  "new_openshift_ec2_nodeclass n =
     \<lparr>onc_Meta = new_meta [] n, onc_Spec = zero_openshift_ec2_spec,
      onc_Status = zero_openshift_ec2_status\<rparr>"

end
