(* ===== verification/Nodeclass_Status.thy ===== *)
theory Nodeclass_Status
  imports Meta
begin

text \<open>
  \<^verbatim>\<open>pkg/controllers/nodeclass/status/conditions.go\<close>: how the conditions of a provider
  NodeClass are copied onto the OpenShift NodeClass, with \<^verbatim>\<open>Ready\<close> forced to False until
  the version is resolved.

  The locale \<open>condition_store\<close> is the contract of the condition helpers
  \<^verbatim>\<open>meta.FindStatusCondition\<close> and \<^verbatim>\<open>meta.SetStatusCondition\<close> the proofs
  rest on; it is interpreted on their models.
\<close>

abbreviation ConditionTypeReady :: string where "ConditionTypeReady \<equiv> ''Ready''"
abbreviation ConditionTypeVersionResolved :: string where "ConditionTypeVersionResolved \<equiv> ''VersionResolved''"
abbreviation ConditionTypeSupportedVersionSkew :: string where "ConditionTypeSupportedVersionSkew \<equiv> ''SupportedVersionSkew''"
abbreviation ConditionReasonResolutionFailed :: string where "ConditionReasonResolutionFailed \<equiv> ''ResolutionFailed''"


section \<open>The loop over the provider conditions\<close>

text \<open>The result so far and the provider's Ready condition; the last one wins.\<close>

definition sync_step ::
  "time \<Rightarrow> condition \<Rightarrow> condition list \<times> condition option \<Rightarrow> condition list \<times> condition option"
where
  "sync_step now c st =
     (if cond_Type c = ConditionTypeReady then (fst st, Some c)
      else (SetStatusCondition now (fst st) c, snd st))"

definition sync_loop ::
  "time \<Rightarrow> condition list \<Rightarrow> condition list \<Rightarrow> condition list \<times> condition option"
where
  "sync_loop now conditions providerConditions = fold (sync_step now) providerConditions (conditions, None)"

definition not_ready :: "int \<Rightarrow> condition option \<Rightarrow> condition" where
  "not_ready generation versionResolved =
     (let c = \<lparr>cond_Type = ConditionTypeReady, cond_Status = ConditionFalse,
          cond_ObservedGeneration = generation, cond_LastTransitionTime = None,
          cond_Reason = ConditionReasonResolutionFailed,
          cond_Message = ''Version resolution status is unknown''\<rparr>
      in case versionResolved of
           None \<Rightarrow> c
         | Some v \<Rightarrow> c\<lparr>cond_Reason := cond_Reason v,
                       cond_Message := ''Version resolution failed: '' @ cond_Message v\<rparr>)"

definition SyncConditions :: "time \<Rightarrow> condition list \<Rightarrow> condition list \<Rightarrow> int \<Rightarrow> condition list" where
  "SyncConditions now conditions providerConditions generation =
     (let (result, providerReady) = sync_loop now conditions providerConditions;
          versionResolved = FindStatusCondition result ConditionTypeVersionResolved
      in if (case versionResolved of None \<Rightarrow> False | Some v \<Rightarrow> cond_Status v = ConditionTrue)
         then (case providerReady of
                 None \<Rightarrow> result
               | Some c \<Rightarrow> SetStatusCondition now result c)
         else SetStatusCondition now result (not_ready generation versionResolved))"


section \<open>The contract of a condition list\<close>

locale condition_store =
  fixes find :: "'s \<Rightarrow> string \<Rightarrow> condition option"
    and set_cond :: "time \<Rightarrow> 's \<Rightarrow> condition \<Rightarrow> 's"
  assumes find_set: "find (set_cond now cs c) t =
      (if t = cond_Type c then Some (set_one now (find cs t) c) else find cs t)"
    and set_stored: "find cs (cond_Type c) = Some old \<Longrightarrow> cond_Status old = cond_Status c \<Longrightarrow>
      cond_Reason old = cond_Reason c \<Longrightarrow> cond_Message old = cond_Message c \<Longrightarrow>
      cond_ObservedGeneration old = cond_ObservedGeneration c \<Longrightarrow> set_cond now cs c = cs"
begin

lemma find_fold_other:
  assumes "t \<notin> cond_Type ` set xs"
  shows "find (fold (\<lambda>c s. set_cond now s c) xs cs) t = find cs t"
  using assms by (induction xs arbitrary: cs) (auto simp: find_set)

lemma find_fold_distinct:
  assumes "c \<in> set xs" and "distinct (map cond_Type xs)"
  shows "find (fold (\<lambda>c s. set_cond now s c) xs cs) (cond_Type c) = Some (set_one now (find cs (cond_Type c)) c)"
  using assms
proof (induction xs arbitrary: cs)
  case Nil
  then show ?case by simp
next
  case (Cons x xs)
  show ?case
  proof (cases "c = x")
    case True
    with Cons.prems have "cond_Type c \<notin> cond_Type ` set xs" by auto
    with True show ?thesis by (simp add: find_fold_other find_set)
  next
    case False
    with Cons.prems have "c \<in> set xs" and "distinct (map cond_Type xs)" by auto
    moreover from this have "cond_Type c \<noteq> cond_Type x"
      using Cons.prems(2) by (metis distinct.simps(2) image_eqI list.set_map list.simps(9))
    ultimately have "c \<in> set xs" "distinct (map cond_Type xs)" "cond_Type c \<noteq> cond_Type x" .
    with Cons.IH [of "set_cond now cs x"] show ?thesis by (simp add: find_set)
  qed
qed

lemma fold_stored:
  assumes "\<And>c. c \<in> set xs \<Longrightarrow> \<exists>old. find cs (cond_Type c) = Some old \<and> cond_Status old = cond_Status c \<and>
      cond_Reason old = cond_Reason c \<and> cond_Message old = cond_Message c \<and>
      cond_ObservedGeneration old = cond_ObservedGeneration c"
  shows "fold (\<lambda>c s. set_cond now s c) xs cs = cs"
  using assms
proof (induction xs)
  case Nil
  then show ?case by simp
next
  case (Cons x xs)
  then have "set_cond now cs x = cs" by (metis list.set_intros(1) set_stored)
  with Cons show ?case by simp
qed

end

interpretation conditions: condition_store FindStatusCondition SetStatusCondition
  by unfold_locales (auto simp: Find_Set intro: Set_id)


section \<open>The loop as a fold over the other conditions\<close>

abbreviation others :: "condition list \<Rightarrow> condition list" where
  "others cs \<equiv> filter (\<lambda>c. cond_Type c \<noteq> ConditionTypeReady) cs"

lemma sync_step_pair:
  "sync_step now c (cs, rd) =
     (if cond_Type c = ConditionTypeReady then (cs, Some c) else (SetStatusCondition now cs c, rd))"
  by (simp add: sync_step_def)

lemma fold_sync_step:
  "fold (sync_step now) ps (cs, rd) =
     (fold (\<lambda>c s. SetStatusCondition now s c) (others ps) cs,
      case FindStatusCondition (rev ps) ConditionTypeReady of None \<Rightarrow> rd | Some c \<Rightarrow> Some c)"
proof (induction ps arbitrary: cs rd)
  case Nil
  then show ?case by simp
next
  case (Cons p ps)
  have app: "FindStatusCondition (xs @ [p]) t =
      (case FindStatusCondition xs t of Some c \<Rightarrow> Some c
       | None \<Rightarrow> if cond_Type p = t then Some p else None)" for xs t
    by (induction xs) auto
  show ?case by (auto simp: Cons.IH sync_step_pair app split: option.splits)
qed

lemma sync_loop_eq:
  "sync_loop now cs ps =
     (fold (\<lambda>c s. SetStatusCondition now s c) (others ps) cs,
      FindStatusCondition (rev ps) ConditionTypeReady)"
  by (simp add: sync_loop_def fold_sync_step split: option.splits)

lemma Find_rev_distinct:
  "distinct (map cond_Type ps) \<Longrightarrow> FindStatusCondition (rev ps) t = FindStatusCondition ps t"
proof (induction ps)
  case Nil
  then show ?case by simp
next
  case (Cons p ps)
  have app: "FindStatusCondition (xs @ [p]) t =
      (case FindStatusCondition xs t of Some c \<Rightarrow> Some c
       | None \<Rightarrow> if cond_Type p = t then Some p else None)" for xs
    by (induction xs) auto
  have none: "FindStatusCondition xs t = None \<longleftrightarrow> t \<notin> cond_Type ` set xs" for xs
    by (induction xs) auto
  from Cons show ?case
    by (auto simp: app split: option.splits) (metis none option.distinct(1))
qed


section \<open>What a sync stores\<close>

definition version_resolved :: "condition list \<Rightarrow> bool" where
  "version_resolved cs \<longleftrightarrow>
     (\<exists>v. FindStatusCondition cs ConditionTypeVersionResolved = Some v \<and> cond_Status v = ConditionTrue)"

abbreviation copied :: "time \<Rightarrow> condition list \<Rightarrow> condition list \<Rightarrow> condition list" where
  "copied now cs ps \<equiv> fold (\<lambda>c s. SetStatusCondition now s c) (others ps) cs"

lemma SyncConditions_eq:
  "SyncConditions now cs ps g =
     (if version_resolved (copied now cs ps)
      then (case FindStatusCondition (rev ps) ConditionTypeReady of
              None \<Rightarrow> copied now cs ps
            | Some c \<Rightarrow> SetStatusCondition now (copied now cs ps) c)
      else SetStatusCondition now (copied now cs ps)
             (not_ready g (FindStatusCondition (copied now cs ps) ConditionTypeVersionResolved)))"
  by (simp add: SyncConditions_def sync_loop_eq Let_def version_resolved_def split: option.splits)

lemma not_ready_simps [simp]:
  "cond_Type (not_ready g v) = ConditionTypeReady" "cond_Status (not_ready g v) = ConditionFalse"
  "cond_ObservedGeneration (not_ready g v) = g"
  by (simp_all add: not_ready_def Let_def split: option.splits)

lemma Find_copied_other:
  "t \<notin> cond_Type ` set ps \<Longrightarrow> FindStatusCondition (copied now cs ps) t = FindStatusCondition cs t"
  by (rule conditions.find_fold_other) auto

lemma Find_copied_Ready:
  "FindStatusCondition (copied now cs ps) ConditionTypeReady = FindStatusCondition cs ConditionTypeReady"
  by (rule conditions.find_fold_other) auto

lemma Find_copied:
  assumes "c \<in> set ps" and "distinct (map cond_Type ps)" and "cond_Type c \<noteq> ConditionTypeReady"
  shows "FindStatusCondition (copied now cs ps) (cond_Type c) =
     Some (set_one now (FindStatusCondition cs (cond_Type c)) c)"
  using assms by (intro conditions.find_fold_distinct) (auto intro: distinct_map_filter)

text \<open>Only the Ready condition is set after the loop.\<close>

lemma Find_Sync_other:
  "t \<noteq> ConditionTypeReady \<Longrightarrow>
     FindStatusCondition (SyncConditions now cs ps g) t = FindStatusCondition (copied now cs ps) t"
  by (auto simp: SyncConditions_eq Find_Set dest: Find_type split: option.splits)

lemma Find_Sync_Ready:
  "FindStatusCondition (SyncConditions now cs ps g) ConditionTypeReady =
     (if version_resolved (SyncConditions now cs ps g)
      then (case FindStatusCondition (rev ps) ConditionTypeReady of
              None \<Rightarrow> FindStatusCondition cs ConditionTypeReady
            | Some c \<Rightarrow> Some (set_one now (FindStatusCondition cs ConditionTypeReady) c))
      else Some (set_one now (FindStatusCondition cs ConditionTypeReady)
             (not_ready g (FindStatusCondition (SyncConditions now cs ps g) ConditionTypeVersionResolved))))"
proof -
  have v: "version_resolved (SyncConditions now cs ps g) = version_resolved (copied now cs ps)"
    by (simp add: version_resolved_def Find_Sync_other)
  show ?thesis
  proof (cases "FindStatusCondition (rev ps) ConditionTypeReady")
    case None
    then show ?thesis unfolding v by (simp add: SyncConditions_eq Find_Set Find_copied_Ready Find_copied_other
        Find_Sync_other [symmetric])
  next
    case (Some c)
    then have "cond_Type c = ConditionTypeReady" by (rule Find_type)
    with Some show ?thesis unfolding v by (simp add: SyncConditions_eq Find_Set Find_copied_Ready)
  qed
qed


text \<open>The readiness gate, as an invariant of condition lists that the reconcilers rely on.\<close>

definition ready_gated :: "condition list \<Rightarrow> bool" where
  "ready_gated cs \<longleftrightarrow>
     (\<forall>c. FindStatusCondition cs ConditionTypeReady = Some c \<and> cond_Status c = ConditionTrue \<longrightarrow>
        version_resolved cs)"

lemma ready_gated_Sync [simp]: "ready_gated (SyncConditions now cs ps g)"
  by (simp add: ready_gated_def Find_Sync_Ready)

lemma ready_gated_frame:
  assumes "ready_gated cs"
    and "\<And>t. t \<in> {ConditionTypeReady, ConditionTypeVersionResolved} \<Longrightarrow>
       FindStatusCondition ds t = FindStatusCondition cs t"
  shows "ready_gated ds"
  using assms by (simp add: ready_gated_def version_resolved_def)


section \<open>Properties\<close>

text \<open>Readiness gate. A NodeClass is only ever reported ready while its version is resolved,
  whatever the provider and the stored conditions say.\<close>

theorem ready_only_if_version_resolved:
  assumes "FindStatusCondition (SyncConditions now cs ps g) ConditionTypeReady = Some c"
    and "cond_Status c = ConditionTrue"
  shows "\<exists>v. FindStatusCondition (SyncConditions now cs ps g) ConditionTypeVersionResolved = Some v \<and>
           cond_Status v = ConditionTrue"
proof (rule ccontr)
  assume "\<not> ?thesis"
  then have "\<not> version_resolved (SyncConditions now cs ps g)" by (simp add: version_resolved_def)
  with assms show False by (auto simp: Find_Sync_Ready)
qed

text \<open>C27: the result of a sync, condition by condition. A provider condition is stored with its own
  content; the conditions the provider does not report, such as those of the ignition controller, stay
  as they are; Ready follows the provider when the version is resolved and is False, with the reason of
  the resolution, otherwise.\<close>

theorem sync_conditions_spec:
  assumes "distinct (map cond_Type ps)"
  shows "FindStatusCondition (SyncConditions now cs ps g) t =
     (if t \<noteq> ConditionTypeReady then
        (case FindStatusCondition ps t of
           Some p \<Rightarrow> Some (set_one now (FindStatusCondition cs t) p)
         | None \<Rightarrow> FindStatusCondition cs t)
      else if version_resolved (SyncConditions now cs ps g) then
        (case FindStatusCondition ps t of
           Some p \<Rightarrow> Some (set_one now (FindStatusCondition cs t) p)
         | None \<Rightarrow> FindStatusCondition cs t)
      else Some (set_one now (FindStatusCondition cs t)
             (not_ready g (FindStatusCondition (SyncConditions now cs ps g) ConditionTypeVersionResolved))))"
proof (cases "t = ConditionTypeReady")
  case True
  with assms show ?thesis
    by (simp add: Find_Sync_Ready Find_rev_distinct split: option.split)
next
  case False
  have mem: "FindStatusCondition ps t = Some p \<Longrightarrow> p \<in> set ps" for p
    by (induction ps) (auto split: if_splits)
  have none: "FindStatusCondition ps t = None \<Longrightarrow> t \<notin> cond_Type ` set ps"
    by (induction ps) (auto split: if_splits)
  show ?thesis
  proof (cases "FindStatusCondition ps t")
    case None
    with False none show ?thesis by (simp add: Find_Sync_other Find_copied_other)
  next
    case (Some p)
    with False mem assms Find_copied [of p ps now cs] show ?thesis
      by (simp add: Find_Sync_other Find_type)
  qed
qed

lemma set_one_time:
  "cond_Status (set_one now (Some old) new) = cond_Status old \<Longrightarrow>
     cond_LastTransitionTime (set_one now (Some old) new) = cond_LastTransitionTime old"
  by (simp add: set_one_def update_condition_time)

text \<open>A sync does not move the transition time of a condition whose status it leaves alone.\<close>

theorem transition_time_kept:
  assumes "distinct (map cond_Type ps)"
    and "FindStatusCondition cs t = Some old"
    and "FindStatusCondition (SyncConditions now cs ps g) t = Some new"
    and "cond_Status new = cond_Status old"
  shows "cond_LastTransitionTime new = cond_LastTransitionTime old"
  using assms(2-4)
  unfolding sync_conditions_spec [OF assms(1), of now cs g t]
  by (auto dest: set_one_time simp del: set_one_simps split: option.splits if_splits)


text \<open>Witnesses: a NodeClass whose version is resolved and whose provider reports Ready.\<close>

definition resolved_example :: condition where
  "resolved_example =
     \<lparr>cond_Type = ConditionTypeVersionResolved, cond_Status = ConditionTrue, cond_ObservedGeneration = 1,
      cond_LastTransitionTime = Some 5, cond_Reason = ''VersionResolved'', cond_Message = []\<rparr>"

definition ready_example :: condition where
  "ready_example =
     \<lparr>cond_Type = ConditionTypeReady, cond_Status = ConditionTrue, cond_ObservedGeneration = 1,
      cond_LastTransitionTime = Some 7, cond_Reason = ''Ready'', cond_Message = []\<rparr>"

lemma sync_example:
  "SyncConditions 9 [resolved_example] [ready_example] 1 = [resolved_example, ready_example]"
  by (simp add: SyncConditions_eq version_resolved_def resolved_example_def ready_example_def
      fresh_condition_def)

lemma sync_example_again:
  "SyncConditions 9 [resolved_example, ready_example]
       [ready_example\<lparr>cond_LastTransitionTime := Some 8, cond_Reason := ''Other''\<rparr>] 1 =
     [resolved_example, ready_example\<lparr>cond_Reason := ''Other''\<rparr>]"
  by (simp add: SyncConditions_eq version_resolved_def resolved_example_def ready_example_def
      update_condition_def)

lemmas example_types = resolved_example_def ready_example_def

lemma ready_only_if_version_resolved_witness:
  "\<exists>v. FindStatusCondition (SyncConditions 9 [resolved_example] [ready_example] 1)
       ConditionTypeVersionResolved = Some v \<and> cond_Status v = ConditionTrue"
  by (rule ready_only_if_version_resolved [of 9 "[resolved_example]" "[ready_example]" 1 ready_example])
    (simp_all add: sync_example, simp_all add: example_types)

lemma sync_conditions_spec_witness:
  "FindStatusCondition (SyncConditions 9 [resolved_example] [ready_example] 1) ConditionTypeVersionResolved
     = Some resolved_example"
  using sync_conditions_spec [of "[ready_example]" 9 "[resolved_example]" 1 ConditionTypeVersionResolved]
  by (simp add: example_types)

lemma transition_time_kept_witness:
  "\<exists>new. FindStatusCondition
      (SyncConditions 9 [resolved_example, ready_example]
         [ready_example\<lparr>cond_LastTransitionTime := Some 8, cond_Reason := ''Other''\<rparr>] 1)
      ConditionTypeReady = Some new \<and> cond_LastTransitionTime new = Some 7"
  using transition_time_kept
    [of "[ready_example\<lparr>cond_LastTransitionTime := Some 8, cond_Reason := ''Other''\<rparr>]"
      "[resolved_example, ready_example]" ConditionTypeReady ready_example 9 1
      "ready_example\<lparr>cond_Reason := ''Other''\<rparr>"]
  unfolding sync_example_again by (simp add: example_types)

lemma sync_again:
  assumes "distinct (map cond_Type ps)"
  shows "SyncConditions now' (SyncConditions now cs ps g) ps g = SyncConditions now cs ps g"
proof -
  let ?r = "SyncConditions now cs ps g"
  have copy: "copied now' ?r ps = ?r"
  proof (rule conditions.fold_stored)
    fix c
    assume c: "c \<in> set (others ps)"
    then have "FindStatusCondition ?r (cond_Type c) = Some (set_one now (FindStatusCondition cs (cond_Type c)) c)"
      using assms by (simp add: Find_Sync_other Find_copied)
    then show "\<exists>old. FindStatusCondition ?r (cond_Type c) = Some old \<and> cond_Status old = cond_Status c \<and>
        cond_Reason old = cond_Reason c \<and> cond_Message old = cond_Message c \<and>
        cond_ObservedGeneration old = cond_ObservedGeneration c"
      by simp
  qed
  have set: "SetStatusCondition now' ?r c = ?r"
    if "FindStatusCondition ?r (cond_Type c) = Some (set_one now old c)" for c old
    by (rule Set_id [OF that]) simp_all
  show ?thesis
  proof (cases "version_resolved ?r")
    case True
    show ?thesis
    proof (cases "FindStatusCondition (rev ps) ConditionTypeReady")
      case None
      with True copy show ?thesis by (simp add: SyncConditions_eq [of now' ?r])
    next
      case (Some c)
      then have "cond_Type c = ConditionTypeReady" by (rule Find_type)
      with Some True copy set show ?thesis
        by (simp add: SyncConditions_eq [of now' ?r] Find_Sync_Ready)
    qed
  next
    case False
    with copy set show ?thesis
      by (simp add: SyncConditions_eq [of now' ?r] Find_Sync_Ready)
  qed
qed

text \<open>Syncing the same provider conditions again, at any later time, changes nothing, so an
  unchanged NodeClass causes no status write.\<close>

theorem sync_idempotent:
  assumes "distinct (map cond_Type ps)"
  shows "SyncConditions now' (SyncConditions now cs ps g) ps g = SyncConditions now cs ps g"
  by (rule sync_again [OF assms])

lemma sync_idempotent_witness:
  "SyncConditions 11 (SyncConditions 9 [resolved_example] [ready_example] 1) [ready_example] 1 =
     [resolved_example, ready_example]"
  using sync_idempotent [of "[ready_example]" 11 9 "[resolved_example]" 1]
  by (simp add: sync_example)

end
