(* ===== verification/Ec2_Tags.thy ===== *)
theory Ec2_Tags
  imports Ec2_Types Nodeclass_Status
begin

text \<open>
  The AWS tags of an EC2NodeClass (\<^verbatim>\<open>mergeEC2NodeClassTags\<close>,
  \<^verbatim>\<open>filterRestrictedTags\<close>, \<^verbatim>\<open>setAWSResourceTagConflictCondition\<close> of
  \<^verbatim>\<open>pkg/controllers/nodeclass/ec2/controller.go\<close>): the tags of the HostedCluster and of
  the NodeClass merged by the override policy, without the tags Karpenter manages itself, and the
  condition that reports what was not applied.
\<close>


section \<open>Restricted tags\<close>

definition is_alnum :: "char \<Rightarrow> bool" where
  "is_alnum c = (let n = of_char c :: nat in
     (48 \<le> n \<and> n \<le> 57) \<or> (65 \<le> n \<and> n \<le> 90) \<or> (97 \<le> n \<and> n \<le> 122))"

definition is_cluster_name_char :: "char \<Rightarrow> bool" where
  "is_cluster_name_char c \<longleftrightarrow> is_alnum c \<or> c = CHR ''-'' \<or> c = CHR ''_''"

abbreviation cluster_tag_prefix :: string where "cluster_tag_prefix \<equiv> ''kubernetes.io/cluster/''"

text \<open>\<^verbatim>\<open>^kubernetes\.io/cluster/[0-9A-Za-z][A-Za-z0-9\-_]*$\<close>\<close>

definition matches_cluster_tag :: "string \<Rightarrow> bool" where
  "matches_cluster_tag key =
     (prefix cluster_tag_prefix key \<and>
      (case drop (length cluster_tag_prefix) key of
         [] \<Rightarrow> False
       | c # cs \<Rightarrow> is_alnum c \<and> list_all is_cluster_name_char cs))"

definition restricted_tag_keys :: "string list" where
  "restricted_tag_keys =
     [''karpenter.sh/nodepool'', ''eks:eks-cluster-name'', ''karpenter.k8s.aws/ec2nodeclass'',
      ''karpenter.sh/nodeclaim'']"

definition is_restricted_tag :: "string \<Rightarrow> bool" where
  "is_restricted_tag key \<longleftrightarrow> matches_cluster_tag key \<or> key \<in> set restricted_tag_keys"

text \<open>The kept tags and the removed keys.\<close>

definition filterRestrictedTags :: "string gomap \<Rightarrow> string gomap \<times> string list" where
  "filterRestrictedTags tags =
     (if tags = [] then (tags, [])
      else (filter (\<lambda>kv. \<not> is_restricted_tag (fst kv)) tags,
            map fst (filter (\<lambda>kv. is_restricted_tag (fst kv)) tags)))"


section \<open>Merging\<close>

text \<open>The platform tags and the keys whose override is allowed.\<close>

definition platform_tags :: "resource_tag list option \<Rightarrow> string gomap" where
  "platform_tags aws =
     (case aws of None \<Rightarrow> [] | Some ts \<Rightarrow> fold (\<lambda>t m. map_put (rt_Key t) (rt_Value t) m) ts [])"

definition allow_override :: "resource_tag list option \<Rightarrow> string \<Rightarrow> bool" where
  "allow_override aws k =
     (case aws of
        None \<Rightarrow> False
      | Some ts \<Rightarrow> \<exists>t\<in>set ts. rt_Key t = k \<and> rt_OverridePolicy t = AWSResourceTagOverridePolicyAllow)"

definition add_nodeclass_tag ::
  "(string \<Rightarrow> bool) \<Rightarrow> string \<times> string \<Rightarrow> string gomap \<Rightarrow> string gomap"
where
  "add_nodeclass_tag allow kv tags =
     (if map_has tags (fst kv) \<and> \<not> allow (fst kv) then tags else map_put (fst kv) (snd kv) tags)"

definition mergeEC2NodeClassTags ::
  "string gomap option \<Rightarrow> resource_tag list option \<Rightarrow> string gomap option"
where
  "mergeEC2NodeClassTags specTags aws =
     (let tags = fold (add_nodeclass_tag (allow_override aws))
                   (case specTags of None \<Rightarrow> [] | Some m \<Rightarrow> m) (platform_tags aws);
          (filteredTags, removedTags) = filterRestrictedTags tags
      in if specTags = None \<and> filteredTags = [] then None else Some filteredTags)"


section \<open>The conflict condition\<close>

abbreviation AWSResourceTagConflictConditionType :: string where
  "AWSResourceTagConflictConditionType \<equiv> ''AWSResourceTagConflict''"

definition hc_tag :: "resource_tag list \<Rightarrow> string \<Rightarrow> resource_tag option" where
  "hc_tag ts k = find (\<lambda>t. rt_Key t = k) ts"

definition is_blocked :: "resource_tag list \<Rightarrow> string \<times> string \<Rightarrow> bool" where
  "is_blocked ts kv =
     (case hc_tag ts (fst kv) of
        None \<Rightarrow> False
      | Some t \<Rightarrow> rt_Value t \<noteq> snd kv \<and> rt_OverridePolicy t \<noteq> AWSResourceTagOverridePolicyAllow)"

definition is_overridden :: "resource_tag list \<Rightarrow> string \<times> string \<Rightarrow> bool" where
  "is_overridden ts kv =
     (case hc_tag ts (fst kv) of
        None \<Rightarrow> False
      | Some t \<Rightarrow> rt_Value t \<noteq> snd kv \<and> rt_OverridePolicy t = AWSResourceTagOverridePolicyAllow)"

definition conflict_condition :: "nat \<Rightarrow> nat \<Rightarrow> int \<Rightarrow> condition" where
  "conflict_condition blocked overridden generation =
     (if blocked = 0 then
        \<lparr>cond_Type = AWSResourceTagConflictConditionType, cond_Status = ConditionFalse,
         cond_ObservedGeneration = generation, cond_LastTransitionTime = None,
         cond_Reason = ''NoTagConflict'',
         cond_Message =
           (if overridden > 0
            then Itoa (int overridden) @ '' AWS resource tag override(s) applied; nodeclass values used (allowed by HostedCluster)''
            else ''No AWS resource tag conflicts detected'')\<rparr>
      else
        \<lparr>cond_Type = AWSResourceTagConflictConditionType, cond_Status = ConditionTrue,
         cond_ObservedGeneration = generation, cond_LastTransitionTime = None,
         cond_Reason = ''TagConflictDetected'',
         cond_Message =
           Itoa (int blocked) @ '' AWS resource tag conflict(s) detected; HostedCluster values preserved (override not allowed)''
           @ (if overridden > 0
              then ''; '' @ Itoa (int overridden) @ '' override(s) applied (allowed by HostedCluster)''
              else [])\<rparr>)"

definition setAWSResourceTagConflictCondition ::
  "time \<Rightarrow> string gomap option \<Rightarrow> resource_tag list option \<Rightarrow> int \<Rightarrow> condition list \<Rightarrow> condition list"
where
  "setAWSResourceTagConflictCondition now specTags aws generation conditions =
     (let ts = (case aws of None \<Rightarrow> [] | Some ts \<Rightarrow> ts);
          m = (case specTags of None \<Rightarrow> [] | Some m \<Rightarrow> m)
      in if ts = [] \<or> m = []
         then RemoveStatusCondition conditions AWSResourceTagConflictConditionType
         else SetStatusCondition now conditions
                (conflict_condition (length (filter (is_blocked ts) m))
                   (length (filter (is_overridden ts) m)) generation))"


section \<open>Lemmas\<close>

lemma map_of_filter_restricted:
  "map_of (fst (filterRestrictedTags tags)) k = (if is_restricted_tag k then None else map_of tags k)"
  by (simp add: filterRestrictedTags_def map_of_filter_key [of "\<lambda>k. \<not> is_restricted_tag k"])

lemma platform_tags_Some:
  "map_of (platform_tags (Some ts)) k = map_option rt_Value (find (\<lambda>t. rt_Key t = k) (rev ts))"
proof -
  have "map_of (fold (\<lambda>t m. map_put (rt_Key t) (rt_Value t) m) ts m) k =
      (case find (\<lambda>t. rt_Key t = k) (rev ts) of None \<Rightarrow> map_of m k | Some t \<Rightarrow> Some (rt_Value t))" for m
  proof (induction ts arbitrary: m)
    case Nil
    then show ?case by simp
  next
    case (Cons t ts)
    have app: "find P (xs @ [t]) = (case find P xs of Some x \<Rightarrow> Some x | None \<Rightarrow> if P t then Some t else None)" for P xs
      by (induction xs) auto
    show ?case by (auto simp: Cons.IH app split: option.splits)
  qed
  then show ?thesis by (auto simp: platform_tags_def split: option.splits)
qed

lemma is_map_platform_tags [simp]: "is_map (platform_tags aws)"
proof -
  have "is_map m \<Longrightarrow> is_map (fold (\<lambda>t m. map_put (rt_Key t) (rt_Value t) m) ts m)"
    for ts :: "resource_tag list" and m
    by (induction ts arbitrary: m) auto
  then show ?thesis by (cases aws) (simp_all add: platform_tags_def)
qed

text \<open>The keys of a map are distinct, so the result does not depend on Go's iteration order.\<close>

lemma map_of_add_nodeclass_tags:
  assumes "distinct (map fst m)"
  shows "map_of (fold (add_nodeclass_tag allow) m tags) k =
     (case map_of m k of
        Some v \<Rightarrow> if map_has tags k \<and> \<not> allow k then map_of tags k else Some v
      | None \<Rightarrow> map_of tags k)"
  using assms
proof (induction m arbitrary: tags)
  case Nil
  then show ?case by simp
next
  case (Cons kv m)
  then have "distinct (map fst m)" and fresh: "map_of m (fst kv) = None"
    by (auto simp: map_of_eq_None_iff)
  with Cons.IH show ?case
    by (cases kv) (auto simp: add_nodeclass_tag_def map_has_def split: option.splits)
qed

lemma is_map_add_nodeclass_tags [simp]:
  "is_map tags \<Longrightarrow> is_map (fold (add_nodeclass_tag allow) m tags)"
  by (induction m arbitrary: tags) (auto simp: add_nodeclass_tag_def)

definition tags_of :: "string gomap option \<Rightarrow> string gomap" where
  "tags_of t = (case t of None \<Rightarrow> [] | Some m \<Rightarrow> m)"

lemma tags_of_merge:
  "tags_of (mergeEC2NodeClassTags specTags aws) =
     fst (filterRestrictedTags (fold (add_nodeclass_tag (allow_override aws)) (tags_of specTags) (platform_tags aws)))"
  by (auto simp: mergeEC2NodeClassTags_def tags_of_def Let_def split: prod.splits option.splits if_splits)


section \<open>Properties\<close>

lemma merged_tags_spec_raw:
  assumes "distinct (map fst (tags_of specTags))"
  shows "map_of (tags_of (mergeEC2NodeClassTags specTags (Some ts))) k =
     (if is_restricted_tag k then None
      else case map_of (tags_of specTags) k of
             Some v \<Rightarrow> if find (\<lambda>t. rt_Key t = k) (rev ts) \<noteq> None \<and> \<not> allow_override (Some ts) k
                       then map_option rt_Value (find (\<lambda>t. rt_Key t = k) (rev ts)) else Some v
           | None \<Rightarrow> map_option rt_Value (find (\<lambda>t. rt_Key t = k) (rev ts)))"
  using assms
  by (auto simp: tags_of_merge map_of_filter_restricted map_of_add_nodeclass_tags platform_tags_Some
      map_has_def split: option.splits)

text \<open>C29: the merged tags, key by key. A tag Karpenter manages is never set. Otherwise the value of the
  NodeClass wins when the HostedCluster has no such tag or allows the override, and the (last) value of
  the HostedCluster wins when it does not.\<close>

theorem merged_tags_spec:
  assumes "distinct (map fst (tags_of specTags))"
  shows "map_of (tags_of (mergeEC2NodeClassTags specTags (Some ts))) k =
     (if is_restricted_tag k then None
      else case map_of (tags_of specTags) k of
             Some v \<Rightarrow>
               (case find (\<lambda>t. rt_Key t = k) (rev ts) of
                  Some t \<Rightarrow>
                    if \<exists>t\<in>set ts. rt_Key t = k \<and> rt_OverridePolicy t = AWSResourceTagOverridePolicyAllow
                    then Some v else Some (rt_Value t)
                | None \<Rightarrow> Some v)
           | None \<Rightarrow> map_option rt_Value (find (\<lambda>t. rt_Key t = k) (rev ts)))"
  using assms by (auto simp: merged_tags_spec_raw allow_override_def split: option.splits)

text \<open>With distinct HostedCluster keys the first and the last tag of a key are the same.\<close>

lemma find_rev_distinct:
  assumes "distinct (map rt_Key ts)"
  shows "find (\<lambda>t. rt_Key t = k) (rev ts) = find (\<lambda>t. rt_Key t = k) ts"
  using assms
proof (induction ts)
  case Nil
  then show ?case by simp
next
  case (Cons t ts)
  have app: "find P (xs @ [t]) = (case find P xs of Some x \<Rightarrow> Some x | None \<Rightarrow> if P t then Some t else None)" for P xs
    by (induction xs) auto
  have "find (\<lambda>t. rt_Key t = k) ts = None" if "rt_Key t = k"
    using Cons.prems that by (auto simp: find_None_iff image_iff)
  with Cons show ?case by (auto simp: app split: option.splits)
qed

lemma find_allow:
  assumes "distinct (map rt_Key ts)" and "find (\<lambda>t. rt_Key t = k) ts = Some t"
  shows "(\<exists>u\<in>set ts. rt_Key u = k \<and> P u) \<longleftrightarrow> P t"
proof -
  from assms(2) have "t \<in> set ts" and "rt_Key t = k"
    by (auto simp: find_Some_iff)
  with assms(1) show ?thesis
    by (metis (no_types, lifting) distinct_map inj_onD)
qed

lemma blocked_iff_not_applied:
  assumes "distinct (map rt_Key ts)" and "distinct (map fst m)"
    and "(k, v) \<in> set m" and "\<not> is_restricted_tag k"
  shows "is_blocked ts (k, v) \<longleftrightarrow> map_of (tags_of (mergeEC2NodeClassTags (Some m) (Some ts))) k \<noteq> Some v"
proof -
  have v: "map_of m k = Some v" using assms(2,3) by simp
  have "map_of (tags_of (mergeEC2NodeClassTags (Some m) (Some ts))) k =
     (case find (\<lambda>t. rt_Key t = k) ts of
        Some t \<Rightarrow> if rt_OverridePolicy t = AWSResourceTagOverridePolicyAllow then Some v else Some (rt_Value t)
      | None \<Rightarrow> Some v)"
  proof (cases "find (\<lambda>t. rt_Key t = k) ts")
    case None
    with merged_tags_spec_raw [of "Some m" ts k] assms(1,2,4) v show ?thesis
      by (simp add: tags_of_def find_rev_distinct)
  next
    case (Some t)
    with find_allow [OF assms(1)] have "allow_override (Some ts) k \<longleftrightarrow>
        rt_OverridePolicy t = AWSResourceTagOverridePolicyAllow"
      by (simp add: allow_override_def)
    with Some merged_tags_spec_raw [of "Some m" ts k] assms(1,2,4) v show ?thesis
      by (simp add: tags_of_def find_rev_distinct)
  qed
  then show ?thesis
    by (auto simp: is_blocked_def hc_tag_def split: option.splits)
qed

text \<open>The conflict condition tells the truth about the merge. With distinct HostedCluster keys and
  no tag of the NodeClass that Karpenter manages itself, the condition is True exactly when the merged
  tags carry another value for some tag of the NodeClass; it is absent when either side has no tags.\<close>

theorem conflict_condition_truthful:
  assumes "distinct (map rt_Key ts)" and "distinct (map fst m)"
    and "\<forall>(k, v)\<in>set m. \<not> is_restricted_tag k"
  shows "case FindStatusCondition (setAWSResourceTagConflictCondition now (Some m) (Some ts) g cs)
            AWSResourceTagConflictConditionType of
       None \<Rightarrow> ts = [] \<or> m = []
     | Some c \<Rightarrow>
         ts \<noteq> [] \<and> m \<noteq> [] \<and> cond_ObservedGeneration c = g \<and>
         cond_Status c =
           (if \<exists>(k, v)\<in>set m. map_of (tags_of (mergeEC2NodeClassTags (Some m) (Some ts))) k \<noteq> Some v
            then ConditionTrue else ConditionFalse)"
proof -
  have blocked: "is_blocked ts kv \<longleftrightarrow>
      map_of (tags_of (mergeEC2NodeClassTags (Some m) (Some ts))) (fst kv) \<noteq> Some (snd kv)"
    if "kv \<in> set m" for kv
    using blocked_iff_not_applied [OF assms(1,2), of "fst kv" "snd kv"] assms(3) that by auto
  have "length (filter (is_blocked ts) m) = 0 \<longleftrightarrow> (\<forall>kv\<in>set m. \<not> is_blocked ts kv)"
    by (simp add: filter_empty_conv)
  with blocked have none: "length (filter (is_blocked ts) m) = 0 \<longleftrightarrow>
      \<not> (\<exists>(k, v)\<in>set m. map_of (tags_of (mergeEC2NodeClassTags (Some m) (Some ts))) k \<noteq> Some v)"
    by (simp add: case_prod_beta)
  show ?thesis
  proof (cases "ts = [] \<or> m = []")
    case True
    then show ?thesis
      by (auto simp: setAWSResourceTagConflictCondition_def Find_Remove)
  next
    case False
    have t: "cond_Type (conflict_condition b n g) = AWSResourceTagConflictConditionType"
        "cond_ObservedGeneration (conflict_condition b n g) = g"
        "cond_Status (conflict_condition b n g) = (if b = 0 then ConditionFalse else ConditionTrue)" for b n
      by (simp_all add: conflict_condition_def)
    from False show ?thesis
      by (simp add: setAWSResourceTagConflictCondition_def Find_Set t none del: length_0_conv)
  qed
qed

abbreviation duplicate_tags :: "resource_tag list" where
  "duplicate_tags \<equiv>
     [\<lparr>rt_Key = ''k'', rt_Value = ''a'', rt_OverridePolicy = []\<rparr>,
      \<lparr>rt_Key = ''k'', rt_Value = ''b'', rt_OverridePolicy = AWSResourceTagOverridePolicyAllow\<rparr>]"

text \<open>Duplicate HostedCluster keys. The API does not make the keys of the resource tags unique, and
  the two passes resolve a duplicate differently: the merge allows an override if any entry of the key
  does, the condition only looks at the first entry. The condition then reports a conflict in which
  the HostedCluster value was preserved, while the merged tags carry the value of the NodeClass.\<close>

theorem duplicate_keys_reported_wrongly:
  "mergeEC2NodeClassTags (Some [(''k'', ''c'')]) (Some duplicate_tags) = Some [(''k'', ''c'')] \<and>
   map cond_Status (setAWSResourceTagConflictCondition now (Some [(''k'', ''c'')]) (Some duplicate_tags) g [])
     = [ConditionTrue]"
proof -
  have r: "\<not> is_restricted_tag ''k''" by code_simp
  have m: "mergeEC2NodeClassTags (Some [(''k'', ''c'')]) (Some duplicate_tags) = Some [(''k'', ''c'')]"
    by (simp add: mergeEC2NodeClassTags_def platform_tags_def add_nodeclass_tag_def map_has_def
        allow_override_def filterRestrictedTags_def r)
  moreover have "map cond_Status (setAWSResourceTagConflictCondition now (Some [(''k'', ''c'')]) (Some duplicate_tags) g [])
     = [ConditionTrue]"
    by (simp add: setAWSResourceTagConflictCondition_def is_blocked_def is_overridden_def hc_tag_def
        conflict_condition_def fresh_condition_def)
  ultimately show ?thesis by simp
qed

lemma merged_tags_spec_witness:
  "map_of (tags_of (mergeEC2NodeClassTags (Some [(''k'', ''c'')]) (Some duplicate_tags))) ''k'' = Some ''c''"
proof -
  have "\<not> is_restricted_tag ''k''" by code_simp
  then show ?thesis
    using merged_tags_spec [of "Some [(''k'', ''c'')]" duplicate_tags "''k''"]
    by (simp add: tags_of_def)
qed

lemma conflict_condition_truthful_witness:
  "case FindStatusCondition (setAWSResourceTagConflictCondition 3 (Some [(''k'', ''c'')])
            (Some [hd duplicate_tags]) 1 []) AWSResourceTagConflictConditionType of
       None \<Rightarrow> False | Some c \<Rightarrow> cond_ObservedGeneration c = 1"
proof -
  have "\<not> is_restricted_tag ''k''" by code_simp
  then show ?thesis
    using conflict_condition_truthful
      [where ts = "[hd duplicate_tags]" and m = "[(''k'', ''c'')]" and now = 3 and g = 1 and cs = "[]"]
    by (auto split: option.splits)
qed

end
