(* ===== verification/Duration.thy ===== *)
theory Duration
  imports Prelude
begin

text \<open>
  \<^verbatim>\<open>time.ParseDuration\<close> of Go's standard library, which the operator applies to the
  eviction grace periods, and \<^verbatim>\<open>Time.Format(time.RFC3339)\<close>, which it applies to deletion
  timestamps. Durations are nanoseconds; \<open>None\<close> is the error result. The integers of the
  parser are 64 bits wide and every overflow check of the library is written out. The library scales a
  fraction (the digits after a period) in floating point; it is scaled exactly here, which can differ
  in the last nanosecond.
\<close>


section \<open>Parsing durations\<close>

definition digit_val :: "char \<Rightarrow> int" where
  "digit_val c = int (of_char c) - 48"

text \<open>\<^verbatim>\<open>leadingInt\<close>: the value and the rest, \<open>None\<close> on overflow.\<close>

fun leadingInt :: "int \<Rightarrow> string \<Rightarrow> (int \<times> string) option" where
  "leadingInt x [] = Some (x, [])"
| "leadingInt x (c # cs) =
     (if \<not> is_digit c then Some (x, c # cs)
      else if x > 2 ^ 63 div 10 then None
      else let y = x * 10 + digit_val c in
        if y > 2 ^ 63 then None else leadingInt y cs)"

text \<open>\<^verbatim>\<open>leadingFraction\<close>: digits that no longer fit are dropped.\<close>

fun leadingFraction :: "int \<Rightarrow> int \<Rightarrow> bool \<Rightarrow> string \<Rightarrow> int \<times> int \<times> string" where
  "leadingFraction x scale overflow [] = (x, scale, [])"
| "leadingFraction x scale overflow (c # cs) =
     (if \<not> is_digit c then (x, scale, c # cs)
      else if overflow then leadingFraction x scale True cs
      else if x > (2 ^ 63 - 1) div 10 then leadingFraction x scale True cs
      else let y = x * 10 + digit_val c in
        if y > 2 ^ 63 then leadingFraction x scale True cs
        else leadingFraction y (scale * 10) False cs)"

definition is_unit_char :: "char \<Rightarrow> bool" where
  "is_unit_char c \<longleftrightarrow> c \<noteq> CHR ''.'' \<and> \<not> is_digit c"

text \<open>The two spellings of the micro sign are UTF-8 byte sequences.\<close>

definition unitMap :: "string \<Rightarrow> int option" where
  "unitMap u =
     map_of
       [(''ns'', 1), (''us'', 10 ^ 3),
        ([CHR 0xC2, CHR 0xB5, CHR ''s''], 10 ^ 3), ([CHR 0xCE, CHR 0xBC, CHR ''s''], 10 ^ 3),
        (''ms'', 10 ^ 6), (''s'', 10 ^ 9), (''m'', 60 * 10 ^ 9), (''h'', 3600 * 10 ^ 9)] u"

text \<open>The optional \<^verbatim>\<open>.[0-9]*\<close> after the integer part: the fraction, its scale, whether
  there were digits, and the rest.\<close>

definition fraction_part :: "string \<Rightarrow> int \<times> int \<times> bool \<times> string" where
  "fraction_part s =
     (case s of
        [] \<Rightarrow> (0, 1, False, s)
      | c # cs \<Rightarrow>
          if c = CHR ''.'' then
            (case leadingFraction 0 1 False cs of (f, scale, rest) \<Rightarrow> (f, scale, rest \<noteq> cs, rest))
          else (0, 1, False, s))"

text \<open>One round of the loop: the amount in nanoseconds and the rest of the string.\<close>

definition duration_term :: "string \<Rightarrow> (int \<times> string) option" where
  "duration_term s =
     (if s = [] \<or> \<not> (hd s = CHR ''.'' \<or> is_digit (hd s)) then None
      else case leadingInt 0 s of
        None \<Rightarrow> None
      | Some (v, s1) \<Rightarrow>
          (case fraction_part s1 of (f, scale, post, s2) \<Rightarrow>
            let u = takeWhile is_unit_char s2 in
            if s1 = s \<and> \<not> post then None
            else if u = [] then None
            else case unitMap u of
              None \<Rightarrow> None
            | Some unit \<Rightarrow>
                if v > 2 ^ 63 div unit then None
                else let w = v * unit + f * unit div scale in
                  if w > 2 ^ 63 then None else Some (w, dropWhile is_unit_char s2)))"

lemma leadingInt_length: "leadingInt x s = Some (v, r) \<Longrightarrow> length r \<le> length s"
  by (induction s arbitrary: x) (auto simp: Let_def split: if_splits intro: le_SucI)

lemma leadingFraction_length: "leadingFraction x sc b s = (v, w, r) \<Longrightarrow> length r \<le> length s"
  by (induction s arbitrary: x sc b) (auto simp: Let_def split: if_splits intro: le_SucI)

lemma fraction_part_length: "fraction_part s = (f, scale, post, r) \<Longrightarrow> length r \<le> length s"
  by (auto simp: fraction_part_def split: list.splits if_splits prod.splits
      dest!: leadingFraction_length)

lemma duration_term_length: "duration_term s = Some (w, r) \<Longrightarrow> length r < length s"
proof -
  assume a: "duration_term s = Some (w, r)"
  then obtain v s1 f scale post s2 where
    "leadingInt 0 s = Some (v, s1)" "fraction_part s1 = (f, scale, post, s2)"
    and u: "takeWhile is_unit_char s2 \<noteq> []" and r: "r = dropWhile is_unit_char s2"
    by (auto simp: duration_term_def Let_def split: if_splits option.splits prod.splits)
  then have "length s2 \<le> length s"
    by (meson fraction_part_length le_trans leadingInt_length)
  moreover have "length (takeWhile is_unit_char s2) + length r = length s2"
    using r by (metis length_append takeWhile_dropWhile_id)
  moreover have "0 < length (takeWhile is_unit_char s2)"
    using u by simp
  ultimately show "length r < length s" by linarith
qed

function duration_terms :: "int \<Rightarrow> string \<Rightarrow> int option" where
  "duration_terms d s =
     (if s = [] then Some d
      else case duration_term s of
        None \<Rightarrow> None
      | Some (w, r) \<Rightarrow> if d + w > 2 ^ 63 then None else duration_terms (d + w) r)"
  by pat_completeness auto
termination
  by (relation "measure (\<lambda>(d, s). length s)") (auto dest: duration_term_length)

declare duration_terms.simps [simp del]

definition ParseDuration :: "string \<Rightarrow> int option" where
  "ParseDuration orig =
     (let neg = (orig \<noteq> [] \<and> hd orig = CHR ''-'');
          s = (if orig \<noteq> [] \<and> (hd orig = CHR ''-'' \<or> hd orig = CHR ''+'') then tl orig else orig)
      in if s = ''0'' then Some 0
         else if s = [] then None
         else case duration_terms 0 s of
           None \<Rightarrow> None
         | Some d \<Rightarrow> if neg then Some (- d) else if d > 2 ^ 63 - 1 then None else Some d)"

text \<open>A parsed duration fits the 64 bits of \<^verbatim>\<open>time.Duration\<close>.\<close>

lemma leadingInt_nonneg: "0 \<le> x \<Longrightarrow> leadingInt x s = Some (v, r) \<Longrightarrow> 0 \<le> v"
proof (induction s arbitrary: x)
  case Nil
  then show ?case by simp
next
  case (Cons c s)
  have "0 \<le> digit_val c" if "is_digit c"
    using that by (simp add: is_digit_def digit_val_def Let_def)
  with Cons.prems Cons.IH [of "x * 10 + digit_val c"] show ?case
    by (auto simp: Let_def split: if_splits)
qed

lemma leadingFraction_nonneg:
  "0 \<le> x \<Longrightarrow> 0 < sc \<Longrightarrow> leadingFraction x sc b s = (v, w, r) \<Longrightarrow> 0 \<le> v \<and> 0 < w"
proof (induction x sc b s rule: leadingFraction.induct)
  case (1 x scale overflow)
  then show ?case by simp
next
  case (2 x scale overflow c cs)
  have "0 \<le> digit_val c" if "is_digit c"
    using that by (simp add: is_digit_def digit_val_def Let_def)
  with 2 show ?case by (auto simp: Let_def split: if_splits)
qed

lemma fraction_part_nonneg: "fraction_part s = (f, scale, post, r) \<Longrightarrow> 0 \<le> f \<and> 0 < scale"
  by (auto simp: fraction_part_def split: list.splits if_splits prod.splits
      dest: leadingFraction_nonneg [rotated 2])

lemma unitMap_pos: "unitMap u = Some n \<Longrightarrow> 0 < n"
  by (auto simp: unitMap_def split: if_splits)

lemma duration_term_nonneg: "duration_term s = Some (w, r) \<Longrightarrow> 0 \<le> w"
proof -
  assume a: "duration_term s = Some (w, r)"
  then obtain v s1 f scale post s2 u where
    l: "leadingInt 0 s = Some (v, s1)" and f: "fraction_part s1 = (f, scale, post, s2)"
    and u: "unitMap (takeWhile is_unit_char s2) = Some u" and w: "w = v * u + f * u div scale"
    by (auto simp: duration_term_def Let_def split: if_splits option.splits prod.splits)
  from leadingInt_nonneg [OF _ l] fraction_part_nonneg [OF f] unitMap_pos [OF u]
  show "0 \<le> w" by (simp add: w pos_imp_zdiv_nonneg_iff)
qed

lemma duration_terms_nonneg: "0 \<le> d \<Longrightarrow> duration_terms d s = Some r \<Longrightarrow> 0 \<le> r"
proof (induction d s rule: duration_terms.induct)
  case (1 d s)
  from 1(3) show ?case
    by (subst (asm) duration_terms.simps)
      (use 1 in \<open>auto split: if_splits option.splits prod.splits dest: duration_term_nonneg\<close>)
qed

lemma duration_terms_bound:
  "d \<le> 2 ^ 63 \<Longrightarrow> duration_terms d s = Some r \<Longrightarrow> r \<le> 2 ^ 63"
proof (induction d s rule: duration_terms.induct)
  case (1 d s)
  from 1(3) show ?case
    by (subst (asm) duration_terms.simps)
      (use 1 in \<open>auto split: if_splits option.splits prod.splits\<close>)
qed

lemma ParseDuration_range:
  assumes "ParseDuration s = Some d"
  shows "- (2 ^ 63) \<le> d \<and> d < 2 ^ 63"
  using assms duration_terms_bound [of 0] duration_terms_nonneg [of 0]
  by (fastforce simp: ParseDuration_def Let_def split: if_splits option.splits)


section \<open>Formatting times\<close>

text \<open>The civil date of a day number (days since 1970-01-01): year, month, day.\<close>

definition civil_of_days :: "int \<Rightarrow> int \<times> int \<times> int" where
  "civil_of_days z =
     (let z' = z + 719468;
          era = z' div 146097;
          doe = z' mod 146097;
          yoe = (doe - doe div 1460 + doe div 36524 - doe div 146096) div 365;
          doy = doe - (365 * yoe + yoe div 4 - yoe div 100);
          mp = (5 * doy + 2) div 153;
          d = doy - (153 * mp + 2) div 5 + 1;
          m = (if mp < 10 then mp + 3 else mp - 9);
          y = yoe + era * 400 + (if m \<le> 2 then 1 else 0)
      in (y, m, d))"

definition pad :: "nat \<Rightarrow> int \<Rightarrow> string" where
  "pad n i = (let s = Itoa i in replicate (n - length s) CHR ''0'' @ s)"

text \<open>A time of the API is decoded into the local zone of the process; \<open>offset\<close> is the zone's
  offset from UTC in seconds at that time.\<close>

definition format_zone :: "int \<Rightarrow> string" where
  "format_zone offset =
     (if offset = 0 then ''Z''
      else (if offset \<le> - 60 then ''-'' else ''+'')
           @ pad 2 (\<bar>offset\<bar> div 3600) @ '':'' @ pad 2 (\<bar>offset\<bar> div 60 mod 60))"

definition format_RFC3339 :: "int \<Rightarrow> int \<Rightarrow> string" where
  "format_RFC3339 offset t =
     (let l = t + offset; days = l div 86400; sec = l mod 86400;
          (y, m, d) = civil_of_days days
      in pad 4 y @ ''-'' @ pad 2 m @ ''-'' @ pad 2 d @ ''T''
         @ pad 2 (sec div 3600) @ '':'' @ pad 2 (sec div 60 mod 60) @ '':'' @ pad 2 (sec mod 60)
         @ format_zone offset)"

lemma format_RFC3339_nonempty: "format_RFC3339 offset t \<noteq> []"
  by (simp add: format_RFC3339_def Let_def split: prod.splits)

end
