(* ===== verification/Operand_Types.thy ===== *)
theory Operand_Types
  imports Types
begin

text \<open>
  The objects of the operand: the parts of \<^verbatim>\<open>corev1\<close> and
  \<^verbatim>\<open>rbacv1\<close> that the operand controllers fill in, and the apply configurations they
  send. A \<^verbatim>\<open>corev1\<close> field that may be empty holds its zero value; a field of an apply
  configuration is a pointer and may be unset (\<open>None\<close>), so an empty value that is sent is
  told apart from one that is not. Resource quantities are kept in their canonical text form.
\<close>


section \<open>Core types\<close>

record env_var =
  ev_Name :: string
  ev_Value :: string

record key_to_path =
  kp_Key :: string
  kp_Path :: string

record secret_volume_source =
  svs_SecretName :: string
  svs_DefaultMode :: "int option"
  svs_Items :: "key_to_path list"

record volume =
  vol_Name :: string
  vol_Secret :: "secret_volume_source option"
  vol_EmptyDir :: bool   \<comment> \<open>the pointer to the empty source is set\<close>

record volume_mount =
  vm_Name :: string
  vm_MountPath :: string
  vm_ReadOnly :: bool

record probe =
  pr_Exec :: "string list option"
  pr_PeriodSeconds :: int
  pr_FailureThreshold :: int

record container =
  ct_Name :: string
  ct_Image :: string
  ct_Command :: "string list"
  ct_Args :: "string list"
  ct_ImagePullPolicy :: string
  ct_Requests :: "string gomap"
  ct_RestartPolicy :: "string option"
  ct_StartupProbe :: "probe option"
  ct_VolumeMounts :: "volume_mount list"


section \<open>Access control\<close>

record policy_rule =
  pol_Verbs :: "string list"
  pol_APIGroups :: "string list"
  pol_Resources :: "string list"
  pol_ResourceNames :: "string list"
  pol_NonResourceURLs :: "string list"

record role_ref =
  rref_APIGroup :: string
  rref_Kind :: string
  rref_Name :: string

record subject =
  sub_Kind :: string
  sub_APIGroup :: string
  sub_Name :: string
  sub_Namespace :: string

record rbac_role =
  role_Name :: string
  role_Labels :: "string gomap"
  role_Rules :: "policy_rule list"

record rbac_binding =
  rb_Name :: string
  rb_RoleRef :: role_ref
  rb_Subjects :: "subject list"

record rbac_assets =
  rbac_Roles :: "rbac_role list"
  rbac_RoleBindings :: "rbac_binding list"
  rbac_ClusterRoles :: "rbac_role list"
  rbac_ClusterRoleBindings :: "rbac_binding list"

record subject_ac =
  sac_Kind :: "string option"
  sac_APIGroup :: "string option"
  sac_Name :: "string option"
  sac_Namespace :: "string option"


section \<open>Apply configurations of a pod\<close>

record env_var_ac =
  eva_Name :: "string option"
  eva_Value :: "string option"
  eva_FieldPath :: "string option"   \<comment> \<open>\<^verbatim>\<open>ValueFrom.FieldRef.FieldPath\<close>\<close>

record key_to_path_ac =
  kpa_Key :: "string option"
  kpa_Path :: "string option"

record secret_volume_source_ac =
  sva_SecretName :: "string option"
  sva_DefaultMode :: "int option"
  sva_Items :: "key_to_path_ac list"

record volume_ac =
  vla_Name :: "string option"
  vla_Secret :: "secret_volume_source_ac option"
  vla_EmptyDir :: bool

record volume_mount_ac =
  vma_Name :: "string option"
  vma_MountPath :: "string option"
  vma_ReadOnly :: "bool option"

record probe_ac =
  pra_HTTPGet :: "(string \<times> int) option"   \<comment> \<open>path and port\<close>
  pra_Exec :: "string list option"
  pra_InitialDelaySeconds :: "int option"
  pra_TimeoutSeconds :: "int option"
  pra_PeriodSeconds :: "int option"
  pra_FailureThreshold :: "int option"

record container_port_ac =
  cpa_Name :: "string option"
  cpa_ContainerPort :: "int option"
  cpa_Protocol :: "string option"

record container_security_ac =
  csa_AllowPrivilegeEscalation :: "bool option"
  csa_Drop :: "string list"

record container_ac =
  cta_Name :: "string option"
  cta_Image :: "string option"
  cta_Command :: "string list"
  cta_Args :: "string list"
  cta_ImagePullPolicy :: "string option"
  cta_Env :: "env_var_ac list"
  cta_Ports :: "container_port_ac list"
  cta_Requests :: "string gomap option"
  cta_SecurityContext :: "container_security_ac option"
  cta_TerminationMessagePolicy :: "string option"
  cta_LivenessProbe :: "probe_ac option"
  cta_ReadinessProbe :: "probe_ac option"
  cta_StartupProbe :: "probe_ac option"
  cta_RestartPolicy :: "string option"
  cta_VolumeMounts :: "volume_mount_ac list"

definition new_container_ac :: container_ac where
  "new_container_ac =
     \<lparr>cta_Name = None, cta_Image = None, cta_Command = [], cta_Args = [], cta_ImagePullPolicy = None,
      cta_Env = [], cta_Ports = [], cta_Requests = None, cta_SecurityContext = None,
      cta_TerminationMessagePolicy = None, cta_LivenessProbe = None, cta_ReadinessProbe = None,
      cta_StartupProbe = None, cta_RestartPolicy = None, cta_VolumeMounts = []\<rparr>"

record pod_security_ac =
  psa_RunAsNonRoot :: "bool option"
  psa_SeccompProfile :: "string option"
  psa_RunAsUser :: "int option"
  psa_FSGroup :: "int option"

record pod_spec_ac =
  psp_PriorityClassName :: string
  psp_ServiceAccountName :: string
  psp_TerminationGracePeriodSeconds :: int
  psp_SecurityContext :: pod_security_ac
  psp_InitContainers :: "container_ac list"
  psp_Containers :: "container_ac list"
  psp_Volumes :: "volume_ac list"

record deployment_ac =
  dac_Name :: string
  dac_Namespace :: string
  dac_OwnerReferences :: "owner_reference list"
  dac_Labels :: "string gomap"
  dac_Annotations :: "string gomap"
  dac_Replicas :: int
  dac_Selector :: "string gomap"
  dac_TemplateAnnotations :: "string gomap"
  dac_TemplateLabels :: "string gomap"
  dac_PodSpec :: pod_spec_ac

record pod_monitor_ac =
  pma_Name :: string
  pma_Namespace :: string
  pma_OwnerReferences :: "owner_reference list"
  pma_Selector :: "string gomap"
  pma_Endpoints :: "(string \<times> string \<times> string) list"   \<comment> \<open>port, path and scheme\<close>

end
