(* ===== verification/Azure_Types.thy ===== *)
theory Azure_Types
  imports Meta Kubelet_Config
begin

text \<open>
  The Azure NodeClasses: the OpenShiftAzureNodeClass users write
  (\<^verbatim>\<open>api/karpenter/v1alpha1/openshiftazurenodeclass_types.go\<close>) and the AKSNodeClass of
  the Karpenter Azure provider it is reconciled into (vendored). The fields of the AKSNodeClass the
  operator always leaves unset are kept as opaque strings, because an update resets them.
\<close>

abbreviation AzureHostEncryptionEnabled :: string where "AzureHostEncryptionEnabled \<equiv> ''Enabled''"
abbreviation AzureHostEncryptionDisabled :: string where "AzureHostEncryptionDisabled \<equiv> ''Disabled''"
abbreviation UbuntuImageFamily :: string where "UbuntuImageFamily \<equiv> ''Ubuntu''"

record openshift_azure_spec =
  as_VNETSubnetID :: string
  as_OSDiskSizeGiB :: int
  as_Tags :: "string gomap option"
  as_Kubelet :: kubelet_configuration
  as_HostEncryption :: string   \<comment> \<open>\<^verbatim>\<open>Security.Encryption.HostEncryption\<close>\<close>
  as_Version :: string

record openshift_azure_status =
  ast_Conditions :: "condition list"
  ast_ReleaseImage :: string
  ast_Version :: string

record openshift_azure_nodeclass =
  anc_Meta :: object_meta
  anc_Spec :: openshift_azure_spec
  anc_Status :: openshift_azure_status

record marketplace_image =
  mi_Publisher :: string
  mi_Offer :: string
  mi_SKU :: string
  mi_Version :: string

record aks_spec =
  aks_VNETSubnetID :: "string option"
  aks_OSDiskSizeGB :: "int option"
  aks_ImageID :: "string option"
  aks_MarketplaceImage :: "marketplace_image option"
  aks_ImageFamily :: "string option"
  aks_UserData :: "string option"
  aks_FIPSMode :: "string option"
  aks_Tags :: "string gomap option"
  aks_Kubelet :: "string option"
  aks_MaxPods :: "int option"
  aks_EncryptionAtHost :: "bool option option"   \<comment> \<open>\<^verbatim>\<open>Security\<close>, its \<^verbatim>\<open>EncryptionAtHost\<close>\<close>
  aks_LocalDNS :: "string option"
  aks_GPU :: "string option"
  aks_ArtifactStreaming :: "string option"
  aks_LinuxOSConfig :: "string option"

record aks_nodeclass =
  aks_Meta :: object_meta
  aks_Spec :: aks_spec
  aks_Conditions :: "condition list"

definition zero_openshift_azure_spec :: openshift_azure_spec where
  "zero_openshift_azure_spec =
     \<lparr>as_VNETSubnetID = [], as_OSDiskSizeGiB = 0, as_Tags = None, as_Kubelet = zero_kubelet,
      as_HostEncryption = [], as_Version = []\<rparr>"

definition new_openshift_azure_nodeclass :: "string \<Rightarrow> openshift_azure_nodeclass" where
  "new_openshift_azure_nodeclass n =
     \<lparr>anc_Meta = new_meta [] n, anc_Spec = zero_openshift_azure_spec,
      anc_Status = \<lparr>ast_Conditions = [], ast_ReleaseImage = [], ast_Version = []\<rparr>\<rparr>"

definition zero_aks_spec :: aks_spec where
  "zero_aks_spec =
     \<lparr>aks_VNETSubnetID = None, aks_OSDiskSizeGB = None, aks_ImageID = None,
      aks_MarketplaceImage = None, aks_ImageFamily = None, aks_UserData = None,
      aks_FIPSMode = None, aks_Tags = None, aks_Kubelet = None, aks_MaxPods = None,
      aks_EncryptionAtHost = None, aks_LocalDNS = None, aks_GPU = None,
      aks_ArtifactStreaming = None, aks_LinuxOSConfig = None\<rparr>"

definition new_aks_nodeclass :: "string \<Rightarrow> aks_nodeclass" where
  "new_aks_nodeclass n = \<lparr>aks_Meta = new_meta [] n, aks_Spec = zero_aks_spec, aks_Conditions = []\<rparr>"

end
