(* ===== verification/Client.thy ===== *)
theory Client
  imports Programs Types Operand_Types Ec2_Types Azure_Types "HOL-Library.Product_Lexorder"
begin

text \<open>
  The client of the API servers: \<^verbatim>\<open>client.Client\<close> of controller-runtime as the
  controllers use it, for the management and for the hosted cluster, the two other remote
  interfaces of the operator (certificate approval and the EC2 API), and
  \<^verbatim>\<open>controllerutil.CreateOrUpdate\<close> on top of it (vendored).

  A resource type is described by a \<open>resource\<close> record; the locale \<open>resource_laws\<close>
  states what every description promises, and each resource type is an interpretation of it. The
  locale \<open>mutation\<close> is the contract of a \<^verbatim>\<open>MutateFn\<close>: it keeps the key of the
  object and is idempotent; under it a second \<open>CreateOrUpdate\<close> writes nothing.
\<close>


section \<open>Requests and responses\<close>

datatype target = Mgmt | Hosted

datatype kind =
    KHostedControlPlane | KSecret | KConfigMap | KNode | KNodePool | KNodeClaim | KCAPICluster
  | KCertificateSigningRequest | KCustomResourceDefinition | KValidatingAdmissionPolicy
  | KValidatingAdmissionPolicyBinding | KOpenshiftEC2NodeClass | KEC2NodeClass
  | KOpenShiftAzureNodeClass | KAKSNodeClass | KClusterOperator | KKarpenter | KDeployment
  | KPod | KInfrastructure

datatype obj =
    OHostedControlPlane hosted_control_plane
  | OSecret secret
  | OConfigMap config_map
  | ONode node
  | ONodePool node_pool
  | ONodeClaim node_claim
  | OCAPICluster object_meta
  | OCertificateSigningRequest cert_request
  | OCustomResourceDefinition crd
  | OValidatingAdmissionPolicy validating_admission_policy
  | OValidatingAdmissionPolicyBinding vap_binding
  | OOpenshiftEC2NodeClass openshift_ec2_nodeclass
  | OEC2NodeClass ec2_nodeclass
  | OOpenShiftAzureNodeClass openshift_azure_nodeclass
  | OAKSNodeClass aks_nodeclass
  | OClusterOperator cluster_operator
  | OKarpenter karpenter_cr
  | ODeployment deployment
  | OPod pod
  | OInfrastructure infrastructure

text \<open>Server-side apply, of the main resource or of its status: only the named fields are sent.\<close>

datatype apply_config =
    ApplyAutoNodeStatus string string auto_node_status
  | ApplyClusterOperator string
  | ApplyClusterOperatorStatus string "co_condition list" "(string \<times> string) list" "object_reference list"
  | ApplyServiceAccount string string owner_reference
  | ApplyRole string string owner_reference "policy_rule list"
  | ApplyRoleBinding string string owner_reference role_ref "subject_ac list"
  | ApplyClusterRole string owner_reference "string gomap" "policy_rule list"
  | ApplyClusterRoleBinding string owner_reference role_ref "subject_ac list"
  | ApplyDeployment deployment_ac
  | ApplyPodMonitor pod_monitor_ac

text \<open>
  \<open>Patch lock original modified\<close> is a merge patch from \<open>original\<close> to \<open>modified\<close>;
  with \<open>lock\<close> it carries the resource version and fails on a conflict. \<open>List\<close> has an
  optional namespace and the equality requirements of the label selector.
\<close>

datatype req =
    Get target kind string string
  | List target kind "string option" "(string \<times> string) list"
  | Create target obj
  | Update target obj
  | Patch target bool obj obj
  | PatchStatus target bool obj obj
  | Delete target kind string string
  | Apply target string bool apply_config
  | UpdateApproval obj
  | DescribeInstances "string list"
  | RegisterMetric string "(string \<times> string) list"

text \<open>The private DNS names of the instances of every reservation; an unset pointer is empty.\<close>

datatype resp =
    RErr api_reason string
  | RObj obj
  | RList "obj list"
  | ROk
  | RInstances "string option list list"

type_synonym 'a io = "(req, resp, goerr + 'a) prog"

text \<open>The requests that change the state of a server.\<close>

fun is_write :: "req \<Rightarrow> bool" where
  "is_write (Get _ _ _ _) = False"
| "is_write (List _ _ _ _) = False"
| "is_write (DescribeInstances _) = False"
| "is_write (RegisterMetric _ _) = False"
| "is_write _ = True"

text \<open>\<^verbatim>\<open>ctrl.Result\<close>: the \<^verbatim>\<open>RequeueAfter\<close> in nanoseconds, \<open>0\<close> for
  an empty result.\<close>

type_synonym result = int

definition second :: int where
  "second = 10 ^ 9"

abbreviation done_result :: "result io" where
  "done_result \<equiv> Ret (Inr 0)"


section \<open>Resource types\<close>

text \<open>\<open>res_canon\<close> identifies what \<^verbatim>\<open>equality.Semantic.DeepEqual\<close> identifies: a
  nil and an empty slice or map.\<close>

record 'a resource =
  res_kind :: kind
  res_wrap :: "'a \<Rightarrow> obj"
  res_unwrap :: "obj \<Rightarrow> 'a option"
  res_meta :: "'a \<Rightarrow> object_meta"
  res_canon :: "'a \<Rightarrow> 'a"

definition res_key :: "'a resource \<Rightarrow> 'a \<Rightarrow> string \<times> string" where
  "res_key r a = (md_Namespace (res_meta r a), md_Name (res_meta r a))"

locale resource_laws =
  fixes r :: "'a resource"
  assumes unwrap_wrap: "res_unwrap r (res_wrap r a) = Some a"
    and unwrap_Some: "res_unwrap r x = Some a \<Longrightarrow> x = res_wrap r a"
    and canon_idem: "res_canon r (res_canon r a) = res_canon r a"
    and canon_meta: "res_meta r (res_canon r a) = res_meta r a"
begin

lemma wrap_inject: "res_wrap r a = res_wrap r b \<longleftrightarrow> a = b"
  by (metis option.inject unwrap_wrap)

lemma unwrap_iff: "res_unwrap r x = Some a \<longleftrightarrow> x = res_wrap r a"
  using unwrap_wrap unwrap_Some by auto

end

definition canon_map :: "'a list option \<Rightarrow> 'a list option" where
  "canon_map m = (if m = Some [] then None else m)"

lemma canon_map_idem [simp]: "canon_map (canon_map m) = canon_map m"
  by (simp add: canon_map_def)

definition canon_kubelet :: "kubelet_configuration \<Rightarrow> kubelet_configuration" where
  "canon_kubelet k = k\<lparr>
     kc_SystemReserved := canon_map (kc_SystemReserved k),
     kc_KubeReserved := canon_map (kc_KubeReserved k),
     kc_EvictionHard := canon_map (kc_EvictionHard k),
     kc_EvictionSoft := canon_map (kc_EvictionSoft k),
     kc_EvictionSoftGracePeriod := canon_map (kc_EvictionSoftGracePeriod k)\<rparr>"

definition canon_k_kubelet :: "k_kubelet \<Rightarrow> k_kubelet" where
  "canon_k_kubelet k = k\<lparr>
     kk_SystemReserved := canon_map (kk_SystemReserved k),
     kk_KubeReserved := canon_map (kk_KubeReserved k),
     kk_EvictionHard := canon_map (kk_EvictionHard k),
     kk_EvictionSoft := canon_map (kk_EvictionSoft k),
     kk_EvictionSoftGracePeriod := canon_map (kk_EvictionSoftGracePeriod k)\<rparr>"

definition canon_ec2 :: "ec2_nodeclass \<Rightarrow> ec2_nodeclass" where
  "canon_ec2 n = n\<lparr>ec2_Spec := (ec2_Spec n)\<lparr>
     ec_Tags := canon_map (ec_Tags (ec2_Spec n)),
     ec_Kubelet := map_option canon_k_kubelet (ec_Kubelet (ec2_Spec n))\<rparr>\<rparr>"

definition canon_openshift_ec2 :: "openshift_ec2_nodeclass \<Rightarrow> openshift_ec2_nodeclass" where
  "canon_openshift_ec2 n = n\<lparr>
     onc_Spec := (onc_Spec n)\<lparr>
       os_SubnetSelectorTerms := canon_map (os_SubnetSelectorTerms (onc_Spec n)),
       os_SecurityGroupSelectorTerms := canon_map (os_SecurityGroupSelectorTerms (onc_Spec n)),
       os_CapacityReservationSelectorTerms := canon_map (os_CapacityReservationSelectorTerms (onc_Spec n)),
       os_Tags := canon_map (os_Tags (onc_Spec n)),
       os_BlockDeviceMappings := canon_map (os_BlockDeviceMappings (onc_Spec n)),
       os_Kubelet := canon_kubelet (os_Kubelet (onc_Spec n))\<rparr>,
     onc_Status := (onc_Status n)\<lparr>
       ost_Subnets := canon_map (ost_Subnets (onc_Status n)),
       ost_SecurityGroups := canon_map (ost_SecurityGroups (onc_Status n)),
       ost_CapacityReservations := canon_map (ost_CapacityReservations (onc_Status n))\<rparr>\<rparr>"

definition canon_aks :: "aks_nodeclass \<Rightarrow> aks_nodeclass" where
  "canon_aks n = n\<lparr>aks_Spec := (aks_Spec n)\<lparr>aks_Tags := canon_map (aks_Tags (aks_Spec n))\<rparr>\<rparr>"

definition canon_openshift_azure :: "openshift_azure_nodeclass \<Rightarrow> openshift_azure_nodeclass" where
  "canon_openshift_azure n = n\<lparr>anc_Spec := (anc_Spec n)\<lparr>
     as_Tags := canon_map (as_Tags (anc_Spec n)), as_Kubelet := canon_kubelet (as_Kubelet (anc_Spec n))\<rparr>\<rparr>"

definition HCPs :: "hosted_control_plane resource" where
  "HCPs = \<lparr>res_kind = KHostedControlPlane, res_wrap = OHostedControlPlane,
     res_unwrap = (\<lambda>x. case x of OHostedControlPlane a \<Rightarrow> Some a | _ \<Rightarrow> None),
     res_meta = hcp_Meta, res_canon = id\<rparr>"

definition Secrets :: "secret resource" where
  "Secrets = \<lparr>res_kind = KSecret, res_wrap = OSecret,
     res_unwrap = (\<lambda>x. case x of OSecret a \<Rightarrow> Some a | _ \<Rightarrow> None),
     res_meta = sec_Meta, res_canon = id\<rparr>"

definition ConfigMaps :: "config_map resource" where
  "ConfigMaps = \<lparr>res_kind = KConfigMap, res_wrap = OConfigMap,
     res_unwrap = (\<lambda>x. case x of OConfigMap a \<Rightarrow> Some a | _ \<Rightarrow> None),
     res_meta = cm_Meta, res_canon = id\<rparr>"

definition Nodes :: "node resource" where
  "Nodes = \<lparr>res_kind = KNode, res_wrap = ONode,
     res_unwrap = (\<lambda>x. case x of ONode a \<Rightarrow> Some a | _ \<Rightarrow> None),
     res_meta = node_Meta, res_canon = id\<rparr>"

definition NodePools :: "node_pool resource" where
  "NodePools = \<lparr>res_kind = KNodePool, res_wrap = ONodePool,
     res_unwrap = (\<lambda>x. case x of ONodePool a \<Rightarrow> Some a | _ \<Rightarrow> None),
     res_meta = np_Meta, res_canon = id\<rparr>"

definition NodeClaims :: "node_claim resource" where
  "NodeClaims = \<lparr>res_kind = KNodeClaim, res_wrap = ONodeClaim,
     res_unwrap = (\<lambda>x. case x of ONodeClaim a \<Rightarrow> Some a | _ \<Rightarrow> None),
     res_meta = nc_Meta, res_canon = id\<rparr>"

definition CAPIClusters :: "object_meta resource" where
  "CAPIClusters = \<lparr>res_kind = KCAPICluster, res_wrap = OCAPICluster,
     res_unwrap = (\<lambda>x. case x of OCAPICluster a \<Rightarrow> Some a | _ \<Rightarrow> None),
     res_meta = id, res_canon = id\<rparr>"

definition CSRs :: "cert_request resource" where
  "CSRs = \<lparr>res_kind = KCertificateSigningRequest, res_wrap = OCertificateSigningRequest,
     res_unwrap = (\<lambda>x. case x of OCertificateSigningRequest a \<Rightarrow> Some a | _ \<Rightarrow> None),
     res_meta = csr_Meta, res_canon = id\<rparr>"

definition CRDs :: "crd resource" where
  "CRDs = \<lparr>res_kind = KCustomResourceDefinition, res_wrap = OCustomResourceDefinition,
     res_unwrap = (\<lambda>x. case x of OCustomResourceDefinition a \<Rightarrow> Some a | _ \<Rightarrow> None),
     res_meta = crd_Meta, res_canon = id\<rparr>"

definition VAPs :: "validating_admission_policy resource" where
  "VAPs = \<lparr>res_kind = KValidatingAdmissionPolicy, res_wrap = OValidatingAdmissionPolicy,
     res_unwrap = (\<lambda>x. case x of OValidatingAdmissionPolicy a \<Rightarrow> Some a | _ \<Rightarrow> None),
     res_meta = vap_Meta, res_canon = id\<rparr>"

definition VAPBindings :: "vap_binding resource" where
  "VAPBindings = \<lparr>res_kind = KValidatingAdmissionPolicyBinding, res_wrap = OValidatingAdmissionPolicyBinding,
     res_unwrap = (\<lambda>x. case x of OValidatingAdmissionPolicyBinding a \<Rightarrow> Some a | _ \<Rightarrow> None),
     res_meta = vapb_Meta, res_canon = id\<rparr>"

definition OpenshiftEC2NodeClasses :: "openshift_ec2_nodeclass resource" where
  "OpenshiftEC2NodeClasses = \<lparr>res_kind = KOpenshiftEC2NodeClass, res_wrap = OOpenshiftEC2NodeClass,
     res_unwrap = (\<lambda>x. case x of OOpenshiftEC2NodeClass a \<Rightarrow> Some a | _ \<Rightarrow> None),
     res_meta = onc_Meta, res_canon = canon_openshift_ec2\<rparr>"

definition EC2NodeClasses :: "ec2_nodeclass resource" where
  "EC2NodeClasses = \<lparr>res_kind = KEC2NodeClass, res_wrap = OEC2NodeClass,
     res_unwrap = (\<lambda>x. case x of OEC2NodeClass a \<Rightarrow> Some a | _ \<Rightarrow> None),
     res_meta = ec2_Meta, res_canon = canon_ec2\<rparr>"

definition OpenShiftAzureNodeClasses :: "openshift_azure_nodeclass resource" where
  "OpenShiftAzureNodeClasses = \<lparr>res_kind = KOpenShiftAzureNodeClass, res_wrap = OOpenShiftAzureNodeClass,
     res_unwrap = (\<lambda>x. case x of OOpenShiftAzureNodeClass a \<Rightarrow> Some a | _ \<Rightarrow> None),
     res_meta = anc_Meta, res_canon = canon_openshift_azure\<rparr>"

definition AKSNodeClasses :: "aks_nodeclass resource" where
  "AKSNodeClasses = \<lparr>res_kind = KAKSNodeClass, res_wrap = OAKSNodeClass,
     res_unwrap = (\<lambda>x. case x of OAKSNodeClass a \<Rightarrow> Some a | _ \<Rightarrow> None),
     res_meta = aks_Meta, res_canon = canon_aks\<rparr>"

definition ClusterOperators :: "cluster_operator resource" where
  "ClusterOperators = \<lparr>res_kind = KClusterOperator, res_wrap = OClusterOperator,
     res_unwrap = (\<lambda>x. case x of OClusterOperator a \<Rightarrow> Some a | _ \<Rightarrow> None),
     res_meta = co_Meta, res_canon = id\<rparr>"

definition Karpenters :: "karpenter_cr resource" where
  "Karpenters = \<lparr>res_kind = KKarpenter, res_wrap = OKarpenter,
     res_unwrap = (\<lambda>x. case x of OKarpenter a \<Rightarrow> Some a | _ \<Rightarrow> None),
     res_meta = kcr_Meta, res_canon = id\<rparr>"

definition Deployments :: "deployment resource" where
  "Deployments = \<lparr>res_kind = KDeployment, res_wrap = ODeployment,
     res_unwrap = (\<lambda>x. case x of ODeployment a \<Rightarrow> Some a | _ \<Rightarrow> None),
     res_meta = dep_Meta, res_canon = id\<rparr>"

definition Pods :: "pod resource" where
  "Pods = \<lparr>res_kind = KPod, res_wrap = OPod,
     res_unwrap = (\<lambda>x. case x of OPod a \<Rightarrow> Some a | _ \<Rightarrow> None),
     res_meta = pod_Meta, res_canon = id\<rparr>"

definition Infrastructures :: "infrastructure resource" where
  "Infrastructures = \<lparr>res_kind = KInfrastructure, res_wrap = OInfrastructure,
     res_unwrap = (\<lambda>x. case x of OInfrastructure a \<Rightarrow> Some a | _ \<Rightarrow> None),
     res_meta = inf_Meta, res_canon = id\<rparr>"

lemmas resource_defs =
  HCPs_def Secrets_def ConfigMaps_def Nodes_def NodePools_def NodeClaims_def CAPIClusters_def
  CSRs_def CRDs_def VAPs_def VAPBindings_def OpenshiftEC2NodeClasses_def EC2NodeClasses_def
  OpenShiftAzureNodeClasses_def AKSNodeClasses_def ClusterOperators_def Karpenters_def Deployments_def
  Pods_def Infrastructures_def

lemma resource_simps [simp]:
  "res_kind HCPs = KHostedControlPlane" "res_wrap HCPs = OHostedControlPlane"
  "res_meta HCPs = hcp_Meta"
  "res_kind Secrets = KSecret" "res_wrap Secrets = OSecret"
  "res_meta Secrets = sec_Meta"
  "res_kind ConfigMaps = KConfigMap" "res_wrap ConfigMaps = OConfigMap"
  "res_meta ConfigMaps = cm_Meta"
  "res_kind Nodes = KNode" "res_wrap Nodes = ONode"
  "res_meta Nodes = node_Meta"
  "res_kind NodePools = KNodePool" "res_wrap NodePools = ONodePool"
  "res_meta NodePools = np_Meta"
  "res_kind NodeClaims = KNodeClaim" "res_wrap NodeClaims = ONodeClaim"
  "res_meta NodeClaims = nc_Meta"
  "res_kind CAPIClusters = KCAPICluster" "res_wrap CAPIClusters = OCAPICluster"
  "res_meta CAPIClusters = id"
  "res_kind CSRs = KCertificateSigningRequest" "res_wrap CSRs = OCertificateSigningRequest"
  "res_meta CSRs = csr_Meta"
  "res_kind CRDs = KCustomResourceDefinition" "res_wrap CRDs = OCustomResourceDefinition"
  "res_meta CRDs = crd_Meta"
  "res_kind VAPs = KValidatingAdmissionPolicy" "res_wrap VAPs = OValidatingAdmissionPolicy"
  "res_meta VAPs = vap_Meta"
  "res_kind VAPBindings = KValidatingAdmissionPolicyBinding" "res_wrap VAPBindings = OValidatingAdmissionPolicyBinding"
  "res_meta VAPBindings = vapb_Meta"
  "res_kind OpenshiftEC2NodeClasses = KOpenshiftEC2NodeClass" "res_wrap OpenshiftEC2NodeClasses = OOpenshiftEC2NodeClass"
  "res_meta OpenshiftEC2NodeClasses = onc_Meta"
  "res_kind EC2NodeClasses = KEC2NodeClass" "res_wrap EC2NodeClasses = OEC2NodeClass"
  "res_meta EC2NodeClasses = ec2_Meta"
  "res_kind OpenShiftAzureNodeClasses = KOpenShiftAzureNodeClass" "res_wrap OpenShiftAzureNodeClasses = OOpenShiftAzureNodeClass"
  "res_meta OpenShiftAzureNodeClasses = anc_Meta"
  "res_kind AKSNodeClasses = KAKSNodeClass" "res_wrap AKSNodeClasses = OAKSNodeClass"
  "res_meta AKSNodeClasses = aks_Meta"
  "res_kind ClusterOperators = KClusterOperator" "res_wrap ClusterOperators = OClusterOperator"
  "res_meta ClusterOperators = co_Meta"
  "res_kind Karpenters = KKarpenter" "res_wrap Karpenters = OKarpenter"
  "res_meta Karpenters = kcr_Meta"
  "res_kind Deployments = KDeployment" "res_wrap Deployments = ODeployment"
  "res_meta Deployments = dep_Meta"
  "res_kind Pods = KPod" "res_wrap Pods = OPod"
  "res_meta Pods = pod_Meta"
  "res_kind Infrastructures = KInfrastructure" "res_wrap Infrastructures = OInfrastructure"
  "res_meta Infrastructures = inf_Meta"
  by (simp_all add: resource_defs)

lemma unwrap_simps [simp]:
  "res_unwrap HCPs (OHostedControlPlane x0) = Some x0"
  "res_unwrap Secrets (OSecret x1) = Some x1"
  "res_unwrap ConfigMaps (OConfigMap x2) = Some x2"
  "res_unwrap Nodes (ONode x3) = Some x3"
  "res_unwrap NodePools (ONodePool x4) = Some x4"
  "res_unwrap NodeClaims (ONodeClaim x5) = Some x5"
  "res_unwrap CAPIClusters (OCAPICluster x6) = Some x6"
  "res_unwrap CSRs (OCertificateSigningRequest x7) = Some x7"
  "res_unwrap CRDs (OCustomResourceDefinition x8) = Some x8"
  "res_unwrap VAPs (OValidatingAdmissionPolicy x9) = Some x9"
  "res_unwrap VAPBindings (OValidatingAdmissionPolicyBinding x10) = Some x10"
  "res_unwrap OpenshiftEC2NodeClasses (OOpenshiftEC2NodeClass x11) = Some x11"
  "res_unwrap EC2NodeClasses (OEC2NodeClass x12) = Some x12"
  "res_unwrap OpenShiftAzureNodeClasses (OOpenShiftAzureNodeClass x13) = Some x13"
  "res_unwrap AKSNodeClasses (OAKSNodeClass x14) = Some x14"
  "res_unwrap ClusterOperators (OClusterOperator x15) = Some x15"
  "res_unwrap Karpenters (OKarpenter x16) = Some x16"
  "res_unwrap Deployments (ODeployment x17) = Some x17"
  "res_unwrap Pods (OPod x18) = Some x18"
  "res_unwrap Infrastructures (OInfrastructure x19) = Some x19"
  by (simp_all add: resource_defs)

lemmas canon_defs =
  canon_kubelet_def canon_k_kubelet_def canon_ec2_def canon_openshift_ec2_def canon_aks_def
  canon_openshift_azure_def

lemma canon_k_kubelet_idem [simp]: "canon_k_kubelet (canon_k_kubelet k) = canon_k_kubelet k"
  by (simp add: canon_k_kubelet_def)

lemma canon_k_kubelet_o [simp]: "canon_k_kubelet \<circ> canon_k_kubelet = canon_k_kubelet"
  by (simp add: fun_eq_iff)

interpretation hcps: resource_laws HCPs
  by unfold_locales (auto simp: HCPs_def split: obj.splits)
interpretation secrets: resource_laws Secrets
  by unfold_locales (auto simp: Secrets_def split: obj.splits)
interpretation config_maps: resource_laws ConfigMaps
  by unfold_locales (auto simp: ConfigMaps_def split: obj.splits)
interpretation nodes: resource_laws Nodes
  by unfold_locales (auto simp: Nodes_def split: obj.splits)
interpretation node_pools: resource_laws NodePools
  by unfold_locales (auto simp: NodePools_def split: obj.splits)
interpretation node_claims: resource_laws NodeClaims
  by unfold_locales (auto simp: NodeClaims_def split: obj.splits)
interpretation capi_clusters: resource_laws CAPIClusters
  by unfold_locales (auto simp: CAPIClusters_def split: obj.splits)
interpretation csrs: resource_laws CSRs
  by unfold_locales (auto simp: CSRs_def split: obj.splits)
interpretation crds: resource_laws CRDs
  by unfold_locales (auto simp: CRDs_def split: obj.splits)
interpretation vaps: resource_laws VAPs
  by unfold_locales (auto simp: VAPs_def split: obj.splits)
interpretation vap_bindings: resource_laws VAPBindings
  by unfold_locales (auto simp: VAPBindings_def split: obj.splits)
interpretation openshift_ec2s: resource_laws OpenshiftEC2NodeClasses
  by unfold_locales
    (auto simp: OpenshiftEC2NodeClasses_def canon_openshift_ec2_def canon_kubelet_def split: obj.splits)
interpretation ec2s: resource_laws EC2NodeClasses
  by unfold_locales
    (auto simp: EC2NodeClasses_def canon_ec2_def option.map_comp split: obj.splits)
interpretation openshift_azures: resource_laws OpenShiftAzureNodeClasses
  by unfold_locales
    (auto simp: OpenShiftAzureNodeClasses_def canon_openshift_azure_def canon_kubelet_def split: obj.splits)
interpretation akss: resource_laws AKSNodeClasses
  by unfold_locales (auto simp: AKSNodeClasses_def canon_aks_def split: obj.splits)
interpretation cluster_operators: resource_laws ClusterOperators
  by unfold_locales (auto simp: ClusterOperators_def split: obj.splits)
interpretation karpenters: resource_laws Karpenters
  by unfold_locales (auto simp: Karpenters_def split: obj.splits)
interpretation deployments: resource_laws Deployments
  by unfold_locales (auto simp: Deployments_def split: obj.splits)
interpretation pods: resource_laws Pods
  by unfold_locales (auto simp: Pods_def split: obj.splits)
interpretation infrastructures: resource_laws Infrastructures
  by unfold_locales (auto simp: Infrastructures_def split: obj.splits)

end
