(* ===== verification/Controllerutil.thy ===== *)
theory Controllerutil
  imports Client
begin

text \<open>
  The typed calls of the client and \<^verbatim>\<open>controllerutil.CreateOrUpdate\<close>. A call returns the
  server's object or the server's error; an answer of another shape is a decoding error. The second
  half is a reference API server, an executable store with the documented behaviour of the calls; the
  properties that need a server which keeps what it is given are witnessed on it.
\<close>


section \<open>Typed calls\<close>

definition decode_failed :: goerr where
  "decode_failed = EText ''decoding the response''"

fun as_object :: "'a resource \<Rightarrow> resp \<Rightarrow> goerr + 'a" where
  "as_object r (RErr re m) = Inl (EApi re m)"
| "as_object r (RObj x) = (case res_unwrap r x of Some a \<Rightarrow> Inr a | None \<Rightarrow> Inl decode_failed)"
| "as_object r _ = Inl decode_failed"

fun unwrap_all :: "'a resource \<Rightarrow> obj list \<Rightarrow> 'a list option" where
  "unwrap_all r [] = Some []"
| "unwrap_all r (x # xs) =
     (case res_unwrap r x of
        None \<Rightarrow> None
      | Some a \<Rightarrow> map_option ((#) a) (unwrap_all r xs))"

fun as_list :: "'a resource \<Rightarrow> resp \<Rightarrow> goerr + 'a list" where
  "as_list r (RErr re m) = Inl (EApi re m)"
| "as_list r (RList xs) = (case unwrap_all r xs of Some ys \<Rightarrow> Inr ys | None \<Rightarrow> Inl decode_failed)"
| "as_list r _ = Inl decode_failed"

fun as_unit :: "resp \<Rightarrow> goerr + unit" where
  "as_unit (RErr re m) = Inl (EApi re m)"
| "as_unit _ = Inr ()"

definition c_get :: "target \<Rightarrow> 'a resource \<Rightarrow> string \<Rightarrow> string \<Rightarrow> 'a io" where
  "c_get t r ns n = Call (Get t (res_kind r) ns n) (\<lambda>x. Ret (as_object r x))"

definition c_list ::
  "target \<Rightarrow> 'a resource \<Rightarrow> string option \<Rightarrow> (string \<times> string) list \<Rightarrow> 'a list io"
where
  "c_list t r ns sel = Call (List t (res_kind r) ns sel) (\<lambda>x. Ret (as_list r x))"

definition c_create :: "target \<Rightarrow> 'a resource \<Rightarrow> 'a \<Rightarrow> 'a io" where
  "c_create t r a = Call (Create t (res_wrap r a)) (\<lambda>x. Ret (as_object r x))"

definition c_update :: "target \<Rightarrow> 'a resource \<Rightarrow> 'a \<Rightarrow> 'a io" where
  "c_update t r a = Call (Update t (res_wrap r a)) (\<lambda>x. Ret (as_object r x))"

definition c_patch :: "target \<Rightarrow> 'a resource \<Rightarrow> bool \<Rightarrow> 'a \<Rightarrow> 'a \<Rightarrow> 'a io" where
  "c_patch t r lock original a =
     Call (Patch t lock (res_wrap r original) (res_wrap r a)) (\<lambda>x. Ret (as_object r x))"

definition c_patch_status :: "target \<Rightarrow> 'a resource \<Rightarrow> bool \<Rightarrow> 'a \<Rightarrow> 'a \<Rightarrow> 'a io" where
  "c_patch_status t r lock original a =
     Call (PatchStatus t lock (res_wrap r original) (res_wrap r a)) (\<lambda>x. Ret (as_object r x))"

definition c_delete :: "target \<Rightarrow> 'a resource \<Rightarrow> string \<Rightarrow> string \<Rightarrow> unit io" where
  "c_delete t r ns n = Call (Delete t (res_kind r) ns n) (\<lambda>x. Ret (as_unit x))"

definition c_apply :: "target \<Rightarrow> string \<Rightarrow> bool \<Rightarrow> apply_config \<Rightarrow> unit io" where
  "c_apply t owner force cfg = Call (Apply t owner force cfg) (\<lambda>x. Ret (as_unit x))"

lemmas call_defs [prog_simps] =
  c_get_def c_list_def c_create_def c_update_def c_patch_def c_patch_status_def c_delete_def c_apply_def

definition IgnoreNotFound :: "goerr \<Rightarrow> goerr + unit" where
  "IgnoreNotFound e = (if IsNotFound e then Inr () else Inl e)"

lemmas runs_rules = call_defs runs_Call_iff runs_bindE runs_wrapE runs_bind

lemma as_list_EApi: "as_list r x = Inl e \<Longrightarrow> (\<exists>re m. e = EApi re m) \<or> e = decode_failed"
  by (cases x) (auto split: option.splits)

lemma as_list_no_sentinel: "as_list r x = Inl e \<Longrightarrow> \<not> errors_Is e (ESentinel m)"
  by (auto dest!: as_list_EApi simp: decode_failed_def)

lemma as_object_no_sentinel: "as_object r x = Inl e \<Longrightarrow> \<not> errors_Is e (ESentinel m)"
  by (cases x) (auto simp: decode_failed_def split: option.splits)

lemma decoded_commute [simp]:
  "(Inr a = as_object r x) = (as_object r x = Inr a)" "(Inl e = as_object r x) = (as_object r x = Inl e)"
  "(Inr b = as_list r x) = (as_list r x = Inr b)" "(Inl e = as_list r x) = (as_list r x = Inl e)"
  "(Inr u = as_unit x) = (as_unit x = Inr u)" "(Inl e = as_unit x) = (as_unit x = Inl e)"
  by auto

lemma unwrap_all_length: "unwrap_all r xs = Some ys \<Longrightarrow> length ys = length xs"
  by (induction xs arbitrary: ys) (auto split: option.splits)

lemma unwrap_all_Nil [simp]: "unwrap_all r xs = Some [] \<longleftrightarrow> xs = []"
  by (cases xs) (auto split: option.splits)

lemma as_list_Inr: "as_list r x = Inr ys \<longleftrightarrow> (\<exists>xs. x = RList xs \<and> unwrap_all r xs = Some ys)"
  by (cases x) (auto split: option.splits)

lemma as_object_Inr: "as_object r x = Inr a \<longleftrightarrow> (\<exists>y. x = RObj y \<and> res_unwrap r y = Some a)"
  by (cases x) (auto split: option.splits)

lemma as_unit_Inl: "as_unit x = Inl e \<longleftrightarrow> (\<exists>re m. x = RErr re m \<and> e = EApi re m)"
  by (cases x) auto

lemma as_object_EApi: "as_object r x = Inl (EApi re m) \<longleftrightarrow> x = RErr re m"
  by (cases x) (auto simp: decode_failed_def split: option.splits)

context resource_laws
begin

lemma unwrap_all_map [simp]: "unwrap_all r (map (res_wrap r) as) = Some as"
  by (induction as) (simp_all add: unwrap_wrap)

lemma unwrap_all_iff: "unwrap_all r xs = Some ys \<longleftrightarrow> xs = map (res_wrap r) ys"
proof
  show "unwrap_all r xs = Some ys \<Longrightarrow> xs = map (res_wrap r) ys"
    by (induction xs arbitrary: ys) (auto split: option.splits dest: unwrap_Some)
qed simp

lemma as_list_iff: "as_list r x = Inr ys \<longleftrightarrow> x = RList (map (res_wrap r) ys)"
  by (auto simp: as_list_Inr unwrap_all_iff)

lemma as_object_iff: "as_object r x = Inr a \<longleftrightarrow> x = RObj (res_wrap r a)"
  by (auto simp: as_object_Inr unwrap_iff)

end


section \<open>CreateOrUpdate\<close>

datatype operation_result =
    OperationResultNone
  | OperationResultCreated
  | OperationResultUpdated

type_synonym 'a mutate_fn = "'a \<Rightarrow> goerr + 'a"

definition mutate :: "'a resource \<Rightarrow> 'a mutate_fn \<Rightarrow> string \<times> string \<Rightarrow> 'a \<Rightarrow> goerr + 'a" where
  "mutate r f key a =
     (case f a of
        Inl e \<Rightarrow> Inl e
      | Inr b \<Rightarrow>
          if key \<noteq> res_key r b
          then Inl (EText ''MutateFn cannot mutate object name and/or object namespace'')
          else Inr b)"

definition semantic_equal :: "'a resource \<Rightarrow> 'a \<Rightarrow> 'a \<Rightarrow> bool" where
  "semantic_equal r a b \<longleftrightarrow> res_canon r a = res_canon r b"

definition CreateOrUpdate ::
  "target \<Rightarrow> 'a resource \<Rightarrow> 'a \<Rightarrow> 'a mutate_fn \<Rightarrow> (operation_result \<times> 'a) io"
where
  "CreateOrUpdate t r a f =
     (let key = res_key r a in
      bind (c_get t r (fst key) (snd key)) (\<lambda>got.
        case got of
          Inl e \<Rightarrow>
            if \<not> IsNotFound e then Ret (Inl e)
            else (case mutate r f key a of
                    Inl e \<Rightarrow> Ret (Inl e)
                  | Inr b \<Rightarrow> bindE (c_create t r b) (\<lambda>c. Ret (Inr (OperationResultCreated, c))))
        | Inr existing \<Rightarrow>
            (case mutate r f key existing of
               Inl e \<Rightarrow> Ret (Inl e)
             | Inr b \<Rightarrow>
                 if semantic_equal r existing b then Ret (Inr (OperationResultNone, b))
                 else bindE (c_update t r b) (\<lambda>c. Ret (Inr (OperationResultUpdated, c))))))"

lemma mutate_Inr: "mutate r f key a = Inr b \<longleftrightarrow> f a = Inr b \<and> res_key r b = key"
  by (auto simp: mutate_def split: sum.splits)

lemma semantic_equal_refl [simp]: "semantic_equal r a a"
  by (simp add: semantic_equal_def)

text \<open>
  What \<open>CreateOrUpdate\<close> may write: the object with the key it was called with, in a state the
  mutation produced. This is the guard the controllers use.
\<close>

lemma safe_CreateOrUpdate:
  assumes get: "G h (Get t (res_kind r) (fst (res_key r a)) (snd (res_key r a)))"
    and create: "\<And>e b. f a = Inr b \<Longrightarrow> res_key r b = res_key r a \<Longrightarrow>
       G (h @ [(Get t (res_kind r) (fst (res_key r a)) (snd (res_key r a)), e)]) (Create t (res_wrap r b))"
    and update: "\<And>e x b. as_object r e = Inr x \<Longrightarrow> f x = Inr b \<Longrightarrow> res_key r b = res_key r a \<Longrightarrow>
       \<not> semantic_equal r x b \<Longrightarrow>
       G (h @ [(Get t (res_kind r) (fst (res_key r a)) (snd (res_key r a)), e)]) (Update t (res_wrap r b))"
    and post: "\<And>h' y. \<exists>u. h' = h @ u \<Longrightarrow> Q h' y"
  shows "safe G (CreateOrUpdate t r a f) h Q"
  using get create update post
  by (auto simp: CreateOrUpdate_def Let_def c_get_def c_create_def c_update_def mutate_Inr safe_bindE
      split: sum.splits)

text \<open>The result of an update: what the server answered, or what was found unchanged.\<close>

lemma exec_CreateOrUpdate_unchanged:
  assumes "srv (Get t (res_kind r) (fst (res_key r a)) (snd (res_key r a))) w = (RObj x, w')"
    and "res_unwrap r x = Some existing"
    and "f existing = Inr b" and "res_key r b = res_key r a"
    and "semantic_equal r existing b"
  shows "exec srv (CreateOrUpdate t r a f) w = (Inr (OperationResultNone, b), w')"
    and "calls srv (CreateOrUpdate t r a f) w =
           [(Get t (res_kind r) (fst (res_key r a)) (snd (res_key r a)), RObj x)]"
  using assms by (simp_all add: CreateOrUpdate_def Let_def c_get_def mutate_def)

text \<open>
  What a successful \<open>CreateOrUpdate\<close> leaves behind: an object with the key and the property was
  accepted by the server, or the object found there is semantically equal to such a one.
\<close>

definition ensured ::
  "target \<Rightarrow> 'a resource \<Rightarrow> string \<times> string \<Rightarrow> ('a \<Rightarrow> bool) \<Rightarrow> (req \<times> resp) list \<Rightarrow> bool"
where
  "ensured t r key P tr \<longleftrightarrow>
     (\<exists>b. P b \<and> res_key r b = key \<and>
        ((\<exists>x. (Create t (res_wrap r b), RObj x) \<in> set tr \<or> (Update t (res_wrap r b), RObj x) \<in> set tr) \<or>
         (\<exists>a x. (Get t (res_kind r) (fst key) (snd key), RObj x) \<in> set tr \<and> res_unwrap r x = Some a \<and>
            semantic_equal r a b)))"

lemma ensured_append: "ensured t r key P tr \<Longrightarrow> ensured t r key P (h @ tr @ u)"
  unfolding ensured_def set_append Un_iff by blast

lemma runs_CreateOrUpdate:
  assumes "runs (CreateOrUpdate t r a f) tr (Inr y)" and "\<And>c b. f c = Inr b \<Longrightarrow> P b"
  shows "ensured t r (res_key r a) P tr"
proof -
  let ?get = "Get t (res_kind r) (fst (res_key r a)) (snd (res_key r a))"
  from assms(1) obtain g u where tr: "tr = (?get, g) # u"
    by (auto simp: CreateOrUpdate_def Let_def c_get_def runs_Call_iff)
  show ?thesis
  proof (cases "as_object r g")
    case (Inl e)
    with assms(1) tr obtain b where b: "f a = Inr b" "res_key r b = res_key r a"
      and "runs (bindE (c_create t r b) (\<lambda>c. Ret (Inr (OperationResultCreated, c)))) u (Inr y)"
      by (auto simp: CreateOrUpdate_def Let_def c_get_def mutate_Inr split: if_splits sum.splits)
    then obtain x where "u = [(Create t (res_wrap r b), RObj x)]"
      by (auto simp: c_create_def runs_bindE runs_Call_iff as_object_Inr)
    with b tr assms(2) [OF b(1)] show ?thesis by (auto simp: ensured_def)
  next
    case (Inr c)
    with assms(1) tr obtain b where b: "f c = Inr b" "res_key r b = res_key r a"
      and u: "runs (if semantic_equal r c b then Ret (Inr (OperationResultNone, b))
         else bindE (c_update t r b) (\<lambda>c. Ret (Inr (OperationResultUpdated, c)))) u (Inr y)"
      by (auto simp: CreateOrUpdate_def Let_def c_get_def mutate_Inr split: sum.splits)
    from Inr obtain z where z: "g = RObj z" "res_unwrap r z = Some c" by (auto simp: as_object_Inr)
    show ?thesis
    proof (cases "semantic_equal r c b")
      case True
      with b z tr assms(2) [OF b(1)] show ?thesis unfolding ensured_def by auto
    next
      case False
      with u obtain x where "u = [(Update t (res_wrap r b), RObj x)]"
        by (auto simp: c_update_def runs_bindE runs_Call_iff as_object_Inr)
      with b tr assms(2) [OF b(1)] show ?thesis by (auto simp: ensured_def)
    qed
  qed
qed

text \<open>
  The contract of a mutation: it keeps the key, and what it produced it leaves alone. The client of
  the contract is \<open>CreateOrUpdate\<close>, which then converges after one write.
\<close>

locale mutation =
  fixes r :: "'a resource" and f :: "'a mutate_fn"
  assumes keeps_key: "f a = Inr b \<Longrightarrow> res_key r b = res_key r a"
    and idempotent: "f a = Inr b \<Longrightarrow> f b = Inr b"
begin

lemma mutate_eq: "res_key r a = key \<Longrightarrow> mutate r f key a = f a"
  by (auto simp: mutate_def keeps_key split: sum.splits)

lemma stable:
  assumes "srv (Get t (res_kind r) (fst (res_key r a)) (snd (res_key r a))) w = (RObj x, w')"
    and "res_unwrap r x = Some b" and "f c = Inr b" and "res_key r c = res_key r a"
  shows "exec srv (CreateOrUpdate t r a f) w = (Inr (OperationResultNone, b), w')"
    and "\<forall>(q, _)\<in>set (calls srv (CreateOrUpdate t r a f) w). \<not> is_write q"
proof -
  have "f b = Inr b" and "res_key r b = res_key r a"
    using assms(3,4) idempotent keeps_key by metis+
  then have "exec srv (CreateOrUpdate t r a f) w = (Inr (OperationResultNone, b), w')"
    and "calls srv (CreateOrUpdate t r a f) w =
           [(Get t (res_kind r) (fst (res_key r a)) (snd (res_key r a)), RObj x)]"
    using exec_CreateOrUpdate_unchanged
        [where srv = srv and t = t and r = r and a = a and w = w and x = x and w' = w' and
         existing = b and f = f and b = b] assms(1,2) by simp_all
  then show "exec srv (CreateOrUpdate t r a f) w = (Inr (OperationResultNone, b), w')"
    and "\<forall>(q, _)\<in>set (calls srv (CreateOrUpdate t r a f) w). \<not> is_write q"
    by simp_all
qed

end

end
