(* ===== verification/Hypershift.thy ===== *)
theory Hypershift
  imports Controllerutil
begin

text \<open>
  \<^verbatim>\<open>pkg/hypershift\<close>: finding the HostedControlPlane and the user data Secret of a
  NodeClass, the upgrade state of the control plane and the deletion state of the cluster. The
  predicates of the watches are functions on the old and the new object of an update event.
\<close>


section \<open>The HostedControlPlane\<close>

definition ErrHostedControlPlaneNotFound :: goerr where
  "ErrHostedControlPlaneNotFound = ESentinel ''hosted control plane not found''"

text \<open>\<^verbatim>\<open>%q\<close> of a Kubernetes name or namespace, which has nothing to escape.\<close>

definition quoted :: "string \<Rightarrow> string" where
  "quoted s = CHR 0x22 # s @ [CHR 0x22]"

definition the_hosted_control_plane ::
  "string \<Rightarrow> hosted_control_plane list \<Rightarrow> goerr + hosted_control_plane"
where
  "the_hosted_control_plane namespace items =
     (case items of
        [] \<Rightarrow> Inl (EWrap [] ErrHostedControlPlaneNotFound ('' in namespace '' @ quoted namespace))
      | [hcp] \<Rightarrow> Inr hcp
      | _ \<Rightarrow> Inl (EText (''expected one hosted control plane in namespace '' @ quoted namespace
               @ '', found '' @ Itoa (int (length items)))))"

definition GetHostedControlPlane :: "target \<Rightarrow> string \<Rightarrow> hosted_control_plane io" where
  "GetHostedControlPlane t namespace =
     bindE (wrapE ''listing hosted control planes: '' (c_list t HCPs (Some namespace) []))
       (\<lambda>items. Ret (the_hosted_control_plane namespace items))"


section \<open>Control plane upgrades\<close>

fun last_completed :: "control_plane_update list \<Rightarrow> control_plane_update option" where
  "last_completed [] = None"
| "last_completed (u # us) = (if cpu_State u = CompletedUpdate then Some u else last_completed us)"

definition isControlPlaneUpgrading :: "hosted_control_plane \<Rightarrow> bool" where
  "isControlPlaneUpgrading hcp =
     (let desiredImage = rel_Image (cpv_Desired (hcp_ControlPlaneVersion hcp)) in
      if desiredImage = [] then False
      else (case last_completed (cpv_History (hcp_ControlPlaneVersion hcp)) of
              Some entry \<Rightarrow> cpu_Image entry \<noteq> desiredImage
            | None \<Rightarrow> False))"

definition WaitsForControlPlaneUpgrade :: "hosted_control_plane \<Rightarrow> string \<Rightarrow> bool" where
  "WaitsForControlPlaneUpgrade hcp version \<longleftrightarrow> version = [] \<and> isControlPlaneUpgrading hcp"

definition ControlPlaneVersionChanged :: "hosted_control_plane \<Rightarrow> hosted_control_plane \<Rightarrow> bool" where
  "ControlPlaneVersionChanged oldHCP newHCP \<longleftrightarrow>
     hcp_ControlPlaneVersion oldHCP \<noteq> hcp_ControlPlaneVersion newHCP"


section \<open>Cluster deletion\<close>

text \<open>The version of the CAPI Cluster that the API server prefers; \<open>mapper\<close> is the REST mapper,
  from a group and a kind to the API version. Only the metadata is read, the same in every version, so the
  reads below do not depend on it.\<close>

definition ResolveCAPIClusterGVK :: "(string \<times> string \<Rightarrow> goerr + string) \<Rightarrow> goerr + string" where
  "ResolveCAPIClusterGVK mapper =
     (case mapper (''cluster.x-k8s.io'', ''Cluster'') of
        Inl e \<Rightarrow> Inl (EWrap ''resolving CAPI Cluster version: '' e [])
      | Inr apiVersion \<Rightarrow> Inr apiVersion)"

definition IsClusterDeleting :: "target \<Rightarrow> hosted_control_plane \<Rightarrow> bool io" where
  "IsClusterDeleting t hcp =
     (if being_deleted (hcp_Meta hcp) then Ret (Inr True)
      else if hcp_InfraID hcp = [] then Ret (Inr False)
      else bind (c_get t CAPIClusters (md_Namespace (hcp_Meta hcp)) (hcp_InfraID hcp)) (\<lambda>got.
        case got of
          Inl e \<Rightarrow>
            if IsNotFound e then Ret (Inr False)
            else Ret (Inl (EWrap ''getting CAPI Cluster: '' e []))
        | Inr m \<Rightarrow> Ret (Inr (being_deleted m))))"


section \<open>User data Secrets\<close>

abbreviation tokenSecretAnnotation :: string where
  "tokenSecretAnnotation \<equiv> ''hypershift.openshift.io/ignition-config''"

abbreviation karpenterNodePoolSuffix :: string where
  "karpenterNodePoolSuffix \<equiv> ''-karpenter''"

abbreviation ManagedByKarpenterLabel :: string where
  "ManagedByKarpenterLabel \<equiv> ''hypershift.openshift.io/managed-by-karpenter''"

abbreviation TokenSecretNodePoolAnnotation :: string where
  "TokenSecretNodePoolAnnotation \<equiv> ''hypershift.openshift.io/nodePool''"

abbreviation karpenterSecretSelector :: "(string \<times> string) list" where
  "karpenterSecretSelector \<equiv> [(ManagedByKarpenterLabel, ''true'')]"

definition ErrUserDataSecretNotFound :: goerr where
  "ErrUserDataSecretNotFound = ESentinel ''user data secret not found''"

definition karpenterNodePoolName :: "string \<Rightarrow> string" where
  "karpenterNodePoolName nodeClassName = nodeClassName @ karpenterNodePoolSuffix"

definition is_token_secret :: "object_meta \<Rightarrow> bool" where
  "is_token_secret m \<longleftrightarrow> map_get (md_Annotations m) tokenSecretAnnotation = ''true''"

text \<open>The filter of \<open>GetUserDataSecret\<close>; an \<^verbatim>\<open>ObjectKey\<close> prints as
  \<^verbatim>\<open>namespace/name\<close>.\<close>

definition user_data_secret_of :: "string \<Rightarrow> string \<Rightarrow> secret \<Rightarrow> bool" where
  "user_data_secret_of namespace nodeClassName s \<longleftrightarrow>
     map_get (md_Annotations (sec_Meta s)) TokenSecretNodePoolAnnotation
       = namespace @ ''/'' @ karpenterNodePoolName nodeClassName \<and>
     \<not> is_token_secret (sec_Meta s)"

definition the_user_data_secret :: "string \<Rightarrow> secret list \<Rightarrow> goerr + secret" where
  "the_user_data_secret nodeClassName userDataSecrets =
     (case userDataSecrets of
        [] \<Rightarrow> Inl (EWrap [] ErrUserDataSecretNotFound ('' for NodeClass '' @ quoted nodeClassName))
      | [s] \<Rightarrow> Inr s
      | _ \<Rightarrow> Inl (EText (''expected one user data secret for NodeClass '' @ quoted nodeClassName
               @ '', found '' @ Itoa (int (length userDataSecrets)))))"

definition GetUserDataSecret :: "target \<Rightarrow> string \<Rightarrow> string \<Rightarrow> secret io" where
  "GetUserDataSecret t namespace nodeClassName =
     bindE (wrapE ''listing secrets: '' (c_list t Secrets (Some namespace) karpenterSecretSelector))
       (\<lambda>items. Ret (the_user_data_secret nodeClassName
          (filter (user_data_secret_of namespace nodeClassName) items)))"

definition isKarpenterSecret :: "object_meta \<Rightarrow> bool" where
  "isKarpenterSecret m \<longleftrightarrow> map_of (md_Labels m) ManagedByKarpenterLabel = Some ''true''"

definition KarpenterSecretPredicate_create :: "object_meta \<Rightarrow> bool" where
  "KarpenterSecretPredicate_create = isKarpenterSecret"

definition KarpenterSecretPredicate_update :: "object_meta \<Rightarrow> object_meta \<Rightarrow> bool" where
  "KarpenterSecretPredicate_update objectOld objectNew = isKarpenterSecret objectNew"

text \<open>The names of the requests enqueued; NodeClasses have no namespace.\<close>

definition mapUserDataSecretToNodeClass :: "object_meta \<Rightarrow> string list" where
  "mapUserDataSecretToNodeClass m =
     (if is_token_secret m then []
      else
        let nodePoolName = CutAfter CHR ''/'' (map_get (md_Annotations m) TokenSecretNodePoolAnnotation) in
        case CutSuffix nodePoolName karpenterNodePoolSuffix of
          None \<Rightarrow> []
        | Some nodeClassName \<Rightarrow> [nodeClassName])"


section \<open>Properties\<close>

lemma the_hosted_control_plane_simps [simp]:
  "Inr hcp = the_hosted_control_plane ns items \<longleftrightarrow> items = [hcp]"
  "the_hosted_control_plane ns items = Inr hcp \<longleftrightarrow> items = [hcp]"
  by (auto simp: the_hosted_control_plane_def split: list.splits)

lemma the_single [simp]:
  "the_hosted_control_plane ns [hcp] = Inr hcp" "the_user_data_secret nc [s] = Inr s"
  by (simp_all add: the_hosted_control_plane_def the_user_data_secret_def)

lemma the_hosted_control_plane_NotFound:
  "the_hosted_control_plane ns items = Inl e \<Longrightarrow> errors_Is e ErrHostedControlPlaneNotFound \<longleftrightarrow> items = []"
  by (auto simp: the_hosted_control_plane_def ErrHostedControlPlaneNotFound_def split: list.splits)

lemma the_user_data_secret_simps [simp]:
  "Inr s = the_user_data_secret nc items \<longleftrightarrow> items = [s]"
  "the_user_data_secret nc items = Inr s \<longleftrightarrow> items = [s]"
  by (auto simp: the_user_data_secret_def split: list.splits)

lemma the_user_data_secret_NotFound:
  "the_user_data_secret nc items = Inl e \<Longrightarrow> errors_Is e ErrUserDataSecretNotFound \<longleftrightarrow> items = []"
  by (auto simp: the_user_data_secret_def ErrUserDataSecretNotFound_def split: list.splits)

lemma GetHostedControlPlane_Inr:
  "runs (GetHostedControlPlane t ns) tr (Inr hcp) \<longleftrightarrow>
     tr = [(List t KHostedControlPlane (Some ns) [], RList [OHostedControlPlane hcp])]"
  by (auto simp: GetHostedControlPlane_def runs_rules hcps.as_list_iff)

text \<open>The two lookups fail with their sentinel error only when the server's list holds no match:
  no error of a server is taken for it.\<close>

lemma GetHostedControlPlane_NotFound:
  assumes "runs (GetHostedControlPlane t ns) tr (Inl e)" and "errors_Is e ErrHostedControlPlaneNotFound"
  shows "tr = [(List t KHostedControlPlane (Some ns) [], RList [])]"
  using assms
  by (auto simp: GetHostedControlPlane_def runs_rules hcps.as_list_iff
      dest: as_list_no_sentinel [where m = "''hosted control plane not found''", folded ErrHostedControlPlaneNotFound_def]
        the_hosted_control_plane_NotFound [OF sym])

text \<open>The user data Secret of a NodeClass is returned exactly when it is the only Secret in the
  server's answer that belongs to the NodeClass and is no token Secret; the only call is one List of
  the Karpenter Secrets of the namespace.\<close>

theorem user_data_secret_unique:
  "runs (GetUserDataSecret t ns nc) tr (Inr s) \<longleftrightarrow>
     (\<exists>items. tr = [(List t KSecret (Some ns) karpenterSecretSelector, RList (map OSecret items))] \<and>
        [x\<leftarrow>items. user_data_secret_of ns nc x] = [s])"
  by (auto simp: GetUserDataSecret_def runs_rules secrets.as_list_iff)

lemma GetUserDataSecret_NotFound:
  assumes "runs (GetUserDataSecret t ns nc) tr (Inl e)" and "errors_Is e ErrUserDataSecretNotFound"
  shows "\<exists>items. tr = [(List t KSecret (Some ns) karpenterSecretSelector, RList (map OSecret items))] \<and>
           (\<forall>x\<in>set items. \<not> user_data_secret_of ns nc x)"
  using assms
  by (auto simp: GetUserDataSecret_def runs_rules secrets.as_list_iff
      dest: as_list_no_sentinel [where m = "''user data secret not found''", folded ErrUserDataSecretNotFound_def])
    (metis the_user_data_secret_NotFound filter_empty_conv)

text \<open>The watch and the lookup agree. In a namespace (a name without a slash) a Secret enqueues
  exactly the NodeClass whose lookup would select it, so no change of a user data Secret is missed
  and no other NodeClass is reconciled for it.\<close>

theorem user_data_secret_watch:
  assumes "CHR ''/'' \<notin> set ns"
    and "map_get (md_Annotations (sec_Meta s)) TokenSecretNodePoolAnnotation = ns @ ''/'' @ pool"
  shows "mapUserDataSecretToNodeClass (sec_Meta s) = [nc] \<longleftrightarrow> user_data_secret_of ns nc s"
  using assms
  by (auto simp: mapUserDataSecretToNodeClass_def user_data_secret_of_def karpenterNodePoolName_def
      CutAfter_append CutSuffix_eq_Some split: option.splits)

lemma user_data_secret_watch_witness:
  "mapUserDataSecretToNodeClass ((new_meta ''ns'' ''s'')
       \<lparr>md_Annotations := [(TokenSecretNodePoolAnnotation, ''ns/default-karpenter'')]\<rparr>) = [''default''] \<longleftrightarrow>
   user_data_secret_of ''ns'' ''default''
     \<lparr>sec_Meta = (new_meta ''ns'' ''s'')
       \<lparr>md_Annotations := [(TokenSecretNodePoolAnnotation, ''ns/default-karpenter'')]\<rparr>, sec_Data = []\<rparr>"
  using user_data_secret_watch
    [of "''ns''" "\<lparr>sec_Meta = (new_meta ''ns'' ''s'')
       \<lparr>md_Annotations := [(TokenSecretNodePoolAnnotation, ''ns/default-karpenter'')]\<rparr>, sec_Data = []\<rparr>"
      "''default-karpenter''" "''default''"]
  by (simp add: map_get_def)

lemma last_completed_append:
  "\<forall>u\<in>set us. cpu_State u \<noteq> CompletedUpdate \<Longrightarrow> last_completed (us @ vs) = last_completed vs"
  by (induction us) auto

lemma last_completed_None: "last_completed us = None \<longleftrightarrow> (\<forall>u\<in>set us. cpu_State u \<noteq> CompletedUpdate)"
  by (induction us) auto

lemma last_completed_Some:
  "last_completed us = Some u \<longleftrightarrow>
     (\<exists>ps qs. us = ps @ u # qs \<and> cpu_State u = CompletedUpdate \<and>
        CompletedUpdate \<notin> cpu_State ` set ps)"
proof (induction us)
  case Nil
  show ?case by simp
next
  case (Cons v us)
  show ?case
  proof (cases "cpu_State v = CompletedUpdate")
    case True
    then show ?thesis by (auto simp: Cons_eq_append_conv)
  next
    case False
    then have "(\<exists>ps qs. v # us = ps @ u # qs \<and> cpu_State u = CompletedUpdate \<and>
          CompletedUpdate \<notin> cpu_State ` set ps) \<longleftrightarrow>
        (\<exists>ps qs. us = ps @ u # qs \<and> cpu_State u = CompletedUpdate \<and>
          CompletedUpdate \<notin> cpu_State ` set ps)" (is "?l \<longleftrightarrow> ?r")
    proof -
      have "?r" if ?l
        using that False by (auto simp: Cons_eq_append_conv)
      moreover have "?l" if ?r
      proof -
        from that obtain ps qs where "v # us = (v # ps) @ u # qs" "cpu_State u = CompletedUpdate"
          "CompletedUpdate \<notin> cpu_State ` set (v # ps)" using False by auto
        then show ?l by blast
      qed
      ultimately show ?thesis by blast
    qed
    with Cons.IH False show ?thesis by simp
  qed
qed

lemma isControlPlaneUpgrading_iff:
  "isControlPlaneUpgrading hcp \<longleftrightarrow>
     (\<exists>u. last_completed (cpv_History (hcp_ControlPlaneVersion hcp)) = Some u \<and>
        rel_Image (cpv_Desired (hcp_ControlPlaneVersion hcp)) \<noteq> [] \<and>
        cpu_Image u \<noteq> rel_Image (cpv_Desired (hcp_ControlPlaneVersion hcp)))"
  by (auto simp: isControlPlaneUpgrading_def Let_def split: option.splits)

text \<open>An upgrade of the control plane, told from its history, which lists the newest update first: the
  desired release is known, and the last update that was completed, below any that were not, was to
  another one. There is none before a first release is completed.\<close>

definition upgrade_in_progress :: "control_plane_version \<Rightarrow> bool" where
  "upgrade_in_progress v \<longleftrightarrow> rel_Image (cpv_Desired v) \<noteq> [] \<and>
     (\<exists>newer u older. cpv_History v = newer @ u # older \<and>
        cpu_State u = CompletedUpdate \<and> CompletedUpdate \<notin> cpu_State ` set newer \<and>
        cpu_Image u \<noteq> rel_Image (cpv_Desired v))"

text \<open>A NodeClass waits exactly when it has no version of its own and an upgrade is in progress.\<close>

lemma waits_for_upgrade_iff:
  "WaitsForControlPlaneUpgrade hcp version \<longleftrightarrow>
     version = [] \<and> upgrade_in_progress (hcp_ControlPlaneVersion hcp)"
  unfolding WaitsForControlPlaneUpgrade_def isControlPlaneUpgrading_iff last_completed_Some upgrade_in_progress_def
  by blast

text \<open>Mutations one after the other, up to the first error.\<close>

primrec successive :: "('x \<Rightarrow> 'a \<Rightarrow> goerr + 'a) \<Rightarrow> 'x list \<Rightarrow> 'a \<Rightarrow> goerr + 'a" where
  "successive f [] a = Inr a"
| "successive f (x # xs) a = (case f x a of Inl e \<Rightarrow> Inl e | Inr b \<Rightarrow> successive f xs b)"

text \<open>A release is completed, and the next one is under way.\<close>

abbreviation upgrading_version :: control_plane_version where
  "upgrading_version \<equiv> empty_control_plane_version
     \<lparr>cpv_Desired := (cpv_Desired empty_control_plane_version)\<lparr>rel_Image := ''release:2''\<rparr>,
      cpv_History :=
        [\<lparr>cpu_State = ''Partial'', cpu_StartedTime = None, cpu_CompletionTime = None,
          cpu_Version = ''2'', cpu_Image = ''release:2''\<rparr>,
         \<lparr>cpu_State = CompletedUpdate, cpu_StartedTime = None, cpu_CompletionTime = None,
          cpu_Version = ''1'', cpu_Image = ''release:1''\<rparr>]\<rparr>"

lemma upgrading_version: "upgrade_in_progress upgrading_version"
  unfolding upgrade_in_progress_def
  by (intro conjI exI [of _ "[cpv_History upgrading_version ! 0]"] exI [of _ "cpv_History upgrading_version ! 1"]
      exI [of _ "[]"]) simp_all

end
