(* ===== verification/Ec2_Convert.thy ===== *)
theory Ec2_Convert
  imports Ec2_Tags Duration Hypershift
begin

text \<open>
  \<^verbatim>\<open>pkg/controllers/nodeclass/ec2/karpenter_util.go\<close>,
  \<^verbatim>\<open>pkg/controllers/nodeclass/ec2/userdata.go\<close> and
  \<^verbatim>\<open>reconcileEC2NodeClass\<close>: how the spec of an OpenshiftEC2NodeClass, the
  HostedControlPlane and the user data Secret determine the spec of the EC2NodeClass.
\<close>


section \<open>Field conversions\<close>

definition ptrIfNonEmpty :: "string \<Rightarrow> string option" where
  "ptrIfNonEmpty s = (if s = [] then None else Some s)"

definition ptrIfNonZero :: "int \<Rightarrow> int option" where
  "ptrIfNonZero v = (if v = 0 then None else Some v)"

definition deleteOnTerminationToBool :: "string \<Rightarrow> bool option" where
  "deleteOnTerminationToBool policy =
     (if policy = DeleteOnTerminationPolicyDelete then Some True
      else if policy = DeleteOnTerminationPolicyRetain then Some False
      else None)"

definition encryptionStateToBool :: "string \<Rightarrow> bool option" where
  "encryptionStateToBool state =
     (if state = EncryptionStateEncrypted then Some True
      else if state = EncryptionStateUnencrypted then Some False
      else None)"

definition volumeSizeGiBToQuantity :: "int \<Rightarrow> quantity option" where
  "volumeSizeGiBToQuantity sizeGiB = (if sizeGiB = 0 then None else Some (quantity_of_GiB sizeGiB))"

definition volumeTypeToKarpenter :: "string \<Rightarrow> string option" where
  "volumeTypeToKarpenter vt = (if vt = [] then None else Some (ToLower vt))"

definition karpenterBlockDeviceFromBlockDevice :: "block_device \<Rightarrow> k_block_device" where
  "karpenterBlockDeviceFromBlockDevice bd =
     \<lparr>kbd_DeleteOnTermination = deleteOnTerminationToBool (bd_DeleteOnTermination bd),
      kbd_Encrypted = encryptionStateToBool (bd_Encrypted bd),
      kbd_IOPS = bd_IOPS bd,
      kbd_KMSKeyID = ptrIfNonEmpty (bd_KMSKeyID bd),
      kbd_SnapshotID = ptrIfNonEmpty (bd_SnapshotID bd),
      kbd_Throughput = bd_Throughput bd,
      kbd_VolumeInitializationRate = None,
      kbd_VolumeSize = volumeSizeGiBToQuantity (bd_VolumeSizeGiB bd),
      kbd_VolumeType = volumeTypeToKarpenter (bd_VolumeType bd)\<rparr>"

definition karpenterBlockDeviceMappingFromNodeClassSpec ::
  "openshift_ec2_spec \<Rightarrow> k_block_device_mapping list"
where
  "karpenterBlockDeviceMappingFromNodeClassSpec spec =
     (case os_BlockDeviceMappings spec of
        None \<Rightarrow> []
      | Some ms \<Rightarrow>
          map (\<lambda>m. \<lparr>kbdm_DeviceName = ptrIfNonEmpty (bdm_DeviceName m),
                    kbdm_EBS = Some (karpenterBlockDeviceFromBlockDevice (bdm_EBS m)),
                    kbdm_RootVolume = (bdm_RootVolume m = RootVolumeDesignationRootVolume)\<rparr>) ms)"

definition karpenterCapacityReservationSelectorTermsFromNodeClassSpec ::
  "openshift_ec2_spec \<Rightarrow> capacity_reservation_selector_term list"
where
  "karpenterCapacityReservationSelectorTermsFromNodeClassSpec spec =
     (case os_CapacityReservationSelectorTerms spec of
        None \<Rightarrow> []
      | Some ts \<Rightarrow>
          map (\<lambda>t. t\<lparr>crst_InstanceMatchCriteria := ToLower (crst_InstanceMatchCriteria t)\<rparr>) ts)"

definition karpenterInstanceStorePolicyFromNodeClassSpec :: "openshift_ec2_spec \<Rightarrow> string option" where
  "karpenterInstanceStorePolicyFromNodeClassSpec spec =
     (if os_InstanceStorePolicy spec = [] then None else Some (os_InstanceStorePolicy spec))"

definition karpenterAssociatePublicIPAddressFromNodeClassSpec :: "openshift_ec2_spec \<Rightarrow> bool option" where
  "karpenterAssociatePublicIPAddressFromNodeClassSpec spec =
     (if os_IPAddressAssociation spec = IPAddressAssociationPublic then Some True
      else if os_IPAddressAssociation spec = IPAddressAssociationSubnetDefault then Some False
      else None)"

definition karpenterDetailedMonitoringFromNodeClassSpec :: "openshift_ec2_spec \<Rightarrow> bool option" where
  "karpenterDetailedMonitoringFromNodeClassSpec spec =
     (if os_Monitoring spec = MonitoringStateDetailed then Some True
      else if os_Monitoring spec = MonitoringStateBasic then Some False
      else None)"

definition karpenterMetadataOptionsFromNodeClassSpec :: "openshift_ec2_spec \<Rightarrow> k_metadata_options option" where
  "karpenterMetadataOptionsFromNodeClassSpec spec =
     (let mo = os_MetadataOptions spec in
      if mo_Access mo = [] \<and> mo_HTTPIPProtocol mo = [] \<and> mo_HTTPPutResponseHopLimit mo = 0 \<and>
         mo_HTTPTokens mo = []
      then None
      else Some
        \<lparr>kmo_HTTPEndpoint =
           (if mo_Access mo = MetadataAccessHTTPEndpoint then Some ''enabled''
            else if mo_Access mo = MetadataAccessNone then Some ''disabled''
            else None),
         kmo_HTTPProtocolIPv6 =
           (if mo_HTTPIPProtocol mo = MetadataHTTPProtocolIPv6 then Some ''enabled''
            else if mo_HTTPIPProtocol mo = MetadataHTTPProtocolIPv4 then Some ''disabled''
            else None),
         kmo_HTTPPutResponseHopLimit =
           (if mo_HTTPPutResponseHopLimit mo \<noteq> 0 then Some (mo_HTTPPutResponseHopLimit mo) else None),
         kmo_HTTPTokens =
           (if mo_HTTPTokens mo = MetadataHTTPTokensStateRequired then Some ''required''
            else if mo_HTTPTokens mo = MetadataHTTPTokensStateOptional then Some ''optional''
            else None)\<rparr>)"

text \<open>The conversion of a nil map is nil. A duration that does not parse is left out; keys are distinct,
  so the order of the loop does not matter.\<close>

definition evictionThresholdMapToStringMap :: "string gomap option \<Rightarrow> string gomap option" where
  "evictionThresholdMapToStringMap m = map_option (\<lambda>kvs. map (\<lambda>(k, v). (k, v)) kvs) m"

definition evictionSoftGracePeriodToDuration :: "string gomap option \<Rightarrow> int gomap option" where
  "evictionSoftGracePeriodToDuration m =
     map_option (\<lambda>kvs. fold (\<lambda>(k, v) result.
       case ParseDuration v of None \<Rightarrow> result | Some d \<Rightarrow> map_put k d result) kvs []) m"

definition karpenterKubeletConfigurationFromNodeClassSpec :: "openshift_ec2_spec \<Rightarrow> k_kubelet option" where
  "karpenterKubeletConfigurationFromNodeClassSpec spec =
     (let k = os_Kubelet spec in
      if \<not> HasTypedFields k then None
      else Some
        \<lparr>kk_ClusterDNS = [],
         kk_MaxPods = ptrIfNonZero (kc_MaxPods k),
         kk_PodsPerCore = ptrIfNonZero (kc_PodsPerCore k),
         kk_SystemReserved = kc_SystemReserved k,
         kk_KubeReserved = kc_KubeReserved k,
         kk_EvictionHard = evictionThresholdMapToStringMap (kc_EvictionHard k),
         kk_EvictionSoft = evictionThresholdMapToStringMap (kc_EvictionSoft k),
         kk_EvictionSoftGracePeriod = evictionSoftGracePeriodToDuration (kc_EvictionSoftGracePeriod k),
         kk_EvictionMaxPodGracePeriod = kc_EvictionMaxPodGracePeriod k,
         kk_ImageGCHighThresholdPercent = kc_ImageGCHighThresholdPercent k,
         kk_ImageGCLowThresholdPercent = kc_ImageGCLowThresholdPercent k,
         kk_CPUCFSQuota = kc_CPUCFSQuota k\<rparr>)"


section \<open>User data and images\<close>

abbreviation ArchitectureAMD64 :: string where "ArchitectureAMD64 \<equiv> ''amd64''"
abbreviation ArchitectureARM64 :: string where "ArchitectureARM64 \<equiv> ''arm64''"
abbreviation UserDataAMILabel :: string where "UserDataAMILabel \<equiv> ''hypershift.openshift.io/ami''"

definition supportedArchitectures :: "string list" where
  "supportedArchitectures = [ArchitectureAMD64, ArchitectureARM64]"

definition archToAMILabelKey :: "string \<Rightarrow> string" where
  "archToAMILabelKey arch =
     (if arch = ArchitectureAMD64 then UserDataAMILabel else UserDataAMILabel @ ''-'' @ arch)"

definition ami_of_id :: "string \<Rightarrow> ami_selector_term" where
  "ami_of_id i =
     \<lparr>ami_Alias = [], ami_Tags = [], ami_ID = i, ami_Name = [], ami_Owner = [], ami_SSMParameter = []\<rparr>"

definition amiSelectorTermsFromUserDataSecret :: "secret \<Rightarrow> goerr + ami_selector_term list" where
  "amiSelectorTermsFromUserDataSecret s =
     (let terms = List.map_filter
            (\<lambda>arch. map_option ami_of_id (map_of (md_Labels (sec_Meta s)) (archToAMILabelKey arch)))
            supportedArchitectures
      in if terms = [] then Inl (EText ''no AMIs found for supported architectures: [amd64 arm64]'')
         else Inr terms)"


section \<open>The desired EC2NodeClass\<close>

abbreviation AWSKarpenterDefaultInstanceProfile :: string where
  "AWSKarpenterDefaultInstanceProfile \<equiv> ''hypershift.openshift.io/aws-karpenter-default-instance-profile''"

definition DefaultSubnetSelectorTags :: "string \<Rightarrow> string gomap" where
  "DefaultSubnetSelectorTags infraID =
     map_of_entries [(''kubernetes.io/role/internal-elb'', ''1''), (''kubernetes.io/cluster/'' @ infraID, ''*'')]"

definition DefaultSecurityGroupSelectorTags :: "string \<Rightarrow> string gomap" where
  "DefaultSecurityGroupSelectorTags infraID = [(''karpenter.sh/discovery'', infraID)]"

definition default_block_device_mappings :: "k_block_device_mapping list" where
  "default_block_device_mappings =
     [\<lparr>kbdm_DeviceName = Some ''/dev/xvda'',
       kbdm_EBS = Some
         \<lparr>kbd_DeleteOnTermination = None, kbd_Encrypted = Some True, kbd_IOPS = None,
          kbd_KMSKeyID = None, kbd_SnapshotID = None, kbd_Throughput = None,
          kbd_VolumeInitializationRate = None, kbd_VolumeSize = Some (quantity_of_GiB 120),
          kbd_VolumeType = Some ''gp3''\<rparr>,
       kbdm_RootVolume = False\<rparr>]"

text \<open>The user data and AMIs: those of the Secret, or the stored ones while the NodeClass waits for a
  control plane upgrade.\<close>

definition rollout_fields ::
  "ec2_nodeclass \<Rightarrow> openshift_ec2_nodeclass \<Rightarrow> hosted_control_plane \<Rightarrow> secret \<Rightarrow>
   goerr + string option \<times> ami_selector_term list"
where
  "rollout_fields ec2 onc hcp s =
     (if WaitsForControlPlaneUpgrade hcp (os_Version (onc_Spec onc)) \<and>
         ec_AMISelectorTerms (ec2_Spec ec2) \<noteq> [] \<and> ec_UserData (ec2_Spec ec2) \<noteq> None
      then Inr (ec_UserData (ec2_Spec ec2), ec_AMISelectorTerms (ec2_Spec ec2))
      else (case amiSelectorTermsFromUserDataSecret s of
              Inl e \<Rightarrow> Inl (EWrap ''getting AMISelectorTerms: '' e [])
            | Inr terms \<Rightarrow> Inr (Some (map_get (sec_Data s) ''value''), terms)))"

definition desired_ec2_spec ::
  "string option \<Rightarrow> ami_selector_term list \<Rightarrow> openshift_ec2_nodeclass \<Rightarrow> hosted_control_plane \<Rightarrow> ec2_spec"
where
  "desired_ec2_spec userData amis onc hcp =
     (let spec = onc_Spec onc;
          mappings = karpenterBlockDeviceMappingFromNodeClassSpec spec;
          profile = map_get (md_Annotations (hcp_Meta hcp)) AWSKarpenterDefaultInstanceProfile
      in zero_ec2_spec
        \<lparr>ec_UserData := userData,
         ec_AMIFamily := Some ''Custom'',
         ec_AMISelectorTerms := amis,
         ec_AssociatePublicIPAddress := karpenterAssociatePublicIPAddressFromNodeClassSpec spec,
         ec_Tags := mergeEC2NodeClassTags (os_Tags spec) (hcp_AWS hcp),
         ec_DetailedMonitoring := karpenterDetailedMonitoringFromNodeClassSpec spec,
         ec_BlockDeviceMappings := (if mappings = [] then default_block_device_mappings else mappings),
         ec_InstanceStorePolicy := karpenterInstanceStorePolicyFromNodeClassSpec spec,
         ec_MetadataOptions := karpenterMetadataOptionsFromNodeClassSpec spec,
         ec_CapacityReservationSelectorTerms :=
           karpenterCapacityReservationSelectorTermsFromNodeClassSpec spec,
         ec_Kubelet := karpenterKubeletConfigurationFromNodeClassSpec spec,
         ec_InstanceProfile := ptrIfNonEmpty profile,
         ec_SubnetSelectorTerms :=
           (case os_SubnetSelectorTerms spec of
              Some ts \<Rightarrow> map (\<lambda>t. \<lparr>sst_Tags = sst_Tags t, sst_ID = sst_ID t\<rparr>) ts
            | None \<Rightarrow> [\<lparr>sst_Tags = DefaultSubnetSelectorTags (hcp_InfraID hcp), sst_ID = []\<rparr>]),
         ec_SecurityGroupSelectorTerms :=
           (case os_SecurityGroupSelectorTerms spec of
              Some ts \<Rightarrow> map (\<lambda>t. \<lparr>sgst_Tags = sgst_Tags t, sgst_ID = sgst_ID t, sgst_Name = sgst_Name t\<rparr>) ts
            | None \<Rightarrow> [\<lparr>sgst_Tags = DefaultSecurityGroupSelectorTags (hcp_InfraID hcp), sgst_ID = [],
                       sgst_Name = []\<rparr>])\<rparr>)"

definition reconcileEC2NodeClass ::
  "openshift_ec2_nodeclass \<Rightarrow> hosted_control_plane \<Rightarrow> secret \<Rightarrow> ec2_nodeclass mutate_fn"
where
  "reconcileEC2NodeClass onc hcp s ec2 =
     (case rollout_fields ec2 onc hcp s of
        Inl e \<Rightarrow> Inl e
      | Inr (userData, amis) \<Rightarrow> Inr (ec2\<lparr>ec2_Spec := desired_ec2_spec userData amis onc hcp\<rparr>))"


section \<open>Lemmas\<close>

lemma reconcileEC2NodeClass_Inr:
  "reconcileEC2NodeClass onc hcp s ec2 = Inr b \<longleftrightarrow>
     (\<exists>userData amis. rollout_fields ec2 onc hcp s = Inr (userData, amis) \<and>
        b = ec2\<lparr>ec2_Spec := desired_ec2_spec userData amis onc hcp\<rparr>)"
  by (auto simp: reconcileEC2NodeClass_def split: sum.splits)

lemma desired_ec2_spec_rollout [simp]:
  "ec_UserData (desired_ec2_spec userData amis onc hcp) = userData"
  "ec_AMISelectorTerms (desired_ec2_spec userData amis onc hcp) = amis"
  by (simp_all add: desired_ec2_spec_def Let_def)

lemma amiSelectorTerms_nonempty: "amiSelectorTermsFromUserDataSecret s = Inr terms \<Longrightarrow> terms \<noteq> []"
  by (auto simp: amiSelectorTermsFromUserDataSecret_def Let_def split: if_splits)

lemma rollout_fields_again:
  assumes "rollout_fields ec2 onc hcp s = Inr (userData, amis)"
    and "ec_UserData (ec2_Spec b) = userData" and "ec_AMISelectorTerms (ec2_Spec b) = amis"
  shows "rollout_fields b onc hcp s = Inr (userData, amis)"
  using assms amiSelectorTerms_nonempty [of s]
  by (auto simp: rollout_fields_def split: if_splits sum.splits) (metis option.exhaust)+

lemma reconcileEC2NodeClass_again:
  assumes "reconcileEC2NodeClass onc hcp s ec2 = Inr b"
  shows "reconcileEC2NodeClass onc hcp s (b\<lparr>ec2_Meta := m\<rparr>) = Inr (b\<lparr>ec2_Meta := m\<rparr>)"
  using assms rollout_fields_again [of ec2 onc hcp s _ _ "b\<lparr>ec2_Meta := m\<rparr>"]
  by (auto simp: reconcileEC2NodeClass_Inr)

lemma grace_periods_fold:
  assumes "distinct (map fst kvs)"
  shows "map_of (fold (\<lambda>(k, v) result. case ParseDuration v of None \<Rightarrow> result | Some d \<Rightarrow> map_put k d result) kvs m) k =
     (case Option.bind (map_of kvs k) ParseDuration of Some d \<Rightarrow> Some d | None \<Rightarrow> map_of m k)"
  using assms
proof (induction kvs arbitrary: m)
  case Nil
  then show ?case by simp
next
  case (Cons kv kvs)
  then have "map_of kvs (fst kv) = None" by (auto simp: map_of_eq_None_iff)
  with Cons show ?case by (cases kv) (auto split: option.splits)
qed


section \<open>Properties\<close>

text \<open>The EC2NodeClass has been filled in before.\<close>

definition ec2_populated :: "ec2_nodeclass \<Rightarrow> bool" where
  "ec2_populated ec2 \<longleftrightarrow> ec_AMISelectorTerms (ec2_Spec ec2) \<noteq> [] \<and> ec_UserData (ec2_Spec ec2) \<noteq> None"

text \<open>C22: rollout control. However often an EC2NodeClass that has user data and AMIs is reconciled while
  the control plane upgrades and its NodeClass has no version of its own, from whatever Secrets and versions
  of the NodeClass and the HostedControlPlane, it keeps exactly these and no reconcile fails: no node is
  replaced. Without an upgrade, for a NodeClass with a version, or before it has been filled in, a reconcile
  sets the user data of the Secret and the AMIs of its labels, and fails when there are none.\<close>

theorem ec2_rollout_control:
  assumes "\<forall>(onc, hcp, s)\<in>set steps.
      os_Version (onc_Spec onc) = [] \<and> upgrade_in_progress (hcp_ControlPlaneVersion hcp)"
    and "ec2_populated ec2"
    and "os_Version (onc_Spec onc) \<noteq> [] \<or> \<not> upgrade_in_progress (hcp_ControlPlaneVersion hcp) \<or> \<not> ec2_populated ec2'"
  shows "(\<exists>b. successive (\<lambda>(onc, hcp, s). reconcileEC2NodeClass onc hcp s) steps ec2 = Inr b \<and>
        ec_UserData (ec2_Spec b) = ec_UserData (ec2_Spec ec2) \<and>
        ec_AMISelectorTerms (ec2_Spec b) = ec_AMISelectorTerms (ec2_Spec ec2)) \<and>
     (case amiSelectorTermsFromUserDataSecret s of
        Inl e \<Rightarrow> \<exists>e'. reconcileEC2NodeClass onc hcp s ec2' = Inl e'
      | Inr terms \<Rightarrow> \<exists>b. reconcileEC2NodeClass onc hcp s ec2' = Inr b \<and>
          ec_UserData (ec2_Spec b) = Some (map_get (sec_Data s) ''value'') \<and> ec_AMISelectorTerms (ec2_Spec b) = terms)"
proof
  show "\<exists>b. successive (\<lambda>(onc, hcp, s). reconcileEC2NodeClass onc hcp s) steps ec2 = Inr b \<and>
      ec_UserData (ec2_Spec b) = ec_UserData (ec2_Spec ec2) \<and>
      ec_AMISelectorTerms (ec2_Spec b) = ec_AMISelectorTerms (ec2_Spec ec2)"
    using assms(1,2)
  proof (induction steps arbitrary: ec2)
    case Nil
    then show ?case by simp
  next
    case (Cons x steps)
    obtain onc hcp s where x: "x = (onc, hcp, s)" by (cases x)
    let ?b = "ec2\<lparr>ec2_Spec := desired_ec2_spec (ec_UserData (ec2_Spec ec2)) (ec_AMISelectorTerms (ec2_Spec ec2)) onc hcp\<rparr>"
    have "WaitsForControlPlaneUpgrade hcp (os_Version (onc_Spec onc))"
      using Cons.prems(1) by (simp add: x waits_for_upgrade_iff)
    then have "reconcileEC2NodeClass onc hcp s ec2 = Inr ?b"
      using Cons.prems(2) by (simp add: reconcileEC2NodeClass_def rollout_fields_def ec2_populated_def)
    moreover have "ec2_populated ?b" using Cons.prems(2) by (simp add: ec2_populated_def)
    ultimately show ?case using Cons.IH [of ?b] Cons.prems(1) by (simp add: x)
  qed
  have "\<not> (WaitsForControlPlaneUpgrade hcp (os_Version (onc_Spec onc)) \<and>
      ec_AMISelectorTerms (ec2_Spec ec2') \<noteq> [] \<and> ec_UserData (ec2_Spec ec2') \<noteq> None)"
    using assms(3) by (auto simp: waits_for_upgrade_iff ec2_populated_def)
  then show "case amiSelectorTermsFromUserDataSecret s of
        Inl e \<Rightarrow> \<exists>e'. reconcileEC2NodeClass onc hcp s ec2' = Inl e'
      | Inr terms \<Rightarrow> \<exists>b. reconcileEC2NodeClass onc hcp s ec2' = Inr b \<and>
          ec_UserData (ec2_Spec b) = Some (map_get (sec_Data s) ''value'') \<and> ec_AMISelectorTerms (ec2_Spec b) = terms"
    by (auto simp: reconcileEC2NodeClass_def rollout_fields_def split: sum.split)
qed

text \<open>The AMIs of the Secret: one term per supported architecture with a label, x86 first, and an
  error exactly when there is none.\<close>

theorem ami_terms_spec:
  "amiSelectorTermsFromUserDataSecret s =
     (case (map_of (md_Labels (sec_Meta s)) UserDataAMILabel,
            map_of (md_Labels (sec_Meta s)) (UserDataAMILabel @ ''-arm64'')) of
        (None, None) \<Rightarrow> Inl (EText ''no AMIs found for supported architectures: [amd64 arm64]'')
      | (Some x, None) \<Rightarrow> Inr [ami_of_id x]
      | (None, Some y) \<Rightarrow> Inr [ami_of_id y]
      | (Some x, Some y) \<Rightarrow> Inr [ami_of_id x, ami_of_id y])"
  by (simp add: amiSelectorTermsFromUserDataSecret_def supportedArchitectures_def archToAMILabelKey_def
      List.map_filter_simps Let_def split: option.splits)

text \<open>The eviction grace periods. A signal has a converted grace period exactly when its value
  parses as a duration, which is then the stored one and fits 64 bits; the others are dropped.\<close>

theorem grace_periods_spec:
  assumes "distinct (map fst m)"
  shows "\<exists>r. evictionSoftGracePeriodToDuration (Some m) = Some r \<and> is_map r \<and>
     (\<forall>k d. map_of r k = Some d \<longleftrightarrow> (\<exists>v. map_of m k = Some v \<and> ParseDuration v = Some d)) \<and>
     (\<forall>k d. map_of r k = Some d \<longrightarrow> - (2 ^ 63) \<le> d \<and> d < 2 ^ 63)"
proof -
  let ?f = "\<lambda>(k, v) result. case ParseDuration v of None \<Rightarrow> result | Some d \<Rightarrow> map_put k d result"
  have "map_of (fold ?f m []) k = Some d \<longleftrightarrow> (\<exists>v. map_of m k = Some v \<and> ParseDuration v = Some d)" for k d
    unfolding grace_periods_fold [OF assms]
    by (cases "map_of m k"; cases "ParseDuration (the (map_of m k))") simp_all
  moreover have "is_map r \<Longrightarrow> is_map (fold ?f m r)" for r
    by (induction m arbitrary: r) (auto split: option.splits)
  ultimately show ?thesis
    using ParseDuration_range by (auto simp: evictionSoftGracePeriodToDuration_def)
qed

text \<open>Witnesses.\<close>

abbreviation example_secret :: secret where
  "example_secret \<equiv>
     \<lparr>sec_Meta = (new_meta ''ns'' ''s'')\<lparr>md_Labels := [(UserDataAMILabel, ''ami-1'')]\<rparr>,
      sec_Data = [(''value'', ''ignition'')]\<rparr>"

lemma reconcile_example:
  "reconcileEC2NodeClass (new_openshift_ec2_nodeclass ''n'') (new_hcp ''ns'' ''h'') example_secret
       (new_ec2_nodeclass [] ''n'') =
     Inr ((new_ec2_nodeclass [] ''n'')\<lparr>ec2_Spec :=
       desired_ec2_spec (Some ''ignition'') [ami_of_id ''ami-1''] (new_openshift_ec2_nodeclass ''n'')
         (new_hcp ''ns'' ''h'')\<rparr>)"
  by (simp add: reconcileEC2NodeClass_def rollout_fields_def WaitsForControlPlaneUpgrade_def
      isControlPlaneUpgrading_def new_hcp_def empty_control_plane_version_def
      amiSelectorTermsFromUserDataSecret_def supportedArchitectures_def archToAMILabelKey_def
      List.map_filter_simps map_get_def)

text \<open>A filled-in EC2NodeClass is reconciled twice during an upgrade, the second time from a Secret without
  AMIs; and a new one is created during the upgrade.\<close>

abbreviation upgrading_hcp :: hosted_control_plane where
  "upgrading_hcp \<equiv> (new_hcp ''ns'' ''h'')\<lparr>hcp_ControlPlaneVersion := upgrading_version\<rparr>"

abbreviation populated_ec2 :: ec2_nodeclass where
  "populated_ec2 \<equiv> (new_ec2_nodeclass [] ''n'')\<lparr>ec2_Spec := (ec2_Spec (new_ec2_nodeclass [] ''n''))
     \<lparr>ec_UserData := Some ''old'', ec_AMISelectorTerms := [ami_of_id ''ami-0'']\<rparr>\<rparr>"

lemma ec2_rollout_control_witness:
  "(\<exists>b. successive (\<lambda>(onc, hcp, s). reconcileEC2NodeClass onc hcp s)
          [(new_openshift_ec2_nodeclass ''n'', upgrading_hcp, example_secret),
           (new_openshift_ec2_nodeclass ''n'', upgrading_hcp, example_secret\<lparr>sec_Meta := new_meta ''ns'' ''s''\<rparr>)]
          populated_ec2 = Inr b \<and>
        ec_UserData (ec2_Spec b) = Some ''old'' \<and> ec_AMISelectorTerms (ec2_Spec b) = [ami_of_id ''ami-0'']) \<and>
   (\<exists>b. reconcileEC2NodeClass (new_openshift_ec2_nodeclass ''n'') upgrading_hcp example_secret
          (new_ec2_nodeclass [] ''n'') = Inr b \<and>
        ec_UserData (ec2_Spec b) = Some ''ignition'' \<and> ec_AMISelectorTerms (ec2_Spec b) = [ami_of_id ''ami-1''])"
proof -
  let ?n = "new_openshift_ec2_nodeclass ''n''"
  let ?steps = "[(?n, upgrading_hcp, example_secret),
    (?n, upgrading_hcp, example_secret\<lparr>sec_Meta := new_meta ''ns'' ''s''\<rparr>)]"
  have "amiSelectorTermsFromUserDataSecret example_secret = Inr [ami_of_id ''ami-1'']"
    by (simp add: amiSelectorTermsFromUserDataSecret_def supportedArchitectures_def archToAMILabelKey_def
        List.map_filter_simps)
  moreover have "\<forall>(onc, hcp, s)\<in>set ?steps.
      os_Version (onc_Spec onc) = [] \<and> upgrade_in_progress (hcp_ControlPlaneVersion hcp)"
    using upgrading_version by (simp add: new_openshift_ec2_nodeclass_def zero_openshift_ec2_spec_def)
  moreover have "ec2_populated populated_ec2" "\<not> ec2_populated (new_ec2_nodeclass [] ''n'')"
    by (simp_all add: ec2_populated_def new_ec2_nodeclass_def zero_ec2_spec_def)
  ultimately show ?thesis
    using ec2_rollout_control [of ?steps populated_ec2 ?n upgrading_hcp "new_ec2_nodeclass [] ''n''" example_secret]
    by (simp add: map_get_def del: successive.simps)
qed

lemma grace_periods_spec_witness:
  "\<exists>r. evictionSoftGracePeriodToDuration (Some [(''memory.available'', ''90s'')]) = Some r \<and>
     (\<forall>k d. map_of r k = Some d \<longrightarrow> - (2 ^ 63) \<le> d \<and> d < 2 ^ 63)"
  using grace_periods_spec [of "[(''memory.available'', ''90s'')]"] by auto

end
