(* ===== verification/Ec2_Controller.thy ===== *)
theory Ec2_Controller
  imports Ec2_Convert
begin

text \<open>
  The EC2NodeClass reconciler, \<^verbatim>\<open>pkg/controllers/nodeclass/ec2/controller.go\<close>: it
  keeps an EC2NodeClass for every OpenshiftEC2NodeClass, copies its status back, publishes the subnets
  in a ConfigMap of the management cluster and protects EC2NodeClasses by an admission policy.
\<close>

abbreviation ec2_finalizer :: string where
  "ec2_finalizer \<equiv> ''hypershift.openshift.io/ec2-nodeclass-finalizer''"

abbreviation karpenterSubnetsConfigMapName :: string where
  "karpenterSubnetsConfigMapName \<equiv> ''karpenter-subnets''"

abbreviation KarpenterCoreE2EOverrideAnnotation :: string where
  "KarpenterCoreE2EOverrideAnnotation \<equiv> ''hypershift.openshift.io/karpenter-core-e2e-override''"

abbreviation karpenter_api_version :: string where
  "karpenter_api_version \<equiv> ''karpenter.hypershift.openshift.io/v1''"

abbreviation hypershift_api_version :: string where
  "hypershift_api_version \<equiv> ''hypershift.openshift.io/v1beta1''"


section \<open>Deleting an object\<close>

text \<open>Deletes the object if it exists and returns whether it still exists; \<open>ty\<close> is the Go type
  the errors print.\<close>

definition deleteIfNeeded :: "target \<Rightarrow> 'a resource \<Rightarrow> string \<Rightarrow> string \<Rightarrow> string \<Rightarrow> bool io" where
  "deleteIfNeeded t r ty ns n =
     bind (c_get t r ns n) (\<lambda>got.
       case got of
         Inl e \<Rightarrow>
           if IsNotFound e \<or> IsNoMatchError e then Ret (Inr False)
           else Ret (Inl (EWrap (''getting '' @ ty @ '': '') e []))
       | Inr o1 \<Rightarrow>
           if being_deleted (res_meta r o1) then Ret (Inr True)
           else bind (c_delete t r (fst (res_key r o1)) (snd (res_key r o1))) (\<lambda>deleted.
             case deleted of
               Inl e \<Rightarrow>
                 if IsNotFound e then Ret (Inr False)
                 else Ret (Inl (EWrap (''deleting '' @ ty @ '': '') e []))
             | Inr _ \<Rightarrow> Ret (Inr True)))"


section \<open>Status\<close>

text \<open>\<^verbatim>\<open>value[:1]\<close> of an empty string is a run-time panic.\<close>

definition slice_panic :: goerr where
  "slice_panic = EText ''runtime error: slice bounds out of range [:1] with length 0''"

definition upstreamInstanceMatchCriteria :: "string \<Rightarrow> goerr + string" where
  "upstreamInstanceMatchCriteria v = (case v of [] \<Rightarrow> Inl slice_panic | c # cs \<Rightarrow> Inr (ToUpper [c] @ cs))"

definition upstreamReservationType :: "string \<Rightarrow> string" where
  "upstreamReservationType v =
     (if v = ''capacity-block'' then CapacityReservationTypeCapacityBlock else CapacityReservationTypeDefault)"

definition upstreamReservationState :: "string \<Rightarrow> string" where
  "upstreamReservationState v =
     (if v = ''expiring'' then CapacityReservationStateExpiring else CapacityReservationStateActive)"

definition resolve_reservation :: "capacity_reservation \<Rightarrow> goerr + capacity_reservation" where
  "resolve_reservation cr =
     (case upstreamInstanceMatchCriteria (cr_InstanceMatchCriteria cr) of
        Inl e \<Rightarrow> Inl e
      | Inr criteria \<Rightarrow> Inr (cr\<lparr>cr_InstanceMatchCriteria := criteria,
          cr_ReservationType := upstreamReservationType (cr_ReservationType cr),
          cr_State := upstreamReservationState (cr_State cr)\<rparr>))"

fun resolve_reservations :: "capacity_reservation list \<Rightarrow> goerr + capacity_reservation list" where
  "resolve_reservations [] = Inr []"
| "resolve_reservations (c # cs) =
     (case resolve_reservation c of
        Inl e \<Rightarrow> Inl e
      | Inr r \<Rightarrow> (case resolve_reservations cs of Inl e \<Rightarrow> Inl e | Inr rs \<Rightarrow> Inr (r # rs)))"

definition synced_status ::
  "time \<Rightarrow> ec2_nodeclass \<Rightarrow> openshift_ec2_nodeclass \<Rightarrow> hosted_control_plane \<Rightarrow> goerr + openshift_ec2_status"
where
  "synced_status now ec2 onc hcp =
     (case resolve_reservations (es_CapacityReservations (ec2_Status ec2)) of
        Inl e \<Rightarrow> Inl e
      | Inr reservations \<Rightarrow>
          (let conditions = SyncConditions now (ost_Conditions (onc_Status onc))
                 (es_Conditions (ec2_Status ec2)) (md_Generation (onc_Meta onc))
           in Inr ((onc_Status onc)
             \<lparr>ost_SecurityGroups :=
                Some (map (\<lambda>sg. \<lparr>sg_ID = sg_ID sg, sg_Name = sg_Name sg\<rparr>) (es_SecurityGroups (ec2_Status ec2))),
              ost_Subnets :=
                Some (map (\<lambda>s. \<lparr>sn_ID = sn_ID s, sn_Zone = sn_Zone s, sn_ZoneID = sn_ZoneID s\<rparr>)
                  (es_Subnets (ec2_Status ec2))),
              ost_CapacityReservations := (if reservations = [] then None else Some reservations),
              ost_Conditions := setAWSResourceTagConflictCondition now (os_Tags (onc_Spec onc))
                (hcp_AWS hcp) (md_Generation (onc_Meta onc)) conditions\<rparr>)))"

text \<open>The comparison is \<^verbatim>\<open>reflect.DeepEqual\<close>, which tells a nil from an empty
  slice.\<close>

definition ec2_reconcileStatus ::
  "time \<Rightarrow> ec2_nodeclass \<Rightarrow> openshift_ec2_nodeclass \<Rightarrow> hosted_control_plane \<Rightarrow> unit io"
where
  "ec2_reconcileStatus now ec2 onc hcp =
     (case synced_status now ec2 onc hcp of
        Inl e \<Rightarrow> Ret (Inl e)
      | Inr status \<Rightarrow>
          if onc_Status onc \<noteq> status
          then bindE (wrapE ''updating status: ''
                 (c_patch_status Hosted OpenshiftEC2NodeClasses True onc (onc\<lparr>onc_Status := status\<rparr>)))
                 (\<lambda>_. Ret (Inr ()))
          else Ret (Inr ()))"


section \<open>The subnets ConfigMap\<close>

text \<open>\<^verbatim>\<open>json.Marshal\<close> of a string: quotes, backslashes, control characters and the
  three characters Go escapes for HTML are escaped; other bytes of valid UTF-8 are copied.\<close>

definition hex_digit :: "nat \<Rightarrow> char" where
  "hex_digit n = (if n < 10 then char_of (48 + n) else char_of (87 + n))"

definition json_char :: "char \<Rightarrow> string" where
  "json_char c =
     (let n = of_char c :: nat in
      if n = 34 \<or> n = 92 then [CHR 0x5C, c]
      else if n = 8 then [CHR 0x5C, CHR ''b'']
      else if n = 9 then [CHR 0x5C, CHR ''t'']
      else if n = 10 then [CHR 0x5C, CHR ''n'']
      else if n = 12 then [CHR 0x5C, CHR ''f'']
      else if n = 13 then [CHR 0x5C, CHR ''r'']
      else if n < 32 \<or> n = 38 \<or> n = 60 \<or> n = 62
        then [CHR 0x5C, CHR ''u'', CHR ''0'', CHR ''0'', hex_digit (n div 16), hex_digit (n mod 16)]
      else [c])"

definition json_string :: "string \<Rightarrow> string" where
  "json_string s = [CHR 0x22] @ concat (map json_char s) @ [CHR 0x22]"

definition json_strings :: "string list \<Rightarrow> string" where
  "json_strings ss = ''['' @ Join (map json_string ss) '','' @ '']''"

text \<open>The IDs of the resolved subnets of the NodeClasses that are not being deleted, as the sorted
  list of a set.\<close>

definition resolved_subnets :: "openshift_ec2_nodeclass list \<Rightarrow> string list" where
  "resolved_subnets ncs =
     concat (map (\<lambda>nc.
       if being_deleted (onc_Meta nc) then []
       else filter (\<lambda>i. i \<noteq> []) (map sn_ID (case ost_Subnets (onc_Status nc) of None \<Rightarrow> [] | Some ss \<Rightarrow> ss))) ncs)"

definition subnet_ids :: "openshift_ec2_nodeclass list \<Rightarrow> string list" where
  "subnet_ids ncs = map fst (map_of_entries (map (\<lambda>i. (i, ())) (resolved_subnets ncs)))"

definition subnets_mutate :: "hosted_control_plane \<Rightarrow> string list \<Rightarrow> config_map mutate_fn" where
  "subnets_mutate hcp subnetIDs cm =
     (case SetControllerReference hypershift_api_version ''HostedControlPlane'' (hcp_Meta hcp) (cm_Meta cm) of
        Inl e \<Rightarrow> Inl e
      | Inr m \<Rightarrow> Inr (cm\<lparr>
          cm_Meta := m\<lparr>md_Labels :=
            map_put ''hypershift.openshift.io/infra-id'' (hcp_InfraID hcp)
              (map_put ''hypershift.openshift.io/managed-by'' ''karpenter'' (md_Labels m))\<rparr>,
          cm_Data := map_put ''subnetIDs'' (json_strings subnetIDs) (cm_Data cm)\<rparr>))"

definition new_config_map :: "string \<Rightarrow> string \<Rightarrow> config_map" where
  "new_config_map ns n = \<lparr>cm_Meta = new_meta ns n, cm_Data = []\<rparr>"

definition reconcileKarpenterSubnetsConfigMap :: "string \<Rightarrow> hosted_control_plane \<Rightarrow> unit io" where
  "reconcileKarpenterSubnetsConfigMap namespace hcp =
     bindE (wrapE ''listing OpenshiftEC2NodeClass: '' (c_list Hosted OpenshiftEC2NodeClasses None [])) (\<lambda>items.
       let subnetIDs = subnet_ids items in
       if subnetIDs = []
       then bindE (wrapE ''deleting karpenter subnets configmap: ''
              (deleteIfNeeded Mgmt ConfigMaps ''*v1.ConfigMap'' namespace karpenterSubnetsConfigMapName))
              (\<lambda>_. Ret (Inr ()))
       else bindE (wrapE ''reconciling karpenter subnets configmap: ''
              (CreateOrUpdate Mgmt ConfigMaps (new_config_map namespace karpenterSubnetsConfigMapName)
                (subnets_mutate hcp subnetIDs)))
              (\<lambda>_. Ret (Inr ())))"


section \<open>The admission policy\<close>

abbreviation ec2_vap_name :: string where "ec2_vap_name \<equiv> ''karpenter.ec2nodeclass.hypershift.io''"
abbreviation ec2_vap_binding_name :: string where
  "ec2_vap_binding_name \<equiv> ''karpenter-binding.ec2nodeclass.hypershift.io''"

definition match_all :: "string \<Rightarrow> string \<Rightarrow> string \<Rightarrow> match_resources" where
  "match_all apiGroup apiVersion resource =
     \<lparr>mr_NamespaceSelector = None, mr_ObjectSelector = None,
      mr_ResourceRules =
        [\<lparr>rule_ResourceNames = [], rule_Operations = [''*''], rule_APIGroups = [apiGroup],
          rule_APIVersions = [apiVersion], rule_Resources = [resource], rule_Scope = None\<rparr>],
      mr_ExcludeResourceRules = [], mr_MatchPolicy = None\<rparr>"

definition exclude_hcco_user :: match_condition where
  "exclude_hcco_user =
     \<lparr>mc_Name = ''exclude-hcco-user'',
      mc_Expression = [CHR 0x27] @ ''system:hosted-cluster-config'' @ [CHR 0x27] @ '' != request.userInfo.username''\<rparr>"

definition spec_unchanged :: "string \<Rightarrow> validation" where
  "spec_unchanged msg =
     \<lparr>val_Expression = ''has(oldObject.spec) && has(object.spec) && object.spec == oldObject.spec'',
      val_Message = msg, val_Reason = None, val_MessageExpression = []\<rparr>"

definition ec2_vap_mutate :: "validating_admission_policy mutate_fn" where
  "ec2_vap_mutate vap =
     Inr (vap\<lparr>vap_Spec := (vap_Spec vap)
       \<lparr>vap_MatchConstraints := Some (match_all ''karpenter.k8s.aws'' ''v1'' ''ec2nodeclasses''),
        vap_MatchConditions := [exclude_hcco_user],
        vap_Validations := [spec_unchanged
          (''EC2NodeClass resource can'' @ [CHR 0x27] @ ''t be created/updated/deleted directly, please use OpenshiftEC2NodeClass resource instead'')]\<rparr>\<rparr>)"

definition ec2_vap_binding_mutate :: "string \<Rightarrow> vap_binding mutate_fn" where
  "ec2_vap_binding_mutate policyName b =
     Inr (b\<lparr>vapb_Spec := (vapb_Spec b)\<lparr>vapb_PolicyName := policyName, vapb_ValidationActions := [''Deny'']\<rparr>\<rparr>)"

definition new_vap :: "string \<Rightarrow> validating_admission_policy" where
  "new_vap n = \<lparr>vap_Meta = new_meta [] n, vap_Spec = empty_vap_spec\<rparr>"

definition new_vap_binding :: "string \<Rightarrow> vap_binding" where
  "new_vap_binding n = \<lparr>vapb_Meta = new_meta [] n, vapb_Spec = empty_vap_binding_spec\<rparr>"

definition ec2_reconcileVAP :: "unit io" where
  "ec2_reconcileVAP =
     bindE (CreateOrUpdate Hosted VAPs (new_vap ec2_vap_name) ec2_vap_mutate) (\<lambda>(_, vap).
     bindE (CreateOrUpdate Hosted VAPBindings (new_vap_binding ec2_vap_binding_name)
              (ec2_vap_binding_mutate (md_Name (vap_Meta vap)))) (\<lambda>_.
     Ret (Inr ())))"


section \<open>Reconcile\<close>

definition ec2_mutate ::
  "openshift_ec2_nodeclass \<Rightarrow> hosted_control_plane \<Rightarrow> secret \<Rightarrow> ec2_nodeclass mutate_fn"
where
  "ec2_mutate onc hcp s ec2 =
     (case SetControllerReference karpenter_api_version ''OpenshiftEC2NodeClass'' (onc_Meta onc) (ec2_Meta ec2) of
        Inl e \<Rightarrow> Inl e
      | Inr m \<Rightarrow> reconcileEC2NodeClass onc hcp s (ec2\<lparr>ec2_Meta := m\<rparr>))"

text \<open>The deletion branch of \<^verbatim>\<open>Reconcile\<close>.\<close>

definition ec2_reconcileDelete ::
  "string \<Rightarrow> hosted_control_plane \<Rightarrow> openshift_ec2_nodeclass \<Rightarrow> result io"
where
  "ec2_reconcileDelete namespace hcp onc =
     bindE (deleteIfNeeded Hosted EC2NodeClasses ''*v1.EC2NodeClass''
              (md_Namespace (onc_Meta onc)) (md_Name (onc_Meta onc))) (\<lambda>exists.
       if exists then Ret (Inr (5 * second))
       else bindE (wrapE ''reconciling karpenter subnets configmap during deletion: ''
              (reconcileKarpenterSubnetsConfigMap namespace hcp)) (\<lambda>_.
         if ContainsFinalizer (onc_Meta onc) ec2_finalizer
         then bindE (wrapE ''removing finalizer from openshiftEC2NodeClass: ''
                (c_patch Hosted OpenshiftEC2NodeClasses True onc
                  (onc\<lparr>onc_Meta := RemoveFinalizer (onc_Meta onc) ec2_finalizer\<rparr>)))
                (\<lambda>_. done_result)
         else done_result))"

definition ec2_ensureFinalizer :: "openshift_ec2_nodeclass \<Rightarrow> openshift_ec2_nodeclass io" where
  "ec2_ensureFinalizer onc =
     (if \<not> ContainsFinalizer (onc_Meta onc) ec2_finalizer
      then wrapE ''adding finalizer to openshiftEC2NodeClass: ''
             (c_patch Hosted OpenshiftEC2NodeClasses True onc
               (onc\<lparr>onc_Meta := AddFinalizer (onc_Meta onc) ec2_finalizer\<rparr>))
      else Ret (Inr onc))"

definition ec2_reconcileNormal ::
  "time \<Rightarrow> string \<Rightarrow> hosted_control_plane \<Rightarrow> string \<Rightarrow> string \<Rightarrow> openshift_ec2_nodeclass \<Rightarrow> result io"
where
  "ec2_reconcileNormal now namespace hcp ns0 n0 onc =
     bind (GetUserDataSecret Mgmt namespace (md_Name (onc_Meta onc))) (\<lambda>got.
       case got of
         Inl e \<Rightarrow>
           if errors_Is e ErrUserDataSecretNotFound then Ret (Inr second) else Ret (Inl e)
       | Inr s \<Rightarrow>
           bindE (CreateOrUpdate Hosted EC2NodeClasses (new_ec2_nodeclass ns0 n0) (ec2_mutate onc hcp s))
             (\<lambda>(_, ec2).
           bindE (ec2_reconcileStatus now ec2 onc hcp) (\<lambda>_.
           bindE (wrapE ''reconciling karpenter subnets configmap: ''
                    (reconcileKarpenterSubnetsConfigMap namespace hcp)) (\<lambda>_.
           bindE ec2_reconcileVAP (\<lambda>_. done_result)))))"

text \<open>\<open>namespace\<close> is the reconciler's, \<open>ns\<close> and \<open>n\<close> are the request's. The
  EC2NodeClass is named before the finalizer patch refreshes the NodeClass.\<close>

definition ec2_Reconcile :: "time \<Rightarrow> string \<Rightarrow> string \<Rightarrow> string \<Rightarrow> result io" where
  "ec2_Reconcile now namespace ns n =
     bind (GetHostedControlPlane Mgmt namespace) (\<lambda>got.
       case got of
         Inl e \<Rightarrow> if errors_Is e ErrHostedControlPlaneNotFound then done_result else Ret (Inl e)
       | Inr hcp \<Rightarrow>
           if map_get (md_Annotations (hcp_Meta hcp)) KarpenterCoreE2EOverrideAnnotation = ''true''
           then done_result
           else bind (c_get Hosted OpenshiftEC2NodeClasses ns n) (\<lambda>got.
             case got of
               Inl e \<Rightarrow>
                 if IsNotFound e then done_result
                 else Ret (Inl (EWrap ''getting openshiftEC2NodeClass: '' e []))
             | Inr onc \<Rightarrow>
                 if being_deleted (onc_Meta onc) then ec2_reconcileDelete namespace hcp onc
                 else bindE (ec2_ensureFinalizer onc) (\<lambda>onc'.
                   ec2_reconcileNormal now namespace hcp
                     (md_Namespace (onc_Meta onc)) (md_Name (onc_Meta onc)) onc')))"


section \<open>Watches\<close>

definition awsResourceTags :: "hosted_control_plane \<Rightarrow> resource_tag list" where
  "awsResourceTags hcp = (case hcp_AWS hcp of None \<Rightarrow> [] | Some ts \<Rightarrow> ts)"

definition ec2_hcpPredicate_update :: "hosted_control_plane \<Rightarrow> hosted_control_plane \<Rightarrow> bool" where
  "ec2_hcpPredicate_update oldHCP newHCP \<longleftrightarrow>
     map_get (md_Annotations (hcp_Meta oldHCP)) AWSKarpenterDefaultInstanceProfile \<noteq>
       map_get (md_Annotations (hcp_Meta newHCP)) AWSKarpenterDefaultInstanceProfile \<or>
     awsResourceTags oldHCP \<noteq> awsResourceTags newHCP \<or>
     ControlPlaneVersionChanged oldHCP newHCP"

text \<open>The keys of the enqueued requests; a failing List enqueues nothing.\<close>

definition mapToOpenShiftEC2NodeClasses :: "(string \<times> string) list io" where
  "mapToOpenShiftEC2NodeClasses =
     bind (c_list Hosted OpenshiftEC2NodeClasses None []) (\<lambda>got.
       case got of
         Inl e \<Rightarrow> Ret (Inr [])
       | Inr items \<Rightarrow> Ret (Inr (map (\<lambda>nc. (md_Namespace (onc_Meta nc), md_Name (onc_Meta nc))) items)))"

definition mapVAPToOpenShiftEC2NodeClasses :: "object_meta \<Rightarrow> (string \<times> string) list io" where
  "mapVAPToOpenShiftEC2NodeClasses m =
     (if md_Name m \<noteq> ec2_vap_name then Ret (Inr []) else mapToOpenShiftEC2NodeClasses)"

definition mapVAPBindingToOpenShiftEC2NodeClasses :: "object_meta \<Rightarrow> (string \<times> string) list io" where
  "mapVAPBindingToOpenShiftEC2NodeClasses m =
     (if md_Name m \<noteq> ec2_vap_binding_name then Ret (Inr []) else mapToOpenShiftEC2NodeClasses)"


section \<open>What a reconcile may write\<close>

text \<open>The EC2NodeClass with the key of \<open>m\<close> was seen to be gone.\<close>

definition ec2_gone :: "(req \<times> resp) list \<Rightarrow> object_meta \<Rightarrow> bool" where
  "ec2_gone h m \<longleftrightarrow>
     (\<exists>re msg. (Get Hosted KEC2NodeClass (md_Namespace m) (md_Name m), RErr re msg) \<in> set h \<and>
        (re = NotFound \<or> re = NoMatch)) \<or>
     (\<exists>ns n msg. (Delete Hosted KEC2NodeClass ns n, RErr NotFound msg) \<in> set h)"

text \<open>The NodeClass was read with the finalizer, or the finalizer was added successfully.\<close>

definition finalizer_present :: "(req \<times> resp) list \<Rightarrow> bool" where
  "finalizer_present h \<longleftrightarrow>
     (\<exists>ns n onc. (Get Hosted KOpenshiftEC2NodeClass ns n, RObj (OOpenshiftEC2NodeClass onc)) \<in> set h \<and>
        ContainsFinalizer (onc_Meta onc) ec2_finalizer) \<or>
     (\<exists>old new onc. (Patch Hosted True (OOpenshiftEC2NodeClass old) (OOpenshiftEC2NodeClass new),
          RObj (OOpenshiftEC2NodeClass onc)) \<in> set h \<and> ContainsFinalizer (onc_Meta new) ec2_finalizer)"

definition ec2_guard_meta ::
  "(req \<times> resp) list \<Rightarrow> target \<Rightarrow> bool \<Rightarrow> openshift_ec2_nodeclass \<Rightarrow> openshift_ec2_nodeclass \<Rightarrow> bool"
where
  "ec2_guard_meta h t lock old new \<longleftrightarrow>
     t = Hosted \<and> lock \<and>
     ((\<not> being_deleted (onc_Meta old) \<and>
       new = old\<lparr>onc_Meta := AddFinalizer (onc_Meta old) ec2_finalizer\<rparr>) \<or>
      (being_deleted (onc_Meta old) \<and> ec2_gone h (onc_Meta old) \<and>
       new = old\<lparr>onc_Meta := RemoveFinalizer (onc_Meta old) ec2_finalizer\<rparr>))"

definition ec2_guard_status :: "target \<Rightarrow> bool \<Rightarrow> openshift_ec2_nodeclass \<Rightarrow> openshift_ec2_nodeclass \<Rightarrow> bool" where
  "ec2_guard_status t lock old new \<longleftrightarrow>
     t = Hosted \<and> lock \<and> onc_Meta new = onc_Meta old \<and> onc_Spec new = onc_Spec old \<and>
     ost_ReleaseImage (onc_Status new) = ost_ReleaseImage (onc_Status old) \<and>
     ost_Version (onc_Status new) = ost_Version (onc_Status old) \<and>
     ready_gated (ost_Conditions (onc_Status new))"

definition ec2_guard_write :: "string \<Rightarrow> (req \<times> resp) list \<Rightarrow> target \<Rightarrow> obj \<Rightarrow> bool" where
  "ec2_guard_write namespace h t x =
     (case x of
        OEC2NodeClass b \<Rightarrow> t = Hosted \<and> finalizer_present h
      | OConfigMap cm \<Rightarrow> t = Mgmt \<and> res_key ConfigMaps cm = (namespace, karpenterSubnetsConfigMapName)
      | OValidatingAdmissionPolicy v \<Rightarrow> t = Hosted \<and> md_Name (vap_Meta v) = ec2_vap_name
      | OValidatingAdmissionPolicyBinding v \<Rightarrow> t = Hosted \<and> md_Name (vapb_Meta v) = ec2_vap_binding_name
      | _ \<Rightarrow> False)"

definition ec2_guard :: "string \<Rightarrow> (req \<times> resp) list \<Rightarrow> req \<Rightarrow> bool" where
  "ec2_guard namespace h q =
     (case q of
        Get _ _ _ _ \<Rightarrow> True
      | List _ _ _ _ \<Rightarrow> True
      | Patch t lock a b \<Rightarrow>
          \<exists>old\<in>set_option (res_unwrap OpenshiftEC2NodeClasses a).
          \<exists>new\<in>set_option (res_unwrap OpenshiftEC2NodeClasses b). ec2_guard_meta h t lock old new
      | PatchStatus t lock a b \<Rightarrow>
          \<exists>old\<in>set_option (res_unwrap OpenshiftEC2NodeClasses a).
          \<exists>new\<in>set_option (res_unwrap OpenshiftEC2NodeClasses b). ec2_guard_status t lock old new
      | Create t x \<Rightarrow> ec2_guard_write namespace h t x
      | Update t x \<Rightarrow> ec2_guard_write namespace h t x
      | Delete t k _ _ \<Rightarrow> (t, k) \<in> {(Hosted, KEC2NodeClass), (Mgmt, KConfigMap)}
      | _ \<Rightarrow> False)"

lemma ec2_guard_simps [simp]:
  "ec2_guard namespace h (Get t k ns n)"
  "ec2_guard namespace h (List t k nso sel)"
  "ec2_guard namespace h (Patch t lock (OOpenshiftEC2NodeClass old) (OOpenshiftEC2NodeClass new)) =
     ec2_guard_meta h t lock old new"
  "ec2_guard namespace h (PatchStatus t lock (OOpenshiftEC2NodeClass old) (OOpenshiftEC2NodeClass new)) =
     ec2_guard_status t lock old new"
  "ec2_guard namespace h (Create t x) = ec2_guard_write namespace h t x"
  "ec2_guard namespace h (Update t x) = ec2_guard_write namespace h t x"
  "ec2_guard namespace h (Delete t k ns n) = ((t, k) \<in> {(Hosted, KEC2NodeClass), (Mgmt, KConfigMap)})"
  by (simp_all add: ec2_guard_def OpenshiftEC2NodeClasses_def)

lemma ec2_guard_write_simps [simp]:
  "ec2_guard_write namespace h t (OEC2NodeClass b) = (t = Hosted \<and> finalizer_present h)"
  "ec2_guard_write namespace h t (OConfigMap cm) =
     (t = Mgmt \<and> res_key ConfigMaps cm = (namespace, karpenterSubnetsConfigMapName))"
  "ec2_guard_write namespace h t (OValidatingAdmissionPolicy v) =
     (t = Hosted \<and> md_Name (vap_Meta v) = ec2_vap_name)"
  "ec2_guard_write namespace h t (OValidatingAdmissionPolicyBinding vb) =
     (t = Hosted \<and> md_Name (vapb_Meta vb) = ec2_vap_binding_name)"
  by (simp_all add: ec2_guard_write_def)

lemma ec2_gone_append: "ec2_gone h m \<Longrightarrow> ec2_gone (h @ u) m"
  unfolding ec2_gone_def set_append Un_iff by blast

lemma finalizer_present_append: "finalizer_present h \<Longrightarrow> finalizer_present (h @ u)"
  unfolding finalizer_present_def set_append Un_iff by blast

lemma finalizer_present_patch:
  assumes "(Patch Hosted True (OOpenshiftEC2NodeClass old) (OOpenshiftEC2NodeClass new),
      RObj (OOpenshiftEC2NodeClass onc)) \<in> set h"
    and "ContainsFinalizer (onc_Meta new) ec2_finalizer"
  shows "finalizer_present h"
  using assms unfolding finalizer_present_def by blast

lemma safe_deleteIfNeeded:
  assumes "\<And>h ns n. G h (Get t (res_kind r) ns n)" and "\<And>h ns n. G h (Delete t (res_kind r) ns n)"
  shows "safe G (deleteIfNeeded t r ty ns n) h (\<lambda>_ _. True)"
  using assms by (auto simp: deleteIfNeeded_def c_get_def c_delete_def split: sum.splits)

text \<open>When \<open>deleteIfNeeded\<close> reports that the object is gone, a server said so.\<close>

lemma deleteIfNeeded_gone:
  assumes "runs (deleteIfNeeded t r ty ns n) tr (Inr False)"
  shows "(\<exists>re m. (Get t (res_kind r) ns n, RErr re m) \<in> set tr \<and> (re = NotFound \<or> re = NoMatch)) \<or>
     (\<exists>ns' n' m. (Delete t (res_kind r) ns' n', RErr NotFound m) \<in> set tr)"
proof -
  from assms obtain x tr' where tr: "tr = (Get t (res_kind r) ns n, x) # tr'"
    and k: "runs (case as_object r x of
        Inl e \<Rightarrow> if IsNotFound e \<or> IsNoMatchError e then Ret (Inr False)
          else Ret (Inl (EWrap (''getting '' @ ty @ '': '') e []))
      | Inr o1 \<Rightarrow> if being_deleted (res_meta r o1) then Ret (Inr True)
          else bind (c_delete t r (fst (res_key r o1)) (snd (res_key r o1))) (\<lambda>deleted.
            case deleted of
              Inl e \<Rightarrow> if IsNotFound e then Ret (Inr False)
                else Ret (Inl (EWrap (''deleting '' @ ty @ '': '') e []))
            | Inr _ \<Rightarrow> Ret (Inr True))) tr' (Inr False)"
    by (auto simp: deleteIfNeeded_def c_get_def runs_Call_iff)
  show ?thesis
  proof (cases "as_object r x")
    case (Inl e)
    with k have "IsNotFound e \<or> IsNoMatchError e" by (auto split: if_splits)
    with Inl obtain re m where "x = RErr re m" and "re = NotFound \<or> re = NoMatch"
      by (cases x) (auto simp: decode_failed_def split: option.splits)
    with tr show ?thesis by auto
  next
    case (Inr o1)
    with k obtain y where d: "tr' = [(Delete t (res_kind r) (fst (res_key r o1)) (snd (res_key r o1)), y)]"
      and y: "runs (case as_unit y of
           Inl e \<Rightarrow> if IsNotFound e then Ret (Inr False)
             else Ret (Inl (EWrap (''deleting '' @ ty @ '': '') e []))
         | Inr _ \<Rightarrow> Ret (Inr True)) [] (Inr False)"
      by (auto simp: c_delete_def runs_Call_iff split: if_splits) (auto split: sum.splits if_splits)
    from y have "\<exists>m. y = RErr NotFound m"
      by (cases y) (auto split: if_splits)
    with tr d show ?thesis by auto
  qed
qed

lemma safe_c_list:
  assumes "G h (List t (res_kind r) nso sel)" and "\<And>x. Q (h @ [(List t (res_kind r) nso sel, x)]) (as_list r x)"
  shows "safe G (c_list t r nso sel) h Q"
  using assms by (simp add: c_list_def)

lemma safe_subnets:
  "safe (ec2_guard namespace) (reconcileKarpenterSubnetsConfigMap namespace hcp) h (\<lambda>_ _. True)"
  unfolding reconcileKarpenterSubnetsConfigMap_def safe_bindE safe_wrapE Let_def
proof (rule safe_c_list; simp split: sum.split; intro impI conjI allI)
  fix x items h'
  show "safe (ec2_guard namespace)
      (bindE (wrapE ''deleting karpenter subnets configmap: ''
         (deleteIfNeeded Mgmt ConfigMaps ''*v1.ConfigMap'' namespace karpenterSubnetsConfigMapName))
        (\<lambda>_. Ret (Inr ()))) h' (\<lambda>_ _. True)"
    by (auto simp: safe_bindE safe_wrapE intro!: safe_any [OF safe_deleteIfNeeded] split: sum.split)
next
  fix x items h'
  show "safe (ec2_guard namespace)
      (bindE (wrapE ''reconciling karpenter subnets configmap: ''
         (CreateOrUpdate Mgmt ConfigMaps (new_config_map namespace karpenterSubnetsConfigMapName)
           (subnets_mutate hcp (subnet_ids items))))
        (\<lambda>_. Ret (Inr ()))) h' (\<lambda>_ _. True)"
    by (auto simp: safe_bindE safe_wrapE res_key_def new_config_map_def intro!: safe_CreateOrUpdate
        split: sum.split)
qed

lemma safe_ec2_vap: "safe (ec2_guard namespace) ec2_reconcileVAP h (\<lambda>_ _. True)"
  unfolding ec2_reconcileVAP_def safe_bindE
  by (rule safe_CreateOrUpdate)
    (auto simp: res_key_def new_vap_def new_vap_binding_def safe_bindE intro!: safe_CreateOrUpdate split: sum.split)

lemma Find_conflict_other:
  "t \<noteq> AWSResourceTagConflictConditionType \<Longrightarrow>
     FindStatusCondition (setAWSResourceTagConflictCondition now tags aws g cs) t = FindStatusCondition cs t"
  by (auto simp: setAWSResourceTagConflictCondition_def conflict_condition_def Let_def Find_Set Find_Remove
      split: option.split)

lemma synced_status_frame:
  "synced_status now ec2 onc hcp = Inr st \<Longrightarrow>
     ost_ReleaseImage st = ost_ReleaseImage (onc_Status onc) \<and> ost_Version st = ost_Version (onc_Status onc) \<and>
     ready_gated (ost_Conditions st)"
  by (auto simp: synced_status_def Let_def split: sum.splits
      intro!: ready_gated_frame [OF ready_gated_Sync] Find_conflict_other)

lemma safe_ec2_status: "safe (ec2_guard namespace) (ec2_reconcileStatus now ec2 onc hcp) h (\<lambda>_ _. True)"
  by (auto simp: ec2_reconcileStatus_def c_patch_status_def ec2_guard_status_def safe_bindE safe_wrapE
      dest: synced_status_frame split: sum.split)

text \<open>The finalizer is there before anything is created for the NodeClass.\<close>

lemma safe_ec2_normal:
  assumes "finalizer_present h"
  shows "safe (ec2_guard namespace) (ec2_reconcileNormal now namespace hcp ns0 n0 onc) h (\<lambda>_ _. True)"
proof -
  have user_data: "safe (ec2_guard namespace) (GetUserDataSecret Mgmt namespace nc) h' (\<lambda>_ _. True)" for nc h'
    by (auto simp: GetUserDataSecret_def c_list_def safe_bindE safe_wrapE split: sum.split)
  have create: "safe (ec2_guard namespace)
      (CreateOrUpdate Hosted EC2NodeClasses (new_ec2_nodeclass ns0 n0) (ec2_mutate onc hcp s)) h' (\<lambda>_ _. True)"
    if "finalizer_present h'" for s h'
    using that by (intro safe_CreateOrUpdate) (auto simp: finalizer_present_append)
  have rest: "safe (ec2_guard namespace)
      (bindE (ec2_reconcileStatus now ec2 onc hcp) (\<lambda>_.
       bindE (wrapE ''reconciling karpenter subnets configmap: ''
                (reconcileKarpenterSubnetsConfigMap namespace hcp)) (\<lambda>_.
       bindE ec2_reconcileVAP (\<lambda>_. done_result)))) h' (\<lambda>_ _. True)" for ec2 h'
    unfolding safe_bindE safe_wrapE
    by (rule safe_any [OF safe_ec2_status], auto split: sum.split,
        rule safe_any [OF safe_subnets], auto split: sum.split,
        rule safe_any [OF safe_ec2_vap], auto split: sum.split)
  show ?thesis
    unfolding ec2_reconcileNormal_def safe_bind
    by (rule safe_any [OF user_data], simp split: sum.split, intro conjI allI impI,
        unfold safe_bindE, rule safe_any [OF create], simp add: assms finalizer_present_append,
        auto simp: rest split: sum.split)
qed

lemma safe_ec2_delete:
  assumes "being_deleted (onc_Meta onc)"
  shows "safe (ec2_guard namespace) (ec2_reconcileDelete namespace hcp onc) h (\<lambda>_ _. True)"
proof -
  let ?d = "deleteIfNeeded Hosted EC2NodeClasses ''*v1.EC2NodeClass''
    (md_Namespace (onc_Meta onc)) (md_Name (onc_Meta onc))"
  have "safe (ec2_guard namespace) ?d h (\<lambda>_ _. True)"
    by (rule safe_deleteIfNeeded) simp_all
  then show ?thesis
    unfolding ec2_reconcileDelete_def safe_bindE
  proof (rule safe_any)
    fix t and x :: "goerr + bool"
    assume r: "runs ?d t x"
    have gone: "ec2_gone (h @ t @ u) (onc_Meta onc)" if "x = Inr False" for u
      using deleteIfNeeded_gone [OF r [unfolded that]] unfolding ec2_gone_def set_append Un_iff
      by auto
    show "case x of
        Inl e \<Rightarrow> True
      | Inr exists \<Rightarrow> safe (ec2_guard namespace)
          (if exists then Ret (Inr (5 * second))
           else bindE (wrapE ''reconciling karpenter subnets configmap during deletion: ''
                  (reconcileKarpenterSubnetsConfigMap namespace hcp)) (\<lambda>_.
             if ContainsFinalizer (onc_Meta onc) ec2_finalizer
             then bindE (wrapE ''removing finalizer from openshiftEC2NodeClass: ''
                    (c_patch Hosted OpenshiftEC2NodeClasses True onc
                      (onc\<lparr>onc_Meta := RemoveFinalizer (onc_Meta onc) ec2_finalizer\<rparr>)))
                    (\<lambda>_. done_result)
             else done_result)) (h @ t) (\<lambda>_ _. True)"
      using assms gone
      by (auto simp: safe_bindE safe_wrapE c_patch_def ec2_guard_meta_def
          intro!: safe_any [OF safe_subnets] split: sum.split)
  qed
qed

lemma safe_ec2_Reconcile: "safe (ec2_guard namespace) (ec2_Reconcile now namespace ns n) [] (\<lambda>_ _. True)"
proof -
  have hcp: "safe (ec2_guard namespace) (GetHostedControlPlane Mgmt namespace) [] (\<lambda>_ _. True)"
    by (auto simp: GetHostedControlPlane_def c_list_def safe_bindE safe_wrapE split: sum.split)
  have normal: "safe (ec2_guard namespace)
      (bindE (ec2_ensureFinalizer onc) (ec2_reconcileNormal now namespace hcp ns0 n0))
      (h @ [(Get Hosted KOpenshiftEC2NodeClass ns n, x)]) (\<lambda>_ _. True)"
    if "as_object OpenshiftEC2NodeClasses x = Inr onc" and "\<not> being_deleted (onc_Meta onc)" for hcp ns0 n0 onc h x
  proof -
    from that(1) have x: "x = RObj (OOpenshiftEC2NodeClass onc)"
      by (simp add: openshift_ec2s.as_object_iff)
    show ?thesis
    proof (cases "ContainsFinalizer (onc_Meta onc) ec2_finalizer")
      case True
      then have "finalizer_present (h @ [(Get Hosted KOpenshiftEC2NodeClass ns n, x)])"
        unfolding finalizer_present_def x by auto
      with True show ?thesis by (simp add: ec2_ensureFinalizer_def safe_ec2_normal)
    next
      case False
      have p: "finalizer_present (h' @ [(Patch Hosted True (OOpenshiftEC2NodeClass onc)
          (OOpenshiftEC2NodeClass (onc\<lparr>onc_Meta := AddFinalizer (onc_Meta onc) ec2_finalizer\<rparr>)),
          RObj (OOpenshiftEC2NodeClass onc'))])" for h' onc'
        by (rule finalizer_present_patch [of onc "onc\<lparr>onc_Meta := AddFinalizer (onc_Meta onc) ec2_finalizer\<rparr>" onc']) simp_all
      from False that(2) show ?thesis
        by (auto simp: ec2_ensureFinalizer_def c_patch_def safe_bindE safe_wrapE ec2_guard_meta_def
            openshift_ec2s.as_object_iff intro!: safe_ec2_normal p [of "_ @ [_]", simplified] split: sum.split)
    qed
  qed
  show ?thesis
    unfolding ec2_Reconcile_def safe_bind
    by (rule safe_any [OF hcp])
      (auto simp: c_get_def normal safe_ec2_delete split: sum.split)
qed


section \<open>The mutations keep their contract\<close>

lemma group_of_api_versions [simp]:
  "group_of karpenter_api_version \<noteq> None" "group_of hypershift_api_version \<noteq> None"
  by (simp_all add: group_of_def)

interpretation ec2_mutation: mutation EC2NodeClasses "ec2_mutate onc hcp s" for onc hcp s
proof
  fix a b
  assume f: "ec2_mutate onc hcp s a = Inr b"
  then obtain m where m: "SetControllerReference karpenter_api_version ''OpenshiftEC2NodeClass''
        (onc_Meta onc) (ec2_Meta a) = Inr m"
    and r: "reconcileEC2NodeClass onc hcp s (a\<lparr>ec2_Meta := m\<rparr>) = Inr b"
    by (auto simp: ec2_mutate_def split: sum.splits)
  from r have bm: "ec2_Meta b = m" by (auto simp: reconcileEC2NodeClass_Inr)
  from bm SetControllerReference_key [OF m] show "res_key EC2NodeClasses b = res_key EC2NodeClasses a"
    by (simp add: res_key_def)
  have "SetControllerReference karpenter_api_version ''OpenshiftEC2NodeClass'' (onc_Meta onc) m = Inr m"
    by (rule SetControllerReference_idem [OF m group_of_api_versions(1)])
  moreover have "reconcileEC2NodeClass onc hcp s (b\<lparr>ec2_Meta := m\<rparr>) = Inr (b\<lparr>ec2_Meta := m\<rparr>)"
    by (rule reconcileEC2NodeClass_again [OF r])
  ultimately show "ec2_mutate onc hcp s b = Inr b"
    using bm by (auto simp: ec2_mutate_def)
qed

interpretation subnets_mutation: mutation ConfigMaps "subnets_mutate hcp ids" for hcp ids
proof
  fix a b
  assume f: "subnets_mutate hcp ids a = Inr b"
  let ?av = hypershift_api_version
  let ?labels = "\<lambda>m. map_put ''hypershift.openshift.io/infra-id'' (hcp_InfraID hcp)
              (map_put ''hypershift.openshift.io/managed-by'' ''karpenter'' (md_Labels m))"
  from f obtain m where m: "SetControllerReference ?av ''HostedControlPlane'' (hcp_Meta hcp) (cm_Meta a) = Inr m"
    and b: "b = a\<lparr>cm_Meta := m\<lparr>md_Labels := ?labels m\<rparr>,
        cm_Data := map_put ''subnetIDs'' (json_strings ids) (cm_Data a)\<rparr>"
    by (auto simp: subnets_mutate_def split: sum.splits)
  from b SetControllerReference_key [OF m] show "res_key ConfigMaps b = res_key ConfigMaps a"
    by (simp add: res_key_def)
  have "SetControllerReference ?av ''HostedControlPlane'' (hcp_Meta hcp) m = Inr m"
    by (rule SetControllerReference_idem [OF m group_of_api_versions(2)])
  then show "subnets_mutate hcp ids b = Inr b"
    by (simp add: subnets_mutate_def b SetControllerReference_labels)
qed

end
