(* ===== verification/Ec2_Properties.thy ===== *)
theory Ec2_Properties
  imports Ec2_Controller
begin

text \<open>
  What the EC2NodeClass reconciler guarantees, for every behaviour of the API servers: the order of
  creation, deletion and finalizer, the content of the subnets
  ConfigMap, the fields of the status it leaves alone, convergence, and which events its watches may
  drop.
\<close>

lemma ec2_run_guard:
  assumes "runs (ec2_Reconcile now namespace ns n) tr y" and "tr = t @ (q, x) # u"
  shows "ec2_guard namespace t q"
  using safe_guard [OF safe_ec2_Reconcile assms] by simp

lemma RemoveFinalizer_Add_neq: "ContainsFinalizer m f \<Longrightarrow> \<not> ContainsFinalizer m' f \<Longrightarrow> m' \<noteq> AddFinalizer m f"
  by auto


section \<open>Order of creation and deletion\<close>

text \<open>C5: the finalizer comes off last. In every run, a patch that removes the finalizer is sent only
  for a NodeClass that is being deleted, with an optimistic lock, and after a server said that its
  EC2NodeClass is gone.\<close>

theorem ec2_finalizer_removed_last:
  assumes "runs (ec2_Reconcile now namespace ns n) tr y"
    and "tr = t @ (Patch tgt lock (OOpenshiftEC2NodeClass old) (OOpenshiftEC2NodeClass new), x) # u"
    and "ContainsFinalizer (onc_Meta old) ec2_finalizer"
    and "\<not> ContainsFinalizer (onc_Meta new) ec2_finalizer"
  shows "lock \<and> being_deleted (onc_Meta old) \<and> ec2_gone t (onc_Meta old)"
  using ec2_run_guard [OF assms(1,2)] assms(3,4)
  by (auto simp: ec2_guard_meta_def)

text \<open>No orphans. In every run an EC2NodeClass is created or updated only in the hosted cluster
  and only when the finalizer was on the NodeClass as it was read, or has been added successfully.\<close>

theorem ec2_created_under_finalizer:
  assumes "runs (ec2_Reconcile now namespace ns n) tr y"
    and "tr = t @ (q, x) # u"
    and "q = Create tgt (OEC2NodeClass b) \<or> q = Update tgt (OEC2NodeClass b)"
  shows "tgt = Hosted \<and> finalizer_present t"
  using ec2_run_guard [OF assms(1,2)] assms(3) by auto

text \<open>Status ownership. Every status patch leaves the metadata, the spec and the fields of the
  ignition controller (release image and version) as they were read.\<close>

theorem ec2_status_ownership:
  assumes "runs (ec2_Reconcile now namespace ns n) tr y"
    and "(PatchStatus tgt lock (OOpenshiftEC2NodeClass old) (OOpenshiftEC2NodeClass new), x) \<in> set tr"
  shows "lock \<and> onc_Meta new = onc_Meta old \<and> onc_Spec new = onc_Spec old \<and>
     ost_ReleaseImage (onc_Status new) = ost_ReleaseImage (onc_Status old) \<and>
     ost_Version (onc_Status new) = ost_Version (onc_Status old)"
proof -
  from assms(2) obtain t u where
    "tr = t @ (PatchStatus tgt lock (OOpenshiftEC2NodeClass old) (OOpenshiftEC2NodeClass new), x) # u"
    by (meson split_list)
  from ec2_run_guard [OF assms(1) this] show ?thesis by (simp add: ec2_guard_status_def)
qed


section \<open>The subnets\<close>

lemma fst_fold_put: "fst ` set (fold (\<lambda>(k, v). map_put k v) kvs m) = fst ` set kvs \<union> fst ` set m"
  by (induction kvs arbitrary: m) (simp_all add: fst_map_put case_prod_beta)

text \<open>The published subnet IDs are sorted, without duplicates, and exactly the non-empty IDs of
  the resolved subnets of the NodeClasses that are not being deleted.\<close>

theorem subnet_ids_spec:
  "sorted_wrt (<) (subnet_ids ncs) \<and>
   set (subnet_ids ncs) =
     {i. i \<noteq> [] \<and> (\<exists>nc\<in>set ncs. \<not> being_deleted (onc_Meta nc) \<and>
        (\<exists>ss. ost_Subnets (onc_Status nc) = Some ss \<and> i \<in> sn_ID ` set ss))}"
proof -
  have "set (subnet_ids ncs) = set (resolved_subnets ncs)"
    by (simp add: subnet_ids_def map_of_entries_def fst_fold_put image_image)
  also have "\<dots> = {i. i \<noteq> [] \<and> (\<exists>nc\<in>set ncs. \<not> being_deleted (onc_Meta nc) \<and>
        (\<exists>ss. ost_Subnets (onc_Status nc) = Some ss \<and> i \<in> sn_ID ` set ss))}"
    by (auto simp: resolved_subnets_def split: if_splits option.splits) (metis imageI)
  finally show ?thesis
    using is_map_of_entries [of "map (\<lambda>i. (i, ())) (resolved_subnets ncs)"]
    by (simp add: subnet_ids_def is_map_def)
qed


section \<open>Convergence\<close>

text \<open>The defaults in the schema of EC2NodeClasses: the metadata options, all of them or those left out.\<close>

definition ec2_schema_defaults :: "ec2_spec \<Rightarrow> ec2_spec" where
  "ec2_schema_defaults spec =
     (let mo = (case ec_MetadataOptions spec of
          None \<Rightarrow> \<lparr>kmo_HTTPEndpoint = None, kmo_HTTPProtocolIPv6 = None, kmo_HTTPPutResponseHopLimit = None,
            kmo_HTTPTokens = None\<rparr>
        | Some mo \<Rightarrow> mo);
          orElse = (\<lambda>x d. case x of None \<Rightarrow> Some d | Some y \<Rightarrow> Some y) in
      spec\<lparr>ec_MetadataOptions := Some
        \<lparr>kmo_HTTPEndpoint = orElse (kmo_HTTPEndpoint mo) ''enabled'',
         kmo_HTTPProtocolIPv6 = orElse (kmo_HTTPProtocolIPv6 mo) ''disabled'',
         kmo_HTTPPutResponseHopLimit =
           (case kmo_HTTPPutResponseHopLimit mo of None \<Rightarrow> Some 1 | Some l \<Rightarrow> Some l),
         kmo_HTTPTokens = orElse (kmo_HTTPTokens mo) ''required''\<rparr>\<rparr>)"

lemma schema_defaults_other [simp]:
  "ec_UserData (ec2_schema_defaults spec) = ec_UserData spec"
  "ec_AMISelectorTerms (ec2_schema_defaults spec) = ec_AMISelectorTerms spec"
  by (simp_all add: ec2_schema_defaults_def Let_def)

text \<open>What the server stores of a specification: it is sent without what is empty (\<open>canon_ec2\<close>), and the
  defaults are filled in.\<close>

definition ec2_stored_spec :: "ec2_nodeclass \<Rightarrow> ec2_spec" where
  "ec2_stored_spec ec2 = ec2_schema_defaults (ec2_Spec (canon_ec2 ec2))"

definition canon_spec :: "ec2_spec \<Rightarrow> ec2_spec" where
  "canon_spec spec = spec\<lparr>ec_Tags := canon_map (ec_Tags spec), ec_Kubelet := map_option canon_k_kubelet (ec_Kubelet spec)\<rparr>"

lemma canon_spec:
  "ec2_stored_spec b = ec2_schema_defaults (canon_spec (ec2_Spec b))"
  "canon_ec2 c = c\<lparr>ec2_Spec := canon_spec (ec2_Spec c)\<rparr>"
  by (simp_all add: ec2_stored_spec_def canon_ec2_def canon_spec_def)

lemma canon_schema_defaults:
  "canon_spec (ec2_schema_defaults (canon_spec spec)) =
     (canon_spec spec)\<lparr>ec_MetadataOptions := ec_MetadataOptions (ec2_schema_defaults (canon_spec spec))\<rparr>"
  by (simp add: canon_spec_def ec2_schema_defaults_def Let_def option.map_comp comp_def)

lemma metadata_options_update:
  "spec\<lparr>ec_MetadataOptions := mo\<rparr> = spec \<longleftrightarrow> mo = ec_MetadataOptions spec" for spec :: ec2_spec
  by (cases spec) simp

lemma stored_spec_equal:
  assumes "ec2_Spec c = ec2_stored_spec b"
  shows "semantic_equal EC2NodeClasses c (c\<lparr>ec2_Spec := ec2_Spec b\<rparr>) \<longleftrightarrow>
    ec_MetadataOptions (ec2_Spec c) = ec_MetadataOptions (ec2_Spec b)"
proof -
  have spec: "c\<lparr>ec2_Spec := x\<rparr> = c\<lparr>ec2_Spec := y\<rparr> \<longleftrightarrow> x = y" for x y by (cases c) simp
  have "semantic_equal EC2NodeClasses c (c\<lparr>ec2_Spec := ec2_Spec b\<rparr>) \<longleftrightarrow>
      canon_spec (ec2_schema_defaults (canon_spec (ec2_Spec b))) = canon_spec (ec2_Spec b)"
    using assms by (simp add: semantic_equal_def EC2NodeClasses_def canon_spec spec)
  also have "\<dots> \<longleftrightarrow> ec_MetadataOptions (ec2_Spec c) = ec_MetadataOptions (canon_spec (ec2_Spec b))"
    using assms by (simp add: canon_schema_defaults metadata_options_update canon_spec)
  finally show ?thesis by (simp add: canon_spec_def)
qed

text \<open>The reference to the owner is set once.\<close>

lemma SetControllerReference_settled:
  assumes "SetControllerReference karpenter_api_version kind owner m = Inr m'"
    and "md_OwnerReferences x = md_OwnerReferences m'" and "md_Namespace x = md_Namespace m"
  shows "SetControllerReference karpenter_api_version kind owner x = Inr x"
proof -
  let ?ref = "controller_ref karpenter_api_version kind owner"
  have refs: "m'\<lparr>md_OwnerReferences := u\<rparr> = m' \<Longrightarrow> u = md_OwnerReferences m'" for u by (cases m') simp
  have "SetControllerReference karpenter_api_version kind owner m' = Inr m'"
    by (rule SetControllerReference_idem [OF assms(1) group_of_api_versions(1)])
  then have ok: "validateOwner owner m' = None" "upsertOwnerRef ?ref (md_OwnerReferences m') = md_OwnerReferences m'"
    "\<forall>e. GetControllerOf m' = Some e \<longrightarrow> referSameObject e ?ref"
    by (auto simp: SetControllerReference_def Let_def split: option.splits if_splits dest: refs)
  have "md_Namespace m' = md_Namespace m" by (rule SetControllerReference_key [OF assms(1)])
  then have "validateOwner owner x = None" "GetControllerOf x = GetControllerOf m'"
    using ok(1) assms(2,3) by (auto simp: validateOwner_def GetControllerOf_def Let_def split: if_splits)
  with ok(2,3) assms(2) show ?thesis
    by (auto simp: SetControllerReference_def Let_def split: option.split)
qed

text \<open>C35: the EC2NodeClass settles. The schema of the server fills in the metadata options, so a second
  reconcile may send an update again (it does exactly when the NodeClass leaves one of them out), but it sends
  nothing that changes the stored object: with the NodeClass, the HostedControlPlane and the Secret as before, what
  it sends is stored as the specification that is there, with the metadata and the status that are there. So
  the generation stays, and Karpenter sees no drift. Others may have set labels, annotations, finalizers and
  the status in between.\<close>

theorem ec2_updates_settle:
  assumes "srv (Get Hosted KEC2NodeClass ns n) w = (RObj (OEC2NodeClass c), w')"
    and "ec2_mutate onc hcp s a = Inr b" and "res_key EC2NodeClasses a = (ns, n)" and "res_key EC2NodeClasses c = (ns, n)"
    and "ec2_Spec c = ec2_stored_spec b" and "md_OwnerReferences (ec2_Meta c) = md_OwnerReferences (ec2_Meta b)"
  shows "\<exists>x b'. ec2_Meta b' = ec2_Meta c \<and> ec2_Status b' = ec2_Status c \<and> ec2_stored_spec b' = ec2_Spec c \<and>
    calls srv (CreateOrUpdate Hosted EC2NodeClasses (new_ec2_nodeclass ns n) (ec2_mutate onc hcp s)) w =
      (Get Hosted KEC2NodeClass ns n, RObj (OEC2NodeClass c)) #
      (if ec_MetadataOptions (ec2_Spec c) = ec_MetadataOptions (ec2_Spec b) then []
       else [(Update Hosted (OEC2NodeClass b'), x)])"
proof -
  let ?b = "c\<lparr>ec2_Spec := ec2_Spec b\<rparr>"
  have k: "res_key EC2NodeClasses (new_ec2_nodeclass ns n) = (ns, n)" "res_key EC2NodeClasses ?b = (ns, n)"
    using assms(4) by (simp_all add: res_key_def new_ec2_nodeclass_def)
  from assms(2) obtain m where m: "SetControllerReference karpenter_api_version ''OpenshiftEC2NodeClass''
        (onc_Meta onc) (ec2_Meta a) = Inr m"
    and r: "reconcileEC2NodeClass onc hcp s (a\<lparr>ec2_Meta := m\<rparr>) = Inr b"
    by (auto simp: ec2_mutate_def split: sum.splits)
  from r obtain ud amis where f: "rollout_fields (a\<lparr>ec2_Meta := m\<rparr>) onc hcp s = Inr (ud, amis)"
    and b: "b = a\<lparr>ec2_Meta := m, ec2_Spec := desired_ec2_spec ud amis onc hcp\<rparr>"
    by (auto simp: reconcileEC2NodeClass_Inr)
  have "rollout_fields c onc hcp s = Inr (ud, amis)"
    using assms(5) b by (intro rollout_fields_again [OF f]) (simp_all add: ec2_stored_spec_def canon_ec2_def)
  moreover have "SetControllerReference karpenter_api_version ''OpenshiftEC2NodeClass'' (onc_Meta onc) (ec2_Meta c)
      = Inr (ec2_Meta c)"
    using assms(3,4,6) b by (intro SetControllerReference_settled [OF m]) (simp_all add: res_key_def)
  ultimately have mut: "ec2_mutate onc hcp s c = Inr ?b"
    using b by (simp add: ec2_mutate_def reconcileEC2NodeClass_def)
  have "ec2_stored_spec ?b = ec2_Spec c"
    using assms(5) by (simp add: canon_spec)
  moreover note stored_spec_equal [OF assms(5)]
  ultimately show ?thesis
    using mut k assms(1)
    by (intro exI [of _ "fst (srv (Update Hosted (OEC2NodeClass ?b)) w')"] exI [of _ ?b])
      (auto simp: CreateOrUpdate_def Let_def c_get_def c_update_def mutate_def calls_bindE split: prod.split sum.split)
qed


section \<open>Status writes\<close>

text \<open>A status patch is sent exactly when the synced status differs from the stored one.\<close>

lemma ec2_reconcileStatus_calls:
  "synced_status now ec2 onc hcp = Inr st \<Longrightarrow>
     calls srv (ec2_reconcileStatus now ec2 onc hcp) w = [] \<longleftrightarrow> onc_Status onc = st"
  by (auto simp: ec2_reconcileStatus_def c_patch_status_def calls_bindE calls_wrapE exec_wrapE
      split: prod.split sum.split)

text \<open>No converged state without subnets or security groups. The lists of the synced status are
  never nil, while an empty list is read back from the API as nil (the fields are
  \<^verbatim>\<open>omitempty\<close>). For a stored status without subnets, every reconcile sends a status
  patch as long as the EC2NodeClass has none, although only nil and empty differ.\<close>

theorem ec2_status_never_settles:
  assumes "ost_Subnets (onc_Status onc) = None"
    and "es_Subnets (ec2_Status ec2) = []"
    and "synced_status now ec2 onc hcp = Inr st"
  shows "ost_Subnets st = Some [] \<and>
     (\<exists>x. calls srv (ec2_reconcileStatus now ec2 onc hcp) w =
        [(PatchStatus Hosted True (OOpenshiftEC2NodeClass onc)
            (OOpenshiftEC2NodeClass (onc\<lparr>onc_Status := st\<rparr>)), x)])"
proof -
  have s: "ost_Subnets st = Some []"
    using assms(2,3) by (auto simp: synced_status_def Let_def split: sum.splits)
  with assms(1) have "onc_Status onc \<noteq> st" by auto
  with s assms(3) show ?thesis
    by (auto simp: ec2_reconcileStatus_def c_patch_status_def calls_bindE calls_wrapE exec_wrapE
        split: prod.split sum.split)
qed


section \<open>Watches\<close>

lemma merge_awsResourceTags:
  "awsResourceTags a = awsResourceTags b \<Longrightarrow>
     mergeEC2NodeClassTags specTags (hcp_AWS a) = mergeEC2NodeClassTags specTags (hcp_AWS b)"
proof -
  have "allow_override aws = allow_override (Some (case aws of None \<Rightarrow> [] | Some ts \<Rightarrow> ts))"
    and "platform_tags aws = platform_tags (Some (case aws of None \<Rightarrow> [] | Some ts \<Rightarrow> ts))" for aws
    by (auto simp: allow_override_def platform_tags_def fun_eq_iff split: option.splits)
  then have "mergeEC2NodeClassTags specTags (hcp_AWS h) =
      mergeEC2NodeClassTags specTags (Some (awsResourceTags h))" for h
    unfolding mergeEC2NodeClassTags_def awsResourceTags_def by metis
  then show "awsResourceTags a = awsResourceTags b \<Longrightarrow> ?thesis" by metis
qed

text \<open>No missed update of the HostedControlPlane. When the watch drops an update event and the
  infrastructure ID is unchanged (it is immutable), the old and the new HostedControlPlane determine the
  same EC2NodeClass for every NodeClass, Secret and stored object.\<close>

theorem ec2_watch_complete:
  assumes "\<not> ec2_hcpPredicate_update old new" and "hcp_InfraID old = hcp_InfraID new"
  shows "reconcileEC2NodeClass onc old s = reconcileEC2NodeClass onc new s"
proof -
  from assms(1) have v: "hcp_ControlPlaneVersion old = hcp_ControlPlaneVersion new"
    and p: "map_get (md_Annotations (hcp_Meta old)) AWSKarpenterDefaultInstanceProfile =
      map_get (md_Annotations (hcp_Meta new)) AWSKarpenterDefaultInstanceProfile"
    and t: "awsResourceTags old = awsResourceTags new"
    by (auto simp: ec2_hcpPredicate_update_def ControlPlaneVersionChanged_def)
  have "WaitsForControlPlaneUpgrade old ver = WaitsForControlPlaneUpgrade new ver" for ver
    by (simp add: WaitsForControlPlaneUpgrade_def isControlPlaneUpgrading_def v)
  moreover have "desired_ec2_spec ud amis onc old = desired_ec2_spec ud amis onc new" for ud amis
    unfolding desired_ec2_spec_def Let_def p assms(2) merge_awsResourceTags [OF t, of "os_Tags (onc_Spec onc)"] ..
  ultimately have "reconcileEC2NodeClass onc old s ec2 = reconcileEC2NodeClass onc new s ec2" for ec2
    unfolding reconcileEC2NodeClass_def rollout_fields_def by presburger
  then show ?thesis by (simp add: fun_eq_iff)
qed

text \<open>The override annotation is not watched. Under the core e2e override the reconciler does
  nothing, but the watch drops the update that removes the override, so nothing reconciles the
  NodeClasses then.\<close>

abbreviation overridden_hcp :: hosted_control_plane where
  "overridden_hcp \<equiv> (new_hcp ''ns'' ''h'')
     \<lparr>hcp_Meta := (new_meta ''ns'' ''h'')\<lparr>md_Annotations := [(KarpenterCoreE2EOverrideAnnotation, ''true'')]\<rparr>\<rparr>"

theorem ec2_override_not_watched:
  "calls (\<lambda>q w. (RList [OHostedControlPlane overridden_hcp], w)) (ec2_Reconcile now ''ns'' [] n) () =
     [(List Mgmt KHostedControlPlane (Some ''ns'') [], RList [OHostedControlPlane overridden_hcp])] \<and>
   \<not> ec2_hcpPredicate_update overridden_hcp (new_hcp ''ns'' ''h'')"
  by (simp add: ec2_Reconcile_def GetHostedControlPlane_def c_list_def the_hosted_control_plane_def
      HCPs_def map_get_def ec2_hcpPredicate_update_def new_hcp_def awsResourceTags_def
      ControlPlaneVersionChanged_def)


section \<open>Witnesses\<close>

abbreviation finalized :: "time option \<Rightarrow> openshift_ec2_nodeclass" where
  "finalized deleted \<equiv> (new_openshift_ec2_nodeclass ''n'')
     \<lparr>onc_Meta := (new_meta [] ''n'')\<lparr>md_Finalizers := [ec2_finalizer], md_DeletionTimestamp := deleted\<rparr>\<rparr>"

abbreviation deletion_patch :: req where
  "deletion_patch \<equiv> Patch Hosted True (OOpenshiftEC2NodeClass (finalized (Some 1)))
     (OOpenshiftEC2NodeClass ((finalized (Some 1))
       \<lparr>onc_Meta := RemoveFinalizer (onc_Meta (finalized (Some 1))) ec2_finalizer\<rparr>))"

abbreviation deletion_prefix :: "(req \<times> resp) list" where
  "deletion_prefix \<equiv>
     [(List Mgmt KHostedControlPlane (Some ''ns'') [], RList [OHostedControlPlane (new_hcp ''ns'' ''h'')]),
      (Get Hosted KOpenshiftEC2NodeClass [] ''n'', RObj (OOpenshiftEC2NodeClass (finalized (Some 1)))),
      (Get Hosted KEC2NodeClass [] ''n'', RErr NotFound []),
      (List Hosted KOpenshiftEC2NodeClass None [], RList []),
      (Get Mgmt KConfigMap ''ns'' karpenterSubnetsConfigMapName, RErr NotFound [])]"

lemma hcp_Meta_new: "hcp_Meta (new_hcp ns n) = new_meta ns n"
  by (simp add: new_hcp_def)

lemma runs_deletion:
  "runs (ec2_Reconcile 0 ''ns'' [] ''n'') (deletion_prefix @ (deletion_patch, RErr Conflict []) # [])
     (Inl (EWrap ''removing finalizer from openshiftEC2NodeClass: '' (EApi Conflict []) []))"
  by (simp add: ec2_Reconcile_def GetHostedControlPlane_def call_defs ec2_reconcileDelete_def
      deleteIfNeeded_def reconcileKarpenterSubnetsConfigMap_def subnet_ids_def resolved_subnets_def
      map_of_entries_def being_deleted_def new_hcp_def map_get_def ContainsFinalizer_def)

lemma deletion_removes:
  "ContainsFinalizer (onc_Meta (finalized (Some 1))) ec2_finalizer"
  "\<not> ContainsFinalizer (RemoveFinalizer (onc_Meta (finalized (Some 1))) ec2_finalizer) ec2_finalizer"
  by (simp_all add: ContainsFinalizer_def RemoveFinalizer_def)

lemma ec2_finalizer_removed_last_witness: "ec2_gone deletion_prefix (onc_Meta (finalized (Some 1)))"
  using ec2_finalizer_removed_last [OF runs_deletion refl] deletion_removes by simp

text \<open>A creating run: the EC2NodeClass does not exist, its creation fails.\<close>

lemma example_spec:
  "\<exists>b. ec2_mutate (finalized None) (new_hcp ''ns'' ''h'') example_secret (new_ec2_nodeclass [] ''n'') = Inr b \<and>
     res_key EC2NodeClasses b = ([], ''n'')"
proof -
  have g: "GetControllerOf (new_meta [] ''n'') = None"
    by (simp add: GetControllerOf_def)
  let ?r = "controller_ref karpenter_api_version ''OpenshiftEC2NodeClass'' (onc_Meta (finalized None))"
  have "SetControllerReference karpenter_api_version ''OpenshiftEC2NodeClass'' (onc_Meta (finalized None))
      (new_meta [] ''n'') = Inr ((new_meta [] ''n'')\<lparr>md_OwnerReferences := [?r]\<rparr>)"
    by (simp add: SetControllerReference_def validateOwner_def g)
  moreover have "\<exists>x. rollout_fields e (finalized None) (new_hcp ''ns'' ''h'') example_secret = Inr x" for e
    by (simp add: rollout_fields_def amiSelectorTermsFromUserDataSecret_def supportedArchitectures_def
        archToAMILabelKey_def List.map_filter_simps)
  ultimately have "\<exists>b. ec2_mutate (finalized None) (new_hcp ''ns'' ''h'') example_secret
      (new_ec2_nodeclass [] ''n'') = Inr b"
    by (auto simp: ec2_mutate_def reconcileEC2NodeClass_def new_ec2_nodeclass_def split: sum.splits)
      (metis sum.distinct(1))
  then show ?thesis
    using ec2_mutation.keeps_key by (force simp: res_key_def new_ec2_nodeclass_def)
qed

definition example_user_data :: secret where
  "example_user_data = example_secret
     \<lparr>sec_Meta := (sec_Meta example_secret)
       \<lparr>md_Annotations := [(TokenSecretNodePoolAnnotation, ''ns/n-karpenter'')]\<rparr>\<rparr>"

abbreviation creation_prefix :: "(req \<times> resp) list" where
  "creation_prefix \<equiv>
     [(List Mgmt KHostedControlPlane (Some ''ns'') [], RList [OHostedControlPlane (new_hcp ''ns'' ''h'')]),
      (Get Hosted KOpenshiftEC2NodeClass [] ''n'', RObj (OOpenshiftEC2NodeClass (finalized None))),
      (List Mgmt KSecret (Some ''ns'') karpenterSecretSelector, RList [OSecret example_user_data]),
      (Get Hosted KEC2NodeClass [] ''n'', RErr NotFound [])]"

lemma example_user_data: "user_data_secret_of ''ns'' ''n'' example_user_data"
  by (simp add: example_user_data_def user_data_secret_of_def is_token_secret_def karpenterNodePoolName_def
      map_get_def)

lemma mutate_meta: "ec2_mutate onc hcp (s\<lparr>sec_Meta := (sec_Meta s)\<lparr>md_Annotations := a\<rparr>\<rparr>) = ec2_mutate onc hcp s"
proof -
  let ?t = "s\<lparr>sec_Meta := (sec_Meta s)\<lparr>md_Annotations := a\<rparr>\<rparr>"
  have "amiSelectorTermsFromUserDataSecret ?t = amiSelectorTermsFromUserDataSecret s"
    by (simp add: amiSelectorTermsFromUserDataSecret_def)
  then have "rollout_fields e onc hcp ?t = rollout_fields e onc hcp s" for e
    by (simp add: rollout_fields_def split: sum.split)
  then have "reconcileEC2NodeClass onc hcp ?t = reconcileEC2NodeClass onc hcp s"
    by (simp add: fun_eq_iff reconcileEC2NodeClass_def)
  then show ?thesis by (simp add: fun_eq_iff ec2_mutate_def split: sum.split)
qed

lemma runs_creation:
  assumes "ec2_mutate (finalized None) (new_hcp ''ns'' ''h'') example_secret (new_ec2_nodeclass [] ''n'') = Inr b"
    and "res_key EC2NodeClasses b = ([], ''n'')"
  shows "runs (ec2_Reconcile 0 ''ns'' [] ''n'')
     (creation_prefix @ (Create Hosted (OEC2NodeClass b), RErr OtherReason []) # []) (Inl (EApi OtherReason []))"
proof -
  have k: "res_key EC2NodeClasses (new_ec2_nodeclass [] ''n'') = ([], ''n'')"
    by (simp add: res_key_def new_ec2_nodeclass_def)
  have m: "ec2_mutate (finalized None) (new_hcp ''ns'' ''h'') example_user_data (new_ec2_nodeclass [] ''n'') = Inr b"
    unfolding example_user_data_def mutate_meta by (rule assms(1))
  show ?thesis
    by (simp add: ec2_Reconcile_def GetHostedControlPlane_def GetUserDataSecret_def call_defs
        ec2_ensureFinalizer_def ec2_reconcileNormal_def CreateOrUpdate_def k mutate_def m assms(2)
        being_deleted_def map_get_def ContainsFinalizer_def hcp_Meta_new example_user_data Let_def)
qed

lemma ec2_created_under_finalizer_witness: "finalizer_present creation_prefix"
proof -
  obtain b where "ec2_mutate (finalized None) (new_hcp ''ns'' ''h'') example_secret (new_ec2_nodeclass [] ''n'') = Inr b"
    "res_key EC2NodeClasses b = ([], ''n'')" using example_spec by blast
  from ec2_created_under_finalizer [OF runs_creation [OF this] refl, of Hosted b]
  show ?thesis by simp
qed

lemma ec2_updates_settle_witness:
  "\<exists>b c x b'. ec2_Spec c = ec2_stored_spec b \<and> ec2_stored_spec b' = ec2_Spec c \<and>
     calls (\<lambda>q w. (RObj (OEC2NodeClass c), w))
       (CreateOrUpdate Hosted EC2NodeClasses (new_ec2_nodeclass [] ''n'')
         (ec2_mutate (finalized None) (new_hcp ''ns'' ''h'') example_secret)) () =
       [(Get Hosted KEC2NodeClass [] ''n'', RObj (OEC2NodeClass c)), (Update Hosted (OEC2NodeClass b'), x)]"
proof -
  obtain b where b: "ec2_mutate (finalized None) (new_hcp ''ns'' ''h'') example_secret (new_ec2_nodeclass [] ''n'') = Inr b"
    "res_key EC2NodeClasses b = ([], ''n'')"
    using example_spec by blast
  have "ec_MetadataOptions (ec2_Spec b) = None"
    using b(1) by (auto simp: ec2_mutate_def reconcileEC2NodeClass_Inr desired_ec2_spec_def Let_def
        karpenterMetadataOptionsFromNodeClassSpec_def new_openshift_ec2_nodeclass_def zero_openshift_ec2_spec_def
        split: sum.splits)
  moreover let ?c = "b\<lparr>ec2_Spec := ec2_stored_spec b\<rparr>" and ?new = "new_ec2_nodeclass [] ''n''"
  have "ec_MetadataOptions (ec2_Spec ?c) \<noteq> None" by (simp add: ec2_stored_spec_def ec2_schema_defaults_def Let_def)
  ultimately have update: "ec_MetadataOptions (ec2_Spec ?c) \<noteq> ec_MetadataOptions (ec2_Spec b)" by simp
  have keys: "res_key EC2NodeClasses ?new = ([], ''n'')" "res_key EC2NodeClasses ?c = ([], ''n'')"
    using b(2) by (simp_all add: res_key_def new_ec2_nodeclass_def)
  have c: "ec2_Spec ?c = ec2_stored_spec b" "md_OwnerReferences (ec2_Meta ?c) = md_OwnerReferences (ec2_Meta b)"
    by simp_all
  obtain x b' where "ec2_stored_spec b' = ec2_Spec ?c"
    "calls (\<lambda>q w. (RObj (OEC2NodeClass ?c), w))
       (CreateOrUpdate Hosted EC2NodeClasses ?new
         (ec2_mutate (finalized None) (new_hcp ''ns'' ''h'') example_secret)) () =
       [(Get Hosted KEC2NodeClass [] ''n'', RObj (OEC2NodeClass ?c)), (Update Hosted (OEC2NodeClass b'), x)]"
    using ec2_updates_settle
      [where srv = "\<lambda>q w. (RObj (OEC2NodeClass ?c), w)" and w = "()" and w' = "()", OF refl b(1) keys c]
      update by auto
  with c(1) show ?thesis by blast
qed

text \<open>A run that patches the status: the server answers the creation with a bare EC2NodeClass.\<close>

lemma example_status:
  "\<exists>st. synced_status 0 (new_ec2_nodeclass [] ''n'') (finalized None) (new_hcp ''ns'' ''h'') = Inr st \<and>
     st \<noteq> onc_Status (finalized None)"
  by (auto simp: synced_status_def Let_def new_ec2_nodeclass_def new_openshift_ec2_nodeclass_def
      zero_openshift_ec2_status_def)

lemma runs_status:
  assumes "ec2_mutate (finalized None) (new_hcp ''ns'' ''h'') example_secret (new_ec2_nodeclass [] ''n'') = Inr b"
    and "res_key EC2NodeClasses b = ([], ''n'')"
    and "synced_status 0 (new_ec2_nodeclass [] ''n'') (finalized None) (new_hcp ''ns'' ''h'') = Inr st"
    and "st \<noteq> onc_Status (finalized None)"
  shows "runs (ec2_Reconcile 0 ''ns'' [] ''n'')
     (creation_prefix @ (Create Hosted (OEC2NodeClass b), RObj (OEC2NodeClass (new_ec2_nodeclass [] ''n''))) #
      [(PatchStatus Hosted True (OOpenshiftEC2NodeClass (finalized None))
         (OOpenshiftEC2NodeClass ((finalized None)\<lparr>onc_Status := st\<rparr>)), RErr Conflict [])])
     (Inl (EWrap ''updating status: '' (EApi Conflict []) []))"
proof -
  have k: "res_key EC2NodeClasses (new_ec2_nodeclass [] ''n'') = ([], ''n'')"
    by (simp add: res_key_def new_ec2_nodeclass_def)
  have m: "ec2_mutate (finalized None) (new_hcp ''ns'' ''h'') example_user_data (new_ec2_nodeclass [] ''n'') = Inr b"
    unfolding example_user_data_def mutate_meta by (rule assms(1))
  show ?thesis
    using assms(4)
    by (simp add: ec2_Reconcile_def GetHostedControlPlane_def GetUserDataSecret_def call_defs
        ec2_ensureFinalizer_def ec2_reconcileNormal_def CreateOrUpdate_def k mutate_def m assms(2,3)
        being_deleted_def map_get_def ContainsFinalizer_def hcp_Meta_new example_user_data Let_def
        ec2_reconcileStatus_def)
qed

lemma ec2_status_ownership_witness:
  "\<exists>st. synced_status 0 (new_ec2_nodeclass [] ''n'') (finalized None) (new_hcp ''ns'' ''h'') = Inr st \<and>
     ost_ReleaseImage st = ost_ReleaseImage (onc_Status (finalized None))"
proof -
  obtain b st where "ec2_mutate (finalized None) (new_hcp ''ns'' ''h'') example_secret (new_ec2_nodeclass [] ''n'') = Inr b"
    "res_key EC2NodeClasses b = ([], ''n'')"
    and st: "synced_status 0 (new_ec2_nodeclass [] ''n'') (finalized None) (new_hcp ''ns'' ''h'') = Inr st"
    "st \<noteq> onc_Status (finalized None)"
    using example_spec example_status by blast
  from ec2_status_ownership [OF runs_status [OF this], of Hosted True "finalized None"
      "(finalized None)\<lparr>onc_Status := st\<rparr>" "RErr Conflict []"] st
  show ?thesis by simp
qed

lemma ec2_status_never_settles_witness:
  "\<exists>st. synced_status 0 (new_ec2_nodeclass [] ''n'') (finalized None) (new_hcp ''ns'' ''h'') = Inr st \<and>
     ost_Subnets st = Some []"
proof -
  obtain st where st: "synced_status 0 (new_ec2_nodeclass [] ''n'') (finalized None) (new_hcp ''ns'' ''h'') = Inr st"
    using example_status by blast
  have "ost_Subnets (onc_Status (finalized None)) = None" "es_Subnets (ec2_Status (new_ec2_nodeclass [] ''n'')) = []"
    by (simp_all add: new_ec2_nodeclass_def new_openshift_ec2_nodeclass_def zero_openshift_ec2_status_def)
  from ec2_status_never_settles [where srv = "\<lambda>q w. (ROk, w)" and w = "()", OF this st] st show ?thesis by blast
qed

lemma ec2_watch_complete_witness:
  "reconcileEC2NodeClass (finalized None) (new_hcp ''ns'' ''h'') example_secret =
   reconcileEC2NodeClass (finalized None) ((new_hcp ''ns'' ''h'')\<lparr>hcp_AWS := Some []\<rparr>) example_secret"
  by (rule ec2_watch_complete)
    (simp_all add: ec2_hcpPredicate_update_def new_hcp_def awsResourceTags_def ControlPlaneVersionChanged_def)

end
