(* ===== verification/Ec2_Confinement.thy ===== *)
theory Ec2_Confinement
  imports Ec2_Properties
begin

text \<open>
  The writes of the EC2NodeClass reconciler are confined: to the objects of the NodeClass it was asked to
  reconcile, the subnets ConfigMap of the operator's namespace and the one admission policy with its
  binding, by cluster, kind, namespace and name.
\<close>


section \<open>What a reconcile may ask for\<close>

text \<open>The servers answer with objects of the key that was asked for.\<close>

definition answers_key :: "'a resource \<Rightarrow> req \<times> resp \<Rightarrow> bool" where
  "answers_key r qx \<longleftrightarrow>
     (\<forall>t ns n a. qx = (Get t (res_kind r) ns n, RObj (res_wrap r a)) \<longrightarrow> res_key r a = (ns, n)) \<and>
     (\<forall>t lock old y a. qx = (Patch t lock (res_wrap r old) y, RObj (res_wrap r a)) \<longrightarrow> res_key r a = res_key r old)"

definition answers_keys :: "(req \<times> resp) list \<Rightarrow> bool" where
  "answers_keys h \<longleftrightarrow> (\<forall>qx\<in>set h. answers_key OpenshiftEC2NodeClasses qx \<and> answers_key EC2NodeClasses qx \<and>
     answers_key ConfigMaps qx)"

text \<open>The NodeClass was read, and is being deleted.\<close>

definition read_deleted :: "string \<times> string \<Rightarrow> (req \<times> resp) list \<Rightarrow> bool" where
  "read_deleted k h \<longleftrightarrow>
     (\<exists>onc. (Get Hosted KOpenshiftEC2NodeClass (fst k) (snd k), RObj (OOpenshiftEC2NodeClass onc)) \<in> set h \<and>
        being_deleted (onc_Meta onc))"

fun ec2_object :: "string \<Rightarrow> string \<times> string \<Rightarrow> target \<Rightarrow> obj \<Rightarrow> bool" where
  "ec2_object namespace k t (OEC2NodeClass b) \<longleftrightarrow> t = Hosted \<and> res_key EC2NodeClasses b = k"
| "ec2_object namespace k t (OConfigMap cm) \<longleftrightarrow>
     t = Mgmt \<and> res_key ConfigMaps cm = (namespace, karpenterSubnetsConfigMapName)"
| "ec2_object namespace k t (OValidatingAdmissionPolicy v) \<longleftrightarrow> t = Hosted \<and> res_key VAPs v = ([], ec2_vap_name)"
| "ec2_object namespace k t (OValidatingAdmissionPolicyBinding v) \<longleftrightarrow>
     t = Hosted \<and> res_key VAPBindings v = ([], ec2_vap_binding_name)"
| "ec2_object namespace k t _ \<longleftrightarrow> False"

text \<open>What a reconcile of the NodeClass \<open>k\<close> may ask for after the calls \<open>h\<close>.\<close>

fun ec2_allowed :: "string \<Rightarrow> string \<times> string \<Rightarrow> (req \<times> resp) list \<Rightarrow> req \<Rightarrow> bool" where
  "ec2_allowed namespace k h (Get _ _ _ _) \<longleftrightarrow> True"
| "ec2_allowed namespace k h (List _ _ _ _) \<longleftrightarrow> True"
| "ec2_allowed namespace k h (Create t x) \<longleftrightarrow> ec2_object namespace k t x"
| "ec2_allowed namespace k h (Update t x) \<longleftrightarrow> ec2_object namespace k t x"
| "ec2_allowed namespace k h (Patch t lock x y) \<longleftrightarrow> t = Hosted \<and> lock \<and>
     (\<exists>old new. x = OOpenshiftEC2NodeClass old \<and> y = OOpenshiftEC2NodeClass new \<and>
        res_key OpenshiftEC2NodeClasses old = k \<and> res_key OpenshiftEC2NodeClasses new = k)"
| "ec2_allowed namespace k h (PatchStatus t lock x y) \<longleftrightarrow> t = Hosted \<and> lock \<and>
     (\<exists>old new. x = OOpenshiftEC2NodeClass old \<and> y = OOpenshiftEC2NodeClass new \<and>
        res_key OpenshiftEC2NodeClasses old = k \<and> onc_Meta new = onc_Meta old \<and> onc_Spec new = onc_Spec old)"
| "ec2_allowed namespace k h (Delete t kd ns n) \<longleftrightarrow>
     t = Hosted \<and> kd = KEC2NodeClass \<and> (ns, n) = k \<and> read_deleted k h \<or>
     t = Mgmt \<and> kd = KConfigMap \<and> (ns, n) = (namespace, karpenterSubnetsConfigMapName)"
| "ec2_allowed namespace k h _ \<longleftrightarrow> False"

abbreviation ec2_confined :: "string \<Rightarrow> string \<times> string \<Rightarrow> (req \<times> resp) list \<Rightarrow> req \<Rightarrow> bool" where
  "ec2_confined namespace k h q \<equiv> answers_keys h \<longrightarrow> ec2_allowed namespace k h q"

lemma answers_keys_append: "answers_keys (h @ h') \<longleftrightarrow> answers_keys h \<and> answers_keys h'"
  by (auto simp: answers_keys_def)

lemma answers_keys_last: "answers_keys (h @ [x]) \<Longrightarrow> answers_key OpenshiftEC2NodeClasses x"
  by (simp add: answers_keys_def)

lemma read_deleted_append: "read_deleted k h \<Longrightarrow> read_deleted k (h @ u)"
  by (auto simp: read_deleted_def)

lemma confined_deleteIfNeeded:
  assumes "resource_laws r" and "\<And>h x. answers_keys (h @ [x]) \<Longrightarrow> answers_key r x"
    and "\<And>u. answers_keys (h @ u) \<Longrightarrow> ec2_allowed namespace k (h @ u) (Delete t (res_kind r) ns n)"
  shows "safe (ec2_confined namespace k) (deleteIfNeeded t r ty ns n) h (\<lambda>_ _. True)"
proof -
  have "res_key r c = (ns, n)"
    if "as_object r x = Inr c" "answers_keys (h @ [(Get t (res_kind r) ns n, x)])" for x c
  proof -
    have "x = RObj (res_wrap r c)"
      using that(1) resource_laws.unwrap_Some [OF assms(1)]
      by (cases x) (auto simp: decode_failed_def split: option.splits)
    then show ?thesis using assms(2) [OF that(2)] by (auto simp: answers_key_def)
  qed
  with assms(3) show ?thesis
    by (auto simp: deleteIfNeeded_def c_get_def c_delete_def split: sum.splits)
qed

lemma confined_subnets:
  "safe (ec2_confined namespace k) (reconcileKarpenterSubnetsConfigMap namespace hcp) h (\<lambda>_ _. True)"
proof -
  have del: "safe (ec2_confined namespace k)
      (deleteIfNeeded Mgmt ConfigMaps ''*v1.ConfigMap'' namespace karpenterSubnetsConfigMapName) h' (\<lambda>_ _. True)" for h'
    by (rule confined_deleteIfNeeded) (auto simp: answers_keys_def config_maps.resource_laws_axioms)
  show ?thesis
    unfolding reconcileKarpenterSubnetsConfigMap_def safe_bindE safe_wrapE Let_def
    by (rule safe_c_list; simp split: sum.split; intro impI conjI allI)
      (auto simp: safe_bindE safe_wrapE res_key_def new_config_map_def
        intro!: safe_any [OF del] safe_CreateOrUpdate split: sum.split)
qed

lemma confined_vap: "safe (ec2_confined namespace k) ec2_reconcileVAP h (\<lambda>_ _. True)"
  unfolding ec2_reconcileVAP_def safe_bindE
  by (rule safe_CreateOrUpdate)
    (auto simp: res_key_def new_vap_def new_vap_binding_def safe_bindE intro!: safe_CreateOrUpdate split: sum.split)

text \<open>The NodeClass that the rest of the reconcile works on is the one of the request, as far as the
  servers answer what they were asked.\<close>

definition has_key :: "(req \<times> resp) list \<Rightarrow> string \<times> string \<Rightarrow> openshift_ec2_nodeclass \<Rightarrow> bool" where
  "has_key h k onc \<longleftrightarrow> (answers_keys h \<longrightarrow> res_key OpenshiftEC2NodeClasses onc = k)"

lemma has_key_append: "has_key h k onc \<Longrightarrow> has_key (h @ u) k onc"
  by (auto simp: has_key_def answers_keys_append)

lemma has_key_read: "has_key (h @ [(Get Hosted KOpenshiftEC2NodeClass ns n, RObj (OOpenshiftEC2NodeClass onc))]) (ns, n) onc"
  by (auto simp: has_key_def dest!: answers_keys_last) (simp add: answers_key_def)

lemma has_key_patched:
  assumes "has_key h k onc"
  shows "has_key (h @ [(Patch Hosted True (OOpenshiftEC2NodeClass onc) x, RObj (OOpenshiftEC2NodeClass onc'))]) k onc'"
  unfolding has_key_def
proof
  let ?p = "(Patch Hosted True (OOpenshiftEC2NodeClass onc) x, RObj (OOpenshiftEC2NodeClass onc'))"
  assume a: "answers_keys (h @ [?p])"
  then have "res_key OpenshiftEC2NodeClasses onc = k" using assms by (simp add: has_key_def answers_keys_append)
  with answers_keys_last [OF a] show "res_key OpenshiftEC2NodeClasses onc' = k" by (auto simp: answers_key_def)
qed

lemma confined_status:
  assumes "has_key h k onc"
  shows "safe (ec2_confined namespace k) (ec2_reconcileStatus now ec2 onc hcp) h (\<lambda>_ _. True)"
  using assms
  by (auto simp: ec2_reconcileStatus_def c_patch_status_def has_key_def safe_bindE safe_wrapE split: sum.split)

lemma confined_normal:
  assumes "has_key h k onc" and "answers_keys h \<Longrightarrow> (ns0, n0) = k"
  shows "safe (ec2_confined namespace k) (ec2_reconcileNormal now namespace hcp ns0 n0 onc) h (\<lambda>_ _. True)"
proof -
  have user_data: "safe (ec2_confined namespace k) (GetUserDataSecret Mgmt namespace nc) h' (\<lambda>_ _. True)" for nc h'
    by (auto simp: GetUserDataSecret_def c_list_def safe_bindE safe_wrapE split: sum.split)
  have create: "safe (ec2_confined namespace k)
      (CreateOrUpdate Hosted EC2NodeClasses (new_ec2_nodeclass ns0 n0) (ec2_mutate onc hcp s)) (h @ u) (\<lambda>_ _. True)" for s u
    using assms(2)
    by (intro safe_CreateOrUpdate) (auto simp: answers_keys_append res_key_def new_ec2_nodeclass_def)
  have rest: "safe (ec2_confined namespace k)
      (bindE (ec2_reconcileStatus now ec2 onc hcp) (\<lambda>_.
       bindE (wrapE ''reconciling karpenter subnets configmap: ''
                (reconcileKarpenterSubnetsConfigMap namespace hcp)) (\<lambda>_.
       bindE ec2_reconcileVAP (\<lambda>_. done_result)))) (h @ u) (\<lambda>_ _. True)" for ec2 u
    unfolding safe_bindE safe_wrapE
    by (rule safe_any [OF confined_status [OF has_key_append [OF assms(1)]]], auto split: sum.split,
        rule safe_any [OF confined_subnets], auto split: sum.split,
        rule safe_any [OF confined_vap], auto split: sum.split)
  show ?thesis
    unfolding ec2_reconcileNormal_def safe_bind
    by (rule safe_any [OF user_data], simp split: sum.split, intro conjI allI impI,
        unfold safe_bindE, rule safe_any [OF create], auto simp: rest split: sum.split)
qed

lemma confined_delete:
  assumes "has_key h k onc" and "read_deleted k h"
  shows "safe (ec2_confined namespace k) (ec2_reconcileDelete namespace hcp onc) h (\<lambda>_ _. True)"
proof -
  have d: "safe (ec2_confined namespace k) (deleteIfNeeded Hosted EC2NodeClasses ty
      (md_Namespace (onc_Meta onc)) (md_Name (onc_Meta onc))) h (\<lambda>_ _. True)" for ty
    using assms by (intro confined_deleteIfNeeded)
      (auto simp: answers_keys_def ec2s.resource_laws_axioms has_key_def res_key_def read_deleted_append)
  have key: "answers_keys (h @ u) \<Longrightarrow> res_key OpenshiftEC2NodeClasses onc = k" for u
    using assms(1) by (simp add: has_key_def answers_keys_append)
  show ?thesis
    unfolding ec2_reconcileDelete_def safe_bindE
    by (rule safe_any [OF d])
      (use key in \<open>auto simp: safe_bindE safe_wrapE c_patch_def res_key_def
        intro!: safe_any [OF confined_subnets] split: sum.split\<close>)
qed

lemma confined_Reconcile:
  "safe (ec2_confined namespace (ns, n)) (ec2_Reconcile now namespace ns n) [] (\<lambda>_ _. True)"
proof -
  have hcp: "safe (ec2_confined namespace (ns, n)) (GetHostedControlPlane Mgmt namespace) [] (\<lambda>_ _. True)"
    by (auto simp: GetHostedControlPlane_def c_list_def safe_bindE safe_wrapE split: sum.split)
  have body: "safe (ec2_confined namespace (ns, n))
      (if being_deleted (onc_Meta onc) then ec2_reconcileDelete namespace hcp onc
       else bindE (ec2_ensureFinalizer onc) (ec2_reconcileNormal now namespace hcp
         (md_Namespace (onc_Meta onc)) (md_Name (onc_Meta onc))))
      (h @ [(Get Hosted KOpenshiftEC2NodeClass ns n, x)]) (\<lambda>_ _. True)"
    if "as_object OpenshiftEC2NodeClasses x = Inr onc" for hcp onc h x
  proof -
    let ?h = "h @ [(Get Hosted KOpenshiftEC2NodeClass ns n, x)]"
    from that have x: "x = RObj (OOpenshiftEC2NodeClass onc)" by (simp add: openshift_ec2s.as_object_iff)
    then have k: "has_key ?h (ns, n) onc" using has_key_read by simp
    show ?thesis
    proof (cases "being_deleted (onc_Meta onc)")
      case True
      with x have "read_deleted (ns, n) ?h" by (auto simp: read_deleted_def)
      with True confined_delete [OF k] show ?thesis by simp
    next
      case False
      let ?p = "Patch Hosted True (OOpenshiftEC2NodeClass onc)
        (OOpenshiftEC2NodeClass (onc\<lparr>onc_Meta := AddFinalizer (onc_Meta onc) ec2_finalizer\<rparr>))"
      have name: "answers_keys (?h @ u) \<Longrightarrow> (md_Namespace (onc_Meta onc), md_Name (onc_Meta onc)) = (ns, n)" for u
        using k unfolding has_key_def answers_keys_append [of "_ @ _"] by (simp add: res_key_def)
      have "has_key (?h @ [(?p, RObj (OOpenshiftEC2NodeClass onc'))]) (ns, n) onc'" for onc'
        by (rule has_key_patched [OF k])
      with False k name show ?thesis
        by (auto simp: ec2_ensureFinalizer_def c_patch_def safe_bindE safe_wrapE has_key_def res_key_def
            openshift_ec2s.as_object_iff intro!: confined_normal split: sum.split)
    qed
  qed
  show ?thesis
    unfolding ec2_Reconcile_def safe_bind
    by (rule safe_any [OF hcp]) (auto simp: c_get_def body split: sum.split)
qed


section \<open>Properties\<close>

text \<open>C34: confinement. As long as the servers answer with objects of the key that was asked for, every
  request of a reconcile that may write concerns an object that is its own, in the right cluster: it creates
  and updates only the EC2NodeClass with the key of the request, the subnets ConfigMap of the operator's
  namespace, and the one admission policy with its binding; it patches only the NodeClass of the request,
  with an optimistic lock, its status without touching the rest; and it deletes only this ConfigMap, and the
  EC2NodeClass with the key of the request after the NodeClass was read as being deleted.\<close>

theorem ec2_writes_confined:
  assumes "runs (ec2_Reconcile now namespace ns n) tr y" and "tr = t @ (q, x) # u" and "answers_keys t"
  shows "ec2_allowed namespace (ns, n) t q"
  using safe_guard [OF confined_Reconcile assms(1,2)] assms(3) by simp

lemma ec2_writes_confined_witness: "ec2_allowed ''ns'' ([], ''n'') deletion_prefix deletion_patch"
  by (rule ec2_writes_confined [OF runs_deletion refl])
    (simp add: answers_keys_def answers_key_def res_key_def being_deleted_def)

end
