(* ===== verification/Azure_Controller.thy ===== *)
theory Azure_Controller
  imports Hypershift Nodeclass_Status
begin

text \<open>
  The Azure NodeClass reconciler, \<^verbatim>\<open>pkg/controllers/nodeclass/azure/controller.go\<close> and
  \<^verbatim>\<open>spec.go\<close>: it keeps an AKSNodeClass for every OpenShiftAzureNodeClass and copies
  its conditions back. Unlike the EC2 reconciler it deletes without reading first, and compares the
  status semantically, so that it comes to rest (\<open>azure_settled\<close>).
\<close>

abbreviation azure_finalizer :: string where
  "azure_finalizer \<equiv> ''hypershift.openshift.io/azure-nodeclass-finalizer''"

abbreviation karpenter_v1alpha1 :: string where
  "karpenter_v1alpha1 \<equiv> ''karpenter.hypershift.openshift.io/v1alpha1''"

abbreviation defaultOSDiskSizeGiB :: int where "defaultOSDiskSizeGiB \<equiv> 120"


section \<open>The desired AKSNodeClass\<close>

definition aksNodeClassSpec :: "openshift_azure_spec \<Rightarrow> aks_spec" where
  "aksNodeClassSpec spec = zero_aks_spec
     \<lparr>aks_VNETSubnetID := (if as_VNETSubnetID spec = [] then None else Some (as_VNETSubnetID spec)),
      aks_ImageFamily := Some UbuntuImageFamily,
      aks_OSDiskSizeGB :=
        Some (if as_OSDiskSizeGiB spec \<noteq> 0 then as_OSDiskSizeGiB spec else defaultOSDiskSizeGiB),
      aks_Tags := as_Tags spec,
      aks_MaxPods := (if kc_MaxPods (as_Kubelet spec) = 0 then None else Some (kc_MaxPods (as_Kubelet spec))),
      aks_EncryptionAtHost := Some (Some (as_HostEncryption spec = AzureHostEncryptionEnabled))\<rparr>"

definition marketplaceImageFromUserDataSecret :: "secret \<Rightarrow> marketplace_image" where
  "marketplaceImageFromUserDataSecret s =
     (let l = md_Labels (sec_Meta s) in
      \<lparr>mi_Publisher = map_get l ''hypershift.openshift.io/azure-marketplace-publisher'',
       mi_Offer = map_get l ''hypershift.openshift.io/azure-marketplace-offer'',
       mi_SKU = map_get l ''hypershift.openshift.io/azure-marketplace-sku'',
       mi_Version = map_get l ''hypershift.openshift.io/azure-marketplace-version''\<rparr>)"

text \<open>The mutation of \<^verbatim>\<open>reconcileAKSNodeClass\<close>; \<open>current\<close> is the stored
  spec.\<close>

definition aks_mutate ::
  "openshift_azure_nodeclass \<Rightarrow> hosted_control_plane \<Rightarrow> secret \<Rightarrow> aks_nodeclass mutate_fn"
where
  "aks_mutate nodeClass hcp s aks =
     (let current = aks_Spec aks;
          desired = (aksNodeClassSpec (anc_Spec nodeClass))
            \<lparr>aks_UserData := Some (map_get (sec_Data s) ''value''),
             aks_MarketplaceImage := Some (marketplaceImageFromUserDataSecret s)\<rparr>;
          spec = (if WaitsForControlPlaneUpgrade hcp (as_Version (anc_Spec nodeClass)) \<and>
                     aks_UserData current \<noteq> None \<and> aks_MarketplaceImage current \<noteq> None
                  then desired\<lparr>aks_UserData := aks_UserData current,
                               aks_MarketplaceImage := aks_MarketplaceImage current\<rparr>
                  else desired)
      in case SetControllerReference karpenter_v1alpha1 ''OpenShiftAzureNodeClass''
                (anc_Meta nodeClass) (aks_Meta aks) of
           Inl e \<Rightarrow> Inl e
         | Inr m \<Rightarrow> Inr (aks\<lparr>aks_Meta := m, aks_Spec := spec\<rparr>))"

definition reconcileAKSNodeClass ::
  "openshift_azure_nodeclass \<Rightarrow> hosted_control_plane \<Rightarrow> secret \<Rightarrow> aks_nodeclass io"
where
  "reconcileAKSNodeClass nodeClass hcp s =
     bindE (wrapE ''reconciling AKSNodeClass: ''
       (CreateOrUpdate Hosted AKSNodeClasses (new_aks_nodeclass (md_Name (anc_Meta nodeClass)))
         (aks_mutate nodeClass hcp s)))
       (\<lambda>(op, aks). Ret (Inr aks))"


section \<open>Reconcile\<close>

definition azure_reconcileStatus :: "time \<Rightarrow> openshift_azure_nodeclass \<Rightarrow> aks_nodeclass \<Rightarrow> unit io" where
  "azure_reconcileStatus now nodeClass aks =
     (let conditions = SyncConditions now (ast_Conditions (anc_Status nodeClass)) (aks_Conditions aks)
            (md_Generation (anc_Meta nodeClass))
      in if conditions = ast_Conditions (anc_Status nodeClass) then Ret (Inr ())
         else bindE (wrapE ''updating status: ''
                (c_patch_status Hosted OpenShiftAzureNodeClasses True nodeClass
                  (nodeClass\<lparr>anc_Status := (anc_Status nodeClass)\<lparr>ast_Conditions := conditions\<rparr>\<rparr>)))
                (\<lambda>_. Ret (Inr ())))"

definition azure_reconcileDelete :: "openshift_azure_nodeclass \<Rightarrow> unit io" where
  "azure_reconcileDelete nodeClass =
     bind (c_delete Hosted AKSNodeClasses [] (md_Name (anc_Meta nodeClass))) (\<lambda>deleted.
       case deleted of
         Inr _ \<Rightarrow> Ret (Inr ())
       | Inl e \<Rightarrow>
           if \<not> IsNotFound e then Ret (Inl (EWrap ''deleting AKSNodeClass: '' e []))
           else if ContainsFinalizer (anc_Meta nodeClass) azure_finalizer
           then bindE (wrapE ''removing finalizer: ''
                  (c_patch Hosted OpenShiftAzureNodeClasses True nodeClass
                    (nodeClass\<lparr>anc_Meta := RemoveFinalizer (anc_Meta nodeClass) azure_finalizer\<rparr>)))
                  (\<lambda>_. Ret (Inr ()))
           else Ret (Inr ()))"

definition azure_ensureFinalizer :: "openshift_azure_nodeclass \<Rightarrow> openshift_azure_nodeclass io" where
  "azure_ensureFinalizer nodeClass =
     (if \<not> ContainsFinalizer (anc_Meta nodeClass) azure_finalizer
      then wrapE ''adding finalizer: ''
             (c_patch Hosted OpenShiftAzureNodeClasses True nodeClass
               (nodeClass\<lparr>anc_Meta := AddFinalizer (anc_Meta nodeClass) azure_finalizer\<rparr>))
      else Ret (Inr nodeClass))"

text \<open>What follows the finalizer.\<close>

definition azure_reconcileNormal ::
  "time \<Rightarrow> string \<Rightarrow> openshift_azure_nodeclass \<Rightarrow> result io"
where
  "azure_reconcileNormal now namespace nodeClass =
     bind (GetHostedControlPlane Mgmt namespace) (\<lambda>got.
       case got of
         Inl e \<Rightarrow> if errors_Is e ErrHostedControlPlaneNotFound then done_result else Ret (Inl e)
       | Inr hcp \<Rightarrow>
           bind (GetUserDataSecret Mgmt namespace (md_Name (anc_Meta nodeClass))) (\<lambda>got.
             case got of
               Inl e \<Rightarrow> if errors_Is e ErrUserDataSecretNotFound then done_result else Ret (Inl e)
             | Inr s \<Rightarrow>
                 bindE (reconcileAKSNodeClass nodeClass hcp s) (\<lambda>aks.
                 bindE (azure_reconcileStatus now nodeClass aks) (\<lambda>_. done_result))))"

definition azure_Reconcile :: "time \<Rightarrow> string \<Rightarrow> string \<Rightarrow> string \<Rightarrow> result io" where
  "azure_Reconcile now namespace ns n =
     bind (c_get Hosted OpenShiftAzureNodeClasses ns n) (\<lambda>got.
       case got of
         Inl e \<Rightarrow> (case IgnoreNotFound e of Inl e \<Rightarrow> Ret (Inl e) | Inr _ \<Rightarrow> done_result)
       | Inr nodeClass \<Rightarrow>
           if being_deleted (anc_Meta nodeClass)
           then bindE (azure_reconcileDelete nodeClass) (\<lambda>_. done_result)
           else bindE (azure_ensureFinalizer nodeClass) (azure_reconcileNormal now namespace))"


section \<open>Watches\<close>

definition azure_hcpPredicate_update :: "hosted_control_plane \<Rightarrow> hosted_control_plane \<Rightarrow> bool" where
  "azure_hcpPredicate_update oldHCP newHCP = ControlPlaneVersionChanged oldHCP newHCP"

definition azure_mapToNodeClasses :: "(string \<times> string) list io" where
  "azure_mapToNodeClasses =
     bind (c_list Hosted OpenShiftAzureNodeClasses None []) (\<lambda>got.
       case got of
         Inl e \<Rightarrow> Ret (Inr [])
       | Inr items \<Rightarrow> Ret (Inr (map (\<lambda>nc. ([], md_Name (anc_Meta nc))) items)))"


section \<open>The mutation\<close>

lemma group_of_v1alpha1 [simp]: "group_of karpenter_v1alpha1 \<noteq> None"
  by (simp add: group_of_def)

interpretation aks_mutation: mutation AKSNodeClasses "aks_mutate nodeClass hcp s" for nodeClass hcp s
proof
  fix a b
  assume f: "aks_mutate nodeClass hcp s a = Inr b"
  then obtain m where m: "SetControllerReference karpenter_v1alpha1 ''OpenShiftAzureNodeClass''
        (anc_Meta nodeClass) (aks_Meta a) = Inr m" and bm: "aks_Meta b = m"
    by (auto simp: aks_mutate_def Let_def split: sum.splits)
  from bm SetControllerReference_key [OF m] show "res_key AKSNodeClasses b = res_key AKSNodeClasses a"
    by (simp add: res_key_def)
  have "SetControllerReference karpenter_v1alpha1 ''OpenShiftAzureNodeClass'' (anc_Meta nodeClass) m = Inr m"
    by (rule SetControllerReference_idem [OF m group_of_v1alpha1])
  with f m show "aks_mutate nodeClass hcp s b = Inr b"
    by (auto simp: aks_mutate_def Let_def split: if_splits)
qed


section \<open>Lemmas\<close>

text \<open>The AKSNodeClass was deleted before: a Delete reported it as not found.\<close>

definition aks_gone :: "(req \<times> resp) list \<Rightarrow> string \<Rightarrow> bool" where
  "aks_gone h n \<longleftrightarrow> (\<exists>msg. (Delete Hosted KAKSNodeClass [] n, RErr NotFound msg) \<in> set h)"

definition azure_finalizer_present :: "(req \<times> resp) list \<Rightarrow> bool" where
  "azure_finalizer_present h \<longleftrightarrow>
     (\<exists>ns n nc. (Get Hosted KOpenShiftAzureNodeClass ns n, RObj (OOpenShiftAzureNodeClass nc)) \<in> set h \<and>
        ContainsFinalizer (anc_Meta nc) azure_finalizer) \<or>
     (\<exists>old new nc. (Patch Hosted True (OOpenShiftAzureNodeClass old) (OOpenShiftAzureNodeClass new),
          RObj (OOpenShiftAzureNodeClass nc)) \<in> set h \<and> ContainsFinalizer (anc_Meta new) azure_finalizer)"

definition azure_guard :: "(req \<times> resp) list \<Rightarrow> req \<Rightarrow> bool" where
  "azure_guard h q \<longleftrightarrow>
     \<not> is_write q \<or>
     (\<exists>n. q = Delete Hosted KAKSNodeClass [] n) \<or>
     (\<exists>b. (q = Create Hosted (OAKSNodeClass b) \<or> q = Update Hosted (OAKSNodeClass b)) \<and>
        azure_finalizer_present h) \<or>
     (\<exists>nc. q = Patch Hosted True (OOpenShiftAzureNodeClass nc) (OOpenShiftAzureNodeClass
          (nc\<lparr>anc_Meta := AddFinalizer (anc_Meta nc) azure_finalizer\<rparr>)) \<and> \<not> being_deleted (anc_Meta nc)) \<or>
     (\<exists>nc. q = Patch Hosted True (OOpenShiftAzureNodeClass nc) (OOpenShiftAzureNodeClass
          (nc\<lparr>anc_Meta := RemoveFinalizer (anc_Meta nc) azure_finalizer\<rparr>)) \<and> being_deleted (anc_Meta nc) \<and>
        aks_gone h (md_Name (anc_Meta nc))) \<or>
     (\<exists>nc cs. q = PatchStatus Hosted True (OOpenShiftAzureNodeClass nc) (OOpenShiftAzureNodeClass
          (nc\<lparr>anc_Status := (anc_Status nc)\<lparr>ast_Conditions := cs\<rparr>\<rparr>)) \<and> ready_gated cs)"

lemma azure_guard_read [simp]: "azure_guard h (Get t k ns n)" "azure_guard h (List t k nso sel)"
  by (simp_all add: azure_guard_def)

lemma azure_finalizer_present_append: "azure_finalizer_present h \<Longrightarrow> azure_finalizer_present (h @ u)"
  unfolding azure_finalizer_present_def set_append Un_iff by blast

lemma safe_azure_delete:
  assumes "being_deleted (anc_Meta nc)"
  shows "safe azure_guard (azure_reconcileDelete nc) h (\<lambda>_ _. True)"
proof -
  have d: "azure_guard h (Delete Hosted KAKSNodeClass [] n)" for n
    by (simp add: azure_guard_def)
  have p: "azure_guard (h @ [(Delete Hosted KAKSNodeClass [] (md_Name (anc_Meta nc)), RErr NotFound m)])
      (Patch Hosted True (OOpenShiftAzureNodeClass nc) (OOpenShiftAzureNodeClass
        (nc\<lparr>anc_Meta := RemoveFinalizer (anc_Meta nc) azure_finalizer\<rparr>)))" for m
    unfolding azure_guard_def using assms by (auto simp: aks_gone_def)
  show ?thesis
    by (auto simp: azure_reconcileDelete_def c_delete_def c_patch_def safe_bindE safe_wrapE d as_unit_Inl p
        split: sum.split)
qed

lemma safe_azure_normal:
  assumes "azure_finalizer_present h"
  shows "safe azure_guard (azure_reconcileNormal now namespace nc) h (\<lambda>_ _. True)"
proof -
  have c: "safe azure_guard (reconcileAKSNodeClass nc' hcp s) h' (\<lambda>_ _. True)"
    if "azure_finalizer_present h'" for nc' hcp s h'
    unfolding reconcileAKSNodeClass_def safe_bindE safe_wrapE
    by (rule safe_CreateOrUpdate)
      (use that in \<open>auto simp: azure_guard_def azure_finalizer_present_append split: sum.split\<close>)
  have st: "safe azure_guard (azure_reconcileStatus now nc' aks) h' (\<lambda>_ _. True)" for nc' aks h'
    by (auto simp: azure_reconcileStatus_def Let_def c_patch_status_def safe_bindE safe_wrapE azure_guard_def
        split: sum.split)
  have rest: "safe azure_guard (reconcileAKSNodeClass nc' hcp s) h'
      (\<lambda>h'. case_sum (\<lambda>e. True) (\<lambda>a. safe azure_guard (azure_reconcileStatus now nc' a) h' (\<lambda>h' x. True)))"
    if "azure_finalizer_present h'" for nc' hcp s h'
    by (rule safe_any [OF c [OF that]]) (simp add: st split: sum.split)
  show ?thesis
    using assms
    by (auto simp: azure_reconcileNormal_def GetHostedControlPlane_def GetUserDataSecret_def c_list_def
        safe_bind safe_bindE safe_wrapE intro!: rest azure_finalizer_present_append split: sum.split)
qed

lemma safe_azure_Reconcile: "safe azure_guard (azure_Reconcile now namespace ns n) [] (\<lambda>_ _. True)"
proof -
  have normal: "safe azure_guard (bindE (azure_ensureFinalizer nc) (azure_reconcileNormal now namespace))
      [(Get Hosted KOpenShiftAzureNodeClass ns n, x)] (\<lambda>_ _. True)"
    if "as_object OpenShiftAzureNodeClasses x = Inr nc" and "\<not> being_deleted (anc_Meta nc)" for nc x
  proof -
    from that(1) have x: "x = RObj (OOpenShiftAzureNodeClass nc)"
      by (simp add: openshift_azures.as_object_iff)
    show ?thesis
    proof (cases "ContainsFinalizer (anc_Meta nc) azure_finalizer")
      case True
      then have "azure_finalizer_present [(Get Hosted KOpenShiftAzureNodeClass ns n, x)]"
        unfolding azure_finalizer_present_def x by auto
      with True show ?thesis by (simp add: azure_ensureFinalizer_def safe_azure_normal)
    next
      case False
      let ?p = "Patch Hosted True (OOpenShiftAzureNodeClass nc)
          (OOpenShiftAzureNodeClass (nc\<lparr>anc_Meta := AddFinalizer (anc_Meta nc) azure_finalizer\<rparr>))"
      have "azure_guard [(Get Hosted KOpenShiftAzureNodeClass ns n, x)] ?p"
        unfolding azure_guard_def using that(2) by blast
      moreover have "azure_finalizer_present
          [(Get Hosted KOpenShiftAzureNodeClass ns n, x), (?p, RObj (OOpenShiftAzureNodeClass nc'))]" for nc'
        unfolding azure_finalizer_present_def
        by (rule disjI2, rule exI [of _ nc],
            rule exI [of _ "nc\<lparr>anc_Meta := AddFinalizer (anc_Meta nc) azure_finalizer\<rparr>"]) auto
      ultimately show ?thesis
        using False
        by (auto simp: azure_ensureFinalizer_def c_patch_def safe_bindE safe_wrapE
            openshift_azures.as_object_iff intro!: safe_azure_normal split: sum.split)
    qed
  qed
  have delete: "safe azure_guard (bindE (azure_reconcileDelete nc) (\<lambda>_. done_result)) h (\<lambda>_ _. True)"
    if "being_deleted (anc_Meta nc)" for nc h
    unfolding safe_bindE by (rule safe_any [OF safe_azure_delete [OF that]]) (simp split: sum.split)
  show ?thesis
    by (auto simp: azure_Reconcile_def c_get_def safe_bind normal delete split: sum.split)
qed

lemma azure_run_guard:
  assumes "runs (azure_Reconcile now namespace ns n) tr y" and "tr = t @ (q, x) # u"
  shows "azure_guard t q"
  using safe_guard [OF safe_azure_Reconcile assms] by simp


text \<open>A server whose answers do not change; \<open>map (\<lambda>q. (q, ans q))\<close> is then the trace.\<close>

abbreviation steady :: "(req \<Rightarrow> resp) \<Rightarrow> (req, resp, unit) server" where
  "steady ans \<equiv> (\<lambda>q w. (ans q, w))"

lemma steady_aks_unchanged:
  assumes "ans (Get Hosted KAKSNodeClass [] n) = RObj (OAKSNodeClass b)"
    and "aks_mutate nodeClass hcp s a = Inr b" and "res_key AKSNodeClasses a = ([], n)"
  shows "exec (steady ans) (CreateOrUpdate Hosted AKSNodeClasses (new_aks_nodeclass n) (aks_mutate nodeClass hcp s)) ()
      = (Inr (OperationResultNone, b), ())"
    and "calls (steady ans) (CreateOrUpdate Hosted AKSNodeClasses (new_aks_nodeclass n) (aks_mutate nodeClass hcp s)) ()
      = [(Get Hosted KAKSNodeClass [] n, RObj (OAKSNodeClass b))]"
proof -
  have k: "res_key AKSNodeClasses (new_aks_nodeclass n) = ([], n)"
    by (simp add: res_key_def new_aks_nodeclass_def)
  have b: "aks_mutate nodeClass hcp s b = Inr b" "res_key AKSNodeClasses b = ([], n)"
    using aks_mutation.idempotent [OF assms(2)] aks_mutation.keeps_key [OF assms(2)] assms(3) by simp_all
  show "exec (steady ans) (CreateOrUpdate Hosted AKSNodeClasses (new_aks_nodeclass n) (aks_mutate nodeClass hcp s)) ()
      = (Inr (OperationResultNone, b), ())"
    and "calls (steady ans) (CreateOrUpdate Hosted AKSNodeClasses (new_aks_nodeclass n) (aks_mutate nodeClass hcp s)) ()
      = [(Get Hosted KAKSNodeClass [] n, RObj (OAKSNodeClass b))]"
    using exec_CreateOrUpdate_unchanged [where srv = "steady ans" and t = Hosted and r = AKSNodeClasses and
        a = "new_aks_nodeclass n" and w = "()" and x = "OAKSNodeClass b" and w' = "()" and existing = b and
        f = "aks_mutate nodeClass hcp s" and b = b] assms(1) b k by simp_all
qed

lemma steady_status_unchanged:
  assumes "distinct (map cond_Type (aks_Conditions aks))"
    and "ast_Conditions (anc_Status nc) = SyncConditions earlier cs (aks_Conditions aks) (md_Generation (anc_Meta nc))"
  shows "azure_reconcileStatus now nc aks = Ret (Inr ())"
  using sync_again [OF assms(1)] by (simp add: azure_reconcileStatus_def Let_def assms(2))


section \<open>Properties\<close>

text \<open>The Azure finalizer comes off last. A patch that removes the finalizer is sent only for a
  NodeClass being deleted, with an optimistic lock, and after a Delete of its AKSNodeClass was answered
  with not found.\<close>

theorem azure_finalizer_removed_last:
  assumes "runs (azure_Reconcile now namespace ns n) tr y"
    and "tr = t @ (Patch tgt lock (OOpenShiftAzureNodeClass old) (OOpenShiftAzureNodeClass new), x) # u"
    and "ContainsFinalizer (anc_Meta old) azure_finalizer"
    and "\<not> ContainsFinalizer (anc_Meta new) azure_finalizer"
  shows "lock \<and> being_deleted (anc_Meta old) \<and> aks_gone t (md_Name (anc_Meta old))"
  using azure_run_guard [OF assms(1,2)] assms(3,4)
  by (auto simp: azure_guard_def)

text \<open>Azure creates under the finalizer. An AKSNodeClass is created or updated only when the
  finalizer was on the NodeClass as it was read, or has been added successfully.\<close>

theorem azure_created_under_finalizer:
  assumes "runs (azure_Reconcile now namespace ns n) tr y"
    and "tr = t @ (q, x) # u"
    and "q = Create tgt (OAKSNodeClass b) \<or> q = Update tgt (OAKSNodeClass b)"
  shows "tgt = Hosted \<and> azure_finalizer_present t"
  using azure_run_guard [OF assms(1,2)] assms(3) by (auto simp: azure_guard_def)

text \<open>The AKSNodeClass has been filled in before.\<close>

definition aks_populated :: "aks_nodeclass \<Rightarrow> bool" where
  "aks_populated aks \<longleftrightarrow> aks_UserData (aks_Spec aks) \<noteq> None \<and> aks_MarketplaceImage (aks_Spec aks) \<noteq> None"

text \<open>C23: rollout control on Azure. However often an AKSNodeClass that has user data and an image is
  reconciled while the control plane upgrades and its NodeClass has no version of its own, from whatever
  Secrets and versions of the NodeClass and the HostedControlPlane, it keeps both: no node is replaced.
  Without an upgrade, for a NodeClass with a version, or before it has been filled in, a reconcile sets the
  user data of the Secret and the image of its labels.\<close>

theorem azure_rollout_control:
  assumes "\<forall>(nodeClass, hcp, s)\<in>set steps.
      as_Version (anc_Spec nodeClass) = [] \<and> upgrade_in_progress (hcp_ControlPlaneVersion hcp)"
    and "aks_populated aks" and "successive (\<lambda>(nodeClass, hcp, s). aks_mutate nodeClass hcp s) steps aks = Inr b"
    and "as_Version (anc_Spec nodeClass) \<noteq> [] \<or> \<not> upgrade_in_progress (hcp_ControlPlaneVersion hcp) \<or> \<not> aks_populated aks'"
    and "aks_mutate nodeClass hcp s aks' = Inr b'"
  shows "aks_UserData (aks_Spec b) = aks_UserData (aks_Spec aks) \<and>
     aks_MarketplaceImage (aks_Spec b) = aks_MarketplaceImage (aks_Spec aks) \<and>
     aks_UserData (aks_Spec b') = Some (map_get (sec_Data s) ''value'') \<and>
     aks_MarketplaceImage (aks_Spec b') = Some (marketplaceImageFromUserDataSecret s)"
proof -
  have kept: "aks_UserData (aks_Spec b) = aks_UserData (aks_Spec aks) \<and>
      aks_MarketplaceImage (aks_Spec b) = aks_MarketplaceImage (aks_Spec aks)"
    using assms(1-3)
  proof (induction steps arbitrary: aks)
    case Nil
    then show ?case by simp
  next
    case (Cons x steps)
    obtain nodeClass hcp s where x: "x = (nodeClass, hcp, s)" by (cases x)
    from Cons.prems(3) obtain c where c: "aks_mutate nodeClass hcp s aks = Inr c"
      "successive (\<lambda>(nodeClass, hcp, s). aks_mutate nodeClass hcp s) steps c = Inr b"
      by (auto simp: x split: sum.splits)
    have "WaitsForControlPlaneUpgrade hcp (as_Version (anc_Spec nodeClass))"
      using Cons.prems(1) by (simp add: x waits_for_upgrade_iff)
    with c(1) Cons.prems(2) have "aks_UserData (aks_Spec c) = aks_UserData (aks_Spec aks)"
      "aks_MarketplaceImage (aks_Spec c) = aks_MarketplaceImage (aks_Spec aks)"
      by (auto simp: aks_mutate_def Let_def aks_populated_def split: sum.splits)
    with Cons.IH [of c] Cons.prems(1,2) c(2) show ?case by (simp add: aks_populated_def)
  qed
  have "\<not> (WaitsForControlPlaneUpgrade hcp (as_Version (anc_Spec nodeClass)) \<and>
      aks_UserData (aks_Spec aks') \<noteq> None \<and> aks_MarketplaceImage (aks_Spec aks') \<noteq> None)"
    using assms(4) by (auto simp: waits_for_upgrade_iff aks_populated_def)
  with assms(5) kept show ?thesis by (auto simp: aks_mutate_def Let_def split: sum.splits if_splits)
qed

text \<open>C36: the Azure reconciler comes to rest. When the NodeClass carries the finalizer and the
  conditions of an earlier sync, the AKSNodeClass is one the mutation produced, and the servers keep
  answering the same, a reconcile at any time succeeds without a single write.\<close>

theorem azure_settled:
  assumes "ans (Get Hosted KOpenShiftAzureNodeClass ns n) = RObj (OOpenShiftAzureNodeClass nc)"
    and "\<not> being_deleted (anc_Meta nc)" and "ContainsFinalizer (anc_Meta nc) azure_finalizer"
    and "ans (List Mgmt KHostedControlPlane (Some namespace) []) = RList [OHostedControlPlane hcp]"
    and "ans (List Mgmt KSecret (Some namespace) karpenterSecretSelector) = RList (map OSecret secrets)"
    and "filter (user_data_secret_of namespace (md_Name (anc_Meta nc))) secrets = [s]"
    and "ans (Get Hosted KAKSNodeClass [] (md_Name (anc_Meta nc))) = RObj (OAKSNodeClass b)"
    and "aks_mutate nc hcp s a = Inr b" and "res_key AKSNodeClasses a = ([], md_Name (anc_Meta nc))"
    and "distinct (map cond_Type (aks_Conditions b))"
    and "ast_Conditions (anc_Status nc) = SyncConditions earlier cs (aks_Conditions b) (md_Generation (anc_Meta nc))"
  shows "fst (exec (steady ans) (azure_Reconcile now namespace ns n) ()) = Inr 0 \<and>
     (\<forall>(q, _)\<in>set (calls (steady ans) (azure_Reconcile now namespace ns n) ()). \<not> is_write q)"
proof -
  have l: "unwrap_all Secrets (map OSecret secrets) = Some secrets"
    using secrets.unwrap_all_map [of secrets] by simp
  note ev = azure_Reconcile_def call_defs azure_ensureFinalizer_def azure_reconcileNormal_def
    GetHostedControlPlane_def GetUserDataSecret_def reconcileAKSNodeClass_def
    exec_bind exec_bindE exec_wrapE calls_bind calls_bindE calls_wrapE
  show ?thesis
    using assms(2,3)
    by (simp add: ev assms(1,4-7) l steady_aks_unchanged [where ans = ans, OF assms(7-9)]
        steady_status_unchanged [OF assms(10,11)])
qed


section \<open>Witnesses\<close>

abbreviation azure_example :: "time option \<Rightarrow> openshift_azure_nodeclass" where
  "azure_example deleted \<equiv> (new_openshift_azure_nodeclass ''n'')
     \<lparr>anc_Meta := (new_meta [] ''n'')\<lparr>md_Finalizers := [azure_finalizer], md_DeletionTimestamp := deleted\<rparr>\<rparr>"

abbreviation azure_removal :: req where
  "azure_removal \<equiv> Patch Hosted True (OOpenShiftAzureNodeClass (azure_example (Some 1)))
     (OOpenShiftAzureNodeClass ((azure_example (Some 1))
       \<lparr>anc_Meta := RemoveFinalizer (anc_Meta (azure_example (Some 1))) azure_finalizer\<rparr>))"

lemma runs_azure_removal:
  "runs (azure_Reconcile 0 ''ns'' [] ''n'')
     ([(Get Hosted KOpenShiftAzureNodeClass [] ''n'', RObj (OOpenShiftAzureNodeClass (azure_example (Some 1)))),
       (Delete Hosted KAKSNodeClass [] ''n'', RErr NotFound [])] @ (azure_removal, RErr Conflict []) # [])
     (Inl (EWrap ''removing finalizer: '' (EApi Conflict []) []))"
  by (simp add: azure_Reconcile_def call_defs azure_reconcileDelete_def being_deleted_def ContainsFinalizer_def)

lemma azure_finalizer_removed_last_witness:
  "aks_gone [(Get Hosted KOpenShiftAzureNodeClass [] ''n'', RObj (OOpenShiftAzureNodeClass (azure_example (Some 1)))),
       (Delete Hosted KAKSNodeClass [] ''n'', RErr NotFound [])] ''n''"
  using azure_finalizer_removed_last [OF runs_azure_removal refl]
  by (simp add: ContainsFinalizer_def RemoveFinalizer_def)

abbreviation azure_secret :: secret where
  "azure_secret \<equiv>
     \<lparr>sec_Meta = (new_meta ''ns'' ''s'')
        \<lparr>md_Annotations := [(TokenSecretNodePoolAnnotation, ''ns/n-karpenter'')]\<rparr>,
      sec_Data = [(''value'', ''ignition'')]\<rparr>"

lemma azure_secret_selected: "user_data_secret_of ''ns'' ''n'' azure_secret"
  by (simp add: user_data_secret_of_def is_token_secret_def karpenterNodePoolName_def map_get_def)

lemma azure_example_mutate:
  "\<exists>b. aks_mutate (azure_example None) (new_hcp ''ns'' ''h'') azure_secret (new_aks_nodeclass ''n'') = Inr b \<and>
     res_key AKSNodeClasses b = ([], ''n'') \<and> aks_Conditions b = []"
  by (simp add: aks_mutate_def Let_def SetControllerReference_def validateOwner_def GetControllerOf_def
      new_aks_nodeclass_def new_openshift_azure_nodeclass_def res_key_def)

abbreviation azure_creation_prefix :: "(req \<times> resp) list" where
  "azure_creation_prefix \<equiv>
     [(Get Hosted KOpenShiftAzureNodeClass [] ''n'', RObj (OOpenShiftAzureNodeClass (azure_example None))),
      (List Mgmt KHostedControlPlane (Some ''ns'') [], RList [OHostedControlPlane (new_hcp ''ns'' ''h'')]),
      (List Mgmt KSecret (Some ''ns'') karpenterSecretSelector, RList [OSecret azure_secret]),
      (Get Hosted KAKSNodeClass [] ''n'', RErr NotFound [])]"

lemma runs_azure_creation:
  assumes m: "aks_mutate (azure_example None) (new_hcp ''ns'' ''h'') azure_secret (new_aks_nodeclass ''n'') = Inr b"
    and kb: "res_key AKSNodeClasses b = ([], ''n'')"
  shows "runs (azure_Reconcile 0 ''ns'' [] ''n'')
     (azure_creation_prefix @ (Create Hosted (OAKSNodeClass b), RErr OtherReason []) # [])
     (Inl (EWrap ''reconciling AKSNodeClass: '' (EApi OtherReason []) []))"
proof -
  have k: "res_key AKSNodeClasses (new_aks_nodeclass ''n'') = ([], ''n'')"
    by (simp add: res_key_def new_aks_nodeclass_def)
  show ?thesis
    by (simp add: azure_Reconcile_def GetHostedControlPlane_def GetUserDataSecret_def call_defs
        azure_ensureFinalizer_def azure_reconcileNormal_def reconcileAKSNodeClass_def CreateOrUpdate_def
        k mutate_def m kb being_deleted_def ContainsFinalizer_def azure_secret_selected Let_def)
qed

lemma azure_created_under_finalizer_witness: "azure_finalizer_present azure_creation_prefix"
proof -
  obtain b where "aks_mutate (azure_example None) (new_hcp ''ns'' ''h'') azure_secret (new_aks_nodeclass ''n'') = Inr b"
    "res_key AKSNodeClasses b = ([], ''n'')" using azure_example_mutate by blast
  from azure_created_under_finalizer [OF runs_azure_creation [OF this] refl, of Hosted b]
  show ?thesis by simp
qed

lemma azure_rollout_control_witness:
  "\<exists>b b'. aks_mutate (azure_example None) (new_hcp ''ns'' ''h'') azure_secret (new_aks_nodeclass ''n'') = Inr b \<and>
     aks_mutate (azure_example None) ((new_hcp ''ns'' ''h'')\<lparr>hcp_ControlPlaneVersion := upgrading_version\<rparr>)
       (azure_secret\<lparr>sec_Data := []\<rparr>) b = Inr b' \<and> aks_UserData (aks_Spec b') = Some ''ignition''"
proof -
  let ?nc = "azure_example None" and ?hcp = "new_hcp ''ns'' ''h''" and ?s = "azure_secret\<lparr>sec_Data := []\<rparr>"
  let ?u = "?hcp\<lparr>hcp_ControlPlaneVersion := upgrading_version\<rparr>"
  obtain b where b: "aks_mutate ?nc ?hcp azure_secret (new_aks_nodeclass ''n'') = Inr b"
    using azure_example_mutate by blast
  have "aks_mutate ?nc ?hcp azure_secret b = Inr b" by (rule aks_mutation.idempotent [OF b])
  then obtain b' where b': "aks_mutate ?nc ?u ?s b = Inr b'"
    by (auto simp: aks_mutate_def Let_def split: sum.splits)
  have new: "\<not> aks_populated (new_aks_nodeclass ''n'')"
    by (simp add: aks_populated_def new_aks_nodeclass_def zero_aks_spec_def)
  have "aks_populated b" using b by (auto simp: aks_mutate_def Let_def aks_populated_def split: sum.splits if_splits)
  moreover have "\<forall>(nodeClass, hcp, s)\<in>set [(?nc, ?u, ?s)].
      as_Version (anc_Spec nodeClass) = [] \<and> upgrade_in_progress (hcp_ControlPlaneVersion hcp)"
    using upgrading_version by (simp add: new_openshift_azure_nodeclass_def zero_openshift_azure_spec_def)
  ultimately have "aks_UserData (aks_Spec b') = aks_UserData (aks_Spec b) \<and>
      aks_UserData (aks_Spec b) = Some (map_get (sec_Data azure_secret) ''value'')"
    using azure_rollout_control [of "[(?nc, ?u, ?s)]" b b' ?nc ?hcp "new_aks_nodeclass ''n''" azure_secret b] b b' new
    by simp
  with b b' show ?thesis by (auto simp: map_get_def)
qed

text \<open>A steady server: the NodeClass reports that its version is not resolved.\<close>

definition azure_settled_example :: openshift_azure_nodeclass where
  "azure_settled_example = (azure_example None)
     \<lparr>anc_Status := (anc_Status (azure_example None))\<lparr>ast_Conditions := SyncConditions 0 [] [] 0\<rparr>\<rparr>"

definition azure_answers :: "aks_nodeclass \<Rightarrow> req \<Rightarrow> resp" where
  "azure_answers b q =
     (case q of
        Get _ k _ _ \<Rightarrow>
          if k = KAKSNodeClass then RObj (OAKSNodeClass b)
          else RObj (OOpenShiftAzureNodeClass azure_settled_example)
      | List _ k _ _ \<Rightarrow>
          if k = KSecret then RList [OSecret azure_secret]
          else RList [OHostedControlPlane (new_hcp ''ns'' ''h'')]
      | _ \<Rightarrow> ROk)"

lemma azure_settled_example_simps:
  "anc_Meta azure_settled_example = (new_meta [] ''n'')\<lparr>md_Finalizers := [azure_finalizer]\<rparr>"
  "ast_Conditions (anc_Status azure_settled_example) = SyncConditions 0 [] [] 0"
  by (simp_all add: azure_settled_example_def new_meta_def)

lemma azure_settled_witness:
  "\<exists>b. fst (exec (steady (azure_answers b)) (azure_Reconcile 9 ''ns'' [] ''n'') ()) = Inr 0"
proof -
  obtain b where b: "aks_mutate azure_settled_example (new_hcp ''ns'' ''h'') azure_secret (new_aks_nodeclass ''n'') = Inr b"
    and c: "aks_Conditions b = []"
    by (simp add: aks_mutate_def Let_def SetControllerReference_def validateOwner_def GetControllerOf_def
      new_aks_nodeclass_def azure_settled_example_simps)
  have n: "md_Name (anc_Meta azure_settled_example) = ''n''" "md_Generation (anc_Meta azure_settled_example) = 0"
    by (simp_all add: azure_settled_example_simps new_meta_def)
  have k: "res_key AKSNodeClasses (new_aks_nodeclass ''n'') = ([], ''n'')"
    by (simp add: res_key_def new_aks_nodeclass_def)
  have "fst (exec (steady (azure_answers b)) (azure_Reconcile 9 ''ns'' [] ''n'') ()) = Inr 0 \<and>
     (\<forall>(q, _)\<in>set (calls (steady (azure_answers b)) (azure_Reconcile 9 ''ns'' [] ''n'') ()). \<not> is_write q)"
  proof (rule azure_settled)
    show "azure_answers b (Get Hosted KOpenShiftAzureNodeClass [] ''n'') = RObj (OOpenShiftAzureNodeClass azure_settled_example)"
      "azure_answers b (List Mgmt KHostedControlPlane (Some ''ns'') []) = RList [OHostedControlPlane (new_hcp ''ns'' ''h'')]"
      "azure_answers b (List Mgmt KSecret (Some ''ns'') karpenterSecretSelector) = RList (map OSecret [azure_secret])"
      "azure_answers b (Get Hosted KAKSNodeClass [] (md_Name (anc_Meta azure_settled_example))) = RObj (OAKSNodeClass b)"
      by (simp_all add: azure_answers_def)
    show "\<not> being_deleted (anc_Meta azure_settled_example)"
      "ContainsFinalizer (anc_Meta azure_settled_example) azure_finalizer"
      by (simp_all add: azure_settled_example_simps being_deleted_def ContainsFinalizer_def)
    show "filter (user_data_secret_of ''ns'' (md_Name (anc_Meta azure_settled_example))) [azure_secret] = [azure_secret]"
      unfolding n by (simp only: filter.simps azure_secret_selected if_True)
    show "res_key AKSNodeClasses (new_aks_nodeclass ''n'') = ([], md_Name (anc_Meta azure_settled_example))"
      by (simp add: k n)
    show "ast_Conditions (anc_Status azure_settled_example) =
        SyncConditions 0 [] (aks_Conditions b) (md_Generation (anc_Meta azure_settled_example))"
      by (simp add: azure_settled_example_simps c new_meta_def)
  qed (simp_all add: b c)
  then show ?thesis by blast
qed

end
