(* ===== verification/Azure_Vap.thy ===== *)
theory Azure_Vap
  imports Ec2_Controller
begin

text \<open>
  \<^verbatim>\<open>pkg/controllers/nodeclass/azure/vap/controller.go\<close>: the admission policy of the hosted
  cluster that lets only the operator change the spec of an AKSNodeClass, and its binding. Unlike the
  EC2 controller, which sets three fields of the policy, this one replaces both specs as a whole.
\<close>

abbreviation vapName :: string where "vapName \<equiv> ''karpenter.aksnodeclass.hypershift.io''"
abbreviation vapBindingName :: string where "vapBindingName \<equiv> ''karpenter-binding.aksnodeclass.hypershift.io''"

definition vapSpec :: vap_spec where
  "vapSpec =
     \<lparr>vap_ParamKind = None,
      vap_MatchConstraints = Some (match_all ''karpenter.azure.com'' ''*'' ''aksnodeclasses''),
      vap_Validations = [spec_unchanged
        (''AKSNodeClass resource can'' @ [CHR 0x27] @ ''t be created/updated/deleted directly, please use OpenShiftAzureNodeClass resource instead'')],
      vap_FailurePolicy = None, vap_AuditAnnotations = [],
      vap_MatchConditions = [exclude_hcco_user], vap_Variables = []\<rparr>"

definition vapBindingSpec :: vap_binding_spec where
  "vapBindingSpec =
     \<lparr>vapb_PolicyName = vapName, vapb_ParamRef = None, vapb_MatchResources = None,
      vapb_ValidationActions = [''Deny'']\<rparr>"

definition azure_vap_mutate :: "validating_admission_policy mutate_fn" where
  "azure_vap_mutate p = Inr (p\<lparr>vap_Spec := vapSpec\<rparr>)"

definition azure_vap_binding_mutate :: "vap_binding mutate_fn" where
  "azure_vap_binding_mutate b = Inr (b\<lparr>vapb_Spec := vapBindingSpec\<rparr>)"

definition azure_vap_Reconcile :: "result io" where
  "azure_vap_Reconcile =
     bindE (wrapE (''reconciling ValidatingAdmissionPolicy '' @ vapName @ '': '')
              (CreateOrUpdate Hosted VAPs (new_vap vapName) azure_vap_mutate)) (\<lambda>_.
     bindE (wrapE (''reconciling ValidatingAdmissionPolicyBinding '' @ vapBindingName @ '': '')
              (CreateOrUpdate Hosted VAPBindings (new_vap_binding vapBindingName) azure_vap_binding_mutate)) (\<lambda>_.
     done_result))"

definition vap_isManaged :: "object_meta \<Rightarrow> bool" where
  "vap_isManaged m \<longleftrightarrow> md_Name m = vapName \<or> md_Name m = vapBindingName"

interpretation azure_vap_mutation: mutation VAPs azure_vap_mutate
  by unfold_locales (auto simp: azure_vap_mutate_def res_key_def)

interpretation azure_vap_binding_mutation: mutation VAPBindings azure_vap_binding_mutate
  by unfold_locales (auto simp: azure_vap_binding_mutate_def res_key_def)

interpretation ec2_vap_mutation: mutation VAPs ec2_vap_mutate
  by unfold_locales (auto simp: ec2_vap_mutate_def res_key_def)

interpretation ec2_vap_binding_mutation: mutation VAPBindings "ec2_vap_binding_mutate policyName" for policyName
  by unfold_locales (auto simp: ec2_vap_binding_mutate_def res_key_def)

lemma new_vap_keys [simp]:
  "res_key VAPs (new_vap n) = ([], n)" "res_key VAPBindings (new_vap_binding n) = ([], n)"
  by (simp_all add: res_key_def new_vap_def new_vap_binding_def)


section \<open>What a policy denies\<close>

text \<open>
  The admission control of the API server is not part of the repository, but the meaning of the two
  objects is documented with the types the operator fills in
  (\<^verbatim>\<open>admissionregistration.k8s.io/v1\<close>), and is modelled here for a policy, a
  binding and a request. An \<open>admission_server\<close> is what the documentation leaves to the server,
  and is a parameter: the evaluation of an expression with the policy's variables and a parameter object
  (\<open>None\<close> is an evaluation error), whether an audit annotation evaluates, the parameter
  objects a parameter kind and reference select (\<open>None\<close> is a misconfiguration), and the two
  label selectors. A request is described as the policy sees it: under the default match policy the API
  server converts one made in another version to the version of the rule. The specs are those of the old
  and of the new object; there is none before a creation or after a deletion.
\<close>

record admission_request =
  ar_Group :: string
  ar_Version :: string
  ar_Resource :: string
  ar_Subresource :: string
  ar_Operation :: string
  ar_Namespace :: string
  ar_Name :: string
  ar_User :: string
  ar_OldSpec :: "string option"
  ar_NewSpec :: "string option"

record admission_server =
  as_Cel :: "string list \<Rightarrow> string \<Rightarrow> string option \<Rightarrow> admission_request \<Rightarrow> bool option"
  as_Audit :: "string \<Rightarrow> string option \<Rightarrow> admission_request \<Rightarrow> bool"
  as_Params :: "string \<Rightarrow> string \<Rightarrow> admission_request \<Rightarrow> string list option"
  as_Namespace :: "string \<Rightarrow> admission_request \<Rightarrow> bool"
  as_Object :: "string \<Rightarrow> admission_request \<Rightarrow> bool"

definition listed_or_all :: "string list \<Rightarrow> string \<Rightarrow> bool" where
  "listed_or_all xs x \<longleftrightarrow> ''*'' \<in> set xs \<or> x \<in> set xs"

text \<open>A resource of a rule is a resource, which does not stand for its subresources, or a resource
  and a subresource separated by a slash; a star stands for any.\<close>

definition resource_matches :: "string \<Rightarrow> admission_request \<Rightarrow> bool" where
  "resource_matches x r \<longleftrightarrow>
     (let k = takeWhile (\<lambda>c. c \<noteq> CHR ''/'') x; sub = drop (Suc (length k)) x in
      (k = ''*'' \<or> k = ar_Resource r) \<and> (sub = ''*'' \<or> sub = ar_Subresource r))"

definition scope_matches :: "string option \<Rightarrow> admission_request \<Rightarrow> bool" where
  "scope_matches s r \<longleftrightarrow>
     (case s of None \<Rightarrow> True
      | Some x \<Rightarrow> x = ''*'' \<or> (x = ''Cluster'' \<and> ar_Namespace r = []) \<or> (x = ''Namespaced'' \<and> ar_Namespace r \<noteq> []))"

definition rule_matches :: "rule_with_operations \<Rightarrow> admission_request \<Rightarrow> bool" where
  "rule_matches rule r \<longleftrightarrow>
     listed_or_all (rule_APIGroups rule) (ar_Group r) \<and> listed_or_all (rule_APIVersions rule) (ar_Version r) \<and>
     (\<exists>x\<in>set (rule_Resources rule). resource_matches x r) \<and> listed_or_all (rule_Operations rule) (ar_Operation r) \<and>
     (rule_ResourceNames rule = [] \<or> ar_Name r \<in> set (rule_ResourceNames rule)) \<and> scope_matches (rule_Scope rule) r"

text \<open>The selectors, which match everything when unset, and the excluded rules, which take
  precedence.\<close>

definition selected :: "admission_server \<Rightarrow> match_resources \<Rightarrow> admission_request \<Rightarrow> bool" where
  "selected srv m r \<longleftrightarrow>
     (case mr_NamespaceSelector m of None \<Rightarrow> True | Some s \<Rightarrow> as_Namespace srv s r) \<and>
     (case mr_ObjectSelector m of None \<Rightarrow> True | Some s \<Rightarrow> as_Object srv s r) \<and>
     \<not> (\<exists>rule\<in>set (mr_ExcludeResourceRules m). rule_matches rule r)"

text \<open>The rules are required in a policy; a binding without rules is not constrained by them.\<close>

definition policy_matches :: "admission_server \<Rightarrow> match_resources option \<Rightarrow> admission_request \<Rightarrow> bool" where
  "policy_matches srv c r \<longleftrightarrow>
     (case c of None \<Rightarrow> False | Some m \<Rightarrow> selected srv m r \<and> (\<exists>rule\<in>set (mr_ResourceRules m). rule_matches rule r))"

definition binding_matches :: "admission_server \<Rightarrow> match_resources option \<Rightarrow> admission_request \<Rightarrow> bool" where
  "binding_matches srv c r \<longleftrightarrow>
     (case c of None \<Rightarrow> True
      | Some m \<Rightarrow> selected srv m r \<and>
          (mr_ResourceRules m = [] \<or> (\<exists>rule\<in>set (mr_ResourceRules m). rule_matches rule r)))"

text \<open>A policy never matches the two kinds of policy objects themselves.\<close>

definition policy_object_request :: "admission_request \<Rightarrow> bool" where
  "policy_object_request r \<longleftrightarrow> ar_Group r = ''admissionregistration.k8s.io'' \<and>
     (ar_Resource r = ''validatingadmissionpolicies'' \<or> ar_Resource r = ''validatingadmissionpolicybindings'')"

text \<open>The failure policy, \<^verbatim>\<open>Fail\<close> by default, is for errors and
  misconfigurations and not for validations that evaluate to false.\<close>

definition failures_deny :: "vap_spec \<Rightarrow> bool" where
  "failures_deny p \<longleftrightarrow> vap_FailurePolicy p \<noteq> Some ''Ignore''"

definition evaluation_denies :: "admission_server \<Rightarrow> vap_spec \<Rightarrow> string option \<Rightarrow> admission_request \<Rightarrow> bool" where
  "evaluation_denies srv p param r \<longleftrightarrow>
     (let cel = (\<lambda>e. as_Cel srv (vap_Variables p) e param r);
          conditions = map (\<lambda>c. cel (mc_Expression c)) (vap_MatchConditions p);
          validations = map (\<lambda>v. cel (val_Expression v)) (vap_Validations p) in
      Some False \<notin> set conditions \<and>
      (if None \<in> set conditions then failures_deny p
       else Some False \<in> set validations \<or>
         (failures_deny p \<and>
          (None \<in> set validations \<or> (\<exists>a\<in>set (vap_AuditAnnotations p). \<not> as_Audit srv a param r)))))"

text \<open>The parameters a policy is evaluated with: once without any, or with a null parameter when the
  binding names none, and otherwise once for each that is selected.\<close>

definition evaluated_with ::
  "admission_server \<Rightarrow> string option \<Rightarrow> string option \<Rightarrow> admission_request \<Rightarrow> string option list option"
where
  "evaluated_with srv kind ref r =
     (case kind of None \<Rightarrow> Some [None]
      | Some k \<Rightarrow> (case ref of None \<Rightarrow> Some [None] | Some x \<Rightarrow> map_option (map Some) (as_Params srv k x r)))"

text \<open>A policy acts through a binding that names it, and denies where the binding says so.\<close>

definition policy_denies ::
  "admission_server \<Rightarrow> validating_admission_policy \<Rightarrow> vap_binding \<Rightarrow> admission_request \<Rightarrow> bool"
where
  "policy_denies srv p b r \<longleftrightarrow>
     vapb_PolicyName (vapb_Spec b) = md_Name (vap_Meta p) \<and>
     ''Deny'' \<in> set (vapb_ValidationActions (vapb_Spec b)) \<and> \<not> policy_object_request r \<and>
     policy_matches srv (vap_MatchConstraints (vap_Spec p)) r \<and>
     binding_matches srv (vapb_MatchResources (vapb_Spec b)) r \<and>
     (case evaluated_with srv (vap_ParamKind (vap_Spec p)) (vapb_ParamRef (vapb_Spec b)) r of
        None \<Rightarrow> failures_deny (vap_Spec p)
      | Some ps \<Rightarrow> \<exists>param\<in>set ps. evaluation_denies srv (vap_Spec p) param r)"

text \<open>The two expressions, which use neither variables nor parameters, mean what they say: a
  comparison of the user name, and the old and the new object both having the same spec.\<close>

definition cel_means :: "admission_server \<Rightarrow> bool" where
  "cel_means srv \<longleftrightarrow>
     (\<forall>vs param r. as_Cel srv vs (mc_Expression exclude_hcco_user) param r =
        Some (ar_User r \<noteq> ''system:hosted-cluster-config'')) \<and>
     (\<forall>vs param r. as_Cel srv vs (val_Expression (spec_unchanged [])) param r =
        Some (ar_OldSpec r \<noteq> None \<and> ar_NewSpec r \<noteq> None \<and> ar_NewSpec r = ar_OldSpec r))"

text \<open>A change of a spec by somebody else than the hosted cluster config user: what both policies are
  for.\<close>

definition foreign_change :: "admission_request \<Rightarrow> bool" where
  "foreign_change r \<longleftrightarrow> ar_User r \<noteq> ''system:hosted-cluster-config'' \<and>
     (ar_OldSpec r = None \<or> ar_NewSpec r = None \<or> ar_NewSpec r \<noteq> ar_OldSpec r)"

lemma val_Expression_spec_unchanged [simp]:
  "val_Expression (spec_unchanged msg) =
     ''has(oldObject.spec) && has(object.spec) && object.spec == oldObject.spec''"
  by (simp add: spec_unchanged_def)

lemma policy_matches_all:
  assumes "CHR ''/'' \<notin> set k" and "k \<noteq> ''*''"
  shows "policy_matches srv (Some (match_all g v k)) r \<longleftrightarrow>
     listed_or_all [g] (ar_Group r) \<and> listed_or_all [v] (ar_Version r) \<and> ar_Resource r = k \<and> ar_Subresource r = []"
proof -
  have "\<forall>c\<in>set k. c \<noteq> CHR ''/''" using assms(1) by blast
  then have k: "takeWhile (\<lambda>c. c \<noteq> CHR ''/'') k = k" by (rule takeWhile_eq_all_conv [THEN iffD2])
  have "resource_matches k r \<longleftrightarrow> ar_Resource r = k \<and> ar_Subresource r = []"
    unfolding resource_matches_def Let_def k using assms(2) by (simp add: eq_commute [of k] eq_commute [of "[]"])
  then show ?thesis
    unfolding policy_matches_def selected_def rule_matches_def match_all_def scope_matches_def
    by (simp add: listed_or_all_def [of "[''*'']"])
qed

lemma evaluation_guarded:
  assumes "cel_means srv" and "vap_MatchConditions p = [exclude_hcco_user]"
    and "vap_Validations p = [spec_unchanged msg]" and "vap_AuditAnnotations p = []"
  shows "evaluation_denies srv p param r \<longleftrightarrow> foreign_change r"
  using assms by (auto simp: evaluation_denies_def cel_means_def foreign_change_def Let_def)

lemma listed_or_all_one: "listed_or_all [x] y \<longleftrightarrow> x = ''*'' \<or> y = x"
  by (auto simp: listed_or_all_def)

lemma denies_guarded:
  assumes "cel_means srv" and "CHR ''/'' \<notin> set k" and "k \<noteq> ''*''" and "g \<noteq> ''*''" "g \<noteq> ''admissionregistration.k8s.io''"
    and "vapb_PolicyName (vapb_Spec b) = md_Name (vap_Meta p)" "vapb_ValidationActions (vapb_Spec b) = [''Deny'']"
    and "vap_MatchConstraints (vap_Spec p) = Some (match_all g v k)"
    and "vap_MatchConditions (vap_Spec p) = [exclude_hcco_user]" "vap_Validations (vap_Spec p) = [spec_unchanged msg]"
    and "vap_ParamKind (vap_Spec p) = None" "vap_AuditAnnotations (vap_Spec p) = []"
  shows "policy_denies srv p b r \<longleftrightarrow>
     ar_Group r = g \<and> listed_or_all [v] (ar_Version r) \<and> ar_Resource r = k \<and> ar_Subresource r = [] \<and>
     binding_matches srv (vapb_MatchResources (vapb_Spec b)) r \<and> foreign_change r"
proof -
  have "\<not> policy_object_request r" if "ar_Group r = g" using that assms(5) by (simp add: policy_object_request_def)
  then show ?thesis
    unfolding policy_denies_def evaluated_with_def assms(6-8,11) policy_matches_all [OF assms(2,3)]
      listed_or_all_one [of g]
    using assms(4) by (auto simp: evaluation_guarded [OF assms(1,9,10,12)])
qed


section \<open>Properties\<close>

text \<open>The policy and its binding are in place after a successful reconcile, each as a whole: the run
  found an equal spec, or the server accepted it. The policy comes before the binding that names it.\<close>

theorem azure_vap_ensured:
  assumes "runs azure_vap_Reconcile tr (Inr x)"
  shows "\<exists>t u. tr = t @ u \<and> ensured Hosted VAPs ([], vapName) (\<lambda>p. vap_Spec p = vapSpec) t \<and>
     ensured Hosted VAPBindings ([], vapBindingName) (\<lambda>b. vapb_Spec b = vapBindingSpec) u"
proof -
  from assms obtain t u y z where tr: "tr = t @ u"
    and t: "runs (CreateOrUpdate Hosted VAPs (new_vap vapName) azure_vap_mutate) t (Inr y)"
    and u: "runs (CreateOrUpdate Hosted VAPBindings (new_vap_binding vapBindingName) azure_vap_binding_mutate) u (Inr z)"
    by (auto simp: azure_vap_Reconcile_def runs_bindE runs_wrapE)
  have "ensured Hosted VAPs ([], vapName) (\<lambda>p. vap_Spec p = vapSpec) t"
    using runs_CreateOrUpdate [OF t, where P = "\<lambda>p. vap_Spec p = vapSpec"] by (auto simp: azure_vap_mutate_def)
  moreover have "ensured Hosted VAPBindings ([], vapBindingName) (\<lambda>b. vapb_Spec b = vapBindingSpec) u"
    using runs_CreateOrUpdate [OF u, where P = "\<lambda>b. vapb_Spec b = vapBindingSpec"]
    by (auto simp: azure_vap_binding_mutate_def)
  ultimately show ?thesis using tr by blast
qed

text \<open>What the Azure policy denies, whatever was found under its name: a request is denied exactly
  when it touches an AKSNodeClass, in any API version and by a user other than the hosted cluster config
  user, and creates it, deletes it or changes its spec.\<close>

theorem azure_vap_denies:
  assumes "cel_means srv" and "azure_vap_mutate found = Inr p" and "md_Name (vap_Meta p) = vapName"
    and "azure_vap_binding_mutate bound = Inr b"
  shows "policy_denies srv p b r \<longleftrightarrow>
     ar_Group r = ''karpenter.azure.com'' \<and> ar_Resource r = ''aksnodeclasses'' \<and> ar_Subresource r = [] \<and>
     foreign_change r"
proof -
  have p: "vap_Spec p = vapSpec" and b: "vapb_Spec b = vapBindingSpec"
    using assms(2,4) by (auto simp: azure_vap_mutate_def azure_vap_binding_mutate_def)
  show ?thesis
    by (subst denies_guarded [OF assms(1), of "''aksnodeclasses''" "''karpenter.azure.com''" _ _ "''*''"])
      (auto simp: p b assms(3) vapSpec_def vapBindingSpec_def listed_or_all_def binding_matches_def)
qed

text \<open>What a run leaves in place: the object it had the server accept, or one it found to be equal to
  what it wants. It starts from what it found under the name, or from nothing.\<close>

definition stands :: "target \<Rightarrow> 'a resource \<Rightarrow> 'a \<Rightarrow> (req \<times> resp) list \<Rightarrow> bool" where
  "stands t r b tr \<longleftrightarrow>
     (\<exists>x. (Create t (res_wrap r b), RObj x) \<in> set tr \<or> (Update t (res_wrap r b), RObj x) \<in> set tr) \<or>
     (\<exists>a x. (Get t (res_kind r) (fst (res_key r b)) (snd (res_key r b)), RObj x) \<in> set tr \<and>
        res_unwrap r x = Some a \<and> semantic_equal r a b)"

definition found_or_new :: "target \<Rightarrow> 'a resource \<Rightarrow> 'a \<Rightarrow> 'a \<Rightarrow> (req \<times> resp) list \<Rightarrow> bool" where
  "found_or_new t r a c tr \<longleftrightarrow> c = a \<or>
     (\<exists>x. (Get t (res_kind r) (fst (res_key r a)) (snd (res_key r a)), RObj x) \<in> set tr \<and> res_unwrap r x = Some c)"

text \<open>The server answers a write with the object of the same name.\<close>

definition writes_keep_key :: "'a resource \<Rightarrow> (req \<times> resp) list \<Rightarrow> bool" where
  "writes_keep_key r tr \<longleftrightarrow>
     (\<forall>t a x c. ((Create t (res_wrap r a), RObj x) \<in> set tr \<or> (Update t (res_wrap r a), RObj x) \<in> set tr) \<and>
        res_unwrap r x = Some c \<longrightarrow> res_key r c = res_key r a)"

lemma stands_mono: "stands t r b tr \<Longrightarrow> set tr \<subseteq> set tr' \<Longrightarrow> stands t r b tr'"
  unfolding stands_def by blast

lemma found_or_new_mono: "found_or_new t r a c tr \<Longrightarrow> set tr \<subseteq> set tr' \<Longrightarrow> found_or_new t r a c tr'"
  unfolding found_or_new_def by blast

lemma runs_CreateOrUpdate_from:
  assumes "runs (CreateOrUpdate t r a f) tr (Inr (op, c))"
  obtains found b where "found_or_new t r a found tr" "f found = Inr b" "stands t r b tr"
    "res_key r b = res_key r a" "writes_keep_key r tr \<Longrightarrow> res_key r c = res_key r a"
proof -
  let ?get = "Get t (res_kind r) (fst (res_key r a)) (snd (res_key r a))"
  from assms(1) obtain g u where tr: "tr = (?get, g) # u"
    by (auto simp: CreateOrUpdate_def Let_def c_get_def runs_Call_iff)
  show thesis
  proof (cases "as_object r g")
    case (Inl e)
    with assms(1) tr obtain b where b: "f a = Inr b" "res_key r b = res_key r a"
      and "runs (bindE (c_create t r b) (\<lambda>c. Ret (Inr (OperationResultCreated, c)))) u (Inr (op, c))"
      by (auto simp: CreateOrUpdate_def Let_def c_get_def mutate_Inr split: if_splits sum.splits)
    then obtain x where u: "u = [(Create t (res_wrap r b), RObj x)]" "res_unwrap r x = Some c"
      by (auto simp: c_create_def runs_bindE runs_Call_iff as_object_Inr)
    show thesis
    proof (rule that [of a b])
      show "writes_keep_key r tr \<Longrightarrow> res_key r c = res_key r a"
        using u b(2) unfolding writes_keep_key_def tr by auto
    qed (use b u tr in \<open>auto simp: found_or_new_def stands_def\<close>)
  next
    case (Inr d)
    with assms(1) tr obtain b where b: "f d = Inr b" "res_key r b = res_key r a"
      and u: "runs (if semantic_equal r d b then Ret (Inr (OperationResultNone, b))
         else bindE (c_update t r b) (\<lambda>c. Ret (Inr (OperationResultUpdated, c)))) u (Inr (op, c))"
      by (auto simp: CreateOrUpdate_def Let_def c_get_def mutate_Inr split: sum.splits)
    from Inr obtain z where z: "g = RObj z" "res_unwrap r z = Some d" by (auto simp: as_object_Inr)
    have found: "found_or_new t r a d tr" using z tr by (auto simp: found_or_new_def)
    show thesis
    proof (cases "semantic_equal r d b")
      case True
      with u z b tr have "c = b" "stands t r b tr" by (auto simp: stands_def)
      with found b that show thesis by blast
    next
      case False
      with u obtain x where u: "u = [(Update t (res_wrap r b), RObj x)]" "res_unwrap r x = Some c"
        by (auto simp: c_update_def runs_bindE runs_Call_iff as_object_Inr)
      then have "stands t r b tr" by (auto simp: stands_def tr)
      moreover have "writes_keep_key r tr \<Longrightarrow> res_key r c = res_key r a"
        using u b(2) unfolding writes_keep_key_def tr by auto
      ultimately show thesis using found b that by blast
    qed
  qed
qed

text \<open>C40: what the EC2 policy denies. A successful reconcile of the policy and its binding leaves both
  in place, the binding bound to the policy. Whatever failure policy, variables, parameter reference and
  labels the reconcile found there and kept, when the policy it started from has no parameter kind and
  no audit annotations, which the operator never sets, they deny exactly the requests on an EC2NodeClass
  of version v1, not on its status, by a user other than the hosted cluster config user, that create it,
  delete it or change its spec, among those selected by the match resources of the binding that was
  found, which the reconcile keeps as well. A binding that the operator creates selects every
  request.\<close>

theorem ec2_vap_denies:
  assumes "cel_means srv" and "runs ec2_reconcileVAP tr (Inr ())" and "writes_keep_key VAPs tr"
  shows "\<exists>found bound p b.
     found_or_new Hosted VAPs (new_vap ec2_vap_name) found tr \<and>
     found_or_new Hosted VAPBindings (new_vap_binding ec2_vap_binding_name) bound tr \<and>
     stands Hosted VAPs p tr \<and> stands Hosted VAPBindings b tr \<and>
     (vap_ParamKind (vap_Spec found) = None \<and> vap_AuditAnnotations (vap_Spec found) = [] \<longrightarrow>
      (\<forall>r. policy_denies srv p b r \<longleftrightarrow>
         ar_Group r = ''karpenter.k8s.aws'' \<and> ar_Version r = ''v1'' \<and> ar_Resource r = ''ec2nodeclasses'' \<and>
         ar_Subresource r = [] \<and> foreign_change r \<and>
         binding_matches srv (vapb_MatchResources (vapb_Spec bound)) r))"
proof -
  from assms(2) obtain t u vap op op' c where tr: "tr = t @ u"
    and t: "runs (CreateOrUpdate Hosted VAPs (new_vap ec2_vap_name) ec2_vap_mutate) t (Inr (op, vap))"
    and u: "runs (CreateOrUpdate Hosted VAPBindings (new_vap_binding ec2_vap_binding_name)
      (ec2_vap_binding_mutate (md_Name (vap_Meta vap)))) u (Inr (op', c))"
    by (auto simp: ec2_reconcileVAP_def runs_bindE split: prod.splits)
  have keep: "writes_keep_key VAPs t" using assms(3) by (auto simp: writes_keep_key_def tr)
  from runs_CreateOrUpdate_from [OF t] keep obtain found p where
    p: "found_or_new Hosted VAPs (new_vap ec2_vap_name) found t" "ec2_vap_mutate found = Inr p"
      "stands Hosted VAPs p t" "res_key VAPs p = ([], ec2_vap_name)"
    and vap: "res_key VAPs vap = ([], ec2_vap_name)" by (metis new_vap_keys(1))
  from runs_CreateOrUpdate_from [OF u] obtain bound b where
    b: "found_or_new Hosted VAPBindings (new_vap_binding ec2_vap_binding_name) bound u"
      "ec2_vap_binding_mutate (md_Name (vap_Meta vap)) bound = Inr b" "stands Hosted VAPBindings b u" by metis
  have "md_Name (vap_Meta vap) = md_Name (vap_Meta p)" using p(4) vap by (simp add: res_key_def)
  then have "policy_denies srv p b r \<longleftrightarrow>
         ar_Group r = ''karpenter.k8s.aws'' \<and> ar_Version r = ''v1'' \<and> ar_Resource r = ''ec2nodeclasses'' \<and>
         ar_Subresource r = [] \<and> foreign_change r \<and>
         binding_matches srv (vapb_MatchResources (vapb_Spec bound)) r"
    if "vap_ParamKind (vap_Spec found) = None" "vap_AuditAnnotations (vap_Spec found) = []" for r
    using p(2) b(2) that
    by (subst denies_guarded [OF assms(1), of "''ec2nodeclasses''" "''karpenter.k8s.aws''" _ _ "''v1''"])
      (auto simp: ec2_vap_mutate_def ec2_vap_binding_mutate_def listed_or_all_def)
  moreover have sub: "set t \<subseteq> set tr" "set u \<subseteq> set tr" by (auto simp: tr)
  have "found_or_new Hosted VAPs (new_vap ec2_vap_name) found tr" "stands Hosted VAPs p tr"
    "found_or_new Hosted VAPBindings (new_vap_binding ec2_vap_binding_name) bound tr" "stands Hosted VAPBindings b tr"
    using p(1,3) b(1,3) sub by (auto intro: stands_mono found_or_new_mono)
  ultimately show ?thesis by blast
qed


section \<open>Witnesses\<close>

definition server_example :: admission_server where
  "server_example =
     \<lparr>as_Cel = (\<lambda>vs e param r.
        if e = mc_Expression exclude_hcco_user then Some (ar_User r \<noteq> ''system:hosted-cluster-config'')
        else if e = val_Expression (spec_unchanged [])
        then Some (ar_OldSpec r \<noteq> None \<and> ar_NewSpec r \<noteq> None \<and> ar_NewSpec r = ar_OldSpec r) else None),
      as_Audit = (\<lambda>a param r. True), as_Params = (\<lambda>k x r. None),
      as_Namespace = (\<lambda>s r. True), as_Object = (\<lambda>s r. True)\<rparr>"

lemma server_example_means: "cel_means server_example"
proof -
  have "mc_Expression exclude_hcco_user \<noteq> val_Expression (spec_unchanged [])"
    by (simp add: exclude_hcco_user_def spec_unchanged_def)
  then show ?thesis by (simp add: cel_means_def server_example_def)
qed

definition user_request :: "string \<Rightarrow> string \<Rightarrow> string \<Rightarrow> admission_request" where
  "user_request g v k = \<lparr>ar_Group = g, ar_Version = v, ar_Resource = k, ar_Subresource = [],
     ar_Operation = ''UPDATE'', ar_Namespace = [], ar_Name = ''default'', ar_User = ''kube:admin'',
     ar_OldSpec = Some ''a'', ar_NewSpec = Some ''b''\<rparr>"

text \<open>A cluster with neither the policy nor the binding.\<close>

definition ec2_vap_wanted :: validating_admission_policy where
  "ec2_vap_wanted = projr (ec2_vap_mutate (new_vap ec2_vap_name))"

definition ec2_vap_binding_wanted :: vap_binding where
  "ec2_vap_binding_wanted = projr (ec2_vap_binding_mutate ec2_vap_name (new_vap_binding ec2_vap_binding_name))"

definition ec2_vap_trace :: "(req \<times> resp) list" where
  "ec2_vap_trace =
     [(Get Hosted KValidatingAdmissionPolicy [] ec2_vap_name, RErr NotFound []),
      (Create Hosted (OValidatingAdmissionPolicy ec2_vap_wanted), RObj (OValidatingAdmissionPolicy ec2_vap_wanted)),
      (Get Hosted KValidatingAdmissionPolicyBinding [] ec2_vap_binding_name, RErr NotFound []),
      (Create Hosted (OValidatingAdmissionPolicyBinding ec2_vap_binding_wanted),
       RObj (OValidatingAdmissionPolicyBinding ec2_vap_binding_wanted))]"

lemma runs_ec2_vap: "runs ec2_reconcileVAP ec2_vap_trace (Inr ())"
proof -
  have p: "ec2_vap_mutate (new_vap ec2_vap_name) = Inr ec2_vap_wanted"
    "res_key VAPs ec2_vap_wanted = ([], ec2_vap_name)" "md_Name (vap_Meta ec2_vap_wanted) = ec2_vap_name"
    by (simp_all add: ec2_vap_mutate_def ec2_vap_wanted_def new_vap_def res_key_def)
  have b: "ec2_vap_binding_mutate ec2_vap_name (new_vap_binding ec2_vap_binding_name) = Inr ec2_vap_binding_wanted"
    "res_key VAPBindings ec2_vap_binding_wanted = ([], ec2_vap_binding_name)"
    by (simp_all add: ec2_vap_binding_mutate_def ec2_vap_binding_wanted_def new_vap_binding_def res_key_def)
  show ?thesis
    by (simp add: ec2_reconcileVAP_def ec2_vap_trace_def CreateOrUpdate_def Let_def call_defs mutate_def p b)
qed

lemma ec2_vap_denies_witness:
  "runs ec2_reconcileVAP ec2_vap_trace (Inr ()) \<and>
   policy_denies server_example ec2_vap_wanted ec2_vap_binding_wanted (user_request ''karpenter.k8s.aws'' ''v1'' ''ec2nodeclasses'')"
proof -
  have "writes_keep_key VAPs ec2_vap_trace" by (simp add: writes_keep_key_def ec2_vap_trace_def)
  from ec2_vap_denies [OF server_example_means runs_ec2_vap this] obtain found bound p b where
    f: "found_or_new Hosted VAPs (new_vap ec2_vap_name) found ec2_vap_trace"
      "found_or_new Hosted VAPBindings (new_vap_binding ec2_vap_binding_name) bound ec2_vap_trace"
    and s: "stands Hosted VAPs p ec2_vap_trace" "stands Hosted VAPBindings b ec2_vap_trace"
    and d: "vap_ParamKind (vap_Spec found) = None \<and> vap_AuditAnnotations (vap_Spec found) = [] \<Longrightarrow>
      binding_matches server_example (vapb_MatchResources (vapb_Spec bound)) (user_request ''karpenter.k8s.aws'' ''v1'' ''ec2nodeclasses'') \<Longrightarrow>
      policy_denies server_example p b (user_request ''karpenter.k8s.aws'' ''v1'' ''ec2nodeclasses'')"
    by (auto simp: user_request_def foreign_change_def)
  from f have "found = new_vap ec2_vap_name" "bound = new_vap_binding ec2_vap_binding_name"
    by (auto simp: found_or_new_def ec2_vap_trace_def)
  moreover from s have "p = ec2_vap_wanted" "b = ec2_vap_binding_wanted"
    by (auto simp: stands_def ec2_vap_trace_def)
  ultimately show ?thesis
    using d runs_ec2_vap by (simp add: new_vap_def new_vap_binding_def empty_vap_spec_def empty_vap_binding_spec_def binding_matches_def)
qed

definition managed_vap :: validating_admission_policy where
  "managed_vap = (new_vap vapName)\<lparr>vap_Spec := vapSpec\<rparr>"

definition managed_vap_binding :: vap_binding where
  "managed_vap_binding = (new_vap_binding vapBindingName)\<lparr>vapb_Spec := vapBindingSpec\<rparr>"

lemma runs_azure_vap:
  "runs azure_vap_Reconcile
     [(Get Hosted KValidatingAdmissionPolicy [] vapName, RObj (OValidatingAdmissionPolicy managed_vap)),
      (Get Hosted KValidatingAdmissionPolicyBinding [] vapBindingName, RErr NotFound []),
      (Create Hosted (OValidatingAdmissionPolicyBinding managed_vap_binding),
       RObj (OValidatingAdmissionPolicyBinding managed_vap_binding))] (Inr 0)"
proof -
  have p: "azure_vap_mutate managed_vap = Inr managed_vap" "res_key VAPs managed_vap = ([], vapName)"
    by (simp_all add: azure_vap_mutate_def managed_vap_def res_key_def new_vap_def)
  have b: "azure_vap_binding_mutate (new_vap_binding vapBindingName) = Inr managed_vap_binding"
    "res_key VAPBindings managed_vap_binding = ([], vapBindingName)"
    by (simp_all add: azure_vap_binding_mutate_def managed_vap_binding_def res_key_def new_vap_binding_def)
  show ?thesis
    by (simp add: azure_vap_Reconcile_def CreateOrUpdate_def Let_def call_defs mutate_def p b)
qed

lemma azure_vap_ensured_witness:
  "\<exists>t. ensured Hosted VAPs ([], vapName) (\<lambda>p. vap_Spec p = vapSpec) t"
  using azure_vap_ensured [OF runs_azure_vap] by blast

lemma azure_vap_denies_witness:
  "policy_denies server_example managed_vap managed_vap_binding (user_request ''karpenter.azure.com'' ''v1beta1'' ''aksnodeclasses'')"
proof -
  have "azure_vap_mutate managed_vap = Inr managed_vap" "md_Name (vap_Meta managed_vap) = vapName"
    "azure_vap_binding_mutate managed_vap_binding = Inr managed_vap_binding"
    by (simp_all add: azure_vap_mutate_def azure_vap_binding_mutate_def managed_vap_def managed_vap_binding_def new_vap_def)
  from azure_vap_denies [OF server_example_means this] show ?thesis by (simp add: user_request_def foreign_change_def)
qed

end
