(* ===== verification/Default_Nodeclass.thy ===== *)
theory Default_Nodeclass
  imports Ec2_Controller
begin

text \<open>
  \<^verbatim>\<open>pkg/controllers/nodeclass/default/controller.go\<close>: the default NodeClass of a hosted
  cluster, for every platform that supplies one. The interface \<^verbatim>\<open>NodeClassProvider\<close> is the
  locale \<open>default_provider\<close>; the providers of
  \<^verbatim>\<open>pkg/cloudprovider/aws/nodeclass.go\<close> and
  \<^verbatim>\<open>pkg/cloudprovider/azure/nodeclass.go\<close> interpret it.
\<close>

abbreviation defaultNodeClassName :: string where "defaultNodeClassName \<equiv> ''default''"

text \<open>\<^verbatim>\<open>DefaultNodeClass(infraID)\<close>: the target object and its mutation, nothing when the
  platform has no default, or an error.\<close>

type_synonym 'a default_nodeclass = "string \<Rightarrow> goerr + ('a \<times> 'a mutate_fn) option"


section \<open>The providers\<close>

abbreviation managed_by_labels :: "string gomap" where
  "managed_by_labels \<equiv> [(''app.kubernetes.io/managed-by'', ''karpenter-operator'')]"

definition aws_default_mutate :: "string \<Rightarrow> openshift_ec2_nodeclass mutate_fn" where
  "aws_default_mutate infraID n =
     Inr (n\<lparr>onc_Meta := (onc_Meta n)\<lparr>md_Labels := managed_by_labels\<rparr>,
       onc_Spec := zero_openshift_ec2_spec
         \<lparr>os_SubnetSelectorTerms := Some [\<lparr>sst_Tags = DefaultSubnetSelectorTags infraID, sst_ID = []\<rparr>],
          os_SecurityGroupSelectorTerms := Some
            [\<lparr>sgst_Tags = DefaultSecurityGroupSelectorTags infraID, sgst_ID = [], sgst_Name = []\<rparr>]\<rparr>\<rparr>)"

definition aws_DefaultNodeClass :: "openshift_ec2_nodeclass default_nodeclass" where
  "aws_DefaultNodeClass infraID =
     Inr (Some (new_openshift_ec2_nodeclass defaultNodeClassName, aws_default_mutate infraID))"

definition azure_default_mutate :: "string \<Rightarrow> openshift_azure_nodeclass mutate_fn" where
  "azure_default_mutate vnetSubnetID n =
     Inr (n\<lparr>anc_Meta := (anc_Meta n)\<lparr>md_Labels := managed_by_labels\<rparr>,
       anc_Spec := zero_openshift_azure_spec\<lparr>as_VNETSubnetID := vnetSubnetID\<rparr>\<rparr>)"

definition azure_DefaultNodeClass :: "string \<Rightarrow> openshift_azure_nodeclass default_nodeclass" where
  "azure_DefaultNodeClass vnetSubnetID infraID =
     Inr (Some (new_openshift_azure_nodeclass defaultNodeClassName, azure_default_mutate vnetSubnetID))"


section \<open>The controller\<close>

text \<open>\<open>provider\<close> is \<^verbatim>\<open>nil\<close> when the platform has none, and \<open>hosted\<close> says
  whether there is a client of the hosted cluster.\<close>

definition default_reconcileHCP ::
  "'a resource \<Rightarrow> 'a default_nodeclass option \<Rightarrow> bool \<Rightarrow> hosted_control_plane \<Rightarrow> unit io"
where
  "default_reconcileHCP r provider hosted hcp =
     (if auto_ProvisionerName (hcp_AutoNode hcp) \<noteq> ProvisionerKarpenter then Ret (Inr ())
      else if map_get (md_Annotations (hcp_Meta hcp)) KarpenterCoreE2EOverrideAnnotation = ''true'' then Ret (Inr ())
      else case provider of
        None \<Rightarrow> Ret (Inl (EText ''default NodeClass provider is required''))
      | Some p \<Rightarrow>
          if \<not> hosted
          then Ret (Inl (EText ''hosted cluster client is required for default NodeClass reconciliation''))
          else case p (hcp_InfraID hcp) of
            Inl e \<Rightarrow> Ret (Inl e)
          | Inr None \<Rightarrow> Ret (Inr ())
          | Inr (Some (defaultNodeClass, f)) \<Rightarrow>
              bindE (wrapE ''reconciling default NodeClass: '' (CreateOrUpdate Hosted r defaultNodeClass f))
                (\<lambda>_. Ret (Inr ())))"

definition default_Reconcile ::
  "'a resource \<Rightarrow> 'a default_nodeclass option \<Rightarrow> bool \<Rightarrow> string \<Rightarrow> result io"
where
  "default_Reconcile r provider hosted namespace =
     bind (GetHostedControlPlane Mgmt namespace) (\<lambda>got.
       case got of
         Inl e \<Rightarrow> if errors_Is e ErrHostedControlPlaneNotFound then done_result else Ret (Inl e)
       | Inr hcp \<Rightarrow> bindE (default_reconcileHCP r provider hosted hcp) (\<lambda>_. done_result))"

definition default_hcpPredicate_update :: "hosted_control_plane \<Rightarrow> hosted_control_plane \<Rightarrow> bool" where
  "default_hcpPredicate_update oldHCP newHCP \<longleftrightarrow>
     hcp_InfraID oldHCP \<noteq> hcp_InfraID newHCP \<or>
     auto_ProvisionerName (hcp_AutoNode oldHCP) \<noteq> auto_ProvisionerName (hcp_AutoNode newHCP) \<or>
     map_get (md_Annotations (hcp_Meta oldHCP)) KarpenterCoreE2EOverrideAnnotation
       \<noteq> map_get (md_Annotations (hcp_Meta newHCP)) KarpenterCoreE2EOverrideAnnotation"

definition nodeClassPredicate :: "object_meta \<Rightarrow> bool" where
  "nodeClassPredicate m \<longleftrightarrow> md_Name m = defaultNodeClassName"


section \<open>The interface\<close>

text \<open>The cluster gets a default NodeClass: it is provisioned by Karpenter and not under an end-to-end
  test of the Karpenter core.\<close>

definition default_wanted :: "hosted_control_plane \<Rightarrow> bool" where
  "default_wanted hcp \<longleftrightarrow> auto_ProvisionerName (hcp_AutoNode hcp) = ProvisionerKarpenter \<and>
     map_get (md_Annotations (hcp_Meta hcp)) KarpenterCoreE2EOverrideAnnotation \<noteq> ''true''"

text \<open>A provider names the default NodeClass \<^verbatim>\<open>default\<close>, its mutation never fails and keeps
  to the contract of a mutation, and what it asks for depends on nothing but the infrastructure ID: two
  objects it has produced have the same \<open>desired\<close> part.\<close>

locale default_provider = resource_laws r for r :: "'a resource" +
  fixes DefaultNodeClass :: "'a default_nodeclass" and desired :: "'a \<Rightarrow> 'b"
  assumes provides: "\<exists>a f. DefaultNodeClass infraID = Inr (Some (a, f)) \<and>
     res_key r a = ([], defaultNodeClassName) \<and> mutation r f \<and>
     (\<forall>c. \<exists>b. f c = Inr b) \<and> (\<forall>c d b b'. f c = Inr b \<longrightarrow> f d = Inr b' \<longrightarrow> desired b = desired b')"
begin

text \<open>The only writes: the default NodeClass, when it is wanted.\<close>

definition guard :: "string \<Rightarrow> (req \<times> resp) list \<Rightarrow> req \<Rightarrow> bool" where
  "guard namespace h q \<longleftrightarrow>
     \<not> is_write q \<or>
     (\<exists>hcp a f b c. (List Mgmt KHostedControlPlane (Some namespace) [], RList [OHostedControlPlane hcp]) \<in> set h \<and>
        default_wanted hcp \<and> DefaultNodeClass (hcp_InfraID hcp) = Inr (Some (a, f)) \<and> f c = Inr b \<and>
        res_key r b = ([], defaultNodeClassName) \<and> (q = Create Hosted (res_wrap r b) \<or> q = Update Hosted (res_wrap r b)))"

lemma safe_default_Reconcile:
  "safe (guard namespace) (default_Reconcile r (Some DefaultNodeClass) hosted namespace) [] (\<lambda>_ _. True)"
proof -
  have step: "safe (guard namespace) (default_reconcileHCP r (Some DefaultNodeClass) hosted hcp)
      [(List Mgmt KHostedControlPlane (Some namespace) [], RList [OHostedControlPlane hcp])] (\<lambda>_ _. True)" for hcp
  proof -
    obtain a f where p: "DefaultNodeClass (hcp_InfraID hcp) = Inr (Some (a, f))"
      and k: "res_key r a = ([], defaultNodeClassName)"
      using provides by blast
    show ?thesis
      using k by (auto simp: default_reconcileHCP_def p safe_bindE safe_wrapE guard_def default_wanted_def
          intro!: safe_CreateOrUpdate split: sum.split) blast+
  qed
  show ?thesis
    by (auto simp: default_Reconcile_def GetHostedControlPlane_def the_hosted_control_plane_def c_list_def
        safe_bind safe_bindE safe_wrapE guard_def [of _ _ "List _ _ _ _"] hcps.as_list_iff
        intro!: safe_mono [OF step] split: sum.split list.split)
qed

text \<open>A reconcile that wants the NodeClass and succeeds leaves it in place.\<close>

lemma ensures:
  assumes "runs (default_Reconcile r (Some DefaultNodeClass) True namespace) tr (Inr x)"
    and "tr = (List Mgmt KHostedControlPlane (Some namespace) [], RList [OHostedControlPlane hcp]) # u"
    and "default_wanted hcp" and "\<And>a f c b. DefaultNodeClass (hcp_InfraID hcp) = Inr (Some (a, f)) \<Longrightarrow> f c = Inr b \<Longrightarrow> P b"
  shows "ensured Hosted r ([], defaultNodeClassName) P u"
proof -
  obtain a f where p: "DefaultNodeClass (hcp_InfraID hcp) = Inr (Some (a, f))"
    and k: "res_key r a = ([], defaultNodeClassName)"
    using provides by blast
  from assms(1,3) obtain y where "runs (CreateOrUpdate Hosted r a f) u (Inr y)"
    by (auto simp: assms(2) default_Reconcile_def GetHostedControlPlane_def c_list_def the_single
        default_reconcileHCP_def default_wanted_def p runs_bindE runs_wrapE)
  from runs_CreateOrUpdate [OF this, where P = P] assms(4) [OF p] show ?thesis by (simp add: k)
qed

text \<open>When the object found is one the mutation produced, nothing is written.\<close>

lemma settled:
  assumes "srv (List Mgmt KHostedControlPlane (Some namespace) []) w = (RList [OHostedControlPlane hcp], w')"
    and "srv (Get Hosted (res_kind r) [] defaultNodeClassName) w' = (RObj (res_wrap r b), w'')"
    and "DefaultNodeClass (hcp_InfraID hcp) = Inr (Some (a, f))" and "f c = Inr b"
    and "res_key r c = ([], defaultNodeClassName)"
  shows "fst (exec srv (default_Reconcile r (Some DefaultNodeClass) True namespace) w) = Inr 0 \<and>
     (\<forall>(q, _)\<in>set (calls srv (default_Reconcile r (Some DefaultNodeClass) True namespace) w). \<not> is_write q)"
proof -
  from provides [of "hcp_InfraID hcp"] assms(3) have k: "res_key r a = ([], defaultNodeClassName)"
    and m: "mutation r f" by auto
  have "exec srv (CreateOrUpdate Hosted r a f) w' = (Inr (OperationResultNone, b), w'')"
    and "\<forall>(q, _)\<in>set (calls srv (CreateOrUpdate Hosted r a f) w'). \<not> is_write q"
    using mutation.stable [OF m, where srv = srv and t = Hosted and a = a and w = w' and x = "res_wrap r b" and
        w' = w'' and b = b and c = c] assms(2,4,5) by (simp_all add: k unwrap_wrap)
  then show ?thesis
    by (simp add: default_Reconcile_def default_reconcileHCP_def GetHostedControlPlane_def c_list_def the_single
        assms(1,3) exec_bind exec_bindE exec_wrapE calls_bind calls_bindE calls_wrapE)
qed

end

interpretation aws_default: default_provider OpenshiftEC2NodeClasses aws_DefaultNodeClass onc_Spec
proof
  fix infraID
  show "\<exists>a f. aws_DefaultNodeClass infraID = Inr (Some (a, f)) \<and>
     res_key OpenshiftEC2NodeClasses a = ([], defaultNodeClassName) \<and> mutation OpenshiftEC2NodeClasses f \<and>
     (\<forall>c. \<exists>b. f c = Inr b) \<and> (\<forall>c d b b'. f c = Inr b \<longrightarrow> f d = Inr b' \<longrightarrow> onc_Spec b = onc_Spec b')"
    by (auto simp: aws_DefaultNodeClass_def aws_default_mutate_def mutation_def res_key_def
        new_openshift_ec2_nodeclass_def)
qed

interpretation azure_default: default_provider OpenShiftAzureNodeClasses "azure_DefaultNodeClass vnetSubnetID" anc_Spec
  for vnetSubnetID
proof
  fix infraID
  show "\<exists>a f. azure_DefaultNodeClass vnetSubnetID infraID = Inr (Some (a, f)) \<and>
     res_key OpenShiftAzureNodeClasses a = ([], defaultNodeClassName) \<and> mutation OpenShiftAzureNodeClasses f \<and>
     (\<forall>c. \<exists>b. f c = Inr b) \<and> (\<forall>c d b b'. f c = Inr b \<longrightarrow> f d = Inr b' \<longrightarrow> anc_Spec b = anc_Spec b')"
    by (auto simp: azure_DefaultNodeClass_def azure_default_mutate_def mutation_def res_key_def
        new_openshift_azure_nodeclass_def)
qed


section \<open>Properties\<close>

text \<open>The default NodeClass on AWS. A reconcile that writes has read a HostedControlPlane provisioned by
  Karpenter and without the end-to-end override; it writes only the cluster-scoped OpenshiftEC2NodeClass
  \<^verbatim>\<open>default\<close> of the hosted cluster, whose spec is exactly the subnet and security group
  selection of that cluster, whatever a user had put there.\<close>

theorem aws_default_writes:
  assumes "runs (default_Reconcile OpenshiftEC2NodeClasses (Some aws_DefaultNodeClass) hosted namespace) tr x"
    and "tr = t @ (q, r) # u" and "is_write q"
  shows "\<exists>hcp b. (List Mgmt KHostedControlPlane (Some namespace) [], RList [OHostedControlPlane hcp]) \<in> set t \<and>
     default_wanted hcp \<and> (q = Create Hosted (OOpenshiftEC2NodeClass b) \<or> q = Update Hosted (OOpenshiftEC2NodeClass b)) \<and>
     md_Namespace (onc_Meta b) = [] \<and> md_Name (onc_Meta b) = ''default'' \<and>
     md_Labels (onc_Meta b) = managed_by_labels \<and>
     onc_Spec b = zero_openshift_ec2_spec
       \<lparr>os_SubnetSelectorTerms := Some [\<lparr>sst_Tags = DefaultSubnetSelectorTags (hcp_InfraID hcp), sst_ID = []\<rparr>],
        os_SecurityGroupSelectorTerms := Some
          [\<lparr>sgst_Tags = DefaultSecurityGroupSelectorTags (hcp_InfraID hcp), sgst_ID = [], sgst_Name = []\<rparr>]\<rparr>"
  using safe_guard [OF aws_default.safe_default_Reconcile assms(1,2)] assms(3)
  by (auto simp: aws_default.guard_def aws_DefaultNodeClass_def aws_default_mutate_def res_key_def)

text \<open>C39: the default NodeClass is there after a successful reconcile of a cluster that wants one: on AWS
  and on Azure the object with the full default spec was found or accepted by the server.\<close>

theorem default_ensured:
  assumes "runs (default_Reconcile OpenshiftEC2NodeClasses (Some aws_DefaultNodeClass) True namespace)
       ((List Mgmt KHostedControlPlane (Some namespace) [], RList [OHostedControlPlane hcp]) # u) (Inr x)"
    and "runs (default_Reconcile OpenShiftAzureNodeClasses (Some (azure_DefaultNodeClass vnet)) True namespace)
       ((List Mgmt KHostedControlPlane (Some namespace) [], RList [OHostedControlPlane hcp]) # v) (Inr y)"
    and "default_wanted hcp"
  shows "ensured Hosted OpenshiftEC2NodeClasses ([], ''default'')
       (\<lambda>n. aws_default_mutate (hcp_InfraID hcp) n = Inr n) u \<and>
     ensured Hosted OpenShiftAzureNodeClasses ([], ''default'') (\<lambda>n. azure_default_mutate vnet n = Inr n) v"
proof (rule conjI)
  show "ensured Hosted OpenshiftEC2NodeClasses ([], ''default'')
      (\<lambda>n. aws_default_mutate (hcp_InfraID hcp) n = Inr n) u"
    by (rule aws_default.ensures [OF assms(1) refl assms(3)])
      (auto simp: aws_DefaultNodeClass_def aws_default_mutate_def)
  show "ensured Hosted OpenShiftAzureNodeClasses ([], ''default'') (\<lambda>n. azure_default_mutate vnet n = Inr n) v"
    by (rule azure_default.ensures [OF assms(2) refl assms(3)])
      (auto simp: azure_DefaultNodeClass_def azure_default_mutate_def)
qed

text \<open>The default NodeClass settles. When the server keeps the object a reconcile produced, the next
  reconcile succeeds and writes nothing.\<close>

theorem default_settled:
  assumes "srv (List Mgmt KHostedControlPlane (Some namespace) []) w = (RList [OHostedControlPlane hcp], w')"
    and "srv (Get Hosted KOpenshiftEC2NodeClass [] ''default'') w' = (RObj (OOpenshiftEC2NodeClass b), w'')"
    and "aws_default_mutate (hcp_InfraID hcp) c = Inr b" and "res_key OpenshiftEC2NodeClasses c = ([], ''default'')"
  shows "fst (exec srv (default_Reconcile OpenshiftEC2NodeClasses (Some aws_DefaultNodeClass) True namespace) w) = Inr 0 \<and>
     (\<forall>(q, _)\<in>set (calls srv (default_Reconcile OpenshiftEC2NodeClasses (Some aws_DefaultNodeClass) True namespace) w).
        \<not> is_write q)"
  by (rule aws_default.settled [where hcp = hcp and w' = w' and b = b and w'' = w'' and c = c and
      a = "new_openshift_ec2_nodeclass ''default''" and f = "aws_default_mutate (hcp_InfraID hcp)"])
    (use assms in \<open>simp_all add: aws_DefaultNodeClass_def\<close>)

text \<open>The watch on HostedControlPlanes is complete. Two versions of a HostedControlPlane between which
  the predicate sees no change are reconciled by the very same program, for every provider.\<close>

theorem default_watch_complete:
  assumes "\<not> default_hcpPredicate_update oldHCP newHCP"
  shows "default_reconcileHCP r provider hosted newHCP = default_reconcileHCP r provider hosted oldHCP"
  using assms by (cases provider) (simp_all add: default_hcpPredicate_update_def default_reconcileHCP_def)


section \<open>Witnesses\<close>

definition karpenter_hcp :: hosted_control_plane where
  "karpenter_hcp = (new_hcp ''ns'' ''h'')
     \<lparr>hcp_AutoNode := (hcp_AutoNode (new_hcp ''ns'' ''h''))\<lparr>auto_ProvisionerName := ProvisionerKarpenter\<rparr>\<rparr>"

lemma karpenter_hcp_wanted: "default_wanted karpenter_hcp"
  by (simp add: default_wanted_def karpenter_hcp_def new_hcp_def new_meta_def map_get_def)

definition aws_default_example :: openshift_ec2_nodeclass where
  "aws_default_example = projr (aws_default_mutate (hcp_InfraID karpenter_hcp) (new_openshift_ec2_nodeclass ''default''))"

definition azure_default_example :: openshift_azure_nodeclass where
  "azure_default_example = projr (azure_default_mutate ''/subnet'' (new_openshift_azure_nodeclass ''default''))"

lemma default_example_simps:
  "aws_default_mutate (hcp_InfraID karpenter_hcp) (new_openshift_ec2_nodeclass ''default'') = Inr aws_default_example"
  "azure_default_mutate ''/subnet'' (new_openshift_azure_nodeclass ''default'') = Inr azure_default_example"
  "res_key OpenshiftEC2NodeClasses (new_openshift_ec2_nodeclass ''default'') = ([], ''default'')"
  "res_key OpenShiftAzureNodeClasses (new_openshift_azure_nodeclass ''default'') = ([], ''default'')"
  "res_key OpenshiftEC2NodeClasses aws_default_example = ([], ''default'')"
  "res_key OpenShiftAzureNodeClasses azure_default_example = ([], ''default'')"
  by (simp_all add: aws_default_example_def azure_default_example_def aws_default_mutate_def azure_default_mutate_def
      res_key_def new_openshift_ec2_nodeclass_def new_openshift_azure_nodeclass_def)

abbreviation default_hcp_read :: "req \<times> resp" where
  "default_hcp_read \<equiv> (List Mgmt KHostedControlPlane (Some ''ns'') [], RList [OHostedControlPlane karpenter_hcp])"

lemmas default_eval = default_Reconcile_def default_reconcileHCP_def GetHostedControlPlane_def the_single
  CreateOrUpdate_def Let_def call_defs mutate_def aws_DefaultNodeClass_def azure_DefaultNodeClass_def
  default_example_simps karpenter_hcp_wanted [unfolded default_wanted_def]

lemma runs_default_aws:
  "runs (default_Reconcile OpenshiftEC2NodeClasses (Some aws_DefaultNodeClass) True ''ns'')
     (default_hcp_read # [(Get Hosted KOpenshiftEC2NodeClass [] ''default'', RErr NotFound [])] @
       (Create Hosted (OOpenshiftEC2NodeClass aws_default_example), RObj (OOpenshiftEC2NodeClass aws_default_example)) # [])
     (Inr 0)"
  by (simp add: default_eval)

lemma runs_default_azure:
  "runs (default_Reconcile OpenShiftAzureNodeClasses (Some (azure_DefaultNodeClass ''/subnet'')) True ''ns'')
     (default_hcp_read # [(Get Hosted KOpenShiftAzureNodeClass [] ''default'', RErr NotFound []),
       (Create Hosted (OOpenShiftAzureNodeClass azure_default_example),
        RObj (OOpenShiftAzureNodeClass azure_default_example))])
     (Inr 0)"
  by (simp add: default_eval)

lemma aws_default_writes_witness:
  "\<exists>hcp. default_hcp_read = (List Mgmt KHostedControlPlane (Some ''ns'') [], RList [OHostedControlPlane hcp]) \<and>
     default_wanted hcp"
  using aws_default_writes [OF runs_default_aws [unfolded append_Cons [symmetric]] refl] by auto

lemma default_ensured_witness:
  "\<exists>u. ensured Hosted OpenshiftEC2NodeClasses ([], ''default'')
     (\<lambda>n. aws_default_mutate (hcp_InfraID karpenter_hcp) n = Inr n) u"
  using default_ensured [OF runs_default_aws runs_default_azure karpenter_hcp_wanted] by blast

lemma default_settled_witness:
  "fst (exec (\<lambda>q w. (case q of Get _ _ _ _ \<Rightarrow> RObj (OOpenshiftEC2NodeClass aws_default_example)
       | _ \<Rightarrow> RList [OHostedControlPlane karpenter_hcp], w))
     (default_Reconcile OpenshiftEC2NodeClasses (Some aws_DefaultNodeClass) True ''ns'') ()) = Inr 0"
  using default_settled [where srv = "\<lambda>q w. (case q of Get _ _ _ _ \<Rightarrow> RObj (OOpenshiftEC2NodeClass aws_default_example)
       | _ \<Rightarrow> RList [OHostedControlPlane karpenter_hcp], w)" and namespace = "''ns''" and w = "()" and
       hcp = karpenter_hcp and w' = "()" and b = aws_default_example and w'' = "()" and
       c = "new_openshift_ec2_nodeclass ''default''"]
  by (simp add: default_example_simps)

lemma default_watch_complete_witness:
  "default_reconcileHCP OpenshiftEC2NodeClasses None True (karpenter_hcp\<lparr>hcp_AWS := Some []\<rparr>)
     = default_reconcileHCP OpenshiftEC2NodeClasses None True karpenter_hcp"
  by (rule default_watch_complete) (simp add: default_hcpPredicate_update_def)

end
