(* ===== verification/Hcp_Deletion.thy ===== *)
theory Hcp_Deletion
  imports Hypershift Duration
begin

text \<open>
  \<^verbatim>\<open>pkg/controllers/hcp/deletion/controller.go\<close>: the finalizer on the
  HostedControlPlane and the cleanup of NodePools and NodeClaims when the cluster is deleted.
  \<open>offset\<close> is the local zone in which deletion timestamps are printed.
\<close>

abbreviation karpenterFinalizer :: string where
  "karpenterFinalizer \<equiv> ''hypershift.openshift.io/karpenter-finalizer''"

abbreviation NodeClaimTerminationTimestampAnnotationKey :: string where
  "NodeClaimTerminationTimestampAnnotationKey \<equiv> ''karpenter.sh/nodeclaim-termination-timestamp''"

definition karpenterDeletionRequeueInterval :: result where
  "karpenterDeletionRequeueInterval = 15 * second"


section \<open>Cleanup\<close>

text \<open>Deletes the NodePools that are not being deleted and returns whether there are none.\<close>

definition deleteNodePools :: "bool io" where
  "deleteNodePools =
     bindE (wrapE ''listing NodePools: '' (c_list Hosted NodePools None [])) (\<lambda>items.
     bindE (forE items (\<lambda>p.
       if being_deleted (np_Meta p) then Ret (Inr ())
       else wrapE ''deleting NodePool: ''
              (c_delete Hosted NodePools (md_Namespace (np_Meta p)) (md_Name (np_Meta p))))) (\<lambda>_.
     Ret (Inr (items = []))))"

definition termination_annotated :: "int \<Rightarrow> node_claim \<Rightarrow> node_claim" where
  "termination_annotated offset c = c\<lparr>nc_Meta := (nc_Meta c)\<lparr>md_Annotations :=
     map_put NodeClaimTerminationTimestampAnnotationKey
       (case md_DeletionTimestamp (nc_Meta c) of None \<Rightarrow> [] | Some t \<Rightarrow> format_RFC3339 offset t)
       (md_Annotations (nc_Meta c))\<rparr>\<rparr>"

definition handleForcefulNodeClaimDeletion :: "int \<Rightarrow> node_claim \<Rightarrow> unit io" where
  "handleForcefulNodeClaimDeletion offset c =
     (if map_get (md_Annotations (nc_Meta c)) NodeClaimTerminationTimestampAnnotationKey \<noteq> []
      then Ret (Inr ())
      else bindE (wrapE ''applying NodeClaim termination annotation: ''
             (c_patch Hosted NodeClaims False c (termination_annotated offset c)))
             (\<lambda>_. Ret (Inr ())))"

text \<open>The constant \<^verbatim>\<open>force := true\<close> of the source makes the grace period (and with it
  the clock) irrelevant: a NodeClaim being deleted is handled at once.\<close>

definition deleteNodeClaims :: "int \<Rightarrow> bool io" where
  "deleteNodeClaims offset =
     bindE (wrapE ''listing NodeClaims: '' (c_list Hosted NodeClaims None [])) (\<lambda>items.
     bindE (forE items (\<lambda>c.
       if \<not> being_deleted (nc_Meta c)
       then wrapE ''deleting NodeClaim: ''
              (c_delete Hosted NodeClaims (md_Namespace (nc_Meta c)) (md_Name (nc_Meta c)))
       else wrapE ''handling forceful NodeClaim deletion: ''
              (handleForcefulNodeClaimDeletion offset c))) (\<lambda>_.
     Ret (Inr (items = []))))"

definition cleanupKarpenterResources :: "int \<Rightarrow> bool io" where
  "cleanupKarpenterResources offset =
     bindE deleteNodePools (\<lambda>nodePoolsGone.
       if \<not> nodePoolsGone then Ret (Inr False) else deleteNodeClaims offset)"


section \<open>Reconcile\<close>

definition deletion_reconcileDeletion :: "int \<Rightarrow> hosted_control_plane \<Rightarrow> result io" where
  "deletion_reconcileDeletion offset hcp =
     (if \<not> ContainsFinalizer (hcp_Meta hcp) karpenterFinalizer then done_result
      else bindE (cleanupKarpenterResources offset) (\<lambda>cleanedUp.
        if \<not> cleanedUp then Ret (Inr karpenterDeletionRequeueInterval)
        else if \<not> being_deleted (hcp_Meta hcp) then done_result
        else bindE (wrapE ''removing finalizer from HostedControlPlane: ''
               (c_patch Mgmt HCPs True hcp
                 (hcp\<lparr>hcp_Meta := RemoveFinalizer (hcp_Meta hcp) karpenterFinalizer\<rparr>)))
               (\<lambda>_. done_result)))"

definition deletion_Reconcile :: "int \<Rightarrow> string \<Rightarrow> result io" where
  "deletion_Reconcile offset namespace =
     bind (GetHostedControlPlane Mgmt namespace) (\<lambda>got.
       case got of
         Inl e \<Rightarrow> if errors_Is e ErrHostedControlPlaneNotFound then done_result else Ret (Inl e)
       | Inr hcp \<Rightarrow>
           bindE (wrapE ''checking cluster deletion state: '' (IsClusterDeleting Mgmt hcp)) (\<lambda>clusterDeleting.
             if clusterDeleting then deletion_reconcileDeletion offset hcp
             else if \<not> ContainsFinalizer (hcp_Meta hcp) karpenterFinalizer
             then bindE (wrapE ''adding finalizer to HostedControlPlane: ''
                    (c_patch Mgmt HCPs True hcp
                      (hcp\<lparr>hcp_Meta := AddFinalizer (hcp_Meta hcp) karpenterFinalizer\<rparr>)))
                    (\<lambda>_. done_result)
             else done_result))"


section \<open>The guard\<close>

text \<open>The history shows that the cluster is being deleted.\<close>

definition cluster_deleting :: "(req \<times> resp) list \<Rightarrow> string \<Rightarrow> bool" where
  "cluster_deleting h namespace \<longleftrightarrow>
     (\<exists>hcp. (List Mgmt KHostedControlPlane (Some namespace) [], RList [OHostedControlPlane hcp]) \<in> set h \<and>
        (being_deleted (hcp_Meta hcp) \<or>
         (\<exists>m. (Get Mgmt KCAPICluster (md_Namespace (hcp_Meta hcp)) (hcp_InfraID hcp),
               RObj (OCAPICluster m)) \<in> set h \<and> being_deleted m)))"

definition none_left :: "(req \<times> resp) list \<Rightarrow> kind \<Rightarrow> bool" where
  "none_left h k \<longleftrightarrow> (List Hosted k None [], RList []) \<in> set h"

definition deletion_guard :: "int \<Rightarrow> string \<Rightarrow> (req \<times> resp) list \<Rightarrow> req \<Rightarrow> bool" where
  "deletion_guard offset namespace h q \<longleftrightarrow>
     \<not> is_write q \<or>
     (\<exists>ns n. q = Delete Hosted KNodePool ns n \<and> cluster_deleting h namespace) \<or>
     (\<exists>ns n. q = Delete Hosted KNodeClaim ns n \<and> cluster_deleting h namespace \<and> none_left h KNodePool) \<or>
     (\<exists>c. q = Patch Hosted False (ONodeClaim c) (ONodeClaim (termination_annotated offset c)) \<and>
        being_deleted (nc_Meta c) \<and>
        map_get (md_Annotations (nc_Meta c)) NodeClaimTerminationTimestampAnnotationKey = [] \<and>
        cluster_deleting h namespace \<and> none_left h KNodePool) \<or>
     (\<exists>hcp. q = Patch Mgmt True (OHostedControlPlane hcp) (OHostedControlPlane
          (hcp\<lparr>hcp_Meta := AddFinalizer (hcp_Meta hcp) karpenterFinalizer\<rparr>)) \<and>
        \<not> being_deleted (hcp_Meta hcp)) \<or>
     (\<exists>hcp. q = Patch Mgmt True (OHostedControlPlane hcp) (OHostedControlPlane
          (hcp\<lparr>hcp_Meta := RemoveFinalizer (hcp_Meta hcp) karpenterFinalizer\<rparr>)) \<and>
        being_deleted (hcp_Meta hcp) \<and> none_left h KNodePool \<and> none_left h KNodeClaim)"

lemma deletion_guard_read [simp]:
  "deletion_guard offset namespace h (Get t k ns n)" "deletion_guard offset namespace h (List t k nso sel)"
  by (simp_all add: deletion_guard_def)

lemma cluster_deleting_append: "cluster_deleting h ns \<Longrightarrow> cluster_deleting (h @ u) ns"
  unfolding cluster_deleting_def set_append Un_iff by blast

lemma none_left_append: "none_left h k \<Longrightarrow> none_left (h @ u) k"
  by (simp add: none_left_def)

text \<open>A loop over a listed kind: every iteration may use the list, and that the list is all it says.\<close>

lemma safe_list_each:
  fixes ctx :: string and f :: "'a \<Rightarrow> unit io"
  assumes G: "G h (List t (res_kind r) None [])"
    and step: "\<And>x items c u. as_list r x = Inr items \<Longrightarrow> c \<in> set items \<Longrightarrow>
       safe G (f c) (h @ (List t (res_kind r) None [], x) # u) (\<lambda>_ _. True)"
    and post: "\<And>x items u. as_list r x = Inr items \<Longrightarrow>
       Q (h @ (List t (res_kind r) None [], x) # u) (Inr (items = []))"
    and err: "\<And>u e. Q (h @ u) (Inl e)"
  shows "safe G (bindE (wrapE ctx (c_list t r None []))
     (\<lambda>items. bindE (forE items f) (\<lambda>_. Ret (Inr (items = []))))) h Q"
proof -
  let ?l = "List t (res_kind r) None []"
  have loop: "safe G (bindE (forE items f) (\<lambda>_. Ret (Inr (items = [])))) (h @ [(?l, x)]) Q"
    if l: "as_list r x = Inr items" for x items
    unfolding safe_bindE
  proof (rule safe_forE [where I = "\<lambda>h'. \<exists>u. h' = h @ (?l, x) # u"])
    show "\<exists>u. h @ [(?l, x)] = h @ (?l, x) # u" by simp
  next
    fix c h'
    assume "c \<in> set items" and "\<exists>u. h' = h @ (?l, x) # u"
    then obtain u where h': "h' = h @ (?l, x) # u" by blast
    have "safe G (f c) h' (\<lambda>h'' _. \<exists>v. h'' = h' @ v)"
      unfolding h' by (rule safe_extends [OF step [OF l \<open>c \<in> set items\<close>]])
    then show "safe G (f c) h' (\<lambda>h' y. \<exists>u. h' = h @ (?l, x) # u)"
      by (rule safe_mono) (auto simp: h')
  next
    fix h' and y :: "goerr + unit"
    assume "\<exists>u. h' = h @ (?l, x) # u"
    then show "case y of Inl e \<Rightarrow> Q h' (Inl e) | Inr _ \<Rightarrow> safe G (Ret (Inr (items = []))) h' Q"
      using post [OF l] err by (auto split: sum.split)
  qed
  show ?thesis
    using G err [of "[_]"] by (subst safe_bindE) (auto simp: c_list_def safe_wrapE loop split: sum.split)
qed

lemma safe_deleteNodePools:
  assumes "cluster_deleting h namespace"
  shows "safe (deletion_guard offset namespace) deleteNodePools h
    (\<lambda>h' x. (\<exists>u. h' = h @ u) \<and> (x = Inr True \<longrightarrow> none_left h' KNodePool))"
  unfolding deleteNodePools_def
  by (rule safe_list_each)
    (use cluster_deleting_append [OF assms] in
      \<open>auto simp: c_delete_def safe_wrapE deletion_guard_def node_pools.as_list_iff none_left_def\<close>)

lemma safe_deleteNodeClaims:
  assumes "cluster_deleting h namespace" and "none_left h KNodePool"
  shows "safe (deletion_guard offset namespace) (deleteNodeClaims offset) h
    (\<lambda>h' x. (\<exists>u. h' = h @ u) \<and> (x = Inr True \<longrightarrow> none_left h' KNodeClaim))"
  unfolding deleteNodeClaims_def
  by (rule safe_list_each)
    (use cluster_deleting_append [OF assms(1)] none_left_append [OF assms(2)] in
      \<open>auto simp: c_delete_def c_patch_def safe_wrapE safe_bindE deletion_guard_def
        handleForcefulNodeClaimDeletion_def node_claims.as_list_iff split: sum.split\<close>,
     auto simp: none_left_def)

lemma safe_cleanup:
  assumes "cluster_deleting h namespace"
  shows "safe (deletion_guard offset namespace) (cleanupKarpenterResources offset) h
    (\<lambda>h' x. x = Inr True \<longrightarrow> none_left h' KNodePool \<and> none_left h' KNodeClaim)"
  unfolding cleanupKarpenterResources_def safe_bindE
proof (rule safe_mono [OF safe_deleteNodePools [OF assms]])
  fix h' and x :: "goerr + bool"
  assume h': "(\<exists>u. h' = h @ u) \<and> (x = Inr True \<longrightarrow> none_left h' KNodePool)"
  show "case x of Inl e \<Rightarrow> (Inl e :: goerr + bool) = Inr True \<longrightarrow> none_left h' KNodePool \<and> none_left h' KNodeClaim
    | Inr nodePoolsGone \<Rightarrow> safe (deletion_guard offset namespace)
        (if \<not> nodePoolsGone then Ret (Inr False) else deleteNodeClaims offset) h'
        (\<lambda>h' x. x = Inr True \<longrightarrow> none_left h' KNodePool \<and> none_left h' KNodeClaim)"
  proof (cases "x = Inr True")
    case True
    with h' have n: "none_left h' KNodePool" and c: "cluster_deleting h' namespace"
      using assms by (auto intro: cluster_deleting_append)
    have "safe (deletion_guard offset namespace) (deleteNodeClaims offset) h'
        (\<lambda>h' x. x = Inr True \<longrightarrow> none_left h' KNodePool \<and> none_left h' KNodeClaim)"
      by (rule safe_mono [OF safe_deleteNodeClaims [OF c n]]) (auto intro: none_left_append [OF n])
    with True show ?thesis by simp
  next
    case False
    then show ?thesis by (cases x) auto
  qed
qed

lemma safe_deletion_Reconcile:
  "safe (deletion_guard offset namespace) (deletion_Reconcile offset namespace) [] (\<lambda>_ _. True)"
proof -
  have deletion: "safe (deletion_guard offset namespace) (deletion_reconcileDeletion offset hcp) h (\<lambda>_ _. True)"
    if "cluster_deleting h namespace" for hcp h
  proof -
    have "safe (deletion_guard offset namespace) (cleanupKarpenterResources offset) h
      (\<lambda>h'. case_sum (\<lambda>e. True) (\<lambda>cleanedUp. safe (deletion_guard offset namespace)
        (if \<not> cleanedUp then Ret (Inr karpenterDeletionRequeueInterval)
         else if \<not> being_deleted (hcp_Meta hcp) then done_result
         else bindE (wrapE ''removing finalizer from HostedControlPlane: ''
                (c_patch Mgmt HCPs True hcp
                  (hcp\<lparr>hcp_Meta := RemoveFinalizer (hcp_Meta hcp) karpenterFinalizer\<rparr>)))
                (\<lambda>_. done_result)) h' (\<lambda>_ _. True)))"
      by (rule safe_mono [OF safe_cleanup [OF that]])
        (auto simp: c_patch_def safe_bindE safe_wrapE deletion_guard_def split: sum.split)
    then show ?thesis
      by (simp add: deletion_reconcileDeletion_def safe_bindE)
  qed
  have hcp: "cluster_deleting ((List Mgmt KHostedControlPlane (Some namespace) [], RList [OHostedControlPlane hcp]) # u) namespace"
    if "being_deleted (hcp_Meta hcp) \<or> (\<exists>m. (Get Mgmt KCAPICluster (md_Namespace (hcp_Meta hcp)) (hcp_InfraID hcp),
               RObj (OCAPICluster m)) \<in> set u \<and> being_deleted m)" for hcp u
    unfolding cluster_deleting_def using that by auto
  show ?thesis
    by (auto simp: deletion_Reconcile_def GetHostedControlPlane_def IsClusterDeleting_def c_list_def c_get_def
        c_patch_def safe_bind safe_bindE safe_wrapE hcps.as_list_iff capi_clusters.as_object_iff
        deletion_guard_def intro!: deletion hcp split: sum.split)
qed


section \<open>Properties\<close>

lemma deletion_run_guard:
  assumes "runs (deletion_Reconcile offset namespace) tr x" and "tr = t @ (q, r) # u"
  shows "deletion_guard offset namespace t q"
  using safe_guard [OF safe_deletion_Reconcile assms] by simp

text \<open>C6: the HostedControlPlane is released last. The only write that takes the Karpenter finalizer
  off a HostedControlPlane is issued for one that is itself being deleted, after a listing of the
  NodePools and a listing of the NodeClaims that both came back empty.\<close>

theorem hcp_released_last:
  assumes "runs (deletion_Reconcile offset namespace) tr x"
    and "tr = t @ (Patch tgt lock (OHostedControlPlane a) (OHostedControlPlane b), r) # u"
    and "ContainsFinalizer (hcp_Meta a) karpenterFinalizer"
    and "\<not> ContainsFinalizer (hcp_Meta b) karpenterFinalizer"
  shows "being_deleted (hcp_Meta a) \<and> none_left t KNodePool \<and> none_left t KNodeClaim \<and> tgt = Mgmt \<and> lock"
  using deletion_run_guard [OF assms(1,2)] assms(3,4)
  by (auto simp: deletion_guard_def ContainsFinalizer_def AddFinalizer_def)

text \<open>C7: teardown happens only in a cluster that is going away, and in order. A NodePool or a
  NodeClaim is deleted or annotated only after the HostedControlPlane or its CAPI Cluster was seen
  being deleted, and a NodeClaim only after a listing of the NodePools came back empty.\<close>

theorem teardown_order:
  assumes "runs (deletion_Reconcile offset namespace) tr x" and "tr = t @ (q, r) # u"
    and "q = Delete tgt k ns n \<or> q = Patch tgt lock (ONodeClaim c) (ONodeClaim c')"
  shows "cluster_deleting t namespace \<and>
     (q = Delete tgt KNodePool ns n \<or> none_left t KNodePool) \<and> tgt = Hosted"
  using deletion_run_guard [OF assms(1,2)] assms(3) by (auto simp: deletion_guard_def)

text \<open>The forceful deletion of a NodeClaim. The termination annotation is put only on a NodeClaim
  that is being deleted and does not have one; its value is the deletion timestamp, and nothing else of
  the NodeClaim changes.\<close>

theorem termination_annotation_spec:
  assumes "runs (deletion_Reconcile offset namespace) tr x"
    and "(Patch tgt lock (ONodeClaim c) (ONodeClaim c'), r) \<in> set tr"
  shows "\<exists>at. md_DeletionTimestamp (nc_Meta c) = Some at \<and>
     map_get (md_Annotations (nc_Meta c)) NodeClaimTerminationTimestampAnnotationKey = [] \<and>
     map_get (md_Annotations (nc_Meta c')) NodeClaimTerminationTimestampAnnotationKey = format_RFC3339 offset at \<and>
     (\<forall>k. k \<noteq> NodeClaimTerminationTimestampAnnotationKey \<longrightarrow>
        map_of (md_Annotations (nc_Meta c')) k = map_of (md_Annotations (nc_Meta c)) k) \<and>
     c' = c\<lparr>nc_Meta := (nc_Meta c)\<lparr>md_Annotations := md_Annotations (nc_Meta c')\<rparr>\<rparr>"
proof -
  from assms(2) obtain t u where "tr = t @ (Patch tgt lock (ONodeClaim c) (ONodeClaim c'), r) # u"
    by (meson split_list)
  from deletion_run_guard [OF assms(1) this]
  show ?thesis
    by (auto simp: deletion_guard_def termination_annotated_def being_deleted_def map_get_def)
qed

text \<open>C8: a deletion is never abandoned. When a HostedControlPlane that is being deleted and holds the
  finalizer has been read, the reconcile ends with an error, asks to run again after 15 seconds, or has
  just removed the finalizer.\<close>

theorem deletion_never_abandoned:
  assumes "runs (deletion_Reconcile offset namespace) tr x"
    and "tr = (List Mgmt KHostedControlPlane (Some namespace) [], RList [OHostedControlPlane hcp]) # u"
    and "being_deleted (hcp_Meta hcp)" and "ContainsFinalizer (hcp_Meta hcp) karpenterFinalizer"
  shows "(\<exists>e. x = Inl e) \<or> x = Inr karpenterDeletionRequeueInterval \<or>
     (\<exists>v hcp'. u = v @ [(Patch Mgmt True (OHostedControlPlane hcp) (OHostedControlPlane
        (hcp\<lparr>hcp_Meta := RemoveFinalizer (hcp_Meta hcp) karpenterFinalizer\<rparr>)), RObj (OHostedControlPlane hcp'))])"
proof -
  have "runs (deletion_reconcileDeletion offset hcp) u x"
    using assms(1,3)
    by (simp add: assms(2) deletion_Reconcile_def GetHostedControlPlane_def IsClusterDeleting_def
        call_defs the_single)
  then show ?thesis
    using assms(3,4)
    by (auto simp: deletion_reconcileDeletion_def runs_bindE runs_wrapE c_patch_def runs_Call_iff
        hcps.as_object_iff split: if_splits)
qed


section \<open>Witnesses\<close>

definition dying_hcp :: hosted_control_plane where
  "dying_hcp = (new_hcp ''ns'' ''h'')
     \<lparr>hcp_Meta := (new_meta ''ns'' ''h'')
        \<lparr>md_Finalizers := [karpenterFinalizer], md_DeletionTimestamp := Some 5\<rparr>\<rparr>"

definition dying_claim :: node_claim where
  "dying_claim = \<lparr>nc_Meta = (new_meta [] ''c'')\<lparr>md_DeletionTimestamp := Some 7\<rparr>,
     nc_NodeName = [], nc_ProviderID = [], nc_CPU = None\<rparr>"

lemma dying_simps:
  "being_deleted (hcp_Meta dying_hcp)" "ContainsFinalizer (hcp_Meta dying_hcp) karpenterFinalizer"
  "being_deleted (nc_Meta dying_claim)"
  "map_get (md_Annotations (nc_Meta dying_claim)) NodeClaimTerminationTimestampAnnotationKey = []"
  by (simp_all add: dying_hcp_def dying_claim_def being_deleted_def ContainsFinalizer_def
      new_meta_def map_get_def)

abbreviation deletion_reads :: "obj list \<Rightarrow> (req \<times> resp) list" where
  "deletion_reads claims \<equiv>
     [(List Mgmt KHostedControlPlane (Some ''ns'') [], RList [OHostedControlPlane dying_hcp]),
      (List Hosted KNodePool None [], RList []),
      (List Hosted KNodeClaim None [], RList claims)]"

abbreviation hcp_release :: req where
  "hcp_release \<equiv> Patch Mgmt True (OHostedControlPlane dying_hcp) (OHostedControlPlane
     (dying_hcp\<lparr>hcp_Meta := RemoveFinalizer (hcp_Meta dying_hcp) karpenterFinalizer\<rparr>))"

lemmas deletion_eval = deletion_Reconcile_def GetHostedControlPlane_def IsClusterDeleting_def
  deletion_reconcileDeletion_def cleanupKarpenterResources_def deleteNodePools_def deleteNodeClaims_def
  handleForcefulNodeClaimDeletion_def call_defs the_single dying_simps

lemma runs_hcp_release:
  "runs (deletion_Reconcile 0 ''ns'')
     (deletion_reads [] @ (hcp_release, RObj (OHostedControlPlane dying_hcp)) # []) (Inr 0)"
  by (simp add: deletion_eval)

lemma runs_claim_annotated:
  "runs (deletion_Reconcile 0 ''ns'')
     (deletion_reads [ONodeClaim dying_claim] @
       (Patch Hosted False (ONodeClaim dying_claim) (ONodeClaim (termination_annotated 0 dying_claim)), RErr Conflict []) # [])
     (Inl (EWrap ''handling forceful NodeClaim deletion: ''
       (EWrap ''applying NodeClaim termination annotation: '' (EApi Conflict []) []) []))"
  by (simp add: deletion_eval)

lemma hcp_released_last_witness: "none_left (deletion_reads []) KNodePool \<and> none_left (deletion_reads []) KNodeClaim"
  using hcp_released_last [OF runs_hcp_release refl]
  by (simp add: dying_simps)

lemma teardown_order_witness: "cluster_deleting (deletion_reads [ONodeClaim dying_claim]) ''ns''"
  using teardown_order [OF runs_claim_annotated refl disjI2 [OF refl]] by simp

lemma termination_annotation_spec_witness:
  "map_get (md_Annotations (nc_Meta (termination_annotated 0 dying_claim)))
     NodeClaimTerminationTimestampAnnotationKey = format_RFC3339 0 7"
  using termination_annotation_spec [OF runs_claim_annotated, of Hosted False dying_claim
      "termination_annotated 0 dying_claim" "RErr Conflict []"]
  by (auto simp: dying_claim_def)

lemma deletion_never_abandoned_witness:
  "(\<exists>e. (Inr 0 :: goerr + result) = Inl e) \<or> (Inr 0 :: goerr + result) = Inr karpenterDeletionRequeueInterval \<or>
   (\<exists>v hcp'. tl (deletion_reads []) @ [(hcp_release, RObj (OHostedControlPlane dying_hcp))] =
      v @ [(hcp_release, RObj (OHostedControlPlane hcp'))])"
  using deletion_never_abandoned [OF runs_hcp_release, of dying_hcp
      "tl (deletion_reads []) @ [(hcp_release, RObj (OHostedControlPlane dying_hcp))]"]
  by (simp add: dying_simps)

end
