(* ===== verification/Autonode_Status.thy ===== *)
theory Autonode_Status
  imports Hypershift "HOL-Library.Word"
begin

text \<open>
  \<^verbatim>\<open>pkg/controllers/hcp/autonodestatus/controller.go\<close>: the node, NodeClaim and vCPU counts
  reported in the status of the HostedControlPlane. The counters are kept at the width they have in the
  code: 32 bits for the counts, 64 for the running total of vCPUs, truncated to 32 when it is returned.
\<close>

abbreviation autoNodeStatusFieldManager :: string where
  "autoNodeStatusFieldManager \<equiv> ''karpenter-operator''"

abbreviation NodePoolLabelKey :: string where "NodePoolLabelKey \<equiv> ''karpenter.sh/nodepool''"

type_synonym int32 = "32 word"
type_synonym int64 = "64 word"


section \<open>Counting\<close>

definition has_nodepool_label :: "node \<Rightarrow> bool" where
  "has_nodepool_label node = map_has (md_Labels (node_Meta node)) NodePoolLabelKey"

definition karpenterNodeCount :: "node list \<Rightarrow> int32" where
  "karpenterNodeCount nodes = fold (\<lambda>node n. if has_nodepool_label node then n + 1 else n) nodes 0"

definition live_nodes :: "node list \<Rightarrow> string list" where
  "live_nodes nodes = map (\<lambda>node. md_Name (node_Meta node)) nodes"

text \<open>The loop body of \<^verbatim>\<open>sumNodeClaimVCPUs\<close>.\<close>

definition add_vcpus :: "string list \<Rightarrow> node_claim \<Rightarrow> int64 \<Rightarrow> int64" where
  "add_vcpus liveNodes nc acc =
     (if nc_NodeName nc \<notin> set liveNodes then acc
      else case nc_CPU nc of None \<Rightarrow> acc | Some cpu \<Rightarrow> acc + word_of_int (quantity_value cpu))"

definition sumNodeClaimVCPUs :: "node_claim list \<Rightarrow> string list \<Rightarrow> int32" where
  "sumNodeClaimVCPUs nodeClaims liveNodes = ucast (fold (add_vcpus liveNodes) nodeClaims 0)"

definition desired_status :: "node list \<Rightarrow> node_claim list \<Rightarrow> auto_node_status" where
  "desired_status nodes nodeClaims =
     \<lparr>ans_NodeCount = Some (sint (karpenterNodeCount nodes)),
      ans_NodeClaimCount = Some (sint (word_of_int (int (length nodeClaims)) :: int32)),
      ans_VCPUs = Some (sint (sumNodeClaimVCPUs nodeClaims (live_nodes nodes)))\<rparr>"


section \<open>The controller\<close>

definition reconcileAutoNodeStatus :: "hosted_control_plane \<Rightarrow> unit io" where
  "reconcileAutoNodeStatus hcp =
     bindE (wrapE ''listing nodes: '' (c_list Hosted Nodes None [])) (\<lambda>nodes.
     bindE (wrapE ''listing NodeClaims: '' (c_list Hosted NodeClaims None [])) (\<lambda>nodeClaims.
       let desired = desired_status nodes nodeClaims in
       if hcp_AutoNodeStatus hcp = desired then Ret (Inr ())
       else wrapE ''applying AutoNode status: ''
              (c_apply Mgmt autoNodeStatusFieldManager True
                (ApplyAutoNodeStatus (md_Namespace (hcp_Meta hcp)) (md_Name (hcp_Meta hcp)) desired))))"

definition autonode_Reconcile :: "string \<Rightarrow> result io" where
  "autonode_Reconcile namespace =
     bind (GetHostedControlPlane Mgmt namespace) (\<lambda>got.
       case got of
         Inl e \<Rightarrow> if errors_Is e ErrHostedControlPlaneNotFound then done_result else Ret (Inl e)
       | Inr hcp \<Rightarrow>
           bindE (wrapE ''reconciling AutoNode status: '' (reconcileAutoNodeStatus hcp)) (\<lambda>_. done_result))"

text \<open>The update predicates of the two watches; creations and deletions always pass. A missing map
  entry reads as the zero quantity.\<close>

definition nodeClaimPredicate_update :: "node_claim \<Rightarrow> node_claim \<Rightarrow> bool" where
  "nodeClaimPredicate_update objectOld objectNew =
     (let oldCPU = case nc_CPU objectOld of None \<Rightarrow> 0 | Some q \<Rightarrow> q;
          newCPU = case nc_CPU objectNew of None \<Rightarrow> 0 | Some q \<Rightarrow> q
      in if oldCPU \<noteq> newCPU then True else nc_NodeName objectOld \<noteq> nc_NodeName objectNew)"

definition countChangePredicate_update :: "node \<Rightarrow> node \<Rightarrow> bool" where
  "countChangePredicate_update objectOld objectNew =
     (has_nodepool_label objectOld \<noteq> has_nodepool_label objectNew)"


section \<open>The counters as numbers\<close>

lemma karpenterNodeCount_eq: "karpenterNodeCount nodes = of_nat (length (filter has_nodepool_label nodes))"
proof -
  have "fold (\<lambda>node n. if has_nodepool_label node then n + 1 else n) nodes (m :: int32) =
      m + of_nat (length (filter has_nodepool_label nodes))" for m
    by (induction nodes arbitrary: m) simp_all
  then show ?thesis by (simp add: karpenterNodeCount_def)
qed

text \<open>The vCPUs of the NodeClaims that have a live node and report a capacity, as an integer.\<close>

definition vcpus_of :: "string list \<Rightarrow> node_claim \<Rightarrow> int" where
  "vcpus_of liveNodes nc =
     (if nc_NodeName nc \<in> set liveNodes then case nc_CPU nc of None \<Rightarrow> 0 | Some cpu \<Rightarrow> quantity_value cpu else 0)"

lemma add_vcpus_eq: "add_vcpus liveNodes nc acc = acc + word_of_int (vcpus_of liveNodes nc)"
  by (simp add: add_vcpus_def vcpus_of_def split: option.split)

lemma fold_add_vcpus:
  "fold (add_vcpus liveNodes) ncs acc = acc + word_of_int (\<Sum>nc\<leftarrow>ncs. vcpus_of liveNodes nc)"
  by (induction ncs arbitrary: acc) (simp_all add: add_vcpus_eq add.assoc)

lemma sumNodeClaimVCPUs_eq:
  "sumNodeClaimVCPUs ncs liveNodes = word_of_int (\<Sum>nc\<leftarrow>ncs. vcpus_of liveNodes nc)"
  unfolding sumNodeClaimVCPUs_def fold_add_vcpus
  by (rule bit_word_eqI) (simp add: bit_ucast_iff bit_word_of_int_iff)




section \<open>What a run may write\<close>

text \<open>The only write: the counts of the lists that were read, when they differ from the reported ones.\<close>

definition autonode_guard :: "string \<Rightarrow> (req \<times> resp) list \<Rightarrow> req \<Rightarrow> bool" where
  "autonode_guard namespace h q \<longleftrightarrow>
     \<not> is_write q \<or>
     (\<exists>hcp nodes claims.
        h = [(List Mgmt KHostedControlPlane (Some namespace) [], RList [OHostedControlPlane hcp]),
             (List Hosted KNode None [], RList (map ONode nodes)),
             (List Hosted KNodeClaim None [], RList (map ONodeClaim claims))] \<and>
        hcp_AutoNodeStatus hcp \<noteq> desired_status nodes claims \<and>
        q = Apply Mgmt autoNodeStatusFieldManager True
              (ApplyAutoNodeStatus (md_Namespace (hcp_Meta hcp)) (md_Name (hcp_Meta hcp))
                (desired_status nodes claims)))"

lemma safe_autonode_Reconcile:
  "safe (autonode_guard namespace) (autonode_Reconcile namespace) [] (\<lambda>_ _. True)"
  by (auto simp: autonode_Reconcile_def GetHostedControlPlane_def the_hosted_control_plane_def
      reconcileAutoNodeStatus_def call_defs Let_def safe_bind safe_bindE safe_wrapE autonode_guard_def
      hcps.as_list_iff nodes.as_list_iff node_claims.as_list_iff split: sum.split list.split)


section \<open>Properties\<close>

text \<open>The status is written by one apply, as the field manager of HyperShift and only with the three
  counters, computed from the Nodes and NodeClaims listed in the same run; it is the last call, and it
  is issued exactly when the reported counters differ.\<close>

theorem autonode_status_written:
  assumes "runs (autonode_Reconcile namespace) tr x"
    and "tr = (List Mgmt KHostedControlPlane (Some namespace) [], RList [OHostedControlPlane hcp]) #
       (List Hosted KNode None [], RList (map ONode nodes)) #
       (List Hosted KNodeClaim None [], RList (map ONodeClaim claims)) # u"
  shows "if hcp_AutoNodeStatus hcp = desired_status nodes claims then u = [] \<and> x = Inr 0
     else \<exists>r. u = [(Apply Mgmt autoNodeStatusFieldManager True
         (ApplyAutoNodeStatus (md_Namespace (hcp_Meta hcp)) (md_Name (hcp_Meta hcp))
           (desired_status nodes claims)), r)]"
proof -
  have l: "unwrap_all Nodes (map ONode nodes) = Some nodes"
    "unwrap_all NodeClaims (map ONodeClaim claims) = Some claims"
    using nodes.unwrap_all_map [of nodes] node_claims.unwrap_all_map [of claims] by simp_all
  show ?thesis
    using assms(1) unfolding assms(2)
    by (auto simp: autonode_Reconcile_def GetHostedControlPlane_def reconcileAutoNodeStatus_def call_defs
      Let_def the_single l bindE_def wrapE_def runs_Call_iff split: if_splits sum.splits)
qed

text \<open>No other write. Whatever the servers answer, a run of the controller writes nothing but the
  counters it has just computed, and nothing at all when they are already reported.\<close>

theorem autonode_writes_only_status:
  assumes "runs (autonode_Reconcile namespace) tr x" and "tr = t @ (q, r) # u" and "is_write q"
  shows "\<exists>hcp nodes claims.
     t = [(List Mgmt KHostedControlPlane (Some namespace) [], RList [OHostedControlPlane hcp]),
          (List Hosted KNode None [], RList (map ONode nodes)),
          (List Hosted KNodeClaim None [], RList (map ONodeClaim claims))] \<and>
     hcp_AutoNodeStatus hcp \<noteq> desired_status nodes claims \<and>
     q = Apply Mgmt autoNodeStatusFieldManager True
           (ApplyAutoNodeStatus (md_Namespace (hcp_Meta hcp)) (md_Name (hcp_Meta hcp))
             (desired_status nodes claims))"
  using safe_guard [OF safe_autonode_Reconcile assms(1,2)] assms(3) by (simp add: autonode_guard_def)


text \<open>Beyond 32 bits the vCPU counter wraps. A fleet of exactly 2147483648 vCPUs, 16777216 live
  NodeClaims of 128 vCPUs each or one claim reporting it all, is reported as -2147483648; unlike the
  other two counters, this one is not bounded by the number of objects.\<close>

theorem vcpus_wrap:
  assumes "(\<Sum>nc\<leftarrow>claims. vcpus_of (live_nodes nodes) nc) = 2 ^ 31"
  shows "ans_VCPUs (desired_status nodes claims) = Some (- (2 ^ 31))"
  unfolding desired_status_def sumNodeClaimVCPUs_eq assms by simp

text \<open>The watches are complete. An update of a NodeClaim or of a Node (which keeps its name) that the
  predicates drop leaves every counter as it was.\<close>

theorem autonode_watch_complete:
  assumes "\<not> nodeClaimPredicate_update c c'" and "\<not> countChangePredicate_update n n'"
    and "md_Name (node_Meta n') = md_Name (node_Meta n)"
  shows "desired_status (ns @ n' # ms) (cs @ c' # ds) = desired_status (ns @ n # ms) (cs @ c # ds)"
proof -
  have live: "live_nodes (ns @ n' # ms) = live_nodes (ns @ n # ms)"
    using assms(3) by (simp add: live_nodes_def)
  have cpu: "(case nc_CPU c' of None \<Rightarrow> 0 | Some q \<Rightarrow> q) = (case nc_CPU c of None \<Rightarrow> 0 | Some q \<Rightarrow> q)"
    and name: "nc_NodeName c' = nc_NodeName c"
    using assms(1) by (auto simp: nodeClaimPredicate_update_def Let_def split: if_splits)
  have val: "(case nc_CPU x of None \<Rightarrow> 0 | Some q \<Rightarrow> quantity_value q) =
      quantity_value (case nc_CPU x of None \<Rightarrow> 0 | Some q \<Rightarrow> q)" for x
    by (simp add: quantity_value_def split: option.split)
  have vcpus: "vcpus_of l c' = vcpus_of l c" for l
    unfolding vcpus_of_def val cpu name ..
  have "has_nodepool_label n' = has_nodepool_label n"
    using assms(2) by (simp add: countChangePredicate_update_def)
  with vcpus show ?thesis
    unfolding desired_status_def live by (simp add: karpenterNodeCount_eq sumNodeClaimVCPUs_eq)
qed


section \<open>Witnesses\<close>

abbreviation karpenter_node :: node where
  "karpenter_node \<equiv> \<lparr>node_Meta = (new_meta [] ''n1'')\<lparr>md_Labels := [(NodePoolLabelKey, ''p'')]\<rparr>\<rparr>"

abbreviation cpu_claim :: "quantity \<Rightarrow> node_claim" where
  "cpu_claim q \<equiv> \<lparr>nc_Meta = new_meta [] ''c'', nc_NodeName = ''n1'', nc_ProviderID = [], nc_CPU = Some q\<rparr>"

abbreviation autonode_reads :: "(req \<times> resp) list" where
  "autonode_reads \<equiv>
     [(List Mgmt KHostedControlPlane (Some ''ns'') [], RList [OHostedControlPlane (new_hcp ''ns'' ''h'')]),
      (List Hosted KNode None [], RList (map ONode [karpenter_node])),
      (List Hosted KNodeClaim None [], RList (map ONodeClaim [cpu_claim 3500000000]))]"

lemma vcpus_example: "(\<Sum>nc\<leftarrow>[cpu_claim q]. vcpus_of (live_nodes [karpenter_node]) nc) = quantity_value q"
  by (simp add: vcpus_of_def live_nodes_def)

abbreviation autonode_apply :: req where
  "autonode_apply \<equiv> Apply Mgmt autoNodeStatusFieldManager True
     (ApplyAutoNodeStatus ''ns'' ''h'' (desired_status [karpenter_node] [cpu_claim 3500000000]))"

lemma runs_autonode:
  "runs (autonode_Reconcile ''ns'') (autonode_reads @ (autonode_apply, ROk) # []) (Inr 0)"
  by (simp add: autonode_Reconcile_def GetHostedControlPlane_def reconcileAutoNodeStatus_def call_defs
      Let_def the_single new_hcp_def desired_status_def)


lemma autonode_status_written_witness:
  "\<exists>r. [(autonode_apply, ROk)] = [(Apply Mgmt autoNodeStatusFieldManager True
         (ApplyAutoNodeStatus ''ns'' ''h'' (desired_status [karpenter_node] [cpu_claim 3500000000])), r)]"
  using autonode_status_written [OF runs_autonode, of "new_hcp ''ns'' ''h''" "[karpenter_node]"
      "[cpu_claim 3500000000]" "[(autonode_apply, ROk)]"]
  by (simp add: new_hcp_def desired_status_def)

lemma autonode_writes_only_status_witness:
  "\<exists>hcp nodes claims. hcp_AutoNodeStatus hcp \<noteq> desired_status nodes claims \<and>
     autonode_reads = [(List Mgmt KHostedControlPlane (Some ''ns'') [], RList [OHostedControlPlane hcp]),
       (List Hosted KNode None [], RList (map ONode nodes)),
       (List Hosted KNodeClaim None [], RList (map ONodeClaim claims))]"
proof -
  have "is_write autonode_apply" by simp
  from autonode_writes_only_status [OF runs_autonode refl this] show ?thesis
    by (elim exE conjE) (intro exI conjI)
qed

lemma vcpus_wrap_witness:
  "ans_VCPUs (desired_status [karpenter_node] [cpu_claim (2 ^ 31 * 10 ^ 9)]) = Some (- (2 ^ 31))"
  by (rule vcpus_wrap) (simp add: vcpus_of_def live_nodes_def quantity_value_def)

lemma autonode_watch_complete_witness:
  "desired_status [karpenter_node] [cpu_claim 0] =
   desired_status [karpenter_node] [(cpu_claim 0)\<lparr>nc_CPU := None\<rparr>]"
  using autonode_watch_complete [of "(cpu_claim 0)\<lparr>nc_CPU := None\<rparr>" "cpu_claim 0" karpenter_node karpenter_node
      "[]" "[]" "[]" "[]"]
  by (simp add: nodeClaimPredicate_update_def countChangePredicate_update_def)

end
