(* ===== verification/Node_Identity.thy ===== *)
theory Node_Identity
  imports Controllerutil
begin

text \<open>
  Node identity: the interface \<^verbatim>\<open>NodeIdentityVerifier\<close> of
  \<^verbatim>\<open>pkg/cloudprovider/common/common.go\<close> as the locale \<open>node_identity_verifier\<close>, and
  its only implementation, \<^verbatim>\<open>pkg/cloudprovider/aws/node_identity_verifier.go\<close>, which
  interprets it. Azure has no verifier.
\<close>


section \<open>The AWS verifier\<close>

definition maxInstanceIDsPerDescribeCall :: nat where
  "maxInstanceIDsPerDescribeCall = 1000"

text \<open>\<^verbatim>\<open>slices.Chunk\<close>; it panics on a size below one, and the only size used is
  the constant above.\<close>

fun chunks :: "nat \<Rightarrow> 'a list \<Rightarrow> 'a list list" where
  "chunks n xs = (if n = 0 \<or> xs = [] then [] else take n xs # chunks n (drop n xs))"

lemma chunks_rec:
  "chunks n [] = []"
  "0 < n \<Longrightarrow> xs \<noteq> [] \<Longrightarrow> chunks n xs = take n xs # chunks n (drop n xs)"
  by (simp_all add: chunks.simps)

declare chunks.simps [simp del]

definition ec2InstanceID :: "string \<Rightarrow> string option" where
  "ec2InstanceID providerID =
     (case AfterLast CHR ''/'' providerID of
        None \<Rightarrow> None
      | Some s \<Rightarrow> if s = [] then None else Some s)"

fun as_instances :: "resp \<Rightarrow> goerr + string option list list" where
  "as_instances (RErr re m) = Inl (EApi re m)"
| "as_instances (RInstances rs) = Inr rs"
| "as_instances _ = Inl decode_failed"

text \<open>\<^verbatim>\<open>awssdk.ToString\<close> of a nil pointer is the empty string.\<close>

definition dns_name_found :: "string option list list \<Rightarrow> string \<Rightarrow> bool" where
  "dns_name_found reservations nodeName \<longleftrightarrow>
     (\<exists>instances\<in>set reservations. \<exists>d\<in>set instances. (case d of None \<Rightarrow> [] | Some s \<Rightarrow> s) = nodeName)"

definition matchesPrivateDNSName :: "string list \<Rightarrow> string \<Rightarrow> bool io" where
  "matchesPrivateDNSName instanceIDs nodeName =
     bindE (Call (DescribeInstances instanceIDs) (\<lambda>x. Ret (as_instances x)))
       (\<lambda>reservations. Ret (Inr (dns_name_found reservations nodeName)))"

fun verify_batches :: "string \<Rightarrow> string list list \<Rightarrow> bool io" where
  "verify_batches nodeName [] = Ret (Inr False)"
| "verify_batches nodeName (batch # batches) =
     bindE (matchesPrivateDNSName batch nodeName) (\<lambda>found.
       if found then Ret (Inr True) else verify_batches nodeName batches)"

definition instance_ids :: "node_claim list \<Rightarrow> string list" where
  "instance_ids nodeClaims = List.map_filter (\<lambda>c. ec2InstanceID (nc_ProviderID c)) nodeClaims"

definition aws_Verify :: "string \<Rightarrow> node_claim list \<Rightarrow> bool io" where
  "aws_Verify nodeName nodeClaims =
     verify_batches nodeName (chunks maxInstanceIDsPerDescribeCall (instance_ids nodeClaims))"


section \<open>Chunks\<close>

lemma concat_chunks: "0 < n \<Longrightarrow> concat (chunks n xs) = xs"
proof (induction n xs rule: chunks.induct)
  case (1 n xs)
  then show ?case by (cases "xs = []") (simp_all add: chunks_rec)
qed

lemma chunks_sizes: "c \<in> set (chunks n xs) \<Longrightarrow> c \<noteq> [] \<and> length c \<le> n \<and> set c \<subseteq> set xs"
proof (induction n xs rule: chunks.induct)
  case (1 n xs)
  show ?case
  proof (cases "n = 0 \<or> xs = []")
    case True
    with 1 show ?thesis by (auto simp: chunks.simps [of n xs])
  next
    case False
    with 1(2) have "c = take n xs \<or> c \<in> set (chunks n (drop n xs))"
      by (simp add: chunks_rec)
    with 1(1) [OF False] False show ?thesis
      by (auto dest: in_set_takeD in_set_dropD)
  qed
qed

lemma ec2InstanceID_iff: "ec2InstanceID p = Some s \<longleftrightarrow> (\<exists>q. p = q @ CHR ''/'' # s) \<and> CHR ''/'' \<notin> set s \<and> s \<noteq> []"
proof -
  have "ec2InstanceID p = Some s \<longleftrightarrow> AfterLast CHR ''/'' p = Some s \<and> s \<noteq> []"
    by (auto simp: ec2InstanceID_def split: option.split)
  then show ?thesis by (auto simp: AfterLast_eq_Some)
qed

lemma instance_ids_iff: "i \<in> set (instance_ids cs) \<longleftrightarrow> (\<exists>c\<in>set cs. ec2InstanceID (nc_ProviderID c) = Some i)"
  by (induction cs) (auto simp: instance_ids_def map_filter_simps split: option.splits)


section \<open>The interface\<close>

text \<open>
  What a verifier promises its client: it only reads, and it answers yes only on evidence, a
  predicate on its calls that the provider chooses.
\<close>

locale node_identity_verifier =
  fixes Verify :: "string \<Rightarrow> node_claim list \<Rightarrow> bool io"
    and evidence :: "(req \<times> resp) list \<Rightarrow> string \<Rightarrow> node_claim list \<Rightarrow> bool"
  assumes reads_only: "runs (Verify nodeName claims) tr x \<Longrightarrow> (q, r) \<in> set tr \<Longrightarrow> \<not> is_write q"
    and sound: "runs (Verify nodeName claims) tr (Inr True) \<Longrightarrow> evidence tr nodeName claims"
    and evidence_append: "evidence h nodeName claims \<Longrightarrow> evidence (g @ h @ k) nodeName claims"

text \<open>AWS: an EC2 query for instance IDs of the claims was answered with the name.\<close>

definition ec2_evidence :: "(req \<times> resp) list \<Rightarrow> string \<Rightarrow> node_claim list \<Rightarrow> bool" where
  "ec2_evidence h nodeName claims \<longleftrightarrow>
     (\<exists>ids reservations. (DescribeInstances ids, RInstances reservations) \<in> set h \<and>
        ids \<noteq> [] \<and> set ids \<subseteq> set (instance_ids claims) \<and> dns_name_found reservations nodeName)"

lemma as_instances_Inr [simp]: "as_instances x = Inr rs \<longleftrightarrow> x = RInstances rs"
  by (cases x) auto

lemma runs_matches:
  "runs (matchesPrivateDNSName ids nodeName) tr x \<longleftrightarrow>
     (\<exists>r. tr = [(DescribeInstances ids, r)] \<and>
        x = (case as_instances r of Inl e \<Rightarrow> Inl e | Inr rs \<Rightarrow> Inr (dns_name_found rs nodeName)))"
proof
  assume "runs (matchesPrivateDNSName ids nodeName) tr x"
  then show "\<exists>r. tr = [(DescribeInstances ids, r)] \<and>
        x = (case as_instances r of Inl e \<Rightarrow> Inl e | Inr rs \<Rightarrow> Inr (dns_name_found rs nodeName))"
    by (fastforce simp: matchesPrivateDNSName_def runs_Call_iff bindE_def split: sum.splits)
next
  assume "\<exists>r. tr = [(DescribeInstances ids, r)] \<and>
        x = (case as_instances r of Inl e \<Rightarrow> Inl e | Inr rs \<Rightarrow> Inr (dns_name_found rs nodeName))"
  then show "runs (matchesPrivateDNSName ids nodeName) tr x"
    by (auto simp: matchesPrivateDNSName_def bindE_def split: sum.split)
qed

lemma runs_verify_batches:
  assumes "runs (verify_batches nodeName bs) tr x"
  shows "(\<forall>(q, r)\<in>set tr. \<exists>b\<in>set bs. q = DescribeInstances b) \<and>
     (x = Inr True \<longrightarrow> (\<exists>b\<in>set bs. \<exists>rs. (DescribeInstances b, RInstances rs) \<in> set tr \<and>
        dns_name_found rs nodeName)) \<and>
     (x = Inr False \<longrightarrow> map fst tr = map DescribeInstances bs \<and>
        (\<forall>(q, r)\<in>set tr. \<exists>rs. r = RInstances rs \<and> \<not> dns_name_found rs nodeName))"
  using assms
proof (induction bs arbitrary: tr)
  case Nil
  then show ?case by simp
next
  case (Cons b bs)
  from Cons.prems consider
      (err) e where "runs (matchesPrivateDNSName b nodeName) tr (Inl e)" "x = Inl e"
    | (ok) t u found where "tr = t @ u" "runs (matchesPrivateDNSName b nodeName) t (Inr found)"
        "runs (if found then Ret (Inr True) else verify_batches nodeName bs) u x"
    by (auto simp: runs_bindE)
  then show ?case
  proof cases
    case err
    then obtain r where "tr = [(DescribeInstances b, r)]" by (auto simp: runs_matches)
    with err show ?thesis by simp
  next
    case ok
    from ok(2) obtain r where t: "t = [(DescribeInstances b, r)]"
      and "Inr found = (case as_instances r of Inl e \<Rightarrow> Inl e | Inr rs \<Rightarrow> Inr (dns_name_found rs nodeName))"
      by (auto simp: runs_matches)
    then obtain rs where t: "t = [(DescribeInstances b, RInstances rs)]" and f: "found = dns_name_found rs nodeName"
      by (cases "as_instances r") auto
    show ?thesis
    proof (cases found)
      case True
      with ok(3) f show ?thesis by (auto simp: ok(1) t)
    next
      case False
      with ok(3) have "runs (verify_batches nodeName bs) u x" by simp
      from Cons.IH [OF this] False f show ?thesis by (auto simp: ok(1) t)
    qed
  qed
qed

lemma runs_aws_Verify:
  assumes "runs (aws_Verify nodeName claims) tr x"
  shows "(q, r) \<in> set tr \<Longrightarrow> \<exists>ids. q = DescribeInstances ids \<and> ids \<noteq> [] \<and>
       length ids \<le> maxInstanceIDsPerDescribeCall \<and> set ids \<subseteq> set (instance_ids claims)"
    and "x = Inr True \<Longrightarrow> ec2_evidence tr nodeName claims"
    and "x = Inr False \<Longrightarrow> concat (map (\<lambda>(q, r). case q of DescribeInstances ids \<Rightarrow> ids | _ \<Rightarrow> []) tr) = instance_ids claims"
proof -
  note r = runs_verify_batches [OF assms [unfolded aws_Verify_def]]
  show "\<exists>ids. q = DescribeInstances ids \<and> ids \<noteq> [] \<and>
       length ids \<le> maxInstanceIDsPerDescribeCall \<and> set ids \<subseteq> set (instance_ids claims)"
    if "(q, r) \<in> set tr"
  proof -
    from r that obtain b where "b \<in> set (chunks maxInstanceIDsPerDescribeCall (instance_ids claims))" "q = DescribeInstances b"
      by blast
    with chunks_sizes [OF this(1)] show ?thesis by simp
  qed
  show "ec2_evidence tr nodeName claims" if "x = Inr True"
  proof -
    from r that obtain b rs where b: "b \<in> set (chunks maxInstanceIDsPerDescribeCall (instance_ids claims))"
      and "(DescribeInstances b, RInstances rs) \<in> set tr" "dns_name_found rs nodeName"
      by blast
    with chunks_sizes [OF b] show ?thesis unfolding ec2_evidence_def by blast
  qed
  assume "x = Inr False"
  with r have m: "map fst tr = map DescribeInstances (chunks maxInstanceIDsPerDescribeCall (instance_ids claims))"
    by blast
  have "map (\<lambda>(q, r). case q of DescribeInstances ids \<Rightarrow> ids | _ \<Rightarrow> []) tr =
      map (\<lambda>q. case q of DescribeInstances ids \<Rightarrow> ids | _ \<Rightarrow> []) (map fst tr)"
    by (simp add: case_prod_beta)
  also have "\<dots> = chunks maxInstanceIDsPerDescribeCall (instance_ids claims)"
    by (simp add: m comp_def)
  finally show "concat (map (\<lambda>(q, r). case q of DescribeInstances ids \<Rightarrow> ids | _ \<Rightarrow> []) tr) = instance_ids claims"
    by (simp add: concat_chunks maxInstanceIDsPerDescribeCall_def)
qed

interpretation aws_verifier: node_identity_verifier aws_Verify ec2_evidence
proof unfold_locales
  show "\<not> is_write q" if "runs (aws_Verify nodeName claims) tr x" "(q, r) \<in> set tr" for nodeName claims tr x q r
    using runs_aws_Verify(1) [OF that] by auto
  show "ec2_evidence tr nodeName claims" if "runs (aws_Verify nodeName claims) tr (Inr True)" for nodeName claims tr
    using runs_aws_Verify(2) [OF that] by simp
  show "ec2_evidence (g @ h @ k) nodeName claims" if "ec2_evidence h nodeName claims" for h g k nodeName claims
    using that unfolding ec2_evidence_def set_append Un_iff by blast
qed


section \<open>Properties\<close>

text \<open>The EC2 queries of a verification. Every query names at least one and at most 1000 instances
  (a query that named none would describe every instance of the account), all of them instances of the
  given NodeClaims; and when the verifier answers no, the queries together have named every one of them,
  each once and in order.\<close>

theorem aws_queries_bounded:
  assumes "runs (aws_Verify nodeName claims) tr x"
  shows "(\<forall>(q, r)\<in>set tr. \<exists>ids. q = DescribeInstances ids \<and> 1 \<le> length ids \<and> length ids \<le> 1000 \<and>
       (\<forall>i\<in>set ids. \<exists>c\<in>set claims. \<exists>p. nc_ProviderID c = p @ CHR ''/'' # i)) \<and>
     (x = Inr False \<longrightarrow>
       concat (map (\<lambda>(q, r). case q of DescribeInstances ids \<Rightarrow> ids | _ \<Rightarrow> []) tr) = instance_ids claims)"
proof (intro conjI ballI impI)
  fix y assume "y \<in> set tr"
  then show "case y of (q, r) \<Rightarrow> \<exists>ids. q = DescribeInstances ids \<and> 1 \<le> length ids \<and> length ids \<le> 1000 \<and>
       (\<forall>i\<in>set ids. \<exists>c\<in>set claims. \<exists>p. nc_ProviderID c = p @ CHR ''/'' # i)"
    using runs_aws_Verify(1) [OF assms, of "fst y" "snd y"]
    by (auto simp: maxInstanceIDsPerDescribeCall_def Suc_le_eq subset_iff instance_ids_iff ec2InstanceID_iff
        split: prod.splits)
qed (use runs_aws_Verify(3) [OF assms] in simp)

abbreviation claim_example :: "string \<Rightarrow> string \<Rightarrow> node_claim" where
  "claim_example node_name provider_id \<equiv>
     \<lparr>nc_Meta = new_meta [] ''c'', nc_NodeName = node_name, nc_ProviderID = provider_id, nc_CPU = None\<rparr>"

lemma instance_ids_example: "instance_ids [claim_example node_name ''aws:///a/i-1''] = [''i-1'']"
  by (simp add: instance_ids_def List.map_filter_def ec2InstanceID_def)

lemma runs_aws_Verify_example:
  "runs (aws_Verify nodeName [claim_example node_name ''aws:///a/i-1''])
     [(DescribeInstances [''i-1''], RInstances rs)] (Inr (dns_name_found rs nodeName))"
  by (simp add: aws_Verify_def instance_ids_example chunks.simps maxInstanceIDsPerDescribeCall_def
      matchesPrivateDNSName_def)

lemma aws_queries_bounded_witness:
  "\<exists>ids. DescribeInstances [''i-1''] = DescribeInstances ids \<and> 1 \<le> length ids \<and> length ids \<le> 1000"
  using aws_queries_bounded [OF runs_aws_Verify_example [of "''n''" "[]" "[]"]] by simp

end
