(* ===== verification/Machine_Approver.thy ===== *)
theory Machine_Approver
  imports Node_Identity
begin

text \<open>
  \<^verbatim>\<open>pkg/controllers/machineapprover/controller.go\<close>: approval of the certificate signing
  requests of Karpenter nodes. The verifier is the interface \<open>node_identity_verifier\<close>; the
  client's lemmas are proved for every verifier that keeps the contract, and the properties instantiate
  them with AWS. Decoding PEM and X.509 belongs to the Go library: \<open>pem\<close> returns the type and
  the bytes of the first block, \<open>x509\<close> the common name of the parsed request; nothing is
  assumed of them.
\<close>

abbreviation nodeBootstrapperUsername :: string where
  "nodeBootstrapperUsername \<equiv> ''system:serviceaccount:openshift-machine-config-operator:node-bootstrapper''"

abbreviation nodeGroup :: string where "nodeGroup \<equiv> ''system:nodes''"
abbreviation nodePrefix :: string where "nodePrefix \<equiv> ''system:node:''"

abbreviation KubeAPIServerClientKubeletSignerName :: string where
  "KubeAPIServerClientKubeletSignerName \<equiv> ''kubernetes.io/kube-apiserver-client-kubelet''"

abbreviation KubeletServingSignerName :: string where
  "KubeletServingSignerName \<equiv> ''kubernetes.io/kubelet-serving''"

abbreviation CertificateApproved :: string where "CertificateApproved \<equiv> ''Approved''"
abbreviation CertificateDenied :: string where "CertificateDenied \<equiv> ''Denied''"

type_synonym pem_decoder = "string \<Rightarrow> (string \<times> string) option"
type_synonym x509_parser = "string \<Rightarrow> goerr + string"
type_synonym verifier = "string \<Rightarrow> node_claim list \<Rightarrow> bool io"


section \<open>The controller\<close>

definition isCertificateRequestPending :: "cert_request \<Rightarrow> bool" where
  "isCertificateRequestPending csr =
     list_all (\<lambda>c. csrc_Type c \<noteq> CertificateApproved \<and> csrc_Type c \<noteq> CertificateDenied) (csr_Conditions csr)"

definition csrFilterFn :: "cert_request \<Rightarrow> bool" where
  "csrFilterFn csr =
     (if \<not> isCertificateRequestPending csr then False
      else if csr_SignerName csr = KubeAPIServerClientKubeletSignerName
      then csr_Username csr = nodeBootstrapperUsername
      else if csr_SignerName csr = KubeletServingSignerName
      then nodeGroup \<in> set (csr_Groups csr)
      else False)"

definition parseCSR :: "pem_decoder \<Rightarrow> x509_parser \<Rightarrow> string \<Rightarrow> goerr + string" where
  "parseCSR pem x509 pemBytes =
     (case pem pemBytes of
        None \<Rightarrow> Inl (EText ''PEM block type must be CERTIFICATE REQUEST'')
      | Some (ty, bytes) \<Rightarrow>
          if ty \<noteq> ''CERTIFICATE REQUEST'' then Inl (EText ''PEM block type must be CERTIFICATE REQUEST'')
          else x509 bytes)"

definition listNodeClaims :: "node_claim list io" where
  "listNodeClaims = wrapE ''listing NodeClaims: '' (c_list Hosted NodeClaims None [])"

definition findTargetNodeClaim :: "string \<Rightarrow> node_claim option io" where
  "findTargetNodeClaim nodeName =
     bindE listNodeClaims (\<lambda>claims. Ret (Inr (find (\<lambda>c. nc_NodeName c = nodeName) claims)))"

definition authorizeClientCSR :: "verifier \<Rightarrow> pem_decoder \<Rightarrow> x509_parser \<Rightarrow> cert_request \<Rightarrow> bool io" where
  "authorizeClientCSR verify pem x509 csr =
     (case parseCSR pem x509 (csr_Request csr) of
        Inl e \<Rightarrow> Ret (Inl e)
      | Inr commonName \<Rightarrow>
          let nodeName = TrimPrefix commonName nodePrefix in
          if nodeName = [] then Ret (Inl (EText ''subject common name does not have a valid node name''))
          else bindE listNodeClaims (\<lambda>nodeClaims.
            let filtered = filter (\<lambda>c. nc_NodeName c = []) nodeClaims in
            if filtered = [] then Ret (Inr False) else verify nodeName filtered))"

definition authorizeServingCSR :: "verifier \<Rightarrow> cert_request \<Rightarrow> bool io" where
  "authorizeServingCSR verify csr =
     (let nodeName = TrimPrefix (csr_Username csr) nodePrefix in
      if nodeName = [] then Ret (Inl (EText ''csr username does not have a valid node name''))
      else bindE (findTargetNodeClaim nodeName) (\<lambda>nodeClaim.
        case nodeClaim of None \<Rightarrow> Ret (Inr False) | Some c \<Rightarrow> verify nodeName [c]))"

definition authorize :: "verifier \<Rightarrow> pem_decoder \<Rightarrow> x509_parser \<Rightarrow> cert_request \<Rightarrow> bool io" where
  "authorize verify pem x509 csr =
     (if csr_SignerName csr = KubeAPIServerClientKubeletSignerName
      then authorizeClientCSR verify pem x509 csr
      else if csr_SignerName csr = KubeletServingSignerName then authorizeServingCSR verify csr
      else Ret (Inl (EText (''unrecognized signerName '' @ csr_SignerName csr))))"

definition approved :: "cert_request \<Rightarrow> cert_request" where
  "approved csr = csr\<lparr>csr_Conditions := csr_Conditions csr @
     [\<lparr>csrc_Type = CertificateApproved, csrc_Status = ''True'', csrc_Reason = ''KarpenterCSRApprove'',
       csrc_Message = ''Auto approved by karpenter-machine-approver''\<rparr>]\<rparr>"

definition approve :: "cert_request \<Rightarrow> unit io" where
  "approve csr =
     bindE (wrapE ''updating csr approval: ''
       (Call (UpdateApproval (OCertificateSigningRequest (approved csr))) (\<lambda>x. Ret (as_object CSRs x))))
       (\<lambda>_. Ret (Inr ()))"

definition machine_Reconcile ::
  "verifier \<Rightarrow> pem_decoder \<Rightarrow> x509_parser \<Rightarrow> string \<Rightarrow> string \<Rightarrow> result io"
where
  "machine_Reconcile verify pem x509 ns n =
     bind (c_get Hosted CSRs ns n) (\<lambda>got.
       case got of
         Inl e \<Rightarrow> if IsNotFound e then done_result else Ret (Inl (EWrap ''getting csr: '' e []))
       | Inr csr \<Rightarrow>
           if being_deleted (csr_Meta csr) then done_result
           else if \<not> isCertificateRequestPending csr then done_result
           else bindE (authorize verify pem x509 csr) (\<lambda>authorized.
             if authorized
             then bindE (wrapE ''approving csr: '' (approve csr)) (\<lambda>_. done_result)
             else done_result))"


section \<open>The client of the verifier\<close>

text \<open>The candidate NodeClaims of a request: those the verifier is asked about.\<close>

definition candidates ::
  "pem_decoder \<Rightarrow> x509_parser \<Rightarrow> cert_request \<Rightarrow> string \<Rightarrow> node_claim list \<Rightarrow> node_claim list \<Rightarrow> bool"
where
  "candidates pem x509 csr nodeName claims chosen \<longleftrightarrow>
     nodeName \<noteq> [] \<and>
     (csr_SignerName csr = KubeAPIServerClientKubeletSignerName \<and>
        (\<exists>cn. parseCSR pem x509 (csr_Request csr) = Inr cn \<and> nodeName = TrimPrefix cn nodePrefix) \<and>
        chosen = filter (\<lambda>c. nc_NodeName c = []) claims \<or>
      csr_SignerName csr = KubeletServingSignerName \<and>
        nodeName = TrimPrefix (csr_Username csr) nodePrefix \<and>
        chosen = (case find (\<lambda>c. nc_NodeName c = nodeName) claims of None \<Rightarrow> [] | Some c \<Rightarrow> [c]))"

lemma runs_listNodeClaims:
  "runs listNodeClaims tr (Inr cs) \<longleftrightarrow> tr = [(List Hosted KNodeClaim None [], RList (map ONodeClaim cs))]"
  by (cases tr) (auto simp: listNodeClaims_def runs_wrapE c_list_def node_claims.as_list_iff)

text \<open>An authorisation that comes to an answer is a listing, then the verifier on the candidates.\<close>

lemma runs_authorize:
  assumes "runs (authorize verify pem x509 csr) tr (Inr b)"
  shows "\<exists>nodeName claims chosen v.
     tr = (List Hosted KNodeClaim None [], RList (map ONodeClaim claims)) # v \<and>
     candidates pem x509 csr nodeName claims chosen \<and>
     (if chosen = [] then v = [] \<and> \<not> b else runs (verify nodeName chosen) v (Inr b))"
proof -
  consider (client) "csr_SignerName csr = KubeAPIServerClientKubeletSignerName"
    | (serving) "csr_SignerName csr = KubeletServingSignerName"
      "runs (authorizeServingCSR verify csr) tr (Inr b)"
    using assms by (auto simp: authorize_def split: if_splits)
  then show ?thesis
  proof cases
    case client
    with assms obtain cn where cn: "parseCSR pem x509 (csr_Request csr) = Inr cn"
      and ne: "TrimPrefix cn nodePrefix \<noteq> []"
      and r: "runs (bindE listNodeClaims (\<lambda>nodeClaims.
            let filtered = filter (\<lambda>c. nc_NodeName c = []) nodeClaims in
            if filtered = [] then Ret (Inr False) else verify (TrimPrefix cn nodePrefix) filtered)) tr (Inr b)"
      by (auto simp: authorize_def authorizeClientCSR_def Let_def split: sum.splits if_splits)
    from r obtain claims v where tr: "tr = (List Hosted KNodeClaim None [], RList (map ONodeClaim claims)) # v"
      and v: "runs (let filtered = filter (\<lambda>c. nc_NodeName c = []) claims in
            if filtered = [] then Ret (Inr False) else verify (TrimPrefix cn nodePrefix) filtered) v (Inr b)"
      by (auto simp: runs_bindE runs_listNodeClaims)
    have "candidates pem x509 csr (TrimPrefix cn nodePrefix) claims (filter (\<lambda>c. nc_NodeName c = []) claims)"
      using client cn ne by (simp add: candidates_def)
    moreover have "if filter (\<lambda>c. nc_NodeName c = []) claims = [] then v = [] \<and> \<not> b
        else runs (verify (TrimPrefix cn nodePrefix) (filter (\<lambda>c. nc_NodeName c = []) claims)) v (Inr b)"
      using v by (auto simp: Let_def split: if_splits)
    ultimately show ?thesis using tr by blast
  next
    case serving
    define nodeName where "nodeName = TrimPrefix (csr_Username csr) nodePrefix"
    from serving(2) have ne: "nodeName \<noteq> []"
      and r: "runs (bindE (findTargetNodeClaim nodeName) (\<lambda>nodeClaim.
        case nodeClaim of None \<Rightarrow> Ret (Inr False) | Some c \<Rightarrow> verify nodeName [c])) tr (Inr b)"
      unfolding nodeName_def by (auto simp: authorizeServingCSR_def Let_def split: if_splits)
    from r obtain claims v where tr: "tr = (List Hosted KNodeClaim None [], RList (map ONodeClaim claims)) # v"
      and v: "runs (case find (\<lambda>c. nc_NodeName c = nodeName) claims of
        None \<Rightarrow> Ret (Inr False) | Some c \<Rightarrow> verify nodeName [c]) v (Inr b)"
      by (auto simp: findTargetNodeClaim_def runs_bindE runs_listNodeClaims)
    let ?chosen = "case find (\<lambda>c. nc_NodeName c = nodeName) claims of None \<Rightarrow> [] | Some c \<Rightarrow> [c]"
    have "candidates pem x509 csr nodeName claims ?chosen"
      using serving ne by (simp add: candidates_def nodeName_def)
    moreover have "if ?chosen = [] then v = [] \<and> \<not> b else runs (verify nodeName ?chosen) v (Inr b)"
      using v by (auto split: option.splits)
    ultimately show ?thesis using tr by blast
  qed
qed


definition csr_open :: "cert_request \<Rightarrow> bool" where
  "csr_open csr \<longleftrightarrow> \<not> being_deleted (csr_Meta csr) \<and> isCertificateRequestPending csr"

text \<open>How a reconcile that reads an open request goes on.\<close>

lemma runs_machine_Reconcile:
  assumes "runs (machine_Reconcile verify pem x509 ns n) tr x"
  obtains (unread) r where "tr = [(Get Hosted KCertificateSigningRequest ns n, r)]"
      "\<And>csr. r \<noteq> RObj (OCertificateSigningRequest csr)"
    | (closed) csr where "tr = [(Get Hosted KCertificateSigningRequest ns n, RObj (OCertificateSigningRequest csr))]"
      "\<not> csr_open csr" "x = Inr 0"
    | (failed) csr v e where
      "tr = (Get Hosted KCertificateSigningRequest ns n, RObj (OCertificateSigningRequest csr)) # v"
      "csr_open csr" "runs (authorize verify pem x509 csr) v (Inl e)" "x = Inl e"
    | (refused) csr v where
      "tr = (Get Hosted KCertificateSigningRequest ns n, RObj (OCertificateSigningRequest csr)) # v"
      "csr_open csr" "runs (authorize verify pem x509 csr) v (Inr False)" "x = Inr 0"
    | (granted) csr v r where
      "tr = (Get Hosted KCertificateSigningRequest ns n, RObj (OCertificateSigningRequest csr)) # v
         @ [(UpdateApproval (OCertificateSigningRequest (approved csr)), r)]"
      "csr_open csr" "runs (authorize verify pem x509 csr) v (Inr True)"
proof -
  from assms obtain r tr' where tr: "tr = (Get Hosted KCertificateSigningRequest ns n, r) # tr'"
    by (auto simp: machine_Reconcile_def c_get_def runs_Call_iff)
  show thesis
  proof (cases "\<exists>csr. r = RObj (OCertificateSigningRequest csr)")
    case False
    then have "\<exists>e. as_object CSRs r = Inl e" by (cases "as_object CSRs r") (auto simp: csrs.as_object_iff)
    with assms False tr show thesis
      by (intro unread) (auto simp: machine_Reconcile_def c_get_def split: if_splits)
  next
    case True
    then obtain csr where r: "r = RObj (OCertificateSigningRequest csr)" by blast
    show thesis
    proof (cases "csr_open csr")
      case False
      with assms tr r show thesis
        by (intro closed) (auto simp: machine_Reconcile_def c_get_def csr_open_def split: if_splits)
    next
      case True
      with assms tr r have run: "runs (bindE (authorize verify pem x509 csr) (\<lambda>authorized.
             if authorized
             then bindE (wrapE ''approving csr: '' (approve csr)) (\<lambda>_. done_result)
             else done_result)) tr' x"
        by (simp add: machine_Reconcile_def c_get_def csr_open_def)
      then consider e where "runs (authorize verify pem x509 csr) tr' (Inl e)" "x = Inl e"
        | t u b where "tr' = t @ u" "runs (authorize verify pem x509 csr) t (Inr b)"
          "runs (if b then bindE (wrapE ''approving csr: '' (approve csr)) (\<lambda>_. done_result) else done_result) u x"
        by (auto simp: runs_bindE)
      then show thesis
      proof cases
        case 1
        with True tr r show thesis by (intro failed) auto
      next
        case (2 t u b)
        show thesis
        proof (cases b)
          case False
          with 2 True tr r show thesis by (intro refused [of csr t]) auto
        next
          case b: True
          with 2(3) obtain y where "u = [(UpdateApproval (OCertificateSigningRequest (approved csr)), y)]"
            by (auto simp: approve_def runs_bindE runs_wrapE runs_Call_iff)
          with 2(1,2) b True tr r show thesis by (intro granted [of csr t y]) auto
        qed
      qed
    qed
  qed
qed

context node_identity_verifier
begin

lemma authorize_reads:
  assumes "runs (authorize Verify pem x509 csr) tr x" and "(q, r) \<in> set tr"
  shows "\<not> is_write q"
proof -
  have list: "safe (\<lambda>_ q. \<not> is_write q) listNodeClaims h (\<lambda>_ _. True)" for h
    by (simp add: listNodeClaims_def c_list_def safe_wrapE)
  have verify: "safe (\<lambda>_ q. \<not> is_write q) (Verify nodeName claims) h (\<lambda>_ _. True)" for h nodeName claims
    by (rule safe_of_runs) (use reads_only in blast)
  have "safe (\<lambda>_ q. \<not> is_write q) (authorize Verify pem x509 csr) [] (\<lambda>_ _. True)"
    using verify
    by (auto simp: authorize_def authorizeClientCSR_def authorizeServingCSR_def Let_def findTargetNodeClaim_def
        safe_bindE intro!: safe_mono [OF list] split: sum.split option.split)
  from safe_calls [OF this assms] show ?thesis .
qed

text \<open>Every write is the approval of the open request that was read, with evidence for the node name.\<close>

lemma approval_sound:
  assumes "runs (machine_Reconcile Verify pem x509 ns n) tr x" and "tr = t @ (q, r) # u" and "is_write q"
  shows "\<exists>csr nodeName claims chosen.
     q = UpdateApproval (OCertificateSigningRequest (approved csr)) \<and> csr_open csr \<and>
     (Get Hosted KCertificateSigningRequest ns n, RObj (OCertificateSigningRequest csr)) \<in> set t \<and>
     (List Hosted KNodeClaim None [], RList (map ONodeClaim claims)) \<in> set t \<and>
     candidates pem x509 csr nodeName claims chosen \<and> evidence t nodeName chosen"
proof -
  have mem: "(q, r) \<in> set tr" using assms(2) by simp
  show ?thesis using assms(1)
proof (cases rule: runs_machine_Reconcile)
  case (granted csr v r')
  have v: "\<not> is_write q'" if "(q', r') \<in> set v" for q' r'
    using authorize_reads [OF granted(3) that] .
  let ?get = "(Get Hosted KCertificateSigningRequest ns n, RObj (OCertificateSigningRequest csr))"
  have "(?get # v) @ [(UpdateApproval (OCertificateSigningRequest (approved csr)), r')] = t @ (q, r) # u"
    using granted(1) assms(2) by simp
  from last_of_kind [where W = is_write, OF this _ assms(3)]
  have "t = ?get # v \<and> q = UpdateApproval (OCertificateSigningRequest (approved csr))"
    using v by fastforce
  moreover from runs_authorize [OF granted(3)] obtain nodeName claims chosen w where
    w: "v = (List Hosted KNodeClaim None [], RList (map ONodeClaim claims)) # w"
      "candidates pem x509 csr nodeName claims chosen" "runs (Verify nodeName chosen) w (Inr True)"
    by (auto split: if_splits)
  moreover have "evidence (?get # v) nodeName chosen"
    using evidence_append [OF sound [OF w(3)], of "[?get, (List Hosted KNodeClaim None [], RList (map ONodeClaim claims))]" "[]"]
    by (simp add: w(1))
  ultimately show ?thesis using granted(2) by auto
next
  case unread
  with mem assms(3) show ?thesis by auto
next
  case closed
  with mem assms(3) show ?thesis by auto
next
  case failed
  with mem assms(3) authorize_reads [OF failed(3)] show ?thesis by auto
next
  case refused
  with mem assms(3) authorize_reads [OF refused(3)] show ?thesis by auto
qed
qed

end

section \<open>Properties\<close>

text \<open>C9: an approval needs evidence. The only write of the controller approves the request it has
  read, which was open and not being deleted, and only after EC2 has confirmed that an instance of a
  candidate NodeClaim carries the node name of the request: for a client certificate the candidates are
  the NodeClaims without a node, for a serving certificate the NodeClaim of that node.\<close>

theorem approval_needs_evidence:
  assumes "runs (machine_Reconcile aws_Verify pem x509 ns n) tr x"
    and "tr = t @ (q, r) # u" and "is_write q"
  shows "\<exists>csr nodeName claims chosen.
     q = UpdateApproval (OCertificateSigningRequest (approved csr)) \<and> csr_open csr \<and>
     (Get Hosted KCertificateSigningRequest ns n, RObj (OCertificateSigningRequest csr)) \<in> set t \<and>
     (List Hosted KNodeClaim None [], RList (map ONodeClaim claims)) \<in> set t \<and>
     candidates pem x509 csr nodeName claims chosen \<and> ec2_evidence t nodeName chosen"
  using aws_verifier.approval_sound [OF assms] .

text \<open>C28: a request is left pending only for a reason. When a reconcile of an open request succeeds
  without approving it, the NodeClaims had no candidate for it, or EC2 was asked about every instance of
  every candidate and named the node in no answer.\<close>

theorem pending_for_a_reason:
  assumes "runs (machine_Reconcile aws_Verify pem x509 ns n) tr (Inr y)"
    and "tr = (Get Hosted KCertificateSigningRequest ns n, RObj (OCertificateSigningRequest csr)) # v"
    and "csr_open csr" and "\<And>r. (UpdateApproval (OCertificateSigningRequest (approved csr)), r) \<notin> set tr"
  shows "\<exists>nodeName claims chosen w.
     v = (List Hosted KNodeClaim None [], RList (map ONodeClaim claims)) # w \<and>
     candidates pem x509 csr nodeName claims chosen \<and>
     concat (map (\<lambda>(q, r). case q of DescribeInstances ids \<Rightarrow> ids | _ \<Rightarrow> []) w) = instance_ids chosen \<and>
     (\<forall>(q, r)\<in>set w. \<exists>rs. r = RInstances rs \<and> \<not> dns_name_found rs nodeName)"
proof -
  from assms have "runs (authorize aws_Verify pem x509 csr) v (Inr False)"
    by (cases rule: runs_machine_Reconcile) auto
  from runs_authorize [OF this] obtain nodeName claims chosen w where
    v: "v = (List Hosted KNodeClaim None [], RList (map ONodeClaim claims)) # w"
    and c: "candidates pem x509 csr nodeName claims chosen"
    and w: "if chosen = [] then w = [] else runs (aws_Verify nodeName chosen) w (Inr False)"
    by auto
  have "concat (map (\<lambda>(q, r). case q of DescribeInstances ids \<Rightarrow> ids | _ \<Rightarrow> []) w) = instance_ids chosen \<and>
     (\<forall>(q, r)\<in>set w. \<exists>rs. r = RInstances rs \<and> \<not> dns_name_found rs nodeName)"
  proof (cases "chosen = []")
    case True
    with w show ?thesis by (simp add: instance_ids_def List.map_filter_def)
  next
    case False
    with w have "runs (aws_Verify nodeName chosen) w (Inr False)" by simp
    with runs_aws_Verify(3) [OF this] runs_verify_batches [OF this [unfolded aws_Verify_def]]
    show ?thesis by simp
  qed
  with v c show ?thesis by blast
qed

text \<open>The requester is not looked at again. The watch admits a client request only from the node
  bootstrapper, but the reconcile authorises a request of that name whoever sent it; and of a serving
  request the reconcile reads no part of the certificate asked for, so its subject and its alternative
  names are not compared with the node.\<close>

theorem authorization_ignores_requester:
  "authorizeClientCSR verify pem x509 (csr\<lparr>csr_Username := user, csr_Groups := groups\<rparr>)
     = authorizeClientCSR verify pem x509 csr \<and>
   authorizeServingCSR verify (csr\<lparr>csr_Request := request, csr_Groups := groups\<rparr>)
     = authorizeServingCSR verify csr \<and>
   (csr_SignerName csr = KubeAPIServerClientKubeletSignerName \<and> user \<noteq> nodeBootstrapperUsername \<longrightarrow>
      \<not> csrFilterFn (csr\<lparr>csr_Username := user\<rparr>))"
  by (simp add: authorizeClientCSR_def authorizeServingCSR_def csrFilterFn_def)


section \<open>Witnesses\<close>

definition csr_example :: cert_request where
  "csr_example = \<lparr>csr_Meta = new_meta [] ''csr'', csr_Request = ''pem'', csr_SignerName = KubeletServingSignerName,
     csr_Username = ''system:node:n1'', csr_Groups = [nodeGroup], csr_Conditions = []\<rparr>"

lemma csr_example_simps:
  "\<not> being_deleted (csr_Meta csr_example)" "isCertificateRequestPending csr_example" "csr_open csr_example"
  "csr_SignerName csr_example = KubeletServingSignerName" "TrimPrefix (csr_Username csr_example) nodePrefix = ''n1''"
  by (simp_all add: csr_example_def being_deleted_def new_meta_def isCertificateRequestPending_def csr_open_def
      TrimPrefix_def)

abbreviation csr_reads :: "string \<Rightarrow> (req \<times> resp) list" where
  "csr_reads dns \<equiv>
     [(Get Hosted KCertificateSigningRequest [] ''csr'', RObj (OCertificateSigningRequest csr_example)),
      (List Hosted KNodeClaim None [], RList [ONodeClaim (claim_example ''n1'' ''aws:///a/i-1'')]),
      (DescribeInstances [''i-1''], RInstances [[Some dns]])]"

lemma runs_csr_approval:
  "runs (machine_Reconcile aws_Verify (\<lambda>_. None) Inr [] ''csr'')
     (csr_reads ''n1'' @ (UpdateApproval (OCertificateSigningRequest (approved csr_example)), ROk) # [])
     (Inl (EWrap ''approving csr: '' (EWrap ''updating csr approval: '' decode_failed []) []))"
  by (simp add: machine_Reconcile_def c_get_def c_list_def csr_example_simps authorize_def authorizeServingCSR_def
      Let_def findTargetNodeClaim_def listNodeClaims_def aws_Verify_def instance_ids_example chunks_rec
      maxInstanceIDsPerDescribeCall_def matchesPrivateDNSName_def dns_name_found_def approve_def)

lemma runs_csr_refusal:
  "runs (machine_Reconcile aws_Verify (\<lambda>_. None) Inr [] ''csr'') (csr_reads ''n2'') (Inr 0)"
  by (simp add: machine_Reconcile_def c_get_def c_list_def csr_example_simps authorize_def authorizeServingCSR_def
      Let_def findTargetNodeClaim_def listNodeClaims_def aws_Verify_def instance_ids_example chunks_rec
      maxInstanceIDsPerDescribeCall_def matchesPrivateDNSName_def dns_name_found_def)

lemma approval_needs_evidence_witness:
  "\<exists>nodeName chosen. nodeName \<noteq> [] \<and> ec2_evidence (csr_reads ''n1'') nodeName chosen"
  using approval_needs_evidence [OF runs_csr_approval refl] unfolding candidates_def by fastforce

lemma pending_for_a_reason_witness:
  "\<exists>nodeName claims chosen w.
     [(List Hosted KNodeClaim None [], RList [ONodeClaim (claim_example ''n1'' ''aws:///a/i-1'')]),
      (DescribeInstances [''i-1''], RInstances [[Some ''n2'']])]
       = (List Hosted KNodeClaim None [], RList (map ONodeClaim claims)) # w \<and>
     candidates (\<lambda>_. None) Inr csr_example nodeName claims chosen"
proof -
  have "\<And>r. (UpdateApproval (OCertificateSigningRequest (approved csr_example)), r) \<notin> set (csr_reads ''n2'')"
    by simp
  from pending_for_a_reason [OF runs_csr_refusal refl csr_example_simps(3) this] show ?thesis
    by (elim exE conjE) (intro exI conjI)
qed

lemma authorization_ignores_requester_witness:
  "\<not> csrFilterFn (csr_example\<lparr>csr_SignerName := KubeAPIServerClientKubeletSignerName, csr_Username := ''mallory''\<rparr>)"
  using authorization_ignores_requester [where user = "''mallory''" and
      csr = "csr_example\<lparr>csr_SignerName := KubeAPIServerClientKubeletSignerName\<rparr>"]
  by simp

end
