(* ===== verification/Crd_Controller.thy ===== *)
theory Crd_Controller
  imports Controllerutil
begin

text \<open>
  \<^verbatim>\<open>pkg/controllers/crd/controller.go\<close>: the Karpenter CRDs are kept in the target cluster
  (the hosted one, or the manager's own in standalone mode). The CRDs are embedded YAML files and a
  parameter here; of a CRD the operator reads the name and copies the spec.
\<close>

definition crd_mutate :: "crd \<Rightarrow> crd mutate_fn" where
  "crd_mutate desired c = Inr (c\<lparr>crd_Spec := crd_Spec desired\<rparr>)"

definition new_crd :: "string \<Rightarrow> crd" where
  "new_crd n = \<lparr>crd_Meta = new_meta [] n, crd_Spec = []\<rparr>"

definition applyCRD :: "target \<Rightarrow> crd \<Rightarrow> unit io" where
  "applyCRD t desired =
     bindE (CreateOrUpdate t CRDs (new_crd (md_Name (crd_Meta desired))) (crd_mutate desired))
       (\<lambda>_. Ret (Inr ()))"

definition crd_Reconcile :: "target \<Rightarrow> crd list \<Rightarrow> result io" where
  "crd_Reconcile t crds =
     bindE (forE crds (\<lambda>desired.
       wrapE (''applying CRD '' @ md_Name (crd_Meta desired) @ '': '') (applyCRD t desired)))
       (\<lambda>_. done_result)"

text \<open>The names enqueued for an event on a CRD, and the update predicate of the watch
  (\<^verbatim>\<open>TypedGenerationChangedPredicate\<close>).\<close>

definition crd_requests :: "crd list \<Rightarrow> crd \<Rightarrow> string list" where
  "crd_requests crds c =
     (if md_Name (crd_Meta c) \<in> set (map (\<lambda>d. md_Name (crd_Meta d)) crds) then [md_Name (crd_Meta c)] else [])"

definition generation_changed :: "object_meta \<Rightarrow> object_meta \<Rightarrow> bool" where
  "generation_changed old new \<longleftrightarrow> md_Generation new \<noteq> md_Generation old"

interpretation crd_mutation: mutation CRDs "crd_mutate desired" for desired
  by unfold_locales (auto simp: crd_mutate_def res_key_def)

lemma new_crd_key [simp]: "res_key CRDs (new_crd n) = ([], n)"
  by (simp add: res_key_def new_crd_def)

text \<open>What a run may write: a managed CRD, with the embedded spec.\<close>

definition crd_guard :: "target \<Rightarrow> crd list \<Rightarrow> req \<Rightarrow> bool" where
  "crd_guard t crds q \<longleftrightarrow>
     \<not> is_write q \<or>
     (\<exists>d\<in>set crds. \<exists>c. crd_Spec c = crd_Spec d \<and> md_Name (crd_Meta c) = md_Name (crd_Meta d) \<and>
        md_Namespace (crd_Meta c) = [] \<and>
        (q = Create t (OCustomResourceDefinition c) \<or> q = Update t (OCustomResourceDefinition c)))"

lemma safe_crd_Reconcile: "safe (\<lambda>_ q. crd_guard t crds q) (crd_Reconcile t crds) h (\<lambda>_ _. True)"
proof -
  have one: "safe (\<lambda>_ q. crd_guard t crds q) (applyCRD t d) h (\<lambda>_ _. True)" if "d \<in> set crds" for d h
    using that
    by (auto simp: applyCRD_def safe_bindE crd_guard_def crd_mutate_def res_key_def new_crd_def
        intro!: safe_CreateOrUpdate bexI [of _ d] split: sum.split)
  have "safe (\<lambda>_ q. crd_guard t crds q) (forE crds (\<lambda>desired.
       wrapE (''applying CRD '' @ md_Name (crd_Meta desired) @ '': '') (applyCRD t desired))) h (\<lambda>_ _. True)"
    by (rule safe_forE [where I = "\<lambda>_. True"]) (auto simp: safe_wrapE one)
  then show ?thesis
    by (auto simp: crd_Reconcile_def safe_bindE intro: safe_mono split: sum.split)
qed


section \<open>Properties\<close>

text \<open>Every CRD is in place after a successful reconcile. For each embedded CRD the run either found
  one of its name with the embedded spec, or the server accepted a create or update that gives it the
  embedded spec.\<close>

theorem crds_ensured:
  assumes "runs (crd_Reconcile t crds) tr (Inr x)" and "d \<in> set crds"
  shows "ensured t CRDs ([], md_Name (crd_Meta d)) (\<lambda>c. crd_Spec c = crd_Spec d) tr"
proof -
  from assms(1) have "runs (forE crds (\<lambda>desired.
       wrapE (''applying CRD '' @ md_Name (crd_Meta desired) @ '': '') (applyCRD t desired))) tr (Inr ())"
    by (auto simp: crd_Reconcile_def runs_bindE)
  from runs_forE [OF this assms(2)] obtain h u v y where tr: "tr = h @ u @ v"
    and run: "runs (CreateOrUpdate t CRDs (new_crd (md_Name (crd_Meta d))) (crd_mutate d)) u (Inr y)"
    by (auto simp: applyCRD_def runs_wrapE runs_bindE)
  have "ensured t CRDs ([], md_Name (crd_Meta d)) (\<lambda>c. crd_Spec c = crd_Spec d) u"
    using runs_CreateOrUpdate [OF run, where P = "\<lambda>c. crd_Spec c = crd_Spec d"] by (auto simp: crd_mutate_def)
  then show ?thesis unfolding tr by (rule ensured_append)
qed

text \<open>Nothing but the embedded CRDs is written, in the target cluster only, and always with the
  embedded spec.\<close>

theorem crd_writes_confined:
  assumes "runs (crd_Reconcile t crds) tr x" and "(q, r) \<in> set tr" and "is_write q"
  shows "\<exists>d\<in>set crds. \<exists>c. crd_Spec c = crd_Spec d \<and> md_Name (crd_Meta c) = md_Name (crd_Meta d) \<and>
     (q = Create t (OCustomResourceDefinition c) \<or> q = Update t (OCustomResourceDefinition c))"
  using safe_calls [OF safe_crd_Reconcile assms(1,2)] assms(3) by (auto simp: crd_guard_def)


section \<open>Witnesses\<close>

abbreviation crd_example :: crd where
  "crd_example \<equiv> \<lparr>crd_Meta = new_meta [] ''nodepools.karpenter.sh'', crd_Spec = ''v1''\<rparr>"

abbreviation crd_create :: req where
  "crd_create \<equiv> Create Hosted (OCustomResourceDefinition crd_example)"

lemma runs_crd_created:
  "runs (crd_Reconcile Hosted [crd_example])
     [(Get Hosted KCustomResourceDefinition [] ''nodepools.karpenter.sh'', RErr NotFound []),
      (crd_create, RObj (OCustomResourceDefinition crd_example))] (Inr 0)"
  by (simp add: crd_Reconcile_def applyCRD_def CreateOrUpdate_def call_defs Let_def mutate_def crd_mutate_def new_crd_def
      res_key_def)

lemma crds_ensured_witness:
  "ensured Hosted CRDs ([], ''nodepools.karpenter.sh'') (\<lambda>c. crd_Spec c = ''v1'')
     [(Get Hosted KCustomResourceDefinition [] ''nodepools.karpenter.sh'', RErr NotFound []),
      (crd_create, RObj (OCustomResourceDefinition crd_example))]"
  using crds_ensured [OF runs_crd_created, of crd_example] by simp

lemma crd_writes_confined_witness: "\<exists>d\<in>set [crd_example]. md_Name (crd_Meta d) = ''nodepools.karpenter.sh''"
  using crd_writes_confined [OF runs_crd_created, of crd_create "RObj (OCustomResourceDefinition crd_example)"]
  by auto

end
