(* ===== verification/Cluster_Operator.thy ===== *)
theory Cluster_Operator
  imports Controllerutil
begin

text \<open>
  \<^verbatim>\<open>pkg/controllers/clusteroperator/controller.go\<close>: the status of the ClusterOperator of the
  standalone operator, computed from the Karpenter resource and the operand Deployment and sent by
  server-side apply. \<open>now\<close> is the time at which the conditions are stamped.
\<close>

abbreviation clusterOperatorName :: string where "clusterOperatorName \<equiv> ''karpenter''"
abbreviation fieldManager :: string where "fieldManager \<equiv> ''karpenter-operator''"
abbreviation OperatorAvailable :: string where "OperatorAvailable \<equiv> ''Available''"
abbreviation OperatorProgressing :: string where "OperatorProgressing \<equiv> ''Progressing''"
abbreviation OperatorDegraded :: string where "OperatorDegraded \<equiv> ''Degraded''"
abbreviation OperatorUpgradeable :: string where "OperatorUpgradeable \<equiv> ''Upgradeable''"

record co_config =
  cfg_Namespace :: string
  cfg_ReleaseVersion :: string
  cfg_AdditionalRelatedObjects :: "object_reference list"
  cfg_UnsupportedPlatform :: "string option"


section \<open>Condition builders\<close>

definition co_cond :: "string \<Rightarrow> string \<Rightarrow> string \<Rightarrow> string \<Rightarrow> co_condition" where
  "co_cond condType status reason message =
     \<lparr>coc_Type = condType, coc_Status = status, coc_Reason = reason,
      coc_Message = (if message \<noteq> [] then Some message else None), coc_LastTransitionTime = None\<rparr>"

definition availableConditions :: "string \<Rightarrow> string \<Rightarrow> co_condition list" where
  "availableConditions reason message =
     [co_cond OperatorAvailable ConditionTrue reason message,
      co_cond OperatorProgressing ConditionFalse ''AsExpected'' [],
      co_cond OperatorDegraded ConditionFalse ''AsExpected'' [],
      co_cond OperatorUpgradeable ConditionTrue ''AsExpected'' []]"

definition progressingConditions :: "string \<Rightarrow> string \<Rightarrow> co_condition list" where
  "progressingConditions reason message =
     [co_cond OperatorAvailable ConditionTrue ''AsExpected'' [],
      co_cond OperatorProgressing ConditionTrue reason message,
      co_cond OperatorDegraded ConditionFalse ''AsExpected'' [],
      co_cond OperatorUpgradeable ConditionTrue ''AsExpected'' []]"

definition degradedConditions :: "string \<Rightarrow> string \<Rightarrow> co_condition list" where
  "degradedConditions reason message =
     [co_cond OperatorAvailable ConditionTrue ''AsExpected'' [],
      co_cond OperatorProgressing ConditionFalse ''AsExpected'' [],
      co_cond OperatorDegraded ConditionTrue reason message,
      co_cond OperatorUpgradeable ConditionTrue ''AsExpected'' []]"

definition findCondition :: "co_condition list \<Rightarrow> string \<Rightarrow> co_condition option" where
  "findCondition cs condType = find (\<lambda>c. coc_Type c = condType) cs"


section \<open>The controller\<close>

text \<open>The switch over the Deployment that was read.\<close>

definition deploymentConditions :: "co_config \<Rightarrow> goerr + deployment \<Rightarrow> co_condition list" where
  "deploymentConditions cfg deploy =
     (case deploy of
        Inl e \<Rightarrow> if IsNotFound e
          then progressingConditions ''OperandNotYetCreated'' ''Waiting for karpenter Deployment to be created''
          else degradedConditions ''OperandCheckFailed'' (''Failed to get operand Deployment: '' @ Error e)
      | Inr d \<Rightarrow>
          if dep_AvailableReplicas d < 1
          then progressingConditions ''OperandNotReady'' ''Waiting for karpenter Deployment to become available''
          else if dep_UpdatedReplicas d \<noteq> dep_Replicas d
          then progressingConditions ''OperandRollingOut'' ''Karpenter Deployment is rolling out''
          else availableConditions ''AsExpected'' (''at version '' @ cfg_ReleaseVersion cfg))"

definition missingConditions :: "co_config \<Rightarrow> goerr \<Rightarrow> co_condition list" where
  "missingConditions cfg e =
     (if IsNotFound e
      then availableConditions ''KarpenterNotFound'' (''at version '' @ cfg_ReleaseVersion cfg)
      else degradedConditions ''KarpenterCheckFailed'' (''Failed to get Karpenter CR: '' @ Error e))"

text \<open>The conditions do not fail: an error of the reads is one of the outcomes.\<close>

definition operandConditions :: "co_config \<Rightarrow> (req, resp, co_condition list) prog" where
  "operandConditions cfg =
     bind (c_get Mgmt Karpenters [] SingletonName) (\<lambda>karp.
       case karp of
         Inl e \<Rightarrow> Ret (missingConditions cfg e)
       | Inr _ \<Rightarrow> bind (c_get Mgmt Deployments (cfg_Namespace cfg) ''karpenter'')
           (\<lambda>deploy. Ret (deploymentConditions cfg deploy)))"

definition stamp :: "time \<Rightarrow> co_condition list \<Rightarrow> co_condition \<Rightarrow> co_condition" where
  "stamp now existing c =
     (let c = (if coc_LastTransitionTime c = None then c\<lparr>coc_LastTransitionTime := Some now\<rparr> else c) in
      case findCondition existing (coc_Type c) of
        Some prev \<Rightarrow> if coc_Status prev = coc_Status c
          then c\<lparr>coc_LastTransitionTime := coc_LastTransitionTime prev\<rparr> else c
      | None \<Rightarrow> c)"

definition oref :: "string \<Rightarrow> string \<Rightarrow> string \<Rightarrow> object_reference" where
  "oref g r n = \<lparr>oref_Group = g, oref_Resource = r, oref_Namespace = None, oref_Name = n\<rparr>"

text \<open>The configured references have a plain namespace, which is always sent.\<close>

definition relatedObjects :: "co_config \<Rightarrow> object_reference list" where
  "relatedObjects cfg =
     [oref [] ''namespaces'' (cfg_Namespace cfg),
      (oref ''apps'' ''deployments'' ''karpenter-operator'')\<lparr>oref_Namespace := Some (cfg_Namespace cfg)\<rparr>,
      oref ''rbac.authorization.k8s.io'' ''clusterroles'' ''karpenter-operator'',
      oref ''rbac.authorization.k8s.io'' ''clusterrolebindings'' ''karpenter-operator''] @
     (if cfg_UnsupportedPlatform cfg = None
      then [oref ''karpenter.sh'' ''nodepools'' [], oref ''karpenter.sh'' ''nodeclaims'' []] else []) @
     map (\<lambda>ref. ref\<lparr>oref_Namespace :=
            Some (case oref_Namespace ref of None \<Rightarrow> [] | Some ns \<Rightarrow> ns)\<rparr>)
       (cfg_AdditionalRelatedObjects cfg)"

definition applyStatus :: "time \<Rightarrow> co_config \<Rightarrow> co_condition list \<Rightarrow> unit io" where
  "applyStatus now cfg conditions =
     bindE (wrapE ''applying ClusterOperator: ''
              (c_apply Mgmt fieldManager False (ApplyClusterOperator clusterOperatorName))) (\<lambda>_.
     bindE (wrapE ''reading existing ClusterOperator: ''
              (c_get Mgmt ClusterOperators [] clusterOperatorName)) (\<lambda>existing.
     c_apply Mgmt fieldManager True (ApplyClusterOperatorStatus clusterOperatorName
       (map (stamp now (co_Conditions existing)) conditions)
       [(''operator'', cfg_ReleaseVersion cfg)] (relatedObjects cfg))))"

definition co_Reconcile :: "time \<Rightarrow> co_config \<Rightarrow> result io" where
  "co_Reconcile now cfg =
     bind (case cfg_UnsupportedPlatform cfg of
             Some platform \<Rightarrow> Ret (availableConditions ''UnsupportedPlatform''
               (''Karpenter is not supported on platform '' @ platform @ '', no operand is deployed''))
           | None \<Rightarrow> operandConditions cfg) (\<lambda>conditions.
     bindE (wrapE ''updating ClusterOperator status: '' (applyStatus now cfg conditions)) (\<lambda>_. done_result))"


section \<open>Properties\<close>

text \<open>The three shapes of the condition list.\<close>

definition co_shape :: "co_condition list \<Rightarrow> bool" where
  "co_shape cs \<longleftrightarrow>
     map coc_Type cs = [OperatorAvailable, OperatorProgressing, OperatorDegraded, OperatorUpgradeable] \<and>
     map coc_Status cs \<in> {[ConditionTrue, ConditionFalse, ConditionFalse, ConditionTrue],
       [ConditionTrue, ConditionTrue, ConditionFalse, ConditionTrue],
       [ConditionTrue, ConditionFalse, ConditionTrue, ConditionTrue]} \<and>
     (\<forall>c\<in>set cs. coc_LastTransitionTime c = None)"

lemma co_shapes [simp]:
  "co_shape (availableConditions r m)" "co_shape (progressingConditions r m)" "co_shape (degradedConditions r m)"
  by (simp_all add: co_shape_def availableConditions_def progressingConditions_def degradedConditions_def co_cond_def)

lemma judged_shapes [simp]: "co_shape (missingConditions cfg e)" "co_shape (deploymentConditions cfg d)"
  by (simp_all add: missingConditions_def deploymentConditions_def split: sum.split)

lemma stamp_frame [simp]:
  "coc_Type (stamp now ex c) = coc_Type c" "coc_Status (stamp now ex c) = coc_Status c"
  "coc_Reason (stamp now ex c) = coc_Reason c" "coc_Message (stamp now ex c) = coc_Message c"
  by (simp_all add: stamp_def Let_def split: option.split)

definition co_guard :: "time \<Rightarrow> co_config \<Rightarrow> (req \<times> resp) list \<Rightarrow> req \<Rightarrow> bool" where
  "co_guard now cfg h q \<longleftrightarrow>
     \<not> is_write q \<or>
     q = Apply Mgmt fieldManager False (ApplyClusterOperator clusterOperatorName) \<or>
     (\<exists>conditions existing r t.
        h = t @ [(Apply Mgmt fieldManager False (ApplyClusterOperator clusterOperatorName), r),
                 (Get Mgmt KClusterOperator [] clusterOperatorName, RObj (OClusterOperator existing))] \<and>
        co_shape conditions \<and>
        q = Apply Mgmt fieldManager True (ApplyClusterOperatorStatus clusterOperatorName
              (map (stamp now (co_Conditions existing)) conditions)
              [(''operator'', cfg_ReleaseVersion cfg)] (relatedObjects cfg)))"

lemma safe_co_Reconcile: "safe (co_guard now cfg) (co_Reconcile now cfg) [] (\<lambda>_ _. True)"
proof -
  have status: "safe (co_guard now cfg) (applyStatus now cfg cs) h (\<lambda>_ _. True)" if "co_shape cs" for cs h
    using that
    by (auto simp: applyStatus_def call_defs safe_bindE safe_wrapE co_guard_def cluster_operators.as_object_iff
        split: sum.split)
  have reads: "safe (co_guard now cfg) (operandConditions cfg) h (\<lambda>_ cs. co_shape cs)" for h
    by (auto simp: operandConditions_def call_defs safe_bind co_guard_def split: sum.split)
  show ?thesis
    by (auto simp: co_Reconcile_def safe_bind safe_bindE safe_wrapE intro!: status safe_mono [OF reads]
        split: option.split sum.split)
qed

text \<open>The ClusterOperator is never reported unavailable. Whatever the API server answers, the status
  that is applied has exactly the four conditions, Available and Upgradeable are true, and at most one of
  Progressing and Degraded is; it is applied to the ClusterOperator that has just been ensured and read,
  and names the release version. In particular the operator is Available while the operand Deployment is
  missing or cannot be read.\<close>

theorem cluster_operator_status:
  assumes "runs (co_Reconcile now cfg) tr x"
    and "tr = t @ (Apply tgt owner force (ApplyClusterOperatorStatus n cs versions refs), r) # u"
  shows "map coc_Type cs = [OperatorAvailable, OperatorProgressing, OperatorDegraded, OperatorUpgradeable] \<and>
     map coc_Status cs \<in> {[ConditionTrue, ConditionFalse, ConditionFalse, ConditionTrue],
       [ConditionTrue, ConditionTrue, ConditionFalse, ConditionTrue],
       [ConditionTrue, ConditionFalse, ConditionTrue, ConditionTrue]} \<and>
     tgt = Mgmt \<and> n = clusterOperatorName \<and> versions = [(''operator'', cfg_ReleaseVersion cfg)] \<and>
     refs = relatedObjects cfg \<and>
     (\<exists>v y existing. t = v @ [(Apply Mgmt fieldManager False (ApplyClusterOperator clusterOperatorName), y),
        (Get Mgmt KClusterOperator [] clusterOperatorName, RObj (OClusterOperator existing))])"
  using safe_guard [OF safe_co_Reconcile assms] by (auto simp: co_guard_def co_shape_def comp_def)

lemma runs_operandConditions:
  "runs (operandConditions cfg) tr cs \<longleftrightarrow>
     (\<exists>r e. tr = [(Get Mgmt KKarpenter [] SingletonName, r)] \<and> as_object Karpenters r = Inl e \<and>
        cs = missingConditions cfg e) \<or>
     (\<exists>k d. tr = [(Get Mgmt KKarpenter [] SingletonName, RObj (OKarpenter k)),
         (Get Mgmt KDeployment (cfg_Namespace cfg) ''karpenter'', d)] \<and>
        cs = deploymentConditions cfg (as_object Deployments d))"
  (is "?l \<longleftrightarrow> ?e \<or> ?d")
proof
  assume ?l
  then obtain r u where tr: "tr = (Get Mgmt KKarpenter [] SingletonName, r) # u"
    by (auto simp: operandConditions_def c_get_def runs_Call_iff)
  with \<open>?l\<close> show "?e \<or> ?d"
    by (cases "as_object Karpenters r")
      (auto simp: operandConditions_def c_get_def karpenters.as_object_iff runs_Call_iff)
next
  assume "?e \<or> ?d"
  then show ?l by (auto simp: operandConditions_def c_get_def runs_Call_iff)
qed

definition condition_true :: "string \<Rightarrow> co_condition list \<Rightarrow> bool" where
  "condition_true ty cs \<longleftrightarrow> (\<exists>c\<in>set cs. coc_Type c = ty \<and> coc_Status c = ConditionTrue)"

lemma condition_true_simps [simp]:
  "\<not> condition_true OperatorDegraded (availableConditions r m)"
  "\<not> condition_true OperatorProgressing (availableConditions r m)"
  "\<not> condition_true OperatorDegraded (progressingConditions r m)"
  "condition_true OperatorProgressing (progressingConditions r m)"
  "condition_true OperatorDegraded (degradedConditions r m)"
  "\<not> condition_true OperatorProgressing (degradedConditions r m)"
  by (simp_all add: condition_true_def availableConditions_def progressingConditions_def degradedConditions_def
      co_cond_def)

text \<open>C38: how the operand is judged. The Karpenter resource is read first and the Deployment only when it
  exists. Degraded is true exactly when one of the two reads failed for another reason than absence;
  Progressing exactly when the Karpenter resource exists and the Deployment is absent, has no available
  replica, or has replicas that are not updated.\<close>

theorem operand_conditions_spec:
  assumes "runs (operandConditions cfg) tr cs"
  shows "(condition_true OperatorDegraded cs \<longleftrightarrow>
       (\<exists>e. \<not> IsNotFound e \<and>
          (as_object Karpenters (snd (hd tr)) = Inl e \<or>
           length tr = 2 \<and> as_object Deployments (snd (last tr)) = Inl e))) \<and>
     (condition_true OperatorProgressing cs \<longleftrightarrow>
       (length tr = 2 \<and>
         (case as_object Deployments (snd (last tr)) of
            Inl e \<Rightarrow> IsNotFound e
          | Inr d \<Rightarrow> dep_AvailableReplicas d < 1 \<or> dep_UpdatedReplicas d \<noteq> dep_Replicas d)))"
  using assms unfolding runs_operandConditions
  by (elim disjE exE conjE)
    (auto simp: missingConditions_def deploymentConditions_def split: sum.split)

text \<open>The transition time of a condition moves only with its status. A condition whose status is the
  one already reported keeps the reported time; every other condition gets the current time. Nothing
  else of a condition is changed by the stamp.\<close>

theorem transition_time_follows_status:
  assumes "coc_LastTransitionTime c = None"
  shows "coc_LastTransitionTime (stamp now existing c) =
       (case findCondition existing (coc_Type c) of
          Some prev \<Rightarrow> if coc_Status prev = coc_Status c then coc_LastTransitionTime prev else Some now
        | None \<Rightarrow> Some now) \<and>
     (stamp now existing c)\<lparr>coc_LastTransitionTime := None\<rparr> = c"
  using assms by (simp add: stamp_def Let_def split: option.split)

text \<open>On an unsupported platform no object of the Karpenter API is referenced, because its CRDs are
  not installed: apart from the references of the configuration, none is in the group
  \<^verbatim>\<open>karpenter.sh\<close>; on a supported one NodePools and NodeClaims are. The namespace and
  the Deployment of the operator are always referenced.\<close>

theorem related_objects_spec:
  "(oref [] ''namespaces'' (cfg_Namespace cfg)) \<in> set (relatedObjects cfg) \<and>
   (\<exists>ref\<in>set (relatedObjects cfg). oref_Resource ref = ''deployments'' \<and> oref_Namespace ref = Some (cfg_Namespace cfg)) \<and>
   ((\<forall>ref\<in>set (cfg_AdditionalRelatedObjects cfg). oref_Group ref \<noteq> ''karpenter.sh'') \<longrightarrow>
      (map oref_Resource (filter (\<lambda>ref. oref_Group ref = ''karpenter.sh'') (relatedObjects cfg)) =
         (if cfg_UnsupportedPlatform cfg = None then [''nodepools'', ''nodeclaims''] else [])))"
proof -
  have "filter (\<lambda>ref. oref_Group ref = ''karpenter.sh'')
      (map (\<lambda>ref. ref\<lparr>oref_Namespace := Some (case oref_Namespace ref of None \<Rightarrow> [] | Some ns \<Rightarrow> ns)\<rparr>) refs) = []"
    if "\<forall>ref\<in>set refs. oref_Group ref \<noteq> ''karpenter.sh''" for refs :: "object_reference list"
    using that by (induction refs) auto
  then show ?thesis by (simp add: relatedObjects_def oref_def)
qed


section \<open>Witnesses\<close>

abbreviation cfg_example :: co_config where
  "cfg_example \<equiv> \<lparr>cfg_Namespace = ''ns'', cfg_ReleaseVersion = ''1'', cfg_AdditionalRelatedObjects = [],
     cfg_UnsupportedPlatform = None\<rparr>"

abbreviation co_example :: cluster_operator where
  "co_example \<equiv> \<lparr>co_Meta = new_meta [] ''karpenter'', co_Conditions = []\<rparr>"

abbreviation co_prefix :: "(req \<times> resp) list" where
  "co_prefix \<equiv> [(Get Mgmt KKarpenter [] SingletonName, RErr OtherReason []),
     (Apply Mgmt fieldManager False (ApplyClusterOperator clusterOperatorName), ROk),
     (Get Mgmt KClusterOperator [] clusterOperatorName, RObj (OClusterOperator co_example))]"

definition co_failed_conditions :: "co_condition list" where
  "co_failed_conditions = map (stamp 7 []) (missingConditions cfg_example (EApi OtherReason []))"

lemma runs_co_failed:
  "runs (co_Reconcile 7 cfg_example)
     (co_prefix @ (Apply Mgmt fieldManager True (ApplyClusterOperatorStatus clusterOperatorName
        co_failed_conditions [(''operator'', ''1'')] (relatedObjects cfg_example)), ROk) # [])
     (Inr 0)"
  by (simp add: co_Reconcile_def operandConditions_def applyStatus_def call_defs co_failed_conditions_def)

lemma cluster_operator_status_witness:
  "map coc_Type co_failed_conditions =
     [OperatorAvailable, OperatorProgressing, OperatorDegraded, OperatorUpgradeable]"
  using cluster_operator_status [OF runs_co_failed refl] by blast

lemma runs_operand_rolling:
  "runs (operandConditions cfg_example)
     [(Get Mgmt KKarpenter [] SingletonName, RObj (OKarpenter \<lparr>kcr_Meta = new_meta [] SingletonName, kcr_LogLevel = []\<rparr>)),
      (Get Mgmt KDeployment ''ns'' ''karpenter'', RObj (ODeployment
        \<lparr>dep_Meta = new_meta ''ns'' ''karpenter'', dep_Replicas = 3, dep_UpdatedReplicas = 1, dep_AvailableReplicas = 2\<rparr>))]
     (deploymentConditions cfg_example (Inr
        \<lparr>dep_Meta = new_meta ''ns'' ''karpenter'', dep_Replicas = 3, dep_UpdatedReplicas = 1, dep_AvailableReplicas = 2\<rparr>))"
  by (simp add: operandConditions_def c_get_def)

lemma operand_conditions_spec_witness:
  "condition_true OperatorProgressing (deploymentConditions cfg_example (Inr
     \<lparr>dep_Meta = new_meta ''ns'' ''karpenter'', dep_Replicas = 3, dep_UpdatedReplicas = 1, dep_AvailableReplicas = 2\<rparr>))"
  using operand_conditions_spec [OF runs_operand_rolling] by simp

lemma transition_time_follows_status_witness:
  "coc_LastTransitionTime (stamp 9 [(co_cond ''Available'' ''True'' [] [])\<lparr>coc_LastTransitionTime := Some 4\<rparr>]
     (co_cond ''Available'' ''True'' ''AsExpected'' [])) = Some 4"
  using transition_time_follows_status [of "co_cond ''Available'' ''True'' ''AsExpected'' []" 9
      "[(co_cond ''Available'' ''True'' [] [])\<lparr>coc_LastTransitionTime := Some 4\<rparr>]"]
  by (simp add: co_cond_def findCondition_def)

lemma related_objects_spec_witness:
  "filter (\<lambda>ref. oref_Group ref = ''karpenter.sh'')
     (relatedObjects (cfg_example\<lparr>cfg_UnsupportedPlatform := Some ''None''\<rparr>)) = []"
  using related_objects_spec [of "cfg_example\<lparr>cfg_UnsupportedPlatform := Some ''None''\<rparr>"] by simp

end
