(* ===== verification/Apply_Convert.thy ===== *)
theory Apply_Convert
  imports Kubelet_Config Operand_Types
begin

text \<open>
  \<^verbatim>\<open>pkg/controllers/karpenter/convert.go\<close>: the typed lists of environment variables,
  volumes, mounts and init containers are turned into apply configurations through their JSON form.
  The encoders follow the \<^verbatim>\<open>omitempty\<close> tags of the core types, the decoders fill the
  pointers of the apply configurations. The last section gives the conversions in closed form.
\<close>


section \<open>Encoding\<close>

definition enc_str :: "string \<Rightarrow> string \<Rightarrow> (string \<times> json) list" where
  "enc_str f s = (if s = [] then [] else [(f, JStr s)])"

definition enc_str_ptr :: "string \<Rightarrow> string option \<Rightarrow> (string \<times> json) list" where
  "enc_str_ptr f p = (case p of None \<Rightarrow> [] | Some s \<Rightarrow> [(f, JStr s)])"

definition enc_bool :: "string \<Rightarrow> bool \<Rightarrow> (string \<times> json) list" where
  "enc_bool f b = (if b then [(f, JBool True)] else [])"

definition enc_list :: "string \<Rightarrow> ('a \<Rightarrow> json) \<Rightarrow> 'a list \<Rightarrow> (string \<times> json) list" where
  "enc_list f e xs = (if xs = [] then [] else [(f, JArr (map e xs))])"

definition enc_ptr :: "string \<Rightarrow> ('a \<Rightarrow> json) \<Rightarrow> 'a option \<Rightarrow> (string \<times> json) list" where
  "enc_ptr f e p = (case p of None \<Rightarrow> [] | Some x \<Rightarrow> [(f, e x)])"

definition enc_env_var :: "env_var \<Rightarrow> json" where
  "enc_env_var v = JObj ([(''name'', JStr (ev_Name v))] @ enc_str ''value'' (ev_Value v))"

definition enc_volume_mount :: "volume_mount \<Rightarrow> json" where
  "enc_volume_mount m = JObj ([(''name'', JStr (vm_Name m))] @ enc_bool ''readOnly'' (vm_ReadOnly m) @
     [(''mountPath'', JStr (vm_MountPath m))])"

definition enc_key_to_path :: "key_to_path \<Rightarrow> json" where
  "enc_key_to_path k = JObj [(''key'', JStr (kp_Key k)), (''path'', JStr (kp_Path k))]"

definition enc_secret_source :: "secret_volume_source \<Rightarrow> json" where
  "enc_secret_source s = JObj (enc_str ''secretName'' (svs_SecretName s) @
     enc_list ''items'' enc_key_to_path (svs_Items s) @ enc_int_ptr ''defaultMode'' (svs_DefaultMode s))"

definition enc_volume :: "volume \<Rightarrow> json" where
  "enc_volume v = JObj ([(''name'', JStr (vol_Name v))] @
     enc_ptr ''emptyDir'' (\<lambda>_. JObj []) (if vol_EmptyDir v then Some () else None) @
     enc_ptr ''secret'' enc_secret_source (vol_Secret v))"

definition enc_exec :: "string list \<Rightarrow> json" where
  "enc_exec command = JObj (enc_list ''command'' JStr command)"

definition enc_probe :: "probe \<Rightarrow> json" where
  "enc_probe p = JObj (enc_ptr ''exec'' enc_exec (pr_Exec p) @ enc_int ''periodSeconds'' (pr_PeriodSeconds p) @
     enc_int ''failureThreshold'' (pr_FailureThreshold p))"

text \<open>The resource requirements are a struct, which \<^verbatim>\<open>omitempty\<close> does not leave
  out.\<close>

definition enc_container :: "container \<Rightarrow> json" where
  "enc_container c = JObj ([(''name'', JStr (ct_Name c))] @ enc_str ''image'' (ct_Image c) @
     enc_list ''command'' JStr (ct_Command c) @ enc_list ''args'' JStr (ct_Args c) @
     [(''resources'', JObj (enc_map ''requests'' (Some (ct_Requests c))))] @
     enc_str_ptr ''restartPolicy'' (ct_RestartPolicy c) @
     enc_list ''volumeMounts'' enc_volume_mount (ct_VolumeMounts c) @
     enc_ptr ''startupProbe'' enc_probe (ct_StartupProbe c) @
     enc_str ''imagePullPolicy'' (ct_ImagePullPolicy c))"


section \<open>Decoding\<close>

fun dec_str :: "string \<Rightarrow> json \<Rightarrow> string option" where
  "dec_str x (JStr s) = Some s"
| "dec_str x JNull = Some x"
| "dec_str x _ = None"

fun dec_str_ptr :: "string option \<Rightarrow> json \<Rightarrow> string option option" where
  "dec_str_ptr x (JStr s) = Some (Some s)"
| "dec_str_ptr x JNull = Some None"
| "dec_str_ptr x _ = None"

fun dec_each :: "(json \<Rightarrow> 'a option) \<Rightarrow> json list \<Rightarrow> 'a list option" where
  "dec_each d [] = Some []"
| "dec_each d (j # js) =
     (case d j of None \<Rightarrow> None | Some x \<Rightarrow> map_option ((#) x) (dec_each d js))"

fun dec_list :: "(json \<Rightarrow> 'a option) \<Rightarrow> 'a list \<Rightarrow> json \<Rightarrow> 'a list option" where
  "dec_list d x (JArr js) = dec_each d js"
| "dec_list d x JNull = Some []"
| "dec_list d x _ = None"

fun dec_ptr :: "(json \<Rightarrow> 'a option) \<Rightarrow> 'a option \<Rightarrow> json \<Rightarrow> 'a option option" where
  "dec_ptr d x JNull = Some None"
| "dec_ptr d x j = map_option Some (d j)"

text \<open>A struct: the values of its fields are stored as for \<open>UnmarshalJSON\<close>; \<open>null\<close>
  leaves it as it is.\<close>

fun dec_struct :: "((string \<times> json) list \<Rightarrow> 'a option) \<Rightarrow> json \<Rightarrow> 'a option" where
  "dec_struct d (JObj es) = d es"
| "dec_struct d JNull = d []"
| "dec_struct d _ = None"

definition dec_env_var :: "json \<Rightarrow> env_var_ac option" where
  "dec_env_var = dec_struct (\<lambda>es. let vals = (\<lambda>f. field_vals [''name'', ''value''] f es) in
     Option.bind (dec_all dec_str_ptr None (vals ''name'')) (\<lambda>name.
     Option.bind (dec_all dec_str_ptr None (vals ''value'')) (\<lambda>val.
     Some \<lparr>eva_Name = name, eva_Value = val, eva_FieldPath = None\<rparr>)))"

definition dec_volume_mount :: "json \<Rightarrow> volume_mount_ac option" where
  "dec_volume_mount = dec_struct (\<lambda>es. let vals = (\<lambda>f. field_vals [''name'', ''readOnly'', ''mountPath''] f es) in
     Option.bind (dec_all dec_str_ptr None (vals ''name'')) (\<lambda>name.
     Option.bind (dec_all dec_bool_ptr None (vals ''readOnly'')) (\<lambda>readOnly.
     Option.bind (dec_all dec_str_ptr None (vals ''mountPath'')) (\<lambda>mountPath.
     Some \<lparr>vma_Name = name, vma_MountPath = mountPath, vma_ReadOnly = readOnly\<rparr>))))"

definition dec_key_to_path :: "json \<Rightarrow> key_to_path_ac option" where
  "dec_key_to_path = dec_struct (\<lambda>es. let vals = (\<lambda>f. field_vals [''key'', ''path''] f es) in
     Option.bind (dec_all dec_str_ptr None (vals ''key'')) (\<lambda>key.
     Option.bind (dec_all dec_str_ptr None (vals ''path'')) (\<lambda>path.
     Some \<lparr>kpa_Key = key, kpa_Path = path\<rparr>)))"

definition dec_secret_source :: "json \<Rightarrow> secret_volume_source_ac option" where
  "dec_secret_source = dec_struct (\<lambda>es. let vals = (\<lambda>f. field_vals [''secretName'', ''items'', ''defaultMode''] f es) in
     Option.bind (dec_all dec_str_ptr None (vals ''secretName'')) (\<lambda>secretName.
     Option.bind (dec_all (dec_list dec_key_to_path) [] (vals ''items'')) (\<lambda>items.
     Option.bind (dec_all dec_int32_ptr None (vals ''defaultMode'')) (\<lambda>defaultMode.
     Some \<lparr>sva_SecretName = secretName, sva_DefaultMode = defaultMode, sva_Items = items\<rparr>))))"

definition dec_volume :: "json \<Rightarrow> volume_ac option" where
  "dec_volume = dec_struct (\<lambda>es. let vals = (\<lambda>f. field_vals [''name'', ''emptyDir'', ''secret''] f es) in
     Option.bind (dec_all dec_str_ptr None (vals ''name'')) (\<lambda>name.
     Option.bind (dec_all (dec_ptr (dec_struct (\<lambda>_. Some ()))) None (vals ''emptyDir'')) (\<lambda>emptyDir.
     Option.bind (dec_all (dec_ptr dec_secret_source) None (vals ''secret'')) (\<lambda>sec.
     Some \<lparr>vla_Name = name, vla_Secret = sec, vla_EmptyDir = (emptyDir \<noteq> None)\<rparr>))))"

definition dec_exec :: "json \<Rightarrow> string list option" where
  "dec_exec = dec_struct (\<lambda>es. dec_all (dec_list (dec_str [])) [] (field_vals [''command''] ''command'' es))"

definition dec_probe :: "json \<Rightarrow> probe_ac option" where
  "dec_probe = dec_struct (\<lambda>es. let vals = (\<lambda>f. field_vals [''exec'', ''periodSeconds'', ''failureThreshold''] f es) in
     Option.bind (dec_all (dec_ptr dec_exec) None (vals ''exec'')) (\<lambda>ex.
     Option.bind (dec_all dec_int32_ptr None (vals ''periodSeconds'')) (\<lambda>period.
     Option.bind (dec_all dec_int32_ptr None (vals ''failureThreshold'')) (\<lambda>threshold.
     Some \<lparr>pra_HTTPGet = None, pra_Exec = ex, pra_InitialDelaySeconds = None, pra_TimeoutSeconds = None,
       pra_PeriodSeconds = period, pra_FailureThreshold = threshold\<rparr>))))"

text \<open>The requests of the resource requirements, the only part of them in use.\<close>

definition dec_resources :: "json \<Rightarrow> string gomap option option" where
  "dec_resources = dec_struct (\<lambda>es. dec_all dec_map None (field_vals [''requests''] ''requests'' es))"

definition container_fields :: "string list" where
  "container_fields = [''name'', ''image'', ''command'', ''args'', ''resources'', ''restartPolicy'',
     ''volumeMounts'', ''startupProbe'', ''imagePullPolicy'']"

definition dec_container :: "json \<Rightarrow> container_ac option" where
  "dec_container = dec_struct (\<lambda>es. let vals = (\<lambda>f. field_vals container_fields f es) in
     Option.bind (dec_all dec_str_ptr None (vals ''name'')) (\<lambda>name.
     Option.bind (dec_all dec_str_ptr None (vals ''image'')) (\<lambda>image.
     Option.bind (dec_all (dec_list (dec_str [])) [] (vals ''command'')) (\<lambda>command.
     Option.bind (dec_all (dec_list (dec_str [])) [] (vals ''args'')) (\<lambda>args.
     Option.bind (dec_all (dec_ptr dec_resources) None (vals ''resources'')) (\<lambda>resources.
     Option.bind (dec_all dec_str_ptr None (vals ''restartPolicy'')) (\<lambda>restartPolicy.
     Option.bind (dec_all (dec_list dec_volume_mount) [] (vals ''volumeMounts'')) (\<lambda>mounts.
     Option.bind (dec_all (dec_ptr dec_probe) None (vals ''startupProbe'')) (\<lambda>startup.
     Option.bind (dec_all dec_str_ptr None (vals ''imagePullPolicy'')) (\<lambda>pullPolicy.
     Some (new_container_ac\<lparr>cta_Name := name, cta_Image := image, cta_Command := command, cta_Args := args,
       cta_ImagePullPolicy := pullPolicy, cta_Requests := Option.bind resources id,
       cta_StartupProbe := startup, cta_RestartPolicy := restartPolicy, cta_VolumeMounts := mounts\<rparr>)))))))))))"


section \<open>The conversions\<close>

text \<open>\<^verbatim>\<open>json.Marshal\<close> does not fail on these types.\<close>

definition toApplyConfiguration :: "('a \<Rightarrow> json) \<Rightarrow> (json \<Rightarrow> 'b option) \<Rightarrow> 'a \<Rightarrow> goerr + 'b" where
  "toApplyConfiguration enc dec x =
     (case dec (enc x) of None \<Rightarrow> Inl (EWrap ''unmarshal: '' decode_error []) | Some y \<Rightarrow> Inr y)"

fun convert_from ::
  "('a \<Rightarrow> json) \<Rightarrow> (json \<Rightarrow> 'b option) \<Rightarrow> string \<Rightarrow> nat \<Rightarrow> 'a list \<Rightarrow> goerr + 'b list"
where
  "convert_from enc dec fld i [] = Inr []"
| "convert_from enc dec fld i (x # xs) =
     (case toApplyConfiguration enc dec x of
        Inl e \<Rightarrow> Inl (EWrap (''convert '' @ fld @ ''['' @ Itoa (int i) @ '']: '') e [])
      | Inr y \<Rightarrow> map_sum id ((#) y) (convert_from enc dec fld (Suc i) xs))"

definition applyConfigurations ::
  "('a \<Rightarrow> json) \<Rightarrow> (json \<Rightarrow> 'b option) \<Rightarrow> 'a list \<Rightarrow> string \<Rightarrow> goerr + 'b list"
where
  "applyConfigurations enc dec items fld = convert_from enc dec fld 0 items"

definition envVars :: "env_var list \<Rightarrow> goerr + env_var_ac list" where
  "envVars vars = applyConfigurations enc_env_var dec_env_var vars ''env''"

definition volumes :: "volume list \<Rightarrow> goerr + volume_ac list" where
  "volumes vols = applyConfigurations enc_volume dec_volume vols ''volume''"

definition volumeMounts :: "volume_mount list \<Rightarrow> goerr + volume_mount_ac list" where
  "volumeMounts mounts = applyConfigurations enc_volume_mount dec_volume_mount mounts ''volumeMount''"

definition initContainers :: "container list \<Rightarrow> goerr + container_ac list" where
  "initContainers containers = applyConfigurations enc_container dec_container containers ''initContainer''"


section \<open>Closed form\<close>

definition unset_if_empty :: "string \<Rightarrow> string option" where
  "unset_if_empty s = (if s = [] then None else Some s)"

definition env_ac :: "env_var \<Rightarrow> env_var_ac" where
  "env_ac v = \<lparr>eva_Name = Some (ev_Name v), eva_Value = unset_if_empty (ev_Value v), eva_FieldPath = None\<rparr>"

definition mount_ac :: "volume_mount \<Rightarrow> volume_mount_ac" where
  "mount_ac m = \<lparr>vma_Name = Some (vm_Name m), vma_MountPath = Some (vm_MountPath m),
     vma_ReadOnly = (if vm_ReadOnly m then Some True else None)\<rparr>"

definition path_ac :: "key_to_path \<Rightarrow> key_to_path_ac" where
  "path_ac k = \<lparr>kpa_Key = Some (kp_Key k), kpa_Path = Some (kp_Path k)\<rparr>"

definition secret_source_ac :: "secret_volume_source \<Rightarrow> secret_volume_source_ac" where
  "secret_source_ac s = \<lparr>sva_SecretName = unset_if_empty (svs_SecretName s),
     sva_DefaultMode = svs_DefaultMode s, sva_Items = map path_ac (svs_Items s)\<rparr>"

definition vol_ac :: "volume \<Rightarrow> volume_ac" where
  "vol_ac v = \<lparr>vla_Name = Some (vol_Name v), vla_Secret = map_option secret_source_ac (vol_Secret v),
     vla_EmptyDir = vol_EmptyDir v\<rparr>"

definition unset_if_zero :: "int \<Rightarrow> int option" where
  "unset_if_zero i = (if i = 0 then None else Some i)"

definition startup_ac :: "probe \<Rightarrow> probe_ac" where
  "startup_ac p = \<lparr>pra_HTTPGet = None, pra_Exec = pr_Exec p, pra_InitialDelaySeconds = None,
     pra_TimeoutSeconds = None, pra_PeriodSeconds = unset_if_zero (pr_PeriodSeconds p),
     pra_FailureThreshold = unset_if_zero (pr_FailureThreshold p)\<rparr>"

definition init_ac :: "container \<Rightarrow> container_ac" where
  "init_ac c = new_container_ac
     \<lparr>cta_Name := Some (ct_Name c), cta_Image := unset_if_empty (ct_Image c), cta_Command := ct_Command c,
      cta_Args := ct_Args c, cta_ImagePullPolicy := unset_if_empty (ct_ImagePullPolicy c),
      cta_Requests := (if ct_Requests c = [] then None else Some (ct_Requests c)),
      cta_StartupProbe := map_option startup_ac (ct_StartupProbe c),
      cta_RestartPolicy := ct_RestartPolicy c, cta_VolumeMounts := map mount_ac (ct_VolumeMounts c)\<rparr>"

text \<open>The integers of the API types fit their width, and the requests are a map.\<close>

definition wf_volume :: "volume \<Rightarrow> bool" where
  "wf_volume v \<longleftrightarrow> (case vol_Secret v of None \<Rightarrow> True | Some s \<Rightarrow> wf_int32_field (svs_DefaultMode s))"

definition wf_container :: "container \<Rightarrow> bool" where
  "wf_container c \<longleftrightarrow> is_map (ct_Requests c) \<and>
     (case ct_StartupProbe c of None \<Rightarrow> True
      | Some p \<Rightarrow> is_int32 (pr_PeriodSeconds p) \<and> is_int32 (pr_FailureThreshold p))"

lemma field_vals_single [simp]:
  "g \<in> set fs \<Longrightarrow> field_vals fs f [(g, v)] = (if f = g then [v] else [])"
  by (auto simp: field_vals_def)

lemma field_vals_Cons_known:
  "g \<in> set fs \<Longrightarrow> field_vals fs f ((g, v) # es) = (if f = g then [v] else []) @ field_vals fs f es"
  by (auto simp: field_vals_def)

lemma field_vals_enc_ac [simp]:
  assumes "g \<in> set fs"
  shows "field_vals fs f (enc_str g s) = (if f = g \<and> s \<noteq> [] then [JStr s] else [])"
    and "field_vals fs f (enc_str_ptr g sp) = (if f = g then map JStr (case sp of None \<Rightarrow> [] | Some x \<Rightarrow> [x]) else [])"
    and "field_vals fs f (enc_bool g b) = (if f = g \<and> b then [JBool True] else [])"
    and "field_vals fs f (enc_list g e xs) = (if f = g \<and> xs \<noteq> [] then [JArr (map e xs)] else [])"
    and "field_vals fs f (enc_ptr g e' p) = (if f = g then map e' (case p of None \<Rightarrow> [] | Some x \<Rightarrow> [x]) else [])"
  using assms
  by (auto simp: field_vals_def enc_str_def enc_str_ptr_def enc_bool_def enc_list_def enc_ptr_def
      split: option.splits)

lemma dec_each_map:
  "(\<And>x. x \<in> set xs \<Longrightarrow> d (e x) = Some (f x)) \<Longrightarrow> dec_each d (map e xs) = Some (map f xs)"
  by (induction xs) auto

lemma dec_each_strs [simp]: "dec_each (dec_str []) (map JStr xs) = Some xs"
  by (induction xs) auto

lemma dec_all_if [simp]: "dec_all d x (if b then js else []) = (if b then dec_all d x js else Some x)"
  by simp

lemma dec_all_str_ptr [simp]:
  "dec_all dec_str_ptr None (map JStr (case p of None \<Rightarrow> [] | Some x \<Rightarrow> [x])) = Some p"
  by (simp split: option.split)

lemma dec_ptr_JObj [simp]: "dec_ptr d x (JObj es) = map_option Some (d (JObj es))"
  by simp

lemmas unset_defs = unset_if_empty_def unset_if_zero_def

lemma convert_env_var [simp]: "dec_env_var (enc_env_var v) = Some (env_ac v)"
  by (simp add: dec_env_var_def enc_env_var_def env_ac_def unset_defs field_vals_Cons_known)

lemma convert_volume_mount [simp]: "dec_volume_mount (enc_volume_mount m) = Some (mount_ac m)"
  by (simp add: dec_volume_mount_def enc_volume_mount_def mount_ac_def field_vals_Cons_known)

lemma convert_key_to_path [simp]: "dec_key_to_path (enc_key_to_path k) = Some (path_ac k)"
  by (simp add: dec_key_to_path_def enc_key_to_path_def path_ac_def field_vals_Cons_known)

lemma dec_all_list [simp]:
  assumes "\<And>x. d (e x) = Some (f x)"
  shows "(if xs \<noteq> [] then dec_all (dec_list d) [] [JArr (map e xs)] else Some []) = Some (map f xs)"
  using assms by (simp add: dec_each_map)

lemma dec_all_list_each:
  "dec_all (dec_list d) [] (if xs \<noteq> [] then [JArr (map e xs)] else []) =
     (if xs = [] then Some [] else dec_each d (map e xs))"
  by (simp split: option.split)

lemma convert_secret_source [simp]:
  "wf_int32_field (svs_DefaultMode s) \<Longrightarrow>
     dec_secret_source (enc_secret_source s) = Some (secret_source_ac s)"
  by (simp add: dec_secret_source_def enc_secret_source_def secret_source_ac_def unset_defs
      dec_all_int32_ptr dec_all_list_each dec_each_map [where f = path_ac])

lemma dec_ptr_struct: "j = JObj es \<Longrightarrow> dec_ptr d y j = map_option Some (d j)"
  by simp

lemma convert_volume [simp]: "wf_volume v \<Longrightarrow> dec_volume (enc_volume v) = Some (vol_ac v)"
  by (cases "vol_Secret v")
    (simp_all add: dec_volume_def enc_volume_def vol_ac_def wf_volume_def field_vals_Cons_known
      dec_ptr_struct [OF enc_secret_source_def])

lemma convert_exec [simp]: "dec_exec (enc_exec c) = Some c"
  by (simp add: dec_exec_def enc_exec_def dec_all_list_each)

lemma convert_probe [simp]:
  "is_int32 (pr_PeriodSeconds p) \<Longrightarrow> is_int32 (pr_FailureThreshold p) \<Longrightarrow>
     dec_probe (enc_probe p) = Some (startup_ac p)"
  by (cases "pr_Exec p")
    (simp_all add: dec_probe_def enc_probe_def startup_ac_def unset_defs dec_ptr_struct [OF enc_exec_def])

lemma convert_requests:
  "is_map m \<Longrightarrow> dec_resources (JObj (enc_map ''requests'' (Some m))) = Some (if m = [] then None else Some m)"
  by (simp add: dec_resources_def enc_map_def dec_entries_id)

lemma convert_container [simp]: "wf_container c \<Longrightarrow> dec_container (enc_container c) = Some (init_ac c)"
  by (cases "ct_StartupProbe c")
    (simp_all add: dec_container_def enc_container_def container_fields_def init_ac_def wf_container_def
      unset_defs field_vals_Cons_known dec_all_list_each dec_each_map [where f = mount_ac]
      convert_requests dec_ptr_struct [OF enc_probe_def])

lemma applyConfigurations_Inr:
  assumes "\<And>x. x \<in> set xs \<Longrightarrow> dec (enc x) = Some (f x)"
  shows "applyConfigurations enc dec xs fld = Inr (map f xs)"
proof -
  have "convert_from enc dec fld i xs = Inr (map f xs)" for i
    using assms by (induction xs arbitrary: i) (auto simp: toApplyConfiguration_def)
  then show ?thesis by (simp add: applyConfigurations_def)
qed

lemmas conversion_defs = envVars_def volumes_def volumeMounts_def initContainers_def

lemma envVars_eq [simp]: "envVars vs = Inr (map env_ac vs)"
  by (simp add: conversion_defs applyConfigurations_Inr)

lemma volumeMounts_eq [simp]: "volumeMounts ms = Inr (map mount_ac ms)"
  by (simp add: conversion_defs applyConfigurations_Inr)

lemma volumes_eq: "\<forall>v\<in>set vs. wf_volume v \<Longrightarrow> volumes vs = Inr (map vol_ac vs)"
  by (simp add: conversion_defs applyConfigurations_Inr)

lemma initContainers_eq: "\<forall>c\<in>set cs. wf_container c \<Longrightarrow> initContainers cs = Inr (map init_ac cs)"
  by (simp add: conversion_defs applyConfigurations_Inr)

end
