(* ===== verification/Cloud_Provider.thy ===== *)
theory Cloud_Provider
  imports Operand_Types
begin

text \<open>
  \<^verbatim>\<open>pkg/cloudprovider\<close>: selection and construction of the cloud provider, and what a
  provider contributes to the operand (environment, volumes, access rules, related objects). The
  process environment is a function that is empty on unset variables, as
  \<^verbatim>\<open>os.Getenv\<close> is. The embedded YAML assets and the AWS SDK configuration are
  parameters.
\<close>

type_synonym environ = "string \<Rightarrow> string"

record infrastructure_info =
  ii_PlatformType :: string
  ii_Region :: string
  ii_InfraName :: string
  ii_ClusterEndpoint :: string

record operand_cloud_config =
  occ_CredentialsSecretName :: string
  occ_Env :: "env_var list"
  occ_Volumes :: "volume list"
  occ_VolumeMounts :: "volume_mount list"

text \<open>The embedded assets: decoded CRDs and access rules.\<close>

record embedded_assets =
  asset_CoreCRDs :: "crd list"
  asset_AWSCRDs :: "crd list"
  asset_AzureCRDs :: "crd list"
  asset_HCPAWSCRDs :: "crd list"
  asset_HCPAzureCRDs :: "crd list"
  asset_CoreRBAC :: rbac_assets
  asset_AWSRBAC :: rbac_assets

definition RequireEnv :: "environ \<Rightarrow> string \<Rightarrow> goerr + string" where
  "RequireEnv env name =
     (if env name = [] then Inl (EText (name @ '' not set'')) else Inr (env name))"

abbreviation AWSPlatformType :: string where "AWSPlatformType \<equiv> ''AWS''"
abbreviation AzurePlatformType :: string where "AzurePlatformType \<equiv> ''Azure''"


section \<open>AWS\<close>

record aws_provider =
  aws_region :: string
  aws_infraName :: string
  aws_clusterEndpoint :: string
  aws_karpenterImage :: string

text \<open>\<open>load\<close> is \<^verbatim>\<open>config.LoadDefaultConfig\<close> of the AWS SDK: the error it
  returns for a region, if any.\<close>

definition aws_New :: "(string \<Rightarrow> goerr option) \<Rightarrow> environ \<Rightarrow> infrastructure_info \<Rightarrow> goerr + aws_provider" where
  "aws_New load env infra =
     (if ii_Region infra = [] then Inl (EText ''region not available'')
      else let karpenterImage = env ''KARPENTER_IMAGE_AWS'' in
        tryE (RequireEnv env ''AWS_SHARED_CREDENTIALS_FILE'') (\<lambda>_.
        case load (ii_Region infra) of
          Some e \<Rightarrow> Inl (EWrap ''loading AWS config: '' e [])
        | None \<Rightarrow> Inr
            \<lparr>aws_region = ii_Region infra, aws_infraName = ii_InfraName infra,
             aws_clusterEndpoint = ii_ClusterEndpoint infra, aws_karpenterImage = karpenterImage\<rparr>))"

abbreviation operandCredentialsSecret :: string where
  "operandCredentialsSecret \<equiv> ''karpenter-credentials''"

definition aws_OperandConfig :: "aws_provider \<Rightarrow> operand_cloud_config" where
  "aws_OperandConfig p =
     \<lparr>occ_CredentialsSecretName = operandCredentialsSecret,
      occ_Env =
        [\<lparr>ev_Name = ''AWS_REGION'', ev_Value = aws_region p\<rparr>,
         \<lparr>ev_Name = ''AWS_SHARED_CREDENTIALS_FILE'', ev_Value = ''/etc/provider/credentials''\<rparr>,
         \<lparr>ev_Name = ''AWS_SDK_LOAD_CONFIG'', ev_Value = ''true''\<rparr>],
      occ_Volumes =
        [\<lparr>vol_Name = ''provider-creds'',
          vol_Secret = Some \<lparr>svs_SecretName = operandCredentialsSecret, svs_DefaultMode = None, svs_Items = []\<rparr>,
          vol_EmptyDir = False\<rparr>],
      occ_VolumeMounts =
        [\<lparr>vm_Name = ''provider-creds'', vm_MountPath = ''/etc/provider'', vm_ReadOnly = True\<rparr>]\<rparr>"

definition aws_RelatedObjects :: "object_reference list" where
  "aws_RelatedObjects =
     [\<lparr>oref_Group = ''karpenter.k8s.aws'', oref_Resource = ''ec2nodeclasses'', oref_Namespace = None,
       oref_Name = []\<rparr>]"


section \<open>Azure\<close>

record azure_provider =
  az_region :: string
  az_karpenterImage :: string
  az_clientID :: string
  az_tenantID :: string
  az_subscriptionID :: string
  az_federatedTokenFile :: string
  az_vnetSubnetID :: string
  az_nodeResourceGroup :: string

definition azure_New :: "environ \<Rightarrow> infrastructure_info \<Rightarrow> goerr + azure_provider" where
  "azure_New env infra =
     (if ii_Region infra = [] then Inl (EText ''region not available'')
      else let karpenterImage = env ''KARPENTER_IMAGE_AZURE'' in
        tryE (RequireEnv env ''AZURE_CLIENT_ID'') (\<lambda>clientID.
        tryE (RequireEnv env ''AZURE_TENANT_ID'') (\<lambda>tenantID.
        tryE (RequireEnv env ''AZURE_SUBSCRIPTION_ID'') (\<lambda>subscriptionID.
        tryE (RequireEnv env ''AZURE_FEDERATED_TOKEN_FILE'') (\<lambda>federatedTokenFile.
        tryE (RequireEnv env ''VNET_SUBNET_ID'') (\<lambda>vnetSubnetID.
        tryE (RequireEnv env ''AZURE_NODE_RESOURCE_GROUP'') (\<lambda>nodeResourceGroup.
        Inr
          \<lparr>az_region = ii_Region infra, az_karpenterImage = karpenterImage, az_clientID = clientID,
           az_tenantID = tenantID, az_subscriptionID = subscriptionID,
           az_federatedTokenFile = federatedTokenFile, az_vnetSubnetID = vnetSubnetID,
           az_nodeResourceGroup = nodeResourceGroup\<rparr>)))))))"

definition azure_OperandConfig :: "azure_provider \<Rightarrow> operand_cloud_config" where
  "azure_OperandConfig p =
     \<lparr>occ_CredentialsSecretName = [],
      occ_Env =
        [\<lparr>ev_Name = ''LOCATION'', ev_Value = az_region p\<rparr>,
         \<lparr>ev_Name = ''AZURE_CLIENT_ID'', ev_Value = az_clientID p\<rparr>,
         \<lparr>ev_Name = ''AZURE_TENANT_ID'', ev_Value = az_tenantID p\<rparr>,
         \<lparr>ev_Name = ''AZURE_SUBSCRIPTION_ID'', ev_Value = az_subscriptionID p\<rparr>,
         \<lparr>ev_Name = ''AZURE_FEDERATED_TOKEN_FILE'', ev_Value = az_federatedTokenFile p\<rparr>,
         \<lparr>ev_Name = ''VNET_SUBNET_ID'', ev_Value = az_vnetSubnetID p\<rparr>,
         \<lparr>ev_Name = ''AZURE_NODE_RESOURCE_GROUP'', ev_Value = az_nodeResourceGroup p\<rparr>,
         \<lparr>ev_Name = ''PROVISION_MODE'', ev_Value = ''openshift''\<rparr>],
      occ_Volumes = [], occ_VolumeMounts = []\<rparr>"

definition azure_RelatedObjects :: "object_reference list" where
  "azure_RelatedObjects =
     [\<lparr>oref_Group = ''karpenter.azure.com'', oref_Resource = ''aksnodeclasses'', oref_Namespace = None,
       oref_Name = []\<rparr>]"


section \<open>The provider interface\<close>

datatype cloud_provider = AWS aws_provider | Azure azure_provider

definition GetCloudProvider ::
  "(string \<Rightarrow> goerr option) \<Rightarrow> environ \<Rightarrow> infrastructure_info \<Rightarrow> goerr + cloud_provider"
where
  "GetCloudProvider load env infra =
     (if ii_PlatformType infra = AWSPlatformType then map_sum id AWS (aws_New load env infra)
      else if ii_PlatformType infra = AzurePlatformType then map_sum id Azure (azure_New env infra)
      else Inl (EText (''unsupported platform type: '' @ ii_PlatformType infra)))"

primrec KarpenterImage :: "cloud_provider \<Rightarrow> string" where
  "KarpenterImage (AWS p) = aws_karpenterImage p"
| "KarpenterImage (Azure p) = az_karpenterImage p"

primrec OperandConfig :: "cloud_provider \<Rightarrow> operand_cloud_config" where
  "OperandConfig (AWS p) = aws_OperandConfig p"
| "OperandConfig (Azure p) = azure_OperandConfig p"

primrec provider_CRDs :: "embedded_assets \<Rightarrow> cloud_provider \<Rightarrow> crd list" where
  "provider_CRDs as (AWS p) = asset_AWSCRDs as"
| "provider_CRDs as (Azure p) = asset_AzureCRDs as"

definition no_rbac :: rbac_assets where
  "no_rbac = \<lparr>rbac_Roles = [], rbac_RoleBindings = [], rbac_ClusterRoles = [], rbac_ClusterRoleBindings = []\<rparr>"

primrec provider_RBAC :: "embedded_assets \<Rightarrow> cloud_provider \<Rightarrow> rbac_assets" where
  "provider_RBAC as (AWS p) = asset_AWSRBAC as"
| "provider_RBAC as (Azure p) = no_rbac"

primrec provider_RelatedObjects :: "cloud_provider \<Rightarrow> object_reference list" where
  "provider_RelatedObjects (AWS p) = aws_RelatedObjects"
| "provider_RelatedObjects (Azure p) = azure_RelatedObjects"


section \<open>Properties\<close>

text \<open>The variables a platform needs, in the order in which they are looked up.\<close>

definition required_env :: "string \<Rightarrow> string list" where
  "required_env platform =
     (if platform = AWSPlatformType then [''AWS_SHARED_CREDENTIALS_FILE'']
      else [''AZURE_CLIENT_ID'', ''AZURE_TENANT_ID'', ''AZURE_SUBSCRIPTION_ID'',
        ''AZURE_FEDERATED_TOKEN_FILE'', ''VNET_SUBNET_ID'', ''AZURE_NODE_RESOURCE_GROUP''])"

lemma tryE_RequireEnv:
  "tryE (RequireEnv env n) f = (if env n = [] then Inl (EText (n @ '' not set'')) else f (env n))"
  by (simp add: RequireEnv_def)

lemma map_sum_Inr: "map_sum f g x = Inr y \<longleftrightarrow> (\<exists>b. x = Inr b \<and> y = g b)"
  by (cases x) auto

lemma map_sum_Inl: "map_sum f g x = Inl y \<longleftrightarrow> (\<exists>a. x = Inl a \<and> y = f a)"
  by (cases x) auto

lemma azure_New_Inr: "azure_New env infra = Inr p \<longleftrightarrow>
   ii_Region infra \<noteq> [] \<and> (\<forall>n\<in>set (required_env AzurePlatformType). env n \<noteq> []) \<and>
   p = \<lparr>az_region = ii_Region infra, az_karpenterImage = env ''KARPENTER_IMAGE_AZURE'',
     az_clientID = env ''AZURE_CLIENT_ID'', az_tenantID = env ''AZURE_TENANT_ID'',
     az_subscriptionID = env ''AZURE_SUBSCRIPTION_ID'',
     az_federatedTokenFile = env ''AZURE_FEDERATED_TOKEN_FILE'', az_vnetSubnetID = env ''VNET_SUBNET_ID'',
     az_nodeResourceGroup = env ''AZURE_NODE_RESOURCE_GROUP''\<rparr>"
  by (auto simp: azure_New_def required_env_def tryE_RequireEnv Let_def)

lemma aws_New_Inr: "aws_New load env infra = Inr p \<longleftrightarrow>
   ii_Region infra \<noteq> [] \<and> (\<forall>n\<in>set (required_env AWSPlatformType). env n \<noteq> []) \<and>
   load (ii_Region infra) = None \<and>
   p = \<lparr>aws_region = ii_Region infra, aws_infraName = ii_InfraName infra,
     aws_clusterEndpoint = ii_ClusterEndpoint infra, aws_karpenterImage = env ''KARPENTER_IMAGE_AWS''\<rparr>"
  by (auto simp: aws_New_def required_env_def tryE_RequireEnv Let_def split: option.split)

lemma first_unset:
  "azure_New env infra = Inl e \<Longrightarrow> ii_Region infra \<noteq> [] \<Longrightarrow>
     \<exists>n. find (\<lambda>n. env n = []) (required_env AzurePlatformType) = Some n \<and> e = EText (n @ '' not set'')"
  by (auto simp: azure_New_def required_env_def tryE_RequireEnv Let_def split: if_splits)

text \<open>A cloud provider is built exactly on a supported platform with a region, every required
  variable set and (on AWS) a loadable SDK configuration; the error of an Azure set-up names the first
  required variable that is not set; and a provider that was built hands no empty environment variable to
  the operand.\<close>

theorem cloud_provider_construction:
  "((\<exists>p. GetCloudProvider load env infra = Inr p) \<longleftrightarrow>
     ii_PlatformType infra \<in> {AWSPlatformType, AzurePlatformType} \<and> ii_Region infra \<noteq> [] \<and>
     (\<forall>n\<in>set (required_env (ii_PlatformType infra)). env n \<noteq> []) \<and>
     (ii_PlatformType infra = AWSPlatformType \<longrightarrow> load (ii_Region infra) = None)) \<and>
   (\<forall>e. GetCloudProvider load env infra = Inl e \<longrightarrow> ii_PlatformType infra = AzurePlatformType \<longrightarrow>
     ii_Region infra \<noteq> [] \<longrightarrow>
     (\<exists>n. find (\<lambda>n. env n = []) (required_env AzurePlatformType) = Some n \<and> e = EText (n @ '' not set''))) \<and>
   (\<forall>p v. GetCloudProvider load env infra = Inr p \<longrightarrow> v \<in> set (occ_Env (OperandConfig p)) \<longrightarrow>
     ev_Value v \<noteq> [])"
proof (intro conjI allI impI)
  show "(\<exists>p. GetCloudProvider load env infra = Inr p) \<longleftrightarrow>
     ii_PlatformType infra \<in> {AWSPlatformType, AzurePlatformType} \<and> ii_Region infra \<noteq> [] \<and>
     (\<forall>n\<in>set (required_env (ii_PlatformType infra)). env n \<noteq> []) \<and>
     (ii_PlatformType infra = AWSPlatformType \<longrightarrow> load (ii_Region infra) = None)"
    by (auto simp: GetCloudProvider_def map_sum_Inr aws_New_Inr azure_New_Inr)
next
  fix e
  assume "GetCloudProvider load env infra = Inl e" "ii_PlatformType infra = AzurePlatformType" "ii_Region infra \<noteq> []"
  then show "\<exists>n. find (\<lambda>n. env n = []) (required_env AzurePlatformType) = Some n \<and> e = EText (n @ '' not set'')"
    by (intro first_unset) (auto simp: GetCloudProvider_def map_sum_Inl)
next
  fix p v
  assume "GetCloudProvider load env infra = Inr p" and "v \<in> set (occ_Env (OperandConfig p))"
  then show "ev_Value v \<noteq> []"
    by (auto simp: GetCloudProvider_def map_sum_Inr aws_New_Inr azure_New_Inr aws_OperandConfig_def
        azure_OperandConfig_def required_env_def split: if_splits)
qed

abbreviation azure_env :: environ where
  "azure_env \<equiv> (\<lambda>n. if n = ''VNET_SUBNET_ID'' then [] else ''x'')"

abbreviation azure_infra :: infrastructure_info where
  "azure_infra \<equiv> \<lparr>ii_PlatformType = AzurePlatformType, ii_Region = ''westeurope'', ii_InfraName = ''c'',
     ii_ClusterEndpoint = ''e''\<rparr>"

lemma cloud_provider_construction_witness:
  "(\<exists>p. GetCloudProvider (\<lambda>_. None) (\<lambda>_. ''x'') azure_infra = Inr p) \<and>
   GetCloudProvider (\<lambda>_. None) azure_env azure_infra = Inl (EText ''VNET_SUBNET_ID not set'')"
proof
  show "\<exists>p. GetCloudProvider (\<lambda>_. None) (\<lambda>_. ''x'') azure_infra = Inr p"
    using cloud_provider_construction [of "\<lambda>_. None" "\<lambda>_. ''x''" azure_infra] by simp
  have "\<nexists>p. GetCloudProvider (\<lambda>_. None) azure_env azure_infra = Inr p"
    using cloud_provider_construction [of "\<lambda>_. None" azure_env azure_infra] by (simp add: required_env_def)
  then obtain e where e: "GetCloudProvider (\<lambda>_. None) azure_env azure_infra = Inl e"
    using sum.exhaust by blast
  with cloud_provider_construction [of "\<lambda>_. None" azure_env azure_infra]
  show "GetCloudProvider (\<lambda>_. None) azure_env azure_infra = Inl (EText ''VNET_SUBNET_ID not set'')"
    by (simp add: required_env_def)
qed

end
