(* ===== verification/Operand.thy ===== *)
theory Operand
  imports Apply_Convert Cloud_Provider Controllerutil
begin

text \<open>
  \<^verbatim>\<open>pkg/controllers/karpenter\<close>: the operand. The builders of the Deployment and of the
  PodMonitor (\<^verbatim>\<open>deployment.go\<close>, \<^verbatim>\<open>podmonitor.go\<close>), the conversion of
  access rules (\<^verbatim>\<open>rbac.go\<close>), the server-side applies (\<^verbatim>\<open>apply.go\<close>),
  and the two controllers that issue them, on a management cluster
  (\<^verbatim>\<open>hcp_controller.go\<close>) and on a standalone cluster
  (\<^verbatim>\<open>ocp_controller.go\<close>).
\<close>

abbreviation karpenterName :: string where "karpenterName \<equiv> ''karpenter''"
abbreviation operandFieldManager :: string where "operandFieldManager \<equiv> ''karpenter-operator''"
abbreviation defaultMetricsPort :: int where "defaultMetricsPort \<equiv> 8080"
abbreviation defaultHealthProbePort :: int where "defaultHealthProbePort \<equiv> 8081"
abbreviation metricsPortName :: string where "metricsPortName \<equiv> ''metrics''"
abbreviation healthProbePortName :: string where "healthProbePortName \<equiv> ''http''"
abbreviation appLabelKey :: string where "appLabelKey \<equiv> ''app''"
abbreviation KarpenterImageOverrideAnnotation :: string where
  "KarpenterImageOverrideAnnotation \<equiv> ''autoscaling.openshift.io/karpenter-image''"
abbreviation PullIfNotPresent :: string where "PullIfNotPresent \<equiv> ''IfNotPresent''"
abbreviation PullAlways :: string where "PullAlways \<equiv> ''Always''"

record operand_config =
  oc_namespace :: string
  oc_karpenterImage :: string
  oc_clusterName :: string
  oc_clusterEndpoint :: string
  oc_cloudProvider :: cloud_provider
  oc_imagePullPolicy :: string
  oc_logLevelArg :: string
  oc_releaseVersion :: string
  oc_defaultSecurityContextUID :: "int option"
  oc_additionalLabels :: "string gomap"
  oc_additionalEnv :: "env_var list"
  oc_additionalVolumeMounts :: "volume_mount list"
  oc_additionalVolumes :: "volume list"
  oc_additionalInitContainers :: "container list"


section \<open>The Deployment\<close>

definition karpenterSelector :: "string gomap" where
  "karpenterSelector = [(appLabelKey, karpenterName)]"

definition plain_env :: "string \<Rightarrow> string \<Rightarrow> env_var_ac" where
  "plain_env n v = \<lparr>eva_Name = Some n, eva_Value = Some v, eva_FieldPath = None\<rparr>"

definition buildEnv :: "operand_config \<Rightarrow> operand_cloud_config \<Rightarrow> goerr + env_var_ac list" where
  "buildEnv cfg cloudCfg =
     (let env =
        [\<lparr>eva_Name = Some ''SYSTEM_NAMESPACE'', eva_Value = None, eva_FieldPath = Some ''metadata.namespace''\<rparr>,
         plain_env ''CLUSTER_NAME'' (oc_clusterName cfg),
         plain_env ''CLUSTER_ENDPOINT'' (oc_clusterEndpoint cfg),
         plain_env ''DISABLE_WEBHOOK'' ''true'',
         plain_env ''HEALTH_PROBE_PORT'' (Itoa defaultHealthProbePort)] in
      tryE (envVars (occ_Env cloudCfg)) (\<lambda>cloudEnv. Inr (env @ cloudEnv)))"

definition karpenterPorts :: "container_port_ac list" where
  "karpenterPorts =
     [\<lparr>cpa_Name = Some metricsPortName, cpa_ContainerPort = Some defaultMetricsPort, cpa_Protocol = None\<rparr>,
      \<lparr>cpa_Name = Some healthProbePortName, cpa_ContainerPort = Some defaultHealthProbePort,
       cpa_Protocol = Some ''TCP''\<rparr>]"

definition http_probe :: "string \<Rightarrow> int \<Rightarrow> int \<Rightarrow> probe_ac" where
  "http_probe path delay timeout =
     \<lparr>pra_HTTPGet = Some (path, defaultHealthProbePort), pra_Exec = None,
      pra_InitialDelaySeconds = Some delay, pra_TimeoutSeconds = Some timeout,
      pra_PeriodSeconds = None, pra_FailureThreshold = None\<rparr>"

definition karpenterLivenessProbe :: probe_ac where
  "karpenterLivenessProbe = http_probe ''/healthz'' 30 30"

definition karpenterReadinessProbe :: probe_ac where
  "karpenterReadinessProbe = http_probe ''/readyz'' 5 30"

definition pod_security :: "int option \<Rightarrow> goerr + pod_security_ac" where
  "pod_security uid =
     (let securityContext = \<lparr>psa_RunAsNonRoot = Some True, psa_SeccompProfile = Some ''RuntimeDefault'',
        psa_RunAsUser = None, psa_FSGroup = None\<rparr> in
      case uid of
        None \<Rightarrow> Inr securityContext
      | Some u \<Rightarrow>
          if u \<le> 0 then Inl (EText ''operand security context UID must be positive'')
          else Inr (securityContext\<lparr>psa_RunAsUser := Some u, psa_FSGroup := Some u\<rparr>))"

definition karpenter_container ::
  "operand_config \<Rightarrow> env_var_ac list \<Rightarrow> volume_mount_ac list \<Rightarrow> container_ac"
where
  "karpenter_container cfg env mounts =
     \<lparr>cta_Name = Some karpenterName, cta_Image = Some (oc_karpenterImage cfg), cta_Command = [],
      cta_Args = [oc_logLevelArg cfg], cta_ImagePullPolicy = Some (oc_imagePullPolicy cfg),
      cta_Env = env, cta_Ports = karpenterPorts,
      cta_Requests = Some [(''cpu'', ''1''), (''memory'', ''1Gi'')],
      cta_SecurityContext = Some \<lparr>csa_AllowPrivilegeEscalation = Some False, csa_Drop = [''ALL'']\<rparr>,
      cta_TerminationMessagePolicy = Some ''FallbackToLogsOnError'',
      cta_LivenessProbe = Some karpenterLivenessProbe, cta_ReadinessProbe = Some karpenterReadinessProbe,
      cta_StartupProbe = None, cta_RestartPolicy = None, cta_VolumeMounts = mounts\<rparr>"

definition buildPodSpec :: "operand_config \<Rightarrow> goerr + pod_spec_ac" where
  "buildPodSpec cfg =
     (let cloudCfg = OperandConfig (oc_cloudProvider cfg) in
      tryE (buildEnv cfg cloudCfg) (\<lambda>env.
      tryE (volumeMounts (occ_VolumeMounts cloudCfg)) (\<lambda>cloudMounts.
      tryE (volumeMounts (oc_additionalVolumeMounts cfg)) (\<lambda>additionalMounts.
      let mounts = cloudMounts @ additionalMounts in
      tryE (volumes (occ_Volumes cloudCfg)) (\<lambda>cloudVols.
      tryE (volumes (oc_additionalVolumes cfg)) (\<lambda>additionalVols.
      let vols = cloudVols @ additionalVols in
      tryE (envVars (oc_additionalEnv cfg)) (\<lambda>additionalEnv.
      let env = env @ additionalEnv in
      tryE (initContainers (oc_additionalInitContainers cfg)) (\<lambda>inits.
      tryE (pod_security (oc_defaultSecurityContextUID cfg)) (\<lambda>securityContext.
      Inr
        \<lparr>psp_PriorityClassName = ''system-node-critical'', psp_ServiceAccountName = karpenterName,
         psp_TerminationGracePeriodSeconds = 10, psp_SecurityContext = securityContext,
         psp_InitContainers = inits, psp_Containers = [karpenter_container cfg env mounts],
         psp_Volumes = vols\<rparr>)))))))))"

text \<open>\<^verbatim>\<open>lo.Assign\<close>: the entries of the second map win.\<close>

definition lo_Assign :: "string gomap \<Rightarrow> string gomap \<Rightarrow> string gomap" where
  "lo_Assign m n = fold (\<lambda>(k, v). map_put k v) n m"

definition buildDeployment :: "operand_config \<Rightarrow> owner_reference \<Rightarrow> goerr + deployment_ac" where
  "buildDeployment cfg ownerRef =
     (let selectorLabels = [(appLabelKey, karpenterName)];
          podLabels = lo_Assign selectorLabels (oc_additionalLabels cfg) in
      tryE (buildPodSpec cfg) (\<lambda>podSpec.
      let deploymentLabels =
            [(appLabelKey, karpenterName), (''hypershift.openshift.io/managed-by'', ''karpenter-operator'')];
          deploymentAnnotations =
            (if oc_releaseVersion cfg \<noteq> [] then [(''release.openshift.io/version'', oc_releaseVersion cfg)] else [])
      in Inr
        \<lparr>dac_Name = karpenterName, dac_Namespace = oc_namespace cfg, dac_OwnerReferences = [ownerRef],
         dac_Labels = deploymentLabels, dac_Annotations = deploymentAnnotations, dac_Replicas = 1,
         dac_Selector = karpenterSelector,
         dac_TemplateAnnotations =
           [(''openshift.io/required-scc'', ''restricted-v2''),
            (''target.workload.openshift.io/management'', ''{\"effect\": \"PreferredDuringScheduling\"}'')],
         dac_TemplateLabels = podLabels, dac_PodSpec = podSpec\<rparr>))"

definition buildPodMonitor :: "operand_config \<Rightarrow> owner_reference \<Rightarrow> pod_monitor_ac" where
  "buildPodMonitor cfg ownerRef =
     \<lparr>pma_Name = karpenterName, pma_Namespace = oc_namespace cfg, pma_OwnerReferences = [ownerRef],
      pma_Selector = karpenterSelector, pma_Endpoints = [(metricsPortName, ''/metrics'', ''HTTP'')]\<rparr>"


section \<open>Access rules\<close>

text \<open>The rules of a Role and of its apply configuration have the same five lists.\<close>

definition policyRules :: "policy_rule list \<Rightarrow> policy_rule list" where
  "policyRules rules =
     map (\<lambda>r. \<lparr>pol_Verbs = pol_Verbs r, pol_APIGroups = pol_APIGroups r, pol_Resources = pol_Resources r,
       pol_ResourceNames = pol_ResourceNames r, pol_NonResourceURLs = pol_NonResourceURLs r\<rparr>) rules"

definition roleRef :: "role_ref \<Rightarrow> role_ref" where
  "roleRef ref = \<lparr>rref_APIGroup = rref_APIGroup ref, rref_Kind = rref_Kind ref, rref_Name = rref_Name ref\<rparr>"

abbreviation ServiceAccountKind :: string where "ServiceAccountKind \<equiv> ''ServiceAccount''"

definition subject_config :: "string \<Rightarrow> subject \<Rightarrow> subject_ac" where
  "subject_config ns s =
     (let sub = \<lparr>sac_Kind = Some (sub_Kind s), sac_APIGroup = Some (sub_APIGroup s),
        sac_Name = Some (sub_Name s), sac_Namespace = None\<rparr> in
      if sub_Kind s = ServiceAccountKind
      then sub\<lparr>sac_Namespace := Some (if sub_Namespace s \<noteq> [] then sub_Namespace s else ns)\<rparr>
      else sub)"

definition subjects :: "subject list \<Rightarrow> string \<Rightarrow> subject_ac list" where
  "subjects subs ns = map (subject_config ns) subs"


section \<open>The applies\<close>

text \<open>All with \<^verbatim>\<open>client.ForceOwnership\<close>, on the manager's own cluster.\<close>

definition operand_apply :: "apply_config \<Rightarrow> unit io" where
  "operand_apply obj = c_apply Mgmt operandFieldManager True obj"

definition applyServiceAccount :: "string \<Rightarrow> owner_reference \<Rightarrow> unit io" where
  "applyServiceAccount namespace ownerRef =
     operand_apply (ApplyServiceAccount namespace karpenterName ownerRef)"

definition applyRoles :: "string \<Rightarrow> owner_reference \<Rightarrow> rbac_role list \<Rightarrow> unit io" where
  "applyRoles namespace ownerRef roles =
     forE roles (\<lambda>desired. operand_apply
       (ApplyRole namespace (role_Name desired) ownerRef (policyRules (role_Rules desired))))"

definition applyRoleBindings :: "string \<Rightarrow> owner_reference \<Rightarrow> rbac_binding list \<Rightarrow> unit io" where
  "applyRoleBindings namespace ownerRef bindings =
     forE bindings (\<lambda>desired. operand_apply
       (ApplyRoleBinding namespace (rb_Name desired) ownerRef (roleRef (rb_RoleRef desired))
          (subjects (rb_Subjects desired) namespace)))"

definition applyClusterRoles :: "owner_reference \<Rightarrow> rbac_role list \<Rightarrow> unit io" where
  "applyClusterRoles ownerRef clusterRoles =
     forE clusterRoles (\<lambda>desired. operand_apply
       (ApplyClusterRole (role_Name desired) ownerRef (role_Labels desired) (policyRules (role_Rules desired))))"

definition applyClusterRoleBindings :: "string \<Rightarrow> owner_reference \<Rightarrow> rbac_binding list \<Rightarrow> unit io" where
  "applyClusterRoleBindings namespace ownerRef bindings =
     forE bindings (\<lambda>desired. operand_apply
       (ApplyClusterRoleBinding (rb_Name desired) ownerRef (roleRef (rb_RoleRef desired))
          (subjects (rb_Subjects desired) namespace)))"

definition applyDeployment :: "operand_config \<Rightarrow> owner_reference \<Rightarrow> unit io" where
  "applyDeployment cfg ownerRef =
     (case buildDeployment cfg ownerRef of
        Inl e \<Rightarrow> Ret (Inl (EWrap ''building deployment: '' e []))
      | Inr dep \<Rightarrow> operand_apply (ApplyDeployment dep))"

definition applyPodMonitor :: "operand_config \<Rightarrow> owner_reference \<Rightarrow> unit io" where
  "applyPodMonitor cfg ownerRef = operand_apply (ApplyPodMonitor (buildPodMonitor cfg ownerRef))"


section \<open>Management cluster\<close>

record hcp_operand_controller =
  hoc_Namespace :: string
  hoc_KarpenterImage :: string
  hoc_ClusterName :: string
  hoc_ClusterEndpoint :: string
  hoc_CloudProvider :: cloud_provider
  hoc_TokenMinterImage :: string
  hoc_DefaultSecurityContextUID :: "int option"

abbreviation targetKubeconfigVolumeName :: string where "targetKubeconfigVolumeName \<equiv> ''target-kubeconfig''"
abbreviation targetKubeconfigMountPath :: string where "targetKubeconfigMountPath \<equiv> ''/mnt/kubeconfig''"
abbreviation targetKubeconfigFilePath :: string where "targetKubeconfigFilePath \<equiv> ''target-kubeconfig''"
abbreviation targetKubeconfigSecretKey :: string where "targetKubeconfigSecretKey \<equiv> ''value''"
abbreviation cloudTokenVolumeName :: string where "cloudTokenVolumeName \<equiv> ''cloud-token''"
abbreviation cloudTokenMountPath :: string where
  "cloudTokenMountPath \<equiv> ''/var/run/secrets/openshift/serviceaccount''"
abbreviation cloudTokenFilePath :: string where "cloudTokenFilePath \<equiv> cloudTokenMountPath @ ''/token''"

definition hcpOwnerRef :: "hosted_control_plane \<Rightarrow> owner_reference" where
  "hcpOwnerRef hcp =
     \<lparr>or_APIVersion = ''hypershift.openshift.io/v1beta1'', or_Kind = ''HostedControlPlane'',
      or_Name = md_Name (hcp_Meta hcp), or_UID = md_UID (hcp_Meta hcp),
      or_Controller = Some True, or_BlockOwnerDeletion = Some True\<rparr>"

definition tokenMinterContainer :: "string \<Rightarrow> container" where
  "tokenMinterContainer minterImage =
     \<lparr>ct_Name = ''token-minter'', ct_Image = minterImage,
      ct_Command = [''/usr/bin/control-plane-operator'', ''token-minter''],
      ct_Args =
        [''--service-account-namespace=kube-system'',
         ''--service-account-name=karpenter'',
         ''--token-file='' @ cloudTokenFilePath,
         ''--kubeconfig='' @ targetKubeconfigMountPath @ ''/'' @ targetKubeconfigFilePath],
      ct_ImagePullPolicy = PullIfNotPresent,
      ct_Requests = [(''cpu'', ''10m''), (''memory'', ''30Mi'')],
      ct_RestartPolicy = Some ''Always'',
      ct_StartupProbe = Some
        \<lparr>pr_Exec = Some [''test'', ''-f'', cloudTokenFilePath], pr_PeriodSeconds = 1, pr_FailureThreshold = 30\<rparr>,
      ct_VolumeMounts =
        [\<lparr>vm_Name = targetKubeconfigVolumeName, vm_MountPath = targetKubeconfigMountPath, vm_ReadOnly = False\<rparr>,
         \<lparr>vm_Name = cloudTokenVolumeName, vm_MountPath = cloudTokenMountPath, vm_ReadOnly = False\<rparr>]\<rparr>"

text \<open>The image: the annotation, if it is set, else the configured one.\<close>

definition operand_image :: "object_meta \<Rightarrow> string \<Rightarrow> string" where
  "operand_image m configured =
     (let override = map_get (md_Annotations m) KarpenterImageOverrideAnnotation in
      if override \<noteq> [] then override else configured)"

definition hcp_operand_config :: "hcp_operand_controller \<Rightarrow> hosted_control_plane \<Rightarrow> operand_config" where
  "hcp_operand_config c hcp =
     \<lparr>oc_namespace = hoc_Namespace c,
      oc_karpenterImage = operand_image (hcp_Meta hcp) (hoc_KarpenterImage c),
      oc_clusterName = hoc_ClusterName c, oc_clusterEndpoint = hoc_ClusterEndpoint c,
      oc_cloudProvider = hoc_CloudProvider c, oc_imagePullPolicy = PullIfNotPresent,
      oc_logLevelArg = ''--log-level=debug'',
      oc_releaseVersion = rel_Version (cpv_Desired (hcp_ControlPlaneVersion hcp)),
      oc_defaultSecurityContextUID = hoc_DefaultSecurityContextUID c,
      oc_additionalLabels = [],
      oc_additionalEnv =
        [\<lparr>ev_Name = ''KUBECONFIG'', ev_Value = targetKubeconfigMountPath @ ''/'' @ targetKubeconfigFilePath\<rparr>,
         \<lparr>ev_Name = ''DISABLE_LEADER_ELECTION'', ev_Value = ''true''\<rparr>],
      oc_additionalVolumeMounts =
        [\<lparr>vm_Name = targetKubeconfigVolumeName, vm_MountPath = targetKubeconfigMountPath, vm_ReadOnly = True\<rparr>,
         \<lparr>vm_Name = cloudTokenVolumeName, vm_MountPath = cloudTokenMountPath, vm_ReadOnly = False\<rparr>],
      oc_additionalVolumes =
        [\<lparr>vol_Name = targetKubeconfigVolumeName,
          vol_Secret = Some
            \<lparr>svs_SecretName = hcp_InfraID hcp @ ''-kubeconfig'', svs_DefaultMode = Some 416,
             svs_Items = [\<lparr>kp_Key = targetKubeconfigSecretKey, kp_Path = targetKubeconfigFilePath\<rparr>]\<rparr>,
          vol_EmptyDir = False\<rparr>,
         \<lparr>vol_Name = cloudTokenVolumeName, vol_Secret = None, vol_EmptyDir = True\<rparr>],
      oc_additionalInitContainers = [tokenMinterContainer (hoc_TokenMinterImage c)]\<rparr>"

definition hcp_operand_Reconcile :: "hcp_operand_controller \<Rightarrow> string \<Rightarrow> string \<Rightarrow> result io" where
  "hcp_operand_Reconcile c ns n =
     bind (c_get Mgmt HCPs ns n) (\<lambda>got.
       case got of
         Inl e \<Rightarrow> Ret (map_sum id (\<lambda>_. 0) (IgnoreNotFound e))
       | Inr hcp \<Rightarrow>
           if auto_ProvisionerName (hcp_AutoNode hcp) \<noteq> ProvisionerKarpenter then done_result
           else if rel_Version (cpv_Desired (hcp_ControlPlaneVersion hcp)) = [] then Ret (Inr (5 * second))
           else if operand_image (hcp_Meta hcp) (hoc_KarpenterImage c) = []
           then Ret (Inl (EText ''karpenter image is not set''))
           else let ref = hcpOwnerRef hcp; cfg = hcp_operand_config c hcp in
             bindE (wrapE ''reconciling ServiceAccount: '' (applyServiceAccount (hoc_Namespace c) ref)) (\<lambda>_.
             bindE (wrapE ''reconciling Deployment: '' (applyDeployment cfg ref)) (\<lambda>_.
             bindE (wrapE ''reconciling PodMonitor: '' (applyPodMonitor cfg ref)) (\<lambda>_.
             done_result))))"

definition hcpOperandChanged :: "hosted_control_plane \<Rightarrow> hosted_control_plane \<Rightarrow> bool" where
  "hcpOperandChanged oldHCP newHCP =
     (let specChanged = (hcp_InfraID oldHCP \<noteq> hcp_InfraID newHCP \<or> hcp_AutoNode oldHCP \<noteq> hcp_AutoNode newHCP);
          versionChanged = (rel_Version (cpv_Desired (hcp_ControlPlaneVersion oldHCP))
            \<noteq> rel_Version (cpv_Desired (hcp_ControlPlaneVersion newHCP)));
          imageOverrideChanged = (map_get (md_Annotations (hcp_Meta oldHCP)) KarpenterImageOverrideAnnotation
            \<noteq> map_get (md_Annotations (hcp_Meta newHCP)) KarpenterImageOverrideAnnotation)
      in specChanged \<or> versionChanged \<or> imageOverrideChanged)"

text \<open>The filter on the owned objects.\<close>

definition karpenterFilterPredicate :: "string \<Rightarrow> bool" where
  "karpenterFilterPredicate name \<longleftrightarrow> name = ''karpenter''"


section \<open>Standalone cluster\<close>

record ocp_operand_controller =
  ooc_Namespace :: string
  ooc_KarpenterImage :: string
  ooc_ClusterName :: string
  ooc_ClusterEndpoint :: string
  ooc_CloudProvider :: cloud_provider
  ooc_imagePullPolicy :: string

definition operandImagePullPolicy :: "environ \<Rightarrow> string" where
  "operandImagePullPolicy env =
     (if env ''DEV_IMAGE_PULL_POLICY'' = ''Always'' then PullAlways else PullIfNotPresent)"

definition ocpOwnerRef :: "karpenter_cr \<Rightarrow> owner_reference" where
  "ocpOwnerRef owner =
     \<lparr>or_APIVersion = ''autoscaling.openshift.io/v1alpha1'', or_Kind = ''Karpenter'',
      or_Name = md_Name (kcr_Meta owner), or_UID = md_UID (kcr_Meta owner),
      or_Controller = Some True, or_BlockOwnerDeletion = Some True\<rparr>"

text \<open>\<^verbatim>\<open>KarpenterLogLevel.Arg\<close>\<close>

definition log_level_Arg :: "string \<Rightarrow> string" where
  "log_level_Arg l = (if l = [] then ''--log-level='' @ ''info'' else ''--log-level='' @ l)"

definition ocp_operand_config :: "ocp_operand_controller \<Rightarrow> karpenter_cr \<Rightarrow> operand_config" where
  "ocp_operand_config c karp =
     \<lparr>oc_namespace = ooc_Namespace c,
      oc_karpenterImage = operand_image (kcr_Meta karp) (ooc_KarpenterImage c),
      oc_clusterName = ooc_ClusterName c, oc_clusterEndpoint = ooc_ClusterEndpoint c,
      oc_cloudProvider = ooc_CloudProvider c, oc_imagePullPolicy = ooc_imagePullPolicy c,
      oc_logLevelArg = log_level_Arg (kcr_LogLevel karp), oc_releaseVersion = [],
      oc_defaultSecurityContextUID = None, oc_additionalLabels = [], oc_additionalEnv = [],
      oc_additionalVolumeMounts = [], oc_additionalVolumes = [], oc_additionalInitContainers = []\<rparr>"

text \<open>The embedded assets are the first argument.\<close>

definition operand_rbac :: "embedded_assets \<Rightarrow> cloud_provider \<Rightarrow> rbac_assets" where
  "operand_rbac as p =
     (let core = asset_CoreRBAC as; cloudRBAC = provider_RBAC as p in
      \<lparr>rbac_Roles = rbac_Roles core @ rbac_Roles cloudRBAC,
       rbac_RoleBindings = rbac_RoleBindings core @ rbac_RoleBindings cloudRBAC,
       rbac_ClusterRoles = rbac_ClusterRoles core @ rbac_ClusterRoles cloudRBAC,
       rbac_ClusterRoleBindings = rbac_ClusterRoleBindings core @ rbac_ClusterRoleBindings cloudRBAC\<rparr>)"

definition ocp_operand_Reconcile :: "embedded_assets \<Rightarrow> ocp_operand_controller \<Rightarrow> result io" where
  "ocp_operand_Reconcile as c =
     bind (c_get Mgmt Karpenters [] SingletonName) (\<lambda>got.
       case got of
         Inl e \<Rightarrow> Ret (map_sum id (\<lambda>_. 0) (IgnoreNotFound e))
       | Inr karp \<Rightarrow>
           if operand_image (kcr_Meta karp) (ooc_KarpenterImage c) = []
           then Ret (Inl (EText ''karpenter image is not set''))
           else let ref = ocpOwnerRef karp; ns = ooc_Namespace c; cfg = ocp_operand_config c karp;
                    rbac = operand_rbac as (ooc_CloudProvider c) in
             bindE (wrapE ''reconciling ServiceAccount: '' (applyServiceAccount ns ref)) (\<lambda>_.
             bindE (wrapE ''reconciling ClusterRoles: '' (applyClusterRoles ref (rbac_ClusterRoles rbac))) (\<lambda>_.
             bindE (wrapE ''reconciling ClusterRoleBindings: ''
                      (applyClusterRoleBindings ns ref (rbac_ClusterRoleBindings rbac))) (\<lambda>_.
             bindE (wrapE ''reconciling Roles: '' (applyRoles ns ref (rbac_Roles rbac))) (\<lambda>_.
             bindE (wrapE ''reconciling RoleBindings: ''
                      (applyRoleBindings ns ref (rbac_RoleBindings rbac))) (\<lambda>_.
             bindE (wrapE ''reconciling Deployment: '' (applyDeployment cfg ref)) (\<lambda>_.
             bindE (wrapE ''reconciling PodMonitor: '' (applyPodMonitor cfg ref)) (\<lambda>_.
             done_result))))))))"

text \<open>The mappings of the watches on Secrets, ClusterRoles and ClusterRoleBindings.\<close>

definition ocp_reconcileRequest :: "(string \<times> string) list" where
  "ocp_reconcileRequest = [([], SingletonName)]"

definition ocp_secret_requests :: "ocp_operand_controller \<Rightarrow> object_meta \<Rightarrow> (string \<times> string) list" where
  "ocp_secret_requests c m =
     (if md_Namespace m \<noteq> ooc_Namespace c \<or>
         md_Name m \<noteq> occ_CredentialsSecretName (OperandConfig (ooc_CloudProvider c))
      then [] else ocp_reconcileRequest)"

definition ocp_clusterRole_requests ::
  "embedded_assets \<Rightarrow> ocp_operand_controller \<Rightarrow> string \<Rightarrow> (string \<times> string) list"
where
  "ocp_clusterRole_requests as c name =
     (if name \<notin> role_Name ` set (rbac_ClusterRoles (operand_rbac as (ooc_CloudProvider c)))
      then [] else ocp_reconcileRequest)"

definition ocp_clusterRoleBinding_requests ::
  "embedded_assets \<Rightarrow> ocp_operand_controller \<Rightarrow> string \<Rightarrow> (string \<times> string) list"
where
  "ocp_clusterRoleBinding_requests as c name =
     (if name \<notin> rb_Name ` set (rbac_ClusterRoleBindings (operand_rbac as (ooc_CloudProvider c)))
      then [] else ocp_reconcileRequest)"

end
