(* ===== verification/Operand_Properties.thy ===== *)
theory Operand_Properties
  imports Operand
begin

text \<open>
  The operand controllers: which applies a run issues and in what order, what makes the Pod fit
  together, when it cannot be built, and that the watches miss no relevant change.
\<close>


section \<open>Sequences of applies\<close>

fun accepted :: "resp \<Rightarrow> bool" where
  "accepted (RErr _ _) = False"
| "accepted _ = True"

abbreviation apply_req :: "apply_config \<Rightarrow> req" where
  "apply_req x \<equiv> Apply Mgmt operandFieldManager True x"

text \<open>All of \<open>objs\<close> were applied in order, or (\<open>\<not> ok\<close>) all up to one that the server
  refused, and nothing after it.\<close>

definition applied :: "apply_config list \<Rightarrow> (req \<times> resp) list \<Rightarrow> bool \<Rightarrow> bool" where
  "applied objs tr ok \<longleftrightarrow>
     (if ok then map fst tr = map apply_req objs \<and> list_all (accepted \<circ> snd) tr
      else \<exists>pre x post t r. objs = pre @ x # post \<and> tr = t @ [(apply_req x, r)] \<and> \<not> accepted r \<and>
        map fst t = map apply_req pre \<and> list_all (accepted \<circ> snd) t)"

definition applies :: "(req, resp, goerr + 'a) prog \<Rightarrow> apply_config list \<Rightarrow> bool" where
  "applies p objs \<longleftrightarrow> (\<forall>tr y. runs p tr y \<longrightarrow> applied objs tr (\<not> isl y))"

lemma applies_Inl: "applies p objs \<Longrightarrow> runs p tr (Inl e) \<Longrightarrow> applied objs tr False"
  and applies_Inr: "applies p objs \<Longrightarrow> runs p tr (Inr a) \<Longrightarrow> applied objs tr True"
  by (force simp: applies_def)+

named_theorems apply_rules \<open>the applies of a program, composed along its structure\<close>

lemma applied_append:
  assumes "applied objs t True" and "applied objs' u ok"
  shows "applied (objs @ objs') (t @ u) ok"
proof (cases ok)
  case True
  with assms show ?thesis by (simp add: applied_def)
next
  case False
  with assms(2) obtain pre x post v r where
    "objs' = pre @ x # post" "u = v @ [(apply_req x, r)]" "\<not> accepted r"
    "map fst v = map apply_req pre" "list_all (accepted \<circ> snd) v"
    by (auto simp: applied_def)
  with assms(1) have "objs @ objs' = (objs @ pre) @ x # post \<and> t @ u = (t @ v) @ [(apply_req x, r)] \<and>
      \<not> accepted r \<and> map fst (t @ v) = map apply_req (objs @ pre) \<and> list_all (accepted \<circ> snd) (t @ v)"
    by (simp add: applied_def)
  with False show ?thesis unfolding applied_def by (simp only: if_False) blast
qed

lemma applied_weaken:
  assumes "applied objs t False"
  shows "applied (objs @ objs') t False"
proof -
  from assms obtain pre x post v r where
    "objs = pre @ x # post" "t = v @ [(apply_req x, r)]" "\<not> accepted r"
    "map fst v = map apply_req pre" "list_all (accepted \<circ> snd) v"
    by (auto simp: applied_def)
  then have "objs @ objs' = pre @ x # (post @ objs') \<and> t = v @ [(apply_req x, r)] \<and> \<not> accepted r \<and>
      map fst v = map apply_req pre \<and> list_all (accepted \<circ> snd) v"
    by simp
  then show ?thesis unfolding applied_def by (simp only: if_False) blast
qed

lemma applies_done [apply_rules]: "applies (Ret (Inr a)) []"
  by (simp add: applies_def applied_def)

lemma applies_operand_apply [apply_rules]: "applies (operand_apply x) [x]"
proof -
  have "applied [x] tr (\<not> isl y)" if "runs (operand_apply x) tr y" for tr y
  proof -
    from that obtain r where "tr = [(apply_req x, r)]" "y = as_unit r"
      by (auto simp: operand_apply_def c_apply_def runs_Call_iff)
    moreover have "isl (as_unit r) \<longleftrightarrow> \<not> accepted r" by (cases r) auto
    ultimately show ?thesis
      by (cases "accepted r") (auto simp: applied_def intro!: exI [of _ "[]"])
  qed
  then show ?thesis by (simp add: applies_def)
qed

lemma applies_wrapE [apply_rules]: "applies p objs \<Longrightarrow> applies (wrapE ctx p) objs"
  unfolding applies_def [of "wrapE ctx p"]
  by (auto simp: runs_wrapE intro: applies_Inl applies_Inr)

lemma applies_bindE [apply_rules]:
  assumes "applies p objs" and "applies q objs'"
  shows "applies (bindE p (\<lambda>_. q)) (objs @ objs')"
  unfolding applies_def
proof (intro allI impI)
  fix tr y
  assume "runs (bindE p (\<lambda>_. q)) tr y"
  then consider (fail) e where "runs p tr (Inl e)" "y = Inl e"
    | (ok) t u a where "tr = t @ u" "runs p t (Inr a)" "runs q u y"
    by (auto simp: runs_bindE)
  then show "applied (objs @ objs') tr (\<not> isl y)"
  proof cases
    case fail
    with applies_Inl [OF assms(1)] show ?thesis by (simp add: applied_weaken)
  next
    case ok
    with applies_Inr [OF assms(1)] assms(2) show ?thesis by (simp add: applies_def applied_append)
  qed
qed

lemma applies_forE [apply_rules]:
  "(\<And>x. applies (f x) [g x]) \<Longrightarrow> applies (forE xs f) (map g xs)"
proof (induction xs)
  case Nil
  show ?case by (simp add: applies_done)
next
  case (Cons x xs)
  from applies_bindE [OF Cons.prems [of x] Cons.IH [OF Cons.prems]] show ?case by simp
qed


section \<open>The Pod\<close>

definition valid_uid :: "int option \<Rightarrow> bool" where
  "valid_uid uid \<longleftrightarrow> (case uid of None \<Rightarrow> True | Some u \<Rightarrow> 0 < u)"

abbreviation uid_error :: goerr where
  "uid_error \<equiv> EText ''operand security context UID must be positive''"

definition operand_security :: "int option \<Rightarrow> pod_security_ac" where
  "operand_security uid =
     \<lparr>psa_RunAsNonRoot = Some True, psa_SeccompProfile = Some ''RuntimeDefault'',
      psa_RunAsUser = uid, psa_FSGroup = uid\<rparr>"

lemma pod_security_eq:
  "pod_security uid = (if valid_uid uid then Inr (operand_security uid) else Inl uid_error)"
  by (cases uid) (auto simp: pod_security_def valid_uid_def operand_security_def Let_def)

text \<open>The inputs of a Pod convert without an error.\<close>

definition convertible :: "operand_config \<Rightarrow> bool" where
  "convertible cfg \<longleftrightarrow>
     (\<forall>v\<in>set (occ_Volumes (OperandConfig (oc_cloudProvider cfg)) @ oc_additionalVolumes cfg). wf_volume v) \<and>
     (\<forall>c\<in>set (oc_additionalInitContainers cfg). wf_container c)"

lemma OperandConfig_volumes: "\<forall>v\<in>set (occ_Volumes (OperandConfig p)). wf_volume v"
  by (cases p) (simp_all add: aws_OperandConfig_def azure_OperandConfig_def wf_volume_def wf_int32_field_def)

lemma wf_tokenMinterContainer: "wf_container (tokenMinterContainer m)"
  by (simp add: wf_container_def tokenMinterContainer_def is_int32_def is_map_def)

lemma convertible_hcp: "convertible (hcp_operand_config c hcp)"
  using OperandConfig_volumes [of "hoc_CloudProvider c"]
  by (auto simp: convertible_def hcp_operand_config_def wf_volume_def wf_int32_field_def is_int32_def
      wf_tokenMinterContainer)

lemma convertible_ocp: "convertible (ocp_operand_config c karp)"
  using OperandConfig_volumes [of "ooc_CloudProvider c"]
  by (auto simp: convertible_def ocp_operand_config_def)

definition operand_env :: "operand_config \<Rightarrow> env_var_ac list" where
  "operand_env cfg =
     [\<lparr>eva_Name = Some ''SYSTEM_NAMESPACE'', eva_Value = None, eva_FieldPath = Some ''metadata.namespace''\<rparr>,
      plain_env ''CLUSTER_NAME'' (oc_clusterName cfg),
      plain_env ''CLUSTER_ENDPOINT'' (oc_clusterEndpoint cfg),
      plain_env ''DISABLE_WEBHOOK'' ''true'',
      plain_env ''HEALTH_PROBE_PORT'' (Itoa defaultHealthProbePort)] @
     map env_ac (occ_Env (OperandConfig (oc_cloudProvider cfg)) @ oc_additionalEnv cfg)"

definition operand_mounts :: "operand_config \<Rightarrow> volume_mount_ac list" where
  "operand_mounts cfg =
     map mount_ac (occ_VolumeMounts (OperandConfig (oc_cloudProvider cfg)) @ oc_additionalVolumeMounts cfg)"

definition operand_pod :: "operand_config \<Rightarrow> pod_security_ac \<Rightarrow> pod_spec_ac" where
  "operand_pod cfg sc =
     \<lparr>psp_PriorityClassName = ''system-node-critical'', psp_ServiceAccountName = karpenterName,
      psp_TerminationGracePeriodSeconds = 10, psp_SecurityContext = sc,
      psp_InitContainers = map init_ac (oc_additionalInitContainers cfg),
      psp_Containers = [karpenter_container cfg (operand_env cfg) (operand_mounts cfg)],
      psp_Volumes = map vol_ac (occ_Volumes (OperandConfig (oc_cloudProvider cfg)) @ oc_additionalVolumes cfg)\<rparr>"

lemma buildPodSpec_eq:
  "convertible cfg \<Longrightarrow> buildPodSpec cfg =
     (if valid_uid (oc_defaultSecurityContextUID cfg)
      then Inr (operand_pod cfg (operand_security (oc_defaultSecurityContextUID cfg))) else Inl uid_error)"
  by (simp add: buildPodSpec_def buildEnv_def convertible_def volumes_eq initContainers_eq operand_pod_def
      operand_env_def operand_mounts_def pod_security_eq Let_def)

lemma buildDeployment_Inl:
  "convertible cfg \<Longrightarrow> buildDeployment cfg ref = Inl e \<longleftrightarrow>
     \<not> valid_uid (oc_defaultSecurityContextUID cfg) \<and> e = uid_error"
  by (auto simp: buildDeployment_def buildPodSpec_eq Let_def)

lemma buildDeployment_Inr:
  assumes "convertible cfg" and "buildDeployment cfg ref = Inr d"
  shows "valid_uid (oc_defaultSecurityContextUID cfg)"
    and "dac_PodSpec d = operand_pod cfg (operand_security (oc_defaultSecurityContextUID cfg))"
    and "dac_Selector d = karpenterSelector"
    and "dac_TemplateLabels d = lo_Assign [(appLabelKey, karpenterName)] (oc_additionalLabels cfg)"
    and "dac_Name d = karpenterName" and "dac_Namespace d = oc_namespace cfg" and "dac_OwnerReferences d = [ref]"
  using assms
  by (auto simp: buildDeployment_def buildPodSpec_eq Let_def split: if_splits)


section \<open>A well-formed Pod\<close>

text \<open>What the API server checks of a Pod: names are set and distinct, every mount refers to a volume of
  the Pod, no two mounts of a container share a path, every volume has exactly one source, and every HTTP
  probe asks a port of its container.\<close>

definition container_wf :: "volume_ac list \<Rightarrow> container_ac \<Rightarrow> bool" where
  "container_wf vols c \<longleftrightarrow>
     cta_Name c \<noteq> None \<and>
     None \<notin> set (map eva_Name (cta_Env c)) \<and> distinct (map eva_Name (cta_Env c)) \<and>
     set (map vma_Name (cta_VolumeMounts c)) \<subseteq> set (map vla_Name vols) \<and>
     None \<notin> set (map vma_MountPath (cta_VolumeMounts c)) \<and> distinct (map vma_MountPath (cta_VolumeMounts c)) \<and>
     (\<forall>p path port. Some p \<in> {cta_LivenessProbe c, cta_ReadinessProbe c, cta_StartupProbe c} \<longrightarrow>
        pra_HTTPGet p = Some (path, port) \<longrightarrow> Some port \<in> set (map cpa_ContainerPort (cta_Ports c)))"

definition pod_wf :: "pod_spec_ac \<Rightarrow> bool" where
  "pod_wf ps \<longleftrightarrow>
     None \<notin> set (map vla_Name (psp_Volumes ps)) \<and> distinct (map vla_Name (psp_Volumes ps)) \<and>
     list_all (\<lambda>v. (vla_Secret v \<noteq> None) \<noteq> vla_EmptyDir v) (psp_Volumes ps) \<and>
     list_all (container_wf (psp_Volumes ps)) (psp_InitContainers ps @ psp_Containers ps) \<and>
     distinct (map cta_Name (psp_InitContainers ps @ psp_Containers ps))"

text \<open>The Deployment selects its own Pods, and the monitor selects them too and scrapes a named port.\<close>

definition deployment_wf :: "deployment_ac \<Rightarrow> bool" where
  "deployment_wf d \<longleftrightarrow> pod_wf (dac_PodSpec d) \<and>
     (\<forall>(k, v)\<in>set (dac_Selector d). map_of (dac_TemplateLabels d) k = Some v)"

definition monitors :: "pod_monitor_ac \<Rightarrow> deployment_ac \<Rightarrow> bool" where
  "monitors m d \<longleftrightarrow> pma_Namespace m = dac_Namespace d \<and>
     (\<forall>(k, v)\<in>set (pma_Selector m). map_of (dac_TemplateLabels d) k = Some v) \<and>
     (\<forall>(port, path, scheme)\<in>set (pma_Endpoints m).
        \<exists>c\<in>set (psp_Containers (dac_PodSpec d)). Some port \<in> set (map cpa_Name (cta_Ports c)))"

lemma env_wf_hcp: "distinct (map eva_Name (operand_env (hcp_operand_config c hcp)))"
  by (cases "hoc_CloudProvider c")
    (simp_all add: operand_env_def plain_env_def env_ac_def hcp_operand_config_def aws_OperandConfig_def
      azure_OperandConfig_def)

lemma env_wf_ocp: "distinct (map eva_Name (operand_env (ocp_operand_config c karp)))"
  by (cases "ooc_CloudProvider c")
    (simp_all add: operand_env_def plain_env_def env_ac_def ocp_operand_config_def aws_OperandConfig_def
      azure_OperandConfig_def)

lemma env_names: "None \<notin> set (map eva_Name (operand_env cfg))"
  by (auto simp: operand_env_def plain_env_def env_ac_def)

text \<open>The same, read off the configuration.\<close>

definition mounts_wf :: "volume list \<Rightarrow> volume_mount list \<Rightarrow> bool" where
  "mounts_wf vols ms \<longleftrightarrow> set (map vm_Name ms) \<subseteq> set (map vol_Name vols) \<and> distinct (map vm_MountPath ms)"

definition config_wf :: "operand_config \<Rightarrow> bool" where
  "config_wf cfg \<longleftrightarrow>
     (let vols = occ_Volumes (OperandConfig (oc_cloudProvider cfg)) @ oc_additionalVolumes cfg;
          mounts = occ_VolumeMounts (OperandConfig (oc_cloudProvider cfg)) @ oc_additionalVolumeMounts cfg;
          inits = oc_additionalInitContainers cfg in
      distinct (map vol_Name vols) \<and> list_all (\<lambda>v. (vol_Secret v \<noteq> None) \<noteq> vol_EmptyDir v) vols \<and>
      mounts_wf vols mounts \<and> list_all (\<lambda>c. mounts_wf vols (ct_VolumeMounts c)) inits \<and>
      distinct (map ct_Name inits @ [karpenterName]))"

lemma distinct_map_Some: "distinct (map Some xs) = distinct xs"
  by (simp add: distinct_map)

lemma mounts_ac:
  assumes "mounts_wf vols ms"
  shows "set (map vma_Name (map mount_ac ms)) \<subseteq> set (map vla_Name (map vol_ac vols))"
    and "None \<notin> set (map vma_MountPath (map mount_ac ms))"
    and "distinct (map vma_MountPath (map mount_ac ms))"
proof -
  have "map vma_MountPath (map mount_ac ms) = map Some (map vm_MountPath ms)"
    "map vma_Name (map mount_ac ms) = map Some (map vm_Name ms)"
    "map vla_Name (map vol_ac vols) = map Some (map vol_Name vols)"
    by (simp_all add: mount_ac_def vol_ac_def)
  with assms show "set (map vma_Name (map mount_ac ms)) \<subseteq> set (map vla_Name (map vol_ac vols))"
    and "None \<notin> set (map vma_MountPath (map mount_ac ms))"
    and "distinct (map vma_MountPath (map mount_ac ms))"
    by (auto simp: mounts_wf_def distinct_map simp del: map_map)
qed

lemma init_container_wf: "mounts_wf vols (ct_VolumeMounts c) \<Longrightarrow> container_wf (map vol_ac vols) (init_ac c)"
  using mounts_ac [of vols "ct_VolumeMounts c"]
  by (cases "ct_StartupProbe c") (auto simp: container_wf_def init_ac_def new_container_ac_def startup_ac_def)

lemma karpenter_container_wf:
  assumes "distinct (map eva_Name (operand_env cfg))" and "mounts_wf vols ms"
  shows "container_wf (map vol_ac vols) (karpenter_container cfg (operand_env cfg) (map mount_ac ms))"
  using assms(1) env_names [of cfg] mounts_ac [OF assms(2)]
  by (auto simp: container_wf_def karpenter_container_def karpenterPorts_def karpenterLivenessProbe_def
      karpenterReadinessProbe_def http_probe_def)

lemma operand_pod_wf:
  assumes env: "distinct (map eva_Name (operand_env cfg))" and cfg: "config_wf cfg"
  shows "pod_wf (operand_pod cfg sc)"
proof -
  let ?vols = "occ_Volumes (OperandConfig (oc_cloudProvider cfg)) @ oc_additionalVolumes cfg"
  let ?inits = "oc_additionalInitContainers cfg"
  have vols: "map vla_Name (map vol_ac ?vols) = map Some (map vol_Name ?vols)"
    and names: "map cta_Name (map init_ac ?inits @ [karpenter_container cfg e m]) =
      map Some (map ct_Name ?inits @ [karpenterName])" for e m
    by (simp_all add: vol_ac_def init_ac_def new_container_ac_def karpenter_container_def)
  have "list_all (container_wf (map vol_ac ?vols)) (map init_ac ?inits)"
    using cfg init_container_wf by (auto simp: config_wf_def list_all_iff Let_def simp del: map_append)
  moreover have "container_wf (map vol_ac ?vols) (karpenter_container cfg (operand_env cfg) (operand_mounts cfg))"
    unfolding operand_mounts_def using cfg env
    by (intro karpenter_container_wf) (simp_all add: config_wf_def Let_def)
  moreover have "list_all (\<lambda>v. (vla_Secret v \<noteq> None) \<noteq> vla_EmptyDir v) (map vol_ac ?vols)"
    using cfg by (auto simp: config_wf_def list_all_iff vol_ac_def Let_def)
  moreover have "distinct (map Some (map vol_Name ?vols))" "distinct (map Some (map ct_Name ?inits @ [karpenterName]))"
    using cfg unfolding distinct_map_Some by (simp_all add: config_wf_def Let_def)
  ultimately show ?thesis
    unfolding pod_wf_def operand_pod_def using vols names
    by (auto simp del: map_append map_map simp: list_all_append)
qed

lemma config_wf_hcp: "config_wf (hcp_operand_config c hcp)"
  by (cases "hoc_CloudProvider c")
    (simp_all add: config_wf_def mounts_wf_def hcp_operand_config_def aws_OperandConfig_def
      azure_OperandConfig_def tokenMinterContainer_def)

lemma config_wf_ocp: "config_wf (ocp_operand_config c karp)"
  by (cases "ooc_CloudProvider c")
    (simp_all add: config_wf_def mounts_wf_def ocp_operand_config_def aws_OperandConfig_def
      azure_OperandConfig_def)

text \<open>C14: the Deployment of the operand is well formed on every platform, on a management cluster and on a
  standalone one: all names are set and distinct, every mount of every container refers to a volume of the
  Pod, every volume has one source, every probe asks a declared port; the Deployment selects its own Pods, and
  the PodMonitor selects them as well and scrapes a port that the Pod names.\<close>

theorem operand_deployment_wf:
  "(\<forall>d. buildDeployment (hcp_operand_config c hcp) ref = Inr d \<longrightarrow>
      deployment_wf d \<and> monitors (buildPodMonitor (hcp_operand_config c hcp) ref') d) \<and>
   (\<forall>d. buildDeployment (ocp_operand_config c' karp) ref = Inr d \<longrightarrow>
      deployment_wf d \<and> monitors (buildPodMonitor (ocp_operand_config c' karp) ref') d)"
proof -
  have wf: "deployment_wf d \<and> monitors (buildPodMonitor cfg ref') d"
    if "convertible cfg" "distinct (map eva_Name (operand_env cfg))" "config_wf cfg" "oc_additionalLabels cfg = []"
      "buildDeployment cfg ref = Inr d" for cfg d
    using that(4) buildDeployment_Inr [OF that(1,5)] operand_pod_wf [OF that(2,3)]
    by (simp add: deployment_wf_def monitors_def buildPodMonitor_def karpenterSelector_def lo_Assign_def
        operand_pod_def karpenter_container_def karpenterPorts_def)
  have "oc_additionalLabels (hcp_operand_config c hcp) = []" "oc_additionalLabels (ocp_operand_config c' karp) = []"
    by (simp_all add: hcp_operand_config_def ocp_operand_config_def)
  with wf [OF convertible_hcp env_wf_hcp config_wf_hcp] wf [OF convertible_ocp env_wf_ocp config_wf_ocp]
  show ?thesis by blast
qed

text \<open>Building the Deployment fails only on a configured UID that is not positive, with the error
  that says so; on a standalone cluster, where no UID is configured, it never fails.\<close>

theorem operand_deployment_error:
  "(buildDeployment (hcp_operand_config c hcp) ref = Inl e \<longleftrightarrow>
      (\<exists>u. hoc_DefaultSecurityContextUID c = Some u \<and> u \<le> 0) \<and> e = uid_error) \<and>
   \<not> isl (buildDeployment (ocp_operand_config c' karp) ref)"
proof
  show "buildDeployment (hcp_operand_config c hcp) ref = Inl e \<longleftrightarrow>
      (\<exists>u. hoc_DefaultSecurityContextUID c = Some u \<and> u \<le> 0) \<and> e = uid_error"
    unfolding buildDeployment_Inl [OF convertible_hcp]
    by (auto simp: valid_uid_def hcp_operand_config_def split: option.splits)
  show "\<not> isl (buildDeployment (ocp_operand_config c' karp) ref)"
    using buildDeployment_Inl [OF convertible_ocp, of c' karp ref]
    by (cases "buildDeployment (ocp_operand_config c' karp) ref")
      (simp_all add: valid_uid_def ocp_operand_config_def)
qed


section \<open>What a run applies\<close>

definition hcp_operand_objects :: "hcp_operand_controller \<Rightarrow> hosted_control_plane \<Rightarrow> deployment_ac \<Rightarrow> apply_config list"
where
  "hcp_operand_objects c hcp dep =
     [ApplyServiceAccount (hoc_Namespace c) karpenterName (hcpOwnerRef hcp), ApplyDeployment dep,
      ApplyPodMonitor (buildPodMonitor (hcp_operand_config c hcp) (hcpOwnerRef hcp))]"

definition hcp_operand_body :: "hcp_operand_controller \<Rightarrow> hosted_control_plane \<Rightarrow> result io" where
  "hcp_operand_body c hcp =
     (let ref = hcpOwnerRef hcp; cfg = hcp_operand_config c hcp in
      bindE (wrapE ''reconciling ServiceAccount: '' (applyServiceAccount (hoc_Namespace c) ref)) (\<lambda>_.
      bindE (wrapE ''reconciling Deployment: '' (applyDeployment cfg ref)) (\<lambda>_.
      bindE (wrapE ''reconciling PodMonitor: '' (applyPodMonitor cfg ref)) (\<lambda>_.
      done_result))))"

lemma hcp_operand_Reconcile_body:
  "hcp_operand_Reconcile c ns n =
     bind (c_get Mgmt HCPs ns n) (\<lambda>got.
       case got of
         Inl e \<Rightarrow> Ret (map_sum id (\<lambda>_. 0) (IgnoreNotFound e))
       | Inr hcp \<Rightarrow>
           if auto_ProvisionerName (hcp_AutoNode hcp) \<noteq> ProvisionerKarpenter then done_result
           else if rel_Version (cpv_Desired (hcp_ControlPlaneVersion hcp)) = [] then Ret (Inr (5 * second))
           else if operand_image (hcp_Meta hcp) (hoc_KarpenterImage c) = []
           then Ret (Inl (EText ''karpenter image is not set''))
           else hcp_operand_body c hcp)"
  unfolding hcp_operand_Reconcile_def hcp_operand_body_def Let_def by (rule refl)

lemma applies_hcp_body:
  assumes "buildDeployment (hcp_operand_config c hcp) (hcpOwnerRef hcp) = Inr dep"
  shows "applies (hcp_operand_body c hcp) (hcp_operand_objects c hcp dep)"
proof -
  have "applies (hcp_operand_body c hcp)
    ([ApplyServiceAccount (hoc_Namespace c) karpenterName (hcpOwnerRef hcp)] @ [ApplyDeployment dep] @
     [ApplyPodMonitor (buildPodMonitor (hcp_operand_config c hcp) (hcpOwnerRef hcp))] @ [])"
    unfolding hcp_operand_body_def applyServiceAccount_def applyDeployment_def applyPodMonitor_def Let_def
    by (simp only: assms sum.case) (intro apply_rules)
  then show ?thesis by (simp add: hcp_operand_objects_def)
qed

lemma hcp_body_result: "runs (hcp_operand_body c hcp) tr y \<Longrightarrow> \<not> isl y \<longleftrightarrow> y = Inr 0"
  by (auto simp: hcp_operand_body_def runs_bindE Let_def)

lemma runs_hcp_operand:
  assumes "runs (hcp_operand_Reconcile c ns n) tr y" and "valid_uid (hoc_DefaultSecurityContextUID c)"
  shows "\<exists>r t. tr = (Get Mgmt KHostedControlPlane ns n, r) # t \<and>
    (case as_object HCPs r of
       Inl e \<Rightarrow> t = [] \<and> y = (if IsNotFound e then Inr 0 else Inl e)
     | Inr hcp \<Rightarrow>
         if auto_ProvisionerName (hcp_AutoNode hcp) \<noteq> ProvisionerKarpenter then t = [] \<and> y = Inr 0
         else if rel_Version (cpv_Desired (hcp_ControlPlaneVersion hcp)) = [] then t = [] \<and> y = Inr (5 * second)
         else if operand_image (hcp_Meta hcp) (hoc_KarpenterImage c) = [] then t = [] \<and> isl y
         else \<exists>dep. buildDeployment (hcp_operand_config c hcp) (hcpOwnerRef hcp) = Inr dep \<and>
           applied (hcp_operand_objects c hcp dep) t (y = Inr 0))"
proof -
  from assms(1) obtain r t where tr: "tr = (Get Mgmt KHostedControlPlane ns n, r) # t"
    and t: "runs (case as_object HCPs r of
         Inl e \<Rightarrow> Ret (map_sum id (\<lambda>_. 0) (IgnoreNotFound e))
       | Inr hcp \<Rightarrow>
           if auto_ProvisionerName (hcp_AutoNode hcp) \<noteq> ProvisionerKarpenter then done_result
           else if rel_Version (cpv_Desired (hcp_ControlPlaneVersion hcp)) = [] then Ret (Inr (5 * second))
           else if operand_image (hcp_Meta hcp) (hoc_KarpenterImage c) = []
           then Ret (Inl (EText ''karpenter image is not set''))
           else hcp_operand_body c hcp) t y"
    by (auto simp: hcp_operand_Reconcile_body c_get_def runs_Call_iff)
  have build: "\<exists>dep. buildDeployment (hcp_operand_config c hcp) (hcpOwnerRef hcp) = Inr dep" for hcp
    using assms(2) buildDeployment_Inl [OF convertible_hcp, of c hcp]
    by (cases "buildDeployment (hcp_operand_config c hcp) (hcpOwnerRef hcp)") (auto simp: hcp_operand_config_def)
  have "\<exists>dep. buildDeployment (hcp_operand_config c hcp) (hcpOwnerRef hcp) = Inr dep \<and>
      applied (hcp_operand_objects c hcp dep) t (y = Inr 0)" if "runs (hcp_operand_body c hcp) t y" for hcp
  proof -
    obtain dep where dep: "buildDeployment (hcp_operand_config c hcp) (hcpOwnerRef hcp) = Inr dep"
      using build by blast
    have "applied (hcp_operand_objects c hcp dep) t (\<not> isl y)"
      using applies_hcp_body [OF dep] that unfolding applies_def by blast
    with dep hcp_body_result [OF that] show ?thesis by (intro exI [of _ dep]) simp
  qed
  with t have "case as_object HCPs r of
       Inl e \<Rightarrow> t = [] \<and> y = (if IsNotFound e then Inr 0 else Inl e)
     | Inr hcp \<Rightarrow>
         if auto_ProvisionerName (hcp_AutoNode hcp) \<noteq> ProvisionerKarpenter then t = [] \<and> y = Inr 0
         else if rel_Version (cpv_Desired (hcp_ControlPlaneVersion hcp)) = [] then t = [] \<and> y = Inr (5 * second)
         else if operand_image (hcp_Meta hcp) (hoc_KarpenterImage c) = [] then t = [] \<and> isl y
         else \<exists>dep. buildDeployment (hcp_operand_config c hcp) (hcpOwnerRef hcp) = Inr dep \<and>
           applied (hcp_operand_objects c hcp dep) t (y = Inr 0)"
    by (cases "as_object HCPs r") (auto simp: IgnoreNotFound_def split: if_splits)
  with tr show ?thesis by blast
qed

text \<open>C13: with a valid UID, a run on a management cluster reads the HostedControlPlane and, exactly when it
  is provisioned by Karpenter, has a control plane version and an image is known, applies the ServiceAccount,
  the Deployment and the PodMonitor, in this order, stopping at the first refusal; it succeeds if and only
  if all of them were accepted. In the other cases it applies nothing, and waits for the version.\<close>

theorem hcp_operand_applied:
  assumes "runs (hcp_operand_Reconcile c ns n) tr y" and "valid_uid (hoc_DefaultSecurityContextUID c)"
  shows "\<exists>r t. tr = (Get Mgmt KHostedControlPlane ns n, r) # t \<and>
    (case as_object HCPs r of
       Inl e \<Rightarrow> t = [] \<and> y = (if IsNotFound e then Inr 0 else Inl e)
     | Inr hcp \<Rightarrow>
         if auto_ProvisionerName (hcp_AutoNode hcp) \<noteq> ProvisionerKarpenter then t = [] \<and> y = Inr 0
         else if rel_Version (cpv_Desired (hcp_ControlPlaneVersion hcp)) = [] then t = [] \<and> y = Inr (5 * second)
         else if operand_image (hcp_Meta hcp) (hoc_KarpenterImage c) = [] then t = [] \<and> isl y
         else \<exists>dep. buildDeployment (hcp_operand_config c hcp) (hcpOwnerRef hcp) = Inr dep \<and>
           applied (hcp_operand_objects c hcp dep) t (y = Inr 0))"
  using assms by (rule runs_hcp_operand)


definition ocp_operand_objects ::
  "embedded_assets \<Rightarrow> ocp_operand_controller \<Rightarrow> karpenter_cr \<Rightarrow> deployment_ac \<Rightarrow> apply_config list"
where
  "ocp_operand_objects as c karp dep =
     (let ref = ocpOwnerRef karp; ns = ooc_Namespace c; rbac = operand_rbac as (ooc_CloudProvider c) in
      [ApplyServiceAccount ns karpenterName ref] @
      map (\<lambda>r. ApplyClusterRole (role_Name r) ref (role_Labels r) (policyRules (role_Rules r))) (rbac_ClusterRoles rbac) @
      map (\<lambda>b. ApplyClusterRoleBinding (rb_Name b) ref (roleRef (rb_RoleRef b)) (subjects (rb_Subjects b) ns))
        (rbac_ClusterRoleBindings rbac) @
      map (\<lambda>r. ApplyRole ns (role_Name r) ref (policyRules (role_Rules r))) (rbac_Roles rbac) @
      map (\<lambda>b. ApplyRoleBinding ns (rb_Name b) ref (roleRef (rb_RoleRef b)) (subjects (rb_Subjects b) ns))
        (rbac_RoleBindings rbac) @
      [ApplyDeployment dep] @ [ApplyPodMonitor (buildPodMonitor (ocp_operand_config c karp) ref)])"

definition ocp_operand_body :: "embedded_assets \<Rightarrow> ocp_operand_controller \<Rightarrow> karpenter_cr \<Rightarrow> result io" where
  "ocp_operand_body as c karp =
     (let ref = ocpOwnerRef karp; ns = ooc_Namespace c; cfg = ocp_operand_config c karp;
          rbac = operand_rbac as (ooc_CloudProvider c) in
      bindE (wrapE ''reconciling ServiceAccount: '' (applyServiceAccount ns ref)) (\<lambda>_.
      bindE (wrapE ''reconciling ClusterRoles: '' (applyClusterRoles ref (rbac_ClusterRoles rbac))) (\<lambda>_.
      bindE (wrapE ''reconciling ClusterRoleBindings: ''
               (applyClusterRoleBindings ns ref (rbac_ClusterRoleBindings rbac))) (\<lambda>_.
      bindE (wrapE ''reconciling Roles: '' (applyRoles ns ref (rbac_Roles rbac))) (\<lambda>_.
      bindE (wrapE ''reconciling RoleBindings: '' (applyRoleBindings ns ref (rbac_RoleBindings rbac))) (\<lambda>_.
      bindE (wrapE ''reconciling Deployment: '' (applyDeployment cfg ref)) (\<lambda>_.
      bindE (wrapE ''reconciling PodMonitor: '' (applyPodMonitor cfg ref)) (\<lambda>_.
      done_result))))))))"

lemma ocp_operand_Reconcile_body:
  "ocp_operand_Reconcile as c =
     bind (c_get Mgmt Karpenters [] SingletonName) (\<lambda>got.
       case got of
         Inl e \<Rightarrow> Ret (map_sum id (\<lambda>_. 0) (IgnoreNotFound e))
       | Inr karp \<Rightarrow>
           if operand_image (kcr_Meta karp) (ooc_KarpenterImage c) = []
           then Ret (Inl (EText ''karpenter image is not set''))
           else ocp_operand_body as c karp)"
  unfolding ocp_operand_Reconcile_def ocp_operand_body_def Let_def by (rule refl)

lemma applies_ocp_body:
  assumes "buildDeployment (ocp_operand_config c karp) (ocpOwnerRef karp) = Inr dep"
  shows "applies (ocp_operand_body as c karp) (ocp_operand_objects as c karp dep)"
proof -
  have "applies (ocp_operand_body as c karp) (ocp_operand_objects as c karp dep @ [])"
    unfolding ocp_operand_body_def ocp_operand_objects_def applyServiceAccount_def applyDeployment_def
      applyPodMonitor_def applyRoles_def applyRoleBindings_def applyClusterRoles_def
      applyClusterRoleBindings_def Let_def append_assoc
    by (simp only: assms sum.case) (intro apply_rules)
  then show ?thesis by simp
qed

lemma ocp_body_result: "runs (ocp_operand_body as c karp) tr y \<Longrightarrow> \<not> isl y \<longleftrightarrow> y = Inr 0"
  by (auto simp: ocp_operand_body_def runs_bindE Let_def)

lemma runs_ocp_operand:
  assumes "runs (ocp_operand_Reconcile as c) tr y"
  shows "\<exists>r t. tr = (Get Mgmt KKarpenter [] SingletonName, r) # t \<and>
    (case as_object Karpenters r of
       Inl e \<Rightarrow> t = [] \<and> y = (if IsNotFound e then Inr 0 else Inl e)
     | Inr karp \<Rightarrow>
         if operand_image (kcr_Meta karp) (ooc_KarpenterImage c) = [] then t = [] \<and> isl y
         else \<exists>dep. buildDeployment (ocp_operand_config c karp) (ocpOwnerRef karp) = Inr dep \<and>
           applied (ocp_operand_objects as c karp dep) t (y = Inr 0))"
proof -
  from assms obtain r t where tr: "tr = (Get Mgmt KKarpenter [] SingletonName, r) # t"
    and t: "runs (case as_object Karpenters r of
         Inl e \<Rightarrow> Ret (map_sum id (\<lambda>_. 0) (IgnoreNotFound e))
       | Inr karp \<Rightarrow>
           if operand_image (kcr_Meta karp) (ooc_KarpenterImage c) = []
           then Ret (Inl (EText ''karpenter image is not set''))
           else ocp_operand_body as c karp) t y"
    by (auto simp: ocp_operand_Reconcile_body c_get_def runs_Call_iff)
  have "\<exists>dep. buildDeployment (ocp_operand_config c karp) (ocpOwnerRef karp) = Inr dep \<and>
      applied (ocp_operand_objects as c karp dep) t (y = Inr 0)" if "runs (ocp_operand_body as c karp) t y" for karp
  proof -
    obtain dep where dep: "buildDeployment (ocp_operand_config c karp) (ocpOwnerRef karp) = Inr dep"
      using buildDeployment_Inl [OF convertible_ocp, of c karp "ocpOwnerRef karp"]
      by (cases "buildDeployment (ocp_operand_config c karp) (ocpOwnerRef karp)")
        (auto simp: ocp_operand_config_def valid_uid_def)
    have "applied (ocp_operand_objects as c karp dep) t (\<not> isl y)"
      using applies_ocp_body [OF dep] that unfolding applies_def by blast
    with dep ocp_body_result [OF that] show ?thesis by (intro exI [of _ dep]) simp
  qed
  with t have "case as_object Karpenters r of
       Inl e \<Rightarrow> t = [] \<and> y = (if IsNotFound e then Inr 0 else Inl e)
     | Inr karp \<Rightarrow>
         if operand_image (kcr_Meta karp) (ooc_KarpenterImage c) = [] then t = [] \<and> isl y
         else \<exists>dep. buildDeployment (ocp_operand_config c karp) (ocpOwnerRef karp) = Inr dep \<and>
           applied (ocp_operand_objects as c karp dep) t (y = Inr 0)"
    by (cases "as_object Karpenters r") (auto simp: IgnoreNotFound_def split: if_splits)
  with tr show ?thesis by blast
qed

text \<open>C24: a run on a standalone cluster reads the Karpenter resource and, when it exists and an image is
  known, applies the ServiceAccount, the cluster roles and their bindings, the roles and their bindings, the
  Deployment and the PodMonitor, each list in its order, the core assets before those of the provider,
  stopping at the first refusal; it succeeds if and only if all of them were accepted.\<close>

theorem ocp_operand_applied:
  assumes "runs (ocp_operand_Reconcile as c) tr y"
  shows "\<exists>r t. tr = (Get Mgmt KKarpenter [] SingletonName, r) # t \<and>
    (case as_object Karpenters r of
       Inl e \<Rightarrow> t = [] \<and> y = (if IsNotFound e then Inr 0 else Inl e)
     | Inr karp \<Rightarrow>
         if operand_image (kcr_Meta karp) (ooc_KarpenterImage c) = [] then t = [] \<and> isl y
         else \<exists>dep. buildDeployment (ocp_operand_config c karp) (ocpOwnerRef karp) = Inr dep \<and>
           applied (ocp_operand_objects as c karp dep) t (y = Inr 0))"
  using assms by (rule runs_ocp_operand)


section \<open>Watches\<close>

text \<open>An update of a HostedControlPlane that the watch predicate drops makes no difference: with the
  name and UID of the object unchanged, the reconcile has the same runs after reading the old object as
  after reading the new one.\<close>

theorem hcp_operand_watch_complete:
  assumes "\<not> hcpOperandChanged old new"
    and "md_Name (hcp_Meta old) = md_Name (hcp_Meta new)" and "md_UID (hcp_Meta old) = md_UID (hcp_Meta new)"
  shows "runs (hcp_operand_Reconcile c ns n) ((q, RObj (OHostedControlPlane old)) # t) y \<longleftrightarrow>
         runs (hcp_operand_Reconcile c ns n) ((q, RObj (OHostedControlPlane new)) # t) y"
proof -
  have "hcp_operand_config c old = hcp_operand_config c new" "hcpOwnerRef old = hcpOwnerRef new"
    "operand_image (hcp_Meta old) (hoc_KarpenterImage c) = operand_image (hcp_Meta new) (hoc_KarpenterImage c)"
    "hcp_AutoNode old = hcp_AutoNode new"
    "rel_Version (cpv_Desired (hcp_ControlPlaneVersion old)) = rel_Version (cpv_Desired (hcp_ControlPlaneVersion new))"
    using assms
    by (simp_all add: hcpOperandChanged_def hcp_operand_config_def operand_image_def hcpOwnerRef_def Let_def)
  then show ?thesis
    by (simp add: hcp_operand_Reconcile_body hcp_operand_body_def c_get_def hcps.as_object_iff
        cong: if_cong split: if_split)
qed

lemma applied_calls:
  assumes "applied objs t ok"
  shows "\<exists>sent. map fst t = map apply_req sent \<and> set sent \<subseteq> set objs"
proof (cases ok)
  case True
  with assms show ?thesis by (auto simp: applied_def)
next
  case False
  with assms obtain pre x post v r where "objs = pre @ x # post" "t = v @ [(apply_req x, r)]"
    "map fst v = map apply_req pre"
    by (auto simp: applied_def)
  then have "map fst t = map apply_req (pre @ [x]) \<and> set (pre @ [x]) \<subseteq> set objs" by auto
  then show ?thesis by blast
qed

lemma applied_mem:
  assumes "applied objs t ok" and "(q, r) \<in> set t"
  shows "\<exists>x\<in>set objs. q = apply_req x"
proof -
  from applied_calls [OF assms(1)] obtain sent where "map fst t = map apply_req sent" "set sent \<subseteq> set objs"
    by blast
  moreover from assms(2) have "q \<in> set (map fst t)" by force
  ultimately show ?thesis by auto
qed

text \<open>An object is watched: by the filtered watch on objects owned by the HostedControlPlane, or by the
  watches of the standalone controller, on objects owned by the Karpenter resource and on the cluster roles
  and bindings it manages.\<close>

fun hcp_watched :: "hosted_control_plane \<Rightarrow> apply_config \<Rightarrow> bool" where
  "hcp_watched hcp (ApplyServiceAccount _ name owner) \<longleftrightarrow> karpenterFilterPredicate name \<and> owner = hcpOwnerRef hcp"
| "hcp_watched hcp (ApplyDeployment d) \<longleftrightarrow>
     karpenterFilterPredicate (dac_Name d) \<and> dac_OwnerReferences d = [hcpOwnerRef hcp]"
| "hcp_watched hcp (ApplyPodMonitor m) \<longleftrightarrow>
     karpenterFilterPredicate (pma_Name m) \<and> pma_OwnerReferences m = [hcpOwnerRef hcp]"
| "hcp_watched hcp _ \<longleftrightarrow> False"

fun ocp_watched :: "embedded_assets \<Rightarrow> ocp_operand_controller \<Rightarrow> karpenter_cr \<Rightarrow> apply_config \<Rightarrow> bool" where
  "ocp_watched as c karp (ApplyServiceAccount _ _ owner) \<longleftrightarrow> owner = ocpOwnerRef karp"
| "ocp_watched as c karp (ApplyDeployment d) \<longleftrightarrow> dac_OwnerReferences d = [ocpOwnerRef karp]"
| "ocp_watched as c karp (ApplyPodMonitor m) \<longleftrightarrow> pma_OwnerReferences m = [ocpOwnerRef karp]"
| "ocp_watched as c karp (ApplyRole _ _ owner _) \<longleftrightarrow> owner = ocpOwnerRef karp"
| "ocp_watched as c karp (ApplyRoleBinding _ _ owner _ _) \<longleftrightarrow> owner = ocpOwnerRef karp"
| "ocp_watched as c karp (ApplyClusterRole name _ _ _) \<longleftrightarrow> ocp_clusterRole_requests as c name = [([], SingletonName)]"
| "ocp_watched as c karp (ApplyClusterRoleBinding name _ _ _) \<longleftrightarrow>
     ocp_clusterRoleBinding_requests as c name = [([], SingletonName)]"
| "ocp_watched as c karp _ \<longleftrightarrow> False"

lemma hcp_objects_watched:
  assumes run: "runs (hcp_operand_Reconcile c ns n) ((q, RObj (OHostedControlPlane hcp)) # t) y"
    and "valid_uid (hoc_DefaultSecurityContextUID c)" and "(q', r) \<in> set t"
  shows "\<exists>d. \<exists>x\<in>set (hcp_operand_objects c hcp d). q' = apply_req x \<and> dac_Namespace d = hoc_Namespace c \<and> hcp_watched hcp x"
proof -
  have "hcp_watched hcp x \<and> dac_Namespace d = hoc_Namespace c"
    if "buildDeployment (hcp_operand_config c hcp) (hcpOwnerRef hcp) = Inr d" "x \<in> set (hcp_operand_objects c hcp d)" for d x
    using that(2) buildDeployment_Inr [OF convertible_hcp that(1)]
    by (auto simp: hcp_operand_objects_def karpenterFilterPredicate_def buildPodMonitor_def hcp_operand_config_def)
  with runs_hcp_operand [OF run assms(2)] assms(3) show ?thesis
    by (force simp: hcps.as_object_iff split: if_splits dest!: applied_mem)
qed

lemma ocp_objects_watched:
  assumes run: "runs (ocp_operand_Reconcile as c) ((q, RObj (OKarpenter karp)) # t) y" and "(q', r) \<in> set t"
  shows "\<exists>x. q' = apply_req x \<and> ocp_watched as c karp x"
proof -
  have "ocp_watched as c karp x"
    if "buildDeployment (ocp_operand_config c karp) (ocpOwnerRef karp) = Inr d"
      "x \<in> set (ocp_operand_objects as c karp d)" for d x
    using that(2) buildDeployment_Inr [OF convertible_ocp that(1)]
    by (auto simp: ocp_operand_objects_def buildPodMonitor_def ocp_clusterRole_requests_def
        ocp_clusterRoleBinding_requests_def ocp_reconcileRequest_def Let_def)
  with runs_ocp_operand [OF run] assms(2) show ?thesis
    by (auto simp: karpenters.as_object_iff split: if_splits dest!: applied_mem)
qed

text \<open>Whatever the operand controllers apply is watched, so that a manual change of it triggers a new
  reconcile: every object applied on a management cluster passes the name filter and is controlled by the
  HostedControlPlane that was read, and every object applied on a standalone cluster is controlled by the
  Karpenter resource that was read, or is a cluster role or binding that the watch maps to a request.\<close>

theorem operand_objects_watched:
  assumes "valid_uid (hoc_DefaultSecurityContextUID c)"
  shows "(runs (hcp_operand_Reconcile c ns n) ((q, RObj (OHostedControlPlane hcp)) # t) y \<longrightarrow>
      (\<forall>(q, r)\<in>set t. \<exists>x. q = apply_req x \<and> hcp_watched hcp x)) \<and>
    (runs (ocp_operand_Reconcile as c') ((q', RObj (OKarpenter karp)) # t') y' \<longrightarrow>
      (\<forall>(q, r)\<in>set t'. \<exists>x. q = apply_req x \<and> ocp_watched as c' karp x))"
  using hcp_objects_watched [OF _ assms] ocp_objects_watched by fast


section \<open>Examples\<close>

abbreviation operand_aws :: cloud_provider where
  "operand_aws \<equiv> AWS \<lparr>aws_region = ''us-east-1'', aws_infraName = ''c'', aws_clusterEndpoint = ''e'',
     aws_karpenterImage = ''k''\<rparr>"

definition example_operand :: hcp_operand_controller where
  "example_operand =
     \<lparr>hoc_Namespace = ''ns'', hoc_KarpenterImage = ''k'', hoc_ClusterName = ''c'', hoc_ClusterEndpoint = ''e'',
      hoc_CloudProvider = operand_aws, hoc_TokenMinterImage = ''m'', hoc_DefaultSecurityContextUID = Some 1001\<rparr>"

definition example_karpenter_hcp :: hosted_control_plane where
  "example_karpenter_hcp = (new_hcp ''ns'' ''h'')
     \<lparr>hcp_AutoNode := (hcp_AutoNode (new_hcp ''ns'' ''h''))\<lparr>auto_ProvisionerName := ProvisionerKarpenter\<rparr>,
      hcp_ControlPlaneVersion := empty_control_plane_version\<lparr>cpv_Desired :=
        (cpv_Desired empty_control_plane_version)\<lparr>rel_Version := ''4.21.0''\<rparr>\<rparr>\<rparr>"

definition example_ocp :: ocp_operand_controller where
  "example_ocp =
     \<lparr>ooc_Namespace = ''ns'', ooc_KarpenterImage = ''k'', ooc_ClusterName = ''c'', ooc_ClusterEndpoint = ''e'',
      ooc_CloudProvider = operand_aws, ooc_imagePullPolicy = PullIfNotPresent\<rparr>"

definition example_assets :: embedded_assets where
  "example_assets =
     \<lparr>asset_CoreCRDs = [], asset_AWSCRDs = [], asset_AzureCRDs = [], asset_HCPAWSCRDs = [], asset_HCPAzureCRDs = [],
      asset_CoreRBAC = no_rbac\<lparr>rbac_ClusterRoles := [\<lparr>role_Name = ''core'', role_Labels = [], role_Rules = []\<rparr>]\<rparr>,
      asset_AWSRBAC = no_rbac\<lparr>rbac_ClusterRoles := [\<lparr>role_Name = ''aws'', role_Labels = [], role_Rules = []\<rparr>]\<rparr>\<rparr>"

definition example_karpenter :: karpenter_cr where
  "example_karpenter = \<lparr>kcr_Meta = new_meta [] SingletonName, kcr_LogLevel = []\<rparr>"

lemma example_operand_simps [simp]:
  "valid_uid (hoc_DefaultSecurityContextUID example_operand)"
  "auto_ProvisionerName (hcp_AutoNode example_karpenter_hcp) = ProvisionerKarpenter"
  "rel_Version (cpv_Desired (hcp_ControlPlaneVersion example_karpenter_hcp)) = ''4.21.0''"
  "operand_image (hcp_Meta example_karpenter_hcp) (hoc_KarpenterImage example_operand) = ''k''"
  "operand_image (kcr_Meta example_karpenter) (ooc_KarpenterImage example_ocp) = ''k''"
  by (simp_all add: example_operand_def example_karpenter_hcp_def example_ocp_def example_karpenter_def
      valid_uid_def operand_image_def map_get_def new_hcp_def)

lemma operand_deployment_wf_witness:
  "\<exists>d. buildDeployment (hcp_operand_config example_operand example_karpenter_hcp) (hcpOwnerRef example_karpenter_hcp)
     = Inr d \<and> deployment_wf d"
proof -
  obtain d where "buildDeployment (hcp_operand_config example_operand example_karpenter_hcp)
      (hcpOwnerRef example_karpenter_hcp) = Inr d"
    using buildDeployment_Inl [OF convertible_hcp, of example_operand example_karpenter_hcp]
    by (cases "buildDeployment (hcp_operand_config example_operand example_karpenter_hcp)
        (hcpOwnerRef example_karpenter_hcp)") (auto simp: hcp_operand_config_def)
  with operand_deployment_wf show ?thesis by blast
qed

lemma runs_hcp_example:
  "\<exists>t y. runs (hcp_operand_Reconcile example_operand ''ns'' ''h'')
     ((Get Mgmt KHostedControlPlane ''ns'' ''h'', RObj (OHostedControlPlane example_karpenter_hcp)) # t) y"
  using runs_exists [of "hcp_operand_body example_operand example_karpenter_hcp"]
  by (simp add: hcp_operand_Reconcile_body c_get_def hcps.as_object_iff)

lemma runs_ocp_example:
  "\<exists>t y. runs (ocp_operand_Reconcile example_assets example_ocp)
     ((Get Mgmt KKarpenter [] SingletonName, RObj (OKarpenter example_karpenter)) # t) y"
  using runs_exists [of "ocp_operand_body example_assets example_ocp example_karpenter"]
  by (simp add: ocp_operand_Reconcile_body c_get_def karpenters.as_object_iff)

lemma hcp_operand_applied_witness:
  "\<exists>dep t y. buildDeployment (hcp_operand_config example_operand example_karpenter_hcp)
       (hcpOwnerRef example_karpenter_hcp) = Inr dep \<and>
     applied (hcp_operand_objects example_operand example_karpenter_hcp dep) t (y = (Inr 0 :: goerr + result))"
proof -
  obtain t y where "runs (hcp_operand_Reconcile example_operand ''ns'' ''h'')
     ((Get Mgmt KHostedControlPlane ''ns'' ''h'', RObj (OHostedControlPlane example_karpenter_hcp)) # t) y"
    using runs_hcp_example by blast
  from hcp_operand_applied [OF this] show ?thesis by (simp add: hcps.as_object_iff) blast
qed

lemma ocp_operand_applied_witness:
  "\<exists>dep t y. buildDeployment (ocp_operand_config example_ocp example_karpenter)
       (ocpOwnerRef example_karpenter) = Inr dep \<and>
     applied (ocp_operand_objects example_assets example_ocp example_karpenter dep) t (y = (Inr 0 :: goerr + result))"
proof -
  obtain t y where "runs (ocp_operand_Reconcile example_assets example_ocp)
     ((Get Mgmt KKarpenter [] SingletonName, RObj (OKarpenter example_karpenter)) # t) y"
    using runs_ocp_example by blast
  from ocp_operand_applied [OF this] show ?thesis by (simp add: karpenters.as_object_iff) blast
qed

lemma operand_objects_watched_witness:
  "\<exists>t y. runs (hcp_operand_Reconcile example_operand ''ns'' ''h'')
     ((Get Mgmt KHostedControlPlane ''ns'' ''h'', RObj (OHostedControlPlane example_karpenter_hcp)) # t) y \<and>
     list_all (\<lambda>(q, r). \<exists>x. q = apply_req x \<and> hcp_watched example_karpenter_hcp x) t"
proof -
  obtain t y where r: "runs (hcp_operand_Reconcile example_operand ''ns'' ''h'')
     ((Get Mgmt KHostedControlPlane ''ns'' ''h'', RObj (OHostedControlPlane example_karpenter_hcp)) # t) y"
    using runs_hcp_example by blast
  moreover have "\<forall>(q, r)\<in>set t. \<exists>x. q = apply_req x \<and> hcp_watched example_karpenter_hcp x"
    using conjunct1 [OF operand_objects_watched, of example_operand] r by simp
  ultimately show ?thesis unfolding list_all_iff by (intro exI conjI)
qed

lemma hcp_operand_watch_complete_witness:
  "\<forall>q t y. runs (hcp_operand_Reconcile example_operand ''ns'' ''h'')
       ((q, RObj (OHostedControlPlane example_karpenter_hcp)) # t) y =
     runs (hcp_operand_Reconcile example_operand ''ns'' ''h'')
       ((q, RObj (OHostedControlPlane (example_karpenter_hcp\<lparr>hcp_AWS := Some []\<rparr>))) # t) y"
  by (intro allI hcp_operand_watch_complete) (simp_all add: hcpOperandChanged_def)

end
