(* ===== verification/Strconv.thy ===== *)
theory Strconv
  imports Prelude "HOL-Library.Word"
begin

text \<open>
  The parsers of Go's \<^verbatim>\<open>strconv\<close> that the operator reads its environment with:
  \<^verbatim>\<open>ParseBool\<close>, and \<^verbatim>\<open>ParseInt(s, 10, 64)\<close> on 64-bit words with
  the overflow checks the library makes. The second half relates the integer parser to the decimal
  value of the text and to the printer \<open>Itoa\<close>.
\<close>


section \<open>The parsers\<close>

datatype num_error = ErrSyntax | ErrRange

definition strconv_error :: "string \<Rightarrow> string \<Rightarrow> num_error \<Rightarrow> goerr" where
  "strconv_error fn s e = EText (''strconv.'' @ fn @ '': parsing '' @ [CHR 0x22] @ s @ [CHR 0x22] @ '': '' @
     (case e of ErrSyntax \<Rightarrow> ''invalid syntax'' | ErrRange \<Rightarrow> ''value out of range''))"

definition ParseBool :: "string \<Rightarrow> goerr + bool" where
  "ParseBool s =
     (if s \<in> {''1'', ''t'', ''T'', ''TRUE'', ''true'', ''True''} then Inr True
      else if s \<in> {''0'', ''f'', ''F'', ''FALSE'', ''false'', ''False''} then Inr False
      else Inl (strconv_error ''ParseBool'' s ErrSyntax))"

text \<open>The loop of \<^verbatim>\<open>ParseUint\<close> in base 10: the cutoff is the smallest number whose tenfold does
  not fit, and the addition is checked for a wrap-around.\<close>

definition uint_cutoff :: "64 word" where
  "uint_cutoff = 0xFFFFFFFFFFFFFFFF div 10 + 1"

fun parse_uint_loop :: "64 word \<Rightarrow> string \<Rightarrow> num_error + 64 word" where
  "parse_uint_loop n [] = Inr n"
| "parse_uint_loop n (c # cs) =
     (if \<not> is_digit c then Inl ErrSyntax
      else if uint_cutoff \<le> n then Inl ErrRange
      else let n = n * 10; n1 = n + of_nat (digit_value c) in
        if n1 < n then Inl ErrRange else parse_uint_loop n1 cs)"

definition ParseUint :: "string \<Rightarrow> num_error + 64 word" where
  "ParseUint s = (if s = [] then Inl ErrSyntax else parse_uint_loop 0 s)"

text \<open>The sign is taken off first; the magnitude is compared with \<open>2 ^ 63\<close>.\<close>

definition int_cutoff :: "64 word" where
  "int_cutoff = push_bit 63 1"

definition parse_signed :: "bool \<Rightarrow> string \<Rightarrow> num_error + int" where
  "parse_signed neg digits =
     (case ParseUint digits of
        Inl e \<Rightarrow> Inl e
      | Inr un \<Rightarrow>
          if \<not> neg \<and> int_cutoff \<le> un then Inl ErrRange
          else if neg \<and> int_cutoff < un then Inl ErrRange
          else Inr (sint (if neg then - un else un)))"

fun signed_parts :: "string \<Rightarrow> bool \<times> string" where
  "signed_parts (c # cs) =
     (if c = CHR ''+'' then (False, cs) else if c = CHR ''-'' then (True, cs) else (False, c # cs))"
| "signed_parts [] = (False, [])"

definition ParseInt :: "string \<Rightarrow> goerr + int" where
  "ParseInt s =
     (if s = [] then Inl (strconv_error ''ParseInt'' s ErrSyntax)
      else case signed_parts s of (neg, digits) \<Rightarrow>
        map_sum (strconv_error ''ParseInt'' s) id (parse_signed neg digits))"


section \<open>The value of a text\<close>

definition dec_value :: "nat \<Rightarrow> string \<Rightarrow> nat" where
  "dec_value n s = foldl (\<lambda>n c. n * 10 + digit_value c) n s"

lemma dec_value_simps [simp]:
  "dec_value n [] = n" "dec_value n (c # cs) = dec_value (n * 10 + digit_value c) cs"
  "dec_value n (s @ t) = dec_value (dec_value n s) t"
  by (simp_all add: dec_value_def)

lemma dec_value_ge: "n \<le> dec_value n s"
proof (induction s arbitrary: n)
  case (Cons c s)
  from Cons.IH [of "n * 10 + digit_value c"] show ?case by simp
qed simp

lemma digit_bound: "is_digit c \<Longrightarrow> digit_value c < 10"
  unfolding is_digit_def digit_value_def by linarith

text \<open>The loop computes the value, and reports a range error exactly when it does not fit; a character
  that is not a digit is found first only if the digits before it fit.\<close>

lemma unat_cutoff: "unat uint_cutoff = 1844674407370955162"
  by (simp add: uint_cutoff_def unat_div)

lemma uint_step:
  assumes "n < uint_cutoff" and "d < 10"
  shows "unat (n * 10) = unat n * 10" and
    "n * 10 + of_nat d < n * 10 \<longleftrightarrow> 2 ^ 64 \<le> unat n * 10 + d" and
    "unat n * 10 + d < 2 ^ 64 \<Longrightarrow> unat (n * 10 + of_nat d) = unat n * 10 + d"
proof -
  have n: "unat n < 1844674407370955162"
    using assms(1) unat_cutoff by (simp add: word_less_nat_alt)
  have ten: "unat (n * 10) = unat n * 10"
    by (subst unat_mult_lem [THEN iffD1]) (use n in simp_all)
  have d: "unat (of_nat d :: 64 word) = d"
    using assms(2) by (simp add: unat_of_nat)
  show "unat (n * 10) = unat n * 10" by (rule ten)
  have sum: "unat (n * 10 + of_nat d) = (unat n * 10 + d) mod 2 ^ 64"
    by (simp add: unat_word_ariths(1) ten d)
  then show "unat n * 10 + d < 2 ^ 64 \<Longrightarrow> unat (n * 10 + of_nat d) = unat n * 10 + d" by simp
  show "n * 10 + of_nat d < n * 10 \<longleftrightarrow> 2 ^ 64 \<le> unat n * 10 + d"
    using n assms(2) unfolding word_less_nat_alt sum ten
    by (cases "2 ^ 64 \<le> unat n * 10 + d") (auto simp: mod_if)
qed


lemma parse_uint_loop_Inr:
  "parse_uint_loop n s = Inr u \<longleftrightarrow> list_all is_digit s \<and> dec_value (unat n) s < 2 ^ 64 \<and> unat u = dec_value (unat n) s"
proof (induction s arbitrary: n)
  case Nil
  show ?case using unsigned_less [of n] by (auto simp: word_unat_eq_iff [symmetric])
next
  case (Cons c s)
  show ?case
  proof (cases "is_digit c \<and> n < uint_cutoff")
    case False
    have "2 ^ 64 \<le> dec_value (unat n) (c # s)" if "uint_cutoff \<le> n"
    proof -
      have "2 ^ 64 \<le> unat n * 10 + digit_value c"
        using that unat_cutoff by (simp add: word_le_nat_alt)
      also have "\<dots> \<le> dec_value (unat n) (c # s)" using dec_value_ge by simp
      finally show ?thesis .
    qed
    with False show ?thesis by (auto simp: not_less)
  next
    case True
    then have d: "digit_value c < 10" and n: "n < uint_cutoff" by (auto simp: digit_bound)
    have ge: "2 ^ 64 \<le> dec_value (unat n) (c # s)" if "2 ^ 64 \<le> unat n * 10 + digit_value c"
      using that dec_value_ge [of "unat n * 10 + digit_value c" s] by simp
    show ?thesis
    proof (cases "2 ^ 64 \<le> unat n * 10 + digit_value c")
      case True
      with uint_step(2) [OF n d] ge \<open>is_digit c \<and> n < uint_cutoff\<close> show ?thesis by (simp add: Let_def not_le)
    next
      case False
      with uint_step(2,3) [OF n d] \<open>is_digit c \<and> n < uint_cutoff\<close> show ?thesis
        by (simp add: Let_def Cons.IH not_le [symmetric])
    qed
  qed
qed

lemma ParseUint_Inr:
  "ParseUint s = Inr u \<longleftrightarrow> s \<noteq> [] \<and> list_all is_digit s \<and> dec_value 0 s < 2 ^ 64 \<and> unat u = dec_value 0 s"
  by (simp add: ParseUint_def parse_uint_loop_Inr)

lemma unat_int_cutoff: "unat int_cutoff = 2 ^ 63"
  by (simp add: int_cutoff_def push_bit_eq_mult)

definition is_int64 :: "int \<Rightarrow> bool" where
  "is_int64 i \<longleftrightarrow> - (2 ^ 63) \<le> i \<and> i < 2 ^ 63"

lemma sint_int64: "is_int64 i \<Longrightarrow> sint (word_of_int i :: 64 word) = i"
  by (simp add: is_int64_def signed_take_bit_int_eq_self sint_sbintrunc')

lemma word_of_unat: "u = word_of_int (int (unat u))" for u :: "64 word"
  by simp

lemma sint_positive:
  assumes "unat (u :: 64 word) < 2 ^ 63"
  shows "sint u = int (unat u)"
proof -
  from assms have "int (unat u) < int (2 ^ 63)" by (simp only: of_nat_less_iff)
  then have "is_int64 (int (unat u))" by (simp add: is_int64_def order.trans [OF _ uint_nonnegative])
  from sint_int64 [OF this] show ?thesis by simp
qed

lemma sint_negative:
  assumes "unat (u :: 64 word) \<le> 2 ^ 63"
  shows "sint (- u) = - int (unat u)"
proof -
  from assms have "int (unat u) \<le> int (2 ^ 63)" by (simp only: of_nat_le_iff)
  then have "is_int64 (- int (unat u))" 
    by (simp add: is_int64_def) (use uint_ge_0 [of u] in linarith)
  from sint_int64 [OF this] show ?thesis by (simp add: wi_hom_neg [symmetric])
qed

text \<open>The decimal texts of the integers, with an optional sign.\<close>

definition int_value :: "string \<Rightarrow> int option" where
  "int_value s =
     (case signed_parts s of (neg, digits) \<Rightarrow>
        if digits \<noteq> [] \<and> list_all is_digit digits
        then Some (if neg then - int (dec_value 0 digits) else int (dec_value 0 digits)) else None)"

lemma parse_signed_Inr:
  "parse_signed neg digits = Inr i \<longleftrightarrow> digits \<noteq> [] \<and> list_all is_digit digits \<and> is_int64 i \<and>
     i = (if neg then - int (dec_value 0 digits) else int (dec_value 0 digits))"
proof (cases "ParseUint digits")
  case (Inl e)
  have "\<not> dec_value 0 digits < 2 ^ 64" if "digits \<noteq> []" "list_all is_digit digits"
  proof
    assume "dec_value 0 digits < 2 ^ 64"
    then have "ParseUint digits = Inr (of_nat (dec_value 0 digits))"
      using that by (simp add: ParseUint_Inr unat_of_nat)
    with Inl show False by simp
  qed
  with Inl show ?thesis by (auto simp: parse_signed_def is_int64_def)
next
  case (Inr un)
  then have un: "digits \<noteq> []" "list_all is_digit digits" "unat un = dec_value 0 digits"
    by (auto simp: ParseUint_Inr)
  have le: "int_cutoff \<le> un \<longleftrightarrow> 2 ^ 63 \<le> unat un" "int_cutoff < un \<longleftrightarrow> 2 ^ 63 < unat un"
    by (simp_all add: word_le_nat_alt word_less_nat_alt unat_int_cutoff)
  show ?thesis
  proof (cases neg)
    case True
    with Inr un le show ?thesis
      by (auto simp: parse_signed_def sint_negative is_int64_def not_less)
  next
    case False
    with Inr un le show ?thesis
      by (auto simp: parse_signed_def sint_positive is_int64_def not_le)
  qed
qed

lemma ParseInt_Inr: "ParseInt s = Inr i \<longleftrightarrow> int_value s = Some i \<and> is_int64 i"
proof (cases s)
  case Nil
  then show ?thesis by (simp add: ParseInt_def int_value_def)
next
  case (Cons c cs)
  obtain neg digits where parts: "signed_parts s = (neg, digits)" by fastforce
  have "map_sum f id x = Inr i \<longleftrightarrow> x = Inr i" for f :: "num_error \<Rightarrow> goerr" and x by (cases x) auto
  with Cons parts show ?thesis
    by (auto simp: ParseInt_def int_value_def parse_signed_Inr)
qed


section \<open>Printing and parsing\<close>

lemma nat_dec_value: "dec_value 0 (nat_dec n) = n"
proof (induction n rule: nat_dec.induct)
  case (1 n)
  then show ?case by (subst nat_dec.simps) simp
qed

lemma signed_parts_digits: "list_all is_digit s \<Longrightarrow> signed_parts s = (False, s)"
  by (cases s) (auto simp: is_digit_def)

lemma int_value_Itoa: "int_value (Itoa i) = Some i"
  by (simp add: int_value_def Itoa_def signed_parts_digits nat_dec_digits nat_dec_value)

lemma ParseInt_Itoa: "is_int64 i \<Longrightarrow> ParseInt (Itoa i) = Inr i"
  by (simp add: ParseInt_Inr int_value_Itoa)

end
