(* ===== verification/Options.thy ===== *)
theory Options
  imports Strconv Operand_Properties
begin

text \<open>
  \<^verbatim>\<open>pkg/operator/options.go\<close>: the options of the operator process, the part of them
  that is read from the environment, and their validation; and the controller configuration of
  \<^verbatim>\<open>pkg/controllers/controllers.go\<close> that they are resolved into.
\<close>

record options =
  opt_Namespace :: string
  opt_ReleaseVersion :: string
  opt_ClusterName :: string
  opt_ClusterEndpoint :: string
  opt_Platform :: string
  opt_Region :: string
  opt_TargetKubeconfig :: string
  opt_ManagementCluster :: bool
  opt_TokenMinterImage :: string
  opt_DefaultSecurityContextUID :: "int option"
  opt_MetricsAddr :: string
  opt_ProbeAddr :: string
  opt_LeaderElect :: bool


section \<open>The environment\<close>

definition ParseManagementClusterEnv :: "environ \<Rightarrow> goerr + bool" where
  "ParseManagementClusterEnv env =
     (let v = env ''MANAGEMENT_CLUSTER'' in
      if v = [] then Inr False
      else case ParseBool v of
        Inl e \<Rightarrow> Inl (EWrap (''invalid MANAGEMENT_CLUSTER value '' @ [CHR 0x22] @ v @ [CHR 0x22] @ '': '') e [])
      | Inr b \<Rightarrow> Inr b)"

definition parseSecurityContextUID :: "environ \<Rightarrow> goerr + int option" where
  "parseSecurityContextUID env =
     (let v = env ''DEFAULT_SECURITY_CONTEXT_UID'' in
      if v = [] then Inr None
      else case ParseInt v of
        Inl e \<Rightarrow> Inl (EWrap ''parsing security context UID: '' e [])
      | Inr uid \<Rightarrow> Inr (Some uid))"

text \<open>The method updates its receiver also when it fails; the second component is the returned
  error.\<close>

definition LoadEnv :: "environ \<Rightarrow> options \<Rightarrow> options \<times> goerr option" where
  "LoadEnv env o0 =
     (let o1 = o0\<lparr>opt_ReleaseVersion := env ''RELEASE_VERSION'', opt_ClusterName := env ''CLUSTER_NAME'',
        opt_ClusterEndpoint := env ''CLUSTER_ENDPOINT'', opt_Platform := env ''PLATFORM'',
        opt_Region := env ''REGION'', opt_TokenMinterImage := env ''TOKEN_MINTER_IMAGE''\<rparr> in
      case ParseManagementClusterEnv env of
        Inl e \<Rightarrow> (o1\<lparr>opt_ManagementCluster := False\<rparr>, Some e)
      | Inr b \<Rightarrow>
          (let o2 = o1\<lparr>opt_ManagementCluster := b\<rparr> in
           case parseSecurityContextUID env of
             Inl e \<Rightarrow> (o2\<lparr>opt_DefaultSecurityContextUID := None\<rparr>,
               Some (EWrap ''loading DEFAULT_SECURITY_CONTEXT_UID: '' e []))
           | Inr uid \<Rightarrow> (o2\<lparr>opt_DefaultSecurityContextUID := uid\<rparr>, None)))"


section \<open>Validation\<close>

text \<open>\<^verbatim>\<open>if v == "" { missing = append(missing, name) }\<close>\<close>

definition require :: "string \<Rightarrow> string \<Rightarrow> string list \<Rightarrow> string list" where
  "require v name missing = (if v = [] then missing @ [name] else missing)"

definition Validate :: "options \<Rightarrow> goerr option" where
  "Validate opts =
     (if (case opt_DefaultSecurityContextUID opts of None \<Rightarrow> 1 | Some u \<Rightarrow> u) \<le> 0
      then Some (EText ''DEFAULT_SECURITY_CONTEXT_UID must be a positive non-root UID'')
      else let missing = require (opt_Namespace opts) ''--namespace'' [];
        missing =
          (if opt_ManagementCluster opts
           then let
             missing = require (opt_TargetKubeconfig opts) ''--target-kubeconfig'' missing;
             missing = require (opt_ClusterName opts) ''CLUSTER_NAME'' missing;
             missing = require (opt_ClusterEndpoint opts) ''CLUSTER_ENDPOINT'' missing;
             missing = require (opt_Platform opts) ''PLATFORM'' missing;
             missing = require (opt_Region opts) ''REGION'' missing
             in require (opt_TokenMinterImage opts) ''TOKEN_MINTER_IMAGE'' missing
           else missing)
      in if missing \<noteq> [] then Some (EText (''required configuration not set: '' @ Join missing '', '')) else None)"


section \<open>The controller configuration\<close>

record controllers_config =
  cc_Namespace :: string
  cc_KarpenterImage :: string
  cc_ClusterName :: string
  cc_ClusterEndpoint :: string
  cc_ReleaseVersion :: string
  cc_ManagementCluster :: bool
  cc_CloudProvider :: cloud_provider
  cc_HostedCluster :: bool   \<comment> \<open>the hosted cluster is configured\<close>
  cc_TokenMinterImage :: string
  cc_DefaultSecurityContextUID :: "int option"

definition ResolveControllerConfig :: "options \<Rightarrow> infrastructure_info \<Rightarrow> cloud_provider \<Rightarrow> controllers_config" where
  "ResolveControllerConfig opts infra provider =
     \<lparr>cc_Namespace = opt_Namespace opts, cc_KarpenterImage = KarpenterImage provider,
      cc_ClusterName = ii_InfraName infra, cc_ClusterEndpoint = ii_ClusterEndpoint infra,
      cc_ReleaseVersion = opt_ReleaseVersion opts, cc_ManagementCluster = opt_ManagementCluster opts,
      cc_CloudProvider = provider, cc_HostedCluster = False,
      cc_TokenMinterImage = opt_TokenMinterImage opts,
      cc_DefaultSecurityContextUID = opt_DefaultSecurityContextUID opts\<rparr>"


section \<open>Properties\<close>

text \<open>The settings a process needs, with their names in the message, in its order.\<close>

definition required_settings :: "options \<Rightarrow> (string \<times> string) list" where
  "required_settings opts =
     (''--namespace'', opt_Namespace opts) #
     (if opt_ManagementCluster opts
      then [(''--target-kubeconfig'', opt_TargetKubeconfig opts), (''CLUSTER_NAME'', opt_ClusterName opts),
        (''CLUSTER_ENDPOINT'', opt_ClusterEndpoint opts), (''PLATFORM'', opt_Platform opts),
        (''REGION'', opt_Region opts), (''TOKEN_MINTER_IMAGE'', opt_TokenMinterImage opts)]
      else [])"

definition unset :: "string \<Rightarrow> string \<Rightarrow> string list" where
  "unset n v = (if v = [] then [n] else [])"

lemma require_eq: "require v n missing = missing @ unset n v"
  by (simp add: require_def unset_def)

lemma filter_unset:
  "map fst (filter (\<lambda>(n, v). v = []) ((n, v) # xs)) = unset n v @ map fst (filter (\<lambda>(n, v). v = []) xs)"
  "map fst (filter (\<lambda>(n, v). v = []) ([] :: (string \<times> string) list)) = []"
  by (simp_all add: unset_def)

lemma Validate_eq: "Validate opts =
   (if \<not> valid_uid (opt_DefaultSecurityContextUID opts)
    then Some (EText ''DEFAULT_SECURITY_CONTEXT_UID must be a positive non-root UID'')
    else let missing = map fst (filter (\<lambda>(n, v). v = []) (required_settings opts)) in
      if missing = [] then None
      else Some (EText (''required configuration not set: '' @ Join missing '', '')))"
proof -
  have uid: "(case opt_DefaultSecurityContextUID opts of None \<Rightarrow> 1 | Some u \<Rightarrow> u) \<le> 0
      \<longleftrightarrow> \<not> valid_uid (opt_DefaultSecurityContextUID opts)"
    by (simp add: valid_uid_def not_less split: option.split)
  have swap: "(if \<not> b then x else y) = (if b then y else x)" for b and x y :: "goerr option" by simp
  show ?thesis
    unfolding Validate_def uid required_settings_def Let_def require_eq
    by (cases "opt_ManagementCluster opts")
      (simp_all only: if_True if_False filter_unset append_assoc append_Nil append_Nil2 swap)
qed

lemma Validate_None: "Validate opts = None \<longleftrightarrow>
   valid_uid (opt_DefaultSecurityContextUID opts) \<and> (\<forall>(n, v)\<in>set (required_settings opts). v \<noteq> [])"
  by (auto simp: Validate_eq Let_def filter_empty_conv)

text \<open>C31: validation accepts exactly the options with a positive UID, if one is given, and with every
  required setting: the namespace, and on a management cluster the kubeconfig, cluster name and endpoint,
  platform, region and token minter image. When settings are missing the error lists all of them, and only
  them, in order.\<close>

theorem validation_reports_missing:
  "(Validate opts = None \<longleftrightarrow> valid_uid (opt_DefaultSecurityContextUID opts) \<and>
      (\<forall>(n, v)\<in>set (required_settings opts). v \<noteq> [])) \<and>
   (valid_uid (opt_DefaultSecurityContextUID opts) \<longrightarrow> (\<exists>(n, v)\<in>set (required_settings opts). v = []) \<longrightarrow>
      Validate opts = Some (EText (''required configuration not set: '' @
        Join (map fst (filter (\<lambda>(n, v). v = []) (required_settings opts))) '', '')))"
  using Validate_None [of opts] by (auto simp: Validate_eq Let_def filter_empty_conv)

text \<open>The UID is read from the environment exactly when the variable holds a decimal integer that
  fits in 64 bits, and then its value is the one written: printing a 64-bit integer into the variable and
  parsing it gives the integer back. An unset variable leaves the UID unset; everything else is an error.\<close>

theorem security_context_uid_parsed:
  "(parseSecurityContextUID env = Inr (Some i) \<longleftrightarrow>
      int_value (env ''DEFAULT_SECURITY_CONTEXT_UID'') = Some i \<and> is_int64 i) \<and>
   (parseSecurityContextUID env = Inr None \<longleftrightarrow> env ''DEFAULT_SECURITY_CONTEXT_UID'' = []) \<and>
   (env ''DEFAULT_SECURITY_CONTEXT_UID'' = Itoa i \<and> is_int64 i \<longrightarrow> parseSecurityContextUID env = Inr (Some i))"
proof -
  have "int_value [] = None" by (simp add: int_value_def)
  moreover have "ParseInt [] \<noteq> Inr i" by (simp add: ParseInt_def)
  ultimately show ?thesis
    using ParseInt_Inr [of "env ''DEFAULT_SECURITY_CONTEXT_UID''"] ParseInt_Itoa [of i]
    by (auto simp: parseSecurityContextUID_def Let_def split: sum.splits)
qed

abbreviation example_options :: options where
  "example_options \<equiv>
     \<lparr>opt_Namespace = ''ns'', opt_ReleaseVersion = [], opt_ClusterName = ''c'', opt_ClusterEndpoint = ''e'',
      opt_Platform = ''AWS'', opt_Region = ''us-east-1'', opt_TargetKubeconfig = ''kubeconfig'',
      opt_ManagementCluster = True, opt_TokenMinterImage = ''m'', opt_DefaultSecurityContextUID = Some 1001,
      opt_MetricsAddr = [], opt_ProbeAddr = [], opt_LeaderElect = False\<rparr>"

lemma validation_reports_missing_witness:
  "Validate (example_options\<lparr>opt_Region := [], opt_Namespace := []\<rparr>) =
     Some (EText ''required configuration not set: --namespace, REGION'')"
  using validation_reports_missing [of "example_options\<lparr>opt_Region := [], opt_Namespace := []\<rparr>"]
  by (simp add: valid_uid_def required_settings_def)

lemma security_context_uid_parsed_witness:
  "parseSecurityContextUID (\<lambda>_. Itoa 1001) = Inr (Some 1001)"
  using security_context_uid_parsed [of "\<lambda>_. Itoa 1001" 1001] by (simp add: is_int64_def)

end
