(* ===== verification/Controllers.thy ===== *)
theory Controllers
  imports Options Default_Nodeclass Azure_Controller Azure_Vap Hcp_Deletion Autonode_Status Machine_Approver
    Crd_Controller Cluster_Operator
begin

text \<open>
  \<^verbatim>\<open>pkg/controllers/controllers.go\<close>: which controllers the operator runs, depending on
  the mode, on the platform and on whether a hosted cluster is configured; with the NodeClass support of
  the two providers (\<^verbatim>\<open>pkg/cloudprovider/aws/nodeclass.go\<close>,
  \<^verbatim>\<open>pkg/cloudprovider/azure/nodeclass.go\<close>). A controller is a constructor that holds
  its configuration; \<open>Reconcile_of\<close> is its handler as modelled in its own theory.
\<close>


section \<open>Providers of NodeClasses\<close>

datatype hcp_nodeclass_provider = HCPEC2 | HCPAzure string   \<comment> \<open>the VNET subnet\<close>

primrec HCPNodeClassProvider :: "cloud_provider \<Rightarrow> hcp_nodeclass_provider option" where
  "HCPNodeClassProvider (AWS p) = Some HCPEC2"
| "HCPNodeClassProvider (Azure p) = Some (HCPAzure (az_vnetSubnetID p))"

primrec hcp_CRDs :: "embedded_assets \<Rightarrow> hcp_nodeclass_provider \<Rightarrow> crd list" where
  "hcp_CRDs as HCPEC2 = asset_HCPAWSCRDs as"
| "hcp_CRDs as (HCPAzure v) = asset_HCPAzureCRDs as"

primrec NodeIdentityVerifier :: "cloud_provider \<Rightarrow> verifier option" where
  "NodeIdentityVerifier (AWS p) = Some aws_Verify"
| "NodeIdentityVerifier (Azure p) = None"


section \<open>The controllers\<close>

datatype operator_controller =
    CRDController target "crd list"
  | DefaultNodeClassController hcp_nodeclass_provider bool string
  | EC2NodeClassController string
  | AzureNodeClassController string
  | AzureVapController
  | HCPOperandController hcp_operand_controller
  | AutoNodeStatusController string
  | HCPDeletionController string
  | MachineApproverController verifier
  | OCPOperandController ocp_operand_controller
  | ClusterOperatorController co_config

fun controller_Name :: "operator_controller \<Rightarrow> string" where
  "controller_Name (CRDController _ _) = ''crd''"
| "controller_Name (DefaultNodeClassController _ _ _) = ''default-nodeclass''"
| "controller_Name (EC2NodeClassController _) = ''ec2-nodeclass''"
| "controller_Name (AzureNodeClassController _) = ''azure-nodeclass''"
| "controller_Name AzureVapController = ''azure-nodeclass-vap''"
| "controller_Name (HCPOperandController _) = ''karpenter''"
| "controller_Name (AutoNodeStatusController _) = ''autonode-status''"
| "controller_Name (HCPDeletionController _) = ''hcp-deletion''"
| "controller_Name (MachineApproverController _) = ''karpenter-machine-approver''"
| "controller_Name (OCPOperandController _) = ''karpenter''"
| "controller_Name (ClusterOperatorController _) = ''clusteroperator''"

primrec hcp_NewControllers :: "hcp_nodeclass_provider \<Rightarrow> string \<Rightarrow> operator_controller list" where
  "hcp_NewControllers HCPEC2 namespace = [EC2NodeClassController namespace]"
| "hcp_NewControllers (HCPAzure v) namespace = [AzureNodeClassController namespace, AzureVapController]"

definition newHCPNodeClassProvider :: "controllers_config \<Rightarrow> hcp_nodeclass_provider option" where
  "newHCPNodeClassProvider cfg =
     (if \<not> cc_ManagementCluster cfg \<or> \<not> cc_HostedCluster cfg then None
      else HCPNodeClassProvider (cc_CloudProvider cfg))"

definition karpenterCRDs ::
  "embedded_assets \<Rightarrow> controllers_config \<Rightarrow> hcp_nodeclass_provider option \<Rightarrow> crd list"
where
  "karpenterCRDs as cfg p =
     (let crds = asset_CoreCRDs as @ provider_CRDs as (cc_CloudProvider cfg) in
      case p of None \<Rightarrow> crds | Some p \<Rightarrow> crds @ hcp_CRDs as p)"

definition newMachineApproverController :: "controllers_config \<Rightarrow> operator_controller option" where
  "newMachineApproverController cfg =
     (if \<not> cc_HostedCluster cfg then None
      else map_option MachineApproverController (NodeIdentityVerifier (cc_CloudProvider cfg)))"

text \<open>\<^verbatim>\<open>NewController\<close> of the CRD controller picks the target cluster; \<open>env\<close> is the
  process environment that \<^verbatim>\<open>NewOCPController\<close> reads the pull policy from.\<close>

definition new_crd_controller :: "controllers_config \<Rightarrow> crd list \<Rightarrow> operator_controller" where
  "new_crd_controller cfg crds = CRDController (if cc_HostedCluster cfg then Hosted else Mgmt) crds"

definition hcp_operand_of :: "controllers_config \<Rightarrow> hcp_operand_controller" where
  "hcp_operand_of cfg =
     \<lparr>hoc_Namespace = cc_Namespace cfg, hoc_KarpenterImage = cc_KarpenterImage cfg,
      hoc_ClusterName = cc_ClusterName cfg, hoc_ClusterEndpoint = cc_ClusterEndpoint cfg,
      hoc_CloudProvider = cc_CloudProvider cfg, hoc_TokenMinterImage = cc_TokenMinterImage cfg,
      hoc_DefaultSecurityContextUID = cc_DefaultSecurityContextUID cfg\<rparr>"

definition NewOCPController :: "environ \<Rightarrow> controllers_config \<Rightarrow> ocp_operand_controller" where
  "NewOCPController env cfg =
     \<lparr>ooc_Namespace = cc_Namespace cfg, ooc_KarpenterImage = cc_KarpenterImage cfg,
      ooc_ClusterName = cc_ClusterName cfg, ooc_ClusterEndpoint = cc_ClusterEndpoint cfg,
      ooc_CloudProvider = cc_CloudProvider cfg, ooc_imagePullPolicy = operandImagePullPolicy env\<rparr>"

definition NewControllers :: "environ \<Rightarrow> embedded_assets \<Rightarrow> controllers_config \<Rightarrow> operator_controller list" where
  "NewControllers env as cfg =
     (let hcpNodeClassProvider = newHCPNodeClassProvider cfg;
          controllers = [new_crd_controller cfg (karpenterCRDs as cfg hcpNodeClassProvider)] in
      if cc_ManagementCluster cfg
      then let
        controllers = controllers @
          (case hcpNodeClassProvider of
             None \<Rightarrow> []
           | Some p \<Rightarrow> DefaultNodeClassController p (cc_HostedCluster cfg) (cc_Namespace cfg) #
               hcp_NewControllers p (cc_Namespace cfg));
        controllers = controllers @ [HCPOperandController (hcp_operand_of cfg)];
        controllers = controllers @
          (if cc_HostedCluster cfg
           then [AutoNodeStatusController (cc_Namespace cfg), HCPDeletionController (cc_Namespace cfg)] else [])
        in controllers @ (case newMachineApproverController cfg of None \<Rightarrow> [] | Some c \<Rightarrow> [c])
      else controllers @
        [OCPOperandController (NewOCPController env cfg),
         ClusterOperatorController
           \<lparr>cfg_Namespace = cc_Namespace cfg, cfg_ReleaseVersion = cc_ReleaseVersion cfg,
            cfg_AdditionalRelatedObjects = provider_RelatedObjects (cc_CloudProvider cfg),
            cfg_UnsupportedPlatform = None\<rparr>])"

text \<open>The handlers, with what they are given from outside: the time, the offset of a termination
  deadline, and the decoders of certificate requests.\<close>

record outside =
  out_now :: time
  out_offset :: int
  out_pem :: pem_decoder
  out_x509 :: x509_parser

fun Reconcile_of :: "outside \<Rightarrow> embedded_assets \<Rightarrow> operator_controller \<Rightarrow> string \<Rightarrow> string \<Rightarrow> result io" where
  "Reconcile_of out as (CRDController t crds) ns n = crd_Reconcile t crds"
| "Reconcile_of out as (DefaultNodeClassController p hosted namespace) ns n =
     (case p of
        HCPEC2 \<Rightarrow> default_Reconcile OpenshiftEC2NodeClasses (Some aws_DefaultNodeClass) hosted namespace
      | HCPAzure v \<Rightarrow>
          default_Reconcile OpenShiftAzureNodeClasses (Some (azure_DefaultNodeClass v)) hosted namespace)"
| "Reconcile_of out as (EC2NodeClassController namespace) ns n = ec2_Reconcile (out_now out) namespace ns n"
| "Reconcile_of out as (AzureNodeClassController namespace) ns n = azure_Reconcile (out_now out) namespace ns n"
| "Reconcile_of out as AzureVapController ns n = azure_vap_Reconcile"
| "Reconcile_of out as (HCPOperandController c) ns n = hcp_operand_Reconcile c ns n"
| "Reconcile_of out as (AutoNodeStatusController namespace) ns n = autonode_Reconcile namespace"
| "Reconcile_of out as (HCPDeletionController namespace) ns n = deletion_Reconcile (out_offset out) namespace"
| "Reconcile_of out as (MachineApproverController verify) ns n =
     machine_Reconcile verify (out_pem out) (out_x509 out) ns n"
| "Reconcile_of out as (OCPOperandController c) ns n = ocp_operand_Reconcile as c"
| "Reconcile_of out as (ClusterOperatorController c) ns n = co_Reconcile (out_now out) c"


section \<open>Which controllers run\<close>

text \<open>The controllers by mode: on a standalone cluster the CRD, operand and ClusterOperator
  controllers; on a management cluster the CRD and operand controllers, and with a hosted cluster the
  controllers of NodeClasses of the platform, of the AutoNode status and of the deletion, and the machine
  approver where the platform can verify identities. The names are distinct in every configuration, which
  the manager requires of its controllers.\<close>

theorem controllers_by_mode:
  "map controller_Name (NewControllers env as cfg) =
     (if \<not> cc_ManagementCluster cfg then [''crd'', ''karpenter'', ''clusteroperator'']
      else if \<not> cc_HostedCluster cfg then [''crd'', ''karpenter'']
      else (case cc_CloudProvider cfg of
          AWS _ \<Rightarrow> [''crd'', ''default-nodeclass'', ''ec2-nodeclass'', ''karpenter'', ''autonode-status'',
            ''hcp-deletion'', ''karpenter-machine-approver'']
        | Azure _ \<Rightarrow> [''crd'', ''default-nodeclass'', ''azure-nodeclass'', ''azure-nodeclass-vap'', ''karpenter'',
            ''autonode-status'', ''hcp-deletion''])) \<and>
   distinct (map controller_Name (NewControllers env as cfg))"
proof -
  have names: "map controller_Name (NewControllers env as cfg) =
     (if \<not> cc_ManagementCluster cfg then [''crd'', ''karpenter'', ''clusteroperator'']
      else if \<not> cc_HostedCluster cfg then [''crd'', ''karpenter'']
      else (case cc_CloudProvider cfg of
          AWS _ \<Rightarrow> [''crd'', ''default-nodeclass'', ''ec2-nodeclass'', ''karpenter'', ''autonode-status'',
            ''hcp-deletion'', ''karpenter-machine-approver'']
        | Azure _ \<Rightarrow> [''crd'', ''default-nodeclass'', ''azure-nodeclass'', ''azure-nodeclass-vap'', ''karpenter'',
            ''autonode-status'', ''hcp-deletion'']))" (is "?names = ?list")
    by (cases "cc_CloudProvider cfg")
      (simp_all add: NewControllers_def newHCPNodeClassProvider_def newMachineApproverController_def
        new_crd_controller_def Let_def)
  have "distinct ?list" by (cases "cc_CloudProvider cfg") simp_all
  then show ?thesis by (intro conjI names) (subst names)
qed

text \<open>The cluster a request goes to; none for the two other remote interfaces.\<close>

fun req_target :: "req \<Rightarrow> target option" where
  "req_target (Get t _ _ _) = Some t"
| "req_target (List t _ _ _) = Some t"
| "req_target (Create t _) = Some t"
| "req_target (Update t _) = Some t"
| "req_target (Patch t _ _ _) = Some t"
| "req_target (PatchStatus t _ _ _) = Some t"
| "req_target (Delete t _ _ _) = Some t"
| "req_target (Apply t _ _ _) = Some t"
| "req_target (UpdateApproval _) = Some Hosted"
| "req_target (DescribeInstances _) = None"
| "req_target (RegisterMetric _ _) = None"

abbreviation stays_home :: "(req, resp, 'a) prog \<Rightarrow> bool" where
  "stays_home \<equiv> confined (\<lambda>q. req_target q = Some Mgmt)"

lemma stays_home_calls:
  "stays_home (c_get Mgmt r ns n)" "stays_home (c_create Mgmt r a)" "stays_home (c_update Mgmt r a)"
  "stays_home (c_apply Mgmt owner force cfg)"
  by (simp_all add: call_defs confined_rules)

lemma stays_home_CreateOrUpdate: "stays_home (CreateOrUpdate Mgmt r a f)"
  unfolding CreateOrUpdate_def
  by (auto intro!: confined_rules stays_home_calls split: sum.split prod.split if_split simp: Let_def)

lemmas home_rules = confined_rules confined_forE stays_home_calls stays_home_CreateOrUpdate

lemmas operand_apply_defs =
  operand_apply_def applyServiceAccount_def applyRoles_def applyRoleBindings_def applyClusterRoles_def
  applyClusterRoleBindings_def applyDeployment_def applyPodMonitor_def

lemma stays_home_crd: "stays_home (crd_Reconcile Mgmt crds)"
  unfolding crd_Reconcile_def applyCRD_def by (intro home_rules)

lemma stays_home_hcp_operand: "stays_home (hcp_operand_Reconcile c ns n)"
  unfolding hcp_operand_Reconcile_def operand_apply_defs Let_def
  by (intro home_rules) (auto intro!: home_rules split: sum.split)

lemma stays_home_ocp_operand: "stays_home (ocp_operand_Reconcile as c)"
  unfolding ocp_operand_Reconcile_def operand_apply_defs Let_def
  by (intro home_rules) (auto intro!: home_rules split: sum.split)

lemma stays_home_co: "stays_home (co_Reconcile now cfg)"
  unfolding co_Reconcile_def operandConditions_def applyStatus_def
  by (auto intro!: home_rules split: sum.split option.split)

text \<open>C25: without a hosted cluster nothing reaches for one: every request that a controller of the
  operator issues, in any run, goes to the cluster the operator runs on. (The code passes a nil cluster to
  the controllers in this case, so a use of it would be a nil dereference.)\<close>

theorem no_hosted_cluster_no_hosted_request:
  assumes "\<not> cc_HostedCluster cfg" and "c \<in> set (NewControllers env as cfg)"
    and "runs (Reconcile_of out as c ns n) tr y" and "(q, r) \<in> set tr"
  shows "req_target q = Some Mgmt"
proof -
  have "stays_home (Reconcile_of out as c ns n)"
    using assms(1,2) stays_home_crd stays_home_hcp_operand stays_home_ocp_operand stays_home_co
    by (auto simp: NewControllers_def newHCPNodeClassProvider_def newMachineApproverController_def
        new_crd_controller_def Let_def split: if_splits)
  then show ?thesis using assms(3,4) by (rule confined_calls)
qed

lemma no_hosted_cluster_no_hosted_request_witness:
  "\<exists>cfg c tr y. \<not> cc_HostedCluster cfg \<and> c \<in> set (NewControllers (\<lambda>_. []) example_assets cfg) \<and>
     runs (Reconcile_of \<lparr>out_now = 0, out_offset = 0, out_pem = \<lambda>_. None, out_x509 = Inr\<rparr> example_assets c [] []) tr y \<and>
     list_all (\<lambda>(q, r). req_target q = Some Mgmt) tr"
proof -
  let ?out = "\<lparr>out_now = 0, out_offset = 0, out_pem = \<lambda>_. None, out_x509 = Inr\<rparr>"
  let ?cfg = "\<lparr>cc_Namespace = ''ns'', cc_KarpenterImage = ''k'', cc_ClusterName = ''c'', cc_ClusterEndpoint = ''e'',
    cc_ReleaseVersion = [], cc_ManagementCluster = False, cc_CloudProvider = operand_aws, cc_HostedCluster = False,
    cc_TokenMinterImage = [], cc_DefaultSecurityContextUID = None\<rparr>"
  let ?c = "OCPOperandController (NewOCPController (\<lambda>_. []) ?cfg)"
  have c: "\<not> cc_HostedCluster ?cfg" "?c \<in> set (NewControllers (\<lambda>_. []) example_assets ?cfg)"
    by (simp_all add: NewControllers_def Let_def)
  obtain tr y where r: "runs (Reconcile_of ?out example_assets ?c [] []) tr y"
    using runs_exists [of "Reconcile_of ?out example_assets ?c [] []"] by (elim exE)
  have "list_all (\<lambda>(q, r). req_target q = Some Mgmt) tr"
    using no_hosted_cluster_no_hosted_request [OF c r] by (auto simp: list_all_iff)
  with c r show ?thesis by (intro exI conjI)
qed

end
