(* ===== verification/Startup.thy ===== *)
theory Startup
  imports Controllers
begin

text \<open>
  \<^verbatim>\<open>pkg/operator/operator.go\<close>: what the operator process decides before it starts its
  manager: the infrastructure it runs on, whether the platform is supported, the cloud provider, and the
  controllers. It is the specification of the process in \<open>Operator_Run\<close>, which adds the calls of the
  libraries.
\<close>

definition discoverInfrastructureFromEnv :: "options \<Rightarrow> infrastructure_info" where
  "discoverInfrastructureFromEnv opts =
     \<lparr>ii_PlatformType = opt_Platform opts, ii_Region = opt_Region opts, ii_InfraName = opt_ClusterName opts,
      ii_ClusterEndpoint = opt_ClusterEndpoint opts\<rparr>"

definition infrastructure_of :: "infrastructure \<Rightarrow> goerr + infrastructure_info" where
  "infrastructure_of infra =
     (case inf_PlatformStatus infra of
        None \<Rightarrow> Inl (EText ''infrastructure status.platformStatus is nil'')
      | Some ps \<Rightarrow>
          if inf_InfrastructureName infra = []
          then Inl (EText ''infrastructure status.infrastructureName is empty'')
          else let region = (case plat_AWSRegion ps of None \<Rightarrow> [] | Some r \<Rightarrow> r) in
            Inr \<lparr>ii_PlatformType = plat_Type ps, ii_Region = region, ii_InfraName = inf_InfrastructureName infra,
              ii_ClusterEndpoint = inf_APIServerInternalURL infra\<rparr>)"

definition discoverInfrastructure :: "infrastructure_info io" where
  "discoverInfrastructure =
     bindE (wrapE ''getting Infrastructure CR: '' (c_get Mgmt Infrastructures [] ''cluster''))
       (\<lambda>infra. Ret (infrastructure_of infra))"

definition isPlatformSupported :: "bool \<Rightarrow> string \<Rightarrow> bool" where
  "isPlatformSupported managementCluster platform \<longleftrightarrow> managementCluster \<or> platform = AWSPlatformType"

text \<open>The values of the environment override the discovered ones.\<close>

definition override_infrastructure :: "options \<Rightarrow> infrastructure_info \<Rightarrow> infrastructure_info" where
  "override_infrastructure opts infra =
     (let infra = (if opt_ClusterName opts \<noteq> [] then infra\<lparr>ii_InfraName := opt_ClusterName opts\<rparr> else infra) in
      if opt_ClusterEndpoint opts \<noteq> [] then infra\<lparr>ii_ClusterEndpoint := opt_ClusterEndpoint opts\<rparr> else infra)"

text \<open>The configuration of the only controller on an unsupported platform.\<close>

definition reporter_config :: "options \<Rightarrow> string \<Rightarrow> co_config" where
  "reporter_config opts platform =
     \<lparr>cfg_Namespace = opt_Namespace opts, cfg_ReleaseVersion = opt_ReleaseVersion opts,
      cfg_AdditionalRelatedObjects = [], cfg_UnsupportedPlatform = Some platform\<rparr>"

datatype run_plan =
    ReportOnly operator_controller
  | RunOperator controllers_config "operator_controller list"

definition decide ::
  "(string \<Rightarrow> goerr option) \<Rightarrow> environ \<Rightarrow> embedded_assets \<Rightarrow> options \<Rightarrow> infrastructure_info \<Rightarrow> goerr + run_plan"
where
  "decide load env as opts infra =
     (if \<not> isPlatformSupported (opt_ManagementCluster opts) (ii_PlatformType infra)
      then Inr (ReportOnly (ClusterOperatorController (reporter_config opts (ii_PlatformType infra))))
      else case GetCloudProvider load env infra of
        Inl e \<Rightarrow> Inl (EWrap ''initializing cloud provider: '' e [])
      | Inr provider \<Rightarrow>
          let cfg = (ResolveControllerConfig opts infra provider)
                \<lparr>cc_HostedCluster := opt_TargetKubeconfig opts \<noteq> [] \<and> opt_ManagementCluster opts\<rparr>
          in Inr (RunOperator cfg (NewControllers env as cfg)))"

definition Run_plan ::
  "(string \<Rightarrow> goerr option) \<Rightarrow> environ \<Rightarrow> embedded_assets \<Rightarrow> options \<Rightarrow> run_plan io"
where
  "Run_plan load env as opts =
     bindE (if opt_ManagementCluster opts then Ret (Inr (discoverInfrastructureFromEnv opts))
            else wrapE ''discovering infrastructure: '' discoverInfrastructure) (\<lambda>discovered.
     Ret (decide load env as opts (override_infrastructure opts discovered)))"


section \<open>Properties\<close>

text \<open>C15: a management-cluster operator that passed validation asks no server what to run, has a hosted
  cluster, and takes cluster name and endpoint from its environment; and its operand controller can always
  build the Deployment: the UID it was given is positive, and the token minter image is set. (The
  environment was loaded and validated in this order by \<^verbatim>\<open>main\<close>.)\<close>

theorem validated_management_operator:
  assumes "Validate opts = None" and "opt_ManagementCluster opts"
    and "runs (Run_plan load env as opts) tr (Inr plan)"
  shows "tr = [] \<and> (\<exists>cfg. plan = RunOperator cfg (NewControllers env as cfg) \<and> cc_HostedCluster cfg \<and>
    cc_ClusterName cfg = opt_ClusterName opts \<and> cc_ClusterEndpoint cfg = opt_ClusterEndpoint opts \<and>
    (\<exists>c. HCPOperandController c \<in> set (NewControllers env as cfg)) \<and>
    (\<forall>c hcp ref. HCPOperandController c \<in> set (NewControllers env as cfg) \<longrightarrow>
       \<not> isl (buildDeployment (hcp_operand_config c hcp) ref) \<and> hoc_TokenMinterImage c \<noteq> []))"
proof -
  let ?infra = "override_infrastructure opts (discoverInfrastructureFromEnv opts)"
  from assms(1,2) have valid: "valid_uid (opt_DefaultSecurityContextUID opts)" "opt_TargetKubeconfig opts \<noteq> []"
    "opt_TokenMinterImage opts \<noteq> []"
    by (auto simp: Validate_None required_settings_def)
  obtain p where tr: "tr = []" and p: "GetCloudProvider load env ?infra = Inr p"
    and plan: "plan = (let cfg = (ResolveControllerConfig opts ?infra p)\<lparr>cc_HostedCluster := True\<rparr>
      in RunOperator cfg (NewControllers env as cfg))"
    using assms(2,3) valid
    by (auto simp: Run_plan_def decide_def isPlatformSupported_def Let_def split: sum.splits)
  define cfg where "cfg = (ResolveControllerConfig opts ?infra p)\<lparr>cc_HostedCluster := True\<rparr>"
  have hosted: "cc_HostedCluster cfg" "cc_ClusterName cfg = opt_ClusterName opts"
    "cc_ClusterEndpoint cfg = opt_ClusterEndpoint opts" "cc_ManagementCluster cfg"
    using assms(2) by (simp_all add: cfg_def ResolveControllerConfig_def override_infrastructure_def
      discoverInfrastructureFromEnv_def Let_def)
  have only: "HCPOperandController c \<in> set (NewControllers env as cfg) \<longleftrightarrow> c = hcp_operand_of cfg" for c
    using hosted by (cases "cc_CloudProvider cfg")
      (simp_all add: NewControllers_def newHCPNodeClassProvider_def newMachineApproverController_def
        new_crd_controller_def Let_def)
  have "\<not> isl (buildDeployment (hcp_operand_config (hcp_operand_of cfg) hcp) ref)" for hcp ref
    using buildDeployment_Inl [OF convertible_hcp, of "hcp_operand_of cfg" hcp ref] valid(1)
    by (cases "buildDeployment (hcp_operand_config (hcp_operand_of cfg) hcp) ref")
      (simp_all add: hcp_operand_of_def hcp_operand_config_def cfg_def ResolveControllerConfig_def)
  moreover have "hoc_TokenMinterImage (hcp_operand_of cfg) \<noteq> []"
    using valid(3) by (simp add: hcp_operand_of_def cfg_def ResolveControllerConfig_def)
  moreover have "plan = RunOperator cfg (NewControllers env as cfg)"
    using plan by (simp add: cfg_def Let_def)
  ultimately show ?thesis using tr hosted by (intro conjI exI [of _ cfg]) (simp_all add: only)
qed

text \<open>What the standalone operator reports and runs: the platform decides. On a platform other than AWS it
  only reports, and the ClusterOperator controller it runs then reads nothing of Karpenter and writes
  nothing but the ClusterOperator; on AWS it runs the three standalone controllers.\<close>

definition reports_only :: "operator_controller \<Rightarrow> bool" where
  "reports_only c \<longleftrightarrow> (\<forall>out as ns n tr y. runs (Reconcile_of out as c ns n) tr y \<longrightarrow>
     (\<forall>(q, r)\<in>set tr.
        q = Get Mgmt KClusterOperator [] clusterOperatorName \<or>
        q = Apply Mgmt fieldManager False (ApplyClusterOperator clusterOperatorName) \<or>
        (\<exists>cs v refs. q = Apply Mgmt fieldManager True (ApplyClusterOperatorStatus clusterOperatorName cs v refs))))"

lemma reports_only_reporter: "reports_only (ClusterOperatorController (reporter_config opts platform))"
proof -
  have "(q = Get Mgmt KClusterOperator [] clusterOperatorName \<or>
        q = Apply Mgmt fieldManager False (ApplyClusterOperator clusterOperatorName) \<or>
        (\<exists>cs v refs. q = Apply Mgmt fieldManager True (ApplyClusterOperatorStatus clusterOperatorName cs v refs)))"
    if "runs (co_Reconcile now (reporter_config opts platform)) tr y" "(q, r) \<in> set tr" for now tr y q r
    using that
    by (auto simp: co_Reconcile_def applyStatus_def reporter_config_def runs_rules)
  then show ?thesis unfolding reports_only_def Reconcile_of.simps by blast
qed

text \<open>A standalone operator decides by the platform of the Infrastructure resource, the only thing it
  reads: on a platform other than AWS it runs just a reporter, whose runs touch nothing but the
  ClusterOperator; on AWS it runs the three standalone controllers, without a hosted cluster, under the
  discovered cluster name and endpoint unless the environment overrides them.\<close>

theorem standalone_by_platform:
  assumes "\<not> opt_ManagementCluster opts" and "runs (Run_plan load env as opts) tr (Inr plan)"
  shows "\<exists>infra ps. tr = [(Get Mgmt KInfrastructure [] ''cluster'', RObj (OInfrastructure infra))] \<and>
    inf_PlatformStatus infra = Some ps \<and>
    (case plan of
       ReportOnly c \<Rightarrow> plat_Type ps \<noteq> AWSPlatformType \<and> reports_only c
     | RunOperator cfg cs \<Rightarrow> plat_Type ps = AWSPlatformType \<and> \<not> cc_HostedCluster cfg \<and>
         map controller_Name cs = [''crd'', ''karpenter'', ''clusteroperator''] \<and>
         cc_ClusterName cfg =
           (if opt_ClusterName opts \<noteq> [] then opt_ClusterName opts else inf_InfrastructureName infra) \<and>
         cc_ClusterEndpoint cfg =
           (if opt_ClusterEndpoint opts \<noteq> [] then opt_ClusterEndpoint opts else inf_APIServerInternalURL infra))"
proof -
  from assms obtain infra info where tr: "tr = [(Get Mgmt KInfrastructure [] ''cluster'', RObj (OInfrastructure infra))]"
    and info: "infrastructure_of infra = Inr info"
    and plan: "decide load env as opts (override_infrastructure opts info) = Inr plan"
    by (auto simp: Run_plan_def discoverInfrastructure_def runs_rules infrastructures.as_object_iff) metis
  obtain ps where ps: "inf_PlatformStatus infra = Some ps" and
    eq: "ii_PlatformType info = plat_Type ps" "ii_InfraName info = inf_InfrastructureName infra"
      "ii_ClusterEndpoint info = inf_APIServerInternalURL infra"
    using info by (auto simp: infrastructure_of_def Let_def split: option.splits if_splits)
  from plan eq have "case plan of
       ReportOnly c \<Rightarrow> plat_Type ps \<noteq> AWSPlatformType \<and> reports_only c
     | RunOperator cfg cs \<Rightarrow> plat_Type ps = AWSPlatformType \<and> \<not> cc_HostedCluster cfg \<and>
         map controller_Name cs = [''crd'', ''karpenter'', ''clusteroperator''] \<and>
         cc_ClusterName cfg =
           (if opt_ClusterName opts \<noteq> [] then opt_ClusterName opts else inf_InfrastructureName infra) \<and>
         cc_ClusterEndpoint cfg =
           (if opt_ClusterEndpoint opts \<noteq> [] then opt_ClusterEndpoint opts else inf_APIServerInternalURL infra)"
    using assms(1) reports_only_reporter
    by (auto simp: decide_def Let_def isPlatformSupported_def override_infrastructure_def ResolveControllerConfig_def
        NewControllers_def new_crd_controller_def split: sum.splits if_splits)
  with tr ps show ?thesis by blast
qed


section \<open>Examples\<close>

abbreviation example_env :: environ where
  "example_env \<equiv> (\<lambda>_. ''x'')"

abbreviation no_load_error :: "string \<Rightarrow> goerr option" where
  "no_load_error \<equiv> (\<lambda>_. None)"

lemma validated_management_operator_witness:
  "\<exists>cfg. runs (Run_plan no_load_error example_env example_assets example_options) []
       (Inr (RunOperator cfg (NewControllers example_env example_assets cfg))) \<and>
     cc_HostedCluster cfg \<and> (\<exists>c. HCPOperandController c \<in> set (NewControllers example_env example_assets cfg))"
proof -
  have v: "Validate example_options = None" "opt_ManagementCluster example_options"
    by (simp_all add: Validate_None valid_uid_def required_settings_def)
  have "\<exists>plan. runs (Run_plan no_load_error example_env example_assets example_options) [] (Inr plan)"
    by (simp add: Run_plan_def decide_def isPlatformSupported_def override_infrastructure_def
        discoverInfrastructureFromEnv_def GetCloudProvider_def aws_New_def RequireEnv_def Let_def)
  then obtain plan where r: "runs (Run_plan no_load_error example_env example_assets example_options) [] (Inr plan)"
    by blast
  from validated_management_operator [OF v r] obtain cfg where
    "plan = RunOperator cfg (NewControllers example_env example_assets cfg)" "cc_HostedCluster cfg"
    "\<exists>c. HCPOperandController c \<in> set (NewControllers example_env example_assets cfg)"
    by blast
  with r show ?thesis by blast
qed

abbreviation example_infrastructure :: "string \<Rightarrow> infrastructure" where
  "example_infrastructure platform \<equiv> \<lparr>inf_Meta = new_meta [] ''cluster'', inf_InfrastructureName = ''infra'',
     inf_APIServerInternalURL = ''url'',
     inf_PlatformStatus = Some \<lparr>plat_Type = platform, plat_AWSRegion = Some ''us-east-1''\<rparr>\<rparr>"

lemma standalone_by_platform_witness:
  "\<exists>c. runs (Run_plan no_load_error example_env example_assets (example_options\<lparr>opt_ManagementCluster := False\<rparr>))
       [(Get Mgmt KInfrastructure [] ''cluster'', RObj (OInfrastructure (example_infrastructure ''GCP'')))]
       (Inr (ReportOnly c)) \<and> reports_only c"
proof -
  have r: "runs (Run_plan no_load_error example_env example_assets (example_options\<lparr>opt_ManagementCluster := False\<rparr>))
       [(Get Mgmt KInfrastructure [] ''cluster'', RObj (OInfrastructure (example_infrastructure ''GCP'')))]
       (Inr (ReportOnly (ClusterOperatorController
         (reporter_config (example_options\<lparr>opt_ManagementCluster := False\<rparr>) ''GCP''))))"
    by (simp add: Run_plan_def discoverInfrastructure_def call_defs infrastructures.as_object_iff
        infrastructure_of_def decide_def isPlatformSupported_def override_infrastructure_def reporter_config_def Let_def)
  from standalone_by_platform [OF _ r] have "reports_only (ClusterOperatorController
         (reporter_config (example_options\<lparr>opt_ManagementCluster := False\<rparr>) ''GCP''))" by simp
  with r show ?thesis by blast
qed

end
