(* ===== verification/Operator_Metric.thy ===== *)
theory Operator_Metric
  imports Controllerutil
begin

text \<open>
  \<^verbatim>\<open>pkg/controllers/metrics.go\<close>: the info metric of the operator. The image of the
  running container is polled from the Pod until it is reported or 15 seconds have passed, and the whole
  set-up is retried up to five times by the vendored \<^verbatim>\<open>wait.ExponentialBackoffWithContext\<close>.
  Time is in milliseconds. How long a read takes, when the context is cancelled and how Go's
  \<^verbatim>\<open>select\<close> decides when deadline and timer fire together are parameters.
\<close>

abbreviation OperatorContainerName :: string where "OperatorContainerName \<equiv> ''karpenter-operator''"
abbreviation OperatorInfoMetricName :: string where "OperatorInfoMetricName \<equiv> ''karpenter_operator_info''"

definition reported_image :: "container_status list \<Rightarrow> string" where
  "reported_image statuses =
     (case find (\<lambda>s. cs_Name s = OperatorContainerName \<and> cs_Image s \<noteq> []) statuses of
        None \<Rightarrow> [] | Some s \<Rightarrow> cs_Image s)"

definition operatorImage :: "string \<Rightarrow> string \<Rightarrow> string io" where
  "operatorImage namespace podName =
     bindE (wrapE ''get operator pod: '' (c_get Mgmt Pods namespace podName))
       (\<lambda>pod. Ret (Inr (reported_image (pod_ContainerStatuses pod))))"


section \<open>Polling\<close>

record clock =
  ck_latency :: "nat \<Rightarrow> nat"      \<comment> \<open>what the \<open>i\<close>-th read takes\<close>
  ck_cancelled :: "nat \<Rightarrow> bool"   \<comment> \<open>the context of the caller is done when the \<open>i\<close>-th read returns\<close>
  ck_deadline_first :: bool        \<comment> \<open>which case of \<^verbatim>\<open>select\<close> is taken when both are ready\<close>

definition wait_timeout :: nat where "wait_timeout = 15000"
definition poll_interval :: nat where "poll_interval = 500"

text \<open>What the loop returns on the outcome of a read; \<open>None\<close> when it waits.\<close>

definition image_answer :: "goerr + string \<Rightarrow> (goerr + string) option" where
  "image_answer r =
     (case r of
        Inl e \<Rightarrow> if \<not> IsNotFound e then Some (Inl e) else None
      | Inr img \<Rightarrow> if img \<noteq> [] then Some (Inr img) else None)"

text \<open>The \<^verbatim>\<open>select\<close> at time \<open>t\<close>: the deadline comes before the timer.\<close>

definition context_done :: "clock \<Rightarrow> nat \<Rightarrow> nat \<Rightarrow> bool" where
  "context_done ck i t \<longleftrightarrow>
     ck_cancelled ck i \<or> wait_timeout < t + poll_interval \<or>
     (wait_timeout = t + poll_interval \<and> ck_deadline_first ck)"

definition image_unavailable :: "string \<Rightarrow> string \<Rightarrow> goerr" where
  "image_unavailable namespace podName =
     EWrap (''operator pod '' @ namespace @ ''/'' @ podName @ '' container status unavailable: '')
       (ESentinel ''context done'') []"

function wait_loop :: "clock \<Rightarrow> string \<Rightarrow> string \<Rightarrow> nat \<Rightarrow> nat \<Rightarrow> string io" where
  "wait_loop ck namespace podName i t =
     bind (operatorImage namespace podName) (\<lambda>r.
       case image_answer r of
         Some x \<Rightarrow> Ret x
       | None \<Rightarrow>
           if context_done ck i (t + ck_latency ck i)
           then Ret (Inl (image_unavailable namespace podName))
           else wait_loop ck namespace podName (Suc i) (t + ck_latency ck i + poll_interval))"
  by pat_completeness auto
termination
  by (relation "measure (\<lambda>(ck, ns, n, i, t). wait_timeout - t)")
    (auto simp: context_done_def wait_timeout_def poll_interval_def)

declare wait_loop.simps [simp del]

definition waitForOperatorImage :: "clock \<Rightarrow> string \<Rightarrow> string \<Rightarrow> string io" where
  "waitForOperatorImage ck namespace podName = wait_loop ck namespace podName 0 0"


section \<open>Set-up and retry\<close>

text \<open>\<open>go\<close> holds the version and architecture of the runtime.\<close>

definition setupOperatorInfoMetric ::
  "(string \<Rightarrow> string) \<Rightarrow> string \<times> string \<Rightarrow> clock \<Rightarrow> string \<Rightarrow> unit io"
where
  "setupOperatorInfoMetric env go ck namespace =
     (let podName = env ''POD_NAME'' in
      if podName = [] then Ret (Inl (EText ''POD_NAME is not set''))
      else bindE (wrapE ''read operator image: '' (waitForOperatorImage ck namespace podName)) (\<lambda>image.
        Call (RegisterMetric OperatorInfoMetricName
                [(''image'', image), (''go_version'', fst go), (''go_arch'', snd go)])
          (\<lambda>x. Ret (as_unit x))))"

abbreviation ErrWaitTimeout :: goerr where "ErrWaitTimeout \<equiv> ESentinel ''timed out waiting for the condition''"
abbreviation context_canceled :: goerr where "context_canceled \<equiv> ESentinel ''context canceled''"

text \<open>\<^verbatim>\<open>ExponentialBackoffWithContext\<close>: \<open>before k\<close> and \<open>during k\<close> say whether the
  context is done before attempt \<open>k\<close> and while waiting after it. A condition of the operator returns no
  error.\<close>

primrec backoff ::
  "(nat \<Rightarrow> bool) \<Rightarrow> (nat \<Rightarrow> bool) \<Rightarrow> (nat \<Rightarrow> (req, resp, bool) prog) \<Rightarrow> nat \<Rightarrow> nat \<Rightarrow> (req, resp, goerr option) prog"
where
  "backoff before during condition k 0 = Ret (Some ErrWaitTimeout)"
| "backoff before during condition k (Suc steps) =
     (if before k then Ret (Some context_canceled)
      else bind (condition k) (\<lambda>ok.
        if ok then Ret None
        else if steps = 0 then Ret (Some ErrWaitTimeout)
        else if during k then Ret (Some context_canceled)
        else backoff before during condition (Suc k) steps))"

definition setupOperatorInfoMetricWithRetry ::
  "(string \<Rightarrow> string) \<Rightarrow> string \<times> string \<Rightarrow> (nat \<Rightarrow> clock) \<Rightarrow> (nat \<Rightarrow> bool) \<Rightarrow> (nat \<Rightarrow> bool) \<Rightarrow> string \<Rightarrow>
   (req, resp, goerr option) prog"
where
  "setupOperatorInfoMetricWithRetry env go cks before during namespace =
     backoff before during
       (\<lambda>k. bind (setupOperatorInfoMetric env go (cks k) namespace) (\<lambda>r. Ret (\<not> isl r))) 0 5"


section \<open>Properties\<close>

text \<open>One poll of a Pod: the calls of the loop are reads, at most one per interval.\<close>

lemma operatorImage_eq:
  "operatorImage ns n = Call (Get Mgmt KPod ns n) (\<lambda>r. Ret
     (case as_object Pods r of Inl e \<Rightarrow> Inl (EWrap ''get operator pod: '' e [])
      | Inr p \<Rightarrow> Inr (reported_image (pod_ContainerStatuses p))))"
  by (simp add: operatorImage_def c_get_def fun_eq_iff split: sum.split)

lemma runs_operatorImage:
  "runs (operatorImage ns n) tr y \<longleftrightarrow>
     (\<exists>r. tr = [(Get Mgmt KPod ns n, r)] \<and>
       y = (case as_object Pods r of Inl e \<Rightarrow> Inl (EWrap ''get operator pod: '' e [])
            | Inr p \<Rightarrow> Inr (reported_image (pod_ContainerStatuses p))))"
  by (auto simp: operatorImage_eq runs_Call_iff)

text \<open>The Pod answer \<open>r\<close> reports the image \<open>img\<close>.\<close>

definition reports_image :: "string \<Rightarrow> resp \<Rightarrow> bool" where
  "reports_image img r \<longleftrightarrow>
     (\<exists>p. r = RObj (OPod p) \<and> reported_image (pod_ContainerStatuses p) = img \<and> img \<noteq> [])"

lemma image_answer_Inr:
  "image_answer r = Some (Inr img) \<longleftrightarrow> r = Inr img \<and> img \<noteq> []"
  by (auto simp: image_answer_def split: sum.splits)

lemma runs_wait_loop:
  assumes "runs (wait_loop ck ns n i t) tr y" and "t \<le> wait_timeout"
  shows "poll_interval * length tr + t \<le> wait_timeout + poll_interval \<and>
    list_all (\<lambda>(q, _). q = Get Mgmt KPod ns n) tr \<and>
    (\<forall>img. y = Inr img \<longrightarrow> tr \<noteq> [] \<and> reports_image img (snd (last tr)))"
  using assms
proof (induction ck ns n i t arbitrary: tr rule: wait_loop.induct)
  case (1 ck ns n i t)
  from "1.prems"(1) obtain r x u where tr: "tr = (Get Mgmt KPod ns n, r) # u"
    and x: "x = (case as_object Pods r of Inl e \<Rightarrow> Inl (EWrap ''get operator pod: '' e [])
      | Inr p \<Rightarrow> Inr (reported_image (pod_ContainerStatuses p)))"
    and u: "runs (case image_answer x of
         Some x \<Rightarrow> Ret x
       | None \<Rightarrow>
           if context_done ck i (t + ck_latency ck i)
           then Ret (Inl (image_unavailable ns n))
           else wait_loop ck ns n (Suc i) (t + ck_latency ck i + poll_interval)) u y"
    by (subst (asm) wait_loop.simps) (auto simp: runs_bind runs_operatorImage)
  show ?case
  proof (cases "image_answer x")
    case (Some z)
    with u have "u = []" "y = z" by auto
    with Some "1.prems"(2) tr x show ?thesis
      by (auto simp: image_answer_Inr reports_image_def pods.as_object_iff split: sum.splits)
  next
    case None
    show ?thesis
    proof (cases "context_done ck i (t + ck_latency ck i)")
      case True
      with None u "1.prems"(2) tr show ?thesis by simp
    next
      case False
      with None u have "runs (wait_loop ck ns n (Suc i) (t + ck_latency ck i + poll_interval)) u y"
        and "t + ck_latency ck i + poll_interval \<le> wait_timeout"
        by (auto simp: context_done_def)
      from "1.IH" [OF None False this] tr show ?thesis by auto
    qed
  qed
qed

text \<open>The whole set-up: at most 31 reads, and one registration, of the image read last.\<close>

definition registers :: "string \<times> string \<Rightarrow> string \<Rightarrow> req" where
  "registers go img = RegisterMetric OperatorInfoMetricName
     [(''image'', img), (''go_version'', fst go), (''go_arch'', snd go)]"

definition setup_trace :: "(string \<Rightarrow> string) \<Rightarrow> string \<times> string \<Rightarrow> string \<Rightarrow> (req \<times> resp) list \<Rightarrow> bool \<Rightarrow> bool" where
  "setup_trace env go ns tr ok \<longleftrightarrow>
     (\<exists>reads. length reads \<le> 31 \<and> list_all (\<lambda>(q, _). q = Get Mgmt KPod ns (env ''POD_NAME'')) reads \<and>
        (tr = reads \<and> \<not> ok \<or>
         (\<exists>img r. tr = reads @ [(registers go img, r)] \<and> reads \<noteq> [] \<and> reports_image img (snd (last reads)) \<and>
            (ok \<longleftrightarrow> \<not> isl (as_unit r)))))"

lemma runs_setup:
  assumes "runs (setupOperatorInfoMetric env go ck ns) tr y"
  shows "setup_trace env go ns tr (\<not> isl y)"
proof (cases "env ''POD_NAME'' = []")
  case True
  with assms have "tr = []" "isl y" by (auto simp: setupOperatorInfoMetric_def)
  then show ?thesis by (auto simp: setup_trace_def)
next
  case False
  let ?k = "\<lambda>img. Call (registers go img) (\<lambda>x. Ret (as_unit x))"
  have "setupOperatorInfoMetric env go ck ns =
      bindE (wrapE ''read operator image: '' (wait_loop ck ns (env ''POD_NAME'') 0 0)) ?k"
    using False by (simp add: setupOperatorInfoMetric_def waitForOperatorImage_def registers_def)
  with assms have "runs (bindE (wrapE ''read operator image: '' (wait_loop ck ns (env ''POD_NAME'') 0 0)) ?k) tr y"
    by simp
  then consider (failed) e where "runs (wait_loop ck ns (env ''POD_NAME'') 0 0) tr (Inl e)" "isl y"
    | (found) t img r where "tr = t @ [(registers go img, r)]"
      "runs (wait_loop ck ns (env ''POD_NAME'') 0 0) t (Inr img)" "y = as_unit r"
    unfolding runs_bindE runs_wrapE by (elim disjE exE conjE) (force simp: runs_Call_iff)+
  then show ?thesis
  proof cases
    case failed
    with runs_wait_loop [OF failed(1)] show ?thesis
      unfolding setup_trace_def by (intro exI [of _ tr]) (simp add: wait_timeout_def poll_interval_def)
  next
    case found
    with runs_wait_loop [OF found(2)] show ?thesis
      unfolding setup_trace_def
      by (intro exI [of _ t] conjI disjI2 exI [of _ img] exI [of _ r])
        (simp_all add: wait_timeout_def poll_interval_def)
  qed
qed

lemma runs_backoff:
  assumes "runs (backoff before during condition k n) tr y"
    and "\<And>k t ok. runs (condition k) t ok \<Longrightarrow> P t ok"
  shows "\<exists>ts. length ts \<le> n \<and> tr = concat ts \<and> (\<forall>t\<in>set (butlast ts). P t False) \<and>
    (if ts = [] then y \<noteq> None else P (last ts) (y = None))"
  using assms(1)
proof (induction n arbitrary: k tr)
  case 0
  then show ?case by (intro exI [of _ "[]"]) auto
next
  case (Suc n)
  show ?case
  proof (cases "before k")
    case True
    with Suc.prems show ?thesis by (intro exI [of _ "[]"]) auto
  next
    case False
    with Suc.prems obtain t u ok where tr: "tr = t @ u" and t: "runs (condition k) t ok"
      and u: "runs (if ok then Ret None else if n = 0 then Ret (Some ErrWaitTimeout)
        else if during k then Ret (Some context_canceled) else backoff before during condition (Suc k) n) u y"
      by (auto simp: runs_bind)
    show ?thesis
    proof (cases "ok \<or> n = 0 \<or> during k")
      case True
      with u have "u = []" "y = None \<longleftrightarrow> ok" by (auto split: if_splits)
      with tr assms(2) [OF t] show ?thesis by (intro exI [of _ "[t]"]) simp
    next
      case False
      with u have "runs (backoff before during condition (Suc k) n) u y" by simp
      from Suc.IH [OF this] obtain ts where ts: "length ts \<le> n" "u = concat ts"
        "\<forall>t\<in>set (butlast ts). P t False" "if ts = [] then y \<noteq> None else P (last ts) (y = None)"
        by blast
      have "P t False" using assms(2) [OF t] False by simp
      with ts tr show ?thesis by (intro exI [of _ "t # ts"]) (auto split: if_splits)
    qed
  qed
qed

text \<open>C26: the set-up of the info metric ends: it makes at most five attempts, each of at most 31 reads of
  the Pod (15 seconds at two a second) and one registration, so at most 160 calls whatever the servers
  answer and however long they take; what an attempt registers is the image that the last read reported; every
  attempt but the last has failed, and the set-up reports success exactly when the last one succeeded.\<close>

theorem metric_setup_bounded:
  assumes "runs (setupOperatorInfoMetricWithRetry env go cks before during namespace) tr y"
  shows "length tr \<le> 160 \<and> (\<exists>attempts. length attempts \<le> 5 \<and> tr = concat attempts \<and>
    (\<forall>t\<in>set (butlast attempts). setup_trace env go namespace t False) \<and>
    (if attempts = [] then y \<noteq> None else setup_trace env go namespace (last attempts) (y = None)))"
proof -
  have one: "setup_trace env go namespace t ok"
    if "runs (bind (setupOperatorInfoMetric env go (cks k) namespace) (\<lambda>r. Ret (\<not> isl r))) t ok" for k t ok
  proof -
    from that obtain r where "runs (setupOperatorInfoMetric env go (cks k) namespace) t r" "ok \<longleftrightarrow> \<not> isl r"
      by (auto simp: runs_bind)
    with runs_setup [OF this(1)] show ?thesis by simp
  qed
  have "\<exists>ts. length ts \<le> 5 \<and> tr = concat ts \<and> (\<forall>t\<in>set (butlast ts). setup_trace env go namespace t False) \<and>
    (if ts = [] then y \<noteq> None else setup_trace env go namespace (last ts) (y = None))"
    using assms unfolding setupOperatorInfoMetricWithRetry_def by (rule runs_backoff) (rule one)
  then obtain ts where ts: "length ts \<le> 5" "tr = concat ts" "\<forall>t\<in>set (butlast ts). setup_trace env go namespace t False"
    "if ts = [] then y \<noteq> None else setup_trace env go namespace (last ts) (y = None)"
    by blast
  have "length t \<le> 32" if "t \<in> set ts" for t
  proof -
    from that ts(3,4) have "setup_trace env go namespace t False \<or> setup_trace env go namespace t (y = None)"
      by (cases ts rule: rev_cases) auto
    then show ?thesis by (auto simp: setup_trace_def)
  qed
  then have "length (concat ts) \<le> 32 * length ts"
    by (induction ts) (auto intro: add_mono)
  with ts(1,2) have "length tr \<le> 160" by simp
  with ts show ?thesis by (intro conjI exI [of _ ts])
qed

lemma metric_setup_bounded_witness:
  "\<exists>tr y. runs (setupOperatorInfoMetricWithRetry (\<lambda>_. ''pod'') (''go1.26'', ''amd64'')
       (\<lambda>k. \<lparr>ck_latency = \<lambda>_. 10, ck_cancelled = \<lambda>_. False, ck_deadline_first = True\<rparr>)
       (\<lambda>_. False) (\<lambda>_. False) ''ns'') tr y \<and> length tr \<le> 160"
proof -
  let ?p = "setupOperatorInfoMetricWithRetry (\<lambda>_. ''pod'') (''go1.26'', ''amd64'')
     (\<lambda>k. \<lparr>ck_latency = \<lambda>_. 10, ck_cancelled = \<lambda>_. False, ck_deadline_first = True\<rparr>)
     (\<lambda>_. False) (\<lambda>_. False) ''ns''"
  obtain tr y where r: "runs ?p tr y" using runs_exists [of ?p] by (elim exE)
  with metric_setup_bounded [OF r] show ?thesis by blast
qed

end
