(* ===== verification/Pattern.thy ===== *)
theory Pattern
  imports Prelude
begin

text \<open>
  The regular expressions in the schemas of the custom resources (the subset of RE2 they use), with
  the relation of a text to a pattern as specification and an executable matcher that is equivalent to
  it. \<open>full_match\<close> is a pattern between \<^verbatim>\<open>^\<close> and \<^verbatim>\<open>$\<close>,
  \<open>found_in\<close> one without anchors, which may match anywhere in the text.
\<close>

text \<open>A class \<^verbatim>\<open>[a-z0-9]\<close> is the list of its ranges.\<close>

datatype pattern =
    Emp
  | Class "(char \<times> char) list"
  | Cat pattern pattern
  | Alt pattern pattern
  | Many pattern

definition in_class :: "char \<Rightarrow> (char \<times> char) list \<Rightarrow> bool" where
  "in_class c rs \<longleftrightarrow> list_ex (\<lambda>(a, b). (of_char a :: nat) \<le> of_char c \<and> of_char c \<le> (of_char b :: nat)) rs"

text \<open>Literals, \<^verbatim>\<open>r?\<close>, \<^verbatim>\<open>r+\<close>, \<^verbatim>\<open>r{n}\<close>,
  \<^verbatim>\<open>r{0,n}\<close> and alternatives.\<close>

primrec Lit :: "string \<Rightarrow> pattern" where
  "Lit [] = Emp"
| "Lit (c # s) = Cat (Class [(c, c)]) (Lit s)"

abbreviation Opt :: "pattern \<Rightarrow> pattern" where "Opt r \<equiv> Alt r Emp"
abbreviation Many1 :: "pattern \<Rightarrow> pattern" where "Many1 r \<equiv> Cat r (Many r)"

primrec Exactly :: "nat \<Rightarrow> pattern \<Rightarrow> pattern" where
  "Exactly 0 r = Emp"
| "Exactly (Suc n) r = Cat r (Exactly n r)"

primrec UpTo :: "nat \<Rightarrow> pattern \<Rightarrow> pattern" where
  "UpTo 0 r = Emp"
| "UpTo (Suc n) r = Opt (Cat r (UpTo n r))"

primrec Cats :: "pattern list \<Rightarrow> pattern" where
  "Cats [] = Emp"
| "Cats (r # rs) = Cat r (Cats rs)"

abbreviation digit :: pattern where "digit \<equiv> Class [(CHR ''0'', CHR ''9'')]"


section \<open>Meaning\<close>

inductive matches :: "pattern \<Rightarrow> string \<Rightarrow> bool" where
  matches_Emp: "matches Emp []"
| matches_Class: "in_class c rs \<Longrightarrow> matches (Class rs) [c]"
| matches_Cat: "matches r s \<Longrightarrow> matches q t \<Longrightarrow> matches (Cat r q) (s @ t)"
| matches_AltL: "matches r s \<Longrightarrow> matches (Alt r q) s"
| matches_AltR: "matches q s \<Longrightarrow> matches (Alt r q) s"
| matches_Nil: "matches (Many r) []"
| matches_Many: "matches r s \<Longrightarrow> matches (Many r) t \<Longrightarrow> matches (Many r) (s @ t)"

inductive_simps matches_Emp_iff [simp]: "matches Emp s"
inductive_simps matches_Class_iff: "matches (Class rs) s"
inductive_simps matches_Cat_iff: "matches (Cat r q) s"
inductive_simps matches_Alt_iff [simp]: "matches (Alt r q) s"
inductive_cases matches_ManyE: "matches (Many r) s"

text \<open>A repetition that is not empty starts with a text that is not empty.\<close>

lemma matches_Many_Cons:
  "matches (Many r) (c # s) \<longleftrightarrow> (\<exists>u v. s = u @ v \<and> matches r (c # u) \<and> matches (Many r) v)"
proof
  assume "matches (Many r) (c # s)"
  then show "\<exists>u v. s = u @ v \<and> matches r (c # u) \<and> matches (Many r) v"
  proof (induction "Many r" "c # s" arbitrary: c s rule: matches.induct)
    case (matches_Many u v)
    then show ?case by (cases u) auto
  qed
next
  assume "\<exists>u v. s = u @ v \<and> matches r (c # u) \<and> matches (Many r) v"
  then show "matches (Many r) (c # s)"
    using matches_Many [of r "c # u" for u] by fastforce
qed

lemma matches_Class_simps [simp]:
  "\<not> matches (Class rs) []"
  "matches (Class rs) (c # s) \<longleftrightarrow> s = [] \<and> in_class c rs"
  by (auto simp: matches_Class_iff)

lemma matches_Class_Cat [simp]:
  "\<not> matches (Cat (Class rs) r) []"
  "matches (Cat (Class rs) r) (c # s) \<longleftrightarrow> in_class c rs \<and> matches r s"
  by (auto simp: matches_Cat_iff matches_Class_iff intro: exI [of _ "[c]"])

lemma matches_Lit [simp]: "matches (Lit t) s \<longleftrightarrow> s = t"
proof (induction t arbitrary: s)
  case (Cons c t)
  have "in_class d [(c, c)] \<longleftrightarrow> d = c" for d
    by (simp add: in_class_def) (metis nle_le of_char_eq_iff)
  then show ?case by (cases s) (auto simp: Cons.IH)
qed simp

lemma matches_Cat_Lit [simp]: "matches (Cat r (Lit t)) s \<longleftrightarrow> (\<exists>u. s = u @ t \<and> matches r u)"
  by (auto simp: matches_Cat_iff)


section \<open>The matcher\<close>

primrec nullable :: "pattern \<Rightarrow> bool" where
  "nullable Emp = True"
| "nullable (Class rs) = False"
| "nullable (Cat r q) = (nullable r \<and> nullable q)"
| "nullable (Alt r q) = (nullable r \<or> nullable q)"
| "nullable (Many r) = True"

text \<open>What may be left of a pattern after one character.\<close>

primrec residues :: "char \<Rightarrow> pattern \<Rightarrow> pattern list" where
  "residues c Emp = []"
| "residues c (Class rs) = (if in_class c rs then [Emp] else [])"
| "residues c (Cat r q) = map (\<lambda>r'. Cat r' q) (residues c r) @ (if nullable r then residues c q else [])"
| "residues c (Alt r q) = residues c r @ residues c q"
| "residues c (Many r) = map (\<lambda>r'. Cat r' (Many r)) (residues c r)"

fun accepts :: "pattern list \<Rightarrow> string \<Rightarrow> bool" where
  "accepts rs [] = list_ex nullable rs"
| "accepts rs (c # s) = accepts (remdups (concat (map (residues c) rs))) s"

fun finds :: "pattern \<Rightarrow> pattern list \<Rightarrow> string \<Rightarrow> bool" where
  "finds r rs [] = list_ex nullable rs"
| "finds r rs (c # s) =
     (list_ex nullable rs \<or> finds r (remdups (r # concat (map (residues c) rs))) s)"

definition full_match :: "pattern \<Rightarrow> string \<Rightarrow> bool" where
  "full_match r s \<longleftrightarrow> accepts [r] s"

definition found_in :: "pattern \<Rightarrow> string \<Rightarrow> bool" where
  "found_in r s \<longleftrightarrow> finds r [r] s"

lemma nullable_iff: "nullable r \<longleftrightarrow> matches r []"
  by (induction r) (auto simp: matches_Cat_iff intro: matches.intros)

lemma matches_Cons: "matches r (c # s) \<longleftrightarrow> (\<exists>r'\<in>set (residues c r). matches r' s)"
proof (induction r arbitrary: s)
  case (Cat r q)
  have "matches (Cat r q) (c # s) \<longleftrightarrow>
      matches r [] \<and> matches q (c # s) \<or> (\<exists>u v. s = u @ v \<and> matches r (c # u) \<and> matches q v)"
    unfolding matches_Cat_iff Cons_eq_append_conv by blast
  moreover have "(\<exists>r'\<in>set (residues c (Cat r q)). matches r' s) \<longleftrightarrow>
      matches r [] \<and> (\<exists>q'\<in>set (residues c q). matches q' s) \<or>
      (\<exists>r'\<in>set (residues c r). matches (Cat r' q) s)"
    by (auto simp: nullable_iff)
  moreover have "(\<exists>r'\<in>set (residues c r). matches (Cat r' q) s) \<longleftrightarrow>
      (\<exists>u v. s = u @ v \<and> matches r (c # u) \<and> matches q v)"
    unfolding matches_Cat_iff Cat.IH by blast
  ultimately show ?case by (simp add: Cat.IH)
next
  case (Many r)
  then show ?case by (auto simp: matches_Many_Cons matches_Cat_iff)
qed auto

lemma accepts_iff: "accepts rs s \<longleftrightarrow> (\<exists>r\<in>set rs. matches r s)"
  by (induction s arbitrary: rs) (auto simp: list_ex_iff nullable_iff matches_Cons)

lemma finds_iff:
  "finds r rs s \<longleftrightarrow>
     (\<exists>u v. s = u @ v \<and> (\<exists>q\<in>set rs. matches q u)) \<or> (\<exists>c t u v. s = c # t @ u @ v \<and> matches r u)"
proof (induction s arbitrary: rs)
  case Nil
  then show ?case by (simp add: list_ex_iff nullable_iff)
next
  case (Cons c s)
  let ?rest = "concat (map (residues c) rs)"
  have now: "(\<exists>u v. c # s = u @ v \<and> (\<exists>q\<in>set rs. matches q u)) \<longleftrightarrow>
      list_ex nullable rs \<or> (\<exists>u v. s = u @ v \<and> (\<exists>q\<in>set ?rest. matches q u))"
  proof -
    have "(\<exists>u v. c # s = u @ v \<and> (\<exists>q\<in>set rs. matches q u)) \<longleftrightarrow>
        (\<exists>q\<in>set rs. matches q []) \<or> (\<exists>u v. s = u @ v \<and> (\<exists>q\<in>set rs. matches q (c # u)))"
      unfolding Cons_eq_append_conv by blast
    then show ?thesis by (simp add: list_ex_iff nullable_iff matches_Cons)
  qed
  have later: "(\<exists>d t u v. c # s = d # t @ u @ v \<and> matches r u) \<longleftrightarrow>
      (\<exists>u v. s = u @ v \<and> matches r u) \<or> (\<exists>d t u v. s = d # t @ u @ v \<and> matches r u)"
  proof -
    have "(\<exists>t u v. s = t @ u @ v \<and> matches r u) \<longleftrightarrow>
      (\<exists>u v. s = u @ v \<and> matches r u) \<or> (\<exists>d t u v. s = d # t @ u @ v \<and> matches r u)"
      by (metis append_Cons append_Nil neq_Nil_conv)
    then show ?thesis by simp
  qed
  show ?case unfolding now later by (simp add: Cons.IH) blast
qed

theorem full_iff: "full_match r s \<longleftrightarrow> matches r s"
  by (simp add: full_match_def accepts_iff)

theorem found_iff: "found_in r s \<longleftrightarrow> (\<exists>t u v. s = t @ u @ v \<and> matches r u)"
proof -
  have "(\<exists>t u v. s = t @ u @ v \<and> matches r u) \<longleftrightarrow>
      (\<exists>u v. s = u @ v \<and> matches r u) \<or> (\<exists>c t u v. s = c # t @ u @ v \<and> matches r u)"
    by (metis append_Cons append_Nil neq_Nil_conv)
  then show ?thesis by (simp add: found_in_def finds_iff)
qed

lemma full_found: "full_match r s \<Longrightarrow> found_in r s"
  unfolding full_iff found_iff by (metis append_Nil append_Nil2)


section \<open>Repetitions of a class\<close>

lemma matches_Exactly_Class:
  "matches (Exactly n (Class rs)) s \<longleftrightarrow> length s = n \<and> (\<forall>c\<in>set s. in_class c rs)"
proof (induction n arbitrary: s)
  case (Suc n)
  then show ?case by (cases s) auto
qed auto

lemma matches_UpTo_Class:
  "matches (UpTo n (Class rs)) s \<longleftrightarrow> length s \<le> n \<and> (\<forall>c\<in>set s. in_class c rs)"
proof (induction n arbitrary: s)
  case (Suc n)
  then show ?case by (cases s) auto
qed auto

lemma matches_Many_Class: "matches (Many (Class rs)) s \<longleftrightarrow> (\<forall>c\<in>set s. in_class c rs)"
proof (induction s)
  case Nil
  then show ?case by (simp add: matches_Nil)
next
  case (Cons c s)
  then show ?case by (auto simp: matches_Many_Cons)
qed

end
