(* ===== verification/Ec2_Admission.thy ===== *)
theory Ec2_Admission
  imports Pattern Default_Nodeclass
begin

text \<open>
  What the API server of the hosted cluster admits: the validation rules of the OpenshiftEC2NodeClass
  (the markers of \<^verbatim>\<open>api/karpenter/v1/karpenter_types.go\<close> and
  \<^verbatim>\<open>kubelet_config.go\<close>) and those of the EC2NodeClass the operator installs
  (\<^verbatim>\<open>pkg/assets/aws/karpenter.k8s.aws_ec2nodeclasses.yaml\<close>); and which admitted
  OpenshiftEC2NodeClasses are converted into an admitted EC2NodeClass.

  An admitted object has no empty field (every optional field of it has a minimum), so
  \<^verbatim>\<open>has(x.f)\<close> is \<open>f \<noteq> \<close> the zero value. Fields of the EC2NodeClass that the operator
  never sets are not judged. Lengths count characters, not bytes.
\<close>

definition char_count :: "string \<Rightarrow> nat" where
  "char_count s = length (filter (\<lambda>c. of_char c div (64 :: nat) \<noteq> 2) s)"

text \<open>An optional string: absent, or checked.\<close>

definition opt_string :: "(string \<Rightarrow> bool) \<Rightarrow> string \<Rightarrow> bool" where
  "opt_string P s \<longleftrightarrow> s = [] \<or> P s"

definition one_of :: "string list \<Rightarrow> string \<Rightarrow> bool" where
  "one_of values = opt_string (\<lambda>s. s \<in> set values)"

definition opt_all :: "('a \<Rightarrow> bool) \<Rightarrow> 'a option \<Rightarrow> bool" where
  "opt_all P x \<longleftrightarrow> (case x of None \<Rightarrow> True | Some a \<Rightarrow> P a)"

text \<open>\<^verbatim>\<open>kind-[0-9a-z]+\<close>\<close>

definition id_pattern :: "string \<Rightarrow> pattern" where
  "id_pattern kind = Cat (Lit kind) (Many1 (Class [(CHR ''0'', CHR ''9''), (CHR ''a'', CHR ''z'')]))"

text \<open>\<^verbatim>\<open>self.all(k, k != '' && self[k] != '')\<close>\<close>

definition no_empty_entry :: "string gomap \<Rightarrow> bool" where
  "no_empty_entry tags \<longleftrightarrow> list_all (\<lambda>(k, v). k \<noteq> [] \<and> v \<noteq> []) tags"

definition selector_tags_admitted :: "string gomap \<Rightarrow> bool" where
  "selector_tags_admitted tags \<longleftrightarrow> no_empty_entry tags \<and> length tags \<le> 20"


section \<open>OpenshiftEC2NodeClass\<close>

text \<open>Selector terms. Each list has its three or four rules; the last of them negate
  \<^verbatim>\<open>self.all\<close>, so they reject a list only when all of its terms are mixed.\<close>

definition subnet_term_admitted :: "subnet_selector_term \<Rightarrow> bool" where
  "subnet_term_admitted t \<longleftrightarrow>
     selector_tags_admitted (sst_Tags t) \<and>
     opt_string (\<lambda>s. full_match (id_pattern ''subnet-'') s \<and> char_count s \<le> 256) (sst_ID t)"

definition subnet_terms_admitted :: "subnet_selector_term list \<Rightarrow> bool" where
  "subnet_terms_admitted ts \<longleftrightarrow>
     ts \<noteq> [] \<and>
     list_all (\<lambda>x. sst_Tags x \<noteq> [] \<or> sst_ID x \<noteq> []) ts \<and>
     \<not> list_all (\<lambda>x. sst_ID x \<noteq> [] \<and> sst_Tags x \<noteq> []) ts \<and>
     length ts \<le> 30 \<and> list_all subnet_term_admitted ts"

definition security_group_term_admitted :: "security_group_selector_term \<Rightarrow> bool" where
  "security_group_term_admitted t \<longleftrightarrow>
     selector_tags_admitted (sgst_Tags t) \<and>
     opt_string (\<lambda>s. full_match (id_pattern ''sg-'') s \<and> char_count s \<le> 256) (sgst_ID t) \<and>
     opt_string (\<lambda>s. char_count s \<le> 256) (sgst_Name t)"

definition security_group_terms_admitted :: "security_group_selector_term list \<Rightarrow> bool" where
  "security_group_terms_admitted ts \<longleftrightarrow>
     ts \<noteq> [] \<and>
     list_all (\<lambda>x. sgst_Tags x \<noteq> [] \<or> sgst_ID x \<noteq> [] \<or> sgst_Name x \<noteq> []) ts \<and>
     \<not> list_all (\<lambda>x. sgst_ID x \<noteq> [] \<and> (sgst_Tags x \<noteq> [] \<or> sgst_Name x \<noteq> [])) ts \<and>
     \<not> list_all (\<lambda>x. sgst_Name x \<noteq> [] \<and> (sgst_Tags x \<noteq> [] \<or> sgst_ID x \<noteq> [])) ts \<and>
     length ts \<le> 30 \<and> list_all security_group_term_admitted ts"

definition reservation_term_admitted :: "capacity_reservation_selector_term \<Rightarrow> bool" where
  "reservation_term_admitted t \<longleftrightarrow>
     selector_tags_admitted (crst_Tags t) \<and>
     opt_string (\<lambda>s. full_match (id_pattern ''cr-'') s \<and> char_count s \<le> 256) (crst_ID t) \<and>
     opt_string (full_match (Exactly 12 digit)) (crst_OwnerID t) \<and>
     one_of [''Open'', ''Targeted''] (crst_InstanceMatchCriteria t)"

definition reservation_terms_admitted :: "capacity_reservation_selector_term list \<Rightarrow> bool" where
  "reservation_terms_admitted ts \<longleftrightarrow>
     ts \<noteq> [] \<and>
     list_all (\<lambda>x. crst_Tags x \<noteq> [] \<or> crst_ID x \<noteq> [] \<or> crst_OwnerID x \<noteq> [] \<or>
       crst_InstanceMatchCriteria x \<noteq> []) ts \<and>
     \<not> list_all (\<lambda>x. crst_ID x \<noteq> [] \<and>
       (crst_Tags x \<noteq> [] \<or> crst_OwnerID x \<noteq> [] \<or> crst_InstanceMatchCriteria x \<noteq> [])) ts \<and>
     length ts \<le> 30 \<and> list_all reservation_term_admitted ts"

text \<open>Tags: \<^verbatim>\<open>k\<close> is a key of the map.\<close>

definition tag_key_admitted :: "string \<Rightarrow> bool" where
  "tag_key_admitted k \<longleftrightarrow>
     k \<noteq> [] \<and> k \<noteq> ''eks:eks-cluster-name'' \<and> \<not> prefix ''kubernetes.io/cluster'' k \<and>
     k \<noteq> ''karpenter.sh/nodepool'' \<and> k \<noteq> ''karpenter.sh/nodeclaim'' \<and> k \<noteq> ''karpenter.k8s.aws/ec2nodeclass''"

definition tags_admitted :: "string gomap \<Rightarrow> bool" where
  "tags_admitted tags \<longleftrightarrow> tags \<noteq> [] \<and> list_all (\<lambda>(k, v). tag_key_admitted k) tags"

definition block_device_admitted :: "block_device \<Rightarrow> bool" where
  "block_device_admitted bd \<longleftrightarrow>
     one_of [''Delete'', ''Retain''] (bd_DeleteOnTermination bd) \<and>
     one_of [''Encrypted'', ''Unencrypted''] (bd_Encrypted bd) \<and>
     opt_string (\<lambda>s. char_count s \<le> 2048) (bd_KMSKeyID bd) \<and>
     opt_string (\<lambda>s. char_count s \<le> 256) (bd_SnapshotID bd) \<and>
     (bd_VolumeSizeGiB bd = 0 \<or> 1 \<le> bd_VolumeSizeGiB bd \<and> bd_VolumeSizeGiB bd \<le> 65536) \<and>
     one_of [''Standard'', ''IO1'', ''IO2'', ''GP2'', ''SC1'', ''ST1'', ''GP3''] (bd_VolumeType bd) \<and>
     (bd_SnapshotID bd \<noteq> [] \<or> bd_VolumeSizeGiB bd \<noteq> 0)"

definition block_devices_admitted :: "block_device_mapping list \<Rightarrow> bool" where
  "block_devices_admitted ms \<longleftrightarrow>
     length (filter (\<lambda>x. bdm_RootVolume x = ''RootVolume'') ms) \<le> 1 \<and>
     1 \<le> length ms \<and> length ms \<le> 50 \<and>
     list_all (\<lambda>m. opt_string (\<lambda>s. char_count s \<le> 256) (bdm_DeviceName m) \<and>
       one_of [''RootVolume'', ''NotRootVolume''] (bdm_RootVolume m) \<and> block_device_admitted (bdm_EBS m)) ms"

definition metadata_options_admitted :: "metadata_options \<Rightarrow> bool" where
  "metadata_options_admitted mo \<longleftrightarrow>
     one_of [''HTTPEndpoint'', ''None''] (mo_Access mo) \<and>
     one_of [''IPv4'', ''IPv6''] (mo_HTTPIPProtocol mo) \<and>
     (mo_HTTPPutResponseHopLimit mo = 0 \<or>
       1 \<le> mo_HTTPPutResponseHopLimit mo \<and> mo_HTTPPutResponseHopLimit mo \<le> 64) \<and>
     one_of [''Required'', ''Optional''] (mo_HTTPTokens mo)"

text \<open>A semantic version. \<^verbatim>\<open>num\<close>, \<^verbatim>\<open>pre\<close> and
  \<^verbatim>\<open>build\<close> are the parts of the expression.\<close>

definition semver_pattern :: pattern where
  "semver_pattern =
     (let dot = Lit ''.'';
          num = Alt (Lit ''0'') (Cat (Class [(CHR ''1'', CHR ''9'')]) (Many digit));
          letter = Class [(CHR ''a'', CHR ''z''), (CHR ''A'', CHR ''Z''), (CHR ''-'', CHR ''-'')];
          ident = Class [(CHR ''0'', CHR ''9''), (CHR ''a'', CHR ''z''), (CHR ''A'', CHR ''Z''), (CHR ''-'', CHR ''-'')];
          pre = Alt num (Cats [Many digit, letter, Many ident]);
          build = Many1 ident
      in Cats [num, dot, num, dot, num,
           Opt (Cats [Lit ''-'', pre, Many (Cat dot pre)]),
           Opt (Cats [Lit ''+'', build, Many (Cat dot build)])])"

text \<open>The kubelet. \<open>dge\<close> is \<^verbatim>\<open>double(a) >= double(b)\<close> of CEL and
  \<open>qof\<close> its \<^verbatim>\<open>quantity\<close>, with \<open>None\<close> where
  \<^verbatim>\<open>isQuantity\<close> is false.\<close>

type_synonym cel_double_ge = "string \<Rightarrow> string \<Rightarrow> bool"
type_synonym cel_quantity = "string \<Rightarrow> quantity option"

definition reserved_keys :: "string list" where
  "reserved_keys = [''cpu'', ''memory'', ''ephemeral-storage'', ''pid'']"

definition eviction_signals :: "string list" where
  "eviction_signals = [''memory.available'', ''nodefs.available'', ''nodefs.inodesFree'',
     ''imagefs.available'', ''imagefs.inodesFree'', ''pid.available'']"

definition property_count_admitted :: "'v gomap \<Rightarrow> bool" where
  "property_count_admitted m \<longleftrightarrow> 1 \<le> length m \<and> length m \<le> 20"

definition reserved_admitted :: "string gomap \<Rightarrow> bool" where
  "reserved_admitted m \<longleftrightarrow> property_count_admitted m \<and>
     list_all (\<lambda>(k, v). k \<in> set reserved_keys \<and> \<not> prefix ''-'' v \<and> v \<noteq> []) m"

definition eviction_admitted :: "string gomap \<Rightarrow> bool" where
  "eviction_admitted m \<longleftrightarrow> property_count_admitted m \<and>
     list_all (\<lambda>(k, v). k \<in> set eviction_signals \<and> v \<noteq> [] \<and> char_count v \<le> 64) m"

definition grace_admitted :: "string gomap \<Rightarrow> bool" where
  "grace_admitted m \<longleftrightarrow> property_count_admitted m \<and> list_all (\<lambda>(k, v). k \<in> set eviction_signals) m"

definition soft_above_hard :: "cel_double_ge \<Rightarrow> cel_quantity \<Rightarrow> string \<Rightarrow> string \<Rightarrow> bool" where
  "soft_above_hard dge qof soft hard \<longleftrightarrow>
     (if suffix ''%'' soft \<and> suffix ''%'' hard
      then char_count soft \<le> 1 \<or> char_count hard \<le> 1 \<or> dge (butlast soft) (butlast hard)
      else case qof soft of None \<Rightarrow> True
         | Some a \<Rightarrow> (case qof hard of None \<Rightarrow> True | Some b \<Rightarrow> b \<le> a))"

definition percent_admitted :: "int \<Rightarrow> bool" where
  "percent_admitted p \<longleftrightarrow> 0 \<le> p \<and> p \<le> 100"

definition gc_thresholds_ordered :: "int option \<Rightarrow> int option \<Rightarrow> bool" where
  "gc_thresholds_ordered high low \<longleftrightarrow> opt_all (\<lambda>h. opt_all (\<lambda>l. l < h) low) high"

definition pods_admitted :: "int \<Rightarrow> bool" where
  "pods_admitted n \<longleftrightarrow> n = 0 \<or> 1 \<le> n \<and> n \<le> 2500"

text \<open>Whether a map has the keys of another; an absent map has none.\<close>

definition keys_of :: "'v gomap option \<Rightarrow> string set" where
  "keys_of m = (case m of None \<Rightarrow> {} | Some kvs \<Rightarrow> fst ` set kvs)"

definition kubelet_admitted :: "cel_double_ge \<Rightarrow> cel_quantity \<Rightarrow> kubelet_configuration \<Rightarrow> bool" where
  "kubelet_admitted dge qof k \<longleftrightarrow>
     pods_admitted (kc_MaxPods k) \<and> pods_admitted (kc_PodsPerCore k) \<and>
     opt_all reserved_admitted (kc_SystemReserved k) \<and> opt_all reserved_admitted (kc_KubeReserved k) \<and>
     opt_all eviction_admitted (kc_EvictionHard k) \<and> opt_all eviction_admitted (kc_EvictionSoft k) \<and>
     opt_all grace_admitted (kc_EvictionSoftGracePeriod k) \<and>
     opt_all percent_admitted (kc_ImageGCHighThresholdPercent k) \<and>
     opt_all percent_admitted (kc_ImageGCLowThresholdPercent k) \<and>
     gc_thresholds_ordered (kc_ImageGCHighThresholdPercent k) (kc_ImageGCLowThresholdPercent k) \<and>
     (kc_PodsPerCore k = 0 \<or> kc_MaxPods k = 0 \<or> kc_PodsPerCore k \<le> kc_MaxPods k) \<and>
     keys_of (kc_EvictionSoft k) \<subseteq> keys_of (kc_EvictionSoftGracePeriod k) \<and>
     keys_of (kc_EvictionSoftGracePeriod k) \<subseteq> keys_of (kc_EvictionSoft k) \<and>
     opt_all (\<lambda>hard. opt_all (\<lambda>soft. list_all (\<lambda>(key, h).
       opt_all (\<lambda>s. soft_above_hard dge qof s h) (map_of soft key)) hard) (kc_EvictionSoft k)) (kc_EvictionHard k)"

text \<open>The spec. It must have a property, which a decoded spec does not show (\<^verbatim>\<open>kubelet: {}\<close>
  is one), so this rule is left out.\<close>

definition openshift_ec2_admitted :: "cel_double_ge \<Rightarrow> cel_quantity \<Rightarrow> openshift_ec2_spec \<Rightarrow> bool" where
  "openshift_ec2_admitted dge qof spec \<longleftrightarrow>
     opt_all subnet_terms_admitted (os_SubnetSelectorTerms spec) \<and>
     opt_all security_group_terms_admitted (os_SecurityGroupSelectorTerms spec) \<and>
     opt_all reservation_terms_admitted (os_CapacityReservationSelectorTerms spec) \<and>
     one_of [''Public'', ''SubnetDefault''] (os_IPAddressAssociation spec) \<and>
     opt_all tags_admitted (os_Tags spec) \<and>
     opt_all block_devices_admitted (os_BlockDeviceMappings spec) \<and>
     one_of [''RAID0''] (os_InstanceStorePolicy spec) \<and>
     one_of [''Detailed'', ''Basic''] (os_Monitoring spec) \<and>
     metadata_options_admitted (os_MetadataOptions spec) \<and>
     opt_string (\<lambda>s. full_match semver_pattern s \<and> 5 \<le> char_count s \<and> char_count s \<le> 64) (os_Version spec) \<and>
     kubelet_admitted dge qof (os_Kubelet spec)"


section \<open>EC2NodeClass\<close>

text \<open>The text form of a quantity that was parsed from a number of \<^verbatim>\<open>Gi\<close>: the largest
  binary suffix that divides it. (The parser keeps the text it was given only if this is the canonical
  form.)\<close>

fun binary_text :: "string list \<Rightarrow> nat \<Rightarrow> string" where
  "binary_text [] n = nat_dec n"
| "binary_text [x] n = nat_dec n @ x"
| "binary_text (x # y # xs) n = (if n mod 1024 = 0 then binary_text (y # xs) (n div 1024) else nat_dec n @ x)"

definition quantity_text :: "quantity \<Rightarrow> string" where
  "quantity_text q = binary_text [[], ''Ki'', ''Mi'', ''Gi'', ''Ti'', ''Pi'', ''Ei''] (nat (q div 10 ^ 9))"

definition volume_size_pattern :: pattern where
  "volume_size_pattern =
     (let d19 = Class [(CHR ''1'', CHR ''9'')];
          gi = Alt (Cat d19 (UpTo 3 digit))
             (Alt (Cat (Class [(CHR ''1'', CHR ''4'')]) (Exactly 4 digit))
             (Alt (Cat (Class [(CHR ''5'', CHR ''5'')]) (Cat (Class [(CHR ''0'', CHR ''8'')]) (Exactly 3 digit)))
                  (Lit ''59000'')));
          g = Alt (Cat d19 (UpTo 3 digit))
            (Alt (Cat (Class [(CHR ''1'', CHR ''5'')]) (Exactly 4 digit))
            (Alt (Cat (Class [(CHR ''6'', CHR ''6'')]) (Cat (Class [(CHR ''0'', CHR ''3'')]) (Exactly 3 digit)))
                 (Lit ''64000'')));
          ti = Alt d19 (Alt Emp (Alt (Cat (Class [(CHR ''1'', CHR ''5'')]) (Class [(CHR ''0'', CHR ''7'')])) (Lit ''58'')));
          t = Alt d19 (Alt Emp (Alt (Cat (Class [(CHR ''1'', CHR ''5'')]) digit)
             (Alt (Cat (Lit ''6'') (Class [(CHR ''0'', CHR ''3'')])) (Lit ''64''))))
      in Alt (Cat gi (Lit ''Gi'')) (Alt (Cat g (Lit ''G'')) (Alt (Cat ti (Lit ''Ti'')) (Cat t (Lit ''T'')))))"

text \<open>\<^verbatim>\<open>([0-9]+(\.[0-9]*)?)|(\.[0-9]+)\<close> and what the patterns make of it.\<close>

definition number_pattern :: pattern where
  "number_pattern =
     Alt (Cat (Many1 digit) (Opt (Cat (Lit ''.'') (Many digit)))) (Cat (Lit ''.'') (Many1 digit))"

definition sign_pattern :: pattern where
  "sign_pattern = Opt (Alt (Lit ''+'') (Lit ''-''))"

definition quantity_pattern :: pattern where
  "quantity_pattern =
     (let classes = map (\<lambda>c. (c, c)) in
      Cats [sign_pattern, number_pattern,
        Opt (Alt (Cat (Class (classes ''KMGTPE'')) (Lit ''i''))
            (Alt (Class (classes ''numkMGTPE''))
                 (Cats [Class (classes ''eE''), sign_pattern, number_pattern])))])"

definition threshold_pattern :: pattern where
  "threshold_pattern =
     (let d12 = Cat digit (UpTo 1 digit) in
      Alt (Cat (Alt (Cat d12 (Opt (Cat (Lit ''.'') d12)))
                    (Cat (Lit ''100'') (Opt (Cat (Lit ''.'') (Cat (Lit ''0'') (UpTo 1 (Lit ''0''))))))) (Lit ''%''))
      (Alt Emp quantity_pattern))"

definition k_subnet_term_admitted :: "subnet_selector_term \<Rightarrow> bool" where
  "k_subnet_term_admitted t \<longleftrightarrow>
     opt_string (found_in (id_pattern ''subnet-'')) (sst_ID t) \<and> selector_tags_admitted (sst_Tags t)"

definition k_subnet_terms_admitted :: "subnet_selector_term list \<Rightarrow> bool" where
  "k_subnet_terms_admitted ts \<longleftrightarrow>
     list_all k_subnet_term_admitted ts \<and> length ts \<le> 30 \<and> ts \<noteq> [] \<and>
     list_all (\<lambda>x. sst_Tags x \<noteq> [] \<or> sst_ID x \<noteq> []) ts \<and>
     \<not> list_all (\<lambda>x. sst_ID x \<noteq> [] \<and> sst_Tags x \<noteq> []) ts"

definition k_security_group_term_admitted :: "security_group_selector_term \<Rightarrow> bool" where
  "k_security_group_term_admitted t \<longleftrightarrow>
     opt_string (found_in (id_pattern ''sg-'')) (sgst_ID t) \<and> selector_tags_admitted (sgst_Tags t)"

definition k_security_group_terms_admitted :: "security_group_selector_term list \<Rightarrow> bool" where
  "k_security_group_terms_admitted ts \<longleftrightarrow>
     list_all k_security_group_term_admitted ts \<and> length ts \<le> 30 \<and> ts \<noteq> [] \<and>
     list_all (\<lambda>x. sgst_Tags x \<noteq> [] \<or> sgst_ID x \<noteq> [] \<or> sgst_Name x \<noteq> []) ts \<and>
     \<not> list_all (\<lambda>x. sgst_ID x \<noteq> [] \<and> (sgst_Tags x \<noteq> [] \<or> sgst_Name x \<noteq> [])) ts \<and>
     \<not> list_all (\<lambda>x. sgst_Name x \<noteq> [] \<and> (sgst_Tags x \<noteq> [] \<or> sgst_ID x \<noteq> [])) ts"

definition k_reservation_term_admitted :: "capacity_reservation_selector_term \<Rightarrow> bool" where
  "k_reservation_term_admitted t \<longleftrightarrow>
     opt_string (full_match (id_pattern ''cr-'')) (crst_ID t) \<and>
     one_of [''open'', ''targeted''] (crst_InstanceMatchCriteria t) \<and>
     opt_string (full_match (Exactly 12 digit)) (crst_OwnerID t) \<and>
     selector_tags_admitted (crst_Tags t)"

text \<open>A nil list of reservations is sent as \<^verbatim>\<open>null\<close>, which the server prunes.\<close>

definition k_reservation_terms_admitted :: "capacity_reservation_selector_term list \<Rightarrow> bool" where
  "k_reservation_terms_admitted ts \<longleftrightarrow> ts = [] \<or>
     list_all k_reservation_term_admitted ts \<and> length ts \<le> 30 \<and>
     list_all (\<lambda>x. crst_Tags x \<noteq> [] \<or> crst_ID x \<noteq> [] \<or> crst_InstanceMatchCriteria x \<noteq> []) ts \<and>
     \<not> list_all (\<lambda>x. crst_ID x \<noteq> [] \<and>
       (crst_Tags x \<noteq> [] \<or> crst_OwnerID x \<noteq> [] \<or> crst_InstanceMatchCriteria x \<noteq> [])) ts"

definition k_ami_terms_admitted :: "ami_selector_term list \<Rightarrow> bool" where
  "k_ami_terms_admitted ts \<longleftrightarrow>
     list_all (\<lambda>x. ami_ID x \<noteq> [] \<and> found_in (id_pattern ''ami-'') (ami_ID x)) ts \<and>
     1 \<le> length ts \<and> length ts \<le> 30 \<and>
     list_all (\<lambda>x. ami_Alias x = [] \<and> ami_Tags x = [] \<and> ami_Name x = [] \<and> ami_Owner x = [] \<and>
       ami_SSMParameter x = []) ts"

definition k_block_device_admitted :: "k_block_device \<Rightarrow> bool" where
  "k_block_device_admitted bd \<longleftrightarrow>
     opt_all (\<lambda>r. 100 \<le> r \<and> r \<le> 300) (kbd_VolumeInitializationRate bd) \<and>
     opt_all (\<lambda>q. full_match volume_size_pattern (quantity_text q)) (kbd_VolumeSize bd) \<and>
     opt_all (\<lambda>v. v \<in> set [''standard'', ''io1'', ''io2'', ''gp2'', ''sc1'', ''st1'', ''gp3'']) (kbd_VolumeType bd) \<and>
     (kbd_SnapshotID bd \<noteq> None \<or> kbd_VolumeSize bd \<noteq> None) \<and>
     (kbd_VolumeInitializationRate bd = None \<or> kbd_SnapshotID bd \<noteq> None \<and> kbd_SnapshotID bd \<noteq> Some [])"

definition k_block_devices_admitted :: "k_block_device_mapping list \<Rightarrow> bool" where
  "k_block_devices_admitted ms \<longleftrightarrow>
     list_all (\<lambda>m. opt_all k_block_device_admitted (kbdm_EBS m)) ms \<and> length ms \<le> 50 \<and>
     length (filter kbdm_RootVolume ms) \<le> 1"

definition k_metadata_options_admitted :: "k_metadata_options \<Rightarrow> bool" where
  "k_metadata_options_admitted mo \<longleftrightarrow>
     opt_all (\<lambda>s. s \<in> set [''enabled'', ''disabled'']) (kmo_HTTPEndpoint mo) \<and>
     opt_all (\<lambda>s. s \<in> set [''enabled'', ''disabled'']) (kmo_HTTPProtocolIPv6 mo) \<and>
     opt_all (\<lambda>n. 1 \<le> n \<and> n \<le> 64) (kmo_HTTPPutResponseHopLimit mo) \<and>
     opt_all (\<lambda>s. s \<in> set [''required'', ''optional'']) (kmo_HTTPTokens mo)"

definition k_reserved_admitted :: "string gomap \<Rightarrow> bool" where
  "k_reserved_admitted m \<longleftrightarrow>
     list_all (\<lambda>(k, v). full_match quantity_pattern v \<and> k \<in> set reserved_keys \<and> \<not> prefix ''-'' v) m"

definition k_eviction_admitted :: "string gomap \<Rightarrow> bool" where
  "k_eviction_admitted m \<longleftrightarrow>
     list_all (\<lambda>(k, v). full_match threshold_pattern v \<and> k \<in> set eviction_signals) m"

definition k_kubelet_admitted :: "k_kubelet \<Rightarrow> bool" where
  "k_kubelet_admitted k \<longleftrightarrow>
     opt_all k_eviction_admitted (kk_EvictionHard k) \<and> opt_all k_eviction_admitted (kk_EvictionSoft k) \<and>
     opt_all (list_all (\<lambda>(k, v). k \<in> set eviction_signals)) (kk_EvictionSoftGracePeriod k) \<and>
     opt_all percent_admitted (kk_ImageGCHighThresholdPercent k) \<and>
     opt_all percent_admitted (kk_ImageGCLowThresholdPercent k) \<and>
     opt_all k_reserved_admitted (kk_KubeReserved k) \<and> opt_all k_reserved_admitted (kk_SystemReserved k) \<and>
     opt_all (\<lambda>n. 0 \<le> n) (kk_MaxPods k) \<and> opt_all (\<lambda>n. 0 \<le> n) (kk_PodsPerCore k) \<and>
     gc_thresholds_ordered (kk_ImageGCHighThresholdPercent k) (kk_ImageGCLowThresholdPercent k) \<and>
     keys_of (kk_EvictionSoft k) \<subseteq> keys_of (kk_EvictionSoftGracePeriod k) \<and>
     keys_of (kk_EvictionSoftGracePeriod k) \<subseteq> keys_of (kk_EvictionSoft k)"

definition ec2_admitted :: "ec2_spec \<Rightarrow> bool" where
  "ec2_admitted spec \<longleftrightarrow>
     opt_all (\<lambda>f. f = ''Custom'') (ec_AMIFamily spec) \<and>
     k_ami_terms_admitted (ec_AMISelectorTerms spec) \<and>
     k_block_devices_admitted (ec_BlockDeviceMappings spec) \<and>
     k_reservation_terms_admitted (ec_CapacityReservationSelectorTerms spec) \<and>
     opt_all (\<lambda>p. p \<noteq> []) (ec_InstanceProfile spec) \<and>
     opt_all (\<lambda>p. p = ''RAID0'') (ec_InstanceStorePolicy spec) \<and>
     opt_all (\<lambda>n. 0 \<le> n) (ec_IPPrefixCount spec) \<and>
     opt_all k_kubelet_admitted (ec_Kubelet spec) \<and>
     opt_all k_metadata_options_admitted (ec_MetadataOptions spec) \<and>
     k_security_group_terms_admitted (ec_SecurityGroupSelectorTerms spec) \<and>
     k_subnet_terms_admitted (ec_SubnetSelectorTerms spec) \<and>
     opt_all (list_all (\<lambda>(k, v). tag_key_admitted k)) (ec_Tags spec)"


section \<open>Volume sizes\<close>

text \<open>The sizes whose text the schema of the EC2NodeClass accepts. Whole TiB are printed with the
  suffix \<^verbatim>\<open>Ti\<close>, and the expression for them has gaps.\<close>

definition volume_size_accepted :: "int \<Rightarrow> bool" where
  "volume_size_accepted n \<longleftrightarrow>
     (if n mod 1024 = 0 then n div 1024 \<le> 9 \<or> n div 1024 \<le> 57 \<and> n div 1024 mod 10 \<le> 7 \<or> n div 1024 = 58
      else n \<le> 59000)"

lemma in_class_digit:
  "d < 10 \<Longrightarrow> a < 10 \<Longrightarrow> b < 10 \<Longrightarrow>
     in_class (digit_char d) [(digit_char a, digit_char b)] \<longleftrightarrow> a \<le> d \<and> d \<le> b"
  by (simp add: in_class_def of_char_digit)

lemma in_class_digits: "in_class c [(CHR ''0'', CHR ''9'')] \<longleftrightarrow> is_digit c"
  by (auto simp: in_class_def is_digit_def)

lemma digit_chars:
  "CHR ''0'' = digit_char 0" "CHR ''1'' = digit_char 1" "CHR ''3'' = digit_char 3" "CHR ''4'' = digit_char 4"
  "CHR ''5'' = digit_char 5" "CHR ''6'' = digit_char 6" "CHR ''7'' = digit_char 7" "CHR ''8'' = digit_char 8" "CHR ''9'' = digit_char 9"
  by code_simp+

lemma nat_dec_1: "n < 10 \<Longrightarrow> nat_dec n = [digit_char n]"
  by (subst nat_dec.simps) simp

lemma nat_dec_10: "10 \<le> n \<Longrightarrow> nat_dec n = nat_dec (n div 10) @ [digit_char (n mod 10)]"
  by (subst nat_dec.simps) simp

text \<open>Up to five decimal digits.\<close>

lemma nat_dec_cases:
  assumes "0 < n" "n < 100000"
  obtains (short) d ds where "nat_dec n = digit_char d # ds" "1 \<le> d" "d < 10" "length ds \<le> 3" "n < 10000"
      "list_all is_digit ds"
    | (long) a b c d e where "nat_dec n = map digit_char [a, b, c, d, e]" "1 \<le> a"
      "a < 10" "b < 10" "c < 10" "d < 10" "e < 10" "n = 10000 * a + 1000 * b + 100 * c + 10 * d + e"
proof -
  have two: "nat_dec m = [digit_char (m div 10), digit_char (m mod 10)]" if "10 \<le> m" "m < 100" for m
    using that by (simp add: nat_dec_10 nat_dec_1)
  have three: "nat_dec m = [digit_char (m div 100), digit_char (m div 10 mod 10), digit_char (m mod 10)]"
    if "100 \<le> m" "m < 1000" for m
    using that two [of "m div 10"] by (simp add: nat_dec_10 [of m] div_mult2_eq [symmetric])
  have four: "nat_dec m = [digit_char (m div 1000), digit_char (m div 100 mod 10), digit_char (m div 10 mod 10), digit_char (m mod 10)]"
    if "1000 \<le> m" "m < 10000" for m
    using that three [of "m div 10"] by (simp add: nat_dec_10 [of m] div_mult2_eq [symmetric])
  show thesis
  proof (cases "n < 10000")
    case True
    consider "n < 10" | "10 \<le> n" "n < 100" | "100 \<le> n" "n < 1000" | "1000 \<le> n" using True by linarith
    then show thesis
    proof cases
      case 1
      then show thesis using assms short [of n "[]"] by (simp add: nat_dec_1)
    next
      case 2
      then show thesis using two [of n] short [of "n div 10" "[digit_char (n mod 10)]"] by simp
    next
      case 3
      then show thesis
        using three [of n] short [of "n div 100" "[digit_char (n div 10 mod 10), digit_char (n mod 10)]"] by simp
    next
      case 4
      then show thesis
        using True four [of n] short [of "n div 1000"
          "[digit_char (n div 100 mod 10), digit_char (n div 10 mod 10), digit_char (n mod 10)]"] by simp
    qed
  next
    case False
    have quot: "n div 10 div 10 = n div 100" "n div 100 div 10 = n div 1000" "n div 1000 div 10 = n div 10000"
      by (simp_all add: div_mult2_eq [symmetric])
    show thesis
    proof (rule long)
      show "nat_dec n = map digit_char
          [n div 10000, n div 1000 mod 10, n div 100 mod 10, n div 10 mod 10, n mod 10]"
        using False assms four [of "n div 10"] by (simp add: nat_dec_10 [of n] div_mult2_eq [symmetric])
      show "n = 10000 * (n div 10000) + 1000 * (n div 1000 mod 10) + 100 * (n div 100 mod 10)
          + 10 * (n div 10 mod 10) + n mod 10"
        using div_mult_mod_eq [of n 10] div_mult_mod_eq [of "n div 10" 10]
          div_mult_mod_eq [of "n div 100" 10] div_mult_mod_eq [of "n div 1000" 10]
        unfolding quot by linarith
      show "1 \<le> n div 10000" "n div 10000 < 10" using False assms by simp_all
    qed simp_all
  qed
qed

text \<open>The text of a size of at most 65536 GiB.\<close>

lemma quantity_text_GiB:
  assumes "0 < n" "n < 2 ^ 20"
  shows "quantity_text (quantity_of_GiB (int n)) =
    (if n mod 1024 = 0 then nat_dec (n div 1024) @ ''Ti'' else nat_dec n @ ''Gi'')"
proof -
  have "nat (quantity_of_GiB (int n) div 10 ^ 9) = n * 2 ^ 30"
    using assms by (simp add: quantity_of_GiB_def nat_mult_distrib min_def)
  moreover have "n div 1024 mod 1024 \<noteq> 0" if "n mod 1024 = 0"
    using assms that by auto
  ultimately show ?thesis by (cases "n mod 1024 = 0") (simp_all add: quantity_text_def)
qed

text \<open>With one of the two suffixes only the alternative of that suffix is left.\<close>

lemma volume_size_pattern_GiB:
  "matches volume_size_pattern (s @ ''Gi'') \<longleftrightarrow>
    matches (Cat (Class [(CHR ''1'', CHR ''9'')]) (UpTo 3 digit)) s \<or>
    matches (Cat (Class [(CHR ''1'', CHR ''4'')]) (Exactly 4 digit)) s \<or>
    matches (Cat (Class [(CHR ''5'', CHR ''5'')]) (Cat (Class [(CHR ''0'', CHR ''8'')]) (Exactly 3 digit))) s \<or>
    s = ''59000''"
  by (simp add: volume_size_pattern_def Let_def del: Lit.simps)

lemma volume_size_pattern_TiB:
  "matches volume_size_pattern (s @ ''Ti'') \<longleftrightarrow>
    matches (Class [(CHR ''1'', CHR ''9'')]) s \<or> s = [] \<or>
    matches (Cat (Class [(CHR ''1'', CHR ''5'')]) (Class [(CHR ''0'', CHR ''7'')])) s \<or> s = ''58''"
  by (simp add: volume_size_pattern_def Let_def del: Lit.simps)

lemma volume_size_Gi:
  assumes "0 < n" "n < 100000"
  shows "matches volume_size_pattern (nat_dec n @ ''Gi'') \<longleftrightarrow> n \<le> 59000"
  using assms
proof (cases rule: nat_dec_cases)
  case (short d ds)
  then have "matches (Cat (Class [(CHR ''1'', CHR ''9'')]) (UpTo 3 digit)) (nat_dec n)"
    by (simp add: digit_chars in_class_digit matches_UpTo_Class list_all_iff flip: in_class_digits)
  with short show ?thesis unfolding volume_size_pattern_GiB by simp
next
  case (long a b c d e)
  have "''59000'' = map digit_char [5, 9, 0, 0, 0]" by (simp add: digit_chars)
  with long show ?thesis unfolding volume_size_pattern_GiB
    by (auto simp: digit_chars in_class_digit matches_UpTo_Class matches_Exactly_Class
        digit_char_eq)
qed

lemma volume_size_Ti:
  assumes "0 < n" "n \<le> 64"
  shows "matches volume_size_pattern (nat_dec n @ ''Ti'') \<longleftrightarrow> n \<le> 9 \<or> n \<le> 57 \<and> n mod 10 \<le> 7 \<or> n = 58"
proof (cases "n < 10")
  case True
  then show ?thesis unfolding volume_size_pattern_TiB
    using assms by (simp add: nat_dec_1 digit_chars in_class_digit)
next
  case False
  define a b where "a = n div 10" and "b = n mod 10"
  then have n: "n = 10 * a + b" "b < 10" by simp_all
  have "''58'' = map digit_char [5, 8]" by (simp add: digit_chars)
  moreover have "nat_dec n = [digit_char a, digit_char b]" "a < 10" "1 \<le> a"
    using False assms by (simp_all add: nat_dec_1 nat_dec_10 a_def b_def)
  ultimately show ?thesis unfolding volume_size_pattern_TiB
    using assms n by (auto simp: digit_chars in_class_digit digit_char_eq) presburger
qed

lemma volume_size_iff:
  assumes "1 \<le> n" "n \<le> 65536"
  shows "full_match volume_size_pattern (quantity_text (quantity_of_GiB n)) \<longleftrightarrow> volume_size_accepted n"
proof -
  obtain m where n: "n = int m" using assms by (metis nonneg_int_cases order_trans zero_le_one)
  have "int m mod 1024 = int (m mod 1024)" "int m div 1024 = int (m div 1024)"
    "int (m div 1024) mod 10 = int (m div 1024 mod 10)"
    by (simp_all add: of_nat_mod of_nat_div)
  with assms n show ?thesis
    by (auto simp: volume_size_accepted_def full_iff quantity_text_GiB volume_size_Gi volume_size_Ti)
qed


section \<open>Conversion of admitted fields\<close>

text \<open>The rules the two schemas share carry over; what remains of each field is stated as an
  equivalence.\<close>

named_theorems admission \<open>which admitted fields are converted into admitted fields\<close>

lemma opt_all_simps [simp]: "opt_all P None" "opt_all P (Some a) \<longleftrightarrow> P a"
  by (simp_all add: opt_all_def)

lemma opt_string_found:
  assumes "opt_string (\<lambda>s. full_match r s \<and> Q s) s" shows "opt_string (found_in r) s"
  using assms full_found by (auto simp: opt_string_def)

lemma subnet_term_carry: "subnet_term_admitted t \<Longrightarrow> k_subnet_term_admitted t"
  by (auto simp: subnet_term_admitted_def k_subnet_term_admitted_def intro: opt_string_found)

lemma subnet_terms_carry [admission]: "subnet_terms_admitted ts \<Longrightarrow> k_subnet_terms_admitted ts"
  by (auto simp: subnet_terms_admitted_def k_subnet_terms_admitted_def list_all_iff intro: subnet_term_carry)

lemma security_group_term_carry: "security_group_term_admitted t \<Longrightarrow> k_security_group_term_admitted t"
  by (auto simp: security_group_term_admitted_def k_security_group_term_admitted_def intro: opt_string_found)

lemma security_group_terms_carry [admission]:
  "security_group_terms_admitted ts \<Longrightarrow> k_security_group_terms_admitted ts"
  by (auto simp: security_group_terms_admitted_def k_security_group_terms_admitted_def list_all_iff
      intro: security_group_term_carry)

lemma ToLower_Nil [simp]: "ToLower s = [] \<longleftrightarrow> s = []"
  by (simp add: ToLower_def)

text \<open>A reservation term must select by more than its owner.\<close>

definition reservation_term_convertible :: "capacity_reservation_selector_term \<Rightarrow> bool" where
  "reservation_term_convertible t \<longleftrightarrow> crst_Tags t \<noteq> [] \<or> crst_ID t \<noteq> [] \<or> crst_InstanceMatchCriteria t \<noteq> []"

lemma reservation_term_carry:
  "reservation_term_admitted t \<Longrightarrow>
     k_reservation_term_admitted (t\<lparr>crst_InstanceMatchCriteria := ToLower (crst_InstanceMatchCriteria t)\<rparr>)"
proof -
  have "ToLower ''Open'' = ''open''" "ToLower ''Targeted'' = ''targeted''" by code_simp+
  then show "reservation_term_admitted t \<Longrightarrow> ?thesis"
    by (auto simp: reservation_term_admitted_def k_reservation_term_admitted_def one_of_def opt_string_def)
qed

lemma reservation_terms_carry [admission]:
  assumes "opt_all reservation_terms_admitted (os_CapacityReservationSelectorTerms spec)"
  shows "k_reservation_terms_admitted (karpenterCapacityReservationSelectorTermsFromNodeClassSpec spec) \<longleftrightarrow>
    opt_all (list_all reservation_term_convertible) (os_CapacityReservationSelectorTerms spec)"
  using assms
  by (auto simp: karpenterCapacityReservationSelectorTermsFromNodeClassSpec_def k_reservation_terms_admitted_def
      reservation_terms_admitted_def reservation_term_convertible_def list_all_iff reservation_term_carry
      split: option.splits)

lemma volume_type_carry:
  "one_of [''Standard'', ''IO1'', ''IO2'', ''GP2'', ''SC1'', ''ST1'', ''GP3''] t \<Longrightarrow>
     opt_all (\<lambda>v. v \<in> set [''standard'', ''io1'', ''io2'', ''gp2'', ''sc1'', ''st1'', ''gp3'']) (volumeTypeToKarpenter t)"
proof -
  have "ToLower ''Standard'' = ''standard''" "ToLower ''IO1'' = ''io1''" "ToLower ''IO2'' = ''io2''"
    "ToLower ''GP2'' = ''gp2''" "ToLower ''SC1'' = ''sc1''" "ToLower ''ST1'' = ''st1''" "ToLower ''GP3'' = ''gp3''"
    by code_simp+
  then show "one_of [''Standard'', ''IO1'', ''IO2'', ''GP2'', ''SC1'', ''ST1'', ''GP3''] t \<Longrightarrow> ?thesis"
    by (auto simp: volumeTypeToKarpenter_def one_of_def opt_string_def)
qed

lemma block_device_carry:
  assumes "block_device_admitted bd"
  shows "k_block_device_admitted (karpenterBlockDeviceFromBlockDevice bd) \<longleftrightarrow>
    volume_size_accepted (bd_VolumeSizeGiB bd)"
proof -
  have "volume_size_accepted 0" by (simp add: volume_size_accepted_def)
  with assms volume_size_iff [of "bd_VolumeSizeGiB bd"] volume_type_carry [of "bd_VolumeType bd"] show ?thesis
    by (auto simp: block_device_admitted_def k_block_device_admitted_def karpenterBlockDeviceFromBlockDevice_def
        volumeSizeGiBToQuantity_def ptrIfNonEmpty_def)
qed

lemma default_block_devices_admitted: "k_block_devices_admitted default_block_device_mappings"
  using volume_size_iff [of 120]
  by (simp add: k_block_devices_admitted_def k_block_device_admitted_def default_block_device_mappings_def
      volume_size_accepted_def)

lemma block_devices_carry [admission]:
  assumes "opt_all block_devices_admitted (os_BlockDeviceMappings spec)"
  shows "k_block_devices_admitted
      (let ms = karpenterBlockDeviceMappingFromNodeClassSpec spec in
       if ms = [] then default_block_device_mappings else ms) \<longleftrightarrow>
    opt_all (list_all (\<lambda>m. volume_size_accepted (bd_VolumeSizeGiB (bdm_EBS m)))) (os_BlockDeviceMappings spec)"
proof (cases "os_BlockDeviceMappings spec")
  case None
  then show ?thesis
    by (simp add: karpenterBlockDeviceMappingFromNodeClassSpec_def default_block_devices_admitted)
next
  case (Some ms)
  with assms show ?thesis
    by (auto simp: karpenterBlockDeviceMappingFromNodeClassSpec_def k_block_devices_admitted_def
        block_devices_admitted_def block_device_carry list_all_iff filter_map o_def)
qed

lemma metadata_options_carry [admission]:
  assumes "metadata_options_admitted (os_MetadataOptions spec)"
  shows "opt_all k_metadata_options_admitted (karpenterMetadataOptionsFromNodeClassSpec spec)"
  using assms
  by (auto simp: metadata_options_admitted_def k_metadata_options_admitted_def
      karpenterMetadataOptionsFromNodeClassSpec_def Let_def)

text \<open>Of the kubelet configuration the OpenShift schema leaves the values unchecked: they must be
  quantities, percentages and durations.\<close>

definition kubelet_convertible :: "kubelet_configuration \<Rightarrow> bool" where
  "kubelet_convertible k \<longleftrightarrow>
     opt_all (list_all (\<lambda>(_, v). full_match quantity_pattern v)) (kc_SystemReserved k) \<and>
     opt_all (list_all (\<lambda>(_, v). full_match quantity_pattern v)) (kc_KubeReserved k) \<and>
     opt_all (list_all (\<lambda>(_, v). full_match threshold_pattern v)) (kc_EvictionHard k) \<and>
     opt_all (list_all (\<lambda>(_, v). full_match threshold_pattern v)) (kc_EvictionSoft k) \<and>
     opt_all (list_all (\<lambda>(_, v). ParseDuration v \<noteq> None)) (kc_EvictionSoftGracePeriod k)"

lemma reserved_carry:
  "reserved_admitted m \<Longrightarrow> k_reserved_admitted m \<longleftrightarrow> list_all (\<lambda>(_, v). full_match quantity_pattern v) m"
  by (auto simp: reserved_admitted_def k_reserved_admitted_def list_all_iff)

lemma eviction_carry:
  "eviction_admitted m \<Longrightarrow> k_eviction_admitted m \<longleftrightarrow> list_all (\<lambda>(_, v). full_match threshold_pattern v) m"
  by (auto simp: eviction_admitted_def k_eviction_admitted_def list_all_iff)

lemma opt_all_iff: "opt_all P x \<Longrightarrow> (\<And>a. P a \<Longrightarrow> Q a \<longleftrightarrow> R a) \<Longrightarrow> opt_all Q x \<longleftrightarrow> opt_all R x"
  by (cases x) auto

lemma evictionThresholdMapToStringMap_id [simp]: "evictionThresholdMapToStringMap m = m"
  by (cases m) (simp_all add: evictionThresholdMapToStringMap_def)

text \<open>The keys that are left of the grace periods.\<close>

lemma keys_of_grace_periods:
  assumes "opt_all is_map m"
  shows "keys_of (evictionSoftGracePeriodToDuration m) =
    {k. \<exists>kvs v. m = Some kvs \<and> (k, v) \<in> set kvs \<and> ParseDuration v \<noteq> None}"
proof (cases m)
  case None
  then show ?thesis by (simp add: keys_of_def evictionSoftGracePeriodToDuration_def)
next
  case (Some kvs)
  then have d: "distinct (map fst kvs)" using assms is_map_distinct by auto
  from grace_periods_spec [OF this] obtain r where
    r: "evictionSoftGracePeriodToDuration m = Some r"
      "\<forall>k d. map_of r k = Some d \<longleftrightarrow> (\<exists>v. map_of kvs k = Some v \<and> ParseDuration v = Some d)"
    using Some by auto
  have "fst ` set r = {k. \<exists>v. map_of kvs k = Some v \<and> ParseDuration v \<noteq> None}"
    unfolding dom_map_of_conv_image_fst [symmetric] dom_def using r(2) by auto
  with Some r(1) d show ?thesis by (auto simp: keys_of_def)
qed

lemma keys_subset_iff:
  assumes "distinct (map fst kvs)"
  shows "fst ` set kvs \<subseteq> {k. \<exists>v. (k, v) \<in> set kvs \<and> P v} \<longleftrightarrow> (\<forall>(k, v)\<in>set kvs. P v)"
proof (intro iffI ballI; clarsimp)
  fix k v
  assume sub: "fst ` set kvs \<subseteq> {k. \<exists>v. (k, v) \<in> set kvs \<and> P v}" and kv: "(k, v) \<in> set kvs"
  then have "k \<in> {k. \<exists>v. (k, v) \<in> set kvs \<and> P v}" by force
  then obtain w where w: "(k, w) \<in> set kvs" "P w" by blast
  with eq_key_imp_eq_value [OF assms kv w(1)] show "P v" by simp
qed blast

lemma keys_of_mem: "k \<in> keys_of m \<longleftrightarrow> (\<exists>kvs v. m = Some kvs \<and> (k, v) \<in> set kvs)"
  by (cases m) (force simp: keys_of_def)+

lemma kubelet_carry [admission]:
  assumes "kubelet_admitted dge qof (os_Kubelet spec)"
    and map: "opt_all is_map (kc_EvictionSoftGracePeriod (os_Kubelet spec))"
  shows "opt_all k_kubelet_admitted (karpenterKubeletConfigurationFromNodeClassSpec spec) \<longleftrightarrow>
    kubelet_convertible (os_Kubelet spec)"
proof (cases "HasTypedFields (os_Kubelet spec)")
  case False
  then show ?thesis
    by (simp add: karpenterKubeletConfigurationFromNodeClassSpec_def HasTypedFields_def kubelet_convertible_def)
next
  case True
  define k where "k = os_Kubelet spec"
  have adm: "kubelet_admitted dge qof k" using assms(1) by (simp add: k_def)
  have grace: "keys_of (kc_EvictionSoft k) = keys_of (kc_EvictionSoftGracePeriod k)"
    using adm unfolding kubelet_admitted_def by blast
  note keys = keys_of_grace_periods [OF map [folded k_def]]
  have "keys_of (kc_EvictionSoft k) \<subseteq> keys_of (evictionSoftGracePeriodToDuration (kc_EvictionSoftGracePeriod k)) \<longleftrightarrow>
      opt_all (list_all (\<lambda>(_, v). ParseDuration v \<noteq> None)) (kc_EvictionSoftGracePeriod k)"
  proof (cases "kc_EvictionSoftGracePeriod k")
    case None
    then show ?thesis unfolding grace by (simp add: keys_of_def)
  next
    case (Some kvs)
    then have "distinct (map fst kvs)" using map is_map_distinct by (auto simp: k_def)
    from keys_subset_iff [OF this, of "\<lambda>v. ParseDuration v \<noteq> None"] show ?thesis
      unfolding grace keys unfolding Some by (simp add: keys_of_def list_all_iff)
  qed
  moreover have "keys_of (evictionSoftGracePeriodToDuration (kc_EvictionSoftGracePeriod k)) \<subseteq> keys_of (kc_EvictionSoft k)"
    unfolding grace keys by (auto simp: keys_of_mem)
  moreover have "opt_all (list_all (\<lambda>(k, v). k \<in> set eviction_signals))
      (evictionSoftGracePeriodToDuration (kc_EvictionSoftGracePeriod k))"
  proof -
    have "keys_of (kc_EvictionSoftGracePeriod k) \<subseteq> set eviction_signals"
      using adm by (cases "kc_EvictionSoftGracePeriod k")
        (auto simp: kubelet_admitted_def grace_admitted_def keys_of_def list_all_iff)
    then have "keys_of (evictionSoftGracePeriodToDuration (kc_EvictionSoftGracePeriod k)) \<subseteq> set eviction_signals"
      unfolding keys using keys_of_mem [of _ "kc_EvictionSoftGracePeriod k"] by blast
    then show ?thesis
      by (cases "evictionSoftGracePeriodToDuration (kc_EvictionSoftGracePeriod k)")
        (auto simp: keys_of_def list_all_iff)
  qed
  moreover have "opt_all k_eviction_admitted (kc_EvictionHard k) \<longleftrightarrow>
      opt_all (list_all (\<lambda>(_, v). full_match threshold_pattern v)) (kc_EvictionHard k)"
    "opt_all k_eviction_admitted (kc_EvictionSoft k) \<longleftrightarrow>
      opt_all (list_all (\<lambda>(_, v). full_match threshold_pattern v)) (kc_EvictionSoft k)"
    "opt_all k_reserved_admitted (kc_KubeReserved k) \<longleftrightarrow>
      opt_all (list_all (\<lambda>(_, v). full_match quantity_pattern v)) (kc_KubeReserved k)"
    "opt_all k_reserved_admitted (kc_SystemReserved k) \<longleftrightarrow>
      opt_all (list_all (\<lambda>(_, v). full_match quantity_pattern v)) (kc_SystemReserved k)"
    using adm unfolding kubelet_admitted_def
    by (auto intro!: opt_all_iff eviction_carry reserved_carry)
  moreover have "opt_all (\<lambda>n. 0 \<le> n) (ptrIfNonZero (kc_MaxPods k))"
    "opt_all (\<lambda>n. 0 \<le> n) (ptrIfNonZero (kc_PodsPerCore k))"
    using adm by (auto simp: kubelet_admitted_def pods_admitted_def ptrIfNonZero_def)
  ultimately show ?thesis using True adm
    unfolding karpenterKubeletConfigurationFromNodeClassSpec_def k_kubelet_admitted_def kubelet_convertible_def
      kubelet_admitted_def Let_def k_def [symmetric]
    by (simp add: conj_ac)
qed

text \<open>Tags of the HostedCluster that begin like a cluster tag but do not match the expression of the
  filter are merged, and the schema refuses them.\<close>

definition platform_tags_convertible :: "resource_tag list option \<Rightarrow> bool" where
  "platform_tags_convertible aws \<longleftrightarrow>
     list_all (\<lambda>(k, _). is_restricted_tag k \<or> k \<noteq> [] \<and> \<not> prefix ''kubernetes.io/cluster'' k) (platform_tags aws)"

lemma keys_add_nodeclass_tags:
  "fst ` set (fold (add_nodeclass_tag allow) kvs m) = fst ` set kvs \<union> fst ` set m"
proof (induction kvs arbitrary: m)
  case (Cons kv kvs)
  then show ?case by (auto simp: add_nodeclass_tag_def map_has_def dom_map_of_conv_image_fst [symmetric])
qed simp

lemma keys_merged:
  "fst ` set (tags_of (mergeEC2NodeClassTags specTags aws)) =
     {k \<in> fst ` set (tags_of specTags) \<union> fst ` set (platform_tags aws). \<not> is_restricted_tag k}"
proof -
  have filtered: "fst ` set (fst (filterRestrictedTags m)) = {k \<in> fst ` set m. \<not> is_restricted_tag k}" for m
    by (force simp: filterRestrictedTags_def)
  show ?thesis unfolding tags_of_merge filtered keys_add_nodeclass_tags by simp
qed

lemma restricted_not_admitted: "is_restricted_tag k \<Longrightarrow> \<not> tag_key_admitted k"
  by (auto simp: is_restricted_tag_def restricted_tag_keys_def tag_key_admitted_def matches_cluster_tag_def
      elim!: prefixE)

lemma unrestricted_key: "\<not> is_restricted_tag k \<Longrightarrow>
    tag_key_admitted k \<longleftrightarrow> k \<noteq> [] \<and> \<not> prefix ''kubernetes.io/cluster'' k"
  by (simp add: is_restricted_tag_def restricted_tag_keys_def tag_key_admitted_def)

lemma tags_carry [admission]:
  assumes "opt_all tags_admitted specTags"
  shows "opt_all (list_all (\<lambda>(k, v). tag_key_admitted k)) (mergeEC2NodeClassTags specTags aws) \<longleftrightarrow>
    platform_tags_convertible aws"
proof -
  have all: "opt_all (list_all (\<lambda>(k, v). P k)) m \<longleftrightarrow> (\<forall>k\<in>fst ` set (tags_of m). P k)" for P m
    by (cases m) (auto simp: tags_of_def list_all_iff)
  have "\<forall>k\<in>fst ` set (tags_of specTags). tag_key_admitted k"
    using assms by (cases specTags) (auto simp: tags_admitted_def tags_of_def list_all_iff)
  then show ?thesis
    unfolding all keys_merged platform_tags_convertible_def list_all_iff
    using restricted_not_admitted by (auto simp: unrestricted_key)
qed


section \<open>Selector terms and images the operator supplies\<close>

lemma selector_tags_put:
  assumes "no_empty_entry m" "k \<noteq> []" "v \<noteq> []"
  shows "no_empty_entry (map_put k v m) \<and> length (map_put k v m) \<le> Suc (length m)"
  using assms by (induction k v m rule: map_put.induct) (auto simp: no_empty_entry_def)

lemma default_subnet_term_admitted:
  "subnet_terms_admitted [\<lparr>sst_Tags = DefaultSubnetSelectorTags infraID, sst_ID = []\<rparr>]"
proof -
  let ?m = "map_put ''kubernetes.io/role/internal-elb'' ''1'' []"
  have "no_empty_entry ?m" "length ?m = 1" by (simp_all add: no_empty_entry_def)
  with selector_tags_put [of ?m "''kubernetes.io/cluster/'' @ infraID" "''*''"] show ?thesis
    by (auto simp: subnet_terms_admitted_def subnet_term_admitted_def selector_tags_admitted_def
        opt_string_def DefaultSubnetSelectorTags_def map_of_entries_def map_put_neq_Nil)
qed

lemma default_security_group_term_admitted:
  "infraID \<noteq> [] \<Longrightarrow> security_group_terms_admitted
     [\<lparr>sgst_Tags = DefaultSecurityGroupSelectorTags infraID, sgst_ID = [], sgst_Name = []\<rparr>]"
  by (simp add: security_group_terms_admitted_def security_group_term_admitted_def
      selector_tags_admitted_def no_empty_entry_def opt_string_def DefaultSecurityGroupSelectorTags_def)

lemma copied_terms [simp]:
  "\<lparr>sst_Tags = sst_Tags t, sst_ID = sst_ID t\<rparr> = t"
  "\<lparr>sgst_Tags = sgst_Tags g, sgst_ID = sgst_ID g, sgst_Name = sgst_Name g\<rparr> = g"
  by (cases t, simp) (cases g, simp)

text \<open>The AMI labels of a user data Secret name AMIs.\<close>

definition ami_labels_ok :: "secret \<Rightarrow> bool" where
  "ami_labels_ok s \<longleftrightarrow> list_all (\<lambda>arch.
     opt_all (\<lambda>i. i \<noteq> [] \<and> found_in (id_pattern ''ami-'') i)
       (map_of (md_Labels (sec_Meta s)) (archToAMILabelKey arch))) supportedArchitectures"

lemma secret_ami_terms_admitted:
  assumes "ami_labels_ok s" "amiSelectorTermsFromUserDataSecret s = Inr amis"
  shows "k_ami_terms_admitted amis"
  using assms unfolding ami_terms_spec
  by (auto simp: k_ami_terms_admitted_def ami_labels_ok_def supportedArchitectures_def archToAMILabelKey_def
      ami_of_id_def split: option.splits)

lemma rollout_ami_terms_admitted:
  assumes "rollout_fields ec2 onc hcp s = Inr (userData, amis)" "ami_labels_ok s"
    and "ec_AMISelectorTerms (ec2_Spec ec2) = [] \<or> ec2_admitted (ec2_Spec ec2)"
  shows "k_ami_terms_admitted amis"
  using assms secret_ami_terms_admitted [of s]
  by (auto simp: rollout_fields_def ec2_admitted_def split: if_splits sum.splits)


section \<open>Properties\<close>

definition ec2_convertible :: "openshift_ec2_spec \<Rightarrow> resource_tag list option \<Rightarrow> bool" where
  "ec2_convertible spec aws \<longleftrightarrow>
     opt_all (list_all (\<lambda>m. volume_size_accepted (bd_VolumeSizeGiB (bdm_EBS m)))) (os_BlockDeviceMappings spec) \<and>
     opt_all (list_all reservation_term_convertible) (os_CapacityReservationSelectorTerms spec) \<and>
     kubelet_convertible (os_Kubelet spec) \<and> platform_tags_convertible aws"

lemma desired_ec2_spec_admitted:
  assumes "openshift_ec2_admitted dge qof (onc_Spec onc)" "hcp_InfraID hcp \<noteq> []"
    and "opt_all is_map (kc_EvictionSoftGracePeriod (os_Kubelet (onc_Spec onc)))"
    and "k_ami_terms_admitted amis"
  shows "ec2_admitted (desired_ec2_spec userData amis onc hcp) \<longleftrightarrow> ec2_convertible (onc_Spec onc) (hcp_AWS hcp)"
proof -
  define spec where "spec = onc_Spec onc"
  note adm = assms(1,3) [folded spec_def, unfolded openshift_ec2_admitted_def]
  let ?d = "desired_ec2_spec userData amis onc hcp"
  have "k_subnet_terms_admitted (ec_SubnetSelectorTerms ?d)"
    using adm default_subnet_term_admitted [THEN subnet_terms_carry, of "hcp_InfraID hcp"]
    by (cases "os_SubnetSelectorTerms spec")
      (simp_all add: desired_ec2_spec_def Let_def subnet_terms_carry flip: spec_def)
  moreover have "k_security_group_terms_admitted (ec_SecurityGroupSelectorTerms ?d)"
    using adm default_security_group_term_admitted [THEN security_group_terms_carry, OF assms(2)]
    by (cases "os_SecurityGroupSelectorTerms spec")
      (simp_all add: desired_ec2_spec_def Let_def security_group_terms_carry flip: spec_def)
  moreover have "opt_all (\<lambda>p. p = ''RAID0'') (ec_InstanceStorePolicy ?d)"
    using adm by (auto simp: desired_ec2_spec_def Let_def one_of_def opt_string_def
        karpenterInstanceStorePolicyFromNodeClassSpec_def simp flip: spec_def)
  moreover have "opt_all (\<lambda>p. p \<noteq> []) (ec_InstanceProfile ?d)"
    by (simp add: desired_ec2_spec_def Let_def ptrIfNonEmpty_def)
  moreover have "k_block_devices_admitted (ec_BlockDeviceMappings ?d) \<longleftrightarrow>
      opt_all (list_all (\<lambda>m. volume_size_accepted (bd_VolumeSizeGiB (bdm_EBS m)))) (os_BlockDeviceMappings spec)"
    using adm block_devices_carry [of spec] by (simp add: desired_ec2_spec_def Let_def flip: spec_def)
  ultimately show ?thesis
    using adm assms(4) reservation_terms_carry [of spec] metadata_options_carry [of spec] tags_carry
      kubelet_carry [of dge qof spec]
    by (simp add: ec2_admitted_def ec2_convertible_def desired_ec2_spec_def Let_def zero_ec2_spec_def flip: spec_def)
qed

text \<open>C11: an OpenshiftEC2NodeClass that the API server admits is converted into an EC2NodeClass that it
  admits as well, with four exceptions, which are exactly these: a reservation term that selects by owner
  alone; a volume of more than 59000 GiB or of a number of TiB the size expression skips (such as 18);
  kubelet values that are no quantity, percentage or duration; and a tag of the HostedCluster that begins
  with \<^verbatim>\<open>kubernetes.io/cluster\<close> but is not filtered. In these cases every reconcile of the
  NodeClass fails although its spec was accepted. (The Secret names AMIs, and the stored EC2NodeClass is
  new or was admitted.)\<close>

theorem ec2_admission:
  assumes "openshift_ec2_admitted dge qof (onc_Spec onc)" and "hcp_InfraID hcp \<noteq> []"
    and "opt_all is_map (kc_EvictionSoftGracePeriod (os_Kubelet (onc_Spec onc)))"
    and "ami_labels_ok s" and "ec_AMISelectorTerms (ec2_Spec ec2) = [] \<or> ec2_admitted (ec2_Spec ec2)"
    and "reconcileEC2NodeClass onc hcp s ec2 = Inr b"
  shows "ec2_admitted (ec2_Spec b) \<longleftrightarrow> ec2_convertible (onc_Spec onc) (hcp_AWS hcp)"
  using assms desired_ec2_spec_admitted rollout_ami_terms_admitted
  by (auto simp: reconcileEC2NodeClass_Inr)

text \<open>The default NodeClass is admitted, and so is what it is converted into, unless a tag of the
  HostedCluster stands in the way.\<close>

lemma zero_kubelet_admitted: "kubelet_admitted dge qof zero_kubelet"
  by (simp add: kubelet_admitted_def zero_kubelet_def pods_admitted_def gc_thresholds_ordered_def keys_of_def)

lemma zero_metadata_options_admitted: "metadata_options_admitted (os_MetadataOptions zero_openshift_ec2_spec)"
  by (simp add: metadata_options_admitted_def zero_openshift_ec2_spec_def one_of_def opt_string_def)

lemma default_spec_admitted:
  assumes "infraID \<noteq> []" "aws_default_mutate infraID n = Inr onc"
  shows "openshift_ec2_admitted dge qof (onc_Spec onc)"
  using assms default_subnet_term_admitted [of infraID] default_security_group_term_admitted [of infraID]
    zero_metadata_options_admitted zero_kubelet_admitted [of dge qof]
  by (auto simp: aws_default_mutate_def openshift_ec2_admitted_def zero_openshift_ec2_spec_def one_of_def opt_string_def)

text \<open>The default NodeClass the operator creates is always accepted: by the schema of the
  OpenshiftEC2NodeClass, and after its conversion by that of the EC2NodeClass, when the tags of the
  HostedCluster are convertible.\<close>

theorem default_nodeclass_admitted:
  assumes "hcp_InfraID hcp \<noteq> []" and "aws_default_mutate (hcp_InfraID hcp) n = Inr onc"
    and "ami_labels_ok s" and "ec_AMISelectorTerms (ec2_Spec ec2) = [] \<or> ec2_admitted (ec2_Spec ec2)"
    and "reconcileEC2NodeClass onc hcp s ec2 = Inr b"
  shows "openshift_ec2_admitted dge qof (onc_Spec onc) \<and>
    (ec2_admitted (ec2_Spec b) \<longleftrightarrow> platform_tags_convertible (hcp_AWS hcp))"
proof -
  have "ec2_convertible (onc_Spec onc) (hcp_AWS hcp) \<longleftrightarrow> platform_tags_convertible (hcp_AWS hcp)"
    and "opt_all is_map (kc_EvictionSoftGracePeriod (os_Kubelet (onc_Spec onc)))"
    using assms(2) by (auto simp: aws_default_mutate_def ec2_convertible_def zero_openshift_ec2_spec_def
        kubelet_convertible_def zero_kubelet_def)
  with default_spec_admitted [OF assms(1,2), of dge qof] assms desired_ec2_spec_admitted
    rollout_ami_terms_admitted [OF _ assms(3,4)] show ?thesis
    by (auto simp: reconcileEC2NodeClass_Inr)
qed

text \<open>An admitted spec that selects a reservation by its owner and asks for 18 TiB; neither is
  converted into an admitted field.\<close>

definition gap_spec :: openshift_ec2_spec where
  "gap_spec = zero_openshift_ec2_spec
     \<lparr>os_CapacityReservationSelectorTerms := Some
        [\<lparr>crst_Tags = [], crst_ID = [], crst_OwnerID = ''123456789012'', crst_InstanceMatchCriteria = []\<rparr>],
      os_BlockDeviceMappings := Some
        [\<lparr>bdm_DeviceName = ''/dev/xvda'', bdm_EBS = \<lparr>bd_DeleteOnTermination = [],
          bd_Encrypted = [], bd_IOPS = None, bd_KMSKeyID = [], bd_SnapshotID = [], bd_Throughput = None,
          bd_VolumeSizeGiB = 18432, bd_VolumeType = ''IO2''\<rparr>, bdm_RootVolume = []\<rparr>]\<rparr>"

lemma gap_spec_admitted: "openshift_ec2_admitted dge qof gap_spec"
proof -
  have "full_match (Exactly 12 digit) ''123456789012''" by code_simp
  moreover have "os_Kubelet gap_spec = zero_kubelet" "os_MetadataOptions gap_spec = os_MetadataOptions zero_openshift_ec2_spec"
    by (simp_all add: gap_spec_def zero_openshift_ec2_spec_def)
  moreover have "char_count ''/dev/xvda'' \<le> 256" by (simp add: char_count_def)
  ultimately show ?thesis
    using zero_kubelet_admitted [of dge qof] zero_metadata_options_admitted
    unfolding openshift_ec2_admitted_def
    by (simp add: gap_spec_def reservation_terms_admitted_def reservation_term_admitted_def
        block_devices_admitted_def block_device_admitted_def one_of_def opt_string_def
        selector_tags_admitted_def no_empty_entry_def zero_openshift_ec2_spec_def)
qed

text \<open>The rules against mixed terms do not reject a mixed term that has an unmixed one beside it.\<close>

lemma mixed_term_admitted:
  "subnet_terms_admitted
     [\<lparr>sst_Tags = [(''a'', ''b'')], sst_ID = ''subnet-1''\<rparr>, \<lparr>sst_Tags = [], sst_ID = ''subnet-2''\<rparr>]"
  by code_simp

text \<open>Witnesses.\<close>

abbreviation infra_hcp :: hosted_control_plane where
  "infra_hcp \<equiv> (new_hcp ''ns'' ''h'')\<lparr>hcp_InfraID := ''infra''\<rparr>"

lemma example_ami_labels: "ami_labels_ok example_secret"
proof -
  have "found_in (id_pattern ''ami-'') ''ami-1''" by code_simp
  then show ?thesis
    by (simp add: ami_labels_ok_def supportedArchitectures_def archToAMILabelKey_def)
qed

lemma reconcile_infra_example:
  "reconcileEC2NodeClass onc infra_hcp example_secret (new_ec2_nodeclass [] ''n'') =
     Inr ((new_ec2_nodeclass [] ''n'')\<lparr>ec2_Spec :=
       desired_ec2_spec (Some ''ignition'') [ami_of_id ''ami-1''] onc infra_hcp\<rparr>)"
  by (simp add: reconcileEC2NodeClass_def rollout_fields_def new_ec2_nodeclass_def zero_ec2_spec_def
      amiSelectorTermsFromUserDataSecret_def supportedArchitectures_def archToAMILabelKey_def
      List.map_filter_simps map_get_def)

lemma ec2_admission_witness:
  "openshift_ec2_admitted (\<lambda>_ _. True) (\<lambda>_. None) gap_spec \<and>
   \<not> ec2_admitted (desired_ec2_spec (Some ''ignition'') [ami_of_id ''ami-1'']
     ((new_openshift_ec2_nodeclass ''n'')\<lparr>onc_Spec := gap_spec\<rparr>) infra_hcp)"
proof -
  let ?onc = "(new_openshift_ec2_nodeclass ''n'')\<lparr>onc_Spec := gap_spec\<rparr>"
  have "opt_all is_map (kc_EvictionSoftGracePeriod (os_Kubelet gap_spec))"
    by (simp add: gap_spec_def zero_openshift_ec2_spec_def zero_kubelet_def)
  moreover have "\<not> ec2_convertible gap_spec None"
    by (simp add: ec2_convertible_def gap_spec_def reservation_term_convertible_def)
  ultimately show ?thesis
    using ec2_admission [of "\<lambda>_ _. True" "\<lambda>_. None" ?onc infra_hcp example_secret "new_ec2_nodeclass [] ''n''",
        OF _ _ _ example_ami_labels _ reconcile_infra_example] gap_spec_admitted
    by (simp add: new_ec2_nodeclass_def zero_ec2_spec_def new_hcp_def)
qed

lemma default_nodeclass_admitted_witness:
  "\<exists>onc. aws_default_mutate ''infra'' (new_openshift_ec2_nodeclass ''default'') = Inr onc \<and>
     openshift_ec2_admitted (\<lambda>_ _. True) (\<lambda>_. None) (onc_Spec onc) \<and>
     ec2_admitted (desired_ec2_spec (Some ''ignition'') [ami_of_id ''ami-1''] onc infra_hcp)"
proof -
  obtain onc where onc: "aws_default_mutate ''infra'' (new_openshift_ec2_nodeclass ''default'') = Inr onc"
    by (simp add: aws_default_mutate_def)
  moreover have "platform_tags_convertible None" by (simp add: platform_tags_convertible_def platform_tags_def)
  ultimately show ?thesis
    using default_nodeclass_admitted [of infra_hcp "new_openshift_ec2_nodeclass ''default''" onc example_secret
        "new_ec2_nodeclass [] ''n''", OF _ _ example_ami_labels _ reconcile_infra_example]
    by (simp add: new_ec2_nodeclass_def zero_ec2_spec_def new_hcp_def)
qed

end
