(* ===== verification/Azure_Admission.thy ===== *)
theory Azure_Admission
  imports Ec2_Admission Azure_Controller
begin

text \<open>
  The validation rules of the OpenShiftAzureNodeClass (the markers of
  \<^verbatim>\<open>api/karpenter/v1alpha1/openshiftazurenodeclass_types.go\<close>) and of the AKSNodeClass
  (version \<^verbatim>\<open>v1beta1\<close> of
  \<^verbatim>\<open>pkg/assets/azure/karpenter.azure.com_aksnodeclasses.yaml\<close>), and that whatever passes the
  first is converted into something that passes the second. The conventions are those of
  \<open>Ec2_Admission\<close>.
\<close>


section \<open>OpenShiftAzureNodeClass\<close>

text \<open>\<^verbatim>\<open>self.split('/')\<close>\<close>

fun Split :: "char \<Rightarrow> string \<Rightarrow> string list" where
  "Split c [] = [[]]"
| "Split c (x # s) =
     (if x = c then [] # Split c s
      else case Split c s of [] \<Rightarrow> [[x]] | p # ps \<Rightarrow> (x # p) # ps)"

abbreviation not_slash :: pattern where
  "not_slash \<equiv> Class [(CHR 0x00, CHR ''.''), (CHR ''0'', CHR 0xFF)]"

definition vnet_format :: pattern where
  "vnet_format = Cats
     [Lit ''/subscriptions/'', Many1 not_slash, Lit ''/resourceGroups/'', Many1 not_slash,
      Lit ''/providers/Microsoft.Network/virtualNetworks/'', Many1 not_slash, Lit ''/subnets/'', Many1 not_slash]"

definition uuid_pattern :: pattern where
  "uuid_pattern =
     (let hex = Class [(CHR ''0'', CHR ''9''), (CHR ''a'', CHR ''f''), (CHR ''A'', CHR ''F'')] in
      Cats [Exactly 8 hex, Lit ''-'', Exactly 3 (Cat (Exactly 4 hex) (Lit ''-'')), Exactly 12 hex])"

definition name_chars :: "string \<Rightarrow> (char \<times> char) list" where
  "name_chars extra = [(CHR ''a'', CHR ''z''), (CHR ''A'', CHR ''Z''), (CHR ''0'', CHR ''9'')] @ map (\<lambda>c. (c, c)) extra"

definition resource_group_pattern :: pattern where
  "resource_group_pattern = Cat (Class (name_chars ''-_().'')) (UpTo 89 (Class (name_chars ''-_().'')))"

definition vnet_name_pattern :: pattern where
  "vnet_name_pattern = Cat (Exactly 2 (Class (name_chars ''-_.''))) (UpTo 62 (Class (name_chars ''-_.'')))"

definition subnet_name_pattern :: pattern where
  "subnet_name_pattern = Cat (Class (name_chars [])) (UpTo 79 (Class (name_chars ''-_.'')))"

definition vnet_subnet_admitted :: "string \<Rightarrow> bool" where
  "vnet_subnet_admitted s \<longleftrightarrow>
     (let parts = Split CHR ''/'' s in
      length parts = 11 \<and> full_match vnet_format s \<and>
      full_match uuid_pattern (parts ! 2) \<and>
      full_match resource_group_pattern (parts ! 4) \<and> \<not> suffix ''.'' (parts ! 4) \<and>
      full_match vnet_name_pattern (parts ! 8) \<and> \<not> suffix ''.'' (parts ! 8) \<and> \<not> suffix ''-'' (parts ! 8) \<and>
      full_match subnet_name_pattern (parts ! 10) \<and> \<not> suffix ''.'' (parts ! 10) \<and> \<not> suffix ''-'' (parts ! 10)) \<and>
     1 \<le> char_count s \<and> char_count s \<le> 355"

definition azure_tag_admitted :: "string \<Rightarrow> string \<Rightarrow> bool" where
  "azure_tag_admitted k v \<longleftrightarrow>
     1 \<le> char_count k \<and> char_count k \<le> 512 \<and> list_all (\<lambda>c. c \<notin> set ''<>%&?/'') k \<and>
     CHR 0x5C \<notin> set k \<and> char_count v \<le> 256 \<and>
     \<not> prefix ''karpenter.sh_'' (ToLower k) \<and> \<not> prefix ''karpenter.azure.com_'' (ToLower k) \<and>
     ToLower k \<noteq> ''compute.aks.billing''"

definition azure_tags_admitted :: "string gomap \<Rightarrow> bool" where
  "azure_tags_admitted tags \<longleftrightarrow>
     1 \<le> length tags \<and> length tags \<le> 47 \<and> list_all (\<lambda>(k, v). azure_tag_admitted k v) tags"

definition azure_admitted :: "cel_double_ge \<Rightarrow> cel_quantity \<Rightarrow> openshift_azure_spec \<Rightarrow> bool" where
  "azure_admitted dge qof spec \<longleftrightarrow>
     opt_string vnet_subnet_admitted (as_VNETSubnetID spec) \<and>
     (as_OSDiskSizeGiB spec = 0 \<or> 30 \<le> as_OSDiskSizeGiB spec \<and> as_OSDiskSizeGiB spec \<le> 2048) \<and>
     opt_all azure_tags_admitted (as_Tags spec) \<and>
     kubelet_admitted dge qof (as_Kubelet spec) \<and>
     (kc_MaxPods (as_Kubelet spec) = 0 \<or>
       10 \<le> kc_MaxPods (as_Kubelet spec) \<and> kc_MaxPods (as_Kubelet spec) \<le> 250) \<and>
     one_of [''Enabled'', ''Disabled''] (as_HostEncryption spec) \<and>
     opt_string (\<lambda>s. full_match semver_pattern s \<and> 5 \<le> char_count s \<and> char_count s \<le> 64) (as_Version spec)"


section \<open>AKSNodeClass\<close>

text \<open>A literal under \<^verbatim>\<open>(?i)\<close>, for ASCII letters.\<close>

definition either_case :: "char \<Rightarrow> pattern" where
  "either_case c = Class [(char_lower c, char_lower c), (char_upper c, char_upper c)]"

definition LitI :: "string \<Rightarrow> pattern" where
  "LitI s = Cats (map either_case s)"

definition aks_vnet_pattern :: pattern where
  "aks_vnet_pattern = Cats
     [LitI ''/subscriptions/'', Many1 not_slash, LitI ''/resourceGroups/'',
      UpTo 89 (Class (name_chars ''_-().'')), Class (name_chars ''_-()''),
      LitI ''/providers/Microsoft.Network/virtualNetworks/'', Many1 not_slash, LitI ''/subnets/'', Many1 not_slash]"

definition aks_tag_admitted :: "string \<Rightarrow> string \<Rightarrow> bool" where
  "aks_tag_admitted k v \<longleftrightarrow>
     char_count k \<le> 512 \<and> list_all (\<lambda>c. c \<notin> set ''<>%&?'') k \<and> CHR 0x5C \<notin> set k \<and> char_count v \<le> 256"

definition marketplace_image_admitted :: "marketplace_image \<Rightarrow> bool" where
  "marketplace_image_admitted mi \<longleftrightarrow>
     mi_Offer mi \<noteq> [] \<and> mi_Publisher mi \<noteq> [] \<and> mi_SKU mi \<noteq> [] \<and> mi_Version mi \<noteq> []"

definition aks_admitted :: "aks_spec \<Rightarrow> bool" where
  "aks_admitted spec \<longleftrightarrow>
     opt_all (\<lambda>f. f \<in> set [''Ubuntu'', ''Ubuntu2204'', ''Ubuntu2404'', ''AzureLinux'']) (aks_ImageFamily spec) \<and>
     opt_all marketplace_image_admitted (aks_MarketplaceImage spec) \<and>
     opt_all (\<lambda>n. 10 \<le> n \<and> n \<le> 250) (aks_MaxPods spec) \<and>
     opt_all (\<lambda>n. 30 \<le> n \<and> n \<le> 2048) (aks_OSDiskSizeGB spec) \<and>
     opt_all (list_all (\<lambda>(k, v). aks_tag_admitted k v)) (aks_Tags spec) \<and>
     opt_all (\<lambda>s. char_count s \<le> 65536) (aks_UserData spec) \<and>
     opt_all (full_match aks_vnet_pattern) (aks_VNETSubnetID spec) \<and>
     (aks_FIPSMode spec = Some ''FIPS'' \<longrightarrow> aks_ImageFamily spec \<noteq> None \<and>
        aks_ImageFamily spec \<noteq> Some ''Ubuntu2204'' \<and> aks_ImageFamily spec \<noteq> Some ''Ubuntu2404'')"


section \<open>The subnet\<close>

lemma matches_Cats_Cons: "matches (Cats (r # rs)) s \<longleftrightarrow> (\<exists>u v. s = u @ v \<and> matches r u \<and> matches (Cats rs) v)"
  by (auto simp: matches_Cat_iff)

lemma matches_Cats_append:
  "matches r s \<Longrightarrow> matches (Cats rs) t \<Longrightarrow> matches (Cats (r # rs)) (s @ t)"
  unfolding matches_Cats_Cons by blast

lemma Split_part: "c \<notin> set u \<Longrightarrow> Split c (u @ c # v) = u # Split c v"
  by (induction u) auto

lemma Split_last: "c \<notin> set u \<Longrightarrow> Split c u = [u]"
  by (induction u) auto

lemma matches_not_slash: "matches (Many1 not_slash) s \<longleftrightarrow> s \<noteq> [] \<and> CHR ''/'' \<notin> set s"
proof -
  have "in_class c [(CHR 0x00, CHR ''.''), (CHR ''0'', CHR 0xFF)] \<longleftrightarrow> c \<noteq> CHR ''/''" for c
  proof -
    have "(of_char c :: nat) < 256" by simp
    then have le: "(of_char c :: nat) \<le> 255" by linarith
    have "in_class c [(CHR 0x00, CHR ''.''), (CHR ''0'', CHR 0xFF)] \<longleftrightarrow> (of_char c :: nat) \<noteq> 47"
      unfolding in_class_def by (auto simp: le)
    also have "\<dots> \<longleftrightarrow> c \<noteq> CHR ''/''"
      using of_char_eq_iff [of c "CHR ''/''", where 'a = nat] by simp
    finally show ?thesis .
  qed
  then show ?thesis by (cases s) (auto simp: matches_Many_Class)
qed

text \<open>A subnet in the format is put together from four names.\<close>

lemma vnet_format_parts:
  assumes "matches vnet_format s"
  obtains a b c d where
    "s = ''/subscriptions/'' @ a @ ''/resourceGroups/'' @ b @ ''/providers/Microsoft.Network/virtualNetworks/'' @ c @ ''/subnets/'' @ d"
    "matches (Many1 not_slash) a" "matches (Many1 not_slash) b" "matches (Many1 not_slash) c"
    "matches (Many1 not_slash) d"
  using assms unfolding vnet_format_def matches_Cats_Cons matches_Lit by (auto simp del: matches_Class_Cat)

lemma vnet_format_intro:
  assumes "matches (Many1 not_slash) a" "matches (Many1 not_slash) b" "matches (Many1 not_slash) c"
    "matches (Many1 not_slash) d"
  shows "matches vnet_format (''/subscriptions/'' @ a @ ''/resourceGroups/'' @ b @
    ''/providers/Microsoft.Network/virtualNetworks/'' @ c @ ''/subnets/'' @ d)"
proof -
  note lit = matches_Lit [THEN iffD2, OF refl]
  have "matches (Cats []) []" by simp
  note matches_Cats_append [OF lit matches_Cats_append [OF assms(1) matches_Cats_append [OF lit
    matches_Cats_append [OF assms(2) matches_Cats_append [OF lit matches_Cats_append [OF assms(3)
    matches_Cats_append [OF lit matches_Cats_append [OF assms(4) this]]]]]]]]
  then show ?thesis unfolding vnet_format_def by (simp only: append_Nil2)
qed

lemma Split_vnet:
  assumes "CHR ''/'' \<notin> set a" "CHR ''/'' \<notin> set b" "CHR ''/'' \<notin> set c" "CHR ''/'' \<notin> set d"
  shows "Split CHR ''/'' (''/subscriptions/'' @ a @ ''/resourceGroups/'' @ b @
      ''/providers/Microsoft.Network/virtualNetworks/'' @ c @ ''/subnets/'' @ d) =
    [[], ''subscriptions'', a, ''resourceGroups'', b, ''providers'', ''Microsoft.Network'', ''virtualNetworks'',
     c, ''subnets'', d]"
  using assms by (simp add: Split_part Split_last)

lemma in_class_either_case: "in_class c [(char_lower c, char_lower c), (char_upper c, char_upper c)]"
proof -
  have "char_lower c = c \<or> char_upper c = c"
    unfolding char_lower_def char_upper_def Let_def by auto
  then show ?thesis by (auto simp: in_class_def)
qed

lemma matches_LitI: "matches (LitI s) s"
  by (induction s) (simp_all add: LitI_def either_case_def in_class_either_case)

lemma in_class_name_chars_append:
  "in_class c (name_chars (xs @ ys)) \<longleftrightarrow> in_class c (name_chars xs) \<or> in_class c (name_chars ys)"
  by (auto simp: in_class_def name_chars_def)

lemma in_class_name_chars_cong: "set xs = set ys \<Longrightarrow> in_class c (name_chars xs) \<longleftrightarrow> in_class c (name_chars ys)"
  by (auto simp: in_class_def name_chars_def list_ex_iff)

text \<open>A resource group of at most 90 characters that does not end with a period.\<close>

lemma resource_group_carry:
  assumes "matches resource_group_pattern b" "\<not> suffix ''.'' b"
  shows "matches (Cat (UpTo 89 (Class (name_chars ''_-().''))) (Class (name_chars ''_-()''))) b"
proof -
  have cls: "in_class c (name_chars ''-_().'') \<longleftrightarrow> in_class c (name_chars ''_-().'')" for c
    by (rule in_class_name_chars_cong) auto
  from assms(1) have b: "b \<noteq> []" "length b \<le> 90" "\<forall>c\<in>set b. in_class c (name_chars ''_-().'')"
    by (cases b; auto simp: resource_group_pattern_def matches_UpTo_Class cls)+
  then obtain u c where u: "b = u @ [c]" by (metis rev_exhaust)
  have "c \<noteq> CHR ''.''" using assms(2) u by (auto simp: suffix_def)
  moreover have "in_class c (name_chars ''_-().'') \<longleftrightarrow> in_class c (name_chars ''_-()'') \<or> in_class c (name_chars ''.'')"
    using in_class_name_chars_append [of c "''_-()''" "''.''"] by simp
  moreover have "in_class c (name_chars ''.'') \<longleftrightarrow> in_class c (name_chars []) \<or> c = CHR ''.''"
    by (auto simp: in_class_def name_chars_def of_char_eq_iff [of c "CHR ''.''", where 'a = nat, symmetric])
  moreover have "in_class c (name_chars []) \<Longrightarrow> in_class c (name_chars ''_-()'')"
    by (auto simp: in_class_def name_chars_def)
  ultimately have "in_class c (name_chars ''_-()'')" using b u by auto
  with b u show ?thesis unfolding matches_Cat_iff
    by (intro exI [of _ u] exI [of _ "[c]"]) (auto simp: matches_UpTo_Class)
qed

lemma vnet_carry:
  assumes "vnet_subnet_admitted s" shows "full_match aks_vnet_pattern s"
proof -
  from assms have f: "matches vnet_format s" and rg: "matches resource_group_pattern (Split CHR ''/'' s ! 4)"
    "\<not> suffix ''.'' (Split CHR ''/'' s ! 4)"
    by (simp_all add: vnet_subnet_admitted_def Let_def full_iff)
  from f obtain a b c d where s: "s = ''/subscriptions/'' @ a @ ''/resourceGroups/'' @ b @
      ''/providers/Microsoft.Network/virtualNetworks/'' @ c @ ''/subnets/'' @ d"
    and m: "matches (Many1 not_slash) a" "matches (Many1 not_slash) b" "matches (Many1 not_slash) c"
      "matches (Many1 not_slash) d"
    by (elim vnet_format_parts)
  have "Split CHR ''/'' s ! 4 = b"
    using m unfolding s matches_not_slash by (simp add: Split_vnet del: append.simps)
  with rg have b: "matches (Cat (UpTo 89 (Class (name_chars ''_-().''))) (Class (name_chars ''_-()''))) b"
    by (intro resource_group_carry) simp_all
  then obtain b1 b2 where "b = b1 @ b2" "matches (UpTo 89 (Class (name_chars ''_-().''))) b1"
    "matches (Class (name_chars ''_-()'')) b2" unfolding matches_Cat_iff by blast
  moreover have "matches (Cats []) []" by simp
  note matches_Cats_append [OF matches_LitI matches_Cats_append [OF m(1)
    matches_Cats_append [OF matches_LitI matches_Cats_append [OF calculation(2) matches_Cats_append [OF calculation(3)
    matches_Cats_append [OF matches_LitI matches_Cats_append [OF m(3)
    matches_Cats_append [OF matches_LitI matches_Cats_append [OF m(4) this]]]]]]]]]
  ultimately show ?thesis unfolding full_iff aks_vnet_pattern_def s by (simp only: append.assoc append_Nil2)
qed


section \<open>Properties\<close>

text \<open>What the Secret must hold: an image, and user data within the limit.\<close>

definition azure_secret_ok :: "secret \<Rightarrow> bool" where
  "azure_secret_ok s \<longleftrightarrow> marketplace_image_admitted (marketplaceImageFromUserDataSecret s) \<and>
     char_count (map_get (sec_Data s) ''value'') \<le> 65536"

lemma azure_tags_carry: "azure_tags_admitted m \<Longrightarrow> list_all (\<lambda>(k, v). aks_tag_admitted k v) m"
  unfolding azure_tags_admitted_def list_all_iff
  by (auto simp: azure_tag_admitted_def aks_tag_admitted_def list_all_iff)

lemma aks_admitted_rollout:
  "aks_admitted d \<Longrightarrow> aks_admitted e \<Longrightarrow>
     aks_admitted (d\<lparr>aks_UserData := aks_UserData e, aks_MarketplaceImage := aks_MarketplaceImage e\<rparr>)"
  unfolding aks_admitted_def by simp

lemma aks_desired_admitted:
  assumes "azure_admitted dge qof spec" "azure_secret_ok s"
  shows "aks_admitted ((aksNodeClassSpec spec)\<lparr>aks_UserData := Some (map_get (sec_Data s) ''value''),
    aks_MarketplaceImage := Some (marketplaceImageFromUserDataSecret s)\<rparr>)"
proof -
  have "opt_all (list_all (\<lambda>(k, v). aks_tag_admitted k v)) (as_Tags spec)"
    using assms(1) azure_tags_carry by (cases "as_Tags spec") (simp_all add: azure_admitted_def)
  moreover have "opt_all (full_match aks_vnet_pattern) (aks_VNETSubnetID (aksNodeClassSpec spec))"
    using assms(1) vnet_carry by (auto simp: azure_admitted_def opt_string_def aksNodeClassSpec_def)
  moreover have "opt_all (\<lambda>n. 10 \<le> n \<and> n \<le> 250) (aks_MaxPods (aksNodeClassSpec spec))"
    "opt_all (\<lambda>n. 30 \<le> n \<and> n \<le> 2048) (aks_OSDiskSizeGB (aksNodeClassSpec spec))"
    using assms(1) by (auto simp: azure_admitted_def aksNodeClassSpec_def)
  ultimately show ?thesis
    using assms(2)
    by (simp add: aks_admitted_def azure_secret_ok_def) (simp add: aksNodeClassSpec_def zero_aks_spec_def)
qed

text \<open>C12: an OpenShiftAzureNodeClass that the API server admits is always converted into an AKSNodeClass
  that it admits as well: there is no spec that is accepted and then fails every reconcile. (The Secret
  names an image and its user data is not too long; the stored AKSNodeClass is new or was admitted.)\<close>

theorem azure_admission:
  assumes "azure_admitted dge qof (anc_Spec nodeClass)" and "azure_secret_ok s"
    and "aks_UserData (aks_Spec aks) = None \<or> aks_admitted (aks_Spec aks)"
    and "aks_mutate nodeClass hcp s aks = Inr b"
  shows "aks_admitted (aks_Spec b)"
proof -
  let ?desired = "(aksNodeClassSpec (anc_Spec nodeClass))
    \<lparr>aks_UserData := Some (map_get (sec_Data s) ''value''),
     aks_MarketplaceImage := Some (marketplaceImageFromUserDataSecret s)\<rparr>"
  have "aks_Spec b = ?desired \<or> aks_UserData (aks_Spec aks) \<noteq> None \<and> aks_Spec b = ?desired
      \<lparr>aks_UserData := aks_UserData (aks_Spec aks), aks_MarketplaceImage := aks_MarketplaceImage (aks_Spec aks)\<rparr>"
    using assms(4) by (auto simp: aks_mutate_def Let_def split: sum.splits if_splits)
  with aks_desired_admitted [OF assms(1,2)] aks_admitted_rollout [OF aks_desired_admitted [OF assms(1,2)]]
    assms(3) show ?thesis by metis
qed

text \<open>Witness: a NodeClass with a subnet of its own.\<close>

abbreviation example_subscription :: string where
  "example_subscription \<equiv> ''01234567-89ab-cdef-0123-456789abcdef''"

definition example_vnet :: string where
  "example_vnet = ''/subscriptions/'' @ example_subscription @ ''/resourceGroups/'' @ ''rg'' @
     ''/providers/Microsoft.Network/virtualNetworks/'' @ ''vnet'' @ ''/subnets/'' @ ''default''"

lemma example_vnet_admitted: "vnet_subnet_admitted example_vnet"
proof -
  have names: "full_match uuid_pattern example_subscription" "full_match resource_group_pattern ''rg''"
    "full_match vnet_name_pattern ''vnet''" "full_match subnet_name_pattern ''default''"
    by code_simp+
  have "full_match vnet_format example_vnet"
    unfolding full_iff example_vnet_def by (rule vnet_format_intro; unfold matches_not_slash, simp)
  moreover have "Split CHR ''/'' example_vnet = [[], ''subscriptions'', example_subscription, ''resourceGroups'', ''rg'',
      ''providers'', ''Microsoft.Network'', ''virtualNetworks'', ''vnet'', ''subnets'', ''default'']"
    unfolding example_vnet_def by (rule Split_vnet) simp_all
  moreover have "1 \<le> char_count example_vnet" "char_count example_vnet \<le> 355"
    by (simp_all add: char_count_def example_vnet_def)
  ultimately show ?thesis using names by (simp add: vnet_subnet_admitted_def suffix_def)
qed

abbreviation vnet_nodeclass :: openshift_azure_nodeclass where
  "vnet_nodeclass \<equiv> (new_openshift_azure_nodeclass ''n'')
     \<lparr>anc_Spec := zero_openshift_azure_spec\<lparr>as_VNETSubnetID := example_vnet\<rparr>\<rparr>"

abbreviation image_secret :: secret where
  "image_secret \<equiv>
     \<lparr>sec_Meta = (new_meta ''ns'' ''s'')
        \<lparr>md_Labels := [(''hypershift.openshift.io/azure-marketplace-offer'', ''aro4''),
           (''hypershift.openshift.io/azure-marketplace-publisher'', ''azureopenshift''),
           (''hypershift.openshift.io/azure-marketplace-sku'', ''aro_422-v2''),
           (''hypershift.openshift.io/azure-marketplace-version'', ''1.0'')]\<rparr>,
      sec_Data = [(''value'', ''ignition'')]\<rparr>"

lemma image_secret_ok: "azure_secret_ok image_secret"
  by (simp add: azure_secret_ok_def marketplace_image_admitted_def marketplaceImageFromUserDataSecret_def
      map_get_def char_count_def)

lemma azure_admission_witness:
  "\<exists>b. aks_mutate vnet_nodeclass (new_hcp ''ns'' ''h'') image_secret (new_aks_nodeclass ''n'') = Inr b \<and>
     aks_VNETSubnetID (aks_Spec b) = Some example_vnet \<and> aks_admitted (aks_Spec b)"
proof -
  have ne: "example_vnet \<noteq> []" by (simp add: example_vnet_def)
  obtain b where b: "aks_mutate vnet_nodeclass (new_hcp ''ns'' ''h'') image_secret (new_aks_nodeclass ''n'') = Inr b"
    "aks_VNETSubnetID (aks_Spec b) = Some example_vnet"
    using ne by (simp add: aks_mutate_def Let_def SetControllerReference_def validateOwner_def GetControllerOf_def
      new_aks_nodeclass_def new_openshift_azure_nodeclass_def aksNodeClassSpec_def zero_aks_spec_def)
  moreover have "azure_admitted (\<lambda>_ _. True) (\<lambda>_. None) (anc_Spec vnet_nodeclass)"
    using example_vnet_admitted zero_kubelet_admitted [of "\<lambda>_ _. True" "\<lambda>_. None"]
    by (simp add: azure_admitted_def opt_string_def one_of_def zero_openshift_azure_spec_def zero_kubelet_def)
  ultimately show ?thesis
    using azure_admission [OF _ image_secret_ok _ b(1)]
    by (auto simp: new_aks_nodeclass_def zero_aks_spec_def)
qed

end
