(* ===== verification/Interleaving.thy ===== *)
theory Interleaving
  imports Programs
begin

text \<open>
  Several workers on one shared store. \<open>Programs\<close> verifies a handler against every behaviour of the
  servers; here the servers are a store, and the calls of the handlers, the steps of everybody else and
  crashes are interleaved.

  A system has a worker per key, which is idle or executes a program. In a step, a worker starts one of
  the programs of its key, issues its next call, or stops (because it is done, or because the process
  dies, anywhere); or somebody else changes the store. \<open>invariant_rule\<close> is the rule to verify such a
  system: from the guards its programs are \<open>safe\<close> for, in the style of rely and guarantee.
\<close>


section \<open>Systems\<close>

text \<open>\<open>serve w q r w'\<close>: in the store \<open>w\<close> the request \<open>q\<close> may be answered with
  \<open>r\<close>, leaving \<open>w'\<close>.\<close>

record ('k, 'q, 'r, 'a, 'w) system =
  starts :: "'k \<Rightarrow> ('q, 'r, 'a) prog \<Rightarrow> bool"
  serve :: "'w \<Rightarrow> 'q \<Rightarrow> 'r \<Rightarrow> 'w \<Rightarrow> bool"
  environment :: "'w \<Rightarrow> 'w \<Rightarrow> bool"
  initial :: "'w \<Rightarrow> bool"

text \<open>A worker keeps the rest of its program, and (a ghost) the calls it has made.\<close>

record ('k, 'q, 'r, 'a, 'w) state =
  store :: 'w
  worker :: "'k \<Rightarrow> (('q, 'r, 'a) prog \<times> ('q \<times> 'r) list) option"

inductive system_step ::
  "('k, 'q, 'r, 'a, 'w) system \<Rightarrow> ('k, 'q, 'r, 'a, 'w) state \<Rightarrow> ('k, 'q, 'r, 'a, 'w) state \<Rightarrow> bool"
  for sys
where
  worker_starts: "worker s k = None \<Longrightarrow> starts sys k p \<Longrightarrow>
    system_step sys s (s\<lparr>worker := (worker s)(k \<mapsto> (p, []))\<rparr>)"
| worker_calls: "worker s k = Some (Call q f, h) \<Longrightarrow> serve sys (store s) q r w \<Longrightarrow>
    system_step sys s (s\<lparr>store := w, worker := (worker s)(k \<mapsto> (f r, h @ [(q, r)]))\<rparr>)"
| worker_stops: "worker s k = Some x \<Longrightarrow>
    system_step sys s (s\<lparr>worker := (worker s)(k := None)\<rparr>)"
| others_step: "environment sys (store s) w \<Longrightarrow> system_step sys s (s\<lparr>store := w\<rparr>)"

inductive reachable :: "('k, 'q, 'r, 'a, 'w) system \<Rightarrow> ('k, 'q, 'r, 'a, 'w) state \<Rightarrow> bool" for sys where
  reachable_initial: "initial sys w \<Longrightarrow> reachable sys \<lparr>store = w, worker = (\<lambda>_. None)\<rparr>"
| reachable_step: "reachable sys s \<Longrightarrow> system_step sys s s' \<Longrightarrow> reachable sys s'"


section \<open>Invariants\<close>

text \<open>
  \<open>Guard k\<close> is what the programs of worker \<open>k\<close> are safe for, \<open>Inv\<close> the invariant of
  the store, and \<open>Know k w h\<close> what worker \<open>k\<close> may conclude from its calls \<open>h\<close> about the
  store \<open>w\<close>. Its own calls extend its knowledge, those of the others and of the environment must
  leave it true.
\<close>

locale interleaving =
  fixes sys :: "('k, 'q, 'r, 'a, 'w) system"
    and Guard :: "'k \<Rightarrow> ('q \<times> 'r) list \<Rightarrow> 'q \<Rightarrow> bool"
    and Inv :: "'w \<Rightarrow> bool"
    and Know :: "'k \<Rightarrow> 'w \<Rightarrow> ('q \<times> 'r) list \<Rightarrow> bool"
  assumes safe_start: "starts sys k p \<Longrightarrow> safe (Guard k) p [] (\<lambda>_ _. True)"
    and inv_initial: "initial sys w \<Longrightarrow> Inv w"
    and know_start: "Inv w \<Longrightarrow> starts sys k p \<Longrightarrow> Know k w []"
    and call_inv: "Inv w \<Longrightarrow> Know k w h \<Longrightarrow> Guard k h q \<Longrightarrow> serve sys w q r w' \<Longrightarrow> Inv w'"
    and call_know: "Inv w \<Longrightarrow> Know k w h \<Longrightarrow> Guard k h q \<Longrightarrow> serve sys w q r w' \<Longrightarrow>
      Know k w' (h @ [(q, r)])"
    and call_frame: "Inv w \<Longrightarrow> Know k w h \<Longrightarrow> Guard k h q \<Longrightarrow> serve sys w q r w' \<Longrightarrow>
      k' \<noteq> k \<Longrightarrow> Know k' w h' \<Longrightarrow> Know k' w' h'"
    and environment_inv: "Inv w \<Longrightarrow> environment sys w w' \<Longrightarrow> Inv w'"
    and environment_frame: "Inv w \<Longrightarrow> environment sys w w' \<Longrightarrow> Know k w h \<Longrightarrow> Know k w' h"
begin

lemma step_invariant:
  assumes "system_step sys s s'" and "Inv (store s)"
    and "\<And>k p h. worker s k = Some (p, h) \<Longrightarrow> safe (Guard k) p h (\<lambda>_ _. True) \<and> Know k (store s) h"
  shows "Inv (store s') \<and>
    (\<forall>k p h. worker s' k = Some (p, h) \<longrightarrow> safe (Guard k) p h (\<lambda>_ _. True) \<and> Know k (store s') h)"
  using assms
proof (cases rule: system_step.cases)
  case (worker_starts k p)
  with assms(2,3) show ?thesis by (auto simp: safe_start know_start)
next
  case (worker_calls k q f h r w)
  from assms(3) [OF worker_calls(2)] have g: "Guard k h q" "Know k (store s) h"
    and f: "safe (Guard k) (f r) (h @ [(q, r)]) (\<lambda>_ _. True)" by simp_all
  note own = assms(2) g(2,1) worker_calls(3)
  have "safe (Guard k') p h' (\<lambda>_ _. True) \<and> Know k' w h'"
    if "((worker s)(k \<mapsto> (f r, h @ [(q, r)]))) k' = Some (p, h')" for k' p h'
  proof (cases "k' = k")
    case True
    with that f call_know [OF own] show ?thesis by auto
  next
    case False
    with that assms(3) [of k' p h'] call_frame [OF own False] show ?thesis by simp
  qed
  with worker_calls(1) call_inv [OF own] show ?thesis by simp
next
  case (worker_stops k x)
  with assms(2,3) show ?thesis by simp
next
  case (others_step w)
  with assms(2,3) environment_inv environment_frame show ?thesis by simp
qed

lemma invariant_rule:
  assumes "reachable sys s"
  shows "Inv (store s)"
    and "worker s k = Some (p, h) \<Longrightarrow> safe (Guard k) p h (\<lambda>_ _. True) \<and> Know k (store s) h"
proof -
  from assms have "Inv (store s) \<and>
      (\<forall>k p h. worker s k = Some (p, h) \<longrightarrow> safe (Guard k) p h (\<lambda>_ _. True) \<and> Know k (store s) h)"
  proof (induction rule: reachable.induct)
    case (reachable_initial w)
    then show ?case by (simp add: inv_initial)
  next
    case (reachable_step s s')
    then show ?case using step_invariant [of s s'] by blast
  qed
  then show "Inv (store s)"
    and "worker s k = Some (p, h) \<Longrightarrow> safe (Guard k) p h (\<lambda>_ _. True) \<and> Know k (store s) h"
    by blast+
qed

end


section \<open>Executions\<close>

text \<open>The store answers the calls of a run, undisturbed.\<close>

inductive serves :: "('w \<Rightarrow> 'q \<Rightarrow> 'r \<Rightarrow> 'w \<Rightarrow> bool) \<Rightarrow> 'w \<Rightarrow> ('q \<times> 'r) list \<Rightarrow> 'w \<Rightarrow> bool" for srv where
  serves_Nil: "serves srv w [] w"
| serves_Cons: "srv w q r w' \<Longrightarrow> serves srv w' tr w'' \<Longrightarrow> serves srv w ((q, r) # tr) w''"

inductive_simps serves_Nil_iff [simp]: "serves srv w [] w'"
inductive_cases serves_ConsE: "serves srv w (x # tr) w'"

lemma serves_append: "serves srv w tr w' \<Longrightarrow> serves srv w' tr' w'' \<Longrightarrow> serves srv w (tr @ tr') w''"
  by (induction rule: serves.induct) (auto intro: serves.intros)

text \<open>A store that answers one way whatever it was asked before.\<close>

lemma serves_same: "(\<And>q r. (q, r) \<in> set tr \<Longrightarrow> srv w q r w) \<Longrightarrow> serves srv w tr w"
  by (induction tr) (auto intro: serves.intros)

abbreviation system_steps ::
  "('k, 'q, 'r, 'a, 'w) system \<Rightarrow> ('k, 'q, 'r, 'a, 'w) state \<Rightarrow> ('k, 'q, 'r, 'a, 'w) state \<Rightarrow> bool"
where
  "system_steps sys \<equiv> rtranclp (system_step sys)"

lemma reachable_steps: "system_steps sys s s' \<Longrightarrow> reachable sys s \<Longrightarrow> reachable sys s'"
  by (induction rule: rtranclp.induct) (auto intro: reachable_step)

lemma steps_runs:
  assumes "runs p tr a" and "serves (serve sys) (store s) tr w" and "worker s k = Some (p, h)"
  shows "\<exists>h'. system_steps sys s (s\<lparr>store := w, worker := (worker s)(k \<mapsto> (Ret a, h'))\<rparr>)"
  using assms
proof (induction arbitrary: s h rule: runs.induct)
  case (runs_Ret a)
  then have "w = store s" and "(worker s)(k \<mapsto> (Ret a, h)) = worker s" by (auto simp: fun_upd_idem)
  then have "s\<lparr>store := w, worker := (worker s)(k \<mapsto> (Ret a, h))\<rparr> = s" by simp
  then show ?case by (metis rtranclp.rtrancl_refl)
next
  case (runs_Call f r tr a q)
  from runs_Call.prems(1) obtain w1 where w1: "serve sys (store s) q r w1" "serves (serve sys) w1 tr w"
    by (auto elim: serves_ConsE)
  let ?s = "s\<lparr>store := w1, worker := (worker s)(k \<mapsto> (f r, h @ [(q, r)]))\<rparr>"
  have "system_step sys s ?s" by (rule worker_calls) (rule runs_Call.prems(2), rule w1(1))
  moreover have "serves (serve sys) (store ?s) tr w" "worker ?s k = Some (f r, h @ [(q, r)])"
    using w1(2) by simp_all
  then obtain h' where "system_steps sys ?s (?s\<lparr>store := w, worker := (worker ?s)(k \<mapsto> (Ret a, h'))\<rparr>)"
    using runs_Call.IH by blast
  ultimately have "system_steps sys s (?s\<lparr>store := w, worker := (worker ?s)(k \<mapsto> (Ret a, h'))\<rparr>)"
    by (rule converse_rtranclp_into_rtranclp)
  then show ?case by (auto simp del: fun_upd_apply)
qed

text \<open>A whole run of a program: an idle worker starts it, executes it undisturbed, and stops.\<close>

lemma steps_reconcile:
  assumes "starts sys k p" and "runs p tr a" and "serves (serve sys) (store s) tr w" and "worker s k = None"
  shows "system_steps sys s (s\<lparr>store := w\<rparr>)"
proof -
  let ?s = "s\<lparr>worker := (worker s)(k \<mapsto> (p, []))\<rparr>"
  have "serves (serve sys) (store ?s) tr w" "worker ?s k = Some (p, [])" using assms(3) by simp_all
  then obtain h' where run: "system_steps sys ?s (?s\<lparr>store := w, worker := (worker ?s)(k \<mapsto> (Ret a, h'))\<rparr>)"
    by (rule exE [OF steps_runs [OF assms(2)]])
  let ?t = "?s\<lparr>store := w, worker := (worker ?s)(k \<mapsto> (Ret a, h'))\<rparr>"
  have "system_step sys s ?s" using assms(4,1) by (rule worker_starts)
  from converse_rtranclp_into_rtranclp [of "system_step sys", OF this run]
  have "system_steps sys s (?t\<lparr>worker := (worker ?t)(k := None)\<rparr>)"
    by (rule rtranclp.rtrancl_into_rtrancl) (rule worker_stops, simp)
  moreover have "?t\<lparr>worker := (worker ?t)(k := None)\<rparr> = s\<lparr>store := w\<rparr>"
    using fun_upd_idem [of "worker s" k, OF assms(4)] by simp
  ultimately show ?thesis by simp
qed

text \<open>States in which no worker is at work.\<close>

abbreviation idle :: "'w \<Rightarrow> ('k, 'q, 'r, 'a, 'w) state" where
  "idle w \<equiv> \<lparr>store = w, worker = (\<lambda>_. None)\<rparr>"

lemma idle_others:
  assumes "reachable sys (idle w)" and "environment sys w w'"
  shows "reachable sys (idle w')"
proof -
  have "system_step sys (idle w) (idle w\<lparr>store := w'\<rparr>)" using assms(2) by (intro others_step) simp
  with assms(1) show ?thesis by (auto dest: reachable_step)
qed

lemma idle_reconcile:
  assumes "reachable sys (idle w)" and "starts sys k p" and "runs p tr a" and "serves (serve sys) w tr w'"
  shows "reachable sys (idle w')"
proof -
  have "system_steps sys (idle w) (idle w\<lparr>store := w'\<rparr>)"
    using assms(4) by (intro steps_reconcile [OF assms(2,3)]) simp_all
  with assms(1) show ?thesis by (auto dest: reachable_steps)
qed

end
