(* ===== verification/Finalizer_Protocol.thy ===== *)
theory Finalizer_Protocol
  imports Interleaving Controllerutil
begin

text \<open>
  The finalizer protocol of the NodeClass controllers on a shared API server. A parent (an
  OpenshiftEC2NodeClass, an OpenShiftAzureNodeClass) has at most one child of the same key (an EC2NodeClass,
  an AKSNodeClass). The workers of the controller add their finalizer to the parent, create the child, and
  take the finalizer off a parent that is being deleted once the child is gone.

  The server below stores the two kinds and answers everything else arbitrarily. It has the documented
  behaviour of the API: resource versions identify the versions of an object, a patch with an optimistic
  lock fails on another version than the one it was made from, an object with finalizers is only marked by
  a deletion, and an error tells nothing about whether a write took effect, except that an object which is
  reported absent by a deletion is absent. Reads come from the cache of the client, which may be behind,
  of the parent and of the child, and only moves forward. Users and other controllers change the objects
  between any two calls, but leave the finalizer of the operator alone and do not create children (for EC2
  an admission policy sees to that, \<open>Azure_Vap.ec2_vap_denies\<close>).
\<close>


section \<open>The objects\<close>

text \<open>Per key: the versions of the parent so far (\<open>None\<close> where it did not exist), and the position
  of the cache; the same for the child; and a ghost, whether a read of the child from the cache found none
  while this child existed and its parent was being deleted.\<close>

record ('p, 'c) entry =
  ent_versions :: "'p option list"
  ent_seen :: nat
  ent_children :: "'c option list"
  ent_child_seen :: nat
  ent_missed :: bool

type_synonym ('p, 'c) objects = "string \<times> string \<Rightarrow> ('p, 'c) entry"

definition ent_parent :: "('p, 'c) entry \<Rightarrow> 'p option" where
  "ent_parent e = last (ent_versions e)"

definition ent_child :: "('p, 'c) entry \<Rightarrow> 'c option" where
  "ent_child e = last (ent_children e)"

definition put_parent :: "'p option \<Rightarrow> ('p, 'c) entry \<Rightarrow> ('p, 'c) entry" where
  "put_parent x e = e\<lparr>ent_versions := ent_versions e @ [x]\<rparr>"

definition put_child :: "'c option \<Rightarrow> ('p, 'c) entry \<Rightarrow> ('p, 'c) entry" where
  "put_child x e = e\<lparr>ent_children := ent_children e @ [x], ent_missed := (ent_missed e \<and> x \<noteq> None)\<rparr>"

definition empty_entry :: "('p, 'c) entry" where
  "empty_entry = \<lparr>ent_versions = [None], ent_seen = 0, ent_children = [None], ent_child_seen = 0, ent_missed = False\<rparr>"

lemma put_simps [simp]:
  "ent_versions (put_parent x e) = ent_versions e @ [x]" "ent_seen (put_parent x e) = ent_seen e"
  "ent_children (put_parent x e) = ent_children e" "ent_child_seen (put_parent x e) = ent_child_seen e"
  "ent_versions (put_child y e) = ent_versions e" "ent_seen (put_child y e) = ent_seen e"
  "ent_children (put_child y e) = ent_children e @ [y]" "ent_child_seen (put_child y e) = ent_child_seen e"
  "ent_missed (put_parent x e) = ent_missed e" "ent_missed (put_child y e) \<longleftrightarrow> ent_missed e \<and> y \<noteq> None"
  "ent_parent (put_parent x e) = x" "ent_child (put_parent x e) = ent_child e"
  "ent_parent (put_child y e) = ent_parent e" "ent_child (put_child y e) = y"
  by (simp_all add: put_parent_def put_child_def ent_parent_def ent_child_def)

definition new_version :: "'p resource \<Rightarrow> ('p, 'c) entry \<Rightarrow> 'p \<Rightarrow> bool" where
  "new_version P e p \<longleftrightarrow> (\<forall>q. Some q \<in> set (ent_versions e) \<longrightarrow>
     md_ResourceVersion (res_meta P q) \<noteq> md_ResourceVersion (res_meta P p))"


section \<open>The server\<close>

definition says_absent :: "api_reason \<Rightarrow> bool" where
  "says_absent e \<longleftrightarrow> e = NotFound \<or> e = NoMatch"

text \<open>The requests on the two kinds, and those whose answer may report a child absent.\<close>

fun concerns :: "'p resource \<Rightarrow> 'c resource \<Rightarrow> req \<Rightarrow> bool" where
  "concerns P C (Get t k _ _) \<longleftrightarrow> t = Hosted \<and> (k = res_kind P \<or> k = res_kind C)"
| "concerns P C (Delete t k _ _) \<longleftrightarrow> t = Hosted \<and> (k = res_kind P \<or> k = res_kind C)"
| "concerns P C (Create t x) \<longleftrightarrow> t = Hosted \<and> (res_unwrap P x \<noteq> None \<or> res_unwrap C x \<noteq> None)"
| "concerns P C (Update t x) \<longleftrightarrow> t = Hosted \<and> (res_unwrap P x \<noteq> None \<or> res_unwrap C x \<noteq> None)"
| "concerns P C (Patch t _ x _) \<longleftrightarrow> t = Hosted \<and> (res_unwrap P x \<noteq> None \<or> res_unwrap C x \<noteq> None)"
| "concerns P C (PatchStatus t _ x _) \<longleftrightarrow> t = Hosted \<and> (res_unwrap P x \<noteq> None \<or> res_unwrap C x \<noteq> None)"
| "concerns P C _ \<longleftrightarrow> False"

definition asks_child :: "'c resource \<Rightarrow> req \<Rightarrow> bool" where
  "asks_child C q \<longleftrightarrow> (\<exists>ns n. q = Get Hosted (res_kind C) ns n \<or> q = Delete Hosted (res_kind C) ns n)"

text \<open>What a worker reads of the child, and what such a read leaves behind when it finds none.\<close>

definition child_view :: "('p, 'c) entry \<Rightarrow> 'c option" where
  "child_view e = ent_children e ! ent_child_seen e"

lemma child_view_mem: "ent_child_seen e < length (ent_children e) \<Longrightarrow> child_view e \<in> set (ent_children e)"
  by (simp add: child_view_def)

definition dying :: "'p resource \<Rightarrow> 'p option \<Rightarrow> bool" where
  "dying P x \<longleftrightarrow> (case x of None \<Rightarrow> False | Some p \<Rightarrow> being_deleted (res_meta P p))"

definition note_missed :: "'p resource \<Rightarrow> ('p, 'c) entry \<Rightarrow> ('p, 'c) entry" where
  "note_missed P e =
     e\<lparr>ent_missed := (ent_missed e \<or> ent_child e \<noteq> None \<and> dying P (ent_parent e))\<rparr>"

lemma note_missed_simps [simp]:
  "ent_versions (note_missed P e) = ent_versions e" "ent_seen (note_missed P e) = ent_seen e"
  "ent_children (note_missed P e) = ent_children e" "ent_child_seen (note_missed P e) = ent_child_seen e"
  "ent_parent (note_missed P e) = ent_parent e" "ent_child (note_missed P e) = ent_child e"
  "ent_missed (note_missed P e) \<longleftrightarrow> ent_missed e \<or> ent_child e \<noteq> None \<and> dying P (ent_parent e)"
  by (simp_all add: note_missed_def ent_parent_def ent_child_def)

lemma note_missed_None: "ent_child e = None \<Longrightarrow> note_missed P e = e"
  by (simp add: note_missed_def)

text \<open>The metadata the server stores for an object it is sent: what the client sets is kept; the deletion
  mark is the server's, as are the fields left out here. \<open>cur\<close> is the object replaced, if any.\<close>

definition stored_meta :: "object_meta option \<Rightarrow> object_meta \<Rightarrow> object_meta \<Rightarrow> bool" where
  "stored_meta cur m m' \<longleftrightarrow>
     md_Namespace m' = md_Namespace m \<and> md_Name m' = md_Name m \<and> md_Labels m' = md_Labels m \<and>
     md_Annotations m' = md_Annotations m \<and> md_Finalizers m' = md_Finalizers m \<and>
     md_OwnerReferences m' = md_OwnerReferences m \<and>
     md_DeletionTimestamp m' = (case cur of None \<Rightarrow> None | Some m0 \<Rightarrow> md_DeletionTimestamp m0)"

text \<open>What an object becomes when it is stored without finalizers while it is being deleted.\<close>

definition unless_released :: "'a resource \<Rightarrow> 'a \<Rightarrow> 'a option" where
  "unless_released R a =
     (if md_Finalizers (res_meta R a) = [] \<and> being_deleted (res_meta R a) then None else Some a)"

text \<open>A patch of the parent makes a version with a new resource version; an object that is being
  deleted goes away with its last finalizer, and a deletion only marks an object that has one.
  \<open>Stored cur c c'\<close>: the server may store \<open>c'\<close> when it is sent \<open>c\<close>. Patches without a
  lock, and updates and creations of the parent, are not answered: the guard below excludes them.\<close>

inductive hosted_serve ::
  "('c option \<Rightarrow> 'c \<Rightarrow> 'c \<Rightarrow> bool) \<Rightarrow> 'p resource \<Rightarrow> 'c resource \<Rightarrow>
   ('p, 'c) objects \<Rightarrow> req \<Rightarrow> resp \<Rightarrow> ('p, 'c) objects \<Rightarrow> bool"
  for Stored P C
where
  unrelated: "\<not> concerns P C q \<Longrightarrow> hosted_serve Stored P C w q r w"
| refused: "\<not> (says_absent e \<and> asks_child C q) \<Longrightarrow> hosted_serve Stored P C w q (RErr e m) w"
| answer_lost: "hosted_serve Stored P C w q r w' \<Longrightarrow> \<not> says_absent e \<Longrightarrow> (\<And>t k ns n. q \<noteq> Get t k ns n) \<Longrightarrow>
    hosted_serve Stored P C w q (RErr e m) w'"
| parent_read: "ent_versions (w (ns, n)) ! ent_seen (w (ns, n)) = Some p \<Longrightarrow>
    hosted_serve Stored P C w (Get Hosted (res_kind P) ns n) (RObj (res_wrap P p)) w"
| child_read: "child_view (w (ns, n)) = Some c \<Longrightarrow>
    hosted_serve Stored P C w (Get Hosted (res_kind C) ns n) (RObj (res_wrap C c)) w"
| child_unread: "child_view (w (ns, n)) = None \<Longrightarrow> says_absent e \<Longrightarrow>
    hosted_serve Stored P C w (Get Hosted (res_kind C) ns n) (RErr e m) (w((ns, n) := note_missed P (w (ns, n))))"
| child_created: "ent_child (w k) = None \<Longrightarrow> res_key C c = k \<Longrightarrow> res_key C c' = k \<Longrightarrow> Stored None c c' \<Longrightarrow>
    hosted_serve Stored P C w (Create Hosted (res_wrap C c)) (RObj (res_wrap C c')) (w(k := put_child (Some c') (w k)))"
| child_updated: "ent_child (w k) = Some c0 \<Longrightarrow> res_key C c = k \<Longrightarrow> res_key C c' = k \<Longrightarrow> Stored (Some c0) c c' \<Longrightarrow>
    hosted_serve Stored P C w (Update Hosted (res_wrap C c)) (RObj (res_wrap C c'))
      (w(k := put_child (unless_released C c') (w k)))"
| child_deleted: "ent_child (w (ns, n)) = Some c \<Longrightarrow> res_key C c' = (ns, n) \<Longrightarrow> being_deleted (res_meta C c') \<Longrightarrow>
    md_Finalizers (res_meta C c') = md_Finalizers (res_meta C c) \<Longrightarrow> (\<And>e m. r \<noteq> RErr e m) \<Longrightarrow>
    hosted_serve Stored P C w (Delete Hosted (res_kind C) ns n) r
      (w((ns, n) := put_child (unless_released C c') (w (ns, n))))"
| child_absent: "ent_child (w (ns, n)) = None \<Longrightarrow> says_absent e \<Longrightarrow>
    hosted_serve Stored P C w (Delete Hosted (res_kind C) ns n) (RErr e m) w"
| parent_patched: "ent_parent (w k) = Some p \<Longrightarrow> res_key P old = k \<Longrightarrow>
    md_ResourceVersion (res_meta P old) = md_ResourceVersion (res_meta P p) \<Longrightarrow>
    res_key P p' = k \<Longrightarrow> new_version P (w k) p' \<Longrightarrow>
    md_Finalizers (res_meta P p') = md_Finalizers (res_meta P new) \<Longrightarrow>
    being_deleted (res_meta P p') = being_deleted (res_meta P p) \<Longrightarrow>
    hosted_serve Stored P C w (Patch Hosted True (res_wrap P old) (res_wrap P new)) (RObj (res_wrap P p'))
      (w(k := put_parent (unless_released P p') (w k)))"
| parent_status_patched: "ent_parent (w k) = Some p \<Longrightarrow> res_key P old = k \<Longrightarrow>
    md_ResourceVersion (res_meta P old) = md_ResourceVersion (res_meta P p) \<Longrightarrow>
    res_key P p' = k \<Longrightarrow> new_version P (w k) p' \<Longrightarrow>
    md_Finalizers (res_meta P p') = md_Finalizers (res_meta P p) \<Longrightarrow>
    being_deleted (res_meta P p') = being_deleted (res_meta P p) \<Longrightarrow>
    hosted_serve Stored P C w (PatchStatus Hosted True (res_wrap P old) (res_wrap P new)) (RObj (res_wrap P p'))
      (w(k := put_parent (Some p') (w k)))"

text \<open>Everybody else. They may do more than they do: here anybody may delete a child, although only the
  operator can delete an AKSNodeClass. That no child is orphaned holds all the same; what has to be done
  by the controller is stated with less (\<open>Finalizer_Progress.cooperating\<close>).\<close>

inductive hosted_environment ::
  "'p resource \<Rightarrow> 'c resource \<Rightarrow> string \<Rightarrow> ('p, 'c) objects \<Rightarrow> ('p, 'c) objects \<Rightarrow> bool"
  for P C fin
where
  cache_advances: "ent_seen (w k) \<le> i \<Longrightarrow> i < length (ent_versions (w k)) \<Longrightarrow>
    hosted_environment P C fin w (w(k := (w k)\<lparr>ent_seen := i\<rparr>))"
| child_cache_advances: "ent_child_seen (w k) \<le> i \<Longrightarrow> i < length (ent_children (w k)) \<Longrightarrow>
    hosted_environment P C fin w (w(k := (w k)\<lparr>ent_child_seen := i\<rparr>))"
| parent_created: "ent_parent (w k) = None \<Longrightarrow> res_key P p = k \<Longrightarrow> new_version P (w k) p \<Longrightarrow>
    \<not> being_deleted (res_meta P p) \<Longrightarrow> hosted_environment P C fin w (w(k := put_parent (Some p) (w k)))"
| parent_changed: "ent_parent (w k) = Some p \<Longrightarrow> res_key P p' = k \<Longrightarrow> new_version P (w k) p' \<Longrightarrow>
    (being_deleted (res_meta P p) \<Longrightarrow> being_deleted (res_meta P p')) \<Longrightarrow>
    (ContainsFinalizer (res_meta P p) fin \<Longrightarrow> ContainsFinalizer (res_meta P p') fin) \<Longrightarrow>
    hosted_environment P C fin w (w(k := put_parent (Some p') (w k)))"
| parent_removed: "ent_parent (w k) = Some p \<Longrightarrow> md_Finalizers (res_meta P p) = [] \<Longrightarrow>
    hosted_environment P C fin w (w(k := put_parent None (w k)))"
| child_changed: "ent_child (w k) \<noteq> None \<Longrightarrow> (\<And>c. x = Some c \<Longrightarrow> res_key C c = k) \<Longrightarrow>
    hosted_environment P C fin w (w(k := put_child x (w k)))"


section \<open>The guard of a worker\<close>

text \<open>The parents a worker has read, and what it may conclude.\<close>

fun read_of :: "'p resource \<Rightarrow> string \<times> string \<Rightarrow> req \<times> resp \<Rightarrow> 'p list" where
  "read_of P k (Get t kd ns n, RObj x) =
     (if t = Hosted \<and> kd = res_kind P \<and> (ns, n) = k
      then (case res_unwrap P x of None \<Rightarrow> [] | Some p \<Rightarrow> [p]) else [])"
| "read_of P k _ = []"

definition reads :: "'p resource \<Rightarrow> string \<times> string \<Rightarrow> (req \<times> resp) list \<Rightarrow> 'p list" where
  "reads P k h = concat (map (read_of P k) h)"

definition finalizer_added :: "'p resource \<Rightarrow> string \<Rightarrow> (req \<times> resp) list \<Rightarrow> bool" where
  "finalizer_added P fin h \<longleftrightarrow>
     (\<exists>old new p. (Patch Hosted True (res_wrap P old) (res_wrap P new), RObj (res_wrap P p)) \<in> set h \<and>
        ContainsFinalizer (res_meta P new) fin)"

text \<open>\<open>cached\<close>: whether the worker takes the cache's word that there is no child.\<close>

definition child_gone :: "'c resource \<Rightarrow> bool \<Rightarrow> string \<times> string \<Rightarrow> (req \<times> resp) list \<Rightarrow> bool" where
  "child_gone C cached k h \<longleftrightarrow>
     (\<exists>e m. says_absent e \<and>
        (cached \<and> (Get Hosted (res_kind C) (fst k) (snd k), RErr e m) \<in> set h \<or>
         (Delete Hosted (res_kind C) (fst k) (snd k), RErr e m) \<in> set h))"

text \<open>It asked after it had read the parent.\<close>

definition gone_since_read :: "'p resource \<Rightarrow> 'c resource \<Rightarrow> bool \<Rightarrow> string \<times> string \<Rightarrow> (req \<times> resp) list \<Rightarrow> bool" where
  "gone_since_read P C cached k h \<longleftrightarrow>
     (\<exists>h1 h2. h = h1 @ h2 \<and> reads P k h1 \<noteq> [] \<and> child_gone C cached k h2)"

text \<open>The objects a worker was given have the key it asked for.\<close>

definition answered_key :: "'p resource \<Rightarrow> 'c resource \<Rightarrow> string \<times> string \<Rightarrow> req \<times> resp \<Rightarrow> bool" where
  "answered_key P C k qr \<longleftrightarrow>
     (\<forall>p. qr = (Get Hosted (res_kind P) (fst k) (snd k), RObj (res_wrap P p)) \<longrightarrow> res_key P p = k) \<and>
     (\<forall>old b p. qr = (Patch Hosted True (res_wrap P old) b, RObj (res_wrap P p)) \<longrightarrow> res_key P p = k) \<and>
     (\<forall>c. qr = (Get Hosted (res_kind C) (fst k) (snd k), RObj (res_wrap C c)) \<longrightarrow> res_key C c = k)"

definition honest :: "'p resource \<Rightarrow> 'c resource \<Rightarrow> string \<times> string \<Rightarrow> (req \<times> resp) list \<Rightarrow> bool" where
  "honest P C k h \<longleftrightarrow> (\<forall>qr\<in>set h. answered_key P C k qr)"

text \<open>The protocol: one read of the parent; a child is created for a parent that was read undeleted
  and carries the finalizer; the finalizer comes off a parent read as being deleted, when the child
  is gone.\<close>

definition create_allowed ::
  "'p resource \<Rightarrow> 'c resource \<Rightarrow> string \<Rightarrow> string \<times> string \<Rightarrow> (req \<times> resp) list \<Rightarrow> 'c \<Rightarrow> bool"
where
  "create_allowed P C fin k h c \<longleftrightarrow>
     (\<exists>p. reads P k h = [p] \<and> \<not> being_deleted (res_meta P p) \<and>
        (ContainsFinalizer (res_meta P p) fin \<or> finalizer_added P fin h) \<and>
        (honest P C k h \<longrightarrow> res_key C c = k))"

definition patch_allowed ::
  "bool \<Rightarrow> 'p resource \<Rightarrow> 'c resource \<Rightarrow> string \<Rightarrow> string \<times> string \<Rightarrow> (req \<times> resp) list \<Rightarrow> 'p \<Rightarrow> 'p \<Rightarrow> bool"
where
  "patch_allowed cached P C fin k h old new \<longleftrightarrow>
     reads P k h = [old] \<and>
     (\<not> being_deleted (res_meta P old) \<and> res_meta P new = AddFinalizer (res_meta P old) fin \<or>
      being_deleted (res_meta P old) \<and> res_meta P new = RemoveFinalizer (res_meta P old) fin \<and>
        (honest P C k h \<longrightarrow> gone_since_read P C cached k h))"

fun protocol_guard ::
  "bool \<Rightarrow> 'p resource \<Rightarrow> 'c resource \<Rightarrow> string \<Rightarrow> string \<times> string \<Rightarrow> (req \<times> resp) list \<Rightarrow> req \<Rightarrow> bool"
where
  "protocol_guard cached P C fin k h (Get t kd ns n) \<longleftrightarrow>
     (t = Hosted \<and> kd = res_kind P \<longrightarrow> (ns, n) = k \<and> reads P k h = [] \<and> \<not> finalizer_added P fin h)"
| "protocol_guard cached P C fin k h (Create t x) \<longleftrightarrow>
     res_unwrap P x = None \<and> (\<forall>c. x = res_wrap C c \<longrightarrow> create_allowed P C fin k h c)"
| "protocol_guard cached P C fin k h (Update t x) \<longleftrightarrow> res_unwrap P x = None"
| "protocol_guard cached P C fin k h (Patch t lock a b) \<longleftrightarrow>
     res_unwrap C a = None \<and>
     (\<forall>old. a = res_wrap P old \<longrightarrow> lock \<and> (\<exists>new. b = res_wrap P new \<and> patch_allowed cached P C fin k h old new))"
| "protocol_guard cached P C fin k h (PatchStatus t lock a b) \<longleftrightarrow> lock \<and> res_unwrap C a = None"
| "protocol_guard cached P C fin k h (Delete t kd _ _) \<longleftrightarrow> \<not> (t = Hosted \<and> kd = res_kind P)"
| "protocol_guard cached P C fin k h _ \<longleftrightarrow> True"


section \<open>The invariant\<close>

definition carries :: "'p resource \<Rightarrow> string \<Rightarrow> 'p option \<Rightarrow> bool" where
  "carries P fin x \<longleftrightarrow> (case x of None \<Rightarrow> False | Some p \<Rightarrow> ContainsFinalizer (res_meta P p) fin)"

lemma carries_simps [simp]:
  "\<not> carries P fin None" "carries P fin (Some p) \<longleftrightarrow> ContainsFinalizer (res_meta P p) fin"
  "\<not> dying P None" "dying P (Some p) \<longleftrightarrow> being_deleted (res_meta P p)"
  by (simp_all add: carries_def dying_def)

text \<open>The finalizer went only from versions that were being deleted, and the cache has seen them.\<close>

definition removals_ok :: "'p resource \<Rightarrow> string \<Rightarrow> ('p, 'c) entry \<Rightarrow> bool" where
  "removals_ok P fin e \<longleftrightarrow>
     (\<forall>j. Suc j < length (ent_versions e) \<longrightarrow> carries P fin (ent_versions e ! j) \<longrightarrow>
        \<not> carries P fin (ent_versions e ! Suc j) \<longrightarrow> j \<le> ent_seen e \<and> dying P (ent_versions e ! j))"

definition versions_distinct :: "'p resource \<Rightarrow> ('p, 'c) entry \<Rightarrow> bool" where
  "versions_distinct P e \<longleftrightarrow>
     (\<forall>i j p q. i < length (ent_versions e) \<longrightarrow> j < length (ent_versions e) \<longrightarrow>
        ent_versions e ! i = Some p \<longrightarrow> ent_versions e ! j = Some q \<longrightarrow>
        md_ResourceVersion (res_meta P p) = md_ResourceVersion (res_meta P q) \<longrightarrow> i = j)"

text \<open>A child has a parent with the finalizer, unless the worker was misled by the cache.\<close>

definition misled :: "bool \<Rightarrow> ('p, 'c) entry \<Rightarrow> bool" where
  "misled cached e \<longleftrightarrow> cached \<and> ent_missed e"

lemma misled_simps [simp]:
  "\<not> misled False e" "misled cached (put_parent x e) = misled cached e"
  "misled cached (e\<lparr>ent_seen := i\<rparr>) = misled cached e" "misled cached (e\<lparr>ent_child_seen := i\<rparr>) = misled cached e"
  "misled cached (put_child (Some y) e) = misled cached e" "\<not> misled cached (put_child None e)"
  "misled cached e \<Longrightarrow> misled cached (note_missed P e)"
  by (auto simp: misled_def)

definition entry_ok ::
  "bool \<Rightarrow> 'p resource \<Rightarrow> 'c resource \<Rightarrow> string \<Rightarrow> string \<times> string \<Rightarrow> ('p, 'c) entry \<Rightarrow> bool"
where
  "entry_ok cached P C fin k e \<longleftrightarrow>
     ent_seen e < length (ent_versions e) \<and> ent_child_seen e < length (ent_children e) \<and>
     (\<forall>p. Some p \<in> set (ent_versions e) \<longrightarrow> res_key P p = k) \<and>
     (\<forall>c. Some c \<in> set (ent_children e) \<longrightarrow> res_key C c = k) \<and>
     versions_distinct P e \<and> removals_ok P fin e \<and>
     (ent_child e \<noteq> None \<and> \<not> misled cached e \<longrightarrow> carries P fin (ent_parent e))"

lemma versions_distinct_put:
  assumes "versions_distinct P e" and "\<And>p. x = Some p \<Longrightarrow> new_version P e p"
  shows "versions_distinct P (put_parent x e)"
proof -
  have new: "md_ResourceVersion (res_meta P p) \<noteq> md_ResourceVersion (res_meta P q)"
    if "x = Some q" "i < length (ent_versions e)" "ent_versions e ! i = Some p" for i p q
    using assms(2) [OF that(1)] that(2,3) by (metis new_version_def nth_mem)
  show ?thesis
    unfolding versions_distinct_def put_simps length_append
  proof (intro allI impI)
    fix i j p q
    assume lt: "i < length (ent_versions e) + length [x]" "j < length (ent_versions e) + length [x]"
      and at: "(ent_versions e @ [x]) ! i = Some p" "(ent_versions e @ [x]) ! j = Some q"
      and eq: "md_ResourceVersion (res_meta P p) = md_ResourceVersion (res_meta P q)"
    consider "i < length (ent_versions e)" "j < length (ent_versions e)"
      | "i < length (ent_versions e)" "j = length (ent_versions e)"
      | "i = length (ent_versions e)" "j < length (ent_versions e)"
      | "i = j" using lt by fastforce
    then show "i = j"
    proof cases
      case 1
      with at eq assms(1) show ?thesis unfolding versions_distinct_def by (metis nth_append)
    next
      case 2
      with at eq new [of q i p] show ?thesis by (simp add: nth_append)
    next
      case 3
      with at eq new [of p j q] show ?thesis by (simp add: nth_append)
    qed
  qed
qed

lemma removals_ok_put:
  assumes "removals_ok P fin e" and "ent_versions e \<noteq> []"
    and "carries P fin (ent_parent e) \<Longrightarrow> \<not> carries P fin x \<Longrightarrow>
      length (ent_versions e) \<le> Suc (ent_seen e) \<and> dying P (ent_parent e)"
  shows "removals_ok P fin (put_parent x e)"
  unfolding removals_ok_def put_simps
proof (intro allI impI)
  fix j
  assume j: "Suc j < length (ent_versions e @ [x])"
    and c: "carries P fin ((ent_versions e @ [x]) ! j)" "\<not> carries P fin ((ent_versions e @ [x]) ! Suc j)"
  show "j \<le> ent_seen e \<and> dying P ((ent_versions e @ [x]) ! j)"
  proof (cases "Suc j < length (ent_versions e)")
    case True
    with c assms(1) show ?thesis by (simp add: removals_ok_def nth_append)
  next
    case False
    with j have "Suc j = length (ent_versions e)" by simp
    then have "(ent_versions e @ [x]) ! j = ent_parent e" "(ent_versions e @ [x]) ! Suc j = x"
      using assms(2) by (simp_all add: nth_append ent_parent_def last_conv_nth flip: \<open>Suc j = _\<close>)
    with c assms(3) \<open>Suc j = _\<close> show ?thesis by simp
  qed
qed

lemma entry_ok_put_parent:
  assumes "entry_ok cached P C fin k e"
    and "\<And>p. x = Some p \<Longrightarrow> res_key P p = k \<and> new_version P e p"
    and "carries P fin (ent_parent e) \<Longrightarrow> \<not> carries P fin x \<Longrightarrow>
      length (ent_versions e) \<le> Suc (ent_seen e) \<and> dying P (ent_parent e) \<and>
      (ent_child e = None \<or> misled cached e)"
  shows "entry_ok cached P C fin k (put_parent x e)"
proof -
  have "ent_versions e \<noteq> []" using assms(1) by (auto simp: entry_ok_def)
  then show ?thesis
    using assms versions_distinct_put [of P e x] removals_ok_put [of P fin e x]
    by (cases "carries P fin x") (auto simp: entry_ok_def)
qed

lemma entry_ok_put_child:
  assumes "entry_ok cached P C fin k e" and "\<And>c. x = Some c \<Longrightarrow> res_key C c = k"
    and "x \<noteq> None \<Longrightarrow> \<not> misled cached e \<Longrightarrow> carries P fin (ent_parent e)"
  shows "entry_ok cached P C fin k (put_child x e)"
  using assms by (cases x) (auto simp: entry_ok_def versions_distinct_def removals_ok_def)

lemma entry_ok_missed: "entry_ok cached P C fin k e \<Longrightarrow> entry_ok cached P C fin k (note_missed P e)"
  by (auto simp: entry_ok_def versions_distinct_def removals_ok_def)

lemma entry_ok_seen:
  assumes "entry_ok cached P C fin k e"
  shows "ent_seen e \<le> i \<Longrightarrow> i < length (ent_versions e) \<Longrightarrow> entry_ok cached P C fin k (e\<lparr>ent_seen := i\<rparr>)"
    and "i < length (ent_children e) \<Longrightarrow> entry_ok cached P C fin k (e\<lparr>ent_child_seen := i\<rparr>)"
  using assms
  by (auto simp: entry_ok_def versions_distinct_def removals_ok_def ent_child_def ent_parent_def
      intro: le_trans)

lemma entry_keys:
  assumes "entry_ok cached P C fin k e"
  shows "ent_parent e = Some p \<Longrightarrow> res_key P p = k" and "ent_child e = Some c \<Longrightarrow> res_key C c = k"
proof -
  have "ent_parent e \<in> set (ent_versions e)" "ent_child e \<in> set (ent_children e)"
    using assms by (auto simp: entry_ok_def ent_parent_def ent_child_def intro!: last_in_set)
  then show "ent_parent e = Some p \<Longrightarrow> res_key P p = k" and "ent_child e = Some c \<Longrightarrow> res_key C c = k"
    using assms by (simp_all add: entry_ok_def)
qed

text \<open>An undeleted version with the finalizer, read from the cache, still has it on the server.\<close>

lemma cached_finalizer:
  assumes "removals_ok P fin e" and "ent_seen e < length (ent_versions e)"
    and "carries P fin (ent_versions e ! ent_seen e)" and "\<not> dying P (ent_versions e ! ent_seen e)"
  shows "carries P fin (ent_parent e)"
proof -
  have "carries P fin (ent_versions e ! i)" if "ent_seen e \<le> i" "i < length (ent_versions e)" for i
    using that
  proof (induction i rule: dec_induct)
    case base
    show ?case by (rule assms(3))
  next
    case (step i)
    then have "carries P fin (ent_versions e ! i)" "Suc i < length (ent_versions e)" by simp_all
    with assms(1,4) step.hyps(1) show ?case unfolding removals_ok_def by (metis le_antisym)
  qed
  moreover have "ent_versions e \<noteq> []" using assms(2) by auto
  ultimately show ?thesis using assms(2) by (simp add: ent_parent_def last_conv_nth)
qed

end
