(* ===== verification/Finalizer_Invariant.thy ===== *)
theory Finalizer_Invariant
  imports Finalizer_Protocol
begin

text \<open>
  Why the finalizer protocol works: what a worker may conclude from the answers it got (\<open>knows\<close>), what
  everybody else leaves alone (\<open>evolves\<close>), and the contract \<open>finalizer_protocol\<close> of a system of
  workers that keep the guard, under which no child is ever without a parent that carries the finalizer.
\<close>


section \<open>Histories\<close>

lemma reads_append: "reads P k (h @ h') = reads P k h @ reads P k h'"
  by (simp add: reads_def)

lemma reads_one [simp]: "reads P k [] = []" "reads P k [x] = read_of P k x"
  by (simp_all add: reads_def)

text \<open>A call that reads no parent.\<close>

lemma read_of_other: "(\<And>ns n. q \<noteq> Get Hosted (res_kind P) ns n) \<Longrightarrow> read_of P k (q, r) = []"
  by (cases "(P, k, q, r)" rule: read_of.cases) auto

lemma read_of_error [simp]: "read_of P k (q, RErr e m) = []"
  by (cases q) auto

lemma finalizer_added_append: "finalizer_added P fin (h @ h') \<longleftrightarrow> finalizer_added P fin h \<or> finalizer_added P fin h'"
  unfolding finalizer_added_def set_append Un_iff by blast

lemma child_gone_append: "child_gone C cached k (h @ h') \<longleftrightarrow> child_gone C cached k h \<or> child_gone C cached k h'"
  unfolding child_gone_def set_append Un_iff by blast

lemma gone_since_read_append:
  "gone_since_read P C cached k (h @ [x]) \<longleftrightarrow>
     gone_since_read P C cached k h \<or> reads P k h \<noteq> [] \<and> child_gone C cached k [x]"
proof
  assume "gone_since_read P C cached k (h @ [x])"
  then obtain h1 h2 where h: "h @ [x] = h1 @ h2" "reads P k h1 \<noteq> []" "child_gone C cached k h2"
    unfolding gone_since_read_def by blast
  then obtain h3 where h3: "h2 = h3 @ [x]" "h = h1 @ h3"
    by (cases h2 rule: rev_cases) (auto simp: child_gone_def)
  with h(2,3) show "gone_since_read P C cached k h \<or> reads P k h \<noteq> [] \<and> child_gone C cached k [x]"
    unfolding gone_since_read_def h3 child_gone_append by (auto simp: reads_append)
next
  assume "gone_since_read P C cached k h \<or> reads P k h \<noteq> [] \<and> child_gone C cached k [x]"
  then show "gone_since_read P C cached k (h @ [x])"
    unfolding gone_since_read_def by (metis append_assoc child_gone_append)
qed

lemma gone_since_read_reads: "gone_since_read P C cached k h \<Longrightarrow> reads P k h \<noteq> []"
  by (auto simp: gone_since_read_def reads_append)

lemma honest_append: "honest P C k (h @ h') \<longleftrightarrow> honest P C k h \<and> honest P C k h'"
  by (auto simp: honest_def)

lemma history_errors [simp]:
  "\<not> finalizer_added P fin [(q, RErr e m)]" "answered_key P C k (q, RErr e m)"
  "\<not> says_absent e \<Longrightarrow> \<not> child_gone C cached k [(q, RErr e m)]"
  by (auto simp: finalizer_added_def answered_key_def child_gone_def)

lemma child_gone_asks: "child_gone C cached k [(q, RErr e m)] \<Longrightarrow> says_absent e \<and> asks_child C q"
  by (auto simp: child_gone_def asks_child_def)

lemma history_Nil [simp]:
  "\<not> finalizer_added P fin []" "\<not> child_gone C cached k []" "honest P C k []"
  "\<not> gone_since_read P C cached k []"
  by (auto simp: finalizer_added_def child_gone_def honest_def gone_since_read_def)


section \<open>Knowledge and interference\<close>

text \<open>A version of the parent the cache has shown; and what the answers about the child tell about it:
  it is gone, or the cache was wrong, or that version is history.\<close>

definition version_at :: "('p, 'c) entry \<Rightarrow> nat \<Rightarrow> 'p \<Rightarrow> bool" where
  "version_at e i p \<longleftrightarrow> i \<le> ent_seen e \<and> i < length (ent_versions e) \<and> ent_versions e ! i = Some p"

definition settled :: "bool \<Rightarrow> ('p, 'c) entry \<Rightarrow> nat \<Rightarrow> bool" where
  "settled cached e i \<longleftrightarrow> ent_child e = None \<or> misled cached e \<or> Suc i < length (ent_versions e)"

definition knows ::
  "bool \<Rightarrow> 'p resource \<Rightarrow> 'c resource \<Rightarrow> string \<Rightarrow> string \<times> string \<Rightarrow> ('p, 'c) objects \<Rightarrow>
   (req \<times> resp) list \<Rightarrow> bool"
where
  "knows cached P C fin k w h \<longleftrightarrow>
     (\<forall>p\<in>set (reads P k h). \<exists>i. version_at (w k) i p \<and>
        (being_deleted (res_meta P p) \<and> gone_since_read P C cached k h \<longrightarrow> settled cached (w k) i)) \<and>
     (\<forall>p\<in>set (reads P k h). \<not> being_deleted (res_meta P p) \<and>
        (ContainsFinalizer (res_meta P p) fin \<or> finalizer_added P fin h) \<longrightarrow> carries P fin (ent_parent (w k))) \<and>
     honest P C k h"

definition evolves :: "bool \<Rightarrow> 'p resource \<Rightarrow> string \<Rightarrow> ('p, 'c) entry \<Rightarrow> ('p, 'c) entry \<Rightarrow> bool" where
  "evolves cached P fin e e' \<longleftrightarrow>
     (\<exists>xs. ent_versions e' = ent_versions e @ xs) \<and> ent_seen e \<le> ent_seen e' \<and>
     (carries P fin (ent_parent e) \<longrightarrow> carries P fin (ent_parent e')) \<and>
     (ent_child e = None \<longrightarrow> ent_child e' = None) \<and>
     (misled cached e \<longrightarrow> ent_child e' = None \<or> misled cached e')"

lemma evolves_refl [simp]: "evolves cached P fin e e"
  by (simp add: evolves_def)

lemma evolves_put:
  "(carries P fin (ent_parent e) \<Longrightarrow> carries P fin x) \<Longrightarrow> evolves cached P fin e (put_parent x e)"
  "ent_child e \<noteq> None \<Longrightarrow> evolves cached P fin e (put_child y e)"
  by (cases y; auto simp: evolves_def)+

lemma evolves_seen:
  "ent_seen e \<le> i \<Longrightarrow> evolves cached P fin e (e\<lparr>ent_seen := i\<rparr>)"
  "evolves cached P fin e (e\<lparr>ent_child_seen := i\<rparr>)" "evolves cached P fin e (note_missed P e)"
  by (simp_all add: evolves_def) (simp_all add: ent_parent_def ent_child_def)

lemma evolves_version:
  assumes "version_at e i p" and "evolves cached P fin e e'"
  shows "version_at e' i p" and "settled cached e i \<Longrightarrow> settled cached e' i"
  using assms by (auto simp: evolves_def version_at_def settled_def nth_append)

lemma knows_evolves:
  assumes "knows cached P C fin k w h" and "evolves cached P fin (w k) (w' k)"
  shows "knows cached P C fin k w' h"
proof -
  have "carries P fin (ent_parent (w k)) \<longrightarrow> carries P fin (ent_parent (w' k))"
    using assms(2) by (simp add: evolves_def)
  with assms(1) evolves_version [OF _ assms(2)] show ?thesis unfolding knows_def by meson
qed

lemma knows_extend:
  assumes "knows cached P C fin k w h"
    and "read_of P k x = [] \<or> reads P k h = [] \<and> \<not> finalizer_added P fin h \<and>
      (\<forall>p\<in>set (read_of P k x). (\<exists>i. version_at (w k) i p) \<and>
        (\<not> being_deleted (res_meta P p) \<and> ContainsFinalizer (res_meta P p) fin \<longrightarrow> carries P fin (ent_parent (w k))))"
    and "finalizer_added P fin [x] \<Longrightarrow> read_of P k x = [] \<and> carries P fin (ent_parent (w k))"
    and "child_gone C cached k [x] \<Longrightarrow>
      ent_child (w k) = None \<or> misled cached (w k) \<or> \<not> dying P (ent_parent (w k))"
    and "answered_key P C k x"
  shows "knows cached P C fin k w (h @ [x])"
proof -
  have honest: "honest P C k (h @ [x])"
    using assms(1,5) by (simp add: knows_def honest_append) (simp add: honest_def)
  note k = assms(1) [unfolded knows_def]
  show ?thesis
  proof (cases "read_of P k x = []")
    case True
    have new: "settled cached (w k) i"
      if "version_at (w k) i p" "being_deleted (res_meta P p)" "child_gone C cached k [x]" for i p
    proof (cases "Suc i = length (ent_versions (w k))")
      case True
      then have "ent_versions (w k) \<noteq> []" "i = length (ent_versions (w k)) - 1" by auto
      with that(1) have "ent_parent (w k) = Some p"
        by (simp add: version_at_def ent_parent_def last_conv_nth)
      with assms(4) [OF that(3)] that(2) show ?thesis by (auto simp: settled_def)
    next
      case False
      with that(1) show ?thesis by (simp add: settled_def version_at_def)
    qed
    have "\<forall>p\<in>set (reads P k h). \<exists>i. version_at (w k) i p \<and>
        (being_deleted (res_meta P p) \<and> gone_since_read P C cached k (h @ [x]) \<longrightarrow> settled cached (w k) i)"
      using k new unfolding gone_since_read_append by blast
    with True k assms(3) honest show ?thesis
      unfolding knows_def by (auto simp: reads_append finalizer_added_append)
  next
    case False
    with assms(2,3) have none: "reads P k h = []" "\<not> finalizer_added P fin h" "\<not> finalizer_added P fin [x]" by auto
    then have "\<not> gone_since_read P C cached k (h @ [x])"
      unfolding gone_since_read_append by (auto dest: gone_since_read_reads)
    with False none assms(2) honest show ?thesis
      unfolding knows_def by (auto simp: reads_append finalizer_added_append)
  qed
qed

lemma environment_evolves:
  assumes "hosted_environment P C fin w w'"
  shows "evolves cached P fin (w k) (w' k)"
  using assms
  by (cases rule: hosted_environment.cases) (auto intro!: evolves_put evolves_seen simp: ContainsFinalizer_def)

lemma environment_entry_ok:
  assumes "hosted_environment P C fin w w'" and "\<And>k. entry_ok cached P C fin k (w k)"
  shows "entry_ok cached P C fin k (w' k)"
  using assms(1)
proof (cases rule: hosted_environment.cases)
  case (parent_created k' p)
  with assms(2) [of k] show ?thesis by (auto intro!: entry_ok_put_parent)
next
  case (parent_changed k' p p')
  with assms(2) [of k] show ?thesis by (auto intro!: entry_ok_put_parent)
next
  case (parent_removed k' p)
  with assms(2) [of k] show ?thesis by (auto intro!: entry_ok_put_parent simp: ContainsFinalizer_def)
next
  case (child_changed k' x)
  with assms(2) [of k] show ?thesis
    by (auto intro!: entry_ok_put_child) (auto simp: entry_ok_def)
qed (use assms(2) [of k] in \<open>auto intro!: entry_ok_seen\<close>)


section \<open>The contract\<close>

text \<open>Two kinds of objects that are told apart.\<close>

locale parent_child =
  parent: resource_laws P + child: resource_laws C
  for P :: "'p resource" and C :: "'c resource" +
  assumes kinds: "res_kind P \<noteq> res_kind C"
    and disjoint: "res_unwrap P (res_wrap C c) = None" "res_unwrap C (res_wrap P p) = None"
begin

lemma wraps [simp]: "res_wrap P p = res_wrap P p' \<longleftrightarrow> p = p'" "res_wrap C c = res_wrap C c' \<longleftrightarrow> c = c'"
  "res_wrap P p \<noteq> res_wrap C c" "res_wrap C c \<noteq> res_wrap P p"
  "res_unwrap P (res_wrap P p) = Some p" "res_unwrap C (res_wrap C c) = Some c"
  using parent.wrap_inject child.wrap_inject disjoint parent.unwrap_wrap child.unwrap_wrap by (metis option.distinct(1))+

end

text \<open>A system of workers on the server that keep the guard. It is an instance of the general rule for
  interleavings.\<close>

locale finalizer_protocol = parent_child P C
  for P :: "'p resource" and C :: "'c resource" +
  fixes cached :: bool and Stored :: "'c option \<Rightarrow> 'c \<Rightarrow> 'c \<Rightarrow> bool" and fin :: string
    and sys :: "(string \<times> string, req, resp, goerr + result, ('p, 'c) objects) system"
  assumes serve_hosted: "serve sys = hosted_serve Stored P C"
    and environment_hosted: "environment sys = hosted_environment P C fin"
    and initial_ok: "initial sys w \<Longrightarrow> entry_ok cached P C fin k (w k)"
    and starts_safe: "starts sys k r \<Longrightarrow> safe (protocol_guard cached P C fin k) r [] (\<lambda>_ _. True)"
begin

text \<open>What a worker reads of its parent is the version at the cache.\<close>

lemma read_key:
  assumes "knows cached P C fin k w h" and "entry_ok cached P C fin k (w k)" and "p \<in> set (reads P k h)"
  shows "res_key P p = k"
proof -
  from assms(1,3) obtain i where "i < length (ent_versions (w k))" "ent_versions (w k) ! i = Some p"
    by (auto simp: knows_def version_at_def)
  then have "Some p \<in> set (ent_versions (w k))" by (metis nth_mem)
  with assms(2) show ?thesis by (simp add: entry_ok_def)
qed

text \<open>An optimistic lock makes the patched version the one that was read.\<close>

lemma lock_current:
  assumes "knows cached P C fin k w h" and "entry_ok cached P C fin k (w k)" and "old \<in> set (reads P k h)"
    and "ent_parent (w k) = Some p"
    and "md_ResourceVersion (res_meta P old) = md_ResourceVersion (res_meta P p)"
  shows "p = old" and "length (ent_versions (w k)) \<le> Suc (ent_seen (w k))"
    and "version_at (w k) i old \<Longrightarrow> Suc i = length (ent_versions (w k))"
proof -
  let ?vs = "ent_versions (w k)"
  have last: "p = old \<and> Suc i = length ?vs" if at: "version_at (w k) i old" for i
  proof -
    from at have i: "i \<le> ent_seen (w k)" "i < length ?vs" "?vs ! i = Some old" by (simp_all add: version_at_def)
    then have ne: "?vs \<noteq> []" by auto
    then have p: "?vs ! (length ?vs - 1) = Some p" using assms(4) by (simp add: ent_parent_def last_conv_nth)
    then have "i = length ?vs - 1"
      using assms(2,5) i ne by (auto simp: entry_ok_def versions_distinct_def)
    with i ne p show ?thesis by auto
  qed
  then show "version_at (w k) i old \<Longrightarrow> Suc i = length ?vs" by blast
  from assms(1,3) obtain j where "version_at (w k) j old" by (auto simp: knows_def)
  with last [of j] show "p = old" "length ?vs \<le> Suc (ent_seen (w k))" by (auto simp: version_at_def)
qed

text \<open>So a worker that found the child gone since, and may patch, was told the truth or misled.\<close>

lemma lock_settled:
  assumes "knows cached P C fin k w h" and "entry_ok cached P C fin k (w k)" and "old \<in> set (reads P k h)"
    and "ent_parent (w k) = Some p"
    and "md_ResourceVersion (res_meta P old) = md_ResourceVersion (res_meta P p)"
    and "being_deleted (res_meta P old)" and "gone_since_read P C cached k h"
  shows "ent_child (w k) = None \<or> misled cached (w k)"
proof -
  from assms(1,3,6,7) obtain i where i: "version_at (w k) i old" "settled cached (w k) i"
    by (auto simp: knows_def)
  with lock_current(3) [OF assms(1-5) i(1)] show ?thesis by (auto simp: settled_def)
qed

text \<open>A call of worker \<open>k\<close>: the entries of the others evolve, its own keeps the invariant.\<close>

lemma serve_others_evolve:
  assumes "hosted_serve Stored P C w q r w'" and "protocol_guard cached P C fin k h q"
    and "knows cached P C fin k w h" and "entry_ok cached P C fin k (w k)" and "k' \<noteq> k"
  shows "evolves cached P fin (w k') (w' k')"
  using assms
proof (induction rule: hosted_serve.induct)
  case (child_created w k'' c c')
  then obtain p where "p \<in> set (reads P k h)" "honest P C k h \<longrightarrow> res_key C c = k"
    by (auto simp: create_allowed_def)
  with child_created show ?case by (auto simp: knows_def)
next
  case (parent_patched w k'' p old p' new)
  then have "old \<in> set (reads P k h)" by (auto simp: patch_allowed_def)
  with parent_patched read_key show ?case by auto
qed (auto intro!: evolves_put evolves_seen simp: ContainsFinalizer_def)

lemma serve_entry_ok:
  assumes "hosted_serve Stored P C w q r w'" and "protocol_guard cached P C fin k h q"
    and "knows cached P C fin k w h" and "\<And>k. entry_ok cached P C fin k (w k)"
  shows "entry_ok cached P C fin k' (w' k')"
  using assms
proof (induction rule: hosted_serve.induct)
  case (child_unread w ns n e m)
  then show ?case by (auto intro: entry_ok_missed)
next
  case (child_created w k'' c c')
  then obtain p where p: "reads P k h = [p]" "\<not> being_deleted (res_meta P p)"
    "ContainsFinalizer (res_meta P p) fin \<or> finalizer_added P fin h" "honest P C k h \<longrightarrow> res_key C c = k"
    by (auto simp: create_allowed_def)
  with child_created have "k'' = k" "carries P fin (ent_parent (w k))" by (auto simp: knows_def)
  with child_created(3) child_created(7) [of k] child_created(7) [of k'] show ?case
    by (auto intro!: entry_ok_put_child)
next
  case (child_updated w k'' c0 c c')
  from child_updated(7) [of k''] child_updated(1)
  have "\<not> misled cached (w k'') \<Longrightarrow> carries P fin (ent_parent (w k''))" by (auto simp: entry_ok_def)
  with child_updated(3) child_updated(7) [of k''] child_updated(7) [of k'] show ?case
    by (auto intro!: entry_ok_put_child simp: unless_released_def split: if_splits)
next
  case (child_deleted w ns n c c' r)
  from child_deleted(8) [of "(ns, n)"] child_deleted(1)
  have "\<not> misled cached (w (ns, n)) \<Longrightarrow> carries P fin (ent_parent (w (ns, n)))" by (auto simp: entry_ok_def)
  with child_deleted(2) child_deleted(8) [of "(ns, n)"] child_deleted(8) [of k'] show ?case
    by (auto intro!: entry_ok_put_child simp: unless_released_def split: if_splits)
next
  case (parent_patched w k'' p old p' new)
  note know = parent_patched(9) and ok = parent_patched(10)
  from parent_patched(8) have old: "old \<in> set (reads P k h)"
    and patch: "\<not> being_deleted (res_meta P old) \<and> res_meta P new = AddFinalizer (res_meta P old) fin \<or>
      being_deleted (res_meta P old) \<and> res_meta P new = RemoveFinalizer (res_meta P old) fin \<and>
        (honest P C k h \<longrightarrow> gone_since_read P C cached k h)"
    by (auto simp: patch_allowed_def)
  have k: "k'' = k" using read_key [OF know ok old] parent_patched(2) by simp
  note lock = know ok old parent_patched(1,3) [unfolded k]
  have "entry_ok cached P C fin k (put_parent (unless_released P p') (w k))"
  proof (rule entry_ok_put_parent)
    show "entry_ok cached P C fin k (w k)" by (rule ok)
    show "res_key P q = k \<and> new_version P (w k) q" if "unless_released P p' = Some q" for q
      using that parent_patched(4,5) k by (auto simp: unless_released_def split: if_splits)
    assume "carries P fin (ent_parent (w k))" and gone: "\<not> carries P fin (unless_released P p')"
    have "\<not> (res_meta P new = AddFinalizer (res_meta P old) fin)"
      using gone parent_patched(6)
      by (auto simp: unless_released_def ContainsFinalizer_def AddFinalizer_def split: if_splits)
    with patch know have d: "being_deleted (res_meta P old)" "gone_since_read P C cached k h"
      by (auto simp: knows_def)
    then show "length (ent_versions (w k)) \<le> Suc (ent_seen (w k)) \<and> dying P (ent_parent (w k)) \<and>
        (ent_child (w k) = None \<or> misled cached (w k))"
      using lock_current(1,2) [OF lock] lock_settled [OF lock d] parent_patched(1) k by auto
  qed
  with parent_patched(10) k show ?case by simp
next
  case (parent_status_patched w k'' p old p' new)
  from parent_status_patched(1,4,5,6) parent_status_patched(10) [of k''] parent_status_patched(10) [of k'] show ?case
    by (auto intro!: entry_ok_put_parent simp: ContainsFinalizer_def)
qed auto

text \<open>What it knew stays true: only a creation and a removal of the finalizer do not evolve its entry,
  and they contradict what the respective clause is about.\<close>

lemma serve_own_frame:
  assumes "hosted_serve Stored P C w q r w'" and "protocol_guard cached P C fin k h q"
    and "knows cached P C fin k w h" and "entry_ok cached P C fin k (w k)"
  shows "knows cached P C fin k w' h"
  using assms
proof (induction rule: hosted_serve.induct)
  case (child_unread w ns n e m)
  then show ?case by (intro knows_evolves [OF child_unread(4)]) (auto intro!: evolves_seen)
next
  case (child_created w k'' c c')
  then obtain p where "reads P k h = [p]" "\<not> being_deleted (res_meta P p)" by (auto simp: create_allowed_def)
  with child_created(6) show ?case by (auto simp: knows_def version_at_def)
next
  case (parent_patched w k'' p old p' new)
  then have old: "reads P k h = [old]" by (auto simp: patch_allowed_def)
  show ?case
  proof (cases "being_deleted (res_meta P old)")
    case True
    obtain i where i: "version_at (w k) i old"
      "gone_since_read P C cached k h \<longrightarrow> settled cached (w k) i"
      using parent_patched(9) old True by (auto simp: knows_def)
    let ?w = "w(k'' := put_parent (unless_released P p') (w k''))"
    have "version_at (?w k) i old" "settled cached (w k) i \<Longrightarrow> settled cached (?w k) i"
      using i(1) by (auto simp: version_at_def settled_def nth_append)
    with i(2) True old parent_patched(9) show ?thesis by (auto simp: knows_def)
  next
    case False
    with parent_patched(8) old have "res_meta P new = AddFinalizer (res_meta P old) fin"
      by (auto simp: patch_allowed_def)
    then have "carries P fin (unless_released P p')"
      using parent_patched(6)
      by (auto simp: unless_released_def ContainsFinalizer_def AddFinalizer_def split: if_splits)
    then show ?thesis
      by (intro knows_evolves [OF parent_patched(9)]) (auto intro!: evolves_put)
  qed
next
  case (child_updated w k'' c0 c c')
  then show ?case by (intro knows_evolves [OF child_updated(6)]) (auto intro!: evolves_put)
next
  case (child_deleted w ns n c c' r)
  then show ?case by (intro knows_evolves [OF child_deleted(7)]) (auto intro!: evolves_put)
next
  case (parent_status_patched w k'' p old p' new)
  then show ?case
    by (intro knows_evolves [OF parent_status_patched(9)]) (auto intro!: evolves_put simp: ContainsFinalizer_def)
qed auto

lemma knows_append:
  assumes "hosted_serve Stored P C w q r w'" and "protocol_guard cached P C fin k h q"
    and "knows cached P C fin k w h" and "entry_ok cached P C fin k (w k)" and "knows cached P C fin k w' h"
  shows "knows cached P C fin k w' (h @ [(q, r)])"
  using assms(1)
proof (cases rule: hosted_serve.cases)
  case unrelated
  then have "q \<noteq> Get Hosted (res_kind P) ns n" "q \<noteq> Get Hosted (res_kind C) ns n"
    "q \<noteq> Delete Hosted (res_kind C) ns n" "q \<noteq> Patch Hosted l (res_wrap P old) b" for ns n l old b
    by auto
  note no = this this [symmetric]
  then have "\<not> finalizer_added P fin [(q, r)]" "\<not> child_gone C cached k [(q, r)]" "answered_key P C k (q, r)"
    by (simp_all add: finalizer_added_def child_gone_def answered_key_def)
  with no read_of_other [of q P k r] show ?thesis by (intro knows_extend [OF assms(5)]) simp_all
next
  case (refused e m)
  then show ?thesis
    using child_gone_asks [of C cached k q e m] by (intro knows_extend [OF assms(5)]) simp_all
next
  case (answer_lost r0 e m)
  then show ?thesis by (intro knows_extend [OF assms(5)]) auto
next
  case (parent_read ns n p)
  let ?v = "ent_versions (w k) ! ent_seen (w k)"
  from parent_read assms(2) have k: "(ns, n) = k" "reads P k h = []" "\<not> finalizer_added P fin h" by auto
  with parent_read have v: "?v = Some p" by auto
  have lt: "ent_seen (w k) < length (ent_versions (w k))" and ok: "removals_ok P fin (w k)"
    using assms(4) by (simp_all add: entry_ok_def)
  then have "Some p \<in> set (ent_versions (w k))" using v by (metis nth_mem)
  then have "res_key P p = k" using assms(4) by (simp add: entry_ok_def)
  moreover have "carries P fin (ent_parent (w k))"
    if "\<not> being_deleted (res_meta P p)" "ContainsFinalizer (res_meta P p) fin"
    using cached_finalizer [OF ok lt] v that by simp
  moreover have "version_at (w k) (ent_seen (w k)) p" using lt v by (simp add: version_at_def)
  ultimately show ?thesis
    using parent_read k lt v kinds
    by (intro knows_extend [OF assms(5)])
      (auto simp: finalizer_added_def child_gone_def answered_key_def)
next
  case (child_read ns n c)
  have "res_key C c = (ns, n)" if "(ns, n) = k"
    using child_view_mem [of "w k"] child_read that assms(4) by (auto simp: entry_ok_def)
  with child_read kinds show ?thesis
    by (intro knows_extend [OF assms(5)])
      (auto simp: read_of_other finalizer_added_def child_gone_def answered_key_def)
next
  case (child_unread ns n e m)
  then show ?thesis
    by (intro knows_extend [OF assms(5)]) (auto simp: child_gone_def misled_def)
next
  case (child_created k'' c c')
  then show ?thesis
    by (intro knows_extend [OF assms(5)])
      (auto simp: read_of_other finalizer_added_def child_gone_def answered_key_def)
next
  case (child_updated k'' c0 c c')
  then show ?thesis
    by (intro knows_extend [OF assms(5)])
      (auto simp: read_of_other finalizer_added_def child_gone_def answered_key_def)
next
  case (child_deleted ns n c c')
  then show ?thesis
    by (intro knows_extend [OF assms(5)])
      (auto simp: read_of_other finalizer_added_def child_gone_def answered_key_def)
next
  case (child_absent ns n e m)
  then show ?thesis
    by (intro knows_extend [OF assms(5)]) (auto simp: child_gone_def)
next
  case (parent_patched k'' p old p' new)
  then have old: "reads P k h = [old]" and p: "patch_allowed cached P C fin k h old new"
    using assms(2) by (auto simp: patch_allowed_def)
  then have k: "k'' = k" using read_key [OF assms(3,4), of old] parent_patched by simp
  have "carries P fin (unless_released P p')" if "ContainsFinalizer (res_meta P new) fin"
    using that parent_patched by (auto simp: unless_released_def ContainsFinalizer_def split: if_splits)
  with parent_patched k show ?thesis
    by (intro knows_extend [OF assms(5)])
      (auto simp: read_of_other finalizer_added_def child_gone_def answered_key_def)
next
  case (parent_status_patched k'' p old p' new)
  then show ?thesis
    by (intro knows_extend [OF assms(5)])
      (auto simp: read_of_other finalizer_added_def child_gone_def answered_key_def)
qed

sublocale interleaving sys "protocol_guard cached P C fin"
  "\<lambda>w. \<forall>k. entry_ok cached P C fin k (w k)" "knows cached P C fin"
proof
  fix k pr w w' h q r k' h'
  show "starts sys k pr \<Longrightarrow> safe (protocol_guard cached P C fin k) pr [] (\<lambda>_ _. True)"
    by (rule starts_safe)
  show "initial sys w \<Longrightarrow> \<forall>k. entry_ok cached P C fin k (w k)" by (simp add: initial_ok)
  show "knows cached P C fin k w []" by (simp add: knows_def)
  assume inv: "\<forall>k. entry_ok cached P C fin k (w k)"
  show "\<forall>k. entry_ok cached P C fin k (w' k)" if "environment sys w w'"
    using environment_entry_ok inv that unfolding environment_hosted by blast
  show "knows cached P C fin k w' h" if "environment sys w w'" "knows cached P C fin k w h"
    using knows_evolves [OF that(2)] environment_evolves that(1) unfolding environment_hosted by blast
  assume know: "knows cached P C fin k w h" and guard: "protocol_guard cached P C fin k h q"
    and "serve sys w q r w'"
  then have serve: "hosted_serve Stored P C w q r w'" by (simp add: serve_hosted)
  show "\<forall>k. entry_ok cached P C fin k (w' k)" using serve_entry_ok [OF serve guard know] inv by blast
  show "knows cached P C fin k w' (h @ [(q, r)])"
    using knows_append [OF serve guard know] serve_own_frame [OF serve guard know] inv by blast
  show "knows cached P C fin k' w' h'" if "k' \<noteq> k" "knows cached P C fin k' w h'"
    using knows_evolves [OF that(2)] serve_others_evolve [OF serve guard know _ that(1)] inv by blast
qed

text \<open>In every reachable state a child has a parent that carries the finalizer, or a worker was misled.\<close>

lemma no_orphan:
  assumes "reachable sys s" and "ent_child (store s k) = Some c" and "\<not> misled cached (store s k)"
  shows "\<exists>p. ent_parent (store s k) = Some p \<and> ContainsFinalizer (res_meta P p) fin \<and> res_key P p = k"
proof -
  have ok: "entry_ok cached P C fin k (store s k)" using invariant_rule(1) [OF assms(1)] by blast
  then obtain p where p: "ent_parent (store s k) = Some p" "ContainsFinalizer (res_meta P p) fin"
    using assms(2,3) by (auto simp: entry_ok_def carries_def split: option.splits)
  with entry_keys(1) [OF ok p(1)] show ?thesis by simp
qed

end

end
