(* ===== verification/Nodeclass_Lifecycle.thy ===== *)
theory Nodeclass_Lifecycle
  imports Finalizer_Invariant Ec2_Properties Azure_Controller
begin

text \<open>
  The two NodeClass controllers as systems: for every NodeClass a worker that runs the controller's
  \<^verbatim>\<open>Reconcile\<close> again and again, beside the workers of the other NodeClasses, users, Karpenter,
  and crashes of the operator. \<^verbatim>\<open>Reconcile\<close> never runs twice at a time for one key (the work queue
  of controller-runtime) or in two processes (leader election).
\<close>


section \<open>Calls outside the protocol\<close>

fun harmless :: "'p resource \<Rightarrow> 'c resource \<Rightarrow> req \<Rightarrow> bool" where
  "harmless P C (Get t kd _ _) \<longleftrightarrow> \<not> (t = Hosted \<and> kd = res_kind P)"
| "harmless P C (Create t x) \<longleftrightarrow> res_unwrap P x = None \<and> res_unwrap C x = None"
| "harmless P C (Update t x) \<longleftrightarrow> res_unwrap P x = None"
| "harmless P C (Patch t lock a b) \<longleftrightarrow> res_unwrap P a = None \<and> res_unwrap C a = None"
| "harmless P C (PatchStatus t lock a b) \<longleftrightarrow> lock \<and> res_unwrap C a = None"
| "harmless P C (Delete t kd _ _) \<longleftrightarrow> \<not> (t = Hosted \<and> kd = res_kind P)"
| "harmless P C _ \<longleftrightarrow> True"

context parent_child
begin

lemma harmless_guard: "harmless P C q \<Longrightarrow> protocol_guard cached P C fin k h q"
  by (cases q) auto

lemma harmless_reads: "list_all (harmless P C \<circ> fst) t \<Longrightarrow> reads P k t = []"
proof (induction t)
  case (Cons x t)
  have "read_of P k x = []" using Cons.prems by (cases x) (auto intro!: read_of_other)
  with Cons show ?case by (simp add: reads_def)
qed simp

lemma harmless_added: "list_all (harmless P C \<circ> fst) t \<Longrightarrow> \<not> finalizer_added P fin t"
  by (fastforce simp: finalizer_added_def list_all_iff)

text \<open>A part of the program whose calls are outside the protocol.\<close>

lemma safe_harmless:
  assumes "safe (\<lambda>_ q. harmless P C q) pr h (\<lambda>_ _. True)"
    and "\<And>t a. runs pr t a \<Longrightarrow> list_all (harmless P C \<circ> fst) t \<Longrightarrow> Q (h @ t) a"
  shows "safe (protocol_guard cached P C fin k) pr h Q"
proof -
  have "list_all (harmless P C \<circ> fst) t" if "runs pr t a" for t a
    using safe_calls [OF assms(1) that] by (auto simp: list_all_iff)
  then have "safe (\<lambda>_ q. harmless P C q) pr h Q"
    by (intro safe_any [OF assms(1)]) (simp add: assms(2))
  then show ?thesis by (rule safe_weaken_guard) (rule harmless_guard)
qed

lemma safe_rest:
  assumes "\<And>h. safe (\<lambda>_ q. harmless P C q) pr h (\<lambda>_ _. True)"
  shows "safe (protocol_guard cached P C fin k) pr h (\<lambda>_ _. True)"
  by (rule safe_harmless [OF assms]) simp

text \<open>When \<open>deleteIfNeeded\<close> reports the child gone, its own calls are the evidence.\<close>

lemma deleteIfNeeded_child_gone:
  assumes "runs (deleteIfNeeded Hosted C ty (fst k) (snd k)) tr (Inr False)" and "honest P C k tr"
  shows "child_gone C True k tr"
proof -
  from assms(1) obtain x tr' where tr: "tr = (Get Hosted (res_kind C) (fst k) (snd k), x) # tr'"
    and rest: "runs (case as_object C x of
        Inl e \<Rightarrow> if IsNotFound e \<or> IsNoMatchError e then Ret (Inr False)
          else Ret (Inl (EWrap (''getting '' @ ty @ '': '') e []))
      | Inr c \<Rightarrow> if being_deleted (res_meta C c) then Ret (Inr True)
          else bind (c_delete Hosted C (fst (res_key C c)) (snd (res_key C c))) (\<lambda>deleted.
            case deleted of
              Inl e \<Rightarrow> if IsNotFound e then Ret (Inr False)
                else Ret (Inl (EWrap (''deleting '' @ ty @ '': '') e []))
            | Inr _ \<Rightarrow> Ret (Inr True))) tr' (Inr False)"
    by (auto simp: deleteIfNeeded_def c_get_def runs_Call_iff)
  show ?thesis
  proof (cases "as_object C x")
    case (Inl e)
    with rest have "IsNotFound e \<or> IsNoMatchError e" by (auto split: if_splits)
    with Inl obtain re m where "x = RErr re m" "says_absent re"
      by (cases x) (auto simp: decode_failed_def says_absent_def split: option.splits)
    with tr show ?thesis by (auto simp: child_gone_def)
  next
    case (Inr c)
    then have x: "x = RObj (res_wrap C c)" by (simp add: child.as_object_iff)
    with tr assms(2) have "res_key C c = k" by (auto simp: honest_def answered_key_def)
    with Inr rest obtain y where d: "tr' = [(Delete Hosted (res_kind C) (fst k) (snd k), y)]"
      and y: "runs (case as_unit y of
           Inl e \<Rightarrow> if IsNotFound e then Ret (Inr False)
             else Ret (Inl (EWrap (''deleting '' @ ty @ '': '') e []))
         | Inr _ \<Rightarrow> Ret (Inr True)) [] (Inr False)"
      by (auto simp: c_delete_def runs_Call_iff split: if_splits) (auto split: sum.splits if_splits)
    from y obtain m where "y = RErr NotFound m" by (cases y) (auto split: if_splits)
    with tr d show ?thesis by (auto simp: child_gone_def says_absent_def)
  qed
qed

end


section \<open>The EC2 controller\<close>

text \<open>The server keeps the metadata it is sent, sets the defaults of the schema of EC2NodeClasses in the
  specification (\<open>schema\<close>, any function), and takes no status from a client.\<close>

definition ec2_stored :: "(ec2_spec \<Rightarrow> ec2_spec) \<Rightarrow> ec2_nodeclass option \<Rightarrow> ec2_nodeclass \<Rightarrow> ec2_nodeclass \<Rightarrow> bool" where
  "ec2_stored schema cur c c' \<longleftrightarrow>
     stored_meta (map_option ec2_Meta cur) (ec2_Meta c) (ec2_Meta c') \<and> ec2_Spec c' = schema (ec2_Spec c) \<and>
     ec2_Status c' = (case cur of None \<Rightarrow> ec2_Status (new_ec2_nodeclass [] []) | Some c0 \<Rightarrow> ec2_Status c0)"

definition ec2_system ::
  "(ec2_spec \<Rightarrow> ec2_spec) \<Rightarrow> string \<Rightarrow>
   (string \<times> string, req, resp, goerr + result, (openshift_ec2_nodeclass, ec2_nodeclass) objects) system"
where
  "ec2_system schema namespace =
     \<lparr>starts = (\<lambda>k p. \<exists>now n. k = ([], n) \<and> p = ec2_Reconcile now namespace [] n),
      serve = hosted_serve (ec2_stored schema) OpenshiftEC2NodeClasses EC2NodeClasses,
      environment = hosted_environment OpenshiftEC2NodeClasses EC2NodeClasses ec2_finalizer,
      initial = (\<lambda>w. w = (\<lambda>_. empty_entry))\<rparr>"

interpretation ec2_pair: parent_child OpenshiftEC2NodeClasses EC2NodeClasses
  by unfold_locales (simp_all add: OpenshiftEC2NodeClasses_def EC2NodeClasses_def)

abbreviation ec2_harmless :: "req \<Rightarrow> bool" where
  "ec2_harmless \<equiv> harmless OpenshiftEC2NodeClasses EC2NodeClasses"

lemma ec2_unwraps [simp]:
  "res_unwrap OpenshiftEC2NodeClasses (OConfigMap cm) = None" "res_unwrap EC2NodeClasses (OConfigMap cm) = None"
  "res_unwrap OpenshiftEC2NodeClasses (OValidatingAdmissionPolicy v) = None"
  "res_unwrap EC2NodeClasses (OValidatingAdmissionPolicy v) = None"
  "res_unwrap OpenshiftEC2NodeClasses (OValidatingAdmissionPolicyBinding b) = None"
  "res_unwrap EC2NodeClasses (OValidatingAdmissionPolicyBinding b) = None"
  "res_unwrap OpenshiftEC2NodeClasses (OEC2NodeClass c) = None" "res_unwrap EC2NodeClasses (OOpenshiftEC2NodeClass p) = None"
  by (simp_all add: OpenshiftEC2NodeClasses_def EC2NodeClasses_def)

lemma ec2_harmless_lookups:
  "safe (\<lambda>_ q. ec2_harmless q) (GetHostedControlPlane Mgmt namespace) h (\<lambda>_ _. True)"
  "safe (\<lambda>_ q. ec2_harmless q) (GetUserDataSecret Mgmt namespace n) h (\<lambda>_ _. True)"
  by (auto simp: GetHostedControlPlane_def GetUserDataSecret_def c_list_def safe_bindE safe_wrapE split: sum.split)

lemma ec2_harmless_subnets:
  "safe (\<lambda>_ q. ec2_harmless q) (reconcileKarpenterSubnetsConfigMap namespace hcp) h (\<lambda>_ _. True)"
  unfolding reconcileKarpenterSubnetsConfigMap_def safe_bindE safe_wrapE Let_def
  by (rule safe_c_list; simp split: sum.split; intro impI conjI allI)
    (auto simp: safe_bindE safe_wrapE res_key_def new_config_map_def
      intro!: safe_any [OF safe_deleteIfNeeded] safe_CreateOrUpdate split: sum.split)

lemma ec2_harmless_vap: "safe (\<lambda>_ q. ec2_harmless q) ec2_reconcileVAP h (\<lambda>_ _. True)"
  unfolding ec2_reconcileVAP_def safe_bindE
  by (rule safe_CreateOrUpdate)
    (auto simp: safe_bindE intro!: safe_CreateOrUpdate split: sum.split)

lemma ec2_harmless_status: "safe (\<lambda>_ q. ec2_harmless q) (ec2_reconcileStatus now ec2 onc hcp) h (\<lambda>_ _. True)"
  by (auto simp: ec2_reconcileStatus_def c_patch_status_def safe_bindE safe_wrapE split: sum.split)

abbreviation ec2_protocol :: "bool \<Rightarrow> string \<times> string \<Rightarrow> (req \<times> resp) list \<Rightarrow> req \<Rightarrow> bool" where
  "ec2_protocol cached \<equiv> protocol_guard cached OpenshiftEC2NodeClasses EC2NodeClasses ec2_finalizer"

text \<open>After the creation everything is harmless; before it, the finalizer was seen or added.\<close>

lemma ec2_protocol_normal:
  assumes "create_allowed OpenshiftEC2NodeClasses EC2NodeClasses ec2_finalizer k h (new_ec2_nodeclass ns0 n0)"
  shows "safe (ec2_protocol cached k) (ec2_reconcileNormal now namespace hcp ns0 n0 onc) h (\<lambda>_ _. True)"
proof -
  have rest: "safe (ec2_protocol cached k)
      (bindE (ec2_reconcileStatus now ec2 onc hcp) (\<lambda>_.
       bindE (wrapE ''reconciling karpenter subnets configmap: ''
                (reconcileKarpenterSubnetsConfigMap namespace hcp)) (\<lambda>_.
       bindE ec2_reconcileVAP (\<lambda>_. done_result)))) h' (\<lambda>_ _. True)" for ec2 h'
    by (rule ec2_pair.safe_rest, unfold safe_bindE safe_wrapE, rule safe_any [OF ec2_harmless_status],
        auto split: sum.split, rule safe_any [OF ec2_harmless_subnets],
        auto split: sum.split, rule safe_any [OF ec2_harmless_vap], auto split: sum.split)
  have create: "safe (ec2_protocol cached k)
      (CreateOrUpdate Hosted EC2NodeClasses (new_ec2_nodeclass ns0 n0) (ec2_mutate onc hcp s)) (h @ t)
      (\<lambda>h' x. case x of Inl e \<Rightarrow> True | Inr a \<Rightarrow> safe (ec2_protocol cached k) (rest a) h' (\<lambda>_ _. True))"
    if "list_all (ec2_harmless \<circ> fst) t" and "\<And>a h'. safe (ec2_protocol cached k) (rest a) h' (\<lambda>_ _. True)"
    for s t and rest :: "operation_result \<times> ec2_nodeclass \<Rightarrow> result io"
  proof (rule safe_CreateOrUpdate)
    let ?g = "Get Hosted (res_kind EC2NodeClasses) (fst (res_key EC2NodeClasses (new_ec2_nodeclass ns0 n0)))
      (snd (res_key EC2NodeClasses (new_ec2_nodeclass ns0 n0)))"
    fix e b
    assume "res_key EC2NodeClasses b = res_key EC2NodeClasses (new_ec2_nodeclass ns0 n0)"
    then show "ec2_protocol cached k ((h @ t) @ [(?g, e)]) (Create Hosted (res_wrap EC2NodeClasses b))"
      using assms that(1) ec2_pair.harmless_reads [OF that(1)]
      by (auto simp: create_allowed_def reads_append read_of_other finalizer_added_append honest_append)
  qed (use that(2) in \<open>auto split: sum.split\<close>)
  show ?thesis
    unfolding ec2_reconcileNormal_def safe_bind
    by (rule ec2_pair.safe_harmless [OF ec2_harmless_lookups(2)])
      (auto simp: safe_bindE intro!: create rest split: sum.split)
qed

lemma ec2_protocol_delete:
  assumes "being_deleted (onc_Meta onc)" and "reads OpenshiftEC2NodeClasses k h = [onc]"
    and "honest OpenshiftEC2NodeClasses EC2NodeClasses k h \<Longrightarrow> res_key OpenshiftEC2NodeClasses onc = k"
  shows "safe (ec2_protocol True k) (ec2_reconcileDelete namespace hcp onc) h (\<lambda>_ _. True)"
proof -
  let ?d = "deleteIfNeeded Hosted EC2NodeClasses ''*v1.EC2NodeClass''
    (md_Namespace (onc_Meta onc)) (md_Name (onc_Meta onc))"
  have d: "safe (\<lambda>_ q. ec2_harmless q) ?d h (\<lambda>_ _. True)" by (rule safe_deleteIfNeeded) simp_all
  show ?thesis
    unfolding ec2_reconcileDelete_def safe_bindE
  proof (rule ec2_pair.safe_harmless [OF d])
    fix t and x :: "goerr + bool"
    assume r: "runs ?d t x" and t: "list_all (ec2_harmless \<circ> fst) t"
    have patch: "patch_allowed True OpenshiftEC2NodeClasses EC2NodeClasses ec2_finalizer k ((h @ t) @ u) onc
        (onc\<lparr>onc_Meta := RemoveFinalizer (onc_Meta onc) ec2_finalizer\<rparr>)"
      if "x = Inr False" "list_all (ec2_harmless \<circ> fst) u" for u
    proof -
      have "gone_since_read OpenshiftEC2NodeClasses EC2NodeClasses True k ((h @ t) @ u)"
        if honest: "honest OpenshiftEC2NodeClasses EC2NodeClasses k ((h @ t) @ u)"
      proof -
        have "res_key OpenshiftEC2NodeClasses onc = k" "honest OpenshiftEC2NodeClasses EC2NodeClasses k t"
          using assms(3) honest by (simp_all add: honest_append)
        then have "child_gone EC2NodeClasses True k t"
          using r \<open>x = Inr False\<close> by (intro ec2_pair.deleteIfNeeded_child_gone) (auto simp: res_key_def)
        then have "child_gone EC2NodeClasses True k (t @ u)" by (simp add: child_gone_append)
        then show ?thesis
          using assms(2) unfolding gone_since_read_def append_assoc by (intro exI conjI) auto
      qed
      then show ?thesis
        using assms(1,2) ec2_pair.harmless_reads [OF t] ec2_pair.harmless_reads [OF that(2)]
        by (auto simp: patch_allowed_def reads_append)
    qed
    show "case x of
        Inl e \<Rightarrow> True
      | Inr exists \<Rightarrow> safe (ec2_protocol True k)
          (if exists then Ret (Inr (5 * second))
           else bindE (wrapE ''reconciling karpenter subnets configmap during deletion: ''
                  (reconcileKarpenterSubnetsConfigMap namespace hcp)) (\<lambda>_.
             if ContainsFinalizer (onc_Meta onc) ec2_finalizer
             then bindE (wrapE ''removing finalizer from openshiftEC2NodeClass: ''
                    (c_patch Hosted OpenshiftEC2NodeClasses True onc
                      (onc\<lparr>onc_Meta := RemoveFinalizer (onc_Meta onc) ec2_finalizer\<rparr>)))
                    (\<lambda>_. done_result)
             else done_result)) (h @ t) (\<lambda>_ _. True)"
      using patch
      by (auto simp: safe_bindE safe_wrapE c_patch_def
          intro!: ec2_pair.safe_harmless [OF ec2_harmless_subnets] split: sum.split)
  qed
qed

lemma ec2_protocol_Reconcile:
  "safe (ec2_protocol True ([], n)) (ec2_Reconcile now namespace [] n) [] (\<lambda>_ _. True)"
proof -
  let ?k = "([], n) :: string \<times> string"
  let ?P = OpenshiftEC2NodeClasses and ?C = EC2NodeClasses
  have body: "safe (ec2_protocol True ?k)
      (if being_deleted (onc_Meta onc) then ec2_reconcileDelete namespace hcp onc
       else bindE (ec2_ensureFinalizer onc) (ec2_reconcileNormal now namespace hcp
         (md_Namespace (onc_Meta onc)) (md_Name (onc_Meta onc))))
      h (\<lambda>_ _. True)"
    if "as_object ?P x = Inr onc" and t: "list_all (ec2_harmless \<circ> fst) t"
      and h_def: "h = t @ [(Get Hosted KOpenshiftEC2NodeClass [] n, x)]" for hcp onc t x h
  proof -
    from that(1) have x: "x = RObj (OOpenshiftEC2NodeClass onc)" by (simp add: openshift_ec2s.as_object_iff)
    then have r: "reads ?P ?k h = [onc]" using ec2_pair.harmless_reads [OF t] by (simp add: h_def reads_append)
    have key: "res_key ?P onc = ?k" if "honest ?P ?C ?k (h @ u)" for u
      using that x by (auto simp: h_def honest_def answered_key_def)
    have create: "create_allowed ?P ?C ec2_finalizer ?k (h @ u)
        (new_ec2_nodeclass (md_Namespace (onc_Meta onc)) (md_Name (onc_Meta onc)))"
      if "\<not> being_deleted (onc_Meta onc)" "reads ?P ?k u = []"
        "ContainsFinalizer (onc_Meta onc) ec2_finalizer \<or> finalizer_added ?P ec2_finalizer u" for u
      using r that key [of u]
      by (auto simp: create_allowed_def reads_append finalizer_added_append res_key_def new_ec2_nodeclass_def)
    show ?thesis
    proof (cases "being_deleted (onc_Meta onc)")
      case True
      with ec2_protocol_delete [OF True r] key [of "[]"] show ?thesis by simp
    next
      case False
      let ?p = "Patch Hosted True (OOpenshiftEC2NodeClass onc)
        (OOpenshiftEC2NodeClass (onc\<lparr>onc_Meta := AddFinalizer (onc_Meta onc) ec2_finalizer\<rparr>))"
      have "patch_allowed True ?P ?C ec2_finalizer ?k h onc
          (onc\<lparr>onc_Meta := AddFinalizer (onc_Meta onc) ec2_finalizer\<rparr>)"
        using False r by (simp add: patch_allowed_def)
      then have guard: "ec2_protocol True ?k h ?p"
        using ec2_pair.wraps(1) by (auto simp: OpenshiftEC2NodeClasses_def EC2NodeClasses_def)
      have added: "finalizer_added ?P ec2_finalizer [(?p, RObj (OOpenshiftEC2NodeClass onc'))]" for onc'
        unfolding finalizer_added_def by (intro exI conjI) auto
      have "read_of ?P ?k (?p, y) = []" for y by (rule read_of_other) simp
      note evidence = create [OF False, of "[]"] create [OF False, of "[(?p, RObj (OOpenshiftEC2NodeClass onc'))]" for onc']
      with guard False added this show ?thesis
        by (auto simp: ec2_ensureFinalizer_def c_patch_def safe_bindE safe_wrapE openshift_ec2s.as_object_iff
            intro!: ec2_protocol_normal split: sum.split)
    qed
  qed
  show ?thesis
    unfolding ec2_Reconcile_def safe_bind
    by (rule ec2_pair.safe_harmless [OF ec2_harmless_lookups(1)])
      (auto simp: c_get_def body [OF _ _ refl] ec2_pair.harmless_reads ec2_pair.harmless_added split: sum.split)
qed

lemma empty_entry_ok [simp]: "entry_ok cached P C fin k empty_entry"
  by (simp add: entry_ok_def empty_entry_def versions_distinct_def removals_ok_def ent_child_def)

interpretation ec2_protocol: finalizer_protocol OpenshiftEC2NodeClasses EC2NodeClasses True "ec2_stored schema"
    ec2_finalizer "ec2_system schema namespace" for schema namespace
  by unfold_locales (auto simp: ec2_system_def ec2_protocol_Reconcile)


section \<open>The Azure controller\<close>

definition aks_stored :: "(aks_spec \<Rightarrow> aks_spec) \<Rightarrow> aks_nodeclass option \<Rightarrow> aks_nodeclass \<Rightarrow> aks_nodeclass \<Rightarrow> bool" where
  "aks_stored schema cur c c' \<longleftrightarrow>
     stored_meta (map_option aks_Meta cur) (aks_Meta c) (aks_Meta c') \<and> aks_Spec c' = schema (aks_Spec c) \<and>
     aks_Conditions c' = (case cur of None \<Rightarrow> [] | Some c0 \<Rightarrow> aks_Conditions c0)"

definition azure_system ::
  "(aks_spec \<Rightarrow> aks_spec) \<Rightarrow> string \<Rightarrow>
   (string \<times> string, req, resp, goerr + result, (openshift_azure_nodeclass, aks_nodeclass) objects) system"
where
  "azure_system schema namespace =
     \<lparr>starts = (\<lambda>k p. \<exists>now n. k = ([], n) \<and> p = azure_Reconcile now namespace [] n),
      serve = hosted_serve (aks_stored schema) OpenShiftAzureNodeClasses AKSNodeClasses,
      environment = hosted_environment OpenShiftAzureNodeClasses AKSNodeClasses azure_finalizer,
      initial = (\<lambda>w. w = (\<lambda>_. empty_entry))\<rparr>"

interpretation azure_pair: parent_child OpenShiftAzureNodeClasses AKSNodeClasses
  by unfold_locales (simp_all add: OpenShiftAzureNodeClasses_def AKSNodeClasses_def)

abbreviation azure_harmless :: "req \<Rightarrow> bool" where
  "azure_harmless \<equiv> harmless OpenShiftAzureNodeClasses AKSNodeClasses"

abbreviation azure_protocol :: "bool \<Rightarrow> string \<times> string \<Rightarrow> (req \<times> resp) list \<Rightarrow> req \<Rightarrow> bool" where
  "azure_protocol cached \<equiv> protocol_guard cached OpenShiftAzureNodeClasses AKSNodeClasses azure_finalizer"

lemma azure_unwraps [simp]:
  "res_unwrap OpenShiftAzureNodeClasses (OAKSNodeClass c) = None"
  "res_unwrap AKSNodeClasses (OOpenShiftAzureNodeClass p) = None"
  by (simp_all add: OpenShiftAzureNodeClasses_def AKSNodeClasses_def)

lemma azure_harmless_lookups:
  "safe (\<lambda>_ q. azure_harmless q) (GetHostedControlPlane Mgmt namespace) h (\<lambda>_ _. True)"
  "safe (\<lambda>_ q. azure_harmless q) (GetUserDataSecret Mgmt namespace n) h (\<lambda>_ _. True)"
  by (auto simp: GetHostedControlPlane_def GetUserDataSecret_def c_list_def safe_bindE safe_wrapE split: sum.split)

lemma azure_harmless_status:
  "safe (\<lambda>_ q. azure_harmless q) (azure_reconcileStatus now nc aks) h (\<lambda>_ _. True)"
  by (auto simp: azure_reconcileStatus_def Let_def c_patch_status_def safe_bindE safe_wrapE split: sum.split)

lemma azure_protocol_create:
  assumes "create_allowed OpenShiftAzureNodeClasses AKSNodeClasses azure_finalizer k h
      (new_aks_nodeclass (md_Name (anc_Meta nc)))"
    and "list_all (azure_harmless \<circ> fst) t"
  shows "safe (azure_protocol cached k)
      (bindE (reconcileAKSNodeClass nc hcp s) (\<lambda>aks.
         bindE (azure_reconcileStatus now nc aks) (\<lambda>_. done_result))) (h @ t) (\<lambda>_ _. True)"
proof -
  note st = azure_pair.safe_rest [OF azure_harmless_status]
  have "azure_protocol cached k ((h @ t) @ [(Get Hosted (res_kind AKSNodeClasses)
        (fst (res_key AKSNodeClasses (new_aks_nodeclass (md_Name (anc_Meta nc)))))
        (snd (res_key AKSNodeClasses (new_aks_nodeclass (md_Name (anc_Meta nc))))), e)])
      (Create Hosted (res_wrap AKSNodeClasses b))"
    if "res_key AKSNodeClasses b = res_key AKSNodeClasses (new_aks_nodeclass (md_Name (anc_Meta nc)))" for e b
    using assms azure_pair.harmless_reads [OF assms(2)] that
    by (auto simp: create_allowed_def reads_append read_of_other finalizer_added_append honest_append)
  then show ?thesis
    unfolding reconcileAKSNodeClass_def safe_bindE safe_wrapE
    by (intro safe_CreateOrUpdate) (auto intro!: safe_mono [OF st] split: sum.split)
qed

lemma azure_protocol_normal:
  assumes "create_allowed OpenShiftAzureNodeClasses AKSNodeClasses azure_finalizer k h
      (new_aks_nodeclass (md_Name (anc_Meta nc)))"
  shows "safe (azure_protocol cached k) (azure_reconcileNormal now namespace nc) h (\<lambda>_ _. True)"
  unfolding azure_reconcileNormal_def safe_bind
  by (rule azure_pair.safe_harmless [OF azure_harmless_lookups(1)])
    (auto simp: safe_bind intro!: azure_pair.safe_harmless [OF azure_harmless_lookups(2)]
      azure_protocol_create [OF assms, where t = "_ @ _", unfolded append_assoc [symmetric]] split: sum.split)

lemma azure_protocol_delete:
  assumes "being_deleted (anc_Meta nc)" and "reads OpenShiftAzureNodeClasses ([], n) h = [nc]"
    and "honest OpenShiftAzureNodeClasses AKSNodeClasses ([], n) h \<Longrightarrow> res_key OpenShiftAzureNodeClasses nc = ([], n)"
  shows "safe (azure_protocol cached ([], n)) (azure_reconcileDelete nc) h (\<lambda>_ _. True)"
proof -
  let ?d = "Delete Hosted KAKSNodeClass [] (md_Name (anc_Meta nc))"
  have "patch_allowed cached OpenShiftAzureNodeClasses AKSNodeClasses azure_finalizer ([], n)
      (h @ [(?d, RErr NotFound m)]) nc (nc\<lparr>anc_Meta := RemoveFinalizer (anc_Meta nc) azure_finalizer\<rparr>)" for m
  proof -
    have "read_of OpenShiftAzureNodeClasses ([], n) (?d, r) = []" for r by (rule read_of_other) simp
    moreover have "child_gone AKSNodeClasses cached ([], n) [(?d, RErr NotFound m)]"
      if "md_Name (anc_Meta nc) = n"
      using that by (auto simp: child_gone_def says_absent_def)
    ultimately show ?thesis
      using assms
      by (auto simp: patch_allowed_def reads_append honest_append gone_since_read_append res_key_def)
  qed
  then show ?thesis
    by (auto simp: azure_reconcileDelete_def c_delete_def c_patch_def safe_bindE safe_bind safe_wrapE as_unit_Inl
        split: sum.split)
qed

lemma azure_protocol_Reconcile:
  "safe (azure_protocol cached ([], n)) (azure_Reconcile now namespace [] n) [] (\<lambda>_ _. True)"
proof -
  let ?k = "([], n) :: string \<times> string"
  let ?P = OpenShiftAzureNodeClasses and ?C = AKSNodeClasses
  have body: "safe (azure_protocol cached ?k)
      (if being_deleted (anc_Meta nc) then bindE (azure_reconcileDelete nc) (\<lambda>_. done_result)
       else bindE (azure_ensureFinalizer nc) (azure_reconcileNormal now namespace)) h (\<lambda>_ _. True)"
    if "as_object ?P x = Inr nc" and h_def: "h = [(Get Hosted KOpenShiftAzureNodeClass [] n, x)]" for nc x h
  proof -
    from that(1) have x: "x = RObj (OOpenShiftAzureNodeClass nc)" by (simp add: openshift_azures.as_object_iff)
    then have r: "reads ?P ?k h = [nc]" by (simp add: h_def)
    have key: "res_key ?P nc = ?k" if "honest ?P ?C ?k h"
      using that x by (auto simp: h_def honest_def answered_key_def)
    have create: "create_allowed ?P ?C azure_finalizer ?k (h @ u) (new_aks_nodeclass (md_Name (anc_Meta nc')))"
      if "\<not> being_deleted (anc_Meta nc)" "reads ?P ?k u = []"
        "ContainsFinalizer (anc_Meta nc) azure_finalizer \<or> finalizer_added ?P azure_finalizer u"
        "honest ?P ?C ?k (h @ u) \<Longrightarrow> md_Name (anc_Meta nc') = n" for u nc'
      using r that
      by (auto simp: create_allowed_def reads_append finalizer_added_append res_key_def new_aks_nodeclass_def)
    show ?thesis
    proof (cases "being_deleted (anc_Meta nc)")
      case True
      then show ?thesis
        using key r by (auto simp: safe_bindE intro!: safe_mono [OF azure_protocol_delete] split: sum.split)
    next
      case False
      let ?p = "Patch Hosted True (OOpenShiftAzureNodeClass nc)
        (OOpenShiftAzureNodeClass (nc\<lparr>anc_Meta := AddFinalizer (anc_Meta nc) azure_finalizer\<rparr>))"
      have "patch_allowed cached ?P ?C azure_finalizer ?k h nc
          (nc\<lparr>anc_Meta := AddFinalizer (anc_Meta nc) azure_finalizer\<rparr>)"
        using False r by (simp add: patch_allowed_def)
      then have guard: "azure_protocol cached ?k h ?p" by auto
      have added: "finalizer_added ?P azure_finalizer [(?p, RObj (OOpenShiftAzureNodeClass nc'))]" for nc'
        unfolding finalizer_added_def by (intro exI conjI) auto
      have none: "read_of ?P ?k (?p, y) = []" for y by (rule read_of_other) simp
      have named: "md_Name (anc_Meta nc') = n"
        if "honest ?P ?C ?k (h @ [(?p, RObj (OOpenShiftAzureNodeClass nc'))])" for nc'
        using that by (auto simp: honest_append honest_def answered_key_def res_key_def)
      have seen: "create_allowed ?P ?C azure_finalizer ?k h (new_aks_nodeclass (md_Name (anc_Meta nc)))"
        if "ContainsFinalizer (anc_Meta nc) azure_finalizer"
        using create [OF False, of "[]" nc] that key by (simp add: res_key_def)
      have patched: "create_allowed ?P ?C azure_finalizer ?k (h @ [(?p, RObj (OOpenShiftAzureNodeClass nc'))])
          (new_aks_nodeclass (md_Name (anc_Meta nc')))" for nc'
        using create [OF False, of "[(?p, RObj (OOpenShiftAzureNodeClass nc'))]" nc'] none added named by simp
      show ?thesis
        using False guard seen patched
        by (auto simp: azure_ensureFinalizer_def c_patch_def safe_bindE safe_wrapE openshift_azures.as_object_iff
            intro!: azure_protocol_normal split: sum.split)
    qed
  qed
  show ?thesis
    by (auto simp: azure_Reconcile_def c_get_def safe_bind body [OF _ refl] split: sum.split)
qed

interpretation azure_protocol: finalizer_protocol OpenShiftAzureNodeClasses AKSNodeClasses False "aks_stored schema"
    azure_finalizer "azure_system schema namespace" for schema namespace
  by unfold_locales (auto simp: azure_system_def azure_protocol_Reconcile)

end
