(* ===== verification/Finalizer_Progress.thy ===== *)
theory Finalizer_Progress
  imports Finalizer_Invariant
begin

text \<open>
  The other half of the finalizer protocol: a parent that is being deleted can always go away, by the work
  of the controller. From every reachable state, whatever the workers were doing and however far the caches
  are behind, the system can step to one where the parent and its child are gone, although nobody but the
  controller deletes the child (\<open>cooperating\<close>). \<open>finalizer_progress\<close> asks two runs of a controller:
  one that deletes the child, and one that releases a parent whose child is gone.
\<close>


section \<open>Everybody else cooperates\<close>

text \<open>Less than \<open>hosted_environment\<close>: the caches move on, and Karpenter takes its finalizers off a child
  once that is being deleted, so that it goes away. Nobody marks a child for deletion.\<close>

inductive cooperating :: "'c resource \<Rightarrow> ('p, 'c) objects \<Rightarrow> ('p, 'c) objects \<Rightarrow> bool" for C where
  parent_cache_moves: "ent_seen (w k) \<le> i \<Longrightarrow> i < length (ent_versions (w k)) \<Longrightarrow>
    cooperating C w (w(k := (w k)\<lparr>ent_seen := i\<rparr>))"
| child_cache_moves: "ent_child_seen (w k) \<le> i \<Longrightarrow> i < length (ent_children (w k)) \<Longrightarrow>
    cooperating C w (w(k := (w k)\<lparr>ent_child_seen := i\<rparr>))"
| child_finalized: "ent_child (w k) = Some c \<Longrightarrow> being_deleted (res_meta C c) \<Longrightarrow>
    cooperating C w (w(k := put_child None (w k)))"

lemma cooperating_hosted: "cooperating C w w' \<Longrightarrow> hosted_environment P C fin w w'"
proof (induction rule: cooperating.induct)
  case (parent_cache_moves w k i)
  then show ?case by (rule cache_advances)
next
  case (child_cache_moves w k i)
  then show ?case by (rule child_cache_advances)
next
  case (child_finalized w k c)
  then show ?case by (intro child_changed) simp_all
qed

text \<open>A system whose environment only cooperates.\<close>

abbreviation with_cooperation ::
  "'c resource \<Rightarrow> ('k, 'q, 'r, 'a, ('p, 'c) objects) system \<Rightarrow> ('k, 'q, 'r, 'a, ('p, 'c) objects) system"
where
  "with_cooperation C sys \<equiv> sys\<lparr>environment := cooperating C\<rparr>"


section \<open>Entries\<close>

definition up_to_date :: "('p, 'c) entry \<Rightarrow> bool" where
  "up_to_date e \<longleftrightarrow>
     ent_versions e ! ent_seen e = ent_parent e \<and> ent_children e ! ent_child_seen e = ent_child e"

definition catch_up :: "('p, 'c) entry \<Rightarrow> ('p, 'c) entry" where
  "catch_up e = e\<lparr>ent_seen := length (ent_versions e) - 1, ent_child_seen := length (ent_children e) - 1\<rparr>"

lemma catch_up_simps [simp]:
  "ent_versions (catch_up e) = ent_versions e" "ent_children (catch_up e) = ent_children e"
  "ent_parent (catch_up e) = ent_parent e" "ent_child (catch_up e) = ent_child e"
  by (simp_all add: catch_up_def ent_parent_def ent_child_def)

lemma catch_up_ok:
  assumes "entry_ok cached P C fin k e"
  shows "up_to_date (catch_up e)"
proof -
  have "ent_versions e \<noteq> []" "ent_children e \<noteq> []" using assms by (auto simp: entry_ok_def)
  then show ?thesis by (simp add: up_to_date_def catch_up_def ent_parent_def ent_child_def last_conv_nth)
qed

lemma child_view_up_to_date: "up_to_date e \<Longrightarrow> child_view e = ent_child e"
  by (simp add: up_to_date_def child_view_def)

text \<open>A parent that only waits for the operator.\<close>

definition waits_for_release :: "'p resource \<Rightarrow> string \<Rightarrow> ('p, 'c) entry \<Rightarrow> 'p \<Rightarrow> bool" where
  "waits_for_release P fin e p \<longleftrightarrow>
     ent_parent e = Some p \<and> being_deleted (res_meta P p) \<and> md_Finalizers (res_meta P p) = [fin]"

text \<open>The API server never runs out of resource versions.\<close>

lemma fresh_version: "\<exists>v. \<forall>q. Some q \<in> set (ent_versions e) \<longrightarrow> md_ResourceVersion (res_meta P q) \<noteq> v"
proof -
  let ?V = "(\<lambda>x. md_ResourceVersion (res_meta P (the x))) ` set (ent_versions e)"
  obtain v where "v \<notin> ?V" using ex_new_if_finite [OF infinite_UNIV_listI, of ?V] by blast
  then have "md_ResourceVersion (res_meta P q) \<noteq> v" if "Some q \<in> set (ent_versions e)" for q
    using that by force
  then show ?thesis by blast
qed


section \<open>The contract\<close>

locale finalizer_progress = finalizer_protocol P C cached Stored fin sys
  for P :: "'p resource" and C :: "'c resource" and cached :: bool
    and Stored :: "'c option \<Rightarrow> 'c \<Rightarrow> 'c \<Rightarrow> bool" and fin :: string
    and sys :: "(string \<times> string, req, resp, goerr + result, ('p, 'c) objects) system" +
  assumes child_deleted_run:
      "k = ([], n) \<Longrightarrow> entry_ok cached P C fin k (w k) \<Longrightarrow> up_to_date (w k) \<Longrightarrow>
       waits_for_release P fin (w k) p \<Longrightarrow> ent_child (w k) = Some c \<Longrightarrow> \<not> being_deleted (res_meta C c) \<Longrightarrow>
       \<exists>r tr a c'. starts sys k r \<and> runs r tr a \<and> being_deleted (res_meta C c') \<and>
         serves (serve sys) w tr (w(k := put_child (unless_released C c') (w k)))"
    and parent_released_run:
      "k = ([], n) \<Longrightarrow> entry_ok cached P C fin k (w k) \<Longrightarrow> up_to_date (w k) \<Longrightarrow>
       waits_for_release P fin (w k) p \<Longrightarrow> ent_child (w k) = None \<Longrightarrow>
       \<exists>r tr a. starts sys k r \<and> runs r tr a \<and> serves (serve sys) w tr (w(k := put_parent None (w k)))"
begin

abbreviation coop :: "(string \<times> string, req, resp, goerr + result, ('p, 'c) objects) system" where
  "coop \<equiv> with_cooperation C sys"

lemma coop_step:
  assumes "system_step coop s s'"
  shows "system_step sys s s'"
  using assms
proof (cases rule: system_step.cases)
  case (others_step w)
  then have "environment sys (store s) w" by (simp add: environment_hosted cooperating_hosted)
  with others_step(1) show ?thesis by (auto intro: system_step.others_step)
qed (auto intro: worker_starts worker_calls worker_stops)

lemma coop_steps: "system_steps coop s s' \<Longrightarrow> system_steps sys s s'"
  using coop_step by (rule mono_rtranclp [rule_format])

lemma coop_invariant: "reachable sys s \<Longrightarrow> system_steps coop s s' \<Longrightarrow> entry_ok cached P C fin k (store s' k)"
  using invariant_rule(1) reachable_steps [OF coop_steps] by blast

lemma steps_idle: "\<exists>s'. system_steps coop s s' \<and> worker s' k = None \<and> store s' = store s"
proof (cases "worker s k")
  case None
  then show ?thesis by blast
next
  case (Some x)
  then have "system_step coop s (s\<lparr>worker := (worker s)(k := None)\<rparr>)" by (rule worker_stops)
  then show ?thesis by (intro exI [of _ "s\<lparr>worker := (worker s)(k := None)\<rparr>"]) simp
qed

lemma steps_catch_up:
  assumes "entry_ok cached P C fin k (store s k)"
  shows "system_steps coop s (s\<lparr>store := (store s)(k := catch_up (store s k))\<rparr>)"
proof -
  let ?e = "store s k"
  let ?e' = "?e\<lparr>ent_seen := length (ent_versions ?e) - 1\<rparr>"
  let ?w = "(store s)(k := ?e')"
  have ne: "ent_seen ?e < length (ent_versions ?e)" "ent_child_seen ?e < length (ent_children ?e)"
    using assms by (simp_all add: entry_ok_def)
  then have "cooperating C (store s) ?w" by (intro parent_cache_moves) simp_all
  then have 1: "system_step coop s (s\<lparr>store := ?w\<rparr>)" by (intro others_step) simp
  have "cooperating C ?w (?w(k := (?w k)\<lparr>ent_child_seen := length (ent_children (?w k)) - 1\<rparr>))"
    using ne by (intro child_cache_moves) simp_all
  then have "cooperating C ?w ((store s)(k := catch_up ?e))" by (simp add: catch_up_def)
  then have "system_step coop (s\<lparr>store := ?w\<rparr>) (s\<lparr>store := ?w, store := (store s)(k := catch_up ?e)\<rparr>)"
    by (intro others_step) simp
  with 1 show ?thesis by (simp add: rtranclp.rtrancl_into_rtrancl)
qed

text \<open>Before the work: the worker is idle and the caches are up to date.\<close>

lemma steps_ready:
  assumes "reachable sys s" and "waits_for_release P fin (store s k) p"
  obtains s' where "system_steps coop s s'" "worker s' k = None" "up_to_date (store s' k)"
    "entry_ok cached P C fin k (store s' k)" "waits_for_release P fin (store s' k) p"
    "ent_child (store s' k) = ent_child (store s k)"
proof -
  obtain s1 where s1: "system_steps coop s s1" "worker s1 k = None" "store s1 = store s"
    using steps_idle by blast
  have ok: "entry_ok cached P C fin k (store s1 k)" using coop_invariant [OF assms(1) s1(1)] .
  let ?s = "s1\<lparr>store := (store s1)(k := catch_up (store s1 k))\<rparr>"
  have "system_steps coop s ?s" using s1(1) steps_catch_up [OF ok] by (rule rtranclp_trans)
  moreover from this have "entry_ok cached P C fin k (store ?s k)" by (rule coop_invariant [OF assms(1)])
  ultimately show thesis
    using s1(2,3) assms(2) catch_up_ok [OF ok] by (intro that [of ?s]) (simp_all add: waits_for_release_def)
qed

text \<open>The child goes first: Karpenter lets go of it once it is being deleted, and a worker deletes it.\<close>

lemma steps_child_finalized:
  assumes "ent_child (store s k) = Some c" and "being_deleted (res_meta C c)"
  shows "system_steps coop s (s\<lparr>store := (store s)(k := put_child None (store s k))\<rparr>)"
  using child_finalized [of "store s" k c C] assms by (intro r_into_rtranclp others_step) simp

lemma steps_child_deleted:
  assumes "reachable sys s" and "waits_for_release P fin (store s ([], n)) p"
  shows "\<exists>s'. system_steps coop s s' \<and> waits_for_release P fin (store s' ([], n)) p \<and>
    ent_child (store s' ([], n)) = None"
proof -
  let ?k = "([], n) :: string \<times> string"
  have finalized: "\<exists>s'. system_steps coop s s' \<and> waits_for_release P fin (store s' ?k) p \<and> ent_child (store s' ?k) = None"
    if "system_steps coop s s1" "waits_for_release P fin (store s1 ?k) p"
      "ent_child (store s1 ?k) = None \<or> (\<exists>c. ent_child (store s1 ?k) = Some c \<and> being_deleted (res_meta C c))" for s1
  proof (cases "ent_child (store s1 ?k)")
    case (Some c)
    with that(3) have "system_steps coop s1 (s1\<lparr>store := (store s1)(?k := put_child None (store s1 ?k))\<rparr>)"
      by (intro steps_child_finalized [of s1 ?k c]) auto
    from rtranclp_trans [OF that(1) this] that(2) show ?thesis
      by (intro exI [of _ "s1\<lparr>store := (store s1)(?k := put_child None (store s1 ?k))\<rparr>"])
        (simp add: waits_for_release_def)
  qed (use that in blast)
  from steps_ready [OF assms] obtain s1 where s1: "system_steps coop s s1" "worker s1 ?k = None"
    "up_to_date (store s1 ?k)" "entry_ok cached P C fin ?k (store s1 ?k)" "waits_for_release P fin (store s1 ?k) p"
    by blast
  show ?thesis
  proof (cases "\<exists>c. ent_child (store s1 ?k) = Some c \<and> \<not> being_deleted (res_meta C c)")
    case True
    then obtain c where c: "ent_child (store s1 ?k) = Some c" "\<not> being_deleted (res_meta C c)" by blast
    from child_deleted_run [of ?k n "store s1" p c, OF refl s1(4,3,5) c] obtain r tr a c' where
      r: "starts sys ?k r" "runs r tr a" "being_deleted (res_meta C c')"
        "serves (serve sys) (store s1) tr ((store s1)(?k := put_child (unless_released C c') (store s1 ?k)))"
      by blast
    let ?s = "s1\<lparr>store := (store s1)(?k := put_child (unless_released C c') (store s1 ?k))\<rparr>"
    have "system_steps coop s1 ?s" using r(1,2,4) s1(2) by (intro steps_reconcile) simp_all
    from rtranclp_trans [OF s1(1) this] show ?thesis
      by (rule finalized) (use r(3) s1(5) in \<open>auto simp: waits_for_release_def unless_released_def\<close>)
  next
    case False
    then show ?thesis using s1(1,5) by (intro finalized [of s1]) (cases "ent_child (store s1 ?k)"; auto)+
  qed
qed

lemma deletion_possible:
  assumes "reachable sys s" and "waits_for_release P fin (store s ([], n)) p"
  shows "\<exists>s'. system_steps coop s s' \<and> ent_parent (store s' ([], n)) = None \<and> ent_child (store s' ([], n)) = None"
proof -
  let ?k = "([], n) :: string \<times> string"
  obtain s1 where s1: "system_steps coop s s1" "waits_for_release P fin (store s1 ?k) p" "ent_child (store s1 ?k) = None"
    using steps_child_deleted [OF assms] by blast
  from steps_ready [OF reachable_steps [OF coop_steps [OF s1(1)] assms(1)] s1(2)]
  obtain s2 where s2: "system_steps coop s1 s2" "worker s2 ?k = None" "up_to_date (store s2 ?k)"
    "entry_ok cached P C fin ?k (store s2 ?k)" "waits_for_release P fin (store s2 ?k) p"
    "ent_child (store s2 ?k) = None" using s1(3) by metis
  from parent_released_run [of ?k n "store s2" p, OF refl s2(4,3,5,6)] obtain r tr a where r: "starts sys ?k r" "runs r tr a"
    "serves (serve sys) (store s2) tr ((store s2)(?k := put_parent None (store s2 ?k)))" by blast
  let ?s = "s2\<lparr>store := (store s2)(?k := put_parent None (store s2 ?k))\<rparr>"
  have "system_steps coop s2 ?s" using r s2(2) by (intro steps_reconcile) simp_all
  with rtranclp_trans [OF s1(1) s2(1)] have "system_steps coop s ?s" by (rule rtranclp_trans)
  moreover have "ent_parent (store ?s ?k) = None" "ent_child (store ?s ?k) = None" using s2(6) by simp_all
  ultimately show ?thesis by blast
qed

end

end
