(* ===== verification/Lifecycle_Properties.thy ===== *)
theory Lifecycle_Properties
  imports Nodeclass_Lifecycle Finalizer_Progress
begin

text \<open>
  The life cycle of the provider NodeClasses under interleaving: when an EC2NodeClass or AKSNodeClass can be
  left without its NodeClass, and that a NodeClass that is being deleted can always go away.
\<close>


section \<open>Deleting runs of the EC2 controller\<close>

lemma runs_ec2_child_deleted:
  assumes "res_key OpenshiftEC2NodeClasses p = ([], n)" and "res_key EC2NodeClasses c = ([], n)"
    and "being_deleted (onc_Meta p)" and "\<not> being_deleted (ec2_Meta c)"
  shows "runs (ec2_Reconcile 0 namespace [] n)
     [(List Mgmt KHostedControlPlane (Some namespace) [], RList [OHostedControlPlane (new_hcp namespace ''h'')]),
      (Get Hosted KOpenshiftEC2NodeClass [] n, RObj (OOpenshiftEC2NodeClass p)),
      (Get Hosted KEC2NodeClass [] n, RObj (OEC2NodeClass c)),
      (Delete Hosted KEC2NodeClass [] n, ROk)] (Inr (5 * second))"
  using assms
  by (simp add: ec2_Reconcile_def GetHostedControlPlane_def call_defs ec2_reconcileDelete_def
      deleteIfNeeded_def res_key_def new_hcp_def map_get_def)

abbreviation ec2_release :: "openshift_ec2_nodeclass \<Rightarrow> openshift_ec2_nodeclass" where
  "ec2_release p \<equiv> p\<lparr>onc_Meta := RemoveFinalizer (onc_Meta p) ec2_finalizer\<rparr>"

lemma runs_ec2_parent_released:
  assumes "res_key OpenshiftEC2NodeClasses p = ([], n)" and "being_deleted (onc_Meta p)"
    and "ContainsFinalizer (onc_Meta p) ec2_finalizer"
  shows "runs (ec2_Reconcile 0 namespace [] n)
     [(List Mgmt KHostedControlPlane (Some namespace) [], RList [OHostedControlPlane (new_hcp namespace ''h'')]),
      (Get Hosted KOpenshiftEC2NodeClass [] n, RObj (OOpenshiftEC2NodeClass p)),
      (Get Hosted KEC2NodeClass [] n, RErr NotFound []),
      (List Hosted KOpenshiftEC2NodeClass None [], RList []),
      (Get Mgmt KConfigMap namespace karpenterSubnetsConfigMapName, RErr NotFound []),
      (Patch Hosted True (OOpenshiftEC2NodeClass p) (OOpenshiftEC2NodeClass (ec2_release p)),
       RObj (OOpenshiftEC2NodeClass p'))] (Inr 0)"
  using assms
  by (simp add: ec2_Reconcile_def GetHostedControlPlane_def call_defs ec2_reconcileDelete_def
      deleteIfNeeded_def reconcileKarpenterSubnetsConfigMap_def subnet_ids_def resolved_subnets_def
      map_of_entries_def res_key_def new_hcp_def map_get_def)

interpretation ec2_progress: finalizer_progress OpenshiftEC2NodeClasses EC2NodeClasses True "ec2_stored schema"
    ec2_finalizer "ec2_system schema namespace" for schema namespace
proof
  fix k and n :: string and w :: "(openshift_ec2_nodeclass, ec2_nodeclass) objects" and p c
  assume k: "k = ([], n)" and ok: "entry_ok True OpenshiftEC2NodeClasses EC2NodeClasses ec2_finalizer k (w k)"
    and u: "up_to_date (w k)" and p: "waits_for_release OpenshiftEC2NodeClasses ec2_finalizer (w k) p"
  let ?P = OpenshiftEC2NodeClasses and ?C = EC2NodeClasses and ?S = "ec2_stored schema"
  let ?start = "\<lambda>r. starts (ec2_system schema namespace) k r" and ?serve = "serve (ec2_system schema namespace)"
  have vs: "ent_versions (w k) ! ent_seen (w k) = Some p" using u p by (simp add: up_to_date_def waits_for_release_def)
  have pk: "res_key ?P p = ([], n)" using entry_keys(1) [OF ok] p k by (simp add: waits_for_release_def)
  have d: "being_deleted (onc_Meta p)" "md_Finalizers (onc_Meta p) = [ec2_finalizer]"
    using p by (simp_all add: waits_for_release_def)
  have start: "?start (ec2_Reconcile 0 namespace [] n)" using k by (auto simp: ec2_system_def)
  note serves_ec2 = serves_Cons [of "hosted_serve ?S ?P ?C"] serves_Nil [of "hosted_serve ?S ?P ?C"]
  have other: "hosted_serve ?S ?P ?C w (List t kd ns' sel) r w" "hosted_serve ?S ?P ?C w (Get Mgmt kd ns n') r w"
    for t kd ns' sel ns n' r
    by (auto intro: unrelated)
  have read: "hosted_serve ?S ?P ?C w (Get Hosted KOpenshiftEC2NodeClass [] n) (RObj (OOpenshiftEC2NodeClass p)) w"
    using parent_read [of w "[]" n p ?S ?P ?C] vs k by simp
  show "\<exists>r tr a c'. ?start r \<and> runs r tr a \<and> being_deleted (res_meta ?C c') \<and>
      serves ?serve w tr (w(k := put_child (unless_released ?C c') (w k)))"
    if c: "ent_child (w k) = Some c" "\<not> being_deleted (res_meta ?C c)"
  proof -
    let ?c = "c\<lparr>ec2_Meta := (ec2_Meta c)\<lparr>md_DeletionTimestamp := Some 0\<rparr>\<rparr>"
    let ?w = "w(k := put_child (unless_released ?C ?c) (w k))"
    have ck: "res_key ?C c = ([], n)" using entry_keys(2) [OF ok c(1)] k by simp
    have "hosted_serve ?S ?P ?C w (Get Hosted KEC2NodeClass [] n) (RObj (OEC2NodeClass c)) w"
      using child_read [of w "[]" n c ?S ?P ?C] child_view_up_to_date [OF u] c(1) k by simp
    moreover have "hosted_serve ?S ?P ?C w (Delete Hosted KEC2NodeClass [] n) ROk ?w"
      using child_deleted [of w "[]" n c ?C ?c ROk ?S ?P] c(1) ck k by (simp add: res_key_def being_deleted_def)
    ultimately have "serves ?serve w
       [(List Mgmt KHostedControlPlane (Some namespace) [], RList [OHostedControlPlane (new_hcp namespace ''h'')]),
        (Get Hosted KOpenshiftEC2NodeClass [] n, RObj (OOpenshiftEC2NodeClass p)),
        (Get Hosted KEC2NodeClass [] n, RObj (OEC2NodeClass c)),
        (Delete Hosted KEC2NodeClass [] n, ROk)] ?w"
      using other(1) read by (auto simp: ec2_system_def intro!: serves_ec2)
    moreover have "being_deleted (res_meta ?C ?c)" by (simp add: being_deleted_def)
    moreover have "\<not> being_deleted (ec2_Meta c)" using c(2) by simp
    note runs_ec2_child_deleted [OF pk ck d(1) this, of namespace]
    ultimately show ?thesis using start by blast
  qed
  show "\<exists>r tr a. ?start r \<and> runs r tr a \<and> serves ?serve w tr (w(k := put_parent None (w k)))"
    if c: "ent_child (w k) = None"
  proof -
    obtain v where v: "\<forall>q. Some q \<in> set (ent_versions (w k)) \<longrightarrow> md_ResourceVersion (res_meta ?P q) \<noteq> v"
      using fresh_version by blast
    let ?p = "p\<lparr>onc_Meta := (RemoveFinalizer (onc_Meta p) ec2_finalizer)\<lparr>md_ResourceVersion := v\<rparr>\<rparr>"
    have "hosted_serve ?S ?P ?C w (Get Hosted KEC2NodeClass [] n) (RErr NotFound []) w"
      using child_unread [of w "[]" n NotFound ?S ?P ?C] child_view_up_to_date [OF u] c k
      by (simp add: says_absent_def note_missed_None fun_upd_idem)
    moreover have "hosted_serve ?S ?P ?C w
        (Patch Hosted True (OOpenshiftEC2NodeClass p) (OOpenshiftEC2NodeClass (ec2_release p)))
        (RObj (OOpenshiftEC2NodeClass ?p)) (w(k := put_parent None (w k)))"
      using parent_patched [of w k p ?P p ?p "ec2_release p" ?S ?C] p pk d k v
      by (simp add: waits_for_release_def new_version_def res_key_def RemoveFinalizer_def being_deleted_def
          unless_released_def)
    ultimately have "serves ?serve w
       [(List Mgmt KHostedControlPlane (Some namespace) [], RList [OHostedControlPlane (new_hcp namespace ''h'')]),
        (Get Hosted KOpenshiftEC2NodeClass [] n, RObj (OOpenshiftEC2NodeClass p)),
        (Get Hosted KEC2NodeClass [] n, RErr NotFound []),
        (List Hosted KOpenshiftEC2NodeClass None [], RList []),
        (Get Mgmt KConfigMap namespace karpenterSubnetsConfigMapName, RErr NotFound []),
        (Patch Hosted True (OOpenshiftEC2NodeClass p) (OOpenshiftEC2NodeClass (ec2_release p)),
         RObj (OOpenshiftEC2NodeClass ?p))] (w(k := put_parent None (w k)))"
      using other read by (auto simp: ec2_system_def intro!: serves_ec2)
    then show ?thesis
      using start runs_ec2_parent_released [OF pk d(1), of namespace ?p] d(2) by (auto simp: ContainsFinalizer_def)
  qed
qed


section \<open>Deleting runs of the Azure controller\<close>

abbreviation azure_release :: "openshift_azure_nodeclass \<Rightarrow> openshift_azure_nodeclass" where
  "azure_release p \<equiv> p\<lparr>anc_Meta := RemoveFinalizer (anc_Meta p) azure_finalizer\<rparr>"

lemma runs_azure_deletion:
  assumes "res_key OpenShiftAzureNodeClasses p = ([], n)" and "being_deleted (anc_Meta p)"
    and "ContainsFinalizer (anc_Meta p) azure_finalizer"
  shows "runs (azure_Reconcile 0 namespace [] n)
     [(Get Hosted KOpenShiftAzureNodeClass [] n, RObj (OOpenShiftAzureNodeClass p)),
      (Delete Hosted KAKSNodeClass [] n, ROk)] (Inr 0)"
    and "runs (azure_Reconcile 0 namespace [] n)
     [(Get Hosted KOpenShiftAzureNodeClass [] n, RObj (OOpenShiftAzureNodeClass p)),
      (Delete Hosted KAKSNodeClass [] n, RErr NotFound []),
      (Patch Hosted True (OOpenShiftAzureNodeClass p) (OOpenShiftAzureNodeClass (azure_release p)),
       RObj (OOpenShiftAzureNodeClass p'))] (Inr 0)"
  using assms by (simp_all add: azure_Reconcile_def call_defs azure_reconcileDelete_def res_key_def)

interpretation azure_progress: finalizer_progress OpenShiftAzureNodeClasses AKSNodeClasses False "aks_stored schema"
    azure_finalizer "azure_system schema namespace" for schema namespace
proof
  fix k and n :: string and w :: "(openshift_azure_nodeclass, aks_nodeclass) objects" and p c
  assume k: "k = ([], n)" and ok: "entry_ok False OpenShiftAzureNodeClasses AKSNodeClasses azure_finalizer k (w k)"
    and u: "up_to_date (w k)" and p: "waits_for_release OpenShiftAzureNodeClasses azure_finalizer (w k) p"
  let ?P = OpenShiftAzureNodeClasses and ?C = AKSNodeClasses and ?S = "aks_stored schema"
  let ?start = "\<lambda>r. starts (azure_system schema namespace) k r" and ?serve = "serve (azure_system schema namespace)"
  have vs: "ent_versions (w k) ! ent_seen (w k) = Some p" using u p by (simp add: up_to_date_def waits_for_release_def)
  have pk: "res_key ?P p = ([], n)" using entry_keys(1) [OF ok] p k by (simp add: waits_for_release_def)
  have d: "being_deleted (anc_Meta p)" "md_Finalizers (anc_Meta p) = [azure_finalizer]"
    using p by (simp_all add: waits_for_release_def)
  then have f: "ContainsFinalizer (anc_Meta p) azure_finalizer" by (simp add: ContainsFinalizer_def)
  have start: "?start (azure_Reconcile 0 namespace [] n)" using k by (auto simp: azure_system_def)
  note serves_azure = serves_Cons [of "hosted_serve ?S ?P ?C"] serves_Nil [of "hosted_serve ?S ?P ?C"]
  have read: "hosted_serve ?S ?P ?C w (Get Hosted KOpenShiftAzureNodeClass [] n) (RObj (OOpenShiftAzureNodeClass p)) w"
    using parent_read [of w "[]" n p ?S ?P ?C] vs k by simp
  show "\<exists>r tr a c'. ?start r \<and> runs r tr a \<and> being_deleted (res_meta ?C c') \<and>
      serves ?serve w tr (w(k := put_child (unless_released ?C c') (w k)))"
    if c: "ent_child (w k) = Some c" "\<not> being_deleted (res_meta ?C c)"
  proof -
    let ?c = "c\<lparr>aks_Meta := (aks_Meta c)\<lparr>md_DeletionTimestamp := Some 0\<rparr>\<rparr>"
    let ?w = "w(k := put_child (unless_released ?C ?c) (w k))"
    have ck: "res_key ?C c = ([], n)" using entry_keys(2) [OF ok c(1)] k by simp
    have "hosted_serve ?S ?P ?C w (Delete Hosted KAKSNodeClass [] n) ROk ?w"
      using child_deleted [of w "[]" n c ?C ?c ROk ?S ?P] c(1) ck k by (simp add: res_key_def being_deleted_def)
    then have "serves ?serve w
       [(Get Hosted KOpenShiftAzureNodeClass [] n, RObj (OOpenShiftAzureNodeClass p)),
        (Delete Hosted KAKSNodeClass [] n, ROk)] ?w"
      using read by (auto simp: azure_system_def intro!: serves_azure)
    moreover have "being_deleted (res_meta ?C ?c)" by (simp add: being_deleted_def)
    ultimately show ?thesis using start runs_azure_deletion(1) [OF pk d(1) f, of namespace] by blast
  qed
  show "\<exists>r tr a. ?start r \<and> runs r tr a \<and> serves ?serve w tr (w(k := put_parent None (w k)))"
    if c: "ent_child (w k) = None"
  proof -
    obtain v where v: "\<forall>q. Some q \<in> set (ent_versions (w k)) \<longrightarrow> md_ResourceVersion (res_meta ?P q) \<noteq> v"
      using fresh_version by blast
    let ?p = "p\<lparr>anc_Meta := (RemoveFinalizer (anc_Meta p) azure_finalizer)\<lparr>md_ResourceVersion := v\<rparr>\<rparr>"
    have "hosted_serve ?S ?P ?C w (Delete Hosted KAKSNodeClass [] n) (RErr NotFound []) w"
      using child_absent [of w "[]" n NotFound ?S ?P ?C] c k by (simp add: says_absent_def)
    moreover have "hosted_serve ?S ?P ?C w
        (Patch Hosted True (OOpenShiftAzureNodeClass p) (OOpenShiftAzureNodeClass (azure_release p)))
        (RObj (OOpenShiftAzureNodeClass ?p)) (w(k := put_parent None (w k)))"
      using parent_patched [of w k p ?P p ?p "azure_release p" ?S ?C] p pk d k v
      by (simp add: waits_for_release_def new_version_def res_key_def RemoveFinalizer_def being_deleted_def
          unless_released_def)
    ultimately have "serves ?serve w
       [(Get Hosted KOpenShiftAzureNodeClass [] n, RObj (OOpenShiftAzureNodeClass p)),
        (Delete Hosted KAKSNodeClass [] n, RErr NotFound []),
        (Patch Hosted True (OOpenShiftAzureNodeClass p) (OOpenShiftAzureNodeClass (azure_release p)),
         RObj (OOpenShiftAzureNodeClass ?p))] (w(k := put_parent None (w k)))"
      using read by (auto simp: azure_system_def intro!: serves_azure)
    then show ?thesis using start runs_azure_deletion(2) [OF pk d(1) f, of namespace ?p] by auto
  qed
qed


section \<open>No orphans\<close>

text \<open>
  C1: In every state the EC2 controller can reach, interleaved with users, Karpenter, its own crashes and
  restarts, and caches that may be arbitrarily old, an EC2NodeClass belongs to an OpenshiftEC2NodeClass of
  its name that exists and carries the operator's finalizer, so that its deletion waits for the
  EC2NodeClass. There is exactly one way out (\<open>ent_missed\<close>): while the OpenshiftEC2NodeClass was being
  deleted and this EC2NodeClass existed, a read of it from the cache found none. \<^verbatim>\<open>deleteIfNeeded\<close>
  takes the cache's word for it; \<open>ec2_stale_cache_orphan\<close> below is such a run.
\<close>

theorem ec2_no_orphan:
  assumes "reachable (ec2_system schema namespace) s" and "ent_child (store s k) = Some c"
    and "\<not> ent_missed (store s k)"
  shows "\<exists>p. ent_parent (store s k) = Some p \<and> ContainsFinalizer (onc_Meta p) ec2_finalizer \<and>
    res_key OpenshiftEC2NodeClasses p = k"
  using ec2_protocol.no_orphan [OF assms(1,2)] assms(3) by (simp add: misled_def)

text \<open>
  C2: In every state the Azure controller can reach, interleaved likewise and with caches that may be
  arbitrarily old, an AKSNodeClass belongs to an OpenShiftAzureNodeClass of its name that exists and carries
  the operator's finalizer. The Azure controller sends the deletion to the server and trusts its answer
  only, so there is no exception.
\<close>

theorem azure_no_orphan:
  assumes "reachable (azure_system schema namespace) s" and "ent_child (store s k) = Some c"
  shows "\<exists>p. ent_parent (store s k) = Some p \<and> ContainsFinalizer (anc_Meta p) azure_finalizer \<and>
    res_key OpenShiftAzureNodeClasses p = k"
  using azure_protocol.no_orphan [OF assms] by simp


section \<open>Deletion is always possible\<close>

text \<open>
  C3: From every state the EC2 controller can reach in which an OpenshiftEC2NodeClass is being deleted and
  only carries the operator's finalizer, the controller can bring about a state in which it and its
  EC2NodeClass are gone: no interleaving, crash or old cache leaves a deletion stuck for good. Everybody else
  only cooperates from there on (\<open>cooperating\<close>): the caches move on, and Karpenter lets go of an
  EC2NodeClass that is being deleted. Nobody but the controller deletes it.
\<close>

theorem ec2_deletion_possible:
  assumes "reachable (ec2_system schema namespace) s"
    and "ent_parent (store s ([], n)) = Some p" and "being_deleted (onc_Meta p)"
    and "md_Finalizers (onc_Meta p) = [ec2_finalizer]"
  shows "\<exists>s'. system_steps (with_cooperation EC2NodeClasses (ec2_system schema namespace)) s s' \<and>
    ent_parent (store s' ([], n)) = None \<and> ent_child (store s' ([], n)) = None"
  using assms by (intro ec2_progress.deletion_possible [where p = p]) (simp_all add: waits_for_release_def)

text \<open>
  C4: The same holds of the Azure controller and AKSNodeClasses, which nobody else can delete.
\<close>

theorem azure_deletion_possible:
  assumes "reachable (azure_system schema namespace) s"
    and "ent_parent (store s ([], n)) = Some p" and "being_deleted (anc_Meta p)"
    and "md_Finalizers (anc_Meta p) = [azure_finalizer]"
  shows "\<exists>s'. system_steps (with_cooperation AKSNodeClasses (azure_system schema namespace)) s s' \<and>
    ent_parent (store s' ([], n)) = None \<and> ent_child (store s' ([], n)) = None"
  using assms by (intro azure_progress.deletion_possible [where p = p]) (simp_all add: waits_for_release_def)


section \<open>Runs of the systems\<close>

lemma environment_entry:
  "ent_parent e = None \<Longrightarrow> res_key P p = k \<Longrightarrow> new_version P e p \<Longrightarrow> \<not> being_deleted (res_meta P p) \<Longrightarrow>
     hosted_environment P C fin (w(k := e)) (w(k := put_parent (Some p) e))"
  "ent_parent e = Some p \<Longrightarrow> res_key P p' = k \<Longrightarrow> new_version P e p' \<Longrightarrow> being_deleted (res_meta P p') \<Longrightarrow>
     md_Finalizers (res_meta P p') = md_Finalizers (res_meta P p) \<Longrightarrow>
     hosted_environment P C fin (w(k := e)) (w(k := put_parent (Some p') e))"
  "ent_seen e \<le> i \<Longrightarrow> i < length (ent_versions e) \<Longrightarrow>
     hosted_environment P C fin (w(k := e)) (w(k := e\<lparr>ent_seen := i\<rparr>))"
  using parent_created [of "w(k := e)" k P p C fin] parent_changed [where w = "w(k := e)" and k = k and p = p and P = P and p' = p' and C = C and fin = fin]
    cache_advances [of "w(k := e)" k i P C fin]
  by (simp_all add: ContainsFinalizer_def)

text \<open>An OpenshiftEC2NodeClass and its EC2NodeClass: the user creates the former, the controller the
  latter, and the user deletes the former. The cache of EC2NodeClasses stays behind.\<close>

abbreviation entry_of :: "'p option list \<Rightarrow> 'c option list \<Rightarrow> ('p, 'c) entry" where
  "entry_of vs cs \<equiv> \<lparr>ent_versions = None # vs, ent_seen = length vs, ent_children = None # cs, ent_child_seen = 0,
     ent_missed = False\<rparr>"

abbreviation only :: "('p, 'c) entry \<Rightarrow> ('p, 'c) objects" where
  "only e \<equiv> (\<lambda>_. empty_entry)(([], ''n'') := e)"

abbreviation deleted_ec2 :: openshift_ec2_nodeclass where
  "deleted_ec2 \<equiv> (finalized (Some 1))\<lparr>onc_Meta := (onc_Meta (finalized (Some 1)))\<lparr>md_ResourceVersion := ''2''\<rparr>\<rparr>"

abbreviation "ec2_created \<equiv> entry_of [Some (finalized None)] []"
abbreviation "ec2_started c \<equiv> entry_of [Some (finalized None)] [Some c]"
abbreviation "ec2_deleting c \<equiv> entry_of [Some (finalized None), Some deleted_ec2] [Some c]"

lemma only_empty: "only empty_entry = (\<lambda>_. empty_entry)"
  by auto

lemma ec2_others:
  "reachable (ec2_system schema ns) (idle w) \<Longrightarrow>
   hosted_environment OpenshiftEC2NodeClasses EC2NodeClasses ec2_finalizer w w' \<Longrightarrow>
   reachable (ec2_system schema ns) (idle w')"
  by (rule idle_others) (simp_all add: ec2_system_def)

lemma reachable_ec2_created: "reachable (ec2_system schema ns) (idle (only ec2_created))"
proof -
  let ?sys = "ec2_system schema ns" and ?P = OpenshiftEC2NodeClasses and ?C = EC2NodeClasses
  let ?p = "put_parent (Some (finalized None)) empty_entry :: (openshift_ec2_nodeclass, ec2_nodeclass) entry"
  have "reachable ?sys (idle (only empty_entry))"
    unfolding only_empty by (rule reachable_initial) (simp add: ec2_system_def)
  moreover have "hosted_environment ?P ?C ec2_finalizer (only empty_entry) (only ?p)"
    by (rule environment_entry)
      (simp_all add: empty_entry_def ent_parent_def new_version_def res_key_def being_deleted_def)
  ultimately have "reachable ?sys (idle (only ?p))" by (rule ec2_others)
  moreover have "hosted_environment ?P ?C ec2_finalizer (only ?p) (only (?p\<lparr>ent_seen := 1\<rparr>))"
    by (rule environment_entry) (simp_all add: empty_entry_def)
  ultimately have "reachable ?sys (idle (only (?p\<lparr>ent_seen := 1\<rparr>)))" by (rule ec2_others)
  then show ?thesis by (simp add: put_parent_def empty_entry_def)
qed

lemma ec2_stored_exists: "\<exists>c'. ec2_stored schema None c c' \<and> res_key EC2NodeClasses c' = res_key EC2NodeClasses c"
  by (intro exI [of _ "c\<lparr>ec2_Meta := (ec2_Meta c)\<lparr>md_DeletionTimestamp := None\<rparr>, ec2_Spec := schema (ec2_Spec c),
        ec2_Status := ec2_Status (new_ec2_nodeclass [] [])\<rparr>"])
    (simp add: ec2_stored_def stored_meta_def res_key_def)

text \<open>The answer to the creation is lost.\<close>

lemma reachable_ec2_started:
  "\<exists>c. reachable (ec2_system schema ''ns'') (idle (only (ec2_started c)))"
proof -
  let ?w = "only ec2_created" and ?P = OpenshiftEC2NodeClasses and ?C = EC2NodeClasses and ?S = "ec2_stored schema"
  obtain b c where b: "ec2_mutate (finalized None) (new_hcp ''ns'' ''h'') example_secret (new_ec2_nodeclass [] ''n'') = Inr b"
    "res_key EC2NodeClasses b = ([], ''n'')" and c: "?S None b c" "res_key EC2NodeClasses c = ([], ''n'')"
    using example_spec ec2_stored_exists [of schema] by metis
  have o: "hosted_serve ?S ?P ?C w (List t kd ns' sel) r w" for w t kd ns' sel r by (rule unrelated) simp
  have g: "hosted_serve ?S ?P ?C ?w (Get Hosted KOpenshiftEC2NodeClass [] ''n'') (RObj (OOpenshiftEC2NodeClass (finalized None))) ?w"
    using parent_read [of ?w "[]" "''n''" "finalized None" ?S ?P ?C] by simp
  have a: "hosted_serve ?S ?P ?C ?w (Get Hosted KEC2NodeClass [] ''n'') (RErr NotFound []) ?w"
    using child_unread [of ?w "[]" "''n''" NotFound ?S ?P ?C]
    by (simp add: child_view_def ent_child_def says_absent_def note_missed_None)
  have "hosted_serve ?S ?P ?C ?w (Create Hosted (OEC2NodeClass b)) (RObj (OEC2NodeClass c)) (only (ec2_started c))"
    using child_created [of ?w "([], ''n'')" ?C b c ?S ?P] b(2) c by (simp add: ent_child_def put_child_def)
  then have cr: "hosted_serve ?S ?P ?C ?w (Create Hosted (OEC2NodeClass b)) (RErr OtherReason []) (only (ec2_started c))"
    by (rule answer_lost) (simp_all add: says_absent_def)
  note serve = serves_Cons [of "hosted_serve ?S ?P ?C"]
  have "serves (hosted_serve ?S ?P ?C) ?w
     (creation_prefix @ (Create Hosted (OEC2NodeClass b), RErr OtherReason []) # []) (only (ec2_started c))"
    unfolding append_Cons append_Nil
    by (rule serve [OF o] serve [OF g] serve [OF a] serve [OF cr] serves_Nil)+
  then show ?thesis
    by (intro exI idle_reconcile [where k = "([], ''n'')", OF reachable_ec2_created _ runs_creation [OF b]])
      (auto simp: ec2_system_def)
qed

lemma reachable_ec2_deleting:
  "\<exists>c. reachable (ec2_system schema ''ns'') (idle (only (ec2_deleting c)))"
proof -
  let ?sys = "ec2_system schema ''ns''" and ?P = OpenshiftEC2NodeClasses and ?C = EC2NodeClasses
  obtain c where c: "reachable ?sys (idle (only (ec2_started c)))" using reachable_ec2_started by blast
  let ?e = "put_parent (Some deleted_ec2) (ec2_started c)"
  have "hosted_environment ?P ?C ec2_finalizer (only (ec2_started c)) (only ?e)"
    by (rule environment_entry(2) [where p = "finalized None"])
      (simp_all add: ent_parent_def new_version_def res_key_def being_deleted_def new_meta_def)
  then have "reachable ?sys (idle (only ?e))" by (rule ec2_others [OF c])
  moreover have "hosted_environment ?P ?C ec2_finalizer (only ?e) (only (?e\<lparr>ent_seen := 2\<rparr>))"
    by (rule environment_entry) simp_all
  ultimately have "reachable ?sys (idle (only (?e\<lparr>ent_seen := 2\<rparr>)))" by (rule ec2_others)
  then show ?thesis by (intro exI [of _ c]) (simp add: put_parent_def numeral_2_eq_2)
qed

lemma ec2_no_orphan_witness:
  "\<exists>s c p. reachable (ec2_system (\<lambda>spec. spec) ''ns'') s \<and> ent_child (store s ([], ''n'')) = Some c \<and>
     ent_parent (store s ([], ''n'')) = Some p \<and> ContainsFinalizer (onc_Meta p) ec2_finalizer"
proof -
  obtain c where r: "reachable (ec2_system (\<lambda>spec. spec) ''ns'') (idle (only (ec2_started c)))"
    using reachable_ec2_started by blast
  have "ent_child (store (idle (only (ec2_started c))) ([], ''n'')) = Some c"
    "\<not> ent_missed (store (idle (only (ec2_started c))) ([], ''n''))" by (simp_all add: ent_child_def)
  with ec2_no_orphan [OF r] r show ?thesis by blast
qed

lemma ec2_deletion_possible_witness:
  "\<exists>c. reachable (ec2_system (\<lambda>spec. spec) ''ns'') (idle (only (ec2_deleting c))) \<and>
     (\<exists>s. system_steps (with_cooperation EC2NodeClasses (ec2_system (\<lambda>spec. spec) ''ns''))
            (idle (only (ec2_deleting c))) s \<and>
        ent_parent (store s ([], ''n'')) = None \<and> ent_child (store s ([], ''n'')) = None)"
proof -
  obtain c where r: "reachable (ec2_system (\<lambda>spec. spec) ''ns'') (idle (only (ec2_deleting c)))"
    using reachable_ec2_deleting by blast
  have "ent_parent (store (idle (only (ec2_deleting c))) ([], ''n'')) = Some deleted_ec2" by (simp add: ent_parent_def)
  then have "\<exists>s. system_steps (with_cooperation EC2NodeClasses (ec2_system (\<lambda>spec. spec) ''ns''))
        (idle (only (ec2_deleting c))) s \<and>
      ent_parent (store s ([], ''n'')) = None \<and> ent_child (store s ([], ''n'')) = None"
    by (rule ec2_deletion_possible [OF r]) (simp_all add: being_deleted_def)
  with r show ?thesis by blast
qed


section \<open>Stale reads of EC2NodeClasses\<close>

text \<open>The exception of the EC2 controller is real: the cache is still behind the creation of the
  EC2NodeClass, the finalizer comes off, and the OpenshiftEC2NodeClass goes away while its EC2NodeClass
  exists.\<close>

lemma ec2_stale_cache_orphan:
  "\<exists>s. reachable (ec2_system schema ''ns'') s \<and> ent_parent (store s ([], ''n'')) = None \<and>
     ent_child (store s ([], ''n'')) \<noteq> None"
proof -
  let ?sys = "ec2_system schema ''ns''" and ?P = OpenshiftEC2NodeClasses and ?C = EC2NodeClasses
    and ?S = "ec2_stored schema"
  obtain c where c: "reachable ?sys (idle (only (ec2_deleting c)))" using reachable_ec2_deleting by blast
  let ?w = "only (ec2_deleting c)" and ?w1 = "only (note_missed ?P (ec2_deleting c))"
  let ?w' = "only (put_parent None (note_missed ?P (ec2_deleting c)))"
  let ?p = "deleted_ec2\<lparr>onc_Meta := (RemoveFinalizer (onc_Meta deleted_ec2) ec2_finalizer)\<lparr>md_ResourceVersion := ''3''\<rparr>\<rparr>"
  have o: "hosted_serve ?S ?P ?C w (List t kd nso sel) r w" "hosted_serve ?S ?P ?C w (Get Mgmt kd ns n) r w"
    for w t kd nso sel ns n r
    by (auto intro: unrelated)
  have g: "hosted_serve ?S ?P ?C ?w (Get Hosted KOpenshiftEC2NodeClass [] ''n'') (RObj (OOpenshiftEC2NodeClass deleted_ec2)) ?w"
    using parent_read [of ?w "[]" "''n''" deleted_ec2 ?S ?P ?C] by simp
  have a: "hosted_serve ?S ?P ?C ?w (Get Hosted KEC2NodeClass [] ''n'') (RErr NotFound []) ?w1"
    using child_unread [of ?w "[]" "''n''" NotFound ?S ?P ?C]
    by (simp add: child_view_def says_absent_def)
  have d: "hosted_serve ?S ?P ?C ?w1
      (Patch Hosted True (OOpenshiftEC2NodeClass deleted_ec2) (OOpenshiftEC2NodeClass (ec2_release deleted_ec2)))
      (RObj (OOpenshiftEC2NodeClass ?p)) ?w'"
    using parent_patched [of ?w1 "([], ''n'')" deleted_ec2 ?P deleted_ec2 ?p "ec2_release deleted_ec2" ?S ?C]
    by (simp add: new_version_def res_key_def RemoveFinalizer_def being_deleted_def new_meta_def
        unless_released_def) (simp add: ent_parent_def)
  note serve = serves_Cons [of "hosted_serve ?S ?P ?C"]
  have "serves (hosted_serve ?S ?P ?C) ?w
       [(List Mgmt KHostedControlPlane (Some ''ns'') [], RList [OHostedControlPlane (new_hcp ''ns'' ''h'')]),
        (Get Hosted KOpenshiftEC2NodeClass [] ''n'', RObj (OOpenshiftEC2NodeClass deleted_ec2)),
        (Get Hosted KEC2NodeClass [] ''n'', RErr NotFound []),
        (List Hosted KOpenshiftEC2NodeClass None [], RList []),
        (Get Mgmt KConfigMap ''ns'' karpenterSubnetsConfigMapName, RErr NotFound []),
        (Patch Hosted True (OOpenshiftEC2NodeClass deleted_ec2) (OOpenshiftEC2NodeClass (ec2_release deleted_ec2)),
         RObj (OOpenshiftEC2NodeClass ?p))] ?w'"
    by (rule serve [OF o(1)] serve [OF g] serve [OF a] serve [OF o(2)] serve [OF d] serves_Nil)+
  moreover have "runs (ec2_Reconcile 0 ''ns'' [] ''n'')
       [(List Mgmt KHostedControlPlane (Some ''ns'') [], RList [OHostedControlPlane (new_hcp ''ns'' ''h'')]),
        (Get Hosted KOpenshiftEC2NodeClass [] ''n'', RObj (OOpenshiftEC2NodeClass deleted_ec2)),
        (Get Hosted KEC2NodeClass [] ''n'', RErr NotFound []),
        (List Hosted KOpenshiftEC2NodeClass None [], RList []),
        (Get Mgmt KConfigMap ''ns'' karpenterSubnetsConfigMapName, RErr NotFound []),
        (Patch Hosted True (OOpenshiftEC2NodeClass deleted_ec2) (OOpenshiftEC2NodeClass (ec2_release deleted_ec2)),
         RObj (OOpenshiftEC2NodeClass ?p))] (Inr 0)"
    by (rule runs_ec2_parent_released) (simp_all add: res_key_def being_deleted_def ContainsFinalizer_def)
  ultimately have "reachable ?sys (idle ?w')"
    by (intro idle_reconcile [where k = "([], ''n'')" and p = "ec2_Reconcile 0 ''ns'' [] ''n''", OF c])
      (auto simp: ec2_system_def)
  moreover have "ent_child (store (idle ?w') ([], ''n'')) \<noteq> None" by (simp add: ent_child_def)
  ultimately show ?thesis by (intro exI [of _ "idle ?w'"]) simp
qed


section \<open>Runs of the Azure system\<close>

abbreviation deleted_azure :: openshift_azure_nodeclass where
  "deleted_azure \<equiv> (azure_example (Some 1))\<lparr>anc_Meta := (anc_Meta (azure_example (Some 1)))\<lparr>md_ResourceVersion := ''2''\<rparr>\<rparr>"

abbreviation "azure_started c \<equiv> entry_of [Some (azure_example None)] [Some c]"
abbreviation "azure_deleting c \<equiv> entry_of [Some (azure_example None), Some deleted_azure] [Some c]"

lemma azure_others:
  "reachable (azure_system schema ns) (idle w) \<Longrightarrow>
   hosted_environment OpenShiftAzureNodeClasses AKSNodeClasses azure_finalizer w w' \<Longrightarrow>
   reachable (azure_system schema ns) (idle w')"
  by (rule idle_others) (simp_all add: azure_system_def)

lemma reachable_azure_created:
  "reachable (azure_system schema ns) (idle (only (entry_of [Some (azure_example None)] [])))"
proof -
  let ?sys = "azure_system schema ns" and ?P = OpenShiftAzureNodeClasses and ?C = AKSNodeClasses
  let ?p = "put_parent (Some (azure_example None)) empty_entry :: (openshift_azure_nodeclass, aks_nodeclass) entry"
  have "reachable ?sys (idle (only empty_entry))"
    unfolding only_empty by (rule reachable_initial) (simp add: azure_system_def)
  moreover have "hosted_environment ?P ?C azure_finalizer (only empty_entry) (only ?p)"
    by (rule environment_entry)
      (simp_all add: empty_entry_def ent_parent_def new_version_def res_key_def being_deleted_def)
  ultimately have "reachable ?sys (idle (only ?p))" by (rule azure_others)
  moreover have "hosted_environment ?P ?C azure_finalizer (only ?p) (only (?p\<lparr>ent_seen := 1\<rparr>))"
    by (rule environment_entry) (simp_all add: empty_entry_def)
  ultimately have "reachable ?sys (idle (only (?p\<lparr>ent_seen := 1\<rparr>)))" by (rule azure_others)
  then show ?thesis by (simp add: put_parent_def empty_entry_def)
qed

lemma aks_stored_exists: "\<exists>c'. aks_stored schema None c c' \<and> res_key AKSNodeClasses c' = res_key AKSNodeClasses c"
  by (intro exI [of _ "c\<lparr>aks_Meta := (aks_Meta c)\<lparr>md_DeletionTimestamp := None\<rparr>, aks_Spec := schema (aks_Spec c),
        aks_Conditions := []\<rparr>"])
    (simp add: aks_stored_def stored_meta_def res_key_def)

lemma reachable_azure_started:
  "\<exists>c. reachable (azure_system schema ''ns'') (idle (only (azure_started c)))"
proof -
  let ?sys = "azure_system schema ''ns''" and ?P = OpenShiftAzureNodeClasses and ?C = AKSNodeClasses
    and ?S = "aks_stored schema"
  let ?w = "only (entry_of [Some (azure_example None)] [])"
  obtain b c where b: "aks_mutate (azure_example None) (new_hcp ''ns'' ''h'') azure_secret (new_aks_nodeclass ''n'') = Inr b"
    "res_key AKSNodeClasses b = ([], ''n'')" and st: "?S None b c" "res_key AKSNodeClasses c = ([], ''n'')"
    using azure_example_mutate aks_stored_exists [of schema] by metis
  have o: "hosted_serve ?S ?P ?C w (List t kd ns' sel) r w" for w t kd ns' sel r by (rule unrelated) simp
  have g: "hosted_serve ?S ?P ?C ?w (Get Hosted KOpenShiftAzureNodeClass [] ''n'') (RObj (OOpenShiftAzureNodeClass (azure_example None))) ?w"
    using parent_read [of ?w "[]" "''n''" "azure_example None" ?S ?P ?C] by simp
  have a: "hosted_serve ?S ?P ?C ?w (Get Hosted KAKSNodeClass [] ''n'') (RErr NotFound []) ?w"
    using child_unread [of ?w "[]" "''n''" NotFound ?S ?P ?C]
    by (simp add: child_view_def ent_child_def says_absent_def note_missed_None)
  have "hosted_serve ?S ?P ?C ?w (Create Hosted (OAKSNodeClass b)) (RObj (OAKSNodeClass c)) (only (azure_started c))"
    using child_created [of ?w "([], ''n'')" ?C b c ?S ?P] b(2) st by (simp add: ent_child_def put_child_def)
  then have c: "hosted_serve ?S ?P ?C ?w (Create Hosted (OAKSNodeClass b)) (RErr OtherReason []) (only (azure_started c))"
    by (rule answer_lost) (simp_all add: says_absent_def)
  note serve = serves_Cons [of "hosted_serve ?S ?P ?C"]
  have "serves (hosted_serve ?S ?P ?C) ?w
     (azure_creation_prefix @ (Create Hosted (OAKSNodeClass b), RErr OtherReason []) # []) (only (azure_started c))"
    unfolding append_Cons append_Nil
    by (rule serve [OF o] serve [OF g] serve [OF a] serve [OF c] serves_Nil)+
  then show ?thesis
    by (intro exI idle_reconcile [where k = "([], ''n'')", OF reachable_azure_created _ runs_azure_creation [OF b]])
      (auto simp: azure_system_def)
qed

lemma reachable_azure_deleting:
  "\<exists>c. reachable (azure_system schema ''ns'') (idle (only (azure_deleting c)))"
proof -
  let ?sys = "azure_system schema ''ns''" and ?P = OpenShiftAzureNodeClasses and ?C = AKSNodeClasses
  obtain c where c: "reachable ?sys (idle (only (azure_started c)))" using reachable_azure_started by blast
  let ?e = "put_parent (Some deleted_azure) (azure_started c)"
  have "hosted_environment ?P ?C azure_finalizer (only (azure_started c)) (only ?e)"
    by (rule environment_entry(2) [where p = "azure_example None"])
      (simp_all add: ent_parent_def new_version_def res_key_def being_deleted_def new_meta_def)
  then have "reachable ?sys (idle (only ?e))" by (rule azure_others [OF c])
  moreover have "hosted_environment ?P ?C azure_finalizer (only ?e) (only (?e\<lparr>ent_seen := 2\<rparr>))"
    by (rule environment_entry) simp_all
  ultimately have "reachable ?sys (idle (only (?e\<lparr>ent_seen := 2\<rparr>)))" by (rule azure_others)
  then show ?thesis by (intro exI [of _ c]) (simp add: put_parent_def numeral_2_eq_2)
qed

lemma azure_no_orphan_witness:
  "\<exists>s c p. reachable (azure_system (\<lambda>spec. spec) ''ns'') s \<and> ent_child (store s ([], ''n'')) = Some c \<and>
     ent_parent (store s ([], ''n'')) = Some p \<and> ContainsFinalizer (anc_Meta p) azure_finalizer"
proof -
  obtain c where r: "reachable (azure_system (\<lambda>spec. spec) ''ns'') (idle (only (azure_started c)))"
    using reachable_azure_started by blast
  have "ent_child (store (idle (only (azure_started c))) ([], ''n'')) = Some c" by (simp add: ent_child_def)
  with azure_no_orphan [OF r] r show ?thesis by blast
qed

lemma azure_deletion_possible_witness:
  "\<exists>c. reachable (azure_system (\<lambda>spec. spec) ''ns'') (idle (only (azure_deleting c))) \<and>
     (\<exists>s. system_steps (with_cooperation AKSNodeClasses (azure_system (\<lambda>spec. spec) ''ns'')) (idle (only (azure_deleting c))) s \<and>
        ent_parent (store s ([], ''n'')) = None \<and> ent_child (store s ([], ''n'')) = None)"
proof -
  obtain c where r: "reachable (azure_system (\<lambda>spec. spec) ''ns'') (idle (only (azure_deleting c)))"
    using reachable_azure_deleting by blast
  have "ent_parent (store (idle (only (azure_deleting c))) ([], ''n'')) = Some deleted_azure" by (simp add: ent_parent_def)
  then have "\<exists>s. system_steps (with_cooperation AKSNodeClasses (azure_system (\<lambda>spec. spec) ''ns'')) (idle (only (azure_deleting c))) s \<and>
      ent_parent (store s ([], ''n'')) = None \<and> ent_child (store s ([], ''n'')) = None"
    by (rule azure_deletion_possible [OF r]) (simp_all add: being_deleted_def)
  with r show ?thesis by blast
qed

end
