(* ===== verification/Operator_Run.thy ===== *)
theory Operator_Run
  imports Startup
begin

text \<open>
  The operator process: \<^verbatim>\<open>main\<close> (\<^verbatim>\<open>cmd/main.go\<close>) and \<^verbatim>\<open>Run\<close>
  (\<^verbatim>\<open>pkg/operator/operator.go\<close>) with the calls they make to the Kubernetes libraries, in order and
  with every error return. A library call is a request like one to a server: it answers with an error or not,
  and nothing else is assumed of it. \<open>Run_plan\<close> of \<open>Startup\<close> is the specification: what the
  process should run; \<open>run_refines_plan\<close> shows that \<open>Run\<close> does that.
\<close>


section \<open>Library calls\<close>

record manager_options =
  mgr_DefaultNamespaces :: "string list"   \<comment> \<open>of the cache\<close>
  mgr_MetricsAddr :: string
  mgr_ProbeAddr :: string
  mgr_LeaderElection :: bool
  mgr_LeaderElectionID :: string

datatype op_req =
    GetConfig
  | NewClient                              \<comment> \<open>the client of \<^verbatim>\<open>discoverInfrastructure\<close>\<close>
  | Api req
  | AddToScheme cloud_provider
  | NewManager manager_options
  | BuildConfigFromFlags string
  | NewCluster
  | AddCluster
  | SetupWithManager operator_controller
  | GoSetupOperatorInfoMetric string       \<comment> \<open>starts a goroutine\<close>
  | AddHealthzCheck
  | AddReadyzCheck
  | StartManager                           \<comment> \<open>returns when the process is told to stop\<close>

record op_resp =
  op_Error :: "goerr option"
  op_Answer :: resp                        \<comment> \<open>of an \<open>Api\<close> request\<close>

type_synonym 'a proc = "(op_req, op_resp, goerr + 'a) prog"

definition op_call :: "op_req \<Rightarrow> unit proc" where
  "op_call q = Call q (\<lambda>r. Ret (case op_Error r of None \<Rightarrow> Inr () | Some e \<Rightarrow> Inl e))"

text \<open>A program of API requests, run by the process.\<close>

primrec api :: "(req, resp, 'a) prog \<Rightarrow> (op_req, op_resp, 'a) prog" where
  "api (Ret a) = Ret a"
| "api (Call q k) = Call (Api q) (\<lambda>r. api (k (op_Answer r)))"


section \<open>Run\<close>

definition newManager :: "options \<Rightarrow> unit proc" where
  "newManager opts =
     wrapE ''creating manager: '' (op_call (NewManager
       \<lparr>mgr_DefaultNamespaces = [opt_Namespace opts], mgr_MetricsAddr = opt_MetricsAddr opts,
        mgr_ProbeAddr = opt_ProbeAddr opts, mgr_LeaderElection = opt_LeaderElect opts,
        mgr_LeaderElectionID = ''karpenter-operator.openshift.io''\<rparr>))"

definition Setup :: "operator_controller list \<Rightarrow> unit proc" where
  "Setup controllers =
     forE controllers (\<lambda>c. wrapE ''setting up controller: '' (op_call (SetupWithManager c)))"

definition startManager :: "unit proc" where
  "startManager =
     bindE (wrapE ''setting up health check: '' (op_call AddHealthzCheck)) (\<lambda>_.
     bindE (wrapE ''setting up ready check: '' (op_call AddReadyzCheck)) (\<lambda>_.
     wrapE ''starting manager: '' (op_call StartManager)))"

definition runClusterOperatorReporter :: "options \<Rightarrow> operator_controller \<Rightarrow> unit proc" where
  "runClusterOperatorReporter opts reporter =
     bindE (newManager opts) (\<lambda>_. bindE (Setup [reporter]) (\<lambda>_. startManager))"

text \<open>The infrastructure, with the client it is read with.\<close>

definition run_discovery :: "options \<Rightarrow> infrastructure_info proc" where
  "run_discovery opts =
     (if opt_ManagementCluster opts then Ret (Inr (discoverInfrastructureFromEnv opts))
      else wrapE ''discovering infrastructure: ''
        (bindE (wrapE ''creating client for infrastructure discovery: '' (op_call NewClient)) (\<lambda>_.
           api discoverInfrastructure)))"

definition addHostedCluster :: "options \<Rightarrow> unit proc" where
  "addHostedCluster opts =
     (if opt_TargetKubeconfig opts \<noteq> [] \<and> opt_ManagementCluster opts
      then bindE (wrapE (''loading kubeconfig '' @ quoted (opt_TargetKubeconfig opts) @ '': '')
                    (op_call (BuildConfigFromFlags (opt_TargetKubeconfig opts)))) (\<lambda>_.
           bindE (wrapE ''creating hosted cluster: '' (op_call NewCluster)) (\<lambda>_.
           wrapE ''adding hosted cluster to manager: '' (op_call AddCluster)))
      else Ret (Inr ()))"

text \<open>\<open>decide\<close> computes the provider, the configuration and the controllers, which are values; the
  calls around it have their effect in this order.\<close>

definition Run ::
  "(string \<Rightarrow> goerr option) \<Rightarrow> environ \<Rightarrow> embedded_assets \<Rightarrow> options \<Rightarrow> unit proc"
where
  "Run load env as opts =
     bindE (wrapE ''loading kube config: '' (op_call GetConfig)) (\<lambda>_.
     bindE (run_discovery opts) (\<lambda>infra.
       case decide load env as opts (override_infrastructure opts infra) of
         Inl e \<Rightarrow> Ret (Inl e)
       | Inr (ReportOnly reporter) \<Rightarrow> runClusterOperatorReporter opts reporter
       | Inr (RunOperator cfg controllers) \<Rightarrow>
           bindE (wrapE ''adding cloud provider types to scheme: '' (op_call (AddToScheme (cc_CloudProvider cfg)))) (\<lambda>_.
           bindE (newManager opts) (\<lambda>_.
           bindE (addHostedCluster opts) (\<lambda>_.
           bindE (Setup controllers) (\<lambda>_.
           Call (GoSetupOperatorInfoMetric (opt_Namespace opts)) (\<lambda>_.
           startManager)))))))"


section \<open>The process\<close>

text \<open>Flags: the values given on the command line, over the defaults.\<close>

definition flag_options :: "(string \<Rightarrow> string option) \<Rightarrow> bool \<Rightarrow> options" where
  "flag_options flag leader_elect =
     (let given = (\<lambda>name default. case flag name of None \<Rightarrow> default | Some v \<Rightarrow> v) in
      \<lparr>opt_Namespace = given ''namespace'' [], opt_ReleaseVersion = [], opt_ClusterName = [],
       opt_ClusterEndpoint = [], opt_Platform = [], opt_Region = [],
       opt_TargetKubeconfig = given ''target-kubeconfig'' [], opt_ManagementCluster = False,
       opt_TokenMinterImage = [], opt_DefaultSecurityContextUID = None,
       opt_MetricsAddr = given ''metrics-bind-address'' '':8080'',
       opt_ProbeAddr = given ''health-probe-bind-address'' '':8081'', opt_LeaderElect = leader_elect\<rparr>)"

text \<open>\<^verbatim>\<open>main\<close> returns the exit code.\<close>

definition main ::
  "(string \<Rightarrow> goerr option) \<Rightarrow> environ \<Rightarrow> embedded_assets \<Rightarrow> (string \<Rightarrow> string option) \<Rightarrow> bool \<Rightarrow>
   (op_req, op_resp, nat) prog"
where
  "main load env as flag leader_elect =
     (case LoadEnv env (flag_options flag leader_elect) of
        (opts, Some e) \<Rightarrow> Ret 1
      | (opts, None) \<Rightarrow>
          (case Validate opts of
             Some e \<Rightarrow> Ret 1
           | None \<Rightarrow> bind (Run load env as opts) (\<lambda>r. Ret (case r of Inl e \<Rightarrow> 1 | Inr _ \<Rightarrow> 0))))"


section \<open>Sequences of calls\<close>

text \<open>The calls whose error ends the process; the error of an API call is the program's business, and
  starting a goroutine cannot fail.\<close>

fun fallible :: "op_req \<Rightarrow> bool" where
  "fallible (Api _) = False"
| "fallible (GoSetupOperatorInfoMetric _) = False"
| "fallible _ = True"

definition no_errors :: "(op_req \<times> op_resp) list \<Rightarrow> bool" where
  "no_errors tr \<longleftrightarrow> list_all (\<lambda>(q, r). fallible q \<longrightarrow> op_Error r = None) tr"

lemma no_errors_simps [simp]:
  "no_errors []" "no_errors ((q, r) # tr) \<longleftrightarrow> (fallible q \<longrightarrow> op_Error r = None) \<and> no_errors tr"
  "no_errors (tr @ tr') \<longleftrightarrow> no_errors tr \<and> no_errors tr'"
  by (simp_all add: no_errors_def)

text \<open>A program that makes the calls \<open>qs\<close> in turn and stops with an error at the first that fails.\<close>

definition outcome :: "op_req list \<Rightarrow> 'a \<Rightarrow> (op_req \<times> op_resp) list \<Rightarrow> goerr + 'a \<Rightarrow> bool" where
  "outcome qs a tr x \<longleftrightarrow>
     x = Inr a \<and> map fst tr = qs \<and> no_errors tr \<or>
     isl x \<and> (\<exists>tr1 q r qs2. tr = tr1 @ [(q, r)] \<and> qs = map fst tr1 @ q # qs2 \<and> no_errors tr1 \<and> op_Error r \<noteq> None)"

definition sequential :: "op_req list \<Rightarrow> 'a proc \<Rightarrow> 'a \<Rightarrow> bool" where
  "sequential qs p a \<longleftrightarrow> (\<forall>tr x. runs p tr x \<longrightarrow> outcome qs a tr x)"

lemma sequentialD: "sequential qs p a \<Longrightarrow> runs p tr x \<Longrightarrow> outcome qs a tr x"
  by (simp add: sequential_def)

lemma outcome_cases:
  assumes "outcome qs a tr x"
  obtains "x = Inr a" "map fst tr = qs" "no_errors tr"
  | e tr1 q r qs2 where "x = Inl e" "tr = tr1 @ [(q, r)]" "qs = map fst tr1 @ q # qs2" "no_errors tr1"
      "op_Error r \<noteq> None"
  using assms unfolding outcome_def by (cases x) auto

lemma outcome_simps [simp]:
  "outcome qs a tr (Inr b) \<longleftrightarrow> b = a \<and> map fst tr = qs \<and> no_errors tr"
  by (auto simp: outcome_def)

lemma outcome_error: "outcome qs a tr (Inl e) \<Longrightarrow> outcome (qs @ qs') b tr (Inl e')"
  by (auto simp: outcome_def)

lemma outcome_prefix:
  assumes "no_errors t" and "outcome qs a tr x"
  shows "outcome (map fst t @ qs) a (t @ tr) x"
  using assms(2)
proof (cases rule: outcome_cases)
  case 1
  with assms(1) show ?thesis by simp
next
  case (2 e tr1 q r qs2)
  with assms(1) show ?thesis
    unfolding outcome_def by (intro disjI2 conjI exI [of _ "t @ tr1"]) auto
qed

lemma runs_op_call:
  "runs (op_call q) tr x \<longleftrightarrow> (\<exists>r. tr = [(q, r)] \<and> x = (case op_Error r of None \<Rightarrow> Inr () | Some e \<Rightarrow> Inl e))"
  by (auto simp: op_call_def runs_Call_iff)

lemma sequential_op_call: "fallible q \<Longrightarrow> sequential [q] (op_call q) ()"
  by (auto simp: sequential_def runs_op_call outcome_def split: option.split)

lemma sequential_Ret: "sequential [] (Ret (Inr a)) a"
  by (simp add: sequential_def)

lemma sequential_go:
  assumes "sequential qs p a" and "\<not> fallible q"
  shows "sequential (q # qs) (Call q (\<lambda>_. p)) a"
  using assms outcome_prefix [of "[(q, r)]" for r] by (force simp: sequential_def runs_Call_iff)

lemma sequential_wrapE: "sequential qs p a \<Longrightarrow> sequential qs (wrapE ctx p) a"
  using outcome_error [of qs a _ _ "[]"] by (fastforce simp: sequential_def runs_wrapE)

lemma sequential_bindE:
  assumes "sequential qs p a" and "sequential qs' (f a) b"
  shows "sequential (qs @ qs') (bindE p f) b"
  unfolding sequential_def
proof (intro allI impI)
  fix tr x
  assume "runs (bindE p f) tr x"
  then consider e where "runs p tr (Inl e)" "x = Inl e"
    | t u a' where "tr = t @ u" "runs p t (Inr a')" "runs (f a') u x"
    by (auto simp: runs_bindE)
  then show "outcome (qs @ qs') b tr x"
  proof cases
    case (1 e)
    with outcome_error [OF sequentialD [OF assms(1) 1(1)]] show ?thesis by simp
  next
    case (2 t u a')
    with sequentialD [OF assms(1) 2(2)] have t: "a' = a" "map fst t = qs" "no_errors t" by simp_all
    with 2 sequentialD [OF assms(2)] outcome_prefix [of t qs' b u x] show ?thesis by simp
  qed
qed

lemma sequential_forE:
  "(\<And>x. x \<in> set xs \<Longrightarrow> sequential [g x] (f x) ()) \<Longrightarrow> sequential (map g xs) (forE xs f) ()"
proof (induction xs)
  case Nil
  show ?case by (simp add: sequential_Ret)
next
  case (Cons x xs)
  then have "sequential ([g x] @ map g xs) (bindE (f x) (\<lambda>_. forE xs f)) ()"
    by (intro sequential_bindE) auto
  then show ?case by simp
qed

lemma api_bind: "api (bind p f) = bind (api p) (\<lambda>a. api (f a))"
  by (induction p) simp_all

lemma api_bindE: "api (bindE p f) = bindE (api p) (\<lambda>a. api (f a))"
  unfolding bindE_def api_bind by (rule arg_cong [where f = "bind (api p)"]) (auto split: sum.split)

lemma api_wrapE: "api (wrapE ctx p) = wrapE ctx (api p)"
  by (simp add: wrapE_def api_bind)

text \<open>The API part of a trace.\<close>

fun api_call :: "op_req \<times> op_resp \<Rightarrow> (req \<times> resp) list" where
  "api_call (Api q, r) = [(q, op_Answer r)]"
| "api_call _ = []"

abbreviation api_calls :: "(op_req \<times> op_resp) list \<Rightarrow> (req \<times> resp) list" where
  "api_calls tr \<equiv> concat (map api_call tr)"

section \<open>What Run does\<close>

text \<open>The calls of a process that comes up, by its options and the plan.\<close>

definition manager_options_of :: "options \<Rightarrow> manager_options" where
  "manager_options_of opts =
     \<lparr>mgr_DefaultNamespaces = [opt_Namespace opts], mgr_MetricsAddr = opt_MetricsAddr opts,
      mgr_ProbeAddr = opt_ProbeAddr opts, mgr_LeaderElection = opt_LeaderElect opts,
      mgr_LeaderElectionID = ''karpenter-operator.openshift.io''\<rparr>"

abbreviation starting :: "op_req list" where
  "starting \<equiv> [AddHealthzCheck, AddReadyzCheck, StartManager]"

definition planned_calls :: "options \<Rightarrow> run_plan \<Rightarrow> op_req list" where
  "planned_calls opts plan =
     (case plan of
        ReportOnly reporter \<Rightarrow> [NewManager (manager_options_of opts), SetupWithManager reporter] @ starting
      | RunOperator cfg controllers \<Rightarrow>
          [AddToScheme (cc_CloudProvider cfg), NewManager (manager_options_of opts)] @
          (if cc_HostedCluster cfg
           then [BuildConfigFromFlags (opt_TargetKubeconfig opts), NewCluster, AddCluster] else []) @
          map SetupWithManager controllers @ GoSetupOperatorInfoMetric (opt_Namespace opts) # starting)"

definition discovery_calls :: "options \<Rightarrow> op_req list" where
  "discovery_calls opts =
     (if opt_ManagementCluster opts then [] else [NewClient, Api (Get Mgmt KInfrastructure [] ''cluster'')])"

definition startup_calls :: "options \<Rightarrow> run_plan \<Rightarrow> op_req list" where
  "startup_calls opts plan = GetConfig # discovery_calls opts @ planned_calls opts plan"

lemma sequential_call: "fallible q \<Longrightarrow> sequential [q] (wrapE ctx (op_call q)) ()"
  by (intro sequential_wrapE sequential_op_call)

lemma sequential_step:
  "fallible q \<Longrightarrow> sequential qs (f ()) b \<Longrightarrow> sequential (q # qs) (bindE (wrapE ctx (op_call q)) f) b"
  using sequential_bindE [OF sequential_call, of q qs f b ctx] by simp

lemma sequential_newManager:
  "sequential qs (f ()) b \<Longrightarrow> sequential (NewManager (manager_options_of opts) # qs) (bindE (newManager opts) f) b"
  unfolding newManager_def manager_options_of_def by (rule sequential_step) simp_all

lemma sequential_Setup: "sequential (map SetupWithManager cs) (Setup cs) ()"
  unfolding Setup_def by (intro sequential_forE sequential_call) simp

lemma sequential_startManager: "sequential starting startManager ()"
  unfolding startManager_def by (intro sequential_step sequential_call) simp_all

lemma sequential_addHostedCluster:
  "sequential (if opt_TargetKubeconfig opts \<noteq> [] \<and> opt_ManagementCluster opts
      then [BuildConfigFromFlags (opt_TargetKubeconfig opts), NewCluster, AddCluster] else []) (addHostedCluster opts) ()"
  unfolding addHostedCluster_def by (auto intro!: sequential_step sequential_call sequential_Ret)

lemma sequential_plan:
  assumes "decide load env as opts infra = Inr plan"
  shows "sequential (planned_calls opts plan)
    (case plan of
       ReportOnly reporter \<Rightarrow> runClusterOperatorReporter opts reporter
     | RunOperator cfg controllers \<Rightarrow>
         bindE (wrapE ''adding cloud provider types to scheme: '' (op_call (AddToScheme (cc_CloudProvider cfg)))) (\<lambda>_.
         bindE (newManager opts) (\<lambda>_.
         bindE (addHostedCluster opts) (\<lambda>_.
         bindE (Setup controllers) (\<lambda>_.
         Call (GoSetupOperatorInfoMetric (opt_Namespace opts)) (\<lambda>_.
         startManager)))))) ()"
proof (cases plan)
  case (ReportOnly c)
  show ?thesis
    using sequential_bindE [OF sequential_Setup sequential_startManager, of "[c]"]
    by (simp add: ReportOnly planned_calls_def runClusterOperatorReporter_def sequential_newManager)
next
  case (RunOperator cfg cs)
  have hosted: "cc_HostedCluster cfg \<longleftrightarrow> opt_TargetKubeconfig opts \<noteq> [] \<and> opt_ManagementCluster opts"
    using assms RunOperator by (auto simp: decide_def Let_def split: if_splits sum.splits)
  have "sequential (AddToScheme (cc_CloudProvider cfg) # NewManager (manager_options_of opts) #
      (if opt_TargetKubeconfig opts \<noteq> [] \<and> opt_ManagementCluster opts
       then [BuildConfigFromFlags (opt_TargetKubeconfig opts), NewCluster, AddCluster] else []) @
      map SetupWithManager cs @ GoSetupOperatorInfoMetric (opt_Namespace opts) # starting)
      (bindE (wrapE ''adding cloud provider types to scheme: '' (op_call (AddToScheme (cc_CloudProvider cfg)))) (\<lambda>_.
         bindE (newManager opts) (\<lambda>_.
         bindE (addHostedCluster opts) (\<lambda>_.
         bindE (Setup cs) (\<lambda>_.
         Call (GoSetupOperatorInfoMetric (opt_Namespace opts)) (\<lambda>_.
         startManager)))))) ()"
    by (intro sequential_step sequential_newManager sequential_bindE sequential_go sequential_startManager;
        (rule sequential_addHostedCluster sequential_Setup | simp))
  then show ?thesis by (simp add: RunOperator planned_calls_def hosted)
qed


lemma runs_discovery:
  assumes "runs (run_discovery opts) tr x"
  shows "no_errors tr \<or> isl x" and "x = Inr infra \<Longrightarrow> map fst tr = discovery_calls opts"
    and "x = Inr infra \<Longrightarrow> runs (if opt_ManagementCluster opts then Ret (Inr (discoverInfrastructureFromEnv opts))
            else wrapE ''discovering infrastructure: '' discoverInfrastructure) (api_calls tr) (Inr infra)"
    and "StartManager \<notin> fst ` set tr"
proof -
  have "(no_errors tr \<or> isl x) \<and> (x = Inr infra \<longrightarrow> map fst tr = discovery_calls opts \<and>
      runs (if opt_ManagementCluster opts then Ret (Inr (discoverInfrastructureFromEnv opts))
            else wrapE ''discovering infrastructure: '' discoverInfrastructure) (api_calls tr) (Inr infra)) \<and>
      StartManager \<notin> fst ` set tr"
    using assms
    by (auto simp: run_discovery_def discovery_calls_def discoverInfrastructure_def call_defs api_bindE api_wrapE runs_wrapE runs_bindE
        runs_op_call runs_Call_iff split: if_splits option.splits sum.splits)
  then show "no_errors tr \<or> isl x" and "x = Inr infra \<Longrightarrow> map fst tr = discovery_calls opts"
    and "x = Inr infra \<Longrightarrow> runs (if opt_ManagementCluster opts then Ret (Inr (discoverInfrastructureFromEnv opts))
            else wrapE ''discovering infrastructure: '' discoverInfrastructure) (api_calls tr) (Inr infra)"
    and "StartManager \<notin> fst ` set tr"
    by blast+
qed


lemma planned_calls_last:
  obtains pre where "planned_calls opts plan = pre @ [StartManager]" "StartManager \<notin> set pre"
    "\<forall>q. Api q \<notin> set pre"
proof (cases plan)
  case (ReportOnly c)
  then show ?thesis
    by (intro that [of "[NewManager (manager_options_of opts), SetupWithManager c, AddHealthzCheck, AddReadyzCheck]"])
      (simp_all add: planned_calls_def)
next
  case (RunOperator cfg cs)
  then show ?thesis
    by (intro that [of "[AddToScheme (cc_CloudProvider cfg), NewManager (manager_options_of opts)] @
          (if cc_HostedCluster cfg
           then [BuildConfigFromFlags (opt_TargetKubeconfig opts), NewCluster, AddCluster] else []) @
          map SetupWithManager cs @ [GoSetupOperatorInfoMetric (opt_Namespace opts), AddHealthzCheck, AddReadyzCheck]"])
      (auto simp: planned_calls_def)
qed

lemma runs_bind_Ret: "runs (bind p (\<lambda>a. Ret (f a))) tr b \<longleftrightarrow> (\<exists>a. runs p tr a \<and> b = f a)"
  by (auto simp: runs_bind)

text \<open>The last call of a sequence is the one that tells.\<close>

lemma outcome_last:
  assumes "outcome (pre @ [q]) () tr x" and "q \<notin> set pre"
  shows "isl x \<and> q \<notin> fst ` set tr \<or>
    (\<exists>tr1 r. tr = tr1 @ [(q, r)] \<and> map fst tr1 = pre \<and> no_errors tr1 \<and>
       (x = Inr () \<longrightarrow> fallible q \<longrightarrow> op_Error r = None) \<and> (isl x \<longrightarrow> op_Error r \<noteq> None))"
  using assms(1)
proof (cases rule: outcome_cases)
  case 1
  then have "tr \<noteq> []" by auto
  then obtain tr1 q' r where tr: "tr = tr1 @ [(q', r)]" by (metis rev_exhaust surj_pair)
  with 1 show ?thesis by (intro disjI2 exI [of _ tr1] exI [of _ r]) auto
next
  case (2 e tr1 q' r qs2)
  show ?thesis
  proof (cases qs2 rule: rev_cases)
    case Nil
    with 2 show ?thesis by (intro disjI2 exI [of _ tr1] exI [of _ r]) auto
  next
    case (snoc ys z)
    with 2(3) have "pre = map fst tr1 @ q' # ys" by auto
    with assms(2) 2 show ?thesis by (intro disjI1) auto
  qed
qed

lemma Run_trace:
  assumes "runs (Run load env as opts) tr y"
  shows "isl y \<and> StartManager \<notin> fst ` set tr \<or>
    (\<exists>plan tr1 r. runs (Run_plan load env as opts) (api_calls tr) (Inr plan) \<and>
       tr = tr1 @ [(StartManager, r)] \<and> map fst tr = startup_calls opts plan \<and> no_errors tr1 \<and>
       StartManager \<notin> fst ` set tr1 \<and> (isl y \<longleftrightarrow> op_Error r \<noteq> None))"
proof -
  from assms consider r e where "tr = [(GetConfig, r)]" "y = Inl e"
    | r t e where "tr = (GetConfig, r) # t" "runs (run_discovery opts) t (Inl e)" "y = Inl e"
    | r t u infra where "tr = (GetConfig, r) # t @ u" "op_Error r = None" "runs (run_discovery opts) t (Inr infra)"
      "runs (case decide load env as opts (override_infrastructure opts infra) of
         Inl e \<Rightarrow> Ret (Inl e)
       | Inr (ReportOnly reporter) \<Rightarrow> runClusterOperatorReporter opts reporter
       | Inr (RunOperator cfg controllers) \<Rightarrow>
           bindE (wrapE ''adding cloud provider types to scheme: '' (op_call (AddToScheme (cc_CloudProvider cfg)))) (\<lambda>_.
           bindE (newManager opts) (\<lambda>_.
           bindE (addHostedCluster opts) (\<lambda>_.
           bindE (Setup controllers) (\<lambda>_.
           Call (GoSetupOperatorInfoMetric (opt_Namespace opts)) (\<lambda>_.
           startManager)))))) u y"
    unfolding Run_def runs_bindE runs_wrapE runs_op_call by (auto split: option.splits)
  then show ?thesis
  proof cases
    case 1
    then show ?thesis by simp
  next
    case 2
    with runs_discovery(4) [OF 2(2)] show ?thesis by auto
  next
    case (3 r t u infra)
    note d = runs_discovery(1) [OF 3(3)] runs_discovery(2,3) [OF 3(3) refl] runs_discovery(4) [OF 3(3)]
    show ?thesis
    proof (cases "decide load env as opts (override_infrastructure opts infra)")
      case (Inl e)
      with 3 d(4) show ?thesis by auto
    next
      case (Inr plan)
      obtain pre where pre: "planned_calls opts plan = pre @ [StartManager]" "StartManager \<notin> set pre" "\<forall>q. Api q \<notin> set pre"
        by (rule planned_calls_last [of opts plan])
      have "runs (case plan of
           ReportOnly reporter \<Rightarrow> runClusterOperatorReporter opts reporter
         | RunOperator cfg controllers \<Rightarrow>
             bindE (wrapE ''adding cloud provider types to scheme: '' (op_call (AddToScheme (cc_CloudProvider cfg)))) (\<lambda>_.
             bindE (newManager opts) (\<lambda>_.
             bindE (addHostedCluster opts) (\<lambda>_.
             bindE (Setup controllers) (\<lambda>_.
             Call (GoSetupOperatorInfoMetric (opt_Namespace opts)) (\<lambda>_.
             startManager)))))) u y"
        using 3(4) Inr by (simp split: run_plan.splits)
      then have out: "outcome (pre @ [StartManager]) () u y"
        using sequentialD [OF sequential_plan [OF Inr]] pre(1) by simp
      have plan: "runs (Run_plan load env as opts) (api_calls t) (Inr plan)"
        using d(3) Inr unfolding Run_plan_def runs_bindE
        by (intro disjI2 exI [of _ "api_calls t"] exI [of _ "[]"] exI [of _ infra]) simp
      have u: "api_calls u = []" if "map fst u = pre @ [StartManager]"
      proof -
        have "api_call x = []" if "x \<in> set u" for x
        proof (cases x)
          case (Pair q r)
          with \<open>x \<in> set u\<close> have "q \<in> set (map fst u)" by force
          with \<open>map fst u = _\<close> pre(3) show ?thesis by (cases q) (auto simp: Pair)
        qed
        then show ?thesis by simp
      qed
      from outcome_last [OF out pre(2)] show ?thesis
      proof
        assume "isl y \<and> StartManager \<notin> fst ` set u"
        with 3 d(4) show ?thesis by auto
      next
        assume "\<exists>tr1 r. u = tr1 @ [(StartManager, r)] \<and> map fst tr1 = pre \<and> no_errors tr1 \<and>
           (y = Inr () \<longrightarrow> fallible StartManager \<longrightarrow> op_Error r = None) \<and> (isl y \<longrightarrow> op_Error r \<noteq> None)"
        then obtain tr1 r' where u': "u = tr1 @ [(StartManager, r')]" "map fst tr1 = pre" "no_errors tr1"
          "isl y \<longleftrightarrow> op_Error r' \<noteq> None" by (cases y) auto
        then have "api_calls tr = api_calls t" using u by (simp add: 3(1))
        with plan have "runs (Run_plan load env as opts) (api_calls tr) (Inr plan)" by metis
        with u' 3(1,2) d(1,2,4) pre(1,2) show ?thesis
          by (intro disjI2 exI [of _ plan] exI [of _ "(GetConfig, r) # t @ tr1"] exI [of _ r'])
            (auto simp: startup_calls_def)
      qed
    qed
  qed
qed


text \<open>
  C16: Every execution of \<^verbatim>\<open>Run\<close> either ends with an error before the manager is started, or
  makes exactly the calls of the plan that \<open>Run_plan\<close> allows for what it read, in this order and all
  successful: the scheme before the manager, the hosted cluster before the controllers that use it, every
  controller of the plan set up once and no other, the health checks, and only then the manager; and it
  returns without an error just if the manager does.
\<close>

theorem run_refines_plan:
  assumes "runs (Run load env as opts) tr y"
  shows "isl y \<and> StartManager \<notin> fst ` set tr \<or>
    (\<exists>plan tr1 r. runs (Run_plan load env as opts) (api_calls tr) (Inr plan) \<and>
       tr = tr1 @ [(StartManager, r)] \<and> map fst tr = startup_calls opts plan \<and> no_errors tr1 \<and>
       (isl y \<longleftrightarrow> op_Error r \<noteq> None))"
  using Run_trace [OF assms] by blast

text \<open>
  C33: The exit code of the process: 0 just if the manager was started and returned without an error. A
  process whose environment or configuration is invalid makes no call at all.
\<close>

theorem main_exit_code:
  assumes "runs (main load env as flag leader) tr code"
  shows "code = (if \<exists>r. (StartManager, r) \<in> set tr \<and> op_Error r = None then 0 else 1) \<and>
    (snd (LoadEnv env (flag_options flag leader)) \<noteq> None \<or>
       Validate (fst (LoadEnv env (flag_options flag leader))) \<noteq> None \<longrightarrow> tr = [])"
proof
  show "snd (LoadEnv env (flag_options flag leader)) \<noteq> None \<or>
      Validate (fst (LoadEnv env (flag_options flag leader))) \<noteq> None \<longrightarrow> tr = []"
    using assms by (auto simp: main_def split: prod.splits option.splits)
  consider "tr = []" "code = 1"
    | opts y where "runs (Run load env as opts) tr y" "code = (case y of Inl e \<Rightarrow> 1 | Inr _ \<Rightarrow> 0)"
    using assms by (auto simp: main_def runs_bind_Ret split: prod.splits option.splits)
  then show "code = (if \<exists>r. (StartManager, r) \<in> set tr \<and> op_Error r = None then 0 else 1)"
  proof cases
    case 1
    then show ?thesis by simp
  next
    case (2 opts y)
    from Run_trace [OF 2(1)] 2(2) show ?thesis
      by (cases y) (force split: if_splits)+
  qed
qed


section \<open>Witnesses\<close>

text \<open>A process on a platform that is not supported: it only reports.\<close>

abbreviation op_ok :: op_resp where
  "op_ok \<equiv> \<lparr>op_Error = None, op_Answer = ROk\<rparr>"

abbreviation reporting_options :: options where
  "reporting_options \<equiv> fst (LoadEnv (\<lambda>_. []) (flag_options (\<lambda>_. Some ''x'') False))"

abbreviation reporting_run :: "(op_req \<times> op_resp) list" where
  "reporting_run \<equiv>
     [(GetConfig, op_ok), (NewClient, op_ok),
      (Api (Get Mgmt KInfrastructure [] ''cluster''), op_ok\<lparr>op_Answer := RObj (OInfrastructure (example_infrastructure ''GCP''))\<rparr>),
      (NewManager (manager_options_of reporting_options), op_ok),
      (SetupWithManager (ClusterOperatorController (reporter_config reporting_options ''GCP'')), op_ok),
      (AddHealthzCheck, op_ok), (AddReadyzCheck, op_ok), (StartManager, op_ok)]"

lemma runs_reporting: "runs (Run no_load_error (\<lambda>_. []) example_assets reporting_options) reporting_run (Inr ())"
  by (simp add: Run_def run_discovery_def op_call_def api_bindE api_wrapE discoverInfrastructure_def call_defs
      infrastructures.as_object_iff infrastructure_of_def decide_def isPlatformSupported_def override_infrastructure_def
      LoadEnv_def ParseManagementClusterEnv_def parseSecurityContextUID_def flag_options_def Let_def
      runClusterOperatorReporter_def newManager_def manager_options_of_def Setup_def startManager_def reporter_config_def)

lemma run_refines_plan_witness:
  "\<exists>plan. runs (Run_plan no_load_error (\<lambda>_. []) example_assets reporting_options) (api_calls reporting_run) (Inr plan) \<and>
     map fst reporting_run = startup_calls reporting_options plan"
  using run_refines_plan [OF runs_reporting] by auto

lemma main_exit_code_witness:
  "runs (main no_load_error (\<lambda>_. []) example_assets (\<lambda>_. Some ''x'') False) reporting_run 0 \<and>
   (\<exists>r. (StartManager, r) \<in> set reporting_run \<and> op_Error r = None)"
proof -
  have "snd (LoadEnv (\<lambda>_. []) (flag_options (\<lambda>_. Some ''x'') False)) = None" "Validate reporting_options = None"
    by (simp_all add: LoadEnv_def ParseManagementClusterEnv_def parseSecurityContextUID_def flag_options_def Let_def
        Validate_def require_def)
  then have r: "runs (main no_load_error (\<lambda>_. []) example_assets (\<lambda>_. Some ''x'') False) reporting_run 0"
    using runs_reporting by (force simp: main_def runs_bind_Ret split: prod.splits)
  from main_exit_code [OF r] have "\<exists>r. (StartManager, r) \<in> set reporting_run \<and> op_Error r = None"
    by (metis zero_neq_one)
  with r show ?thesis by blast
qed

end
