(* ===== verification/Assets.thy ===== *)
theory Assets
  imports Cloud_Provider
begin

text \<open>
  \<^verbatim>\<open>pkg/assets/assets.go\<close>: the manifests compiled into the operator. The initialisation reads and
  decodes every file it names and panics when one is missing, does not decode or decodes to another kind.
  The contents of the files and the decoder of the Kubernetes libraries are parameters; which files are
  embedded is not. A panic is \<open>Inl\<close> of its message.

  The access rules among them are transcribed (\<open>shipped_CoreRBAC\<close>, \<open>shipped_AWSRBAC\<close>).
\<close>


section \<open>Embedded files\<close>

datatype embed_fs = coreContent | awsContent | azureContent | crdContent | hypershiftContent

text \<open>The files that the patterns of \<^verbatim>\<open>go:embed\<close> match.\<close>

fun embedded :: "embed_fs \<Rightarrow> string list" where
  "embedded coreContent =
     [''karpenter/clusterrole-core.yaml'', ''karpenter/clusterrolebinding-core.yaml'',
      ''karpenter/role-binding-dns.yaml'', ''karpenter/role-binding.yaml'', ''karpenter/role-dns.yaml'',
      ''karpenter/role.yaml'']"
| "embedded awsContent =
     [''aws/clusterrole.yaml'', ''aws/clusterrolebinding.yaml'', ''aws/karpenter.k8s.aws_ec2nodeclasses.yaml'']"
| "embedded azureContent = [''azure/karpenter.azure.com_aksnodeclasses.yaml'']"
| "embedded crdContent =
     [''crds/karpenter.sh_nodeclaims.yaml'', ''crds/karpenter.sh_nodeoverlays.yaml'', ''crds/karpenter.sh_nodepools.yaml'']"
| "embedded hypershiftContent =
     [''hypershift/karpenter.hypershift.openshift.io_openshiftazurenodeclasses.yaml'',
      ''hypershift/karpenter.hypershift.openshift.io_openshiftec2nodeclasses.yaml'']"

definition ReadFile :: "(string \<Rightarrow> string) \<Rightarrow> embed_fs \<Rightarrow> string \<Rightarrow> goerr + string" where
  "ReadFile content fs file =
     (if file \<in> set (embedded fs) then Inr (content file) else Inl (EText (''open '' @ file @ '': file does not exist'')))"

text \<open>What a document decodes to.\<close>

datatype manifest =
    MRole rbac_role
  | MRoleBinding rbac_binding
  | MClusterRole rbac_role
  | MClusterRoleBinding rbac_binding
  | MCRD crd
  | MOther

definition mustDecode ::
  "(string \<Rightarrow> string) \<Rightarrow> (string \<Rightarrow> goerr + manifest) \<Rightarrow> embed_fs \<Rightarrow> string \<Rightarrow> goerr + manifest"
where
  "mustDecode content decode fs file =
     (case ReadFile content fs file of
        Inl e \<Rightarrow> Inl (EWrap (''assets: read '' @ file @ '': '') e [])
      | Inr data \<Rightarrow>
          (case decode data of
             Inl e \<Rightarrow> Inl (EWrap (''assets: decode '' @ file @ '': '') e [])
           | Inr obj \<Rightarrow> Inr obj))"

text \<open>Type assertions.\<close>

abbreviation conversion_panic :: goerr where
  "conversion_panic \<equiv> EText ''interface conversion''"

fun as_Role :: "manifest \<Rightarrow> goerr + rbac_role" where
  "as_Role (MRole r) = Inr r" | "as_Role _ = Inl conversion_panic"

fun as_RoleBinding :: "manifest \<Rightarrow> goerr + rbac_binding" where
  "as_RoleBinding (MRoleBinding b) = Inr b" | "as_RoleBinding _ = Inl conversion_panic"

fun as_ClusterRole :: "manifest \<Rightarrow> goerr + rbac_role" where
  "as_ClusterRole (MClusterRole r) = Inr r" | "as_ClusterRole _ = Inl conversion_panic"

fun as_ClusterRoleBinding :: "manifest \<Rightarrow> goerr + rbac_binding" where
  "as_ClusterRoleBinding (MClusterRoleBinding b) = Inr b" | "as_ClusterRoleBinding _ = Inl conversion_panic"

fun as_CRD :: "manifest \<Rightarrow> goerr + crd" where
  "as_CRD (MCRD c) = Inr c" | "as_CRD _ = Inl conversion_panic"

text \<open>\<^verbatim>\<open>mustDecode\<close> followed by an assertion.\<close>

definition load ::
  "(string \<Rightarrow> string) \<Rightarrow> (string \<Rightarrow> goerr + manifest) \<Rightarrow> (manifest \<Rightarrow> goerr + 'a) \<Rightarrow> embed_fs \<Rightarrow> string \<Rightarrow> goerr + 'a"
where
  "load content decode as fs file = tryE (mustDecode content decode fs file) as"

definition init_assets ::
  "(string \<Rightarrow> string) \<Rightarrow> (string \<Rightarrow> goerr + manifest) \<Rightarrow> goerr + embedded_assets"
where
  "init_assets content decode =
     (tryE (load content decode as_Role coreContent ''karpenter/role.yaml'') (\<lambda>role.
      tryE (load content decode as_RoleBinding coreContent ''karpenter/role-binding.yaml'') (\<lambda>roleBinding.
      tryE (load content decode as_ClusterRole coreContent ''karpenter/clusterrole-core.yaml'') (\<lambda>clusterRole.
      tryE (load content decode as_ClusterRoleBinding coreContent ''karpenter/clusterrolebinding-core.yaml'') (\<lambda>clusterRoleBinding.
      tryE (load content decode as_ClusterRole awsContent ''aws/clusterrole.yaml'') (\<lambda>awsClusterRole.
      tryE (load content decode as_ClusterRoleBinding awsContent ''aws/clusterrolebinding.yaml'') (\<lambda>awsClusterRoleBinding.
      tryE (load content decode as_CRD crdContent ''crds/karpenter.sh_nodepools.yaml'') (\<lambda>nodePools.
      tryE (load content decode as_CRD crdContent ''crds/karpenter.sh_nodeclaims.yaml'') (\<lambda>nodeClaims.
      tryE (load content decode as_CRD awsContent ''aws/karpenter.k8s.aws_ec2nodeclasses.yaml'') (\<lambda>ec2NodeClasses.
      tryE (load content decode as_CRD hypershiftContent ''hypershift/karpenter.hypershift.openshift.io_openshiftec2nodeclasses.yaml'')
        (\<lambda>openshiftEC2NodeClasses.
      tryE (load content decode as_CRD azureContent ''azure/karpenter.azure.com_aksnodeclasses.yaml'') (\<lambda>aksNodeClasses.
      tryE (load content decode as_CRD crdContent ''crds/karpenter.sh_nodeoverlays.yaml'') (\<lambda>nodeOverlays.
      tryE (load content decode as_CRD hypershiftContent ''hypershift/karpenter.hypershift.openshift.io_openshiftazurenodeclasses.yaml'')
        (\<lambda>openShiftAzureNodeClasses.
      Inr \<lparr>asset_CoreCRDs = [nodePools, nodeClaims], asset_AWSCRDs = [ec2NodeClasses],
        asset_AzureCRDs = [aksNodeClasses, nodeOverlays], asset_HCPAWSCRDs = [openshiftEC2NodeClasses],
        asset_HCPAzureCRDs = [openShiftAzureNodeClasses],
        asset_CoreRBAC = \<lparr>rbac_Roles = [role], rbac_RoleBindings = [roleBinding],
          rbac_ClusterRoles = [clusterRole], rbac_ClusterRoleBindings = [clusterRoleBinding]\<rparr>,
        asset_AWSRBAC = \<lparr>rbac_Roles = [], rbac_RoleBindings = [], rbac_ClusterRoles = [awsClusterRole],
          rbac_ClusterRoleBindings = [awsClusterRoleBinding]\<rparr>\<rparr>))))))))))))))"


section \<open>The access rules\<close>

abbreviation rule :: "string list \<Rightarrow> string list \<Rightarrow> string list \<Rightarrow> policy_rule" where
  "rule groups resources verbs \<equiv>
     \<lparr>pol_Verbs = verbs, pol_APIGroups = groups, pol_Resources = resources, pol_ResourceNames = [],
      pol_NonResourceURLs = []\<rparr>"

definition core_clusterrole_rules :: "policy_rule list" where
  "core_clusterrole_rules =
     [rule [''karpenter.sh'']
        [''nodepools'', ''nodepools/status'', ''nodeclaims'', ''nodeclaims/status'', ''nodeclaims/finalizers'',
         ''nodeoverlays'', ''nodeoverlays/status''] [''get'', ''list'', ''watch''],
      rule ['''']
        [''pods'', ''nodes'', ''persistentvolumes'', ''persistentvolumeclaims'', ''replicationcontrollers'', ''namespaces'']
        [''get'', ''list'', ''watch''],
      rule [''storage.k8s.io''] [''storageclasses'', ''csinodes'', ''volumeattachments''] [''get'', ''watch'', ''list''],
      rule [''apps''] [''daemonsets'', ''deployments'', ''replicasets'', ''statefulsets''] [''list'', ''watch''],
      rule [''policy''] [''poddisruptionbudgets''] [''get'', ''list'', ''watch''],
      rule [''''] [''events''] [''get'', ''list'', ''watch''],
      rule [''karpenter.sh''] [''nodeclaims'', ''nodeclaims/status'', ''nodeclaims/finalizers'']
        [''create'', ''delete'', ''update'', ''patch''],
      rule [''karpenter.sh''] [''nodepools'', ''nodepools/status'', ''nodepools/finalizers'', ''nodeoverlays/status'']
        [''update'', ''patch''],
      rule [''''] [''events''] [''create'', ''patch''],
      rule [''''] [''nodes''] [''patch'', ''delete'', ''update''],
      rule [''''] [''pods/eviction''] [''create''],
      rule [''''] [''pods''] [''delete'']]"

definition core_role_rules :: "policy_rule list" where
  "core_role_rules =
     [rule [''coordination.k8s.io''] [''leases''] [''get'', ''watch''],
      (rule [''coordination.k8s.io''] [''leases''] [''patch'', ''update''])
        \<lparr>pol_ResourceNames := [''karpenter-leader-election'']\<rparr>,
      rule [''coordination.k8s.io''] [''leases''] [''create'']]"

definition aws_clusterrole_rules :: "policy_rule list" where
  "aws_clusterrole_rules =
     [rule [''karpenter.k8s.aws''] [''ec2nodeclasses''] [''get'', ''list'', ''watch''],
      rule [''karpenter.k8s.aws''] [''ec2nodeclasses'', ''ec2nodeclasses/status''] [''patch'', ''update'']]"

definition binding_to :: "string \<Rightarrow> string \<Rightarrow> rbac_binding" where
  "binding_to kind name =
     \<lparr>rb_Name = name,
      rb_RoleRef = \<lparr>rref_APIGroup = ''rbac.authorization.k8s.io'', rref_Kind = kind, rref_Name = name\<rparr>,
      rb_Subjects = [\<lparr>sub_Kind = ''ServiceAccount'', sub_APIGroup = [], sub_Name = ''karpenter'',
        sub_Namespace = ''openshift-karpenter''\<rparr>]\<rparr>"

definition shipped_CoreRBAC :: rbac_assets where
  "shipped_CoreRBAC =
     \<lparr>rbac_Roles = [\<lparr>role_Name = ''karpenter'', role_Labels = [], role_Rules = core_role_rules\<rparr>],
      rbac_RoleBindings = [binding_to ''Role'' ''karpenter''],
      rbac_ClusterRoles = [\<lparr>role_Name = ''karpenter-core'', role_Labels = [], role_Rules = core_clusterrole_rules\<rparr>],
      rbac_ClusterRoleBindings = [binding_to ''ClusterRole'' ''karpenter-core'']\<rparr>"

definition shipped_AWSRBAC :: rbac_assets where
  "shipped_AWSRBAC =
     \<lparr>rbac_Roles = [], rbac_RoleBindings = [],
      rbac_ClusterRoles = [\<lparr>role_Name = ''karpenter'', role_Labels = [], role_Rules = aws_clusterrole_rules\<rparr>],
      rbac_ClusterRoleBindings = [binding_to ''ClusterRole'' ''karpenter'']\<rparr>"


section \<open>Properties\<close>

text \<open>The files the initialisation names, with the kind each must have.\<close>

definition loaded_files :: "(embed_fs \<times> string \<times> (manifest \<Rightarrow> bool)) list" where
  "loaded_files =
     [(coreContent, ''karpenter/role.yaml'', \<lambda>m. \<exists>r. m = MRole r),
      (coreContent, ''karpenter/role-binding.yaml'', \<lambda>m. \<exists>b. m = MRoleBinding b),
      (coreContent, ''karpenter/clusterrole-core.yaml'', \<lambda>m. \<exists>r. m = MClusterRole r),
      (coreContent, ''karpenter/clusterrolebinding-core.yaml'', \<lambda>m. \<exists>b. m = MClusterRoleBinding b),
      (awsContent, ''aws/clusterrole.yaml'', \<lambda>m. \<exists>r. m = MClusterRole r),
      (awsContent, ''aws/clusterrolebinding.yaml'', \<lambda>m. \<exists>b. m = MClusterRoleBinding b),
      (crdContent, ''crds/karpenter.sh_nodepools.yaml'', \<lambda>m. \<exists>c. m = MCRD c),
      (crdContent, ''crds/karpenter.sh_nodeclaims.yaml'', \<lambda>m. \<exists>c. m = MCRD c),
      (awsContent, ''aws/karpenter.k8s.aws_ec2nodeclasses.yaml'', \<lambda>m. \<exists>c. m = MCRD c),
      (hypershiftContent, ''hypershift/karpenter.hypershift.openshift.io_openshiftec2nodeclasses.yaml'', \<lambda>m. \<exists>c. m = MCRD c),
      (azureContent, ''azure/karpenter.azure.com_aksnodeclasses.yaml'', \<lambda>m. \<exists>c. m = MCRD c),
      (crdContent, ''crds/karpenter.sh_nodeoverlays.yaml'', \<lambda>m. \<exists>c. m = MCRD c),
      (hypershiftContent, ''hypershift/karpenter.hypershift.openshift.io_openshiftazurenodeclasses.yaml'', \<lambda>m. \<exists>c. m = MCRD c)]"

definition decodes_to :: "(goerr + manifest) \<Rightarrow> (manifest \<Rightarrow> bool) \<Rightarrow> bool" where
  "decodes_to x k \<longleftrightarrow> (case x of Inl e \<Rightarrow> False | Inr m \<Rightarrow> k m)"

lemma assertion_isl:
  "isl (as_Role m) \<longleftrightarrow> (\<nexists>r. m = MRole r)" "isl (as_RoleBinding m) \<longleftrightarrow> (\<nexists>b. m = MRoleBinding b)"
  "isl (as_ClusterRole m) \<longleftrightarrow> (\<nexists>r. m = MClusterRole r)"
  "isl (as_ClusterRoleBinding m) \<longleftrightarrow> (\<nexists>b. m = MClusterRoleBinding b)" "isl (as_CRD m) \<longleftrightarrow> (\<nexists>c. m = MCRD c)"
  by (cases m; simp)+

lemma isl_load:
  assumes "file \<in> set (embedded fs)"
  shows "isl (load content decode as fs file) \<longleftrightarrow> \<not> decodes_to (decode (content file)) (\<lambda>m. \<not> isl (as m))"
  using assms by (cases "decode (content file)") (simp_all add: load_def mustDecode_def ReadFile_def decodes_to_def)

lemma isl_tryE: "isl (tryE x f) \<longleftrightarrow> isl x \<or> \<not> isl x \<and> isl (f (projr x))"
  by (cases x) simp_all


lemma loaded_embedded: "\<forall>(fs, file, k)\<in>set loaded_files. file \<in> set (embedded fs)"
  unfolding loaded_files_def list.set ball_simps prod.case embedded.simps by (intro conjI insertI1 insertI2 TrueI)

text \<open>
  C29: The initialisation panics exactly if some file it names does not decode to the kind it expects. It
  never panics for a missing file: every file it names matches a pattern of \<^verbatim>\<open>go:embed\<close>.
\<close>

theorem assets_initialised:
  "isl (init_assets content decode) \<longleftrightarrow>
     (\<exists>(fs, file, k)\<in>set loaded_files. file \<in> set (embedded fs) \<and> \<not> decodes_to (decode (content file)) k)"
proof -
  have f: "f \<in> set (embedded fs) \<Longrightarrow> isl (load content decode as_Role fs f) \<longleftrightarrow> \<not> decodes_to (decode (content f)) (\<lambda>m. \<exists>r. m = MRole r)"
    "f \<in> set (embedded fs) \<Longrightarrow> isl (load content decode as_RoleBinding fs f) \<longleftrightarrow> \<not> decodes_to (decode (content f)) (\<lambda>m. \<exists>r. m = MRoleBinding r)"
    "f \<in> set (embedded fs) \<Longrightarrow> isl (load content decode as_ClusterRole fs f) \<longleftrightarrow> \<not> decodes_to (decode (content f)) (\<lambda>m. \<exists>r. m = MClusterRole r)"
    "f \<in> set (embedded fs) \<Longrightarrow> isl (load content decode as_ClusterRoleBinding fs f) \<longleftrightarrow> \<not> decodes_to (decode (content f)) (\<lambda>m. \<exists>r. m = MClusterRoleBinding r)"
    "f \<in> set (embedded fs) \<Longrightarrow> isl (load content decode as_CRD fs f) \<longleftrightarrow> \<not> decodes_to (decode (content f)) (\<lambda>m. \<exists>r. m = MCRD r)"
    for f fs by (simp_all add: isl_load assertion_isl)
  note mem = loaded_embedded [unfolded loaded_files_def list.set ball_simps prod.case]
  have "isl (init_assets content decode) \<longleftrightarrow>
     (\<exists>(fs, file, k)\<in>set loaded_files. \<not> decodes_to (decode (content file)) k)"
    unfolding init_assets_def isl_tryE
    using mem by (simp only: f loaded_files_def list.set bex_simps prod.case sum.disc simp_thms) blast
  with loaded_embedded show ?thesis by blast
qed

end
