(* ===== verification/Watches.thy ===== *)
theory Watches
  imports Operator_Run
begin

text \<open>
  What wakes the controllers: \<^verbatim>\<open>SetupWithManager\<close> of every controller, as the list of
  sources it registers, over the event handlers and predicates of controller-runtime (vendored under
  \<^verbatim>\<open>pkg/handler\<close>, \<^verbatim>\<open>pkg/predicate\<close> and \<^verbatim>\<open>pkg/builder\<close>). The errors of the
  library calls are parameters (\<open>manager_env\<close>).

  \<open>drift_wakes_operand\<close>: a change or deletion of anything an operand controller applies wakes that
  controller for the object it reconciles. \<open>setup_complete\<close>: no controller fails to be set up for a
  missing prerequisite, and everything watched is known to the scheme.
\<close>


section \<open>Objects and events\<close>

text \<open>The kinds that are only watched.\<close>

datatype watch_kind =
    WK kind | WServiceAccount | WRole | WRoleBinding | WClusterRole | WClusterRoleBinding | WPodMonitor

datatype watched = WObj obj | WOther watch_kind object_meta

fun obj_meta :: "obj \<Rightarrow> object_meta" where
  "obj_meta (OHostedControlPlane x) = hcp_Meta x"
| "obj_meta (OSecret x) = sec_Meta x"
| "obj_meta (OConfigMap x) = cm_Meta x"
| "obj_meta (ONode x) = node_Meta x"
| "obj_meta (ONodePool x) = np_Meta x"
| "obj_meta (ONodeClaim x) = nc_Meta x"
| "obj_meta (OCAPICluster x) = x"
| "obj_meta (OCertificateSigningRequest x) = csr_Meta x"
| "obj_meta (OCustomResourceDefinition x) = crd_Meta x"
| "obj_meta (OValidatingAdmissionPolicy x) = vap_Meta x"
| "obj_meta (OValidatingAdmissionPolicyBinding x) = vapb_Meta x"
| "obj_meta (OOpenshiftEC2NodeClass x) = onc_Meta x"
| "obj_meta (OEC2NodeClass x) = ec2_Meta x"
| "obj_meta (OOpenShiftAzureNodeClass x) = anc_Meta x"
| "obj_meta (OAKSNodeClass x) = aks_Meta x"
| "obj_meta (OClusterOperator x) = co_Meta x"
| "obj_meta (OKarpenter x) = kcr_Meta x"
| "obj_meta (ODeployment x) = dep_Meta x"
| "obj_meta (OPod x) = pod_Meta x"
| "obj_meta (OInfrastructure x) = inf_Meta x"

fun obj_kind :: "obj \<Rightarrow> kind" where
  "obj_kind (OHostedControlPlane x) = KHostedControlPlane"
| "obj_kind (OSecret x) = KSecret"
| "obj_kind (OConfigMap x) = KConfigMap"
| "obj_kind (ONode x) = KNode"
| "obj_kind (ONodePool x) = KNodePool"
| "obj_kind (ONodeClaim x) = KNodeClaim"
| "obj_kind (OCAPICluster x) = KCAPICluster"
| "obj_kind (OCertificateSigningRequest x) = KCertificateSigningRequest"
| "obj_kind (OCustomResourceDefinition x) = KCustomResourceDefinition"
| "obj_kind (OValidatingAdmissionPolicy x) = KValidatingAdmissionPolicy"
| "obj_kind (OValidatingAdmissionPolicyBinding x) = KValidatingAdmissionPolicyBinding"
| "obj_kind (OOpenshiftEC2NodeClass x) = KOpenshiftEC2NodeClass"
| "obj_kind (OEC2NodeClass x) = KEC2NodeClass"
| "obj_kind (OOpenShiftAzureNodeClass x) = KOpenShiftAzureNodeClass"
| "obj_kind (OAKSNodeClass x) = KAKSNodeClass"
| "obj_kind (OClusterOperator x) = KClusterOperator"
| "obj_kind (OKarpenter x) = KKarpenter"
| "obj_kind (ODeployment x) = KDeployment"
| "obj_kind (OPod x) = KPod"
| "obj_kind (OInfrastructure x) = KInfrastructure"

fun watched_meta :: "watched \<Rightarrow> object_meta" where
  "watched_meta (WObj x) = obj_meta x"
| "watched_meta (WOther k m) = m"

fun watched_kind :: "watched \<Rightarrow> watch_kind" where
  "watched_kind (WObj x) = WK (obj_kind x)"
| "watched_kind (WOther k m) = k"

abbreviation watched_key :: "watched \<Rightarrow> string \<times> string" where
  "watched_key x \<equiv> (md_Namespace (watched_meta x), md_Name (watched_meta x))"

definition unwrap :: "'a resource \<Rightarrow> watched \<Rightarrow> 'a option" where
  "unwrap r x = (case x of WObj y \<Rightarrow> res_unwrap r y | WOther k m \<Rightarrow> None)"

datatype event =
    CreateEvent watched
  | UpdateEvent watched watched     \<comment> \<open>old and new\<close>
  | DeleteEvent watched
  | GenericEvent watched

fun event_objects :: "event \<Rightarrow> watched list" where
  "event_objects (CreateEvent x) = [x]"
| "event_objects (UpdateEvent old new) = [old, new]"
| "event_objects (DeleteEvent x) = [x]"
| "event_objects (GenericEvent x) = [x]"


section \<open>Predicates and handlers of the library\<close>

record predicate =
  CreateFunc :: "watched \<Rightarrow> bool"
  UpdateFunc :: "watched \<Rightarrow> watched \<Rightarrow> bool"
  DeleteFunc :: "watched \<Rightarrow> bool"
  GenericFunc :: "watched \<Rightarrow> bool"

fun passes :: "predicate \<Rightarrow> event \<Rightarrow> bool" where
  "passes p (CreateEvent x) = CreateFunc p x"
| "passes p (UpdateEvent old new) = UpdateFunc p old new"
| "passes p (DeleteEvent x) = DeleteFunc p x"
| "passes p (GenericEvent x) = GenericFunc p x"

text \<open>\<^verbatim>\<open>predicate.Funcs{}\<close>: an unset function accepts; also what no predicate does.\<close>

definition Funcs :: predicate where
  "Funcs = \<lparr>CreateFunc = \<lambda>_. True, UpdateFunc = \<lambda>_ _. True, DeleteFunc = \<lambda>_. True, GenericFunc = \<lambda>_. True\<rparr>"

definition NewPredicateFuncs :: "(watched \<Rightarrow> bool) \<Rightarrow> predicate" where
  "NewPredicateFuncs filt =
     \<lparr>CreateFunc = filt, UpdateFunc = \<lambda>_ new. filt new, DeleteFunc = filt, GenericFunc = filt\<rparr>"

text \<open>The requests put into the queue, keys of objects; a handler may ask the API server.\<close>

type_synonym requests = "(string \<times> string) list"

definition add_requests :: "requests \<Rightarrow> requests \<Rightarrow> requests" where
  "add_requests reqs rs = fold (\<lambda>r reqs. if r \<in> set reqs then reqs else reqs @ [r]) rs reqs"

fun EnqueueRequestForObject :: "event \<Rightarrow> requests io" where
  "EnqueueRequestForObject (CreateEvent x) = Ret (Inr [watched_key x])"
| "EnqueueRequestForObject (UpdateEvent old new) = Ret (Inr [watched_key new])"
| "EnqueueRequestForObject (DeleteEvent x) = Ret (Inr [watched_key x])"
| "EnqueueRequestForObject (GenericEvent x) = Ret (Inr [watched_key x])"

primrec mapAndEnqueue :: "(watched \<Rightarrow> requests io) \<Rightarrow> watched list \<Rightarrow> requests \<Rightarrow> requests io" where
  "mapAndEnqueue f [] reqs = Ret (Inr reqs)"
| "mapAndEnqueue f (x # xs) reqs = bindE (f x) (\<lambda>rs. mapAndEnqueue f xs (add_requests reqs rs))"

definition EnqueueRequestsFromMapFunc :: "(watched \<Rightarrow> requests io) \<Rightarrow> event \<Rightarrow> requests io" where
  "EnqueueRequestsFromMapFunc f e = mapAndEnqueue f (event_objects e) []"

abbreviation constantly :: "(watched \<Rightarrow> requests) \<Rightarrow> watched \<Rightarrow> requests io" where
  "constantly f x \<equiv> Ret (Inr (f x))"

text \<open>\<^verbatim>\<open>schema.ParseGroupVersion\<close>; \<open>None\<close> is its error.\<close>

definition ParseGroupVersion :: "string \<Rightarrow> (string \<times> string) option" where
  "ParseGroupVersion gv =
     (if gv = [] \<or> gv = ''/'' then Some ([], [])
      else if count_list gv CHR ''/'' = 0 then Some ([], gv)
      else if count_list gv CHR ''/'' = 1
      then Some (takeWhile (\<lambda>c. c \<noteq> CHR ''/'') gv, tl (dropWhile (\<lambda>c. c \<noteq> CHR ''/'') gv))
      else None)"

text \<open>The REST mapper answers for a group, kind and version whether the kind is namespaced.\<close>

type_synonym scopes = "string \<Rightarrow> string \<Rightarrow> string \<Rightarrow> bool option"

definition getOwnerReconcileRequest :: "scopes \<Rightarrow> string \<Rightarrow> string \<Rightarrow> watched \<Rightarrow> requests" where
  "getOwnerReconcileRequest mapper grp knd x =
     (case GetControllerOf (watched_meta x) of
        None \<Rightarrow> []
      | Some ref \<Rightarrow>
          (case ParseGroupVersion (or_APIVersion ref) of
             None \<Rightarrow> []
           | Some (refGroup, refVersion) \<Rightarrow>
               if or_Kind ref = knd \<and> refGroup = grp
               then (case mapper grp knd refVersion of
                       None \<Rightarrow> []
                     | Some namespaced \<Rightarrow>
                         [(if namespaced then md_Namespace (watched_meta x) else [], or_Name ref)])
               else []))"

definition EnqueueRequestForOwner :: "scopes \<Rightarrow> string \<Rightarrow> string \<Rightarrow> event \<Rightarrow> requests io" where
  "EnqueueRequestForOwner mapper grp knd e =
     Ret (Inr (fold (\<lambda>x reqs. add_requests reqs (getOwnerReconcileRequest mapper grp knd x)) (event_objects e) []))"


section \<open>Sources\<close>

record watch =
  wt_Cluster :: target
  wt_Kind :: watch_kind
  wt_Predicate :: predicate
  wt_Handler :: "event \<Rightarrow> requests io"

datatype source =
    Kind watch
  | Initial "string \<times> string"     \<comment> \<open>a request put into the queue at start-up\<close>

text \<open>What a source puts into the queue for an event.\<close>

definition deliver :: "watch \<Rightarrow> event \<Rightarrow> requests io" where
  "deliver w e = (if passes (wt_Predicate w) e then wt_Handler w e else Ret (Inr []))"

text \<open>The methods of the builder.\<close>

definition For :: "kind \<Rightarrow> predicate \<Rightarrow> source" where
  "For k p = Kind \<lparr>wt_Cluster = Mgmt, wt_Kind = WK k, wt_Predicate = p, wt_Handler = EnqueueRequestForObject\<rparr>"

definition Owns :: "scopes \<Rightarrow> string \<times> string \<Rightarrow> watch_kind \<Rightarrow> predicate \<Rightarrow> source" where
  "Owns mapper owner k p = Kind \<lparr>wt_Cluster = Mgmt, wt_Kind = k, wt_Predicate = p,
     wt_Handler = EnqueueRequestForOwner mapper (fst owner) (snd owner)\<rparr>"

definition Watches :: "watch_kind \<Rightarrow> (event \<Rightarrow> requests io) \<Rightarrow> predicate \<Rightarrow> source" where
  "Watches k h p = Kind \<lparr>wt_Cluster = Mgmt, wt_Kind = k, wt_Predicate = p, wt_Handler = h\<rparr>"

text \<open>\<^verbatim>\<open>source.Kind\<close> with the cache of a cluster.\<close>

definition source_Kind :: "target \<Rightarrow> kind \<Rightarrow> (event \<Rightarrow> requests io) \<Rightarrow> predicate \<Rightarrow> source" where
  "source_Kind t k h p = Kind \<lparr>wt_Cluster = t, wt_Kind = WK k, wt_Predicate = p, wt_Handler = h\<rparr>"


section \<open>The predicates of the controllers\<close>

text \<open>\<^verbatim>\<open>hcpPredicate\<close> of the EC2, Azure and default NodeClass controllers, and
  \<^verbatim>\<open>hcpOperandReconcilePredicate\<close>.\<close>

definition on_hcps :: "bool \<Rightarrow> (hosted_control_plane \<Rightarrow> hosted_control_plane \<Rightarrow> bool) \<Rightarrow> watched \<Rightarrow> watched \<Rightarrow> bool" where
  "on_hcps otherwise f old new =
     (case (unwrap HCPs old, unwrap HCPs new) of
        (Some oldHCP, Some newHCP) \<Rightarrow> f oldHCP newHCP
      | _ \<Rightarrow> otherwise)"

definition ec2_hcpPredicate :: predicate where
  "ec2_hcpPredicate =
     \<lparr>CreateFunc = \<lambda>_. True, UpdateFunc = on_hcps False ec2_hcpPredicate_update, DeleteFunc = \<lambda>_. False,
      GenericFunc = \<lambda>_. False\<rparr>"

definition azure_hcpPredicate :: predicate where
  "azure_hcpPredicate =
     \<lparr>CreateFunc = \<lambda>_. True, UpdateFunc = on_hcps False azure_hcpPredicate_update, DeleteFunc = \<lambda>_. False,
      GenericFunc = \<lambda>_. False\<rparr>"

definition default_hcpPredicate :: predicate where
  "default_hcpPredicate = Funcs\<lparr>UpdateFunc := on_hcps True default_hcpPredicate_update\<rparr>"

definition hcpOperandReconcilePredicate :: predicate where
  "hcpOperandReconcilePredicate = Funcs\<lparr>UpdateFunc := on_hcps True hcpOperandChanged\<rparr>"

definition KarpenterSecretPredicate :: predicate where
  "KarpenterSecretPredicate =
     \<lparr>CreateFunc = \<lambda>x. KarpenterSecretPredicate_create (watched_meta x),
      UpdateFunc = \<lambda>old new. KarpenterSecretPredicate_update (watched_meta old) (watched_meta new),
      DeleteFunc = \<lambda>_. False, GenericFunc = \<lambda>_. False\<rparr>"

definition EnqueueNodeClassForUserDataSecret :: "event \<Rightarrow> requests io" where
  "EnqueueNodeClassForUserDataSecret =
     EnqueueRequestsFromMapFunc
       (constantly (\<lambda>x. map (Pair []) (mapUserDataSecretToNodeClass (watched_meta x))))"

text \<open>Typed predicates see objects of their type only.\<close>

definition both :: "'a resource \<Rightarrow> ('a \<Rightarrow> 'a \<Rightarrow> bool) \<Rightarrow> watched \<Rightarrow> watched \<Rightarrow> bool" where
  "both r f old new = (case (unwrap r old, unwrap r new) of (Some a, Some b) \<Rightarrow> f a b | _ \<Rightarrow> False)"

definition nodeClaimPredicate :: predicate where
  "nodeClaimPredicate =
     \<lparr>CreateFunc = \<lambda>_. True, UpdateFunc = both NodeClaims nodeClaimPredicate_update, DeleteFunc = \<lambda>_. True,
      GenericFunc = \<lambda>_. False\<rparr>"

definition countChangePredicate :: predicate where
  "countChangePredicate =
     \<lparr>CreateFunc = \<lambda>_. True, UpdateFunc = both Nodes countChangePredicate_update, DeleteFunc = \<lambda>_. True,
      GenericFunc = \<lambda>_. False\<rparr>"

definition TypedGenerationChangedPredicate :: predicate where
  "TypedGenerationChangedPredicate =
     Funcs\<lparr>UpdateFunc := \<lambda>old new. generation_changed (watched_meta old) (watched_meta new)\<rparr>"

definition csrPredicate :: predicate where
  "csrPredicate = NewPredicateFuncs (\<lambda>x. case unwrap CSRs x of None \<Rightarrow> False | Some csr \<Rightarrow> csrFilterFn csr)"


section \<open>SetupWithManager\<close>

text \<open>What the libraries answer: whether a cluster object was given (\<^verbatim>\<open>cfg.HostedCluster\<close>), the
  REST mapper, and an error of each call, by the name of the controller.\<close>

record manager_env =
  me_HostedCluster :: bool
  me_RESTMapper :: "string \<times> string \<Rightarrow> goerr + string"
  me_Scopes :: scopes
  me_Complete :: "string \<Rightarrow> goerr option"
  me_NewController :: "string \<Rightarrow> goerr option"
  me_Watch :: "string \<Rightarrow> nat \<Rightarrow> goerr option"    \<comment> \<open>by the number of the watch\<close>
  me_NewForConfig :: "goerr option"

definition Complete :: "manager_env \<Rightarrow> string \<Rightarrow> source list \<Rightarrow> goerr + source list" where
  "Complete me name sources = (case me_Complete me name of None \<Rightarrow> Inr sources | Some e \<Rightarrow> Inl e)"

abbreviation orElse :: "goerr option \<Rightarrow> string \<Rightarrow> goerr + 'a \<Rightarrow> goerr + 'a" where
  "orElse err ctx x \<equiv> (case err of None \<Rightarrow> x | Some e \<Rightarrow> Inl (EWrap ctx e []))"

abbreviation hosted_cluster_required :: "manager_env \<Rightarrow> goerr + 'a \<Rightarrow> goerr + 'a" where
  "hosted_cluster_required me x \<equiv>
     (if \<not> me_HostedCluster me then Inl (EText ''hosted cluster is required'') else x)"

definition crd_SetupWithManager :: "manager_env \<Rightarrow> target \<Rightarrow> crd list \<Rightarrow> goerr + source list" where
  "crd_SetupWithManager me t crds =
     orElse (me_NewController me ''crd'') ''creating controller: ''
       (orElse (me_Watch me ''crd'' 0) ''watching CRDs: ''
         (orElse (me_Watch me ''crd'' 1) ''watching initial sync: ''
           (Inr
             [source_Kind t KCustomResourceDefinition
                (EnqueueRequestsFromMapFunc (constantly (\<lambda>x.
                   case unwrap CRDs x of None \<Rightarrow> [] | Some c \<Rightarrow> map (Pair []) (crd_requests crds c))))
                TypedGenerationChangedPredicate,
              Initial ([], [])])))"

text \<open>\<^verbatim>\<open>WatchObject\<close> of the providers of the default NodeClass.\<close>

primrec WatchObject :: "hcp_nodeclass_provider \<Rightarrow> kind" where
  "WatchObject HCPEC2 = KOpenshiftEC2NodeClass"
| "WatchObject (HCPAzure v) = KOpenShiftAzureNodeClass"

definition default_SetupWithManager ::
  "manager_env \<Rightarrow> hcp_nodeclass_provider option \<Rightarrow> bool \<Rightarrow> string \<Rightarrow> goerr + source list"
where
  "default_SetupWithManager me provider hosted namespace =
     (if \<not> hosted then Inl (EText ''hosted cluster is required for default NodeClass controller'')
      else case provider of
        None \<Rightarrow> Inl (EText ''default NodeClass provider is required'')
      | Some p \<Rightarrow> Complete me ''default-nodeclass''
        [For KHostedControlPlane default_hcpPredicate,
         source_Kind Hosted (WatchObject p) (EnqueueRequestsFromMapFunc (constantly (\<lambda>_. [(namespace, [])])))
           (NewPredicateFuncs (\<lambda>x. nodeClassPredicate (watched_meta x)))])"

definition ec2_SetupWithManager :: "manager_env \<Rightarrow> goerr + source list" where
  "ec2_SetupWithManager me =
     hosted_cluster_required me
       (Complete me ''ec2-nodeclass''
         [source_Kind Hosted KOpenshiftEC2NodeClass EnqueueRequestForObject Funcs,
          source_Kind Hosted KEC2NodeClass EnqueueRequestForObject Funcs,
          source_Kind Hosted KValidatingAdmissionPolicy
            (EnqueueRequestsFromMapFunc (\<lambda>x. mapVAPToOpenShiftEC2NodeClasses (watched_meta x))) Funcs,
          source_Kind Hosted KValidatingAdmissionPolicyBinding
            (EnqueueRequestsFromMapFunc (\<lambda>x. mapVAPBindingToOpenShiftEC2NodeClasses (watched_meta x))) Funcs,
          Watches (WK KSecret) EnqueueNodeClassForUserDataSecret KarpenterSecretPredicate,
          Watches (WK KHostedControlPlane) (EnqueueRequestsFromMapFunc (\<lambda>_. mapToOpenShiftEC2NodeClasses))
            ec2_hcpPredicate])"

definition azure_SetupWithManager :: "manager_env \<Rightarrow> goerr + source list" where
  "azure_SetupWithManager me =
     Complete me ''azure-nodeclass''
       [source_Kind Hosted KOpenShiftAzureNodeClass EnqueueRequestForObject Funcs,
        source_Kind Hosted KAKSNodeClass EnqueueRequestForObject Funcs,
        Watches (WK KHostedControlPlane) (EnqueueRequestsFromMapFunc (\<lambda>_. azure_mapToNodeClasses)) azure_hcpPredicate,
        Watches (WK KSecret) EnqueueNodeClassForUserDataSecret KarpenterSecretPredicate]"

definition azure_vap_SetupWithManager :: "manager_env \<Rightarrow> goerr + source list" where
  "azure_vap_SetupWithManager me =
     (let enqueue = EnqueueRequestsFromMapFunc (constantly (\<lambda>_. [([], [])]));
          isManaged = NewPredicateFuncs (\<lambda>x. vap_isManaged (watched_meta x)) in
      Complete me ''azure-nodeclass-vap''
        [source_Kind Hosted KValidatingAdmissionPolicy enqueue isManaged,
         source_Kind Hosted KValidatingAdmissionPolicyBinding enqueue isManaged,
         Initial ([], [])])"

definition hcp_operand_SetupWithManager :: "manager_env \<Rightarrow> goerr + source list" where
  "hcp_operand_SetupWithManager me =
     (let owned = (\<lambda>k. Owns (me_Scopes me) (''hypershift.openshift.io'', ''HostedControlPlane'') k
            (NewPredicateFuncs (\<lambda>x. karpenterFilterPredicate (md_Name (watched_meta x))))) in
      Complete me ''karpenter''
        [For KHostedControlPlane hcpOperandReconcilePredicate,
         owned (WK KDeployment), owned WPodMonitor, owned WServiceAccount])"

definition autonode_SetupWithManager :: "manager_env \<Rightarrow> string \<Rightarrow> goerr + source list" where
  "autonode_SetupWithManager me namespace =
     (let namespaceRequests = EnqueueRequestsFromMapFunc (constantly (\<lambda>_. [(namespace, [])])) in
      hosted_cluster_required me
        (Complete me ''autonode-status''
          [Watches (WK KHostedControlPlane) namespaceRequests Funcs,
           source_Kind Hosted KNodeClaim namespaceRequests nodeClaimPredicate,
           source_Kind Hosted KNode namespaceRequests countChangePredicate]))"

definition deletion_SetupWithManager :: "manager_env \<Rightarrow> string \<Rightarrow> goerr + source list" where
  "deletion_SetupWithManager me namespace =
     hosted_cluster_required me
       (case ResolveCAPIClusterGVK (me_RESTMapper me) of
          Inl e \<Rightarrow> Inl e
        | Inr capiClusterGVK \<Rightarrow>
            (let enqueueNamespace = EnqueueRequestsFromMapFunc (constantly (\<lambda>_. [(namespace, [])])) in
             Complete me ''hcp-deletion''
               [Watches (WK KHostedControlPlane) enqueueNamespace Funcs,
                Watches (WK KCAPICluster) enqueueNamespace Funcs]))"

definition machine_SetupWithManager :: "manager_env \<Rightarrow> verifier option \<Rightarrow> goerr + source list" where
  "machine_SetupWithManager me verify =
     hosted_cluster_required me
       (if verify = None then Inl (EText ''node identity verifier is required'')
        else case me_NewForConfig me of
          Some e \<Rightarrow> Inl e
        | None \<Rightarrow>
            orElse (me_NewController me ''karpenter-machine-approver'')
              ''constructing karpenter-machine-approver controller: ''
              (orElse (me_Watch me ''karpenter-machine-approver'' 0) ''watching CertificateSigningRequest: ''
                (Inr [source_Kind Hosted KCertificateSigningRequest EnqueueRequestForObject csrPredicate])))"

definition ocp_SetupWithManager :: "manager_env \<Rightarrow> embedded_assets \<Rightarrow> ocp_operand_controller \<Rightarrow> goerr + source list" where
  "ocp_SetupWithManager me as c =
     (let owned = (\<lambda>k. Owns (me_Scopes me) (''autoscaling.openshift.io'', ''Karpenter'') k Funcs) in
      Complete me ''karpenter''
        [For KKarpenter Funcs,
         owned (WK KDeployment), owned WPodMonitor, owned WServiceAccount, owned WRole, owned WRoleBinding,
         Watches (WK KSecret) (EnqueueRequestsFromMapFunc (constantly (\<lambda>x. ocp_secret_requests c (watched_meta x)))) Funcs,
         Watches WClusterRole
           (EnqueueRequestsFromMapFunc (constantly (\<lambda>x. ocp_clusterRole_requests as c (md_Name (watched_meta x))))) Funcs,
         Watches WClusterRoleBinding
           (EnqueueRequestsFromMapFunc (constantly (\<lambda>x. ocp_clusterRoleBinding_requests as c (md_Name (watched_meta x)))))
           Funcs])"

definition co_SetupWithManager :: "manager_env \<Rightarrow> co_config \<Rightarrow> goerr + source list" where
  "co_SetupWithManager me cfg =
     (let reconcileRequest = [([], clusterOperatorName)] in
      Complete me ''clusteroperator''
        [For KClusterOperator (NewPredicateFuncs (\<lambda>x. md_Name (watched_meta x) = clusterOperatorName)),
         Watches (WK KKarpenter) (EnqueueRequestsFromMapFunc (constantly (\<lambda>x.
           if md_Name (watched_meta x) \<noteq> SingletonName then [] else reconcileRequest))) Funcs,
         Watches (WK KDeployment) (EnqueueRequestsFromMapFunc (constantly (\<lambda>x.
           if md_Namespace (watched_meta x) \<noteq> cfg_Namespace cfg \<or> md_Name (watched_meta x) \<noteq> ''karpenter'' then []
           else reconcileRequest))) Funcs])"

fun SetupWithManager_of :: "manager_env \<Rightarrow> embedded_assets \<Rightarrow> operator_controller \<Rightarrow> goerr + source list" where
  "SetupWithManager_of me as (CRDController t crds) = crd_SetupWithManager me t crds"
| "SetupWithManager_of me as (DefaultNodeClassController p hosted namespace) = default_SetupWithManager me (Some p) hosted namespace"
| "SetupWithManager_of me as (EC2NodeClassController namespace) = ec2_SetupWithManager me"
| "SetupWithManager_of me as (AzureNodeClassController namespace) = azure_SetupWithManager me"
| "SetupWithManager_of me as AzureVapController = azure_vap_SetupWithManager me"
| "SetupWithManager_of me as (HCPOperandController c) = hcp_operand_SetupWithManager me"
| "SetupWithManager_of me as (AutoNodeStatusController namespace) = autonode_SetupWithManager me namespace"
| "SetupWithManager_of me as (HCPDeletionController namespace) = deletion_SetupWithManager me namespace"
| "SetupWithManager_of me as (MachineApproverController verify) = machine_SetupWithManager me (Some verify)"
| "SetupWithManager_of me as (OCPOperandController c) = ocp_SetupWithManager me as c"
| "SetupWithManager_of me as (ClusterOperatorController c) = co_SetupWithManager me c"


section \<open>The scheme\<close>

text \<open>The kinds that \<^verbatim>\<open>init\<close> of \<^verbatim>\<open>pkg/operator/operator.go\<close> registers, as far as
  they are modelled, and those a cloud provider adds.\<close>

definition scheme :: "watch_kind list" where
  "scheme =
     [WK KSecret, WK KConfigMap, WK KNode, WK KPod, WK KDeployment, WK KCertificateSigningRequest,
      WK KValidatingAdmissionPolicy, WK KValidatingAdmissionPolicyBinding, WServiceAccount, WRole, WRoleBinding,
      WClusterRole, WClusterRoleBinding,
      WK KClusterOperator, WK KInfrastructure,
      WK KCustomResourceDefinition,
      WK KKarpenter,
      WK KOpenshiftEC2NodeClass,
      WK KOpenShiftAzureNodeClass,
      WK KHostedControlPlane,
      WPodMonitor,
      WK KNodePool, WK KNodeClaim]"

primrec AddToScheme_kinds :: "cloud_provider \<Rightarrow> watch_kind list" where
  "AddToScheme_kinds (AWS p) = [WK KEC2NodeClass]"
| "AddToScheme_kinds (Azure p) = [WK KAKSNodeClass]"


section \<open>Queues\<close>

lemma set_add_requests [simp]: "set (add_requests reqs rs) = set reqs \<union> set rs"
proof (induction rs arbitrary: reqs)
  case (Cons r rs)
  then show ?case by (auto simp: add_requests_def)
qed (simp add: add_requests_def)

lemma set_fold_add [simp]:
  "set (fold (\<lambda>x reqs. add_requests reqs (f x)) xs reqs) = set reqs \<union> (\<Union>x\<in>set xs. set (f x))"
  by (induction xs arbitrary: reqs) auto

lemma mapAndEnqueue_constantly:
  "mapAndEnqueue (constantly f) xs reqs = Ret (Inr (fold (\<lambda>x reqs. add_requests reqs (f x)) xs reqs))"
  by (induction xs arbitrary: reqs) simp_all

text \<open>Some watch of the kind puts the request into the queue, whatever the API server answers meanwhile.\<close>

definition wakes :: "source list \<Rightarrow> target \<Rightarrow> watch_kind \<Rightarrow> event \<Rightarrow> string \<times> string \<Rightarrow> bool" where
  "wakes sources t k e rq \<longleftrightarrow>
     (\<exists>w. Kind w \<in> set sources \<and> wt_Cluster w = t \<and> wt_Kind w = k \<and>
       (\<forall>tr y. runs (deliver w e) tr y \<longrightarrow> (\<exists>rs. y = Inr rs \<and> rq \<in> set rs)))"

lemma wakesI:
  assumes "Kind w \<in> set sources" and "wt_Cluster w = t" and "wt_Kind w = k" and "passes (wt_Predicate w) e"
    and "wt_Handler w e = Ret (Inr rs)" and "rq \<in> set rs"
  shows "wakes sources t k e rq"
  unfolding wakes_def using assms by (intro exI [of _ w]) (simp add: deliver_def)

lemma passes_Funcs [simp]: "passes Funcs e"
  by (cases e) (simp_all add: Funcs_def)

lemma wakes_Owns:
  assumes "Owns mapper (grp, knd) k p \<in> set sources" and "passes p e" and "x \<in> set (event_objects e)"
    and "rq \<in> set (getOwnerReconcileRequest mapper grp knd x)"
  shows "wakes sources Mgmt k e rq"
  by (rule wakesI [OF assms(1) [unfolded Owns_def],
        where rs = "fold (\<lambda>x reqs. add_requests reqs (getOwnerReconcileRequest mapper grp knd x)) (event_objects e) []"])
    (use assms in \<open>auto simp: EnqueueRequestForOwner_def\<close>)

lemma wakes_Watches:
  assumes "Watches k (EnqueueRequestsFromMapFunc (constantly f)) Funcs \<in> set sources"
    and "x \<in> set (event_objects e)" and "rq \<in> set (f x)"
  shows "wakes sources Mgmt k e rq"
  by (rule wakesI [OF assms(1) [unfolded Watches_def],
        where rs = "fold (\<lambda>x reqs. add_requests reqs (f x)) (event_objects e) []"])
    (use assms in \<open>auto simp: EnqueueRequestsFromMapFunc_def mapAndEnqueue_constantly\<close>)


section \<open>Drift of the operand\<close>

text \<open>What an apply leaves on the server: the object under its name, controlled by the owner that the apply
  names (an object has at most one controlling owner).\<close>

fun leaves :: "apply_config \<Rightarrow> watched \<Rightarrow> bool" where
  "leaves (ApplyServiceAccount ns n owner) x \<longleftrightarrow>
     watched_kind x = WServiceAccount \<and> watched_key x = (ns, n) \<and> GetControllerOf (watched_meta x) = Some owner"
| "leaves (ApplyRole ns n owner _) x \<longleftrightarrow>
     watched_kind x = WRole \<and> watched_key x = (ns, n) \<and> GetControllerOf (watched_meta x) = Some owner"
| "leaves (ApplyRoleBinding ns n owner _ _) x \<longleftrightarrow>
     watched_kind x = WRoleBinding \<and> watched_key x = (ns, n) \<and> GetControllerOf (watched_meta x) = Some owner"
| "leaves (ApplyClusterRole n owner _ _) x \<longleftrightarrow>
     watched_kind x = WClusterRole \<and> watched_key x = ([], n) \<and> GetControllerOf (watched_meta x) = Some owner"
| "leaves (ApplyClusterRoleBinding n owner _ _) x \<longleftrightarrow>
     watched_kind x = WClusterRoleBinding \<and> watched_key x = ([], n) \<and> GetControllerOf (watched_meta x) = Some owner"
| "leaves (ApplyDeployment d) x \<longleftrightarrow>
     watched_kind x = WK KDeployment \<and> watched_key x = (dac_Namespace d, dac_Name d) \<and>
     (\<exists>owner\<in>set (dac_OwnerReferences d). GetControllerOf (watched_meta x) = Some owner)"
| "leaves (ApplyPodMonitor m) x \<longleftrightarrow>
     watched_kind x = WPodMonitor \<and> watched_key x = (pma_Namespace m, pma_Name m) \<and>
     (\<exists>owner\<in>set (pma_OwnerReferences m). GetControllerOf (watched_meta x) = Some owner)"
| "leaves _ x \<longleftrightarrow> False"

text \<open>Somebody changes the object, in any way, or deletes it.\<close>

definition disturbs :: "event \<Rightarrow> watched \<Rightarrow> bool" where
  "disturbs e x \<longleftrightarrow> e = DeleteEvent x \<or> (\<exists>new. e = UpdateEvent x new \<and> watched_key new = watched_key x)"

lemma disturbs_object: "disturbs e x \<Longrightarrow> x \<in> set (event_objects e)"
  by (auto simp: disturbs_def)

lemma parsed_versions:
  "ParseGroupVersion ''autoscaling.openshift.io/v1alpha1'' = Some (''autoscaling.openshift.io'', ''v1alpha1'')"
  "ParseGroupVersion ''hypershift.openshift.io/v1beta1'' = Some (''hypershift.openshift.io'', ''v1beta1'')"
  by code_simp+

lemma ocp_owner_request:
  assumes "GetControllerOf (watched_meta x) = Some (ocpOwnerRef karp)"
    and "mapper ''autoscaling.openshift.io'' ''Karpenter'' ''v1alpha1'' = Some False"
  shows "getOwnerReconcileRequest mapper ''autoscaling.openshift.io'' ''Karpenter'' x = [([], md_Name (kcr_Meta karp))]"
  using assms by (simp add: getOwnerReconcileRequest_def ocpOwnerRef_def parsed_versions)

lemma hcp_owner_request:
  assumes "GetControllerOf (watched_meta x) = Some (hcpOwnerRef hcp)"
    and "mapper ''hypershift.openshift.io'' ''HostedControlPlane'' ''v1beta1'' = Some True"
  shows "getOwnerReconcileRequest mapper ''hypershift.openshift.io'' ''HostedControlPlane'' x =
    [(md_Namespace (watched_meta x), md_Name (hcp_Meta hcp))]"
  using assms by (simp add: getOwnerReconcileRequest_def hcpOwnerRef_def parsed_versions)

lemma ocp_sources:
  assumes "ocp_SetupWithManager me as c = Inr sources"
  shows "k \<in> {WK KDeployment, WPodMonitor, WServiceAccount, WRole, WRoleBinding} \<Longrightarrow>
      Owns (me_Scopes me) (''autoscaling.openshift.io'', ''Karpenter'') k Funcs \<in> set sources"
    and "Watches WClusterRole
      (EnqueueRequestsFromMapFunc (constantly (\<lambda>x. ocp_clusterRole_requests as c (md_Name (watched_meta x))))) Funcs \<in> set sources"
    and "Watches WClusterRoleBinding
      (EnqueueRequestsFromMapFunc (constantly (\<lambda>x. ocp_clusterRoleBinding_requests as c (md_Name (watched_meta x)))))
      Funcs \<in> set sources"
  using assms by (auto simp: ocp_SetupWithManager_def Complete_def Let_def split: option.splits)

lemma hcp_sources:
  assumes "hcp_operand_SetupWithManager me = Inr sources" and "k \<in> {WK KDeployment, WPodMonitor, WServiceAccount}"
  shows "Owns (me_Scopes me) (''hypershift.openshift.io'', ''HostedControlPlane'') k
    (NewPredicateFuncs (\<lambda>x. karpenterFilterPredicate (md_Name (watched_meta x)))) \<in> set sources"
  using assms by (auto simp: hcp_operand_SetupWithManager_def Complete_def Let_def split: option.splits)

lemma ocp_drift:
  assumes sources: "ocp_SetupWithManager me as c = Inr sources"
    and scope: "me_Scopes me ''autoscaling.openshift.io'' ''Karpenter'' ''v1alpha1'' = Some False"
    and "runs (ocp_operand_Reconcile as c) ((q, RObj (OKarpenter karp)) # t) y"
    and name: "md_Name (kcr_Meta karp) = SingletonName"
    and "(apply_req a, r) \<in> set t" and "leaves a x" and e: "disturbs e x"
  shows "wakes sources Mgmt (watched_kind x) e ([], SingletonName)"
proof -
  have w: "ocp_watched as c karp a"
    using ocp_objects_watched [OF assms(3,5)] by auto
  have owned: "wakes sources Mgmt k e ([], SingletonName)"
    if "k \<in> {WK KDeployment, WPodMonitor, WServiceAccount, WRole, WRoleBinding}"
      and "GetControllerOf (watched_meta x) = Some (ocpOwnerRef karp)" for k
    by (rule wakes_Owns [OF ocp_sources(1) [OF sources that(1)] passes_Funcs disturbs_object [OF e]])
      (simp add: ocp_owner_request [OF that(2), where mapper = "me_Scopes me", OF scope] name)
  have roles: "ocp_clusterRole_requests as c (md_Name (watched_meta x)) = [([], SingletonName)] \<Longrightarrow>
      wakes sources Mgmt WClusterRole e ([], SingletonName)"
    "ocp_clusterRoleBinding_requests as c (md_Name (watched_meta x)) = [([], SingletonName)] \<Longrightarrow>
      wakes sources Mgmt WClusterRoleBinding e ([], SingletonName)"
    by (rule wakes_Watches [OF _ disturbs_object [OF e]], rule ocp_sources [OF sources], simp)+
  show ?thesis using w \<open>leaves a x\<close> owned roles by (cases a) auto
qed

lemma hcp_drift:
  assumes sources: "hcp_operand_SetupWithManager me = Inr sources"
    and scope: "me_Scopes me ''hypershift.openshift.io'' ''HostedControlPlane'' ''v1beta1'' = Some True"
    and "runs (hcp_operand_Reconcile c ns n) ((q, RObj (OHostedControlPlane hcp)) # t) y"
    and "valid_uid (hoc_DefaultSecurityContextUID c)"
    and "md_Name (hcp_Meta hcp) = n" and "hoc_Namespace c = ns"
    and "(apply_req a, r) \<in> set t" and "leaves a x" and e: "disturbs e x"
  shows "wakes sources Mgmt (watched_kind x) e (ns, n)"
proof -
  obtain d where d: "a \<in> set (hcp_operand_objects c hcp d)" "dac_Namespace d = ns" "hcp_watched hcp a"
    using hcp_objects_watched [OF assms(3,4,7)] assms(6) by auto
  have x: "watched_kind x \<in> {WK KDeployment, WPodMonitor, WServiceAccount}"
    "GetControllerOf (watched_meta x) = Some (hcpOwnerRef hcp)" "md_Namespace (watched_meta x) = ns"
    "karpenterFilterPredicate (md_Name (watched_meta x))"
    using d \<open>leaves a x\<close> assms(6) by (cases a; auto simp: hcp_operand_objects_def buildPodMonitor_def hcp_operand_config_def)+
  have "passes (NewPredicateFuncs (\<lambda>x. karpenterFilterPredicate (md_Name (watched_meta x)))) e"
    using x(4) e by (auto simp: disturbs_def NewPredicateFuncs_def)
  from wakes_Owns [OF hcp_sources [OF sources x(1)] this disturbs_object [OF e]] show ?thesis
    by (simp add: hcp_owner_request [OF x(2), where mapper = "me_Scopes me", OF scope] x(3) assms(5))
qed

text \<open>
  C18: Whatever the operand controllers apply cannot drift unnoticed: when anybody changes or deletes an object
  that a reconcile applied, a watch that the controller registered puts the key of the reconciled object into
  its queue, the Karpenter resource on a standalone cluster and the HostedControlPlane on a management cluster.
  This holds even if the change takes the owner reference off.
\<close>

theorem drift_wakes_operand:
  assumes "leaves a x" and "disturbs e x"
  shows "(ocp_SetupWithManager me as c = Inr sources \<longrightarrow>
      me_Scopes me ''autoscaling.openshift.io'' ''Karpenter'' ''v1alpha1'' = Some False \<longrightarrow>
      runs (ocp_operand_Reconcile as c) ((q, RObj (OKarpenter karp)) # t) y \<longrightarrow>
      md_Name (kcr_Meta karp) = SingletonName \<longrightarrow> (apply_req a, r) \<in> set t \<longrightarrow>
      wakes sources Mgmt (watched_kind x) e ([], SingletonName)) \<and>
    (hcp_operand_SetupWithManager me = Inr sources \<longrightarrow>
      me_Scopes me ''hypershift.openshift.io'' ''HostedControlPlane'' ''v1beta1'' = Some True \<longrightarrow>
      runs (hcp_operand_Reconcile c' ns n) ((q, RObj (OHostedControlPlane hcp)) # t) y \<longrightarrow>
      valid_uid (hoc_DefaultSecurityContextUID c') \<longrightarrow> md_Name (hcp_Meta hcp) = n \<longrightarrow> hoc_Namespace c' = ns \<longrightarrow>
      (apply_req a, r) \<in> set t \<longrightarrow>
      wakes sources Mgmt (watched_kind x) e (ns, n))"
  using ocp_drift [OF _ _ _ _ _ assms] hcp_drift [OF _ _ _ _ _ _ _ assms] by fast


section \<open>Complete set-up\<close>

text \<open>No call of the libraries fails.\<close>

definition no_failures :: "manager_env \<Rightarrow> bool" where
  "no_failures me \<longleftrightarrow>
     (\<forall>name. me_Complete me name = None \<and> me_NewController me name = None \<and> (\<forall>k. me_Watch me name k = None)) \<and>
     me_NewForConfig me = None \<and> \<not> isl (me_RESTMapper me (''cluster.x-k8s.io'', ''Cluster''))"

text \<open>A source that can be started: the cluster is there, and the scheme knows the kind, or it is watched
  without its type (\<^verbatim>\<open>PartialObjectMetadata\<close>).\<close>

definition startable :: "controllers_config \<Rightarrow> source \<Rightarrow> bool" where
  "startable cfg s \<longleftrightarrow>
     (case s of
        Initial rq \<Rightarrow> True
      | Kind w \<Rightarrow>
          (wt_Cluster w = Hosted \<longrightarrow> cc_HostedCluster cfg) \<and>
          (wt_Kind w \<in> set (scheme @ AddToScheme_kinds (cc_CloudProvider cfg)) \<or> wt_Kind w = WK KCAPICluster))"

definition starts :: "controllers_config \<Rightarrow> goerr + source list \<Rightarrow> bool" where
  "starts cfg r \<longleftrightarrow> (\<exists>sources. r = Inr sources \<and> sources \<noteq> [] \<and> list_all (startable cfg) sources)"

lemmas source_defs =
  startable_def starts_def scheme_def Complete_def source_Kind_def For_def Owns_def Watches_def Let_def no_failures_def
  ResolveCAPIClusterGVK_def

lemma starts_everywhere:
  assumes "no_failures me"
  shows "(t = Hosted \<longrightarrow> cc_HostedCluster cfg) \<Longrightarrow> starts cfg (crd_SetupWithManager me t crds)"
    and "starts cfg (hcp_operand_SetupWithManager me)" and "starts cfg (ocp_SetupWithManager me as c)"
    and "starts cfg (co_SetupWithManager me c')"
  using assms
  by (auto simp: source_defs crd_SetupWithManager_def hcp_operand_SetupWithManager_def ocp_SetupWithManager_def
      co_SetupWithManager_def)

lemma starts_hosted:
  assumes "no_failures me" and "me_HostedCluster me" and "cc_HostedCluster cfg"
  shows "starts cfg (default_SetupWithManager me (Some p) True namespace)" and "starts cfg (autonode_SetupWithManager me namespace)"
    and "starts cfg (deletion_SetupWithManager me namespace)" and "starts cfg (machine_SetupWithManager me (Some verify))"
    and "starts cfg (azure_vap_SetupWithManager me)"
    and "cc_CloudProvider cfg = AWS aws \<Longrightarrow> starts cfg (ec2_SetupWithManager me)"
    and "cc_CloudProvider cfg = Azure azure \<Longrightarrow> starts cfg (azure_SetupWithManager me)"
  using assms
  by (cases p; auto simp: source_defs default_SetupWithManager_def autonode_SetupWithManager_def deletion_SetupWithManager_def
      machine_SetupWithManager_def azure_vap_SetupWithManager_def ec2_SetupWithManager_def azure_SetupWithManager_def
      split: sum.split)+

text \<open>
  C20: No controller that the operator selects fails to be set up for a missing prerequisite: with the libraries
  answering, each has something to wake it, watches the hosted cluster only where there is one, and watches only
  kinds that the scheme knows, those of its cloud provider included.
\<close>

theorem setup_complete:
  assumes "c \<in> set (NewControllers env as cfg)" and "no_failures me" and "me_HostedCluster me = cc_HostedCluster cfg"
  shows "\<exists>sources. SetupWithManager_of me as c = Inr sources \<and> sources \<noteq> [] \<and> list_all (startable cfg) sources"
proof -
  have "starts cfg (SetupWithManager_of me as c)"
    using assms(1,3) starts_everywhere [OF assms(2)] starts_hosted [OF assms(2)]
    by (cases "cc_CloudProvider cfg")
      (auto simp: NewControllers_def newHCPNodeClassProvider_def newMachineApproverController_def new_crd_controller_def
        Let_def split: if_splits)
  then show ?thesis by (simp add: starts_def)
qed


section \<open>Witnesses\<close>

text \<open>Libraries that answer, and a ServiceAccount of the operand that is deleted.\<close>

abbreviation answering :: manager_env where
  "answering \<equiv>
     \<lparr>me_HostedCluster = False, me_RESTMapper = \<lambda>_. Inr ''v1beta1'',
      me_Scopes = \<lambda>grp knd version. Some (knd = ''HostedControlPlane''), me_Complete = \<lambda>_. None,
      me_NewController = \<lambda>_. None, me_Watch = \<lambda>_ _. None, me_NewForConfig = None\<rparr>"

abbreviation owned_account :: "owner_reference \<Rightarrow> watched" where
  "owned_account owner \<equiv> WOther WServiceAccount ((new_meta ''ns'' ''karpenter'')\<lparr>md_OwnerReferences := [owner]\<rparr>)"

lemma leaves_account:
  "or_Controller owner = Some True \<Longrightarrow> leaves (ApplyServiceAccount ''ns'' karpenterName owner) (owned_account owner)"
  by (simp add: GetControllerOf_def new_meta_def)

lemma example_namespaces:
  "ooc_Namespace example_ocp = ''ns''" "hoc_Namespace example_operand = ''ns''"
  "md_Name (kcr_Meta example_karpenter) = SingletonName" "md_Name (hcp_Meta example_karpenter_hcp) = ''h''"
  by (simp_all add: example_ocp_def example_operand_def example_karpenter_def example_karpenter_hcp_def new_hcp_def)

lemma runs_ocp_account:
  "\<exists>y. runs (ocp_operand_Reconcile example_assets example_ocp)
     [(Get Mgmt KKarpenter [] SingletonName, RObj (OKarpenter example_karpenter)),
      (apply_req (ApplyServiceAccount ''ns'' karpenterName (ocpOwnerRef example_karpenter)), RErr Conflict [])] y"
  by (simp add: ocp_operand_Reconcile_body ocp_operand_body_def c_get_def karpenters.as_object_iff Let_def
      applyServiceAccount_def operand_apply_def c_apply_def example_namespaces)

lemma runs_hcp_account:
  "\<exists>y. runs (hcp_operand_Reconcile example_operand ''ns'' ''h'')
     [(Get Mgmt KHostedControlPlane ''ns'' ''h'', RObj (OHostedControlPlane example_karpenter_hcp)),
      (apply_req (ApplyServiceAccount ''ns'' karpenterName (hcpOwnerRef example_karpenter_hcp)), RErr Conflict [])] y"
  by (simp add: hcp_operand_Reconcile_body hcp_operand_body_def c_get_def hcps.as_object_iff Let_def
      applyServiceAccount_def operand_apply_def c_apply_def example_namespaces)

lemma drift_wakes_operand_witness:
  "(\<exists>sources. ocp_SetupWithManager answering example_assets example_ocp = Inr sources \<and>
     wakes sources Mgmt WServiceAccount (DeleteEvent (owned_account (ocpOwnerRef example_karpenter))) ([], SingletonName)) \<and>
   (\<exists>sources. hcp_operand_SetupWithManager answering = Inr sources \<and>
     wakes sources Mgmt WServiceAccount (DeleteEvent (owned_account (hcpOwnerRef example_karpenter_hcp))) (''ns'', ''h''))"
proof -
  let ?ocp = "owned_account (ocpOwnerRef example_karpenter)" and ?hcp = "owned_account (hcpOwnerRef example_karpenter_hcp)"
  have l: "leaves (ApplyServiceAccount ''ns'' karpenterName (ocpOwnerRef example_karpenter)) ?ocp"
    "leaves (ApplyServiceAccount ''ns'' karpenterName (hcpOwnerRef example_karpenter_hcp)) ?hcp"
    by (rule leaves_account, simp add: ocpOwnerRef_def hcpOwnerRef_def)+
  have e: "disturbs (DeleteEvent ?ocp) ?ocp" "disturbs (DeleteEvent ?hcp) ?hcp"
    by (simp_all add: disturbs_def)
  obtain s s' where s: "ocp_SetupWithManager answering example_assets example_ocp = Inr s"
    "hcp_operand_SetupWithManager answering = Inr s'"
    by (simp add: ocp_SetupWithManager_def hcp_operand_SetupWithManager_def Complete_def)
  obtain y where run: "runs (ocp_operand_Reconcile example_assets example_ocp)
     [(Get Mgmt KKarpenter [] SingletonName, RObj (OKarpenter example_karpenter)),
      (apply_req (ApplyServiceAccount ''ns'' karpenterName (ocpOwnerRef example_karpenter)), RErr Conflict [])] y"
    using runs_ocp_account by (elim exE)
  have ocp: "wakes s Mgmt (watched_kind ?ocp) (DeleteEvent ?ocp) ([], SingletonName)"
    by (rule drift_wakes_operand [OF l(1) e(1), THEN conjunct1, rule_format,
          OF s(1) _ run example_namespaces(3) list.set_intros(1)]) simp
  obtain y' where run': "runs (hcp_operand_Reconcile example_operand ''ns'' ''h'')
     [(Get Mgmt KHostedControlPlane ''ns'' ''h'', RObj (OHostedControlPlane example_karpenter_hcp)),
      (apply_req (ApplyServiceAccount ''ns'' karpenterName (hcpOwnerRef example_karpenter_hcp)), RErr Conflict [])] y'"
    using runs_hcp_account by (elim exE)
  have hcp: "wakes s' Mgmt (watched_kind ?hcp) (DeleteEvent ?hcp) (''ns'', ''h'')"
    by (rule drift_wakes_operand [OF l(2) e(2), THEN conjunct2, rule_format,
          OF s(2) _ run' example_operand_simps(1) example_namespaces(4,2) list.set_intros(1)]) simp
  from s ocp hcp show ?thesis by simp
qed

abbreviation hosted_config :: controllers_config where
  "hosted_config \<equiv> \<lparr>cc_Namespace = ''ns'', cc_KarpenterImage = ''k'', cc_ClusterName = ''c'', cc_ClusterEndpoint = ''e'',
    cc_ReleaseVersion = [], cc_ManagementCluster = True, cc_CloudProvider = operand_aws,
    cc_HostedCluster = True, cc_TokenMinterImage = ''m'', cc_DefaultSecurityContextUID = None\<rparr>"

lemma setup_complete_witness:
  "\<exists>sources. SetupWithManager_of (answering\<lparr>me_HostedCluster := True\<rparr>) example_assets (EC2NodeClassController ''ns'') = Inr sources \<and>
     list_all (startable hosted_config) sources"
proof -
  have "EC2NodeClassController ''ns'' \<in> set (NewControllers (\<lambda>_. []) example_assets hosted_config)"
    by (simp add: NewControllers_def newHCPNodeClassProvider_def Let_def)
  from setup_complete [OF this, of "answering\<lparr>me_HostedCluster := True\<rparr>"] show ?thesis
    by (simp only: no_failures_def) fastforce
qed

end
