(* ===== verification/Authorization.thy ===== *)
theory Authorization
  imports Assets Operator_Metric Watches
begin

text \<open>
  What the installation allows the standalone operator: the rules of \<^verbatim>\<open>install/04_rbac.yaml\<close>
  against the requests of its controllers. The authorizer is that of Kubernetes: a request is allowed by a
  rule that lists its verb, API group and resource (and name, if the rule lists names); a server-side apply
  needs \<^verbatim>\<open>patch\<close>, and \<^verbatim>\<open>create\<close> where the object may not exist; a read through
  the cache needs \<^verbatim>\<open>list\<close> and \<^verbatim>\<open>watch\<close> as well; a Role can only be written or
  bound by somebody who holds every permission in it; and an owner reference that blocks deletion needs
  \<^verbatim>\<open>update\<close> on the finalizers of the owner.
\<close>


section \<open>The installed rules\<close>

definition operator_role :: "policy_rule list" where
  "operator_role =
     [(rule [''coordination.k8s.io''] [''leases''] [''get'', ''update'', ''patch''])
        \<lparr>pol_ResourceNames := [''karpenter-operator.openshift.io'']\<rparr>,
      rule [''coordination.k8s.io''] [''leases''] [''create''],
      rule [''''] [''events''] [''create'', ''patch''],
      rule [''apps''] [''deployments'', ''deployments/finalizers'']
        [''get'', ''list'', ''watch'', ''create'', ''update'', ''patch'', ''delete''],
      rule [''''] [''serviceaccounts'', ''secrets'']
        [''get'', ''list'', ''watch'', ''create'', ''update'', ''patch'', ''delete''],
      rule [''rbac.authorization.k8s.io''] [''roles'', ''rolebindings'']
        [''get'', ''list'', ''watch'', ''create'', ''update'', ''patch'', ''delete''],
      rule [''monitoring.coreos.com''] [''podmonitors'']
        [''get'', ''list'', ''watch'', ''create'', ''update'', ''patch'', ''delete'']]"

definition operator_clusterrole :: "policy_rule list" where
  "operator_clusterrole =
     [rule [''autoscaling.openshift.io''] [''karpenters'', ''karpenters/status'', ''karpenters/finalizers'']
        [''get'', ''list'', ''watch'', ''update'', ''patch''],
      rule [''config.openshift.io''] [''clusteroperators'', ''clusteroperators/status'']
        [''create'', ''get'', ''update'', ''patch'', ''list'', ''watch''],
      rule [''config.openshift.io''] [''infrastructures''] [''get'', ''list'', ''watch''],
      rule [''rbac.authorization.k8s.io''] [''clusterroles'', ''clusterrolebindings'']
        [''get'', ''list'', ''watch'', ''create'', ''update'', ''patch'', ''delete''],
      rule [''apiextensions.k8s.io''] [''customresourcedefinitions'']
        [''get'', ''list'', ''watch'', ''create'', ''update'', ''patch'']]"

text \<open>The mirror of the operand's rules, against the escalation check.\<close>

definition operand_clusterrole :: "policy_rule list" where
  "operand_clusterrole =
     [rule [''karpenter.sh'']
        [''nodepools'', ''nodepools/status'', ''nodeclaims'', ''nodeclaims/status'', ''nodeclaims/finalizers'',
         ''nodeoverlays'', ''nodeoverlays/status''] [''get'', ''list'', ''watch''],
      rule ['''']
        [''pods'', ''nodes'', ''persistentvolumes'', ''persistentvolumeclaims'', ''replicationcontrollers'', ''namespaces'']
        [''get'', ''list'', ''watch''],
      rule [''storage.k8s.io''] [''storageclasses'', ''csinodes'', ''volumeattachments''] [''get'', ''watch'', ''list''],
      rule [''apps''] [''daemonsets'', ''deployments'', ''replicasets'', ''statefulsets''] [''list'', ''watch''],
      rule [''policy''] [''poddisruptionbudgets''] [''get'', ''list'', ''watch''],
      rule [''''] [''events''] [''get'', ''list'', ''watch''],
      rule [''karpenter.sh''] [''nodeclaims'', ''nodeclaims/status'', ''nodeclaims/finalizers'']
        [''create'', ''delete'', ''update'', ''patch''],
      rule [''karpenter.sh''] [''nodepools'', ''nodepools/status'', ''nodepools/finalizers'', ''nodeoverlays/status'']
        [''update'', ''patch''],
      rule [''''] [''events''] [''create'', ''patch''],
      rule [''''] [''nodes''] [''patch'', ''delete'', ''update''],
      rule [''''] [''pods/eviction''] [''create''],
      rule [''''] [''pods''] [''delete''],
      rule [''karpenter.k8s.aws''] [''ec2nodeclasses''] [''get'', ''list'', ''watch''],
      rule [''karpenter.k8s.aws''] [''ec2nodeclasses'', ''ec2nodeclasses/status''] [''patch'', ''update'']]"

definition operand_role :: "policy_rule list" where
  "operand_role =
     [rule [''coordination.k8s.io''] [''leases''] [''get'', ''watch''],
      (rule [''coordination.k8s.io''] [''leases''] [''patch'', ''update''])
        \<lparr>pol_ResourceNames := [''karpenter-leader-election'']\<rparr>,
      rule [''coordination.k8s.io''] [''leases''] [''create'']]"

abbreviation installed_namespace :: string where
  "installed_namespace \<equiv> ''openshift-karpenter''"

text \<open>The rules that hold in a namespace; the empty one stands for cluster-wide requests.\<close>

definition operator_rules :: "string \<Rightarrow> policy_rule list" where
  "operator_rules ns =
     operator_clusterrole @ operand_clusterrole @
     (if ns = installed_namespace then operator_role @ operand_role else [])"


section \<open>The authorizer\<close>

abbreviation lists :: "string list \<Rightarrow> string \<Rightarrow> bool" where
  "lists xs x \<equiv> list_ex (\<lambda>y. y = x \<or> y = ''*'') xs"

text \<open>\<open>None\<close> asks for every name.\<close>

definition rule_allows :: "policy_rule \<Rightarrow> string \<Rightarrow> string \<Rightarrow> string \<Rightarrow> string option \<Rightarrow> bool" where
  "rule_allows r verb grp resource name \<longleftrightarrow>
     lists (pol_Verbs r) verb \<and> lists (pol_APIGroups r) grp \<and> lists (pol_Resources r) resource \<and>
     (pol_ResourceNames r = [] \<or> (case name of None \<Rightarrow> False | Some n \<Rightarrow> n \<in> set (pol_ResourceNames r)))"

definition allowed :: "string \<Rightarrow> string \<Rightarrow> string \<Rightarrow> string option \<Rightarrow> string \<Rightarrow> bool" where
  "allowed ns grp resource name verb \<longleftrightarrow>
     list_ex (\<lambda>r. rule_allows r verb grp resource name) (operator_rules ns)"

text \<open>The permissions in a rule, one by one.\<close>

definition covered :: "string \<Rightarrow> policy_rule \<Rightarrow> bool" where
  "covered ns r \<longleftrightarrow>
     list_all (\<lambda>verb. list_all (\<lambda>grp. list_all (\<lambda>resource.
       if pol_ResourceNames r = [] then allowed ns grp resource None verb
       else list_all (\<lambda>n. allowed ns grp resource (Some n) verb) (pol_ResourceNames r))
       (pol_Resources r)) (pol_APIGroups r)) (pol_Verbs r)"

text \<open>Group and resource of the kinds a standalone operator deals with.\<close>

fun resource_of :: "kind \<Rightarrow> (string \<times> string) option" where
  "resource_of KCustomResourceDefinition = Some (''apiextensions.k8s.io'', ''customresourcedefinitions'')"
| "resource_of KClusterOperator = Some (''config.openshift.io'', ''clusteroperators'')"
| "resource_of KInfrastructure = Some (''config.openshift.io'', ''infrastructures'')"
| "resource_of KKarpenter = Some (''autoscaling.openshift.io'', ''karpenters'')"
| "resource_of KDeployment = Some (''apps'', ''deployments'')"
| "resource_of KPod = Some ('''', ''pods'')"
| "resource_of _ = None"

definition may :: "string \<Rightarrow> kind \<Rightarrow> string option \<Rightarrow> string list \<Rightarrow> bool" where
  "may ns k name verbs \<longleftrightarrow>
     (case resource_of k of None \<Rightarrow> False
      | Some (grp, resource) \<Rightarrow> list_all (allowed ns grp resource name) verbs)"

definition may_apply :: "string \<Rightarrow> string \<Rightarrow> string \<Rightarrow> string \<Rightarrow> bool" where
  "may_apply ns grp resource name \<longleftrightarrow> list_all (allowed ns grp resource (Some name)) [''patch'', ''create'']"

text \<open>The blocking owner reference to the Karpenter resource.\<close>

definition may_own :: "owner_reference \<Rightarrow> bool" where
  "may_own ref \<longleftrightarrow> or_BlockOwnerDeletion ref \<noteq> Some True \<or>
     or_Kind ref = ''Karpenter'' \<and>
     allowed [] ''autoscaling.openshift.io'' ''karpenters/finalizers'' (Some (or_Name ref)) ''update''"

text \<open>The rules of the role a binding refers to, among the manifests.\<close>

definition bound_rules :: "rbac_assets \<Rightarrow> role_ref \<Rightarrow> policy_rule list" where
  "bound_rules rbac ref =
     concat (map role_Rules (filter (\<lambda>r. role_Name r = rref_Name ref)
       (if rref_Kind ref = ''Role'' then rbac_Roles rbac else rbac_ClusterRoles rbac)))"

fun may_send :: "rbac_assets \<Rightarrow> apply_config \<Rightarrow> bool" where
  "may_send rbac (ApplyClusterOperator n) \<longleftrightarrow> may_apply [] ''config.openshift.io'' ''clusteroperators'' n"
| "may_send rbac (ApplyClusterOperatorStatus n _ _ _) \<longleftrightarrow>
     allowed [] ''config.openshift.io'' ''clusteroperators/status'' (Some n) ''patch''"
| "may_send rbac (ApplyServiceAccount ns n ref) \<longleftrightarrow> may_apply ns '''' ''serviceaccounts'' n \<and> may_own ref"
| "may_send rbac (ApplyRole ns n ref rules) \<longleftrightarrow>
     may_apply ns ''rbac.authorization.k8s.io'' ''roles'' n \<and> may_own ref \<and> list_all (covered ns) rules"
| "may_send rbac (ApplyRoleBinding ns n ref role _) \<longleftrightarrow>
     may_apply ns ''rbac.authorization.k8s.io'' ''rolebindings'' n \<and> may_own ref \<and>
     list_all (covered ns) (bound_rules rbac role)"
| "may_send rbac (ApplyClusterRole n ref _ rules) \<longleftrightarrow>
     may_apply [] ''rbac.authorization.k8s.io'' ''clusterroles'' n \<and> may_own ref \<and> list_all (covered []) rules"
| "may_send rbac (ApplyClusterRoleBinding n ref role _) \<longleftrightarrow>
     may_apply [] ''rbac.authorization.k8s.io'' ''clusterrolebindings'' n \<and> may_own ref \<and>
     list_all (covered []) (bound_rules rbac role)"
| "may_send rbac (ApplyDeployment d) \<longleftrightarrow>
     may_apply (dac_Namespace d) ''apps'' ''deployments'' (dac_Name d) \<and> list_all may_own (dac_OwnerReferences d)"
| "may_send rbac (ApplyPodMonitor m) \<longleftrightarrow>
     may_apply (pma_Namespace m) ''monitoring.coreos.com'' ''podmonitors'' (pma_Name m) \<and>
     list_all may_own (pma_OwnerReferences m)"
| "may_send rbac (ApplyAutoNodeStatus _ _ _) \<longleftrightarrow> False"

fun authorized :: "rbac_assets \<Rightarrow> req \<Rightarrow> bool" where
  "authorized rbac (Get t k ns n) \<longleftrightarrow> t = Mgmt \<and> may ns k (Some n) [''get''] \<and> may ns k None [''list'', ''watch'']"
| "authorized rbac (Create t x) \<longleftrightarrow> t = Mgmt \<and> (\<exists>c. x = OCustomResourceDefinition c) \<and>
     may [] KCustomResourceDefinition None [''create'']"
| "authorized rbac (Update t x) \<longleftrightarrow> t = Mgmt \<and>
     (\<exists>c. x = OCustomResourceDefinition c \<and> may [] KCustomResourceDefinition (Some (md_Name (crd_Meta c))) [''update''])"
| "authorized rbac (Apply t owner force cfg) \<longleftrightarrow> t = Mgmt \<and> may_send rbac cfg"
| "authorized rbac (RegisterMetric _ _) \<longleftrightarrow> True"
| "authorized rbac _ \<longleftrightarrow> False"


section \<open>What the rules allow\<close>

text \<open>A permission on every name is one on each.\<close>

lemma allowed_name: "allowed ns grp resource None verb \<Longrightarrow> allowed ns grp resource name verb"
  by (auto simp: allowed_def rule_allows_def list_ex_iff)

lemma allowed_everywhere: "allowed [] grp resource name verb \<Longrightarrow> allowed ns grp resource name verb"
  by (auto simp: allowed_def operator_rules_def list_ex_iff)

lemma allowed_cluster:
  "list_all (allowed [] ''apiextensions.k8s.io'' ''customresourcedefinitions'' None) [''get'', ''list'', ''watch'', ''create'', ''update'']"
  "list_all (allowed [] ''config.openshift.io'' ''clusteroperators'' None) [''get'', ''list'', ''watch'', ''create'', ''patch'']"
  "list_all (allowed [] ''config.openshift.io'' ''clusteroperators/status'' None) [''patch'']"
  "list_all (allowed [] ''config.openshift.io'' ''infrastructures'' None) [''get'', ''list'', ''watch'']"
  "list_all (allowed [] ''autoscaling.openshift.io'' ''karpenters'' None) [''get'', ''list'', ''watch'']"
  "list_all (allowed [] ''autoscaling.openshift.io'' ''karpenters/finalizers'' None) [''update'']"
  "list_all (allowed [] ''rbac.authorization.k8s.io'' ''clusterroles'' None) [''create'', ''patch'']"
  "list_all (allowed [] ''rbac.authorization.k8s.io'' ''clusterrolebindings'' None) [''create'', ''patch'']"
  "list_all (allowed [] '''' ''pods'' None) [''get'', ''list'', ''watch'']"
  by code_simp+

lemma allowed_installed:
  "list_all (allowed installed_namespace ''apps'' ''deployments'' None) [''get'', ''list'', ''watch'', ''create'', ''patch'']"
  "list_all (allowed installed_namespace '''' ''serviceaccounts'' None) [''create'', ''patch'']"
  "list_all (allowed installed_namespace ''rbac.authorization.k8s.io'' ''roles'' None) [''create'', ''patch'']"
  "list_all (allowed installed_namespace ''rbac.authorization.k8s.io'' ''rolebindings'' None) [''create'', ''patch'']"
  "list_all (allowed installed_namespace ''monitoring.coreos.com'' ''podmonitors'' None) [''create'', ''patch'']"
  by code_simp+

text \<open>The mirror covers the roles of the operand.\<close>

lemma operand_covered:
  "list_all (covered []) core_clusterrole_rules" "list_all (covered []) aws_clusterrole_rules"
  "list_all (covered installed_namespace) core_role_rules"
  by code_simp+


lemma allowed_more:
  "list_all (allowed [] grp resource None) verbs \<Longrightarrow> set vs \<subseteq> set verbs \<Longrightarrow>
   list_all (allowed ns grp resource name) vs"
  by (auto simp: list_all_iff intro: allowed_name allowed_everywhere)

lemma allowed_more_installed:
  "list_all (allowed installed_namespace grp resource None) verbs \<Longrightarrow> set vs \<subseteq> set verbs \<Longrightarrow>
   list_all (allowed installed_namespace grp resource name) vs"
  by (auto simp: list_all_iff intro: allowed_name)

text \<open>The permissions by kind, and by what is applied.\<close>

lemma may_read:
  "may ns KCustomResourceDefinition name [''get'']" "may ns KCustomResourceDefinition name [''list'', ''watch'']"
  "may ns KClusterOperator name [''get'']" "may ns KClusterOperator name [''list'', ''watch'']"
  "may ns KInfrastructure name [''get'']" "may ns KInfrastructure name [''list'', ''watch'']"
  "may ns KKarpenter name [''get'']" "may ns KKarpenter name [''list'', ''watch'']"
  "may ns KPod name [''get'']" "may ns KPod name [''list'', ''watch'']"
  "may installed_namespace KDeployment name [''get'']" "may installed_namespace KDeployment name [''list'', ''watch'']"
  unfolding may_def resource_of.simps option.case prod.case
  by (rule allowed_more [OF allowed_cluster(1)] allowed_more [OF allowed_cluster(2)] allowed_more [OF allowed_cluster(4)]
      allowed_more [OF allowed_cluster(5)] allowed_more [OF allowed_cluster(9)] allowed_more_installed [OF allowed_installed(1)];
      code_simp)+

lemma may_write_crd:
  "may [] KCustomResourceDefinition name [''create'']" "may [] KCustomResourceDefinition name [''update'']"
  unfolding may_def resource_of.simps option.case prod.case
  by (rule allowed_more [OF allowed_cluster(1)]; code_simp)+

lemma may_apply_facts:
  "may_apply [] ''config.openshift.io'' ''clusteroperators'' n"
  "may_apply [] ''rbac.authorization.k8s.io'' ''clusterroles'' n"
  "may_apply [] ''rbac.authorization.k8s.io'' ''clusterrolebindings'' n"
  "may_apply installed_namespace ''apps'' ''deployments'' n"
  "may_apply installed_namespace '''' ''serviceaccounts'' n"
  "may_apply installed_namespace ''rbac.authorization.k8s.io'' ''roles'' n"
  "may_apply installed_namespace ''rbac.authorization.k8s.io'' ''rolebindings'' n"
  "may_apply installed_namespace ''monitoring.coreos.com'' ''podmonitors'' n"
  unfolding may_apply_def
  by (rule allowed_more [OF allowed_cluster(2)] allowed_more [OF allowed_cluster(7)] allowed_more [OF allowed_cluster(8)]
      allowed_more_installed [OF allowed_installed(1)] allowed_more_installed [OF allowed_installed(2)]
      allowed_more_installed [OF allowed_installed(3)] allowed_more_installed [OF allowed_installed(4)]
      allowed_more_installed [OF allowed_installed(5)]; code_simp)+

lemma may_status: "allowed [] ''config.openshift.io'' ''clusteroperators/status'' name ''patch''"
  using allowed_more [OF allowed_cluster(3), of "[''patch'']" "[]" name] by (simp)

lemma may_own_karpenter: "may_own (ocpOwnerRef karp)"
  using allowed_more [OF allowed_cluster(6), of "[''update'']" "[]" "Some (md_Name (kcr_Meta karp))"]
  by (simp add: may_own_def ocpOwnerRef_def)


section \<open>The controllers of the standalone operator\<close>

lemma confined_read: "authorized rbac (Get Mgmt (res_kind r) ns n) \<Longrightarrow> confined (authorized rbac) (c_get Mgmt r ns n)"
  by (auto simp: c_get_def intro!: confined_rules)

lemma confined_apply: "may_send rbac x \<Longrightarrow> confined (authorized rbac) (c_apply Mgmt owner force x)"
  by (auto simp: c_apply_def intro!: confined_rules)

lemma confined_crd: "confined (authorized rbac) (crd_Reconcile Mgmt crds)"
proof -
  have "confined (authorized rbac) (CreateOrUpdate Mgmt CRDs c f)" for c f
    unfolding CreateOrUpdate_def call_defs
    by (auto intro!: confined_rules simp: may_read may_write_crd CRDs_def Let_def split: sum.split prod.split)
  then show ?thesis
    unfolding crd_Reconcile_def applyCRD_def by (intro confined_rules confined_forE) simp_all
qed

lemma confined_co:
  assumes "cfg_Namespace cfg = installed_namespace"
  shows "confined (authorized rbac) (co_Reconcile now cfg)"
  unfolding co_Reconcile_def operandConditions_def applyStatus_def
  by (auto intro!: confined_rules confined_read confined_apply simp: assms may_read may_apply_facts may_status
      split: sum.split option.split)

text \<open>The operand.\<close>

lemma policyRules_id: "policyRules rules = rules"
  unfolding policyRules_def by (rule map_idI) simp

lemma buildDeployment_fields:
  "buildDeployment cfg ref = Inr d \<Longrightarrow>
     dac_Namespace d = oc_namespace cfg \<and> dac_Name d = karpenterName \<and> dac_OwnerReferences d = [ref]"
  by (auto simp: buildDeployment_def tryE_def Let_def split: sum.splits if_splits)

lemma confined_ocp_operand:
  assumes "asset_CoreRBAC as = shipped_CoreRBAC" and "asset_AWSRBAC as = shipped_AWSRBAC"
    and "ooc_CloudProvider c = AWS p" and "ooc_Namespace c = installed_namespace"
  shows "confined (authorized (operand_rbac as (AWS p))) (ocp_operand_Reconcile as c)"
proof -
  let ?rbac = "operand_rbac as (AWS p)"
  have rbac: "?rbac = \<lparr>rbac_Roles = [\<lparr>role_Name = ''karpenter'', role_Labels = [], role_Rules = core_role_rules\<rparr>],
      rbac_RoleBindings = [binding_to ''Role'' ''karpenter''],
      rbac_ClusterRoles = [\<lparr>role_Name = ''karpenter-core'', role_Labels = [], role_Rules = core_clusterrole_rules\<rparr>,
        \<lparr>role_Name = ''karpenter'', role_Labels = [], role_Rules = aws_clusterrole_rules\<rparr>],
      rbac_ClusterRoleBindings = [binding_to ''ClusterRole'' ''karpenter-core'', binding_to ''ClusterRole'' ''karpenter'']\<rparr>"
    by (simp add: operand_rbac_def assms shipped_CoreRBAC_def shipped_AWSRBAC_def Let_def)
  have bound: "list_all (covered installed_namespace) (bound_rules ?rbac (roleRef (rb_RoleRef (binding_to ''Role'' ''karpenter''))))"
    "list_all (covered []) (bound_rules ?rbac (roleRef (rb_RoleRef (binding_to ''ClusterRole'' ''karpenter-core''))))"
    "list_all (covered []) (bound_rules ?rbac (roleRef (rb_RoleRef (binding_to ''ClusterRole'' ''karpenter''))))"
    by (simp_all add: rbac bound_rules_def roleRef_def binding_to_def operand_covered)
  have ns: "oc_namespace (ocp_operand_config c karp) = installed_namespace" for karp
    by (simp add: ocp_operand_config_def assms(4))
  have dep: "confined (authorized ?rbac) (applyDeployment (ocp_operand_config c karp) (ocpOwnerRef karp))" for karp
    using buildDeployment_fields [of "ocp_operand_config c karp" "ocpOwnerRef karp"]
    by (auto simp: applyDeployment_def operand_apply_def ns may_apply_facts may_own_karpenter
        intro!: confined_rules confined_apply split: sum.split)
  show ?thesis
    unfolding ocp_operand_Reconcile_body ocp_operand_body_def applyServiceAccount_def applyRoles_def applyRoleBindings_def
      applyClusterRoles_def applyClusterRoleBindings_def applyPodMonitor_def operand_apply_def Let_def
    by (auto intro!: confined_rules confined_read confined_forE confined_apply dep [unfolded rbac]
        simp: assms(3,4) rbac bound [unfolded rbac] policyRules_id operand_covered may_read may_apply_facts may_own_karpenter
          buildPodMonitor_def ns split: sum.split)
qed

text \<open>Start-up.\<close>

lemma confined_discovery: "confined (authorized rbac) discoverInfrastructure"
  unfolding discoverInfrastructure_def by (auto intro!: confined_rules confined_read simp: may_read)

lemma confined_wait_loop: "confined (authorized rbac) (wait_loop ck ns podName i t)"
proof (induction ck ns podName i t rule: wait_loop.induct)
  case (1 ck ns podName i t)
  have "confined (authorized rbac) (operatorImage ns podName)"
    unfolding operatorImage_def by (auto intro!: confined_rules confined_read simp: may_read)
  with 1 show ?case
    by (subst wait_loop.simps) (auto intro!: confined_rules split: option.split)
qed

lemma confined_metric: "confined (authorized rbac) (setupOperatorInfoMetricWithRetry env go cks before during ns)"
proof -
  have "confined (authorized rbac) (setupOperatorInfoMetric env go ck ns)" for ck
    unfolding setupOperatorInfoMetric_def waitForOperatorImage_def Let_def
    by (auto intro!: confined_rules confined_wait_loop)
  then have "confined (authorized rbac) (backoff before during
      (\<lambda>k. bind (setupOperatorInfoMetric env go (cks k) ns) (\<lambda>r. Ret (\<not> isl r))) k steps)" for k steps
    by (induction steps arbitrary: k) (auto intro!: confined_rules)
  then show ?thesis unfolding setupOperatorInfoMetricWithRetry_def .
qed

text \<open>
  C17: The installed rules are enough: every request that a standalone operator sends, from the discovery
  of the infrastructure and the info metric to the reconciles of its controllers, is authorized for its
  ServiceAccount, in the namespace it is installed into and with the access rules it ships. That includes the
  escalation check on every Role, ClusterRole and binding it applies, and the finalizer permission for the
  owner references it sets.
\<close>

theorem standalone_operator_authorized:
  assumes "\<not> cc_ManagementCluster cfg" and "\<not> cc_HostedCluster cfg" and "cc_CloudProvider cfg = AWS p"
    and "cc_Namespace cfg = installed_namespace"
    and "asset_CoreRBAC as = shipped_CoreRBAC" and "asset_AWSRBAC as = shipped_AWSRBAC"
    and "(\<exists>c y. c \<in> set (NewControllers env as cfg) \<and> runs (Reconcile_of out as c ns n) tr y) \<or>
      (\<exists>y. runs discoverInfrastructure tr y) \<or>
      (\<exists>y. runs (setupOperatorInfoMetricWithRetry env go cks before during (cc_Namespace cfg)) tr y)"
    and "(q, r) \<in> set tr"
  shows "authorized (operand_rbac as (AWS p)) q"
proof -
  have "confined (authorized (operand_rbac as (AWS p))) (Reconcile_of out as c ns n)"
    if "c \<in> set (NewControllers env as cfg)" for c
    using that assms(1-6)
    by (auto simp: NewControllers_def newHCPNodeClassProvider_def new_crd_controller_def Let_def NewOCPController_def
        intro!: confined_crd confined_co confined_ocp_operand)
  then show ?thesis
    using assms(7,8) confined_calls confined_discovery confined_metric by metis
qed


section \<open>The manager of the standalone operator\<close>

text \<open>Group and resource of what is watched, and whether it is namespaced: a namespaced kind is cached in the
  namespace of the operator only.\<close>

fun watched_resource :: "watch_kind \<Rightarrow> (string \<times> string \<times> bool) option" where
  "watched_resource (WK KSecret) = Some ([], ''secrets'', True)"
| "watched_resource (WK KDeployment) = Some (''apps'', ''deployments'', True)"
| "watched_resource WServiceAccount = Some ([], ''serviceaccounts'', True)"
| "watched_resource WRole = Some (''rbac.authorization.k8s.io'', ''roles'', True)"
| "watched_resource WRoleBinding = Some (''rbac.authorization.k8s.io'', ''rolebindings'', True)"
| "watched_resource WPodMonitor = Some (''monitoring.coreos.com'', ''podmonitors'', True)"
| "watched_resource WClusterRole = Some (''rbac.authorization.k8s.io'', ''clusterroles'', False)"
| "watched_resource WClusterRoleBinding = Some (''rbac.authorization.k8s.io'', ''clusterrolebindings'', False)"
| "watched_resource (WK k) = (case resource_of k of None \<Rightarrow> None | Some (grp, resource) \<Rightarrow> Some (grp, resource, False))"

definition may_watch :: "string \<Rightarrow> watch_kind \<Rightarrow> bool" where
  "may_watch ns k \<longleftrightarrow>
     (case watched_resource k of None \<Rightarrow> False
      | Some (grp, resource, namespaced) \<Rightarrow>
          list_all (allowed (if namespaced then ns else []) grp resource None) [''list'', ''watch''])"

text \<open>Leader election creates the lease of its name, reads it and renews it.\<close>

definition may_lead :: "string \<Rightarrow> string \<Rightarrow> bool" where
  "may_lead ns lease \<longleftrightarrow>
     list_all (allowed ns ''coordination.k8s.io'' ''leases'' (Some lease)) [''get'', ''update''] \<and>
     allowed ns ''coordination.k8s.io'' ''leases'' None ''create''"

lemma may_watch_standalone:
  "list_all (may_watch installed_namespace)
     [WK KSecret, WK KDeployment, WServiceAccount, WRole, WRoleBinding, WPodMonitor, WClusterRole, WClusterRoleBinding,
      WK KCustomResourceDefinition, WK KClusterOperator, WK KKarpenter]"
  by code_simp

lemma may_lead_installed: "may_lead installed_namespace ''karpenter-operator.openshift.io''"
  by code_simp

definition watches_authorized :: "goerr + source list \<Rightarrow> bool" where
  "watches_authorized r \<longleftrightarrow>
     (\<forall>sources w. r = Inr sources \<longrightarrow> Kind w \<in> set sources \<longrightarrow> wt_Cluster w = Mgmt \<and> may_watch installed_namespace (wt_Kind w))"

lemma standalone_sources:
  "watches_authorized (crd_SetupWithManager me Mgmt crds)" "watches_authorized (ocp_SetupWithManager me as c)"
  "watches_authorized (co_SetupWithManager me c')"
  using may_watch_standalone
  by (auto simp: watches_authorized_def crd_SetupWithManager_def ocp_SetupWithManager_def co_SetupWithManager_def
      Complete_def source_Kind_def For_def Owns_def Watches_def Let_def split: option.splits)

text \<open>
  C21: The manager of a standalone operator can start its caches and lead: each of its controllers watches only
  the cluster it runs on and only what the installed rules let it list and watch, in its namespace where the kind
  is namespaced; and the lease of the leader election is the one that the rules name.
\<close>

theorem standalone_manager_authorized:
  assumes "\<not> cc_ManagementCluster cfg" and "\<not> cc_HostedCluster cfg" and "c \<in> set (NewControllers env as cfg)"
    and "SetupWithManager_of me as c = Inr sources" and "Kind w \<in> set sources"
  shows "wt_Cluster w = Mgmt \<and> may_watch installed_namespace (wt_Kind w) \<and>
    may_lead installed_namespace (mgr_LeaderElectionID (manager_options_of opts))"
proof -
  have "watches_authorized (SetupWithManager_of me as c)"
    using assms(1-3) standalone_sources
    by (auto simp: NewControllers_def newHCPNodeClassProvider_def new_crd_controller_def Let_def)
  with assms(4,5) may_lead_installed show ?thesis
    by (simp add: watches_authorized_def manager_options_of_def)
qed


section \<open>Witnesses\<close>

abbreviation shipped_assets :: embedded_assets where
  "shipped_assets \<equiv> example_assets\<lparr>asset_CoreRBAC := shipped_CoreRBAC, asset_AWSRBAC := shipped_AWSRBAC\<rparr>"

abbreviation installed_config :: controllers_config where
  "installed_config \<equiv> \<lparr>cc_Namespace = installed_namespace, cc_KarpenterImage = ''k'', cc_ClusterName = ''c'',
    cc_ClusterEndpoint = ''e'', cc_ReleaseVersion = [], cc_ManagementCluster = False, cc_CloudProvider = operand_aws,
    cc_HostedCluster = False, cc_TokenMinterImage = [], cc_DefaultSecurityContextUID = None\<rparr>"

lemma ocp_operand_answered:
  assumes "operand_image (kcr_Meta karp) (ooc_KarpenterImage c) \<noteq> []" and "runs (ocp_operand_body as c karp) t y"
  shows "runs (Reconcile_of out as (OCPOperandController c) ns n)
    ((Get Mgmt KKarpenter [] SingletonName, RObj (OKarpenter karp)) # t) y"
  using assms by (simp add: ocp_operand_Reconcile_body c_get_def karpenters.as_object_iff)

lemma standalone_operator_authorized_witness:
  "\<exists>c t y. c \<in> set (NewControllers (\<lambda>_. []) shipped_assets installed_config) \<and>
     runs (Reconcile_of \<lparr>out_now = 0, out_offset = 0, out_pem = \<lambda>_. None, out_x509 = Inr\<rparr> shipped_assets c [] [])
       ((Get Mgmt KKarpenter [] SingletonName, RObj (OKarpenter example_karpenter)) # t) y \<and>
     list_all (\<lambda>(q, r). authorized (operand_rbac shipped_assets operand_aws) q) t"
proof -
  let ?c = "NewOCPController (\<lambda>_. []) installed_config"
  let ?out = "\<lparr>out_now = 0, out_offset = 0, out_pem = \<lambda>_. None, out_x509 = Inr\<rparr>"
  have c: "OCPOperandController ?c \<in> set (NewControllers (\<lambda>_. []) shipped_assets installed_config)"
    by (simp add: NewControllers_def Let_def)
  have image: "operand_image (kcr_Meta example_karpenter) (ooc_KarpenterImage ?c) \<noteq> []"
    by (simp add: NewOCPController_def operand_image_def example_karpenter_def map_get_def)
  obtain t y where "runs (ocp_operand_body shipped_assets ?c example_karpenter) t y"
    using runs_exists [of "ocp_operand_body shipped_assets ?c example_karpenter"] by (elim exE)
  from ocp_operand_answered [OF image this] have r: "runs (Reconcile_of ?out shipped_assets (OCPOperandController ?c) [] [])
      ((Get Mgmt KKarpenter [] SingletonName, RObj (OKarpenter example_karpenter)) # t) y" .
  have "authorized (operand_rbac shipped_assets operand_aws) q" if "(q, x) \<in> set t" for q x
  proof (rule standalone_operator_authorized [of installed_config _ shipped_assets "\<lambda>_. []" ?out "[]" "[]"])
    show "(\<exists>c y. c \<in> set (NewControllers (\<lambda>_. []) shipped_assets installed_config) \<and>
        runs (Reconcile_of ?out shipped_assets c [] [])
          ((Get Mgmt KKarpenter [] SingletonName, RObj (OKarpenter example_karpenter)) # t) y) \<or>
        (\<exists>y. runs discoverInfrastructure
          ((Get Mgmt KKarpenter [] SingletonName, RObj (OKarpenter example_karpenter)) # t) y) \<or>
        (\<exists>y. runs (setupOperatorInfoMetricWithRetry (\<lambda>_. []) go cks before during (cc_Namespace installed_config))
          ((Get Mgmt KKarpenter [] SingletonName, RObj (OKarpenter example_karpenter)) # t) y)"
      using c r by blast
    show "(q, x) \<in> set ((Get Mgmt KKarpenter [] SingletonName, RObj (OKarpenter example_karpenter)) # t)"
      using that by simp
  qed simp_all
  then have "list_all (\<lambda>(q, r). authorized (operand_rbac shipped_assets operand_aws) q) t"
    unfolding list_all_iff by blast
  with c r show ?thesis by blast
qed

lemma standalone_manager_authorized_witness:
  "\<exists>sources w. SetupWithManager_of answering shipped_assets
     (OCPOperandController (NewOCPController (\<lambda>_. []) installed_config)) = Inr sources \<and>
     Kind w \<in> set sources \<and> wt_Kind w = WK KKarpenter \<and> may_watch installed_namespace (wt_Kind w)"
proof -
  let ?c = "NewOCPController (\<lambda>_. []) installed_config"
  let ?w = "\<lparr>wt_Cluster = Mgmt, wt_Kind = WK KKarpenter, wt_Predicate = Funcs, wt_Handler = EnqueueRequestForObject\<rparr>"
  have c: "OCPOperandController ?c \<in> set (NewControllers (\<lambda>_. []) shipped_assets installed_config)"
    by (simp add: NewControllers_def Let_def)
  obtain sources where s: "SetupWithManager_of answering shipped_assets (OCPOperandController ?c) = Inr sources"
    "Kind ?w \<in> set sources"
    by (simp add: ocp_SetupWithManager_def Complete_def Let_def For_def)
  have "may_watch installed_namespace (wt_Kind ?w)"
    using standalone_manager_authorized [OF _ _ c s] by simp
  with s show ?thesis by (intro exI [of _ sources] exI [of _ ?w]) simp
qed

end
