(* ===== verification/Wakeups.thy ===== *)
theory Wakeups
  imports Watches Ec2_Properties Azure_Controller
begin

text \<open>
  Watches and reconciles together: an update of the HostedControlPlane that a controller would act on reaches its
  queue, through the predicates and mappings that \<^verbatim>\<open>SetupWithManager\<close> registers, and so does every
  user data Secret that a reconcile would read.
\<close>


section \<open>Listing handlers\<close>

text \<open>A run that only lists the objects of a type, and puts every one listed into the queue.\<close>

definition enqueues_listed :: "'a resource \<Rightarrow> (req \<times> resp) list \<Rightarrow> goerr + requests \<Rightarrow> bool" where
  "enqueues_listed r tr y \<longleftrightarrow> tr \<noteq> [] \<and>
     (\<exists>rs. y = Inr rs \<and> (\<forall>(q, x)\<in>set tr. q = List Hosted (res_kind r) None [] \<and>
        (\<forall>ncs. x = RList (map (res_wrap r) ncs) \<longrightarrow> (\<forall>nc\<in>set ncs. md_Name (res_meta r nc) \<in> snd ` set rs))))"

definition wakes_listed :: "'a resource \<Rightarrow> source list \<Rightarrow> event \<Rightarrow> bool" where
  "wakes_listed r sources e \<longleftrightarrow>
     (\<exists>w. Kind w \<in> set sources \<and> wt_Cluster w = Mgmt \<and> wt_Kind w = WK KHostedControlPlane \<and>
       (\<forall>tr y. runs (deliver w e) tr y \<longrightarrow> enqueues_listed r tr y))"

lemma enqueues_listed_append:
  assumes "enqueues_listed r t1 (Inr rs1)" and "enqueues_listed r t2 (Inr rs2)"
  shows "enqueues_listed r (t1 @ t2) (Inr (add_requests (add_requests [] rs1) rs2))"
  using assms unfolding enqueues_listed_def by (force simp: image_Un)

lemma update_enqueues_listed:
  assumes all: "\<And>t z. runs p t z \<Longrightarrow> enqueues_listed r t z"
    and run: "runs (EnqueueRequestsFromMapFunc (\<lambda>_. p) (UpdateEvent old new)) tr y"
  shows "enqueues_listed r tr y"
proof -
  have ok: "\<exists>rs. z = Inr rs" if "runs p t z" for t z
    using all [OF that] unfolding enqueues_listed_def by blast
  from run obtain t1 t2 rs1 rs2 where "runs p t1 (Inr rs1)" "runs p t2 (Inr rs2)" "tr = t1 @ t2"
    "y = Inr (add_requests (add_requests [] rs1) rs2)"
    by (auto simp: EnqueueRequestsFromMapFunc_def runs_bindE dest: ok)
  with enqueues_listed_append [OF all all] show ?thesis by blast
qed

lemma listing_enqueues:
  assumes laws: "\<And>x ys. as_list r x = Inr ys \<longleftrightarrow> x = RList (map (res_wrap r) ys)"
    and keys: "\<And>nc. snd (key nc) = md_Name (res_meta r nc)"
    and run: "runs (bind (c_list Hosted r None []) (\<lambda>got.
       case got of Inl e \<Rightarrow> Ret (Inr []) | Inr items \<Rightarrow> Ret (Inr (map key items)))) tr y"
  shows "enqueues_listed r tr y"
proof -
  define enqueued where "enqueued x = (case as_list r x of Inl e \<Rightarrow> [] | Inr items \<Rightarrow> map key items)" for x
  have answer: "(case as_list r x of Inl e \<Rightarrow> Ret (Inr []) | Inr items \<Rightarrow> Ret (Inr (map key items))) = Ret (Inr (enqueued x))" for x
    by (simp add: enqueued_def split: sum.split)
  from run obtain x where tr: "tr = [(List Hosted (res_kind r) None [], x)]" and y: "y = Inr (enqueued x)"
    by (auto simp: c_list_def runs_Call_iff answer)
  have "enqueued (RList (map (res_wrap r) ncs)) = map key ncs" for ncs
    using laws [of "RList (map (res_wrap r) ncs)" ncs] by (simp add: enqueued_def)
  then show ?thesis
    by (auto simp: enqueues_listed_def tr y image_image keys)
qed

lemma ec2_enqueues_listed:
  "runs mapToOpenShiftEC2NodeClasses tr y \<Longrightarrow> enqueues_listed OpenshiftEC2NodeClasses tr y"
  unfolding mapToOpenShiftEC2NodeClasses_def
  by (rule listing_enqueues [OF openshift_ec2s.as_list_iff]) (simp_all add: OpenshiftEC2NodeClasses_def)

lemma azure_enqueues_listed:
  "runs azure_mapToNodeClasses tr y \<Longrightarrow> enqueues_listed OpenShiftAzureNodeClasses tr y"
  unfolding azure_mapToNodeClasses_def
  by (rule listing_enqueues [OF openshift_azures.as_list_iff]) (simp_all add: OpenShiftAzureNodeClasses_def)

lemma wakes_listedI:
  assumes "Watches (WK KHostedControlPlane) (EnqueueRequestsFromMapFunc (\<lambda>_. p)) pr \<in> set sources"
    and "passes pr (UpdateEvent old new)" and "\<And>t z. runs p t z \<Longrightarrow> enqueues_listed r t z"
  shows "wakes_listed r sources (UpdateEvent old new)"
proof -
  let ?w = "\<lparr>wt_Cluster = Mgmt, wt_Kind = WK KHostedControlPlane, wt_Predicate = pr,
    wt_Handler = EnqueueRequestsFromMapFunc (\<lambda>_. p)\<rparr>"
  have "\<forall>tr y. runs (deliver ?w (UpdateEvent old new)) tr y \<longrightarrow> enqueues_listed r tr y"
    using assms(2) update_enqueues_listed [OF assms(3)] by (simp add: deliver_def)
  with assms(1) show ?thesis
    unfolding wakes_listed_def Watches_def by (intro exI [of _ ?w]) simp
qed


section \<open>The answer to the lookup of the HostedControlPlane\<close>

text \<open>A program that goes on the same way, whichever of two answers it gets to a request.\<close>

primrec indifferent :: "'q \<Rightarrow> 'r \<Rightarrow> 'r \<Rightarrow> ('q, 'r, 'a) prog \<Rightarrow> bool" where
  "indifferent q r r' (Ret a) \<longleftrightarrow> True"
| "indifferent q r r' (Call q' k) \<longleftrightarrow> (\<forall>x. indifferent q r r' (k x)) \<and> (q' = q \<longrightarrow> k r = k r')"

lemma indifferent_runs:
  "indifferent q r r' p \<Longrightarrow> runs p (t @ (q, r) # u) y \<longleftrightarrow> runs p (t @ (q, r') # u) y"
proof (induction p arbitrary: t)
  case (Call q' k)
  show ?case
  proof (cases t)
    case Nil
    with Call.prems show ?thesis by (auto simp: runs_Call_iff)
  next
    case (Cons x t')
    with Call show ?thesis by (cases x) (auto simp: runs_Call_iff)
  qed
qed auto

lemma indifferent_bind: "indifferent q r r' p \<Longrightarrow> (\<And>a. indifferent q r r' (f a)) \<Longrightarrow> indifferent q r r' (bind p f)"
  by (induction p) auto

lemma indifferent_bindE:
  "indifferent q r r' p \<Longrightarrow> (\<And>a. indifferent q r r' (f a)) \<Longrightarrow> indifferent q r r' (bindE p f)"
  unfolding bindE_def by (rule indifferent_bind) (auto split: sum.split)

lemma indifferent_wrapE: "indifferent q r r' p \<Longrightarrow> indifferent q r r' (wrapE ctx p)"
  unfolding wrapE_def by (rule indifferent_bind) auto

text \<open>The request for the HostedControlPlane of a namespace, and the parts of a reconcile that do not make it.\<close>

abbreviation asks_hcp :: "string \<Rightarrow> req" where
  "asks_hcp namespace \<equiv> List Mgmt KHostedControlPlane (Some namespace) []"

lemmas indifferent_intros = indifferent_bind indifferent_bindE indifferent_wrapE

lemma indifferent_calls:
  "indifferent (asks_hcp ns) r r' (CreateOrUpdate t R a f)"
  "indifferent (asks_hcp ns) r r' (deleteIfNeeded t R ty n1 n2)"
  "indifferent (asks_hcp ns) r r' (GetUserDataSecret t n1 n2)"
  "indifferent (asks_hcp ns) r r' (c_patch t R l a b)"
  "indifferent (asks_hcp ns) r r' (c_patch_status t R l a b)"
  by (auto simp: CreateOrUpdate_def deleteIfNeeded_def GetUserDataSecret_def call_defs Let_def
      intro!: indifferent_intros split: sum.split)

lemma indifferent_lookup:
  assumes "F (Inr old) = F (Inr new)" and "\<And>a. indifferent (asks_hcp ns) (RList [OHostedControlPlane old]) (RList [OHostedControlPlane new]) (F a)"
  shows "indifferent (asks_hcp ns) (RList [OHostedControlPlane old]) (RList [OHostedControlPlane new]) (bind (GetHostedControlPlane Mgmt ns) F)"
proof -
  let ?A = "RList [OHostedControlPlane old]" and ?B = "RList [OHostedControlPlane new]"
  have "indifferent (asks_hcp ns) ?A ?B (bind (bindE (wrapE c (Ret x)) (\<lambda>items. Ret (g items))) F)" for c g and x :: "goerr + hosted_control_plane list"
    using assms(2) by (cases x) simp_all
  then show ?thesis
    using assms(1) by (simp add: GetHostedControlPlane_def c_list_def the_hosted_control_plane_def)
qed

text \<open>The runs of a program that reads the HostedControlPlane are the same, whichever of two versions it is
  answered.\<close>

definition same_answer :: "string \<Rightarrow> hosted_control_plane \<Rightarrow> hosted_control_plane \<Rightarrow> (req, resp, 'a) prog \<Rightarrow> bool" where
  "same_answer ns old new p \<longleftrightarrow>
     (\<forall>t u y. runs p (t @ (asks_hcp ns, RList [OHostedControlPlane old]) # u) y \<longleftrightarrow>
        runs p (t @ (asks_hcp ns, RList [OHostedControlPlane new]) # u) y)"

lemma same_answerI:
  "indifferent (asks_hcp ns) (RList [OHostedControlPlane old]) (RList [OHostedControlPlane new]) p \<Longrightarrow> same_answer ns old new p"
  unfolding same_answer_def by (intro allI) (rule indifferent_runs)

text \<open>What the reconciles see of a HostedControlPlane.\<close>

definition core_e2e_override :: "hosted_control_plane \<Rightarrow> bool" where
  "core_e2e_override hcp \<longleftrightarrow> map_get (md_Annotations (hcp_Meta hcp)) KarpenterCoreE2EOverrideAnnotation = ''true''"

definition same_object :: "object_meta \<Rightarrow> object_meta \<Rightarrow> bool" where
  "same_object m m' \<longleftrightarrow> md_Namespace m = md_Namespace m' \<and> md_Name m = md_Name m' \<and> md_UID m = md_UID m'"

lemma owner_same_object:
  "same_object m m' \<Longrightarrow> SetControllerReference av kd m x = SetControllerReference av kd m' x"
  by (simp add: same_object_def SetControllerReference_def validateOwner_def controller_ref_def Let_def)

lemma ec2_status_same:
  "awsResourceTags old = awsResourceTags new \<Longrightarrow> ec2_reconcileStatus now ec2 onc old = ec2_reconcileStatus now ec2 onc new"
  unfolding ec2_reconcileStatus_def synced_status_def setAWSResourceTagConflictCondition_def
    awsResourceTags_def [symmetric] by presburger

lemma ec2_subnets_same:
  assumes "same_object (hcp_Meta old) (hcp_Meta new)" and "hcp_InfraID old = hcp_InfraID new"
  shows "reconcileKarpenterSubnetsConfigMap ns old = reconcileKarpenterSubnetsConfigMap ns new"
proof -
  have "subnets_mutate old = subnets_mutate new"
    unfolding subnets_mutate_def owner_same_object [OF assms(1)] assms(2) ..
  then show ?thesis unfolding reconcileKarpenterSubnetsConfigMap_def by (rule arg_cong)
qed


section \<open>The reconciles that read it\<close>

lemma ec2_reconcile_indifferent:
  assumes "\<not> ec2_hcpPredicate_update old new" and "same_object (hcp_Meta old) (hcp_Meta new)"
    and "hcp_InfraID old = hcp_InfraID new" and "core_e2e_override old = core_e2e_override new"
  shows "same_answer ns old new (ec2_Reconcile now ns n0 n)"
proof (rule same_answerI)
  have "awsResourceTags old = awsResourceTags new" using assms(1) by (simp add: ec2_hcpPredicate_update_def)
  note status = ec2_status_same [OF this] and subnets = ec2_subnets_same [OF assms(2,3)]
  have mutate: "ec2_mutate onc old s = ec2_mutate onc new s" for onc s
    unfolding ec2_mutate_def ec2_watch_complete [OF assms(1,3)] ..
  have vap: "indifferent (asks_hcp ns) r r' ec2_reconcileVAP" for r r'
    by (auto simp: ec2_reconcileVAP_def intro!: indifferent_intros indifferent_calls split: prod.split)
  have sub: "indifferent (asks_hcp ns) r r' (reconcileKarpenterSubnetsConfigMap ns hcp)" for r r' hcp
    by (auto simp: reconcileKarpenterSubnetsConfigMap_def c_list_def Let_def intro!: indifferent_intros indifferent_calls)
  have st: "indifferent (asks_hcp ns) r r' (ec2_reconcileStatus now ec2 onc hcp)" for r r' hcp ec2 onc
    by (auto simp: ec2_reconcileStatus_def intro!: indifferent_intros indifferent_calls split: sum.split)
  have normal: "indifferent (asks_hcp ns) r r' (ec2_reconcileNormal now ns hcp a b onc)" for r r' hcp a b onc
    by (auto simp: ec2_reconcileNormal_def intro!: indifferent_intros indifferent_calls vap sub st split: sum.split prod.split)
  have delete: "indifferent (asks_hcp ns) r r' (ec2_reconcileDelete ns hcp onc)" for r r' hcp onc
    by (auto simp: ec2_reconcileDelete_def intro!: indifferent_intros indifferent_calls sub)
  have same: "ec2_reconcileNormal now ns old = ec2_reconcileNormal now ns new"
    "ec2_reconcileDelete ns old = ec2_reconcileDelete ns new"
    unfolding ec2_reconcileNormal_def ec2_reconcileDelete_def mutate status subnets by (rule refl)+
  show "indifferent (asks_hcp ns) (RList [OHostedControlPlane old]) (RList [OHostedControlPlane new])
      (ec2_Reconcile now ns n0 n)"
    unfolding ec2_Reconcile_def
  proof (rule indifferent_lookup)
    show "indifferent (asks_hcp ns) r r' (case a of
        Inl e \<Rightarrow> if errors_Is e ErrHostedControlPlaneNotFound then done_result else Ret (Inl e)
      | Inr hcp \<Rightarrow>
          if map_get (md_Annotations (hcp_Meta hcp)) KarpenterCoreE2EOverrideAnnotation = ''true'' then done_result
          else bind (c_get Hosted OpenshiftEC2NodeClasses n0 n) (\<lambda>got. case got of
            Inl e \<Rightarrow> if IsNotFound e then done_result else Ret (Inl (EWrap ''getting openshiftEC2NodeClass: '' e []))
          | Inr onc \<Rightarrow> if being_deleted (onc_Meta onc) then ec2_reconcileDelete ns hcp onc
              else bindE (ec2_ensureFinalizer onc) (ec2_reconcileNormal now ns hcp
                (md_Namespace (onc_Meta onc)) (md_Name (onc_Meta onc)))))" for a r r'
      by (auto simp: c_get_def ec2_ensureFinalizer_def
          intro!: indifferent_intros indifferent_calls normal delete split: sum.split)
  qed (use assms(4) in \<open>simp add: core_e2e_override_def same cong del: sum.case_cong_weak if_weak_cong\<close>)
qed

lemma azure_reconcile_indifferent:
  assumes "\<And>nodeClass s. aks_mutate nodeClass old s = aks_mutate nodeClass new s"
  shows "same_answer ns old new (azure_Reconcile now ns n0 n)"
proof (rule same_answerI)
  have st: "indifferent (asks_hcp ns) r r' (azure_reconcileStatus now nc aks)" for r r' nc aks
    by (auto simp: azure_reconcileStatus_def Let_def intro!: indifferent_intros indifferent_calls)
  have r: "indifferent (asks_hcp ns) r r' (reconcileAKSNodeClass nc hcp s)" for r r' nc hcp s
    by (auto simp: reconcileAKSNodeClass_def intro!: indifferent_intros indifferent_calls split: prod.split)
  have "reconcileAKSNodeClass nc old s = reconcileAKSNodeClass nc new s" for nc s
    by (simp add: reconcileAKSNodeClass_def assms)
  then have "indifferent (asks_hcp ns) (RList [OHostedControlPlane old]) (RList [OHostedControlPlane new]) (azure_reconcileNormal now ns nc)" for nc
    unfolding azure_reconcileNormal_def
    by (intro indifferent_lookup) (auto intro!: indifferent_intros indifferent_calls st r split: sum.split)
  then show "indifferent (asks_hcp ns) (RList [OHostedControlPlane old]) (RList [OHostedControlPlane new]) (azure_Reconcile now ns n0 n)"
    by (auto simp: azure_Reconcile_def c_get_def c_delete_def azure_ensureFinalizer_def azure_reconcileDelete_def
        intro!: indifferent_intros indifferent_calls split: sum.split)
qed

lemma default_reconcile_indifferent:
  assumes "default_reconcileHCP r provider hosted new = default_reconcileHCP r provider hosted old"
  shows "same_answer ns old new (default_Reconcile r provider hosted ns)"
proof (rule same_answerI)
  have "indifferent (asks_hcp ns) x x' (default_reconcileHCP r provider hosted hcp)" for x x' hcp
    by (auto simp: default_reconcileHCP_def intro!: indifferent_intros indifferent_calls split: option.split sum.split prod.split)
  then show "indifferent (asks_hcp ns) (RList [OHostedControlPlane old]) (RList [OHostedControlPlane new]) (default_Reconcile r provider hosted ns)"
    unfolding default_Reconcile_def using assms
    by (intro indifferent_lookup) (auto intro!: indifferent_intros split: sum.split)
qed


section \<open>Updates of the HostedControlPlane\<close>

abbreviation hcp_update :: "hosted_control_plane \<Rightarrow> hosted_control_plane \<Rightarrow> event" where
  "hcp_update old new \<equiv> UpdateEvent (WObj (OHostedControlPlane old)) (WObj (OHostedControlPlane new))"

lemma on_hcps_objects [simp]:
  "on_hcps b f (WObj (OHostedControlPlane old)) (WObj (OHostedControlPlane new)) = f old new"
  by (simp add: on_hcps_def unwrap_def HCPs_def)

lemma azure_watch_complete:
  assumes "\<not> azure_hcpPredicate_update old new"
  shows "aks_mutate nodeClass old s = aks_mutate nodeClass new s"
proof -
  have "hcp_ControlPlaneVersion old = hcp_ControlPlaneVersion new"
    using assms by (simp add: azure_hcpPredicate_update_def ControlPlaneVersionChanged_def)
  then have "WaitsForControlPlaneUpgrade old ver = WaitsForControlPlaneUpgrade new ver" for ver
    by (simp add: WaitsForControlPlaneUpgrade_def isControlPlaneUpgrading_def)
  then show ?thesis by (intro ext) (simp add: aks_mutate_def)
qed

lemma wakes_For:
  assumes "For k p \<in> set sources" and "passes p (UpdateEvent old new)"
  shows "wakes sources Mgmt (WK k) (UpdateEvent old new) (watched_key new)"
  using assms(2) by (intro wakesI [OF assms(1) [unfolded For_def]]) auto

lemma ec2_hcp_update:
  assumes "ec2_SetupWithManager me = Inr sources" and "ec2_hcpPredicate_update old new"
  shows "wakes_listed OpenshiftEC2NodeClasses sources (hcp_update old new)"
proof (rule wakes_listedI [where pr = ec2_hcpPredicate])
  show "Watches (WK KHostedControlPlane) (EnqueueRequestsFromMapFunc (\<lambda>_. mapToOpenShiftEC2NodeClasses)) ec2_hcpPredicate
      \<in> set sources"
    using assms(1) by (auto simp: ec2_SetupWithManager_def Complete_def split: if_splits option.splits)
  show "passes ec2_hcpPredicate (hcp_update old new)"
    using assms(2) by (simp add: ec2_hcpPredicate_def)
qed (rule ec2_enqueues_listed)

lemma azure_hcp_update:
  assumes "azure_SetupWithManager me = Inr sources" and "azure_hcpPredicate_update old new"
  shows "wakes_listed OpenShiftAzureNodeClasses sources (hcp_update old new)"
proof (rule wakes_listedI [where pr = azure_hcpPredicate])
  show "Watches (WK KHostedControlPlane) (EnqueueRequestsFromMapFunc (\<lambda>_. azure_mapToNodeClasses)) azure_hcpPredicate
      \<in> set sources"
    using assms(1) by (auto simp: azure_SetupWithManager_def Complete_def split: option.splits)
  show "passes azure_hcpPredicate (hcp_update old new)"
    using assms(2) by (simp add: azure_hcpPredicate_def)
qed (rule azure_enqueues_listed)

lemma operand_hcp_update:
  assumes "hcp_operand_SetupWithManager me = Inr sources" and "hcpOperandChanged old new"
  shows "wakes sources Mgmt (WK KHostedControlPlane) (hcp_update old new) (md_Namespace (hcp_Meta new), md_Name (hcp_Meta new))"
proof -
  have "For KHostedControlPlane hcpOperandReconcilePredicate \<in> set sources"
    using assms(1) by (auto simp: hcp_operand_SetupWithManager_def Complete_def Let_def split: option.splits)
  from wakes_For [OF this, of "WObj (OHostedControlPlane old)" "WObj (OHostedControlPlane new)"] assms(2) show ?thesis by (simp add: hcpOperandReconcilePredicate_def)
qed

lemma default_hcp_update:
  assumes "default_SetupWithManager me provider hosted namespace = Inr sources" and "default_hcpPredicate_update old new"
  shows "wakes sources Mgmt (WK KHostedControlPlane) (hcp_update old new) (md_Namespace (hcp_Meta new), md_Name (hcp_Meta new))"
proof -
  have "For KHostedControlPlane default_hcpPredicate \<in> set sources"
    using assms(1) by (auto simp: default_SetupWithManager_def Complete_def split: if_splits option.splits)
  from wakes_For [OF this, of "WObj (OHostedControlPlane old)" "WObj (OHostedControlPlane new)"] assms(2) show ?thesis by (simp add: default_hcpPredicate_def)
qed

lemma namespace_hcp_update:
  assumes "autonode_SetupWithManager me namespace = Inr sources \<or> deletion_SetupWithManager me namespace = Inr sources"
  shows "wakes sources Mgmt (WK KHostedControlPlane) (hcp_update old new) (namespace, [])"
proof (rule wakes_Watches [where f = "\<lambda>_. [(namespace, [])]" and x = "WObj (OHostedControlPlane new)"])
  show "Watches (WK KHostedControlPlane) (EnqueueRequestsFromMapFunc (constantly (\<lambda>_. [(namespace, [])]))) Funcs \<in> set sources"
    using assms
    by (auto simp: autonode_SetupWithManager_def deletion_SetupWithManager_def Complete_def Let_def
        split: if_splits option.splits sum.splits)
qed simp_all

text \<open>
  C19: Which updates of the HostedControlPlane are lost on the controllers that follow it: only a change of the
  end-to-end override annotation, on the EC2 controller. For every other update (of the same object, with its
  immutable infrastructure ID), each controller that is set up either is woken, or it makes no difference to any
  run of its reconcile whether it reads the old or the new version. Woken are the NodeClass controllers for every
  NodeClass that the hosted cluster lists, the operand and the default NodeClass controllers for the object, and the
  AutoNode status and deletion controllers always.
\<close>

theorem hcp_updates_not_lost:
  assumes "same_object (hcp_Meta old) (hcp_Meta new)" and "hcp_InfraID old = hcp_InfraID new"
  shows "(ec2_SetupWithManager me = Inr sources \<and> core_e2e_override old = core_e2e_override new \<longrightarrow>
        (\<forall>now ns n0 n. same_answer ns old new (ec2_Reconcile now ns n0 n)) \<or>
        wakes_listed OpenshiftEC2NodeClasses sources (hcp_update old new)) \<and>
    (azure_SetupWithManager me = Inr sources \<longrightarrow>
        (\<forall>now ns n0 n. same_answer ns old new (azure_Reconcile now ns n0 n)) \<or>
        wakes_listed OpenShiftAzureNodeClasses sources (hcp_update old new)) \<and>
    (hcp_operand_SetupWithManager me = Inr sources \<longrightarrow>
        (\<forall>c ns n q t y. runs (hcp_operand_Reconcile c ns n) ((q, RObj (OHostedControlPlane old)) # t) y \<longleftrightarrow>
           runs (hcp_operand_Reconcile c ns n) ((q, RObj (OHostedControlPlane new)) # t) y) \<or>
        wakes sources Mgmt (WK KHostedControlPlane) (hcp_update old new) (md_Namespace (hcp_Meta new), md_Name (hcp_Meta new))) \<and>
    (default_SetupWithManager me provider hosted namespace = Inr sources \<longrightarrow>
        (\<forall>r p ns. same_answer ns old new (default_Reconcile r p hosted ns)) \<or>
        wakes sources Mgmt (WK KHostedControlPlane) (hcp_update old new) (md_Namespace (hcp_Meta new), md_Name (hcp_Meta new))) \<and>
    (autonode_SetupWithManager me namespace = Inr sources \<or> deletion_SetupWithManager me namespace = Inr sources \<longrightarrow>
        wakes sources Mgmt (WK KHostedControlPlane) (hcp_update old new) (namespace, []))"
proof (intro conjI impI)
  assume "ec2_SetupWithManager me = Inr sources \<and> core_e2e_override old = core_e2e_override new"
  then show "(\<forall>now ns n0 n. same_answer ns old new (ec2_Reconcile now ns n0 n)) \<or>
      wakes_listed OpenshiftEC2NodeClasses sources (hcp_update old new)"
    using ec2_reconcile_indifferent [OF _ assms] ec2_hcp_update by blast
next
  assume "azure_SetupWithManager me = Inr sources"
  then show "(\<forall>now ns n0 n. same_answer ns old new (azure_Reconcile now ns n0 n)) \<or>
      wakes_listed OpenShiftAzureNodeClasses sources (hcp_update old new)"
    using azure_reconcile_indifferent [OF azure_watch_complete [of old new]] azure_hcp_update by blast
next
  assume "hcp_operand_SetupWithManager me = Inr sources"
  then show "(\<forall>c ns n q t y. runs (hcp_operand_Reconcile c ns n) ((q, RObj (OHostedControlPlane old)) # t) y \<longleftrightarrow>
      runs (hcp_operand_Reconcile c ns n) ((q, RObj (OHostedControlPlane new)) # t) y) \<or>
      wakes sources Mgmt (WK KHostedControlPlane) (hcp_update old new) (md_Namespace (hcp_Meta new), md_Name (hcp_Meta new))"
    using hcp_operand_watch_complete [of old new] assms(1) operand_hcp_update unfolding same_object_def by blast
next
  assume "default_SetupWithManager me provider hosted namespace = Inr sources"
  then show "(\<forall>r p ns. same_answer ns old new (default_Reconcile r p hosted ns)) \<or>
      wakes sources Mgmt (WK KHostedControlPlane) (hcp_update old new) (md_Namespace (hcp_Meta new), md_Name (hcp_Meta new))"
    using default_reconcile_indifferent [OF default_watch_complete [of old new]] default_hcp_update by blast
qed (rule namespace_hcp_update)


section \<open>User data Secrets\<close>

lemma wakes_user_data:
  assumes "Watches (WK KSecret) EnqueueNodeClassForUserDataSecret KarpenterSecretPredicate \<in> set sources"
    and "isKarpenterSecret (sec_Meta s)" and "mapUserDataSecretToNodeClass (sec_Meta s) = [nc]"
    and "e = CreateEvent (WObj (OSecret s)) \<or> e = UpdateEvent old (WObj (OSecret s))"
  shows "wakes sources Mgmt (WK KSecret) e ([], nc)"
  by (rule wakesI [OF assms(1) [unfolded Watches_def], where rs =
        "fold (\<lambda>x reqs. add_requests reqs (map (Pair []) (mapUserDataSecretToNodeClass (watched_meta x)))) (event_objects e) []"])
    (use assms(2-4) in \<open>auto simp: EnqueueNodeClassForUserDataSecret_def EnqueueRequestsFromMapFunc_def mapAndEnqueue_constantly
      KarpenterSecretPredicate_def KarpenterSecretPredicate_create_def KarpenterSecretPredicate_update_def\<close>)

text \<open>
  C32: The watch on Secrets and the lookup of user data agree. Whatever Secret a reconcile takes the user data of a
  NodeClass from (with the label that the lookup selects by), its creation and every update that leads to it wake
  the EC2 and the Azure controller for this NodeClass.
\<close>

theorem user_data_secret_wakes:
  assumes "ec2_SetupWithManager me = Inr sources \<or> azure_SetupWithManager me = Inr sources"
    and "runs (GetUserDataSecret t ns nc) tr (Inr s)" and "isKarpenterSecret (sec_Meta s)" and "CHR ''/'' \<notin> set ns"
    and "e = CreateEvent (WObj (OSecret s)) \<or> e = UpdateEvent old (WObj (OSecret s))"
  shows "wakes sources Mgmt (WK KSecret) e ([], nc)"
proof -
  have w: "Watches (WK KSecret) EnqueueNodeClassForUserDataSecret KarpenterSecretPredicate \<in> set sources"
    using assms(1)
    by (auto simp: ec2_SetupWithManager_def azure_SetupWithManager_def Complete_def split: if_splits option.splits)
  obtain items where "filter (user_data_secret_of ns nc) items = [s]"
    using user_data_secret_unique assms(2) by blast
  then have "s \<in> set (filter (user_data_secret_of ns nc) items)" by simp
  then have "user_data_secret_of ns nc s" by (simp only: set_filter mem_Collect_eq)
  then have "mapUserDataSecretToNodeClass (sec_Meta s) = [nc]"
    using user_data_secret_watch [OF assms(4), of s "karpenterNodePoolName nc" nc] by (simp add: user_data_secret_of_def)
  from wakes_user_data [OF w assms(3) this assms(5)] show ?thesis .
qed


section \<open>Witnesses\<close>

text \<open>The AWS settings of a HostedControlPlane appear: the deletion controller is woken, the operand need not be.\<close>

lemma hcp_updates_not_lost_witness:
  "\<exists>sources. deletion_SetupWithManager (answering\<lparr>me_HostedCluster := True\<rparr>) ''ns'' = Inr sources \<and>
     wakes sources Mgmt (WK KHostedControlPlane)
       (hcp_update example_karpenter_hcp (example_karpenter_hcp\<lparr>hcp_AWS := Some []\<rparr>)) (''ns'', [])"
proof -
  obtain sources where s: "deletion_SetupWithManager (answering\<lparr>me_HostedCluster := True\<rparr>) ''ns'' = Inr sources"
    by (simp add: deletion_SetupWithManager_def Complete_def ResolveCAPIClusterGVK_def Let_def)
  have "wakes sources Mgmt (WK KHostedControlPlane)
      (hcp_update example_karpenter_hcp (example_karpenter_hcp\<lparr>hcp_AWS := Some []\<rparr>)) (''ns'', [])"
    by (rule hcp_updates_not_lost [THEN conjunct2, THEN conjunct2, THEN conjunct2, THEN conjunct2, rule_format,
          OF _ _ disjI2 [OF s]]) (simp_all add: same_object_def)
  with s show ?thesis by blast
qed

abbreviation labelled_secret :: secret where
  "labelled_secret \<equiv> azure_secret\<lparr>sec_Meta := (sec_Meta azure_secret)\<lparr>md_Labels := [(ManagedByKarpenterLabel, ''true'')]\<rparr>\<rparr>"

lemma user_data_secret_wakes_witness:
  "\<exists>sources. azure_SetupWithManager answering = Inr sources \<and>
     wakes sources Mgmt (WK KSecret) (CreateEvent (WObj (OSecret labelled_secret))) ([], ''n'')"
proof -
  obtain sources where s: "azure_SetupWithManager answering = Inr sources"
    by (simp add: azure_SetupWithManager_def Complete_def)
  have "user_data_secret_of ''ns'' ''n'' labelled_secret"
    by (simp add: user_data_secret_of_def is_token_secret_def karpenterNodePoolName_def map_get_def)
  then have run: "runs (GetUserDataSecret Mgmt ''ns'' ''n'')
      [(List Mgmt KSecret (Some ''ns'') karpenterSecretSelector, RList (map OSecret [labelled_secret]))] (Inr labelled_secret)"
    unfolding user_data_secret_unique by (intro exI [of _ "[labelled_secret]"]) simp
  have "wakes sources Mgmt (WK KSecret) (CreateEvent (WObj (OSecret labelled_secret))) ([], ''n'')"
    by (rule user_data_secret_wakes [OF disjI2 [OF s] run]) (simp_all add: isKarpenterSecret_def)
  with s show ?thesis by blast
qed

end
