(* ===== verification/Spec2Isabelle.thy ===== *)
theory Spec2Isabelle
  imports Programs Kubelet_Config Ec2_Properties Ec2_Confinement Azure_Controller Azure_Vap Default_Nodeclass Hcp_Deletion
    Autonode_Status Machine_Approver Crd_Controller Cluster_Operator Operand_Properties Startup Operator_Metric
    Azure_Admission Lifecycle_Properties Operator_Run Assets Authorization Watches Wakeups
begin

text \<open>
  A verification development for the OpenShift Karpenter operator (Go). The operator deploys the
  node autoscaler Karpenter and feeds it with NodeClasses. On a management cluster (HyperShift) it
  reads a HostedControlPlane and writes into the hosted cluster as well; on a standalone cluster it
  follows the Karpenter resource named default and reports a ClusterOperator.

  \<^bold>\<open>How the parts interact.\<close> \<^verbatim>\<open>main\<close> reads and validates the options;
  \<^verbatim>\<open>Run\<close> finds the infrastructure, builds a cloud provider and starts the controllers of
  the mode. The controllers do not call each other: they communicate through the objects of the API
  servers, so each of them is verified against every behaviour of the servers, and what one controller
  relies on of another is a fact about the objects. Where the order of calls of different writers matters
  (the finalizers of the NodeClasses), the workers of a controller, users, Karpenter, caches and crashes are
  interleaved on one shared server. In order of data flow: the default NodeClass
  controller creates an OpenshiftEC2NodeClass or OpenShiftAzureNodeClass; the NodeClass controller of the
  platform converts it into the EC2NodeClass or AKSNodeClass that Karpenter reads, with the user data and
  image of the control plane's release, and copies status back; the operand controller runs Karpenter;
  the machine approver lets the nodes in that Karpenter starts; the AutoNode status controller counts
  them; the deletion controller drains them before the HostedControlPlane goes away.

  \<^bold>\<open>Theories and code\<close> (paths below \<^verbatim>\<open>src/\<close>; the definitions keep the names of the
  source, with a prefix such as \<open>ec2_\<close>, \<open>azure_\<close>, \<open>co_\<close> where several packages use the
  same name).

  \<^item> Foundations. \<open>Prelude\<close>: Go strings, maps, slices and errors. \<open>Programs\<close>: code with calls
    to a server, its runs, and the program logic \<open>safe\<close> (a guard on every call, over the history).
    \<open>Meta\<close>, \<open>Types\<close>, \<open>Operand_Types\<close>: the Kubernetes objects.
    \<open>Client\<close>, \<open>Controllerutil\<close>: the client and \<^verbatim>\<open>CreateOrUpdate\<close>, with the
    contracts \<open>resource_laws\<close> (one interpretation per resource type) and \<open>mutation\<close> (one per
    mutate function). \<open>Duration\<close>, \<open>Strconv\<close>: the parsers of the standard library, on 64 bits.
  \<^item> API types. \<open>Kubelet_Config\<close> (\<^verbatim>\<open>api/karpenter/v1/kubelet_config.go\<close>),
    \<open>Ec2_Types\<close> (\<^verbatim>\<open>api/karpenter/v1/karpenter_types.go\<close>), \<open>Azure_Types\<close>
    (\<^verbatim>\<open>api/karpenter/v1alpha1\<close>). Their validation rules, and those of the EC2NodeClass and
    AKSNodeClass (\<^verbatim>\<open>pkg/assets\<close>), are in \<open>Ec2_Admission\<close> and
    \<open>Azure_Admission\<close>, over the regular expressions of \<open>Pattern\<close>.
  \<^item> NodeClasses (\<^verbatim>\<open>pkg/controllers/nodeclass\<close>). \<open>Nodeclass_Status\<close>,
    \<open>Ec2_Tags\<close>, \<open>Ec2_Convert\<close>, \<open>Ec2_Controller\<close>, \<open>Ec2_Properties\<close>,
    \<open>Ec2_Confinement\<close>, \<open>Azure_Controller\<close>, \<open>Azure_Vap\<close> (with the meaning of a
    policy and its binding, after the documentation of their types), \<open>Default_Nodeclass\<close> (with the contract
    \<open>default_provider\<close>, interpreted on both platforms).
  \<^item> Interleaving. \<open>Interleaving\<close>: systems of workers on a shared store, with the rule
    \<open>interleaving\<close> (rely and guarantee) that lifts the guards of \<open>safe\<close> to an invariant of all
    reachable states. \<open>Finalizer_Protocol\<close>: the API server as a store of versioned objects with lagging
    read caches, optimistic locks and deletion by finalizer, and the guard of the protocol;
    \<open>Finalizer_Invariant\<close> and \<open>Finalizer_Progress\<close>: the contracts \<open>finalizer_protocol\<close>
    (safety) and \<open>finalizer_progress\<close>, interpreted for both NodeClass controllers in
    \<open>Nodeclass_Lifecycle\<close> and \<open>Lifecycle_Properties\<close>. These theories model no code of
    their own: their programs are \<open>ec2_Reconcile\<close> and \<open>azure_Reconcile\<close>.
  \<^item> HyperShift. \<open>Hypershift\<close> (\<^verbatim>\<open>pkg/hypershift\<close>), \<open>Hcp_Deletion\<close> and
    \<open>Autonode_Status\<close> (\<^verbatim>\<open>pkg/controllers/hcp\<close>).
  \<^item> Nodes. \<open>Node_Identity\<close> (\<^verbatim>\<open>pkg/cloudprovider/aws/node_identity_verifier.go\<close>;
    the interface is the locale \<open>node_identity_verifier\<close>) and \<open>Machine_Approver\<close>
    (\<^verbatim>\<open>pkg/controllers/machineapprover\<close>).
  \<^item> Operand. \<open>Apply_Convert\<close>, \<open>Operand\<close>, \<open>Operand_Properties\<close>
    (\<^verbatim>\<open>pkg/controllers/karpenter\<close>), \<open>Crd_Controller\<close>, \<open>Cluster_Operator\<close>.
  \<^item> Process. \<open>Cloud_Provider\<close> (\<^verbatim>\<open>pkg/cloudprovider\<close>), \<open>Options\<close> and
    \<open>Startup\<close> (\<^verbatim>\<open>pkg/operator\<close>), \<open>Controllers\<close> and \<open>Operator_Metric\<close>
    (\<^verbatim>\<open>pkg/controllers\<close>). \<open>Operator_Run\<close>: \<^verbatim>\<open>Run\<close> and
    \<^verbatim>\<open>main\<close> (\<^verbatim>\<open>cmd/main.go\<close>) with every library call, whose
    specification is the plan of \<open>Startup\<close>. \<open>Assets\<close>: the embedded files and their decoding
    (\<^verbatim>\<open>pkg/assets\<close>), with the access rules of the operand. \<open>Watches\<close>:
    \<^verbatim>\<open>SetupWithManager\<close> of every controller, over the vendored event handlers and predicates;
    \<open>Wakeups\<close> joins it with the reconciles. \<open>Authorization\<close>: the
    rules the operator is installed with (\<^verbatim>\<open>install/04_rbac.yaml\<close>) and the authorizer.

  A handler is a program of type \<open>'a io\<close>: a tree of requests and continuations. Its state is the
  state of the servers; the object a handler holds in memory is an argument of its continuation. An
  error return is \<open>Inl\<close> of a \<open>goerr\<close>, with the wrapping of \<^verbatim>\<open>fmt.Errorf\<close>.

  \<^bold>\<open>What the lemmas show.\<close>

  \<^item> Order of effects, for every server: finalizers are set before and removed after the object they
    guard (\<open>ec2_finalizer_removed_last\<close>, \<open>azure_created_under_finalizer\<close>,
    \<open>hcp_released_last\<close>), NodePools go before NodeClaims (\<open>teardown_order\<close>), the operand is
    applied in order and only for a known release (\<open>hcp_operand_applied\<close>,
    \<open>ocp_operand_applied\<close>), and writes stay where they belong (\<open>ec2_writes_confined\<close>,
    \<open>no_hosted_cluster_no_hosted_request\<close>).
  \<^item> Interleaving, with caches of both kinds that lag arbitrarily: no reachable state has an AKSNodeClass
    without its NodeClass (\<open>azure_no_orphan\<close>); nor an EC2NodeClass, unless a read from the cache has
    missed it while its NodeClass was being deleted (\<open>ec2_no_orphan\<close>; \<open>ec2_stale_cache_orphan\<close>
    is a run in which that happens, and leaves the EC2NodeClass to the garbage collection by owner
    reference). Deletions can always complete by the work of the controller
    (\<open>ec2_deletion_possible\<close>, \<open>azure_deletion_possible\<close>).
  \<^item> Security: no certificate is approved without evidence (\<open>approval_needs_evidence\<close>), the
    admission policies deny what they should (\<open>ec2_vap_denies\<close>, \<open>azure_vap_denies\<close>), and the installed rules allow every
    request of a standalone operator, so that none fails for a missing permission
    (\<open>standalone_operator_authorized\<close>, \<open>standalone_manager_authorized\<close>).
  \<^item> Conversions: tags, conditions, the kubelet configuration, the specs under an upgrade
    (\<open>merged_tags_spec\<close>, \<open>sync_conditions_spec\<close>, \<open>kubelet_roundtrip\<close>,
    \<open>ec2_rollout_control\<close>, \<open>azure_rollout_control\<close>, over any number of reconciles during an
    upgrade, which is told from the update history), and the well-formedness of the operand Pod
    (\<open>operand_deployment_wf\<close>).
  \<^item> Admission: what the schema of an OpenShift NodeClass accepts is converted into something the schema of
    the provider's NodeClass accepts, always on Azure (\<open>azure_admission\<close>), and on EC2 with exactly
    the exceptions \<open>ec2_admission\<close> lists; the default NodeClass passes both
    (\<open>default_nodeclass_admitted\<close>).
  \<^item> Progress: the second reconcile on Azure writes nothing (\<open>azure_settled\<close>), and on EC2, where the
    server fills in metadata options the controller leaves out, it sends at most what is stored as the
    object that is there (\<open>ec2_updates_settle\<close>); no change that matters is missed but the one of an
    annotation (\<open>hcp_updates_not_lost\<close> says which), from the event to
    the queue (\<open>drift_wakes_operand\<close>, \<open>user_data_secret_wakes\<close>), deletions are retried (\<open>deletion_never_abandoned\<close>),
    polling ends (\<open>metric_setup_bounded\<close>).
  \<^item> Start-up: validation rejects exactly the incomplete options (\<open>validation_reports_missing\<close>) and
    what passes it can run (\<open>validated_management_operator\<close>, \<open>standalone_by_platform\<close>). The
    process makes the calls of its plan in order and starts the manager last (\<open>run_refines_plan\<close>), its
    exit code says how that ended (\<open>main_exit_code\<close>), and the assets it needs are embedded
    (\<open>assets_initialised\<close>), and every controller can be set up (\<open>setup_complete\<close>).
  \<^item> This theory holds the properties that join components: readiness through both NodeClass
    controllers, and the default NodeClass through the EC2 conversion.

  \<^bold>\<open>Bounds.\<close> No definition uses fuel. Every program is a finite tree of calls except that two loops
  have a measure: the terms of a duration (the length of the rest) and the poll for the image (the time
  left of 15 seconds). The poll makes at most 31 reads, one every 500 ms, and at most five set-ups are
  tried, so 160 calls in all. EC2 is asked for at most 1000 instances a call. Counters are 32-bit and
  64-bit words with Go's truncation; the UID of the environment and the parts of a duration go through the
  overflow checks of the library on 64 bits.

  \<^bold>\<open>Parameters.\<close> The API servers and the EC2 API (their answers are universally quantified; some
  witnesses use the executable reference server of \<open>Controllerutil\<close>), the process environment, PEM
  and X.509 decoding, the contents of the embedded files and the YAML decoder, the answers of the
  libraries to the process, the loading of the AWS SDK configuration, the REST
  mapper, the evaluation of the expressions, selectors and parameters of an admission policy, the build information of the Go runtime, the clock and the scheduler of Go's
  \<^verbatim>\<open>select\<close>, and the functions \<^verbatim>\<open>double\<close> and \<^verbatim>\<open>quantity\<close> of CEL.

  \<^bold>\<open>Assumptions of the interleaving.\<close> One worker per NodeClass at a time (the work queue, leader
  election); a worker may stop anywhere and start over. Every read of a NodeClass, an EC2NodeClass or an
  AKSNodeClass comes from a cache that may be behind by any number of versions, and only moves forward; writes
  and deletions reach the server. Resource versions identify versions, and what is stored is what was sent, up
  to the defaults of the schema and the fields that are the server's. Users and Karpenter
  change objects at any time, but leave the operator's finalizer in place and do not create
  EC2NodeClasses or AKSNodeClasses. For the absence of orphans they may even delete an EC2NodeClass or
  AKSNodeClass, more than they can; for the progress of deletions they only let go of one that is being
  deleted.

  \<^bold>\<open>Not modelled.\<close> Logging and events; rate limits and worker counts of the queues; what the libraries do inside the calls of \<open>Operator_Run\<close> (flag syntax,
  kubeconfigs, clients, leader election, the manager); the
  version string; generated deep copies; the schemas of
  the status types, the fields of the provider's schemas that the operator never sets, and the rule that a
  spec has a property; the lexing of JSON text (documents are syntax
  trees); the floating point rounding of the fraction of a duration (scaled exactly here); tests.

  \<^bold>\<open>Open.\<close> The schemas of the status types, which the operator only copies into; and the
  interleaving of the NodeClass controllers with the deletion controller, which is stated only by the order
  of its own effects (\<open>teardown_order\<close>, \<open>hcp_released_last\<close>).
\<close>


section \<open>Readiness, end to end\<close>

text \<open>C10: no NodeClass is reported ready with an unresolved version. Every status patch that the EC2 or
  the Azure NodeClass controller issues, in any run and whatever the provider reports, satisfies the
  readiness gate: Ready is true in it only if VersionResolved is.\<close>

theorem ready_gate_end_to_end:
  "(\<forall>tr y tgt lock old new x.
      runs (ec2_Reconcile now namespace ns n) tr y \<longrightarrow>
      (PatchStatus tgt lock (OOpenshiftEC2NodeClass old) (OOpenshiftEC2NodeClass new), x) \<in> set tr \<longrightarrow>
      ready_gated (ost_Conditions (onc_Status new))) \<and>
   (\<forall>tr y tgt lock old new x.
      runs (azure_Reconcile now namespace ns n) tr y \<longrightarrow>
      (PatchStatus tgt lock (OOpenShiftAzureNodeClass old) (OOpenShiftAzureNodeClass new), x) \<in> set tr \<longrightarrow>
      ready_gated (ast_Conditions (anc_Status new)))"
proof (intro conjI allI impI)
  fix tr y tgt lock old new x
  assume r: "runs (ec2_Reconcile now namespace ns n) tr y"
    and "(PatchStatus tgt lock (OOpenshiftEC2NodeClass old) (OOpenshiftEC2NodeClass new), x) \<in> set tr"
  then obtain t u where
    "tr = t @ (PatchStatus tgt lock (OOpenshiftEC2NodeClass old) (OOpenshiftEC2NodeClass new), x) # u"
    by (meson split_list)
  from ec2_run_guard [OF r this] show "ready_gated (ost_Conditions (onc_Status new))"
    by (simp add: ec2_guard_status_def)
next
  fix tr y tgt lock old new x
  assume r: "runs (azure_Reconcile now namespace ns n) tr y"
    and "(PatchStatus tgt lock (OOpenShiftAzureNodeClass old) (OOpenShiftAzureNodeClass new), x) \<in> set tr"
  then obtain t u where
    "tr = t @ (PatchStatus tgt lock (OOpenShiftAzureNodeClass old) (OOpenShiftAzureNodeClass new), x) # u"
    by (meson split_list)
  from azure_run_guard [OF r this] show "ready_gated (ast_Conditions (anc_Status new))"
    by (auto simp: azure_guard_def)
qed

text \<open>A run that creates the AKSNodeClass and reports that the version is not resolved.\<close>

abbreviation unresolved_status :: req where
  "unresolved_status \<equiv> PatchStatus Hosted True (OOpenShiftAzureNodeClass (azure_example None))
     (OOpenShiftAzureNodeClass ((azure_example None)\<lparr>anc_Status := (anc_Status (azure_example None))
       \<lparr>ast_Conditions := SyncConditions 0 [] [] 0\<rparr>\<rparr>))"

lemma runs_azure_status:
  assumes m: "aks_mutate (azure_example None) (new_hcp ''ns'' ''h'') azure_secret (new_aks_nodeclass ''n'') = Inr b"
    and kb: "res_key AKSNodeClasses b = ([], ''n'')" and c: "aks_Conditions b = []"
  shows "runs (azure_Reconcile 0 ''ns'' [] ''n'')
     (azure_creation_prefix @ [(Create Hosted (OAKSNodeClass b), RObj (OAKSNodeClass b)),
        (unresolved_status, RErr Conflict [])])
     (Inl (EWrap ''updating status: '' (EApi Conflict []) []))"
proof -
  have k: "res_key AKSNodeClasses (new_aks_nodeclass ''n'') = ([], ''n'')"
    by (simp add: res_key_def new_aks_nodeclass_def)
  have ne: "SyncConditions 0 [] [] 0 \<noteq> []"
    by (simp add: SyncConditions_def sync_loop_def)
  have g: "md_Generation (new_meta [] ''n'') = 0"
    "ast_Conditions (anc_Status (new_openshift_azure_nodeclass ''n'')) = []"
    by (simp_all add: new_openshift_azure_nodeclass_def new_meta_def)
  show ?thesis
    using ne
    by (simp add: azure_Reconcile_def GetHostedControlPlane_def GetUserDataSecret_def call_defs
        azure_ensureFinalizer_def azure_reconcileNormal_def reconcileAKSNodeClass_def CreateOrUpdate_def
        k mutate_def m kb c g being_deleted_def ContainsFinalizer_def azure_secret_selected Let_def
        azure_reconcileStatus_def)
qed

lemma ready_gate_end_to_end_witness:
  "ready_gated (ast_Conditions (anc_Status ((azure_example None)\<lparr>anc_Status := (anc_Status (azure_example None))
     \<lparr>ast_Conditions := SyncConditions 0 [] [] 0\<rparr>\<rparr>)))"
proof -
  obtain b where b: "aks_mutate (azure_example None) (new_hcp ''ns'' ''h'') azure_secret (new_aks_nodeclass ''n'') = Inr b"
    "res_key AKSNodeClasses b = ([], ''n'')" "aks_Conditions b = []"
    using azure_example_mutate by blast
  have "(unresolved_status, RErr Conflict []) \<in> set (azure_creation_prefix @
      [(Create Hosted (OAKSNodeClass b), RObj (OAKSNodeClass b)), (unresolved_status, RErr Conflict [])])"
    by simp
  with ready_gate_end_to_end runs_azure_status [OF b] show ?thesis by blast
qed


section \<open>The default NodeClass and its EC2NodeClass\<close>

text \<open>The conversions read only their own fields.\<close>

lemma conversions_of_selection:
  fixes spec :: openshift_ec2_spec
  assumes "spec' = spec\<lparr>os_SubnetSelectorTerms := subnets, os_SecurityGroupSelectorTerms := groups\<rparr>"
  shows "karpenterBlockDeviceMappingFromNodeClassSpec spec' = karpenterBlockDeviceMappingFromNodeClassSpec spec"
    "karpenterAssociatePublicIPAddressFromNodeClassSpec spec' = karpenterAssociatePublicIPAddressFromNodeClassSpec spec"
    "karpenterDetailedMonitoringFromNodeClassSpec spec' = karpenterDetailedMonitoringFromNodeClassSpec spec"
    "karpenterInstanceStorePolicyFromNodeClassSpec spec' = karpenterInstanceStorePolicyFromNodeClassSpec spec"
    "karpenterMetadataOptionsFromNodeClassSpec spec' = karpenterMetadataOptionsFromNodeClassSpec spec"
    "karpenterCapacityReservationSelectorTermsFromNodeClassSpec spec' = karpenterCapacityReservationSelectorTermsFromNodeClassSpec spec"
    "karpenterKubeletConfigurationFromNodeClassSpec spec' = karpenterKubeletConfigurationFromNodeClassSpec spec"
  unfolding assms
  by (simp_all add: karpenterBlockDeviceMappingFromNodeClassSpec_def karpenterAssociatePublicIPAddressFromNodeClassSpec_def
      karpenterDetailedMonitoringFromNodeClassSpec_def karpenterInstanceStorePolicyFromNodeClassSpec_def
      karpenterMetadataOptionsFromNodeClassSpec_def karpenterCapacityReservationSelectorTermsFromNodeClassSpec_def
      karpenterKubeletConfigurationFromNodeClassSpec_def)

text \<open>The default NodeClass selects what an empty one would. The EC2NodeClass computed from the
  default NodeClass of a cluster is the one computed from a NodeClass with an empty spec, so the default
  subnets and security groups are stated once for both controllers.\<close>

theorem default_nodeclass_selects_the_default:
  assumes "aws_default_mutate (hcp_InfraID hcp) nc = Inr b"
  shows "desired_ec2_spec userData amis b hcp =
     desired_ec2_spec userData amis (b\<lparr>onc_Spec := zero_openshift_ec2_spec\<rparr>) hcp"
proof -
  have b: "onc_Spec b = zero_openshift_ec2_spec
      \<lparr>os_SubnetSelectorTerms := Some [\<lparr>sst_Tags = DefaultSubnetSelectorTags (hcp_InfraID hcp), sst_ID = []\<rparr>],
       os_SecurityGroupSelectorTerms := Some
         [\<lparr>sgst_Tags = DefaultSecurityGroupSelectorTags (hcp_InfraID hcp), sgst_ID = [], sgst_Name = []\<rparr>]\<rparr>"
    using assms by (auto simp: aws_default_mutate_def)
  have "os_SubnetSelectorTerms zero_openshift_ec2_spec = None" "os_SecurityGroupSelectorTerms zero_openshift_ec2_spec = None"
    by (simp_all add: zero_openshift_ec2_spec_def)
  then show ?thesis
    by (simp add: desired_ec2_spec_def Let_def b conversions_of_selection)
qed

lemma default_nodeclass_selects_the_default_witness:
  "desired_ec2_spec None [] aws_default_example karpenter_hcp =
   desired_ec2_spec None [] (aws_default_example\<lparr>onc_Spec := zero_openshift_ec2_spec\<rparr>) karpenter_hcp"
  by (rule default_nodeclass_selects_the_default [OF default_example_simps(1)])

end
